(* ===== verification/Prelude.thy ===== *)
theory Prelude
  imports Main "HOL-Library.Sublist"
begin

text \<open>
  Shared vocabulary of the development: lemma collections, generic facts on lists, and the
  world-passing action type in which the effectful Go code is written.

  A Go function that returns \<open>(T, error)\<close> and touches the machine is an action
  \<open>'w \<Rightarrow> ((goerr + 'a) \<times> 'w) option\<close>: \<open>None\<close> is "does not return", \<open>Inl\<close> the
  error return, \<open>Inr\<close> the value. The statement
  \<open>if err := f(); err != nil { return err }\<close> is \<open>bindE\<close>; \<open>errors.Wrap\<close> around it is
  \<open>wrapE\<close>. \<open>valid\<close> is the partial-correctness triple over such actions,
  \<open>returns\<close> says that an action comes back, and \<open>wp\<close> collects the triple rules.
\<close>

named_theorems io_simps "unfolding rules of the action combinators"
named_theorems wp "rules of the triple calculus"
named_theorems go_simps "evaluation rules of the string library"

type_synonym path = string
type_synonym bytes = string

section \<open>Errors\<close>

text \<open>
  Go error values, by what the program can observe of them: a plain message, an error whose
  kind is \<open>fs.ErrNotExist\<close>, a wrapped error (\<open>%w\<close> or \<open>errors.Wrap\<close>), the aggregate
  \<open>errors.Join\<close> builds, the two wrappers of \<open>internal/validation/error.go\<close>, and an
  error of a named Go type with an optional cause (the certificate and NTP errors).
\<close>

datatype goerr =
    ErrMsg string
  | ErrNotExist string
  | ErrWrap string goerr
  | ErrJoin "goerr list"
  | RemediableError goerr string
  | WarningError goerr string
  | TypedError string string "goerr option"

text \<open>
  \<open>errors.Is(err, fs.ErrNotExist)\<close> follows wrapped and joined errors. The two validation
  wrappers embed the \<open>error\<close> interface without an \<open>Unwrap\<close> method, so the chain ends there.
\<close>

fun errors_Is_NotExist :: "goerr \<Rightarrow> bool" where
  "errors_Is_NotExist (ErrMsg m) = False"
| "errors_Is_NotExist (ErrNotExist m) = True"
| "errors_Is_NotExist (ErrWrap m e) = errors_Is_NotExist e"
| "errors_Is_NotExist (ErrJoin es) = list_ex errors_Is_NotExist es"
| "errors_Is_NotExist (RemediableError e r) = False"
| "errors_Is_NotExist (WarningError e r) = False"
| "errors_Is_NotExist (TypedError n m None) = False"
| "errors_Is_NotExist (TypedError n m (Some e)) = errors_Is_NotExist e"

text \<open>\<open>os.IsNotExist\<close> looks at the error itself and does not follow wrapped errors.\<close>

definition os_IsNotExist :: "goerr \<Rightarrow> bool" where
  "os_IsNotExist e = (case e of ErrNotExist _ \<Rightarrow> True | _ \<Rightarrow> False)"

text \<open>\<open>errors.Join\<close> with the nil errors already dropped: nil for the empty list.\<close>

definition errors_Join :: "goerr list \<Rightarrow> goerr option" where
  "errors_Join es = (if es = [] then None else Some (ErrJoin es))"

section \<open>Actions\<close>

type_synonym ('w, 'a) io = "'w \<Rightarrow> ((goerr + 'a) \<times> 'w) option"

definition returnE :: "'a \<Rightarrow> ('w, 'a) io" where
  "returnE x = (\<lambda>w. Some (Inr x, w))"

definition throwE :: "goerr \<Rightarrow> ('w, 'a) io" where
  "throwE e = (\<lambda>w. Some (Inl e, w))"

definition bindE :: "('w, 'a) io \<Rightarrow> ('a \<Rightarrow> ('w, 'b) io) \<Rightarrow> ('w, 'b) io" where
  "bindE m k = (\<lambda>w. case m w of
      None \<Rightarrow> None
    | Some (Inl e, w') \<Rightarrow> Some (Inl e, w')
    | Some (Inr x, w') \<Rightarrow> k x w')"

definition thenE :: "('w, 'a) io \<Rightarrow> ('w, 'b) io \<Rightarrow> ('w, 'b) io" where
  "thenE m k = bindE m (\<lambda>_. k)"

definition mapErrE :: "(goerr \<Rightarrow> goerr) \<Rightarrow> ('w, 'a) io \<Rightarrow> ('w, 'a) io" where
  "mapErrE f m = (\<lambda>w. case m w of
      None \<Rightarrow> None
    | Some (Inl e, w') \<Rightarrow> Some (Inl (f e), w')
    | Some (Inr x, w') \<Rightarrow> Some (Inr x, w'))"

definition wrapE :: "string \<Rightarrow> ('w, 'a) io \<Rightarrow> ('w, 'a) io" where
  "wrapE msg m = mapErrE (ErrWrap msg) m"

text \<open>The outcome of an action as a value, for code that looks at \<open>err\<close> and goes on.\<close>

definition tryE :: "('w, 'a) io \<Rightarrow> ('w, goerr + 'a) io" where
  "tryE m = (\<lambda>w. case m w of None \<Rightarrow> None | Some (r, w') \<Rightarrow> Some (Inr r, w'))"

definition whenE :: "bool \<Rightarrow> ('w, unit) io \<Rightarrow> ('w, unit) io" where
  "whenE b m = (if b then m else returnE ())"

definition getE :: "('w \<Rightarrow> 'a) \<Rightarrow> ('w, 'a) io" where
  "getE f = (\<lambda>w. Some (Inr (f w), w))"

definition modifyE :: "('w \<Rightarrow> 'w) \<Rightarrow> ('w, unit) io" where
  "modifyE f = (\<lambda>w. Some (Inr (), f w))"

definition liftE :: "goerr + 'a \<Rightarrow> ('w, 'a) io" where
  "liftE r = (\<lambda>w. Some (r, w))"

text \<open>A \<open>for range\<close> loop whose body returns on the first error.\<close>

fun forE :: "'a list \<Rightarrow> ('a \<Rightarrow> ('w, unit) io) \<Rightarrow> ('w, unit) io" where
  "forE [] f = returnE ()"
| "forE (x # xs) f = thenE (f x) (forE xs f)"

lemmas io_defs [io_simps] =
  returnE_def throwE_def bindE_def thenE_def mapErrE_def wrapE_def tryE_def whenE_def
  getE_def modifyE_def liftE_def

section \<open>Triples\<close>

definition valid ::
  "('w \<Rightarrow> bool) \<Rightarrow> ('w, 'a) io \<Rightarrow> ('a \<Rightarrow> 'w \<Rightarrow> bool) \<Rightarrow> (goerr \<Rightarrow> 'w \<Rightarrow> bool) \<Rightarrow> bool" where
  "valid P m Q R \<longleftrightarrow>
     (\<forall>w r w'. P w \<longrightarrow> m w = Some (r, w') \<longrightarrow> (case r of Inl e \<Rightarrow> R e w' | Inr x \<Rightarrow> Q x w'))"

text \<open>Only the successful outcome matters: the form most component contracts take.\<close>

abbreviation valid_ok ::
  "('w \<Rightarrow> bool) \<Rightarrow> ('w, 'a) io \<Rightarrow> ('a \<Rightarrow> 'w \<Rightarrow> bool) \<Rightarrow> bool" where
  "valid_ok P m Q \<equiv> valid P m Q (\<lambda>_ _. True)"

abbreviation preserves :: "('w \<Rightarrow> bool) \<Rightarrow> ('w, 'a) io \<Rightarrow> bool" where
  "preserves I m \<equiv> valid I m (\<lambda>_. I) (\<lambda>_. I)"

definition returns :: "('w, 'a) io \<Rightarrow> bool" where
  "returns m \<longleftrightarrow> (\<forall>w. m w \<noteq> None)"

lemma validI:
  assumes "\<And>w x w'. P w \<Longrightarrow> m w = Some (Inr x, w') \<Longrightarrow> Q x w'"
    and "\<And>w e w'. P w \<Longrightarrow> m w = Some (Inl e, w') \<Longrightarrow> R e w'"
  shows "valid P m Q R"
  using assms by (auto simp: valid_def split: sum.splits)

lemma valid_okD: "valid P m Q R \<Longrightarrow> P w \<Longrightarrow> m w = Some (Inr x, w') \<Longrightarrow> Q x w'"
  by (force simp: valid_def)

lemma valid_errD: "valid P m Q R \<Longrightarrow> P w \<Longrightarrow> m w = Some (Inl e, w') \<Longrightarrow> R e w'"
  by (force simp: valid_def)

lemma valid_conseq:
  assumes "valid P m Q R" and "\<And>w. P' w \<Longrightarrow> P w"
    and "\<And>x w. Q x w \<Longrightarrow> Q' x w" and "\<And>e w. R e w \<Longrightarrow> R' e w"
  shows "valid P' m Q' R'"
  using assms by (fastforce simp: valid_def split: sum.splits)

lemma valid_pre: "valid P m Q R \<Longrightarrow> (\<And>w. P' w \<Longrightarrow> P w) \<Longrightarrow> valid P' m Q R"
  by (rule valid_conseq)

lemma valid_post: "valid P m Q R \<Longrightarrow> (\<And>x w. Q x w \<Longrightarrow> Q' x w) \<Longrightarrow> (\<And>e w. R e w \<Longrightarrow> R' e w) \<Longrightarrow> valid P m Q' R'"
  by (rule valid_conseq)

lemma valid_conj:
  "valid P m Q R \<Longrightarrow> valid P' m Q' R' \<Longrightarrow>
     valid (\<lambda>w. P w \<and> P' w) m (\<lambda>x w. Q x w \<and> Q' x w) (\<lambda>e w. R e w \<and> R' e w)"
  by (fastforce simp: valid_def split: sum.splits)

lemma valid_returnE [wp]: "valid (Q x) (returnE x) Q R"
  by (simp add: valid_def returnE_def)

lemma valid_throwE [wp]: "valid (R e) (throwE e) Q R"
  by (simp add: valid_def throwE_def)

lemma valid_bindE [wp]:
  assumes "valid P m B R" and "\<And>x. valid (B x) (k x) Q R"
  shows "valid P (bindE m k) Q R"
  unfolding valid_def
proof (intro allI impI)
  fix w r w' assume P: "P w" and run: "bindE m k w = Some (r, w')"
  show "case r of Inl e \<Rightarrow> R e w' | Inr x \<Rightarrow> Q x w'"
  proof (cases "m w")
    case None
    with run show ?thesis by (simp add: bindE_def)
  next
    case (Some p)
    obtain s w1 where p: "p = (s, w1)" by (cases p)
    show ?thesis
    proof (cases s)
      case (Inl e)
      with run Some p P assms(1) show ?thesis by (force simp: bindE_def valid_def)
    next
      case (Inr x)
      with Some p P assms(1) have "B x w1" by (force simp: valid_def)
      moreover from run Some p Inr have "k x w1 = Some (r, w')" by (simp add: bindE_def)
      ultimately show ?thesis using assms(2) [of x] by (force simp: valid_def)
    qed
  qed
qed

lemma valid_thenE [wp]:
  "valid P m (\<lambda>_. B) R \<Longrightarrow> valid B k Q R \<Longrightarrow> valid P (thenE m k) Q R"
  unfolding thenE_def by (rule valid_bindE)

lemma valid_mapErrE [wp]:
  "valid P m Q (\<lambda>e. R (f e)) \<Longrightarrow> valid P (mapErrE f m) Q R"
  by (fastforce simp: valid_def mapErrE_def split: option.splits sum.splits)

lemma valid_wrapE [wp]:
  "valid P m Q (\<lambda>e. R (ErrWrap msg e)) \<Longrightarrow> valid P (wrapE msg m) Q R"
  unfolding wrapE_def by (rule valid_mapErrE)

lemma valid_tryE [wp]:
  "valid P m (\<lambda>x. Q (Inr x)) (\<lambda>e. Q (Inl e)) \<Longrightarrow> valid P (tryE m) Q R"
proof (rule validI)
  assume v: "valid P m (\<lambda>x. Q (Inr x)) (\<lambda>e. Q (Inl e))"
  fix w x w' assume "P w" and "tryE m w = Some (Inr x, w')"
  moreover from this have "m w = Some (x, w')" by (auto simp: tryE_def split: option.splits)
  ultimately show "Q x w'" using v by (cases x) (auto dest: valid_okD valid_errD)
next
  fix w e w' assume "tryE m w = Some (Inl e, w')"
  then show "R e w'" by (auto simp: tryE_def split: option.splits)
qed

lemma valid_whenE [wp]:
  "(b \<Longrightarrow> valid P m Q R) \<Longrightarrow> (\<not> b \<Longrightarrow> valid P' (returnE ()) Q R) \<Longrightarrow>
     valid (\<lambda>w. if b then P w else P' w) (whenE b m) Q R"
  by (cases b) (simp_all add: whenE_def)

lemma valid_getE [wp]: "valid (\<lambda>w. Q (f w) w) (getE f) Q R"
  by (simp add: valid_def getE_def)

lemma valid_modifyE [wp]: "valid (\<lambda>w. Q () (f w)) (modifyE f) Q R"
  by (simp add: valid_def modifyE_def)

lemma valid_liftE [wp]:
  "valid (\<lambda>w. case r of Inl e \<Rightarrow> R e w | Inr x \<Rightarrow> Q x w) (liftE r) Q R"
  by (simp add: valid_def liftE_def)

lemma valid_forE:
  "(\<And>x. x \<in> set xs \<Longrightarrow> valid I (f x) (\<lambda>_. I) R) \<Longrightarrow> valid I (forE xs f) (\<lambda>_. I) R"
proof (induction xs)
  case Nil
  show ?case by (simp add: valid_def returnE_def)
next
  case (Cons x xs)
  then have "valid I (f x) (\<lambda>_. I) R" and "valid I (forE xs f) (\<lambda>_. I) R" by auto
  then show ?case by (auto intro: valid_thenE)
qed

lemma preserves_returnE: "preserves I (returnE x)"
  by (simp add: valid_def returnE_def)

lemma preserves_throwE: "preserves I (throwE e)"
  by (simp add: valid_def throwE_def)

lemma preserves_bindE: "preserves I m \<Longrightarrow> (\<And>x. preserves I (k x)) \<Longrightarrow> preserves I (bindE m k)"
  by (rule valid_bindE)

lemma preserves_thenE: "preserves I m \<Longrightarrow> preserves I k \<Longrightarrow> preserves I (thenE m k)"
  by (rule valid_thenE)

lemma preserves_wrapE: "preserves I m \<Longrightarrow> preserves I (wrapE msg m)"
  by (rule valid_wrapE)

lemma preserves_mapErrE: "preserves I m \<Longrightarrow> preserves I (mapErrE f m)"
  by (rule valid_mapErrE)

lemma preserves_tryE: "preserves I m \<Longrightarrow> preserves I (tryE m)"
  by (rule valid_tryE)

lemma preserves_whenE: "(b \<Longrightarrow> preserves I m) \<Longrightarrow> preserves I (whenE b m)"
  by (cases b) (simp_all add: whenE_def preserves_returnE)

lemma preserves_getE: "preserves I (getE f)"
  by (simp add: valid_def getE_def)

lemma preserves_liftE: "preserves I (liftE r)"
  by (simp add: valid_def liftE_def split: sum.splits)

lemmas preserves_intros =
  preserves_returnE preserves_throwE preserves_bindE preserves_thenE preserves_wrapE
  preserves_mapErrE preserves_tryE preserves_whenE preserves_getE preserves_liftE valid_forE

section \<open>Actions that return\<close>

lemma returnsI: "(\<And>w. \<exists>r w'. m w = Some (r, w')) \<Longrightarrow> returns m"
  by (force simp: returns_def)

lemma returns_returnE: "returns (returnE x)"
  by (simp add: returns_def returnE_def)

lemma returns_throwE: "returns (throwE e)"
  by (simp add: returns_def throwE_def)

lemma returns_bindE: "returns m \<Longrightarrow> (\<And>x. returns (k x)) \<Longrightarrow> returns (bindE m k)"
  by (fastforce simp: returns_def bindE_def split: option.splits sum.splits)

lemma returns_thenE: "returns m \<Longrightarrow> returns k \<Longrightarrow> returns (thenE m k)"
  unfolding thenE_def by (rule returns_bindE)

lemma returns_mapErrE: "returns m \<Longrightarrow> returns (mapErrE f m)"
  by (fastforce simp: returns_def mapErrE_def split: option.splits sum.splits)

lemma returns_wrapE: "returns m \<Longrightarrow> returns (wrapE msg m)"
  unfolding wrapE_def by (rule returns_mapErrE)

lemma returns_tryE: "returns m \<Longrightarrow> returns (tryE m)"
  by (fastforce simp: returns_def tryE_def split: option.splits)

lemma returns_whenE: "(b \<Longrightarrow> returns m) \<Longrightarrow> returns (whenE b m)"
  by (simp add: whenE_def returns_returnE)

lemma returns_getE: "returns (getE f)"
  by (simp add: returns_def getE_def)

lemma returns_modifyE: "returns (modifyE f)"
  by (simp add: returns_def modifyE_def)

lemma returns_liftE: "returns (liftE r)"
  by (simp add: returns_def liftE_def)

lemma returns_forE: "(\<And>x. x \<in> set xs \<Longrightarrow> returns (f x)) \<Longrightarrow> returns (forE xs f)"
  by (induction xs) (auto intro: returns_thenE returns_returnE)

lemmas returns_intros =
  returns_returnE returns_throwE returns_bindE returns_thenE returns_mapErrE returns_wrapE
  returns_tryE returns_whenE returns_getE returns_modifyE returns_liftE returns_forE

section \<open>Running a chain\<close>

lemma bindE_okE:
  assumes "bindE m k w = Some (Inr y, w')"
  obtains x w1 where "m w = Some (Inr x, w1)" and "k x w1 = Some (Inr y, w')"
  using assms by (auto simp: bindE_def split: option.splits sum.splits)

lemma thenE_okE:
  assumes "thenE m k w = Some (Inr y, w')"
  obtains x w1 where "m w = Some (Inr x, w1)" and "k w1 = Some (Inr y, w')"
  using assms unfolding thenE_def by (rule bindE_okE)

lemma wrapE_ok_iff [simp]: "wrapE msg m w = Some (Inr x, w') \<longleftrightarrow> m w = Some (Inr x, w')"
  by (auto simp: wrapE_def mapErrE_def split: option.splits sum.splits)

lemma mapErrE_ok_iff [simp]: "mapErrE f m w = Some (Inr x, w') \<longleftrightarrow> m w = Some (Inr x, w')"
  by (auto simp: mapErrE_def split: option.splits sum.splits)

lemma returnE_run [simp]: "returnE x w = Some (r, w') \<longleftrightarrow> r = Inr x \<and> w' = w"
  by (auto simp: returnE_def)

lemma throwE_run [simp]: "throwE e w = Some (r, w') \<longleftrightarrow> r = Inl e \<and> w' = w"
  by (auto simp: throwE_def)

lemma liftE_run [simp]: "liftE s w = Some (r, w') \<longleftrightarrow> r = s \<and> w' = w"
  by (auto simp: liftE_def)

lemma getE_run [simp]: "getE f w = Some (r, w') \<longleftrightarrow> r = Inr (f w) \<and> w' = w"
  by (auto simp: getE_def)

lemma modifyE_run [simp]: "modifyE f w = Some (r, w') \<longleftrightarrow> r = Inr () \<and> w' = f w"
  by (auto simp: modifyE_def)

lemma thenE_assoc: "thenE (thenE a b) c = thenE a (thenE b c)"
  by (auto simp: thenE_def bindE_def fun_eq_iff split: option.splits sum.splits)

lemma forE_each: "forE xs f w = Some (Inr (), w') \<Longrightarrow> x \<in> set xs \<Longrightarrow> \<exists>a b. f x a = Some (Inr (), b)"
proof (induction xs arbitrary: w)
  case (Cons y ys)
  obtain u w1 where 1: "f y w = Some (Inr u, w1)" "forE ys f w1 = Some (Inr (), w')"
    using Cons.prems(1) unfolding forE.simps by (rule thenE_okE)
  show ?case
  proof (cases "x = y")
    case True
    with 1(1) show ?thesis by (intro exI) simp
  next
    case False
    with Cons.prems(2) have "x \<in> set ys" by simp
    from Cons.IH [OF 1(2) this] show ?thesis .
  qed
qed simp

lemma forE_append: "forE (xs @ ys) f = thenE (forE xs f) (forE ys f)"
proof (induction xs)
  case Nil
  show ?case by (auto simp: io_simps fun_eq_iff)
next
  case (Cons x xs)
  have "thenE (f x) (thenE (forE xs f) (forE ys f)) = thenE (thenE (f x) (forE xs f)) (forE ys f)"
    by (auto simp: thenE_def bindE_def fun_eq_iff split: option.splits sum.splits)
  with Cons show ?case by simp
qed

section \<open>Success with an invariant\<close>

text \<open>Total correctness: from a state with \<open>I\<close> the action returns a value, and \<open>I\<close> holds again.\<close>

definition succeeds :: "('w \<Rightarrow> bool) \<Rightarrow> ('w, 'a) io \<Rightarrow> bool" where
  "succeeds I m \<longleftrightarrow> (\<forall>w. I w \<longrightarrow> (\<exists>x w'. m w = Some (Inr x, w') \<and> I w'))"

lemma succeedsI: "(\<And>w. I w \<Longrightarrow> \<exists>x w'. m w = Some (Inr x, w') \<and> I w') \<Longrightarrow> succeeds I m"
  by (simp add: succeeds_def)

lemma succeedsE:
  assumes "succeeds I m" and "I w"
  obtains x w' where "m w = Some (Inr x, w')" and "I w'"
  using assms unfolding succeeds_def by blast

lemma succeeds_returnE: "succeeds I (returnE x)"
  by (simp add: succeeds_def returnE_def)

lemma succeeds_bindE:
  assumes "succeeds I m" and "\<And>x. succeeds I (k x)"
  shows "succeeds I (bindE m k)"
proof (rule succeedsI)
  fix w assume w: "I w"
  obtain x w1 where 1: "m w = Some (Inr x, w1)" "I w1" using assms(1) w by (rule succeedsE)
  obtain y w2 where "k x w1 = Some (Inr y, w2)" "I w2" using assms(2) 1(2) by (rule succeedsE)
  then show "\<exists>x w'. bindE m k w = Some (Inr x, w') \<and> I w'" using 1 by (simp add: bindE_def)
qed

lemma succeeds_thenE: "succeeds I m \<Longrightarrow> succeeds I k \<Longrightarrow> succeeds I (thenE m k)"
  unfolding thenE_def by (rule succeeds_bindE)

lemma succeeds_wrapE: "succeeds I m \<Longrightarrow> succeeds I (wrapE msg m)"
  unfolding succeeds_def wrapE_def mapErrE_def by fastforce

lemma succeeds_mapErrE: "succeeds I m \<Longrightarrow> succeeds I (mapErrE f m)"
  unfolding succeeds_def mapErrE_def by fastforce

lemma succeeds_tryE: "succeeds I m \<Longrightarrow> succeeds I (tryE m)"
  unfolding succeeds_def tryE_def by fastforce

lemma succeeds_liftE: "succeeds I (liftE (Inr x))"
  by (simp add: succeeds_def liftE_def)

lemmas succeeds_intros = succeeds_returnE succeeds_thenE succeeds_wrapE succeeds_mapErrE succeeds_liftE

lemma thenE_after: "m w = Some (Inr x, w1) \<Longrightarrow> thenE m k w = k w1"
  by (simp add: thenE_def bindE_def)

lemma thenE_unit: "thenE m (returnE ()) = m"
  by (rule ext) (simp add: thenE_def bindE_def returnE_def split: option.splits sum.splits prod.splits)

end
