(* ===== verification/Go_Strings.thy ===== *)
theory Go_Strings
  imports Prelude
begin

text \<open>
  The parts of the Go standard library that the program computes with: \<open>strings\<close>
  (HasPrefix, TrimPrefix, Contains, Split, Join, Cut, Fields, TrimSpace), \<open>strconv\<close>
  (Atoi, ParseUint, decimal printing), \<open>encoding/hex\<close>, and \<open>path\<close>/\<open>filepath\<close>
  (Clean, Join, Dir, Base). A Go string is its list of bytes. White space is the ASCII white
  space; the two multi-byte code points Go also trims do not occur in the files the program reads.
\<close>

section \<open>Definitions\<close>

definition HasPrefix :: "string \<Rightarrow> string \<Rightarrow> bool" where
  "HasPrefix s p = prefix p s"

definition HasSuffix :: "string \<Rightarrow> string \<Rightarrow> bool" where
  "HasSuffix s p = suffix p s"

definition TrimPrefix :: "string \<Rightarrow> string \<Rightarrow> string" where
  "TrimPrefix s p = (if HasPrefix s p then drop (length p) s else s)"

text \<open>\<open>strings.CutPrefix\<close>: the remainder and whether the prefix was there.\<close>

definition CutPrefix :: "string \<Rightarrow> string \<Rightarrow> string \<times> bool" where
  "CutPrefix s p = (if HasPrefix s p then (drop (length p) s, True) else (s, False))"

fun Contains :: "string \<Rightarrow> string \<Rightarrow> bool" where
  "Contains [] sub = (sub = [])"
| "Contains (c # cs) sub = (prefix sub (c # cs) \<or> Contains cs sub)"

text \<open>\<open>strings.Split\<close> at a one-byte separator.\<close>

fun split_on :: "char \<Rightarrow> string \<Rightarrow> string list" where
  "split_on c [] = [[]]"
| "split_on c (x # xs) =
     (if x = c then [] # split_on c xs
      else (case split_on c xs of [] \<Rightarrow> [[x]] | y # ys \<Rightarrow> (x # y) # ys))"

fun join_with :: "string \<Rightarrow> string list \<Rightarrow> string" where
  "join_with sep [] = []"
| "join_with sep [x] = x"
| "join_with sep (x # y # ys) = x @ sep @ join_with sep (y # ys)"

text \<open>\<open>strings.Cut\<close> at a one-byte separator: before, after, found.\<close>

definition cut_at :: "char \<Rightarrow> string \<Rightarrow> string \<times> string \<times> bool" where
  "cut_at c s =
     (if c \<in> set s then (takeWhile (\<lambda>x. x \<noteq> c) s, tl (dropWhile (\<lambda>x. x \<noteq> c) s), True)
      else (s, [], False))"

definition ReplaceAll_char :: "string \<Rightarrow> char \<Rightarrow> string" where
  "ReplaceAll_char s c = filter (\<lambda>x. x \<noteq> c) s"

definition Count_char :: "string \<Rightarrow> char \<Rightarrow> nat" where
  "Count_char s c = length (filter (\<lambda>x. x = c) s)"

definition newline :: char where
  "newline = CHR 0x0A"

definition is_space :: "char \<Rightarrow> bool" where
  "is_space c = (c \<in> set [CHR 0x09, CHR 0x0A, CHR 0x0B, CHR 0x0C, CHR 0x0D, CHR 0x20])"

definition TrimSpace :: "string \<Rightarrow> string" where
  "TrimSpace s = rev (dropWhile is_space (rev (dropWhile is_space s)))"

fun split_space :: "string \<Rightarrow> string list" where
  "split_space [] = [[]]"
| "split_space (x # xs) =
     (if is_space x then [] # split_space xs
      else (case split_space xs of [] \<Rightarrow> [[x]] | y # ys \<Rightarrow> (x # y) # ys))"

definition Fields :: "string \<Rightarrow> string list" where
  "Fields s = filter (\<lambda>w. w \<noteq> []) (split_space s)"

text \<open>\<open>bufio.Scanner\<close> with the default split: lines without their end of line, a trailing
  carriage return dropped, and no empty last line.\<close>

definition drop_cr :: "string \<Rightarrow> string" where
  "drop_cr l = (if l \<noteq> [] \<and> last l = CHR 0x0D then butlast l else l)"

definition scan_lines :: "string \<Rightarrow> string list" where
  "scan_lines s =
     (let ls = split_on newline s in map drop_cr (if last ls = [] then butlast ls else ls))"

text \<open>What the default scanner delivers: it stops, with \<open>ErrTooLong\<close>, at a line that does not fit its buffer of 64 KiB.\<close>

definition fits_scanner :: "string \<Rightarrow> bool" where
  "fits_scanner l \<longleftrightarrow> int (length l) < 65536"

definition Scanner_lines :: "string \<Rightarrow> string list" where
  "Scanner_lines s =
     (let ls = split_on newline s in map drop_cr (takeWhile fits_scanner (if last ls = [] then butlast ls else ls)))"

definition Scanner_too_long :: "string \<Rightarrow> bool" where
  "Scanner_too_long s \<longleftrightarrow> \<not> list_all fits_scanner (split_on newline s)"

subsection \<open>Numbers\<close>

definition is_digit :: "char \<Rightarrow> bool" where
  "is_digit c = (48 \<le> (of_char c :: nat) \<and> (of_char c :: nat) \<le> 57)"

definition digit_val :: "char \<Rightarrow> nat" where
  "digit_val c = of_char c - 48"

definition digit_char :: "nat \<Rightarrow> char" where
  "digit_char n = char_of (48 + n)"

fun dec_digits :: "nat \<Rightarrow> string" where
  "dec_digits n = (if n < 10 then [digit_char n] else dec_digits (n div 10) @ [digit_char (n mod 10)])"

definition itoa :: "int \<Rightarrow> string" where
  "itoa i = (if i < 0 then CHR ''-'' # dec_digits (nat (- i)) else dec_digits (nat i))"

definition dec_val :: "string \<Rightarrow> nat" where
  "dec_val s = foldl (\<lambda>a c. 10 * a + digit_val c) 0 s"

definition parse_dec :: "string \<Rightarrow> nat option" where
  "parse_dec s = (if s \<noteq> [] \<and> list_all is_digit s then Some (dec_val s) else None)"

definition ParseUint :: "nat \<Rightarrow> string \<Rightarrow> nat option" where
  "ParseUint bits s = (case parse_dec s of None \<Rightarrow> None | Some n \<Rightarrow> if n < 2 ^ bits then Some n else None)"

definition Atoi :: "string \<Rightarrow> int option" where
  "Atoi s =
     (let (neg, ds) = (case s of [] \<Rightarrow> (False, [])
                       | c # cs \<Rightarrow> if c = CHR ''-'' then (True, cs) else if c = CHR ''+'' then (False, cs) else (False, s))
      in case parse_dec ds of None \<Rightarrow> None
         | Some n \<Rightarrow>
             (if neg then (if n \<le> 2 ^ 63 then Some (- int n) else None)
              else (if n < 2 ^ 63 then Some (int n) else None)))"

subsection \<open>Hexadecimal\<close>

definition hex_val :: "char \<Rightarrow> nat option" where
  "hex_val c =
     (let n = (of_char c :: nat) in
      if 48 \<le> n \<and> n \<le> 57 then Some (n - 48)
      else if 97 \<le> n \<and> n \<le> 102 then Some (n - 87)
      else if 65 \<le> n \<and> n \<le> 70 then Some (n - 55)
      else None)"

fun hex_decode :: "string \<Rightarrow> bytes option" where
  "hex_decode [] = Some []"
| "hex_decode [c] = None"
| "hex_decode (a # b # s) =
     (case (hex_val a, hex_val b, hex_decode s) of
        (Some x, Some y, Some r) \<Rightarrow> Some (char_of (16 * x + y) # r)
      | _ \<Rightarrow> None)"

definition hex_digit :: "nat \<Rightarrow> char" where
  "hex_digit n = (if n < 10 then char_of (48 + n) else char_of (87 + n))"

definition hex_encode :: "bytes \<Rightarrow> string" where
  "hex_encode bs = concat (map (\<lambda>b. [hex_digit (of_char b div 16), hex_digit (of_char b mod 16)]) bs)"

subsection \<open>Paths\<close>

fun clean_comps :: "bool \<Rightarrow> string list \<Rightarrow> string list \<Rightarrow> string list" where
  "clean_comps rooted acc [] = rev acc"
| "clean_comps rooted acc (c # cs) =
     (if c = [] \<or> c = ''.'' then clean_comps rooted acc cs
      else if c = ''..'' then
        (case acc of
           [] \<Rightarrow> clean_comps rooted (if rooted then [] else [c]) cs
         | a # as \<Rightarrow> if a = ''..'' then clean_comps rooted (c # acc) cs else clean_comps rooted as cs)
      else clean_comps rooted (c # acc) cs)"

definition Clean :: "path \<Rightarrow> path" where
  "Clean p =
     (if p = [] then ''.''
      else let rooted = prefix ''/'' p; s = join_with ''/'' (clean_comps rooted [] (split_on CHR ''/'' p))
           in if rooted then CHR ''/'' # s else if s = [] then ''.'' else s)"

definition Join :: "path list \<Rightarrow> path" where
  "Join ps = (let qs = filter (\<lambda>p. p \<noteq> []) ps in if qs = [] then [] else Clean (join_with ''/'' qs))"

text \<open>\<open>path.Dir\<close> and \<open>path.Base\<close>.\<close>

definition up_to_last_slash :: "path \<Rightarrow> path" where
  "up_to_last_slash p = rev (dropWhile (\<lambda>c. c \<noteq> CHR ''/'') (rev p))"

definition Dir :: "path \<Rightarrow> path" where
  "Dir p = Clean (up_to_last_slash p)"

definition Base :: "path \<Rightarrow> path" where
  "Base p =
     (if p = [] then ''.''
      else let q = rev (dropWhile (\<lambda>c. c = CHR ''/'') (rev p))
           in if q = [] then ''/'' else last (split_on CHR ''/'' q))"

section \<open>Splitting and joining\<close>

lemma Contains_iff: "Contains s sub \<longleftrightarrow> (\<exists>u v. s = u @ sub @ v)"
proof (induction s)
  case Nil
  show ?case by auto
next
  case (Cons c cs)
  show ?case
  proof
    assume "Contains (c # cs) sub"
    then consider "prefix sub (c # cs)" | "Contains cs sub" by auto
    then show "\<exists>u v. c # cs = u @ sub @ v"
    proof cases
      case 1
      then obtain v where "c # cs = [] @ sub @ v" by (auto simp: prefix_def)
      then show ?thesis by blast
    next
      case 2
      with Cons obtain u v where "c # cs = (c # u) @ sub @ v" by auto
      then show ?thesis by blast
    qed
  next
    assume "\<exists>u v. c # cs = u @ sub @ v"
    then obtain u v where uv: "c # cs = u @ sub @ v" by blast
    show "Contains (c # cs) sub"
    proof (cases u)
      case Nil
      with uv have "prefix sub (c # cs)" by (simp add: prefix_def)
      then show ?thesis by simp
    next
      case (Cons d us)
      with uv have "cs = us @ sub @ v" by simp
      with Cons.IH show ?thesis by auto
    qed
  qed
qed

lemma split_on_not_Nil [simp]: "split_on c s \<noteq> []"
  by (induction s) (auto split: list.splits)

lemma split_on_append: "split_on c (a @ c # b) = split_on c a @ split_on c b"
  by (induction a) (auto split: list.splits simp: Cons_eq_append_conv)

lemma split_on_no_sep: "c \<notin> set s \<Longrightarrow> split_on c s = [s]"
  by (induction s) auto

lemma split_on_parts: "x \<in> set (split_on c s) \<Longrightarrow> c \<notin> set x"
  by (induction s arbitrary: x) (auto split: list.splits if_splits)

lemma join_split: "join_with [c] (split_on c s) = s"
proof (induction s)
  case Nil
  show ?case by simp
next
  case (Cons x xs)
  obtain y ys where "split_on c xs = y # ys" by (cases "split_on c xs") auto
  with Cons show ?case by (cases ys) auto
qed

lemma join_with_Cons: "xs \<noteq> [] \<Longrightarrow> join_with sep (x # xs) = x @ sep @ join_with sep xs"
  by (cases xs) auto

lemma split_join:
  "xs \<noteq> [] \<Longrightarrow> (\<And>x. x \<in> set xs \<Longrightarrow> c \<notin> set x) \<Longrightarrow> split_on c (join_with [c] xs) = xs"
proof (induction xs rule: induct_list012)
  case 1
  then show ?case by simp
next
  case (2 x)
  then show ?case by (simp add: split_on_no_sep)
next
  case (3 x y zs)
  then show ?case by (simp add: split_on_append split_on_no_sep)
qed

lemma join_with_append:
  "xs \<noteq> [] \<Longrightarrow> ys \<noteq> [] \<Longrightarrow> join_with sep (xs @ ys) = join_with sep xs @ sep @ join_with sep ys"
  by (induction xs rule: induct_list012) (auto simp: join_with_Cons)

lemma HasPrefix_append [simp]: "HasPrefix (p @ s) p"
  by (simp add: HasPrefix_def)

lemma TrimPrefix_append [simp]: "TrimPrefix (p @ s) p = s"
  by (simp add: TrimPrefix_def)

lemma HasPrefixE: "HasPrefix s p \<Longrightarrow> (\<And>r. s = p @ r \<Longrightarrow> thesis) \<Longrightarrow> thesis"
  by (auto simp: HasPrefix_def prefix_def)

lemma cut_at_append: "c \<notin> set a \<Longrightarrow> cut_at c (a @ c # b) = (a, b, True)"
  by (simp add: cut_at_def takeWhile_append dropWhile_append)

section \<open>Decimal and hexadecimal round trips\<close>

declare dec_digits.simps [simp del]

lemma digit_char_props:
  assumes "n < 10"
  shows "is_digit (digit_char n)" and "digit_val (digit_char n) = n"
  using assms by (auto simp: digit_char_def is_digit_def digit_val_def of_char_of)

lemma dec_digits_all_digits: "list_all is_digit (dec_digits n) \<and> dec_digits n \<noteq> []"
proof (induction n rule: dec_digits.induct)
  case (1 n)
  then show ?case
    by (cases "n < 10") (auto simp: dec_digits.simps [of n] digit_char_props)
qed

lemma dec_val_dec_digits: "dec_val (dec_digits n) = n"
proof (induction n rule: dec_digits.induct)
  case (1 n)
  then show ?case
    by (cases "n < 10") (auto simp: dec_digits.simps [of n] digit_char_props dec_val_def)
qed

lemma parse_dec_digits [simp]: "parse_dec (dec_digits n) = Some n"
  using dec_digits_all_digits [of n] by (simp add: parse_dec_def dec_val_dec_digits)

lemma is_digit_facts: "is_digit c \<Longrightarrow> c \<noteq> CHR ''-'' \<and> c \<noteq> CHR ''+'' \<and> c \<noteq> CHR ''.'' \<and> c \<noteq> CHR ''/''"
  by (auto simp: is_digit_def)

lemma Atoi_dec_digits: "n < 2 ^ 63 \<Longrightarrow> Atoi (dec_digits n) = Some (int n)"
proof -
  assume n: "n < 2 ^ 63"
  obtain c cs where eq: "dec_digits n = c # cs"
    using dec_digits_all_digits [of n] by (cases "dec_digits n") auto
  with dec_digits_all_digits [of n] have "c \<noteq> CHR ''-'' \<and> c \<noteq> CHR ''+''"
    using is_digit_facts by auto
  moreover from eq parse_dec_digits [of n] have "parse_dec (c # cs) = Some n" by simp
  ultimately show ?thesis using n by (simp add: Atoi_def eq)
qed

lemma hex_digit_val: "n < 16 \<Longrightarrow> hex_val (hex_digit n) = Some n"
  by (auto simp: hex_digit_def hex_val_def of_char_of Let_def)

lemma of_char_halves: "of_char (b :: char) div 16 < (16 :: nat)"
proof -
  have "(of_char b :: nat) < 256" by (rule nat_of_char_less_256)
  then show ?thesis by linarith
qed

lemma hex_decode_encode: "hex_decode (hex_encode bs) = Some bs"
proof (induction bs)
  case Nil
  show ?case by (simp add: hex_encode_def)
next
  case (Cons b bs)
  have "of_char b div 16 < (16 :: nat)" by (rule of_char_halves)
  then have "hex_val (hex_digit (of_char b div 16)) = Some (of_char b div 16)"
    and "hex_val (hex_digit (of_char b mod 16)) = Some (of_char b mod 16)"
    by (simp_all add: hex_digit_val)
  moreover from Cons.IH have "hex_decode (concat (map (\<lambda>b. [hex_digit (of_char b div 16), hex_digit (of_char b mod 16)]) bs)) = Some bs"
    by (simp add: hex_encode_def)
  ultimately show ?case by (simp add: hex_encode_def)
qed

lemma hex_digit_not_space: "n < 16 \<Longrightarrow> hex_digit n \<noteq> CHR '' ''"
proof
  assume "n < 16" and "hex_digit n = CHR '' ''"
  then have "hex_val CHR '' '' = Some n" using hex_digit_val by fastforce
  then show False by (simp add: hex_val_def)
qed

lemma hex_encode_no_space: "CHR '' '' \<notin> set (hex_encode bs)"
proof
  assume "CHR '' '' \<in> set (hex_encode bs)"
  then obtain b where "CHR '' '' = hex_digit (of_char b div 16) \<or> CHR '' '' = hex_digit (of_char b mod 16)"
    by (auto simp: hex_encode_def)
  moreover have "hex_digit (of_char b div 16) \<noteq> CHR '' ''"
    by (rule hex_digit_not_space) (rule of_char_halves)
  moreover have "hex_digit (of_char b mod 16) \<noteq> CHR '' ''"
    by (rule hex_digit_not_space) simp
  ultimately show False by metis
qed

section \<open>Cleaned paths\<close>

lemma clean_comps_plain:
  "(\<And>c. c \<in> set cs \<Longrightarrow> c \<noteq> [] \<and> c \<noteq> ''.'' \<and> c \<noteq> ''..'') \<Longrightarrow> clean_comps r acc cs = rev acc @ cs"
  by (induction cs arbitrary: acc) auto

lemma clean_comps_append_stack:
  "(\<And>c. c \<in> set cs \<Longrightarrow> c \<noteq> ''..'') \<Longrightarrow>
     clean_comps r acc cs = rev acc @ filter (\<lambda>c. c \<noteq> [] \<and> c \<noteq> ''.'') cs"
  by (induction cs arbitrary: acc) auto

lemma clean_comps_append:
  "(\<And>c. c \<in> set as \<Longrightarrow> c \<noteq> ''..'') \<Longrightarrow>
     clean_comps r acc (as @ bs) = clean_comps r (rev (filter (\<lambda>c. c \<noteq> [] \<and> c \<noteq> ''.'') as) @ acc) bs"
  by (induction as arbitrary: acc) auto

lemma Scanner_lines_all:
  assumes "\<not> Scanner_too_long s"
  shows "Scanner_lines s = scan_lines s"
proof -
  have fit: "fits_scanner l" if "l \<in> set (split_on newline s)" for l
    using assms that by (auto simp: Scanner_too_long_def list_all_iff)
  have "takeWhile fits_scanner (split_on newline s) = split_on newline s"
    and "takeWhile fits_scanner (butlast (split_on newline s)) = butlast (split_on newline s)"
    unfolding takeWhile_eq_all_conv using fit by (auto dest: in_set_butlastD)
  then show ?thesis by (simp add: Scanner_lines_def scan_lines_def Let_def del: takeWhile_eq_all_conv)
qed

lemma Scanner_lines_subset: "set (Scanner_lines s) \<subseteq> set (scan_lines s)"
  by (auto simp: Scanner_lines_def scan_lines_def Let_def dest: set_takeWhileD)

end
