(* ===== verification/World.thy ===== *)
theory World
  imports Go_Strings
begin

text \<open>
  The machine and the process that the effectful code works on.

  \<open>world\<close> holds the file system (absolute clean paths to files and directories; symbolic
  links are resolved by a parameter), the clock in nanoseconds, a counter of interactions, the
  trace of interactions with the outside (commands, systemd, HTTP, remote APIs), and the two pieces of
  process-wide mutable state that several packages share: the artifact tracker object
  (\<open>internal/tracker\<close>) and the variable \<open>ssm.SsmDaemonName\<close>.

  \<open>environment\<close> is what the program cannot control and what is not its code: faults of
  system calls, the behaviour of commands, of systemd over D-Bus and of HTTP servers, SHA-256,
  gzip and tar readers, and the YAML library. Every operation takes it as its first argument.
  A system call either fails as \<open>os_fault\<close> says for that interaction, possibly having done part of
  its work, or has the effect written here.
\<close>

section \<open>State\<close>

datatype fnode = RegFile bytes nat | DirNode nat

type_synonym filesystem = "path \<Rightarrow> fnode option"

text \<open>The data of \<open>internal/tracker/artifacts.go\<close>. The containerd source is a Go string type.\<close>

record InstalledArtifacts =
  Containerd :: string
  CniPlugins :: bool
  IamAuthenticator :: bool
  IamRolesAnywhere :: bool
  ImageCredentialProvider :: bool
  Kubectl :: bool
  Kubelet :: bool
  Ssm :: bool
  Iptables :: bool

record Tracker =
  Artifacts :: InstalledArtifacts

datatype dbus_op =
    StartUnit string string
  | StopUnit string string
  | RestartUnit string string
  | GetUnitProperty string string
  | EnableUnitFiles string
  | DisableUnitFiles string
  | ReloadUnits

datatype event =
    EvCmd "string list"
  | EvDbus dbus_op
  | EvHttp string
  | EvApi string string

record world =
  fs :: filesystem
  clock :: nat
  steps :: nat
  trace :: "event list"
  tracker_obj :: Tracker
  SsmDaemonName :: string

section \<open>Environment\<close>

datatype os_op =
    OpStat path
  | OpOpen path
  | OpRead path
  | OpReadDir path
  | OpMkdirAll path
  | OpCreate path
  | OpWrite path
  | OpChmod path
  | OpRemove path
  | OpRemoveAll path

record cmd_result =
  cr_out :: bytes
  cr_err :: "goerr option"
  cr_fs :: filesystem
  cr_elapsed :: nat

text \<open>What a D-Bus call answers: a property value, the unit file changes (their types), or, for a
  job, the result sent on the result channel (\<open>None\<close>: nothing is ever sent) and after how long.\<close>

record dbus_result =
  dr_err :: "goerr option"
  dr_value :: string
  dr_changes :: "string list"
  dr_job :: "(string \<times> nat) option"
  dr_elapsed :: nat

text \<open>A response body: the bytes a reader delivers and the error it ends with, \<open>None\<close> for EOF.\<close>

type_synonym stream = "bytes \<times> goerr option"

record http_response =
  StatusCode :: nat
  Body :: stream

text \<open>What \<open>tar.Reader.Next\<close> yields: an entry, or an error.\<close>

datatype tar_item = TarEntry (tar_name: string) (tar_dir: bool) (tar_mode: nat) (tar_data: stream) | TarError goerr

record environment =
  os_fault :: "nat \<Rightarrow> os_op \<Rightarrow> goerr option"
  survives :: "nat \<Rightarrow> path \<Rightarrow> bool"
  written :: "nat \<Rightarrow> nat"
  run_cmd :: "nat \<Rightarrow> string list \<Rightarrow> filesystem \<Rightarrow> cmd_result"
  look_path :: "string \<Rightarrow> filesystem \<Rightarrow> goerr + path"
  dbus :: "nat \<Rightarrow> dbus_op \<Rightarrow> filesystem \<Rightarrow> dbus_result"
  http_get :: "nat \<Rightarrow> string \<Rightarrow> goerr + http_response"
  lookup_env :: "string \<Rightarrow> string option"
  ini_value :: "bytes \<Rightarrow> string \<Rightarrow> string"
  goos :: string
  goarch :: string
  eval_symlinks :: "nat \<Rightarrow> path \<Rightarrow> filesystem \<Rightarrow> goerr + path"
  sha256 :: "bytes \<Rightarrow> bytes"
  gunzip :: "stream \<Rightarrow> goerr + stream"
  untar :: "stream \<Rightarrow> tar_item list"
  yaml_marshal :: "Tracker \<Rightarrow> goerr + bytes"
  yaml_unmarshal :: "bytes \<Rightarrow> goerr + Tracker"

type_synonym 'a wio = "(world, 'a) io"

section \<open>System calls\<close>

definition is_dir :: "filesystem \<Rightarrow> path \<Rightarrow> bool" where
  "is_dir f p = (p = ''/'' \<or> (case f p of Some (DirNode _) \<Rightarrow> True | _ \<Rightarrow> False))"

definition is_file :: "filesystem \<Rightarrow> path \<Rightarrow> bool" where
  "is_file f p = (case f p of Some (RegFile _ _) \<Rightarrow> True | _ \<Rightarrow> False)"

text \<open>\<open>q\<close> is \<open>p\<close> or lies below it.\<close>

definition under :: "path \<Rightarrow> path \<Rightarrow> bool" where
  "under p q = (q = p \<or> prefix (p @ ''/'') q)"

definition remove_under :: "path \<Rightarrow> filesystem \<Rightarrow> filesystem" where
  "remove_under p f = (\<lambda>q. if under p q then None else f q)"

definition path_comps :: "path \<Rightarrow> string list" where
  "path_comps p = filter (\<lambda>c. c \<noteq> []) (split_on CHR ''/'' p)"

definition abs_path :: "string list \<Rightarrow> path" where
  "abs_path cs = concat (map (\<lambda>c. CHR ''/'' # c) cs)"

text \<open>The directories that lead to \<open>p\<close>, outermost first, \<open>p\<close> itself last.\<close>

definition dirs_to :: "path \<Rightarrow> path list" where
  "dirs_to p = map (\<lambda>n. abs_path (take (Suc n) (path_comps p))) [0..<length (path_comps p)]"

definition make_dirs :: "path \<Rightarrow> nat \<Rightarrow> filesystem \<Rightarrow> filesystem" where
  "make_dirs p perm f = (\<lambda>q. if q \<in> set (dirs_to p) \<and> f q = None then Some (DirNode perm) else f q)"

text \<open>One interaction: a fault, or the effect.\<close>

definition sys ::
  "environment \<Rightarrow> os_op \<Rightarrow> (nat \<Rightarrow> filesystem \<Rightarrow> filesystem) \<Rightarrow> (filesystem \<Rightarrow> (goerr + 'a) \<times> filesystem) \<Rightarrow> 'a wio" where
  "sys env op partial act = (\<lambda>w.
     let n = steps w; w1 = w\<lparr>steps := Suc n\<rparr> in
     case os_fault env n op of
       Some e \<Rightarrow> Some (Inl e, w1\<lparr>fs := partial n (fs w)\<rparr>)
     | None \<Rightarrow> (case act (fs w) of (r, f) \<Rightarrow> Some (r, w1\<lparr>fs := f\<rparr>)))"

abbreviation no_part :: "nat \<Rightarrow> filesystem \<Rightarrow> filesystem" where
  "no_part \<equiv> \<lambda>_ f. f"

definition os_Stat :: "environment \<Rightarrow> path \<Rightarrow> fnode wio" where
  "os_Stat env p = sys env (OpStat p) no_part
     (\<lambda>f. (if p = ''/'' then Inr (DirNode 493)
           else case f p of None \<Rightarrow> Inl (ErrNotExist (''stat '' @ p @ '': no such file or directory'')) | Some n \<Rightarrow> Inr n, f))"

definition os_ReadFile :: "environment \<Rightarrow> path \<Rightarrow> bytes wio" where
  "os_ReadFile env p = sys env (OpRead p) no_part
     (\<lambda>f. (case f p of
             None \<Rightarrow> Inl (ErrNotExist (''open '' @ p @ '': no such file or directory''))
           | Some (DirNode _) \<Rightarrow> Inl (ErrMsg (''read '' @ p @ '': is a directory''))
           | Some (RegFile c _) \<Rightarrow> Inr c, f))"

definition os_MkdirAll :: "environment \<Rightarrow> path \<Rightarrow> nat \<Rightarrow> unit wio" where
  "os_MkdirAll env p perm = sys env (OpMkdirAll p) no_part
     (\<lambda>f. if list_ex (is_file f) (dirs_to p) then (Inl (ErrMsg (''mkdir '' @ p @ '': not a directory'')), f)
          else (Inr (), make_dirs p perm f))"

text \<open>\<open>os.OpenFile\<close> with \<open>O_CREATE|O_TRUNC\<close>: an existing file keeps its permissions.\<close>

definition os_Create :: "environment \<Rightarrow> path \<Rightarrow> nat \<Rightarrow> unit wio" where
  "os_Create env p perm = sys env (OpCreate p) no_part
     (\<lambda>f. if \<not> is_dir f (Dir p) then (Inl (ErrNotExist (''open '' @ p @ '': no such file or directory'')), f)
          else if is_dir f p then (Inl (ErrMsg (''open '' @ p @ '': is a directory'')), f)
          else (case f p of
                  Some (DirNode _) \<Rightarrow> (Inl (ErrMsg (''open '' @ p @ '': is a directory'')), f)
                | Some (RegFile _ m) \<Rightarrow> (Inr (), f(p \<mapsto> RegFile [] m))
                | None \<Rightarrow> (Inr (), f(p \<mapsto> RegFile [] perm))))"

definition append_to :: "path \<Rightarrow> bytes \<Rightarrow> filesystem \<Rightarrow> filesystem" where
  "append_to p d f = (case f p of Some (RegFile c m) \<Rightarrow> f(p \<mapsto> RegFile (c @ d) m) | _ \<Rightarrow> f)"

text \<open>Writing at the end of an open file; a failed write may have written a part.\<close>

definition file_Write :: "environment \<Rightarrow> path \<Rightarrow> bytes \<Rightarrow> unit wio" where
  "file_Write env p d = sys env (OpWrite p) (\<lambda>n. append_to p (take (written env n) d))
     (\<lambda>f. (Inr (), append_to p d f))"

definition os_WriteFile :: "environment \<Rightarrow> path \<Rightarrow> bytes \<Rightarrow> nat \<Rightarrow> unit wio" where
  "os_WriteFile env p d perm = thenE (os_Create env p perm) (file_Write env p d)"

definition os_Chmod :: "environment \<Rightarrow> path \<Rightarrow> nat \<Rightarrow> unit wio" where
  "os_Chmod env p perm = sys env (OpChmod p) no_part
     (\<lambda>f. case f p of
            None \<Rightarrow> (Inl (ErrNotExist (''chmod '' @ p)), f)
          | Some (RegFile c _) \<Rightarrow> (Inr (), f(p \<mapsto> RegFile c perm))
          | Some (DirNode _) \<Rightarrow> (Inr (), f(p \<mapsto> DirNode perm)))"

text \<open>\<open>os.RemoveAll\<close>: nil when the path does not exist; a failed call may have removed a part.\<close>

definition os_RemoveAll :: "environment \<Rightarrow> path \<Rightarrow> unit wio" where
  "os_RemoveAll env p = sys env (OpRemoveAll p)
     (\<lambda>n f q. if under p q \<and> \<not> survives env n q then None else f q)
     (\<lambda>f. (Inr (), remove_under p f))"

text \<open>\<open>os.Remove\<close> of a file. The program calls it on regular files only.\<close>

definition os_Remove :: "environment \<Rightarrow> path \<Rightarrow> unit wio" where
  "os_Remove env p = sys env (OpRemove p) no_part
     (\<lambda>f. case f p of
            None \<Rightarrow> (Inl (ErrNotExist (''remove '' @ p @ '': no such file or directory'')), f)
          | Some (DirNode _) \<Rightarrow> (Inl (ErrMsg (''remove '' @ p @ '': directory not empty'')), f)
          | Some (RegFile _ _) \<Rightarrow> (Inr (), f(p := None)))"

definition EvalSymlinks :: "environment \<Rightarrow> path \<Rightarrow> path wio" where
  "EvalSymlinks env p = (\<lambda>w. Some (eval_symlinks env (steps w) p (fs w), w\<lparr>steps := Suc (steps w)\<rparr>))"

section \<open>Commands, systemd, HTTP\<close>

text \<open>\<open>cmd.CombinedOutput()\<close>: the output and the error, both visible to the caller.\<close>

definition CombinedOutput :: "environment \<Rightarrow> string list \<Rightarrow> (bytes \<times> goerr option) wio" where
  "CombinedOutput env args = (\<lambda>w.
     let r = run_cmd env (steps w) args (fs w) in
     Some (Inr (cr_out r, cr_err r),
           w\<lparr>fs := cr_fs r, clock := clock w + cr_elapsed r, steps := Suc (steps w), trace := trace w @ [EvCmd args]\<rparr>))"

definition dbus_call :: "environment \<Rightarrow> dbus_op \<Rightarrow> dbus_result wio" where
  "dbus_call env op = (\<lambda>w.
     let r = dbus env (steps w) op (fs w) in
     Some (case dr_err r of None \<Rightarrow> Inr r | Some e \<Rightarrow> Inl e,
           w\<lparr>clock := clock w + dr_elapsed r, steps := Suc (steps w), trace := trace w @ [EvDbus op]\<rparr>))"

definition http_Get :: "environment \<Rightarrow> string \<Rightarrow> http_response wio" where
  "http_Get env url = (\<lambda>w.
     Some (http_get env (steps w) url, w\<lparr>steps := Suc (steps w), trace := trace w @ [EvHttp url]\<rparr>))"

text \<open>A call of a remote API, by name and main argument; the answer is the caller's parameter.\<close>

definition api_call :: "string \<Rightarrow> string \<Rightarrow> (nat \<Rightarrow> goerr + 'a) \<Rightarrow> 'a wio" where
  "api_call name arg answer = (\<lambda>w.
     Some (answer (steps w), w\<lparr>steps := Suc (steps w), trace := trace w @ [EvApi name arg]\<rparr>))"

text \<open>\<open>io.ReadAll\<close> on the body of an answer: the bytes, or the error that ended them.\<close>

definition io_ReadAll :: "stream \<Rightarrow> bytes wio" where
  "io_ReadAll s = (case snd s of None \<Rightarrow> returnE (fst s) | Some e \<Rightarrow> throwE e)"

definition read_answer :: "stream wio \<Rightarrow> bytes wio" where
  "read_answer call = bindE call io_ReadAll"

text \<open>A run-time panic: the call does not return.\<close>

definition panicE :: "'a wio" where
  "panicE = (\<lambda>w. None)"

text \<open>\<open>exec.LookPath\<close>, looking at the file system as it is.\<close>

definition LookPath :: "environment \<Rightarrow> string \<Rightarrow> (goerr + path) wio" where
  "LookPath env name = getE (\<lambda>w. look_path env name (fs w))"

section \<open>Contexts and timers\<close>

text \<open>A context is its deadline. \<open>select\<close> between \<open>ctx.Done()\<close> and \<open>time.After(d)\<close> waits for
  the earlier of the two; \<open>True\<close> is the branch of \<open>ctx.Done()\<close>.\<close>

type_synonym ctx = "nat option"

definition select_done_or_after :: "ctx \<Rightarrow> nat \<Rightarrow> bool wio" where
  "select_done_or_after c d = (\<lambda>w.
     case c of
       None \<Rightarrow> Some (Inr False, w\<lparr>clock := clock w + d\<rparr>)
     | Some t \<Rightarrow> (if t \<le> clock w + d then Some (Inr True, w\<lparr>clock := max (clock w) t\<rparr>)
                  else Some (Inr False, w\<lparr>clock := clock w + d\<rparr>)))"

definition ctx_err :: "goerr" where
  "ctx_err = ErrMsg ''context deadline exceeded''"

definition time_Sleep :: "nat \<Rightarrow> unit wio" where
  "time_Sleep d = modifyE (\<lambda>w. w\<lparr>clock := clock w + d\<rparr>)"

definition seconds :: "nat \<Rightarrow> nat" where
  "seconds n = n * 1000000000"

section \<open>What the operations keep\<close>

lemma valid_sys:
  assumes "\<And>n f. P f \<Longrightarrow> R (fault n f)"
    and "\<And>f x f'. P f \<Longrightarrow> act f = (Inr x, f') \<Longrightarrow> Q x f'"
    and "\<And>f e f'. P f \<Longrightarrow> act f = (Inl e, f') \<Longrightarrow> R f'"
  shows "valid (\<lambda>w. P (fs w)) (sys env op fault act) (\<lambda>x w. Q x (fs w)) (\<lambda>e w. R (fs w))"
  using assms by (auto simp: valid_def sys_def Let_def split: option.splits sum.splits prod.splits)

lemma sys_other:
  assumes "\<And>w f n. I (w\<lparr>steps := n, fs := f\<rparr>) = I w"
  shows "preserves I (sys env op fault act)"
  using assms by (auto simp: valid_def sys_def Let_def split: option.splits sum.splits prod.splits)

lemma returns_sys: "returns (sys env op fault act)"
  by (auto simp: returns_def sys_def Let_def split: option.splits prod.splits)

lemmas os_defs =
  os_Stat_def os_ReadFile_def os_MkdirAll_def os_Create_def file_Write_def os_Chmod_def
  os_RemoveAll_def os_Remove_def

text \<open>Predicates of the world that no system call changes: those on the clock, the trace and the
  process state.\<close>

definition off_fs :: "(world \<Rightarrow> bool) \<Rightarrow> bool" where
  "off_fs I \<longleftrightarrow> (\<forall>w f n. I (w\<lparr>steps := n, fs := f\<rparr>) = I w)"

lemma off_fs_tracker: "off_fs (\<lambda>w. P (tracker_obj w))"
  by (simp add: off_fs_def)

lemma off_fs_process: "off_fs (\<lambda>w. P (clock w) (trace w) (tracker_obj w) (SsmDaemonName w))"
  by (simp add: off_fs_def)

lemma off_fs_steps: "off_fs I \<Longrightarrow> I (w\<lparr>steps := n\<rparr>) = I w"
proof -
  assume "off_fs I"
  then have "I (w\<lparr>steps := n, fs := fs w\<rparr>) = I w" unfolding off_fs_def by iprover
  moreover have "w\<lparr>steps := n, fs := fs w\<rparr> = w\<lparr>steps := n\<rparr>" by simp
  ultimately show ?thesis by simp
qed

lemma preserves_EvalSymlinks: "off_fs I \<Longrightarrow> preserves I (EvalSymlinks env p)"
  by (auto simp: valid_def EvalSymlinks_def off_fs_steps split: sum.splits)

lemma preserves_off_fs:
  assumes "off_fs I"
  shows "preserves I (os_Stat env p)" and "preserves I (os_ReadFile env p)"
    and "preserves I (os_MkdirAll env p m)" and "preserves I (os_Create env p m)"
    and "preserves I (file_Write env p d)" and "preserves I (os_WriteFile env p d m)"
    and "preserves I (os_Chmod env p m)" and "preserves I (os_RemoveAll env p)"
    and "preserves I (os_Remove env p)"
  using assms unfolding os_defs os_WriteFile_def
  by (auto simp: off_fs_def intro!: sys_other preserves_thenE)

lemma returns_os:
  "returns (os_Stat env p)" "returns (os_ReadFile env p)" "returns (os_MkdirAll env p m)"
  "returns (os_Create env p m)" "returns (file_Write env p d)" "returns (os_WriteFile env p d m)"
  "returns (os_Chmod env p m)" "returns (os_RemoveAll env p)" "returns (os_Remove env p)"
  "returns (EvalSymlinks env p)" "returns (CombinedOutput env args)" "returns (dbus_call env dop)"
  "returns (http_Get env url)" "returns (api_call nm arg ans)" "returns (LookPath env nm)" "returns (select_done_or_after c t)" "returns (time_Sleep t)"
  unfolding os_defs os_WriteFile_def time_Sleep_def LookPath_def
  by (auto intro!: returns_sys returns_thenE returns_modifyE returns_getE)
    (auto simp: returns_def api_call_def EvalSymlinks_def CombinedOutput_def dbus_call_def http_Get_def
      select_done_or_after_def Let_def split: option.splits)

lemma under_refl [simp]: "under p p"
  by (simp add: under_def)

lemma under_trans: "under p q \<Longrightarrow> under q r \<Longrightarrow> under p r"
  by (auto simp: under_def prefix_def)

text \<open>A path that is absent stays absent, and a node that exists stays as it is.\<close>

abbreviation keeps_absent :: "path \<Rightarrow> 'a wio \<Rightarrow> bool" where
  "keeps_absent q m \<equiv> preserves (\<lambda>w. fs w q = None) m"

definition keeps_node :: "path \<Rightarrow> 'a wio \<Rightarrow> bool" where
  "keeps_node q m \<longleftrightarrow> (\<forall>n. preserves (\<lambda>w. fs w q = Some n) m)"

lemma keeps_nodeI: "(\<And>n. preserves (\<lambda>w. fs w q = Some n) m) \<Longrightarrow> keeps_node q m"
  by (simp add: keeps_node_def)

lemma keeps_nodeD: "keeps_node q m \<Longrightarrow> preserves (\<lambda>w. fs w q = Some n) m"
  by (simp add: keeps_node_def)

lemma keeps_node_intros:
  "keeps_node q (returnE x)" "keeps_node q (throwE e)" "keeps_node q (getE g)" "keeps_node q (liftE r)"
  by (auto intro!: keeps_nodeI preserves_intros)

lemma keeps_node_bindE: "keeps_node q m \<Longrightarrow> (\<And>x. keeps_node q (k x)) \<Longrightarrow> keeps_node q (bindE m k)"
  by (auto simp: keeps_node_def intro!: preserves_bindE)

lemma keeps_node_thenE: "keeps_node q m \<Longrightarrow> keeps_node q k \<Longrightarrow> keeps_node q (thenE m k)"
  by (auto simp: keeps_node_def intro!: preserves_thenE)

lemma keeps_node_wrapE: "keeps_node q m \<Longrightarrow> keeps_node q (wrapE msg m)"
  by (auto simp: keeps_node_def intro!: preserves_wrapE)

lemma keeps_node_mapErrE: "keeps_node q m \<Longrightarrow> keeps_node q (mapErrE g m)"
  by (auto simp: keeps_node_def intro!: preserves_mapErrE)

lemma keeps_node_tryE: "keeps_node q m \<Longrightarrow> keeps_node q (tryE m)"
  by (auto simp: keeps_node_def intro!: preserves_tryE)

lemma keeps_node_whenE: "(b \<Longrightarrow> keeps_node q m) \<Longrightarrow> keeps_node q (whenE b m)"
  by (auto simp: keeps_node_def intro!: preserves_whenE)

lemma keeps_node_forE: "(\<And>x. x \<in> set xs \<Longrightarrow> keeps_node q (f x)) \<Longrightarrow> keeps_node q (forE xs f)"
  by (auto simp: keeps_node_def intro!: valid_forE)

lemma preserves_fsI:
  assumes "\<And>n f. P f \<Longrightarrow> P (fault n f)" and "\<And>f r f'. P f \<Longrightarrow> act f = (r, f') \<Longrightarrow> P f'"
  shows "preserves (\<lambda>w. P (fs w)) (sys env op fault act)"
  using assms by (auto simp: valid_def sys_def Let_def split: option.splits sum.splits prod.splits)

lemma keeps_absent_os:
  "keeps_absent q (os_Stat env p)" "keeps_absent q (os_ReadFile env p)"
  "keeps_absent q (os_RemoveAll env p)"
  by (auto simp: os_Stat_def os_ReadFile_def os_RemoveAll_def remove_under_def intro!: preserves_fsI)

lemma keeps_absent_Remove: "keeps_absent q (os_Remove env p)"
  unfolding os_Remove_def by (rule preserves_fsI) (auto split: option.splits fnode.splits if_splits)

lemma keeps_absent_Create: "q \<noteq> p \<Longrightarrow> keeps_absent q (os_Create env p m)"
  unfolding os_Create_def by (rule preserves_fsI) (auto split: option.splits fnode.splits if_splits)

lemma append_to_None [simp]: "append_to p d f q = None \<longleftrightarrow> f q = None"
  by (auto simp: append_to_def split: option.splits fnode.splits)

lemma append_to_other: "q \<noteq> p \<Longrightarrow> append_to p d f q = f q"
  by (auto simp: append_to_def split: option.splits fnode.splits)

lemma keeps_absent_Write: "keeps_absent q (file_Write env p d)"
  unfolding file_Write_def by (rule preserves_fsI) auto

lemma keeps_absent_MkdirAll: "q \<notin> set (dirs_to p) \<Longrightarrow> keeps_absent q (os_MkdirAll env p m)"
  unfolding os_MkdirAll_def by (rule preserves_fsI) (auto simp: make_dirs_def split: if_splits)

lemma keeps_node_Read:
  "keeps_node q (os_Stat env p)" "keeps_node q (os_ReadFile env p)"
  by (auto simp: os_Stat_def os_ReadFile_def intro!: keeps_nodeI preserves_fsI)

lemma keeps_node_MkdirAll: "keeps_node q (os_MkdirAll env p m)"
  unfolding os_MkdirAll_def
  by (intro keeps_nodeI preserves_fsI) (auto simp: make_dirs_def split: if_splits)

lemma keeps_node_RemoveAll: "\<not> under p q \<Longrightarrow> keeps_node q (os_RemoveAll env p)"
  unfolding os_RemoveAll_def
  by (intro keeps_nodeI preserves_fsI) (auto simp: remove_under_def)

lemma keeps_node_Remove: "q \<noteq> p \<Longrightarrow> keeps_node q (os_Remove env p)"
  unfolding os_Remove_def
  by (intro keeps_nodeI preserves_fsI) (auto split: option.splits fnode.splits)

lemma keeps_node_Chmod: "q \<noteq> p \<Longrightarrow> keeps_node q (os_Chmod env p m)"
  unfolding os_Chmod_def
  by (intro keeps_nodeI preserves_fsI) (auto split: option.splits fnode.splits)

lemma keeps_node_Create: "q \<noteq> p \<Longrightarrow> keeps_node q (os_Create env p m)"
  unfolding os_Create_def
  by (intro keeps_nodeI preserves_fsI) (auto split: option.splits fnode.splits if_splits)

lemma keeps_node_Write: "q \<noteq> p \<Longrightarrow> keeps_node q (file_Write env p d)"
  unfolding file_Write_def
  by (intro keeps_nodeI preserves_fsI) (auto simp: append_to_other)

lemmas keeps_node_os =
  keeps_node_Read keeps_node_MkdirAll keeps_node_RemoveAll keeps_node_Remove keeps_node_Chmod
  keeps_node_Create keeps_node_Write

lemma keeps_node_WriteFile: "q \<noteq> p \<Longrightarrow> keeps_node q (os_WriteFile env p d m)"
  unfolding os_WriteFile_def by (intro keeps_node_thenE keeps_node_os)

text \<open>Success of the two operations the installers rest on.\<close>

lemma RemoveAll_gone: "valid_ok P (os_RemoveAll env p) (\<lambda>_ w. \<forall>q. under p q \<longrightarrow> fs w q = None)"
  by (auto simp: valid_def os_RemoveAll_def sys_def remove_under_def Let_def split: option.splits sum.splits)

lemma Create_ok:
  "valid_ok P (os_Create env p m) (\<lambda>_ w. \<exists>m'. fs w p = Some (RegFile [] m'))"
  by (auto simp: valid_def os_Create_def sys_def Let_def
      split: option.splits sum.splits prod.splits if_splits fnode.splits)

lemma Write_ok:
  "valid_ok (\<lambda>w. fs w p = Some (RegFile c m)) (file_Write env p d) (\<lambda>_ w. fs w p = Some (RegFile (c @ d) m))"
  by (auto simp: valid_def file_Write_def sys_def append_to_def Let_def split: option.splits sum.splits)

lemma WriteFile_ok:
  "valid_ok P (os_WriteFile env p d m) (\<lambda>_ w. \<exists>m'. fs w p = Some (RegFile d m'))"
proof -
  have "valid_ok (\<lambda>w. \<exists>m'. fs w p = Some (RegFile [] m')) (file_Write env p d) (\<lambda>_ w. \<exists>m'. fs w p = Some (RegFile d m'))"
    by (auto simp: valid_def file_Write_def sys_def append_to_def Let_def split: option.splits sum.splits)
  with Create_ok show ?thesis unfolding os_WriteFile_def by (rule valid_thenE)
qed

lemma select_after:
  "(case c of None \<Rightarrow> True | Some t \<Rightarrow> clock w + d < t) \<Longrightarrow>
     select_done_or_after c d w = Some (Inr False, w\<lparr>clock := clock w + d\<rparr>)"
  by (cases c) (simp_all add: select_done_or_after_def)

lemma select_done:
  "t \<le> clock w + d \<Longrightarrow>
     select_done_or_after (Some t) d w = Some (Inr True, w\<lparr>clock := max (clock w) t\<rparr>)"
  by (simp add: select_done_or_after_def)

end
