(* ===== verification/Sample_World.thy ===== *)
theory Sample_World
  imports World
begin

text \<open>
  A concrete environment and a concrete machine: no system call fails, commands succeed without effect, systemd
  reports every unit active, digests are the identity, and the tracker has a plain text encoding. The theorems of
  the development are applied here, so that their hypotheses are seen to hold somewhere.
\<close>

definition flag_char :: "bool \<Rightarrow> char" where
  "flag_char b = (if b then CHR ''1'' else CHR ''0'')"

definition encode_tracker :: "Tracker \<Rightarrow> bytes" where
  "encode_tracker tr = (let a = Artifacts tr in
     map flag_char [CniPlugins a, IamAuthenticator a, IamRolesAnywhere a, ImageCredentialProvider a, Kubectl a, Kubelet a, Ssm a, Iptables a]
     @ Containerd a)"

definition decode_tracker :: "bytes \<Rightarrow> goerr + Tracker" where
  "decode_tracker d =
     (case d of
        c1 # c2 # c3 # c4 # c5 # c6 # c7 # c8 # s \<Rightarrow>
          Inr \<lparr>Artifacts = \<lparr>Containerd = s, CniPlugins = (c1 = CHR ''1''), IamAuthenticator = (c2 = CHR ''1''),
            IamRolesAnywhere = (c3 = CHR ''1''), ImageCredentialProvider = (c4 = CHR ''1''), Kubectl = (c5 = CHR ''1''),
            Kubelet = (c6 = CHR ''1''), Ssm = (c7 = CHR ''1''), Iptables = (c8 = CHR ''1'')\<rparr>\<rparr>
      | _ \<Rightarrow> Inl (ErrMsg ''short''))"

definition sample_env :: environment where
  "sample_env =
     \<lparr>os_fault = \<lambda>_ _. None, survives = \<lambda>_ _. False, written = \<lambda>_. 0,
      run_cmd = \<lambda>_ _ f. \<lparr>cr_out = [], cr_err = None, cr_fs = f, cr_elapsed = 0\<rparr>,
      look_path = \<lambda>name _. Inr (''/usr/bin/'' @ name),
      dbus = \<lambda>_ _ _. \<lparr>dr_err = None, dr_value = CHR 0x22 # ''active'' @ [CHR 0x22], dr_changes = [''symlink''], dr_job = Some (''done'', 0), dr_elapsed = 0\<rparr>,
      http_get = \<lambda>_ u. Inr \<lparr>StatusCode = 200, Body = (u, None)\<rparr>,
      lookup_env = \<lambda>_. None, ini_value = \<lambda>_ _. ''ubuntu'', goos = ''linux'', goarch = ''amd64'',
      eval_symlinks = \<lambda>_ p _. Inr p, sha256 = \<lambda>b. b, gunzip = Inr, untar = \<lambda>_. [],
      yaml_marshal = \<lambda>tr. Inr (encode_tracker tr), yaml_unmarshal = decode_tracker\<rparr>"

definition sample_artifacts :: InstalledArtifacts where
  "sample_artifacts = \<lparr>Containerd = ''distro'', CniPlugins = False, IamAuthenticator = False, IamRolesAnywhere = False,
     ImageCredentialProvider = False, Kubectl = False, Kubelet = False, Ssm = False, Iptables = False\<rparr>"

definition sample_world :: world where
  "sample_world = \<lparr>fs = (\<lambda>_. None), clock = 0, steps = 0, trace = [], tracker_obj = \<lparr>Artifacts = sample_artifacts\<rparr>,
     SsmDaemonName = ''amazon-ssm-agent''\<rparr>"

lemma run_the: "m w \<noteq> None \<Longrightarrow> fst (the (m w)) = r \<Longrightarrow> m w = Some (r, snd (the (m w)))"
  by (cases "m w") auto

end
