(* ===== verification/Validation.thy ===== *)
theory Validation
  imports Go_Strings
begin

text \<open>
  \<open>internal/validation\<close>: remediable errors and warnings (\<open>error.go\<close>), the validation
  runner (\<open>runner.go\<close>), and the two informers that present its results (\<open>printer.go\<close>,
  \<open>logger_printer.go\<close>).

  A validation is a function of the object under validation and of the rest of the world
  (what it reads, what the informer has shown); it may hand back a changed object, which the
  runner must detect. The runner's own panic is the value \<open>Panicked\<close>.
\<close>

section \<open>Errors with remediation and warnings\<close>

definition NewRemediableErr :: "string \<Rightarrow> string \<Rightarrow> goerr" where
  "NewRemediableErr err remediation = RemediableError (ErrMsg err) remediation"

definition WithRemediation :: "goerr \<Rightarrow> string \<Rightarrow> goerr" where
  "WithRemediation err remediation = RemediableError err remediation"

definition NewWarning :: "string \<Rightarrow> string \<Rightarrow> goerr" where
  "NewWarning err remediation = WarningError (ErrMsg err) remediation"

definition WithWarning :: "goerr \<Rightarrow> string \<Rightarrow> goerr" where
  "WithWarning err remediation = WarningError err remediation"

text \<open>Both wrappers have a \<open>Remediation\<close> method, so both satisfy \<open>Remediable\<close>.\<close>

definition IsRemediable :: "goerr \<Rightarrow> bool" where
  "IsRemediable err = (case err of RemediableError _ _ \<Rightarrow> True | WarningError _ _ \<Rightarrow> True | _ \<Rightarrow> False)"

definition Remediation :: "goerr \<Rightarrow> string" where
  "Remediation err = (case err of RemediableError _ r \<Rightarrow> r | WarningError _ r \<Rightarrow> r | _ \<Rightarrow> [])"

definition IsWarning :: "goerr \<Rightarrow> bool" where
  "IsWarning err = (case err of WarningError _ _ \<Rightarrow> True | _ \<Rightarrow> False)"

text \<open>The text of an error.\<close>

fun error_text :: "goerr \<Rightarrow> string" where
  "error_text (ErrMsg m) = m"
| "error_text (ErrNotExist m) = m"
| "error_text (ErrWrap m e) = m @ '': '' @ error_text e"
| "error_text (ErrJoin es) = join_with [newline] (map error_text es)"
| "error_text (RemediableError e r) = error_text e"
| "error_text (WarningError e r) = error_text e"
| "error_text (TypedError n m None) = m"
| "error_text (TypedError n m (Some e)) = m @ '': '' @ error_text e"

definition Unwrap :: "goerr \<Rightarrow> goerr list" where
  "Unwrap err = (case err of ErrJoin es \<Rightarrow> es | _ \<Rightarrow> [err])"

section \<open>The runner\<close>

type_synonym ('o, 'w) validate = "'o \<Rightarrow> 'w \<Rightarrow> goerr option \<times> 'o \<times> 'w"

record ('o, 'w) validation =
  Name :: string
  Validate :: "('o, 'w) validate"

record ('o, 'w) runner =
  validations :: "('o, 'w) validation list"
  skipValidations :: "string list"

type_synonym ('o, 'w) runner_opt = "('o, 'w) runner \<Rightarrow> ('o, 'w) runner"

datatype 'a outcome = Panicked string | Returned 'a

definition New :: "string \<Rightarrow> ('o, 'w) validate \<Rightarrow> ('o, 'w) validation" where
  "New name validate = \<lparr>Name = name, Validate = validate\<rparr>"

definition WithSkipValidations :: "string list \<Rightarrow> ('o, 'w) runner_opt" where
  "WithSkipValidations namesToSkip c = c\<lparr>skipValidations := skipValidations c @ namesToSkip\<rparr>"

definition NewRunner :: "('o, 'w) runner_opt list \<Rightarrow> ('o, 'w) runner" where
  "NewRunner opts = foldl (\<lambda>r opt. opt r) \<lparr>validations = [], skipValidations = []\<rparr> opts"

fun shouldRegister_loop :: "string \<Rightarrow> string list \<Rightarrow> bool" where
  "shouldRegister_loop name [] = True"
| "shouldRegister_loop name (skip # rest) = (if skip = name then False else shouldRegister_loop name rest)"

definition shouldRegister :: "('o, 'w) runner \<Rightarrow> string \<Rightarrow> bool" where
  "shouldRegister r name = shouldRegister_loop name (skipValidations r)"

fun Register :: "('o, 'w) runner \<Rightarrow> ('o, 'w) validation list \<Rightarrow> ('o, 'w) runner" where
  "Register r [] = r"
| "Register r (v # vs) =
     Register (if shouldRegister r (Name v) then r\<lparr>validations := validations r @ [v]\<rparr> else r) vs"

fun add_non_warnings :: "goerr list \<Rightarrow> goerr list \<Rightarrow> goerr list" where
  "add_non_warnings errs [] = errs"
| "add_non_warnings errs (e # es) = add_non_warnings (if \<not> IsWarning e then errs @ [e] else errs) es"

fun Sequentially_loop ::
  "('o, 'w) validation list \<Rightarrow> goerr list \<Rightarrow> 'o \<Rightarrow> 'w \<Rightarrow> goerr list \<times> 'o \<times> 'w" where
  "Sequentially_loop [] errs copyObj w = (errs, copyObj, w)"
| "Sequentially_loop (v # vs) errs copyObj w =
     (case Validate v copyObj w of
        (None, o', w') \<Rightarrow> Sequentially_loop vs errs o' w'
      | (Some err, o', w') \<Rightarrow> Sequentially_loop vs (add_non_warnings errs (Unwrap err)) o' w')"

definition Sequentially :: "('o, 'w) runner \<Rightarrow> 'o \<Rightarrow> 'w \<Rightarrow> goerr option outcome \<times> 'w" where
  "Sequentially r obj w =
     (let (errs, copyObj, w') = Sequentially_loop (validations r) [] obj w
      in (if obj \<noteq> copyObj
          then Panicked ''validations must not modify the object under validation''
          else Returned (errors_Join errs), w'))"

fun UntilError :: "('o, 'w) validate list \<Rightarrow> ('o, 'w) validate" where
  "UntilError [] obj w = (None, obj, w)"
| "UntilError (v # vs) obj w =
     (case v obj w of
        (Some err, o', w') \<Rightarrow> (Some err, o', w')
      | (None, o', w') \<Rightarrow> UntilError vs o' w')"

definition Runner_UntilError :: "('o, 'w) runner \<Rightarrow> ('o, 'w) validation list \<Rightarrow> ('o, 'w) validation" where
  "Runner_UntilError r vs =
     (let accepted = filter (\<lambda>v. shouldRegister r (Name v)) vs
      in New (''until-error-'' @ join_with ''/'' (map Name accepted)) (UntilError (map Validate accepted)))"

section \<open>Informers\<close>

datatype level = InfoLevel | WarnLevel | ErrorLevel

record log_entry =
  le_level :: level
  le_message :: string
  le_fields :: "(string \<times> string) list"

definition LoggerPrinter_Starting :: "string \<Rightarrow> string \<Rightarrow> log_entry list \<Rightarrow> log_entry list" where
  "LoggerPrinter_Starting name message lg =
     lg @ [\<lparr>le_level = InfoLevel, le_message = ''Starting validation'',
            le_fields = [(''validation'', name), (''message'', message)]\<rparr>]"

definition failure_fields :: "string \<Rightarrow> goerr \<Rightarrow> (string \<times> string) list" where
  "failure_fields validationName err =
     [(''validation'', validationName), (''error'', error_text err)] @
     (if IsRemediable err then [(''remediation'', Remediation err)] else [])"

definition logWarningWithRemediation :: "string \<Rightarrow> goerr \<Rightarrow> log_entry list \<Rightarrow> log_entry list" where
  "logWarningWithRemediation validationName err lg =
     lg @ [\<lparr>le_level = WarnLevel, le_message = ''Validation failed'', le_fields = failure_fields validationName err\<rparr>]"

definition logErrorWithRemediation :: "string \<Rightarrow> goerr \<Rightarrow> log_entry list \<Rightarrow> log_entry list" where
  "logErrorWithRemediation validationName err lg =
     lg @ [\<lparr>le_level = ErrorLevel, le_message = ''Validation failed'', le_fields = failure_fields validationName err\<rparr>]"

definition LoggerPrinter_Done :: "string \<Rightarrow> goerr option \<Rightarrow> log_entry list \<Rightarrow> log_entry list" where
  "LoggerPrinter_Done name err lg =
     (case err of
        None \<Rightarrow> lg @ [\<lparr>le_level = InfoLevel, le_message = ''Validation passed'', le_fields = [(''validation'', name)]\<rparr>]
      | Some e \<Rightarrow>
          foldl (\<lambda>l e. if IsWarning e then logWarningWithRemediation name e l else logErrorWithRemediation name e l)
            lg (Unwrap e))"

text \<open>The terminal printer: its writer is the text written so far, its external log source the
  lines waiting in the channel and the name of the source.\<close>

record printer =
  noColor :: bool
  externalLogs :: "(string \<times> string list) option"
  out :: string

definition esc :: "string \<Rightarrow> string" where
  "esc code = CHR 0x1B # CHR ''['' # code"

definition wrap :: "printer \<Rightarrow> string \<Rightarrow> string \<Rightarrow> string \<Rightarrow> string" where
  "wrap p m color reset = (if noColor p then m else color @ m @ reset)"

definition color :: "printer \<Rightarrow> string \<Rightarrow> string \<Rightarrow> string" where
  "color p m c = wrap p m c (esc ''0m'')"

definition Blue :: "printer \<Rightarrow> string \<Rightarrow> string" where
  "Blue p m = color p m (esc ''34m'')"

definition Red :: "printer \<Rightarrow> string \<Rightarrow> string" where
  "Red p m = color p m (esc ''31m'')"

definition Green :: "printer \<Rightarrow> string \<Rightarrow> string" where
  "Green p m = color p m (esc ''32m'')"

definition Yellow :: "printer \<Rightarrow> string \<Rightarrow> string" where
  "Yellow p m = color p m (esc ''33m'')"

definition print :: "printer \<Rightarrow> string \<Rightarrow> printer" where
  "print p s = p\<lparr>out := out p @ s\<rparr>"

definition println :: "printer \<Rightarrow> string \<Rightarrow> printer" where
  "println p s = p\<lparr>out := out p @ s @ [newline]\<rparr>"

text \<open>The box-drawing bytes (UTF-8): a tee, an elbow and a bar, each followed by a dash where the code has one.\<close>

definition tee :: string where
  "tee = [CHR 0xE2, CHR 0x94, CHR 0x9C, CHR 0xE2, CHR 0x94, CHR 0x80]"

definition elbow :: string where
  "elbow = [CHR 0xE2, CHR 0x94, CHR 0x94, CHR 0xE2, CHR 0x94, CHR 0x80]"

definition bar :: string where
  "bar = [CHR 0xE2, CHR 0x94, CHR 0x82]"

definition Printer_Starting :: "printer \<Rightarrow> string \<Rightarrow> string \<Rightarrow> printer" where
  "Printer_Starting p name message = print p (''* '' @ message @ '' '')"

definition printError :: "printer \<Rightarrow> goerr \<Rightarrow> printer" where
  "printError p err =
     (let p1 = println p (''  '' @ tee @ '' '' @ Red p ''Error'');
          p2 = println p1 (''  '' @ bar @ ''  '' @ elbow @ '' '' @ error_text err)
      in if IsRemediable err
         then println (println p2 (''  '' @ bar @ ''  '' @ elbow @ '' '' @ Blue p ''Remediation''))
                (''  '' @ bar @ ''     '' @ elbow @ '' '' @ Remediation err)
         else p2)"

text \<open>Reading the channel until it is empty.\<close>

definition readExternal :: "printer \<Rightarrow> string list \<times> printer" where
  "readExternal p =
     (case externalLogs p of
        None \<Rightarrow> ([], p)
      | Some (name, lines) \<Rightarrow> (lines, p\<lparr>externalLogs := Some (name, [])\<rparr>))"

definition printExternalLogs :: "printer \<Rightarrow> string \<Rightarrow> string \<Rightarrow> string \<Rightarrow> string list \<Rightarrow> printer" where
  "printExternalLogs p prefixHeader prefixLog name lines =
     (if lines = [] then p
      else let p1 = println p (prefixHeader @ '' '' @ Yellow p name);
               p2 = foldl (\<lambda>q l. println q (prefixLog @ ''  '' @ tee @ '' '' @ l)) p1 (butlast lines)
           in println p2 (prefixLog @ ''  '' @ elbow @ '' '' @ last lines))"

definition printLastError :: "printer \<Rightarrow> goerr \<Rightarrow> printer" where
  "printLastError p0 err =
     (let (external, p) = readExternal p0;
          name = (case externalLogs p of None \<Rightarrow> [] | Some (n, _) \<Rightarrow> n);
          q = (if external = [] then
                 println (println p (''  '' @ elbow @ '' '' @ Red p ''Error'')) (''     '' @ elbow @ '' '' @ error_text err)
               else
                 let r = println (println p (''  '' @ elbow @ '' '' @ Red p ''Error'')) (''     '' @ tee @ '' '' @ error_text err)
                 in if IsRemediable err
                    then printExternalLogs r (''     '' @ tee) (''     '' @ bar) name external
                    else printExternalLogs r (''     '' @ elbow) ''      '' name external)
      in if IsRemediable err
         then println (println q (''     '' @ elbow @ '' '' @ Blue p ''Remediation''))
                (''        '' @ elbow @ '' '' @ Remediation err)
         else q)"

definition Printer_Done :: "printer \<Rightarrow> string \<Rightarrow> goerr option \<Rightarrow> printer outcome" where
  "Printer_Done p name err =
     (case err of
        None \<Rightarrow> Returned (println p (''['' @ Green p ''Success'' @ '']''))
      | Some e \<Rightarrow>
          (let p1 = println p (''['' @ Red p ''Failed'' @ '']''); errs = Unwrap e
           in if errs = [] then Panicked ''slice bounds out of range''
              else Returned (printLastError (foldl printError p1 (butlast errs)) (last errs))))"

section \<open>Facts about the runner\<close>

lemma shouldRegister_iff: "shouldRegister r name \<longleftrightarrow> name \<notin> set (skipValidations r)"
proof -
  have "shouldRegister_loop name ns \<longleftrightarrow> name \<notin> set ns" for ns
    by (induction ns) auto
  then show ?thesis by (simp add: shouldRegister_def)
qed

lemma Register_eq:
  "Register r vs = r\<lparr>validations := validations r @ filter (\<lambda>v. Name v \<notin> set (skipValidations r)) vs\<rparr>"
  by (induction vs arbitrary: r) (auto simp: shouldRegister_iff)

lemma add_non_warnings_eq: "add_non_warnings errs es = errs @ filter (\<lambda>e. \<not> IsWarning e) es"
  by (induction es arbitrary: errs) auto

text \<open>Running every validation, whatever each returns: the errors (if any) and the final state.\<close>

fun run_all :: "('o, 'w) validation list \<Rightarrow> 'o \<Rightarrow> 'w \<Rightarrow> goerr option list \<times> 'o \<times> 'w" where
  "run_all [] obj w = ([], obj, w)"
| "run_all (v # vs) obj w =
     (let (e, o1, w1) = Validate v obj w; (es, o2, w2) = run_all vs o1 w1 in (e # es, o2, w2))"

definition failures :: "goerr option list \<Rightarrow> goerr list" where
  "failures es = concat (map (\<lambda>e. case e of None \<Rightarrow> [] | Some err \<Rightarrow> filter (\<lambda>x. \<not> IsWarning x) (Unwrap err)) es)"

lemma run_all_length: "run_all vs obj w = (es, o', w') \<Longrightarrow> length es = length vs"
  by (induction vs arbitrary: obj w es) (auto simp: Let_def split: prod.splits)

lemma Sequentially_loop_eq:
  "run_all vs obj w = (es, o', w') \<Longrightarrow> Sequentially_loop vs errs obj w = (errs @ failures es, o', w')"
  by (induction vs arbitrary: obj w es errs)
    (auto simp: failures_def Let_def add_non_warnings_eq split: prod.splits option.splits)

text \<open>A validation that leaves the object alone, as every validation of the program should.\<close>

definition keeps_object :: "('o, 'w) validation \<Rightarrow> bool" where
  "keeps_object v \<longleftrightarrow> (\<forall>obj w. fst (snd (Validate v obj w)) = obj)"

lemma run_all_keeps:
  "list_all keeps_object vs \<Longrightarrow> run_all vs obj w = (es, o', w') \<Longrightarrow> o' = obj"
proof (induction vs arbitrary: obj w es)
  case Nil
  then show ?case by simp
next
  case (Cons v vs)
  obtain e o1 w1 where step: "Validate v obj w = (e, o1, w1)" by (cases "Validate v obj w") auto
  from Cons.prems(1) have "fst (snd (Validate v obj w)) = obj" by (simp add: keeps_object_def)
  with step have "o1 = obj" by simp
  with Cons step show ?case by (auto simp: Let_def split: prod.splits)
qed

lemma UntilError_None_iff:
  "UntilError vs obj w = (None, o', w') \<longleftrightarrow>
     (\<exists>es. run_all (map (New []) vs) obj w = (es, o', w') \<and> list_all (\<lambda>e. e = None) es)"
  by (induction vs arbitrary: obj w) (auto simp: New_def Let_def split: prod.splits option.splits)

lemma UntilError_append:
  "UntilError (vs @ ws) obj w =
     (case UntilError vs obj w of
        (None, o', w') \<Rightarrow> UntilError ws o' w'
      | (Some e, o', w') \<Rightarrow> (Some e, o', w'))"
  by (induction vs arbitrary: obj w) (auto split: prod.splits option.splits)

lemma UntilError_SomeE:
  assumes "UntilError vs obj w = (Some err, o', w')"
  obtains xs v ys o1 w1 where "vs = xs @ v # ys" and "UntilError xs obj w = (None, o1, w1)"
    and "v o1 w1 = (Some err, o', w')"
proof -
  have "\<exists>xs v ys o1 w1. vs = xs @ v # ys \<and> UntilError xs obj w = (None, o1, w1) \<and> v o1 w1 = (Some err, o', w')"
    using assms
  proof (induction vs arbitrary: obj w)
    case Nil
    then show ?case by simp
  next
    case (Cons v vs)
    obtain e o1 w1 where step: "v obj w = (e, o1, w1)" by (cases "v obj w") auto
    show ?case
    proof (cases e)
      case (Some e')
      with step Cons.prems have "v # vs = [] @ v # vs \<and> UntilError [] obj w = (None, obj, w) \<and> v obj w = (Some err, o', w')"
        by simp
      then show ?thesis by blast
    next
      case None
      with step Cons.prems have "UntilError vs o1 w1 = (Some err, o', w')" by simp
      then obtain xs u ys o2 w2 where "vs = xs @ u # ys" and "UntilError xs o1 w1 = (None, o2, w2)"
        and "u o2 w2 = (Some err, o', w')"
        using Cons.IH by blast
      with step None have "v # vs = (v # xs) @ u # ys \<and> UntilError (v # xs) obj w = (None, o2, w2) \<and> u o2 w2 = (Some err, o', w')"
        by simp
      then show ?thesis by blast
    qed
  qed
  with that show thesis by blast
qed

lemma LoggerPrinter_Done_Some:
  "LoggerPrinter_Done name (Some e) lg =
     lg @ map (\<lambda>x. \<lparr>le_level = (if IsWarning x then WarnLevel else ErrorLevel),
                    le_message = ''Validation failed'', le_fields = failure_fields name x\<rparr>) (Unwrap e)"
proof -
  have "foldl (\<lambda>l e. if IsWarning e then logWarningWithRemediation name e l else logErrorWithRemediation name e l) lg es =
      lg @ map (\<lambda>x. \<lparr>le_level = (if IsWarning x then WarnLevel else ErrorLevel),
                    le_message = ''Validation failed'', le_fields = failure_fields name x\<rparr>) es" for es
    by (induction es arbitrary: lg) (auto simp: logWarningWithRemediation_def logErrorWithRemediation_def)
  then show ?thesis by (simp add: LoggerPrinter_Done_def)
qed

section \<open>Properties\<close>

text \<open>C29: The runner runs every registered validation that is not in the skip list, in order and whatever the earlier ones
  returned, and returns the join of exactly their non-warning errors: nil if there is none.\<close>

theorem runner_reports_all:
  assumes "list_all keeps_object vs"
  shows "Sequentially (Register (NewRunner [WithSkipValidations skips]) vs) obj w =
     (case run_all (filter (\<lambda>v. Name v \<notin> set skips) vs) obj w of
        (es, _, w') \<Rightarrow> (Returned (errors_Join (failures es)), w'))"
proof -
  let ?vs = "filter (\<lambda>v. Name v \<notin> set skips) vs"
  have r: "validations (Register (NewRunner [WithSkipValidations skips]) vs) = ?vs"
    by (simp add: Register_eq NewRunner_def WithSkipValidations_def)
  obtain es o' w' where run: "run_all ?vs obj w = (es, o', w')" by (cases "run_all ?vs obj w") auto
  moreover have "o' = obj" using assms by (intro run_all_keeps [OF _ run]) (auto simp: list_all_iff)
  ultimately show ?thesis by (simp add: Sequentially_def r Sequentially_loop_eq)
qed

definition sample_validations :: "(nat, string list) validation list" where
  "sample_validations =
     [New ''warns'' (\<lambda>n w. (Some (NewWarning ''w'' ''fix''), n, w @ [''warns''])),
      New ''fails'' (\<lambda>n w. (Some (ErrMsg ''bad''), n, w @ [''fails''])),
      New ''skipped'' (\<lambda>n w. (Some (ErrMsg ''never''), n, w @ [''skipped''])),
      New ''passes'' (\<lambda>n w. (None, n, w @ [''passes'']))]"

theorem runner_reports_all_witness:
  "Sequentially (Register (NewRunner [WithSkipValidations [''skipped'']]) sample_validations) 7 [] =
     (Returned (Some (ErrJoin [ErrMsg ''bad''])), [''warns'', ''fails'', ''passes''])"
proof -
  have "list_all keeps_object sample_validations"
    by (simp add: sample_validations_def keeps_object_def New_def)
  note runner_reports_all [OF this, of "[''skipped'']" 7 "[]"]
  also have "(case run_all (filter (\<lambda>v. Name v \<notin> set [''skipped'']) sample_validations) 7 [] of
      (es, _, w') \<Rightarrow> (Returned (errors_Join (failures es)), w')) =
      (Returned (Some (ErrJoin [ErrMsg ''bad''])), [''warns'', ''fails'', ''passes''])"
    by code_simp
  finally show ?thesis .
qed

text \<open>A runner panics exactly when running its validations leaves the object under validation changed.\<close>

theorem runner_panics_iff_mutated:
  "(\<exists>msg. fst (Sequentially r obj w) = Panicked msg) \<longleftrightarrow> fst (snd (run_all (validations r) obj w)) \<noteq> obj"
proof -
  obtain es o' w' where run: "run_all (validations r) obj w = (es, o', w')" by (cases "run_all (validations r) obj w") auto
  then show ?thesis using Sequentially_loop_eq [OF run, of "[]"] by (auto simp: Sequentially_def)
qed

text \<open>A chain of validations until an error runs them in order on the state the earlier ones left, and stops at
  the first error, which it returns.\<close>

theorem until_error_stops_at_first:
  assumes "UntilError vs obj w = (Some err, o', w')"
  shows "\<exists>xs v ys o1 w1 es. vs = xs @ v # ys \<and> run_all (map (New []) xs) obj w = (es, o1, w1) \<and>
    list_all (\<lambda>e. e = None) es \<and> v o1 w1 = (Some err, o', w')"
proof -
  from assms obtain xs v ys o1 w1 where s: "vs = xs @ v # ys" "UntilError xs obj w = (None, o1, w1)" "v o1 w1 = (Some err, o', w')"
    by (rule UntilError_SomeE)
  from s(2) obtain es where "run_all (map (New []) xs) obj w = (es, o1, w1)" "list_all (\<lambda>e. e = None) es"
    unfolding UntilError_None_iff by iprover
  with s(1,3) show ?thesis by iprover
qed

theorem until_error_stops_at_first_witness:
  "\<exists>xs v ys o1 w1 es. map Validate sample_validations = xs @ v # ys \<and> run_all (map (New []) xs) 7 [] = (es, o1, w1) \<and>
    list_all (\<lambda>e. e = None) es \<and> v o1 w1 = (Some (NewWarning ''w'' ''fix''), 7, [''warns''])"
  by (rule until_error_stops_at_first) code_simp

text \<open>The structured log of a validation's result has one error entry for each error that the runner counts as a
  failure, and one warning entry for each of its warnings.\<close>

theorem log_levels_match_runner:
  "length (filter (\<lambda>l. le_level l = ErrorLevel) (LoggerPrinter_Done name (Some e) [])) = length (failures [Some e]) \<and>
   length (LoggerPrinter_Done name (Some e) []) = length (Unwrap e)"
proof -
  have "length (filter (\<lambda>l. le_level l = ErrorLevel) (map (\<lambda>x. \<lparr>le_level = (if IsWarning x then WarnLevel else ErrorLevel),
      le_message = m, le_fields = failure_fields name x\<rparr>) es)) = length (filter (\<lambda>x. \<not> IsWarning x) es)" for m es
    by (induction es) auto
  then show ?thesis by (simp add: LoggerPrinter_Done_Some failures_def)
qed

end
