(* ===== verification/Util.thy ===== *)
theory Util
  imports Sample_World Validation
begin

text \<open>
  \<open>internal/util\<close> and \<open>internal/retry\<close>: files with their directories, the loops that try
  again (\<open>cmd.Retry\<close>, \<open>RetryExponentialBackoff\<close>, the HTTP client, \<open>Retrier.Do\<close>), and
  \<open>internal/cleanup\<close>.

  The loops \<open>for { attempt; select { ctx.Done | time.After(backoff) } }\<close> of \<open>cmd.Retry\<close>,
  \<open>daemon.WaitForStatus\<close> and \<open>daemon.RetryOperation\<close> need not end: they are instances of
  \<open>poll\<close>, whose value is \<open>None\<close> when the loop runs for ever. \<open>poll_returns\<close> shows that a deadline
  ends it.
\<close>

section \<open>Files\<close>

definition WriteFileWithDir :: "environment \<Rightarrow> path \<Rightarrow> bytes \<Rightarrow> nat \<Rightarrow> unit wio" where
  "WriteFileWithDir env filePath data perm =
     thenE (os_MkdirAll env (Dir filePath) perm) (os_WriteFile env filePath data perm)"

definition IsFilePathExists :: "environment \<Rightarrow> path \<Rightarrow> bool wio" where
  "IsFilePathExists env filePath =
     bindE (tryE (os_Stat env filePath)) (\<lambda>r. case r of
        Inr _ \<Rightarrow> returnE True
      | Inl err \<Rightarrow> if errors_Is_NotExist err then returnE False else throwE err)"

text \<open>\<open>file.Exists\<close>: any outcome of \<open>Stat\<close> but "not exist" counts as existing.\<close>

definition file_Exists :: "environment \<Rightarrow> path \<Rightarrow> bool wio" where
  "file_Exists env filePath =
     bindE (tryE (os_Stat env filePath)) (\<lambda>r. case r of
        Inr _ \<Rightarrow> returnE True
      | Inl err \<Rightarrow> returnE (\<not> os_IsNotExist err))"

text \<open>\<open>io.Copy\<close> into a file: what was read is written, then the read error is returned.\<close>

definition io_Copy :: "environment \<Rightarrow> path \<Rightarrow> stream \<Rightarrow> unit wio" where
  "io_Copy env p src =
     thenE (file_Write env p (fst src)) (case snd src of None \<Rightarrow> returnE () | Some e \<Rightarrow> throwE e)"

definition WriteFileWithDirFromReader :: "environment \<Rightarrow> path \<Rightarrow> stream \<Rightarrow> nat \<Rightarrow> unit wio" where
  "WriteFileWithDirFromReader env p reader perm =
     thenE (os_MkdirAll env (Dir p) perm)
      (thenE (os_Create env p 438)
       (thenE (io_Copy env p reader) (os_Chmod env p perm)))"

text \<open>\<open>os.OpenFile\<close> with \<open>O_APPEND|O_CREATE|O_RDWR\<close> and the contents read by the scanner.\<close>

definition open_append :: "environment \<Rightarrow> path \<Rightarrow> nat \<Rightarrow> bytes wio" where
  "open_append env p perm = sys env (OpCreate p) no_part
     (\<lambda>f. if \<not> is_dir f (Dir p) then (Inl (ErrNotExist (''open '' @ p @ '': no such file or directory'')), f)
          else if is_dir f p then (Inl (ErrMsg (''open '' @ p @ '': is a directory'')), f)
          else (case f p of
                  Some (DirNode _) \<Rightarrow> (Inl (ErrMsg (''open '' @ p @ '': is a directory'')), f)
                | Some (RegFile c m) \<Rightarrow> (Inr c, f)
                | None \<Rightarrow> (Inr [], f(p \<mapsto> RegFile [] perm))))"

definition WriteFileUniqueLine :: "environment \<Rightarrow> path \<Rightarrow> bytes \<Rightarrow> nat \<Rightarrow> unit wio" where
  "WriteFileUniqueLine env p data perm =
     thenE (os_MkdirAll env (Dir p) perm)
      (bindE (open_append env p perm) (\<lambda>contents.
         if list_ex (\<lambda>l. Contains l data) (Scanner_lines contents) then returnE ()
         else file_Write env p (data @ [newline])))"

section \<open>Polling loops\<close>

text \<open>An attempt ends with \<open>Inr ()\<close> (done) or \<open>Inl s\<close> (not yet, with what the final error shows).\<close>

partial_function (option) poll ::
  "('s + unit) wio \<Rightarrow> (nat \<Rightarrow> 's \<Rightarrow> goerr) \<Rightarrow> ctx \<Rightarrow> nat \<Rightarrow> nat \<Rightarrow> world \<Rightarrow> ((goerr + unit) \<times> world) option" where
  "poll attempt onDone c backoff k w =
     Option.bind (attempt w) (\<lambda>p.
       case fst p of
         Inl e \<Rightarrow> Some (Inl e, snd p)
       | Inr (Inr u) \<Rightarrow> Some (Inr u, snd p)
       | Inr (Inl s) \<Rightarrow>
           Option.bind (select_done_or_after c backoff (snd p)) (\<lambda>q.
             if fst q = Inr True then Some (Inl (onDone (Suc k) s), snd q)
             else poll attempt onDone c backoff (Suc k) (snd q)))"

declare poll.simps [code]

text \<open>\<open>exec.CommandContext\<close>: a command is not started when its context is already done, and is
  killed when the deadline passes while it runs.\<close>

definition ctx_CombinedOutput :: "environment \<Rightarrow> ctx \<Rightarrow> string list \<Rightarrow> (bytes \<times> goerr option) wio" where
  "ctx_CombinedOutput env c args = (\<lambda>w.
     case c of
       None \<Rightarrow> CombinedOutput env args w
     | Some t \<Rightarrow>
         if t \<le> clock w then Some (Inr ([], Some ctx_err), w)
         else let r = run_cmd env (steps w) args (fs w) in
           if clock w + cr_elapsed r \<le> t then CombinedOutput env args w
           else Some (Inr (cr_out r, Some (ErrMsg ''signal: killed'')),
                      w\<lparr>fs := cr_fs r, clock := t, steps := Suc (steps w), trace := trace w @ [EvCmd args]\<rparr>))"

definition Retry_attempt :: "environment \<Rightarrow> ctx \<Rightarrow> string list \<Rightarrow> (goerr + unit) wio" where
  "Retry_attempt env c args =
     bindE (ctx_CombinedOutput env c args) (\<lambda>(out, err). case err of
        None \<Rightarrow> returnE (Inr ())
      | Some e \<Rightarrow> returnE (Inl (ErrMsg (''running command '' @ join_with '' '' args @ '': '' @ out @ '' [Err '' @ error_text e @ '']''))))"

definition Retry :: "environment \<Rightarrow> ctx \<Rightarrow> string list \<Rightarrow> nat \<Rightarrow> unit wio" where
  "Retry env c newCmd backoff =
     poll (Retry_attempt env c newCmd) (\<lambda>_ err. ErrWrap (error_text ctx_err) err) c backoff 0"

fun RetryExponentialBackoff_loop :: "nat \<Rightarrow> nat \<Rightarrow> goerr option \<Rightarrow> unit wio \<Rightarrow> unit wio" where
  "RetryExponentialBackoff_loop 0 wait err f = (case err of None \<Rightarrow> returnE () | Some e \<Rightarrow> throwE e)"
| "RetryExponentialBackoff_loop (Suc n) wait err f =
     bindE (tryE f) (\<lambda>r. case r of
        Inr _ \<Rightarrow> returnE ()
      | Inl e \<Rightarrow> thenE (time_Sleep wait) (RetryExponentialBackoff_loop n (wait * 2) (Some e) f))"

definition RetryExponentialBackoff :: "nat \<Rightarrow> nat \<Rightarrow> unit wio \<Rightarrow> unit wio" where
  "RetryExponentialBackoff attempts initial f = RetryExponentialBackoff_loop attempts initial None f"

section \<open>The HTTP client\<close>

fun retryHttpClient_Do :: "environment \<Rightarrow> nat \<Rightarrow> goerr \<Rightarrow> string \<Rightarrow> http_response wio" where
  "retryHttpClient_Do env 0 err req = throwE (ErrWrap (''max retries achieved for http request: '' @ req @ '' '') err)"
| "retryHttpClient_Do env (Suc n) err req =
     bindE (tryE (http_Get env req)) (\<lambda>r. case r of
        Inl e \<Rightarrow> retryHttpClient_Do env n e req
      | Inr resp \<Rightarrow>
          if StatusCode resp \<noteq> 200
          then retryHttpClient_Do env n (ErrMsg (''unexpected status code: '' @ dec_digits (StatusCode resp))) req
          else returnE resp)"

definition GetHttpFileReader :: "environment \<Rightarrow> string \<Rightarrow> stream wio" where
  "GetHttpFileReader env uri =
     bindE (wrapE (''failed reading file from url: '' @ uri) (retryHttpClient_Do env 3 (ErrMsg []) uri))
       (\<lambda>resp. returnE (Body resp))"

definition GetHttpFile :: "environment \<Rightarrow> string \<Rightarrow> bytes wio" where
  "GetHttpFile env uri =
     bindE (GetHttpFileReader env uri) (\<lambda>body. case snd body of
        None \<Rightarrow> returnE (fst body)
      | Some e \<Rightarrow> throwE (ErrWrap (''failed reading file from url: '' @ uri) e))"

section \<open>The retrier\<close>

text \<open>\<open>NewMaxConsecutiveErrorHandler\<close>: the closure's counter is the state.\<close>

definition MaxConsecutiveErrorHandler :: "int \<Rightarrow> goerr option \<Rightarrow> int \<Rightarrow> goerr option \<times> int" where
  "MaxConsecutiveErrorHandler maxAttempts err attempts =
     (let attempts' = (case err of None \<Rightarrow> 0 | Some _ \<Rightarrow> attempts + 1) in
      (if attempts' \<le> maxAttempts then None
       else Some (case err of
                    None \<Rightarrow> ErrMsg (''max attempts '' @ itoa maxAttempts @ '' reached: %!w(<nil>)'')
                  | Some e \<Rightarrow> ErrWrap (''max attempts '' @ itoa maxAttempts @ '' reached'') e), attempts'))"

text \<open>One turn of \<open>Retrier.Do\<close>: the operation's answer \<open>(done, err)\<close> and the error handler's
  verdict give what the condition function tells the wait loop and the new \<open>lastErr\<close>. The handler
  replaces \<open>err\<close>, so a handled error does not keep a \<open>done\<close> operation from ending the loop.\<close>

definition Do_turn ::
  "(goerr option \<Rightarrow> 'h \<Rightarrow> goerr option \<times> 'h) option \<Rightarrow> bool \<Rightarrow> goerr option \<Rightarrow> goerr option \<times> 'h
     \<Rightarrow> (goerr + bool) \<times> goerr option \<times> 'h" where
  "Do_turn HandleError done err st =
     (let lastErr = (case err of None \<Rightarrow> fst st | Some e \<Rightarrow> Some e) in
      case HandleError of
        None \<Rightarrow> (Inr (done \<and> err = None), lastErr, snd st)
      | Some h \<Rightarrow>
          (case h err (snd st) of
             (Some e, s') \<Rightarrow> (Inl e, lastErr, s')
           | (None, s') \<Rightarrow> (Inr done, lastErr, s')))"

text \<open>What \<open>Do\<close> returns, from the wait loop's error, whether it is an interruption, and \<open>lastErr\<close>.\<close>

definition Do_result :: "goerr option \<Rightarrow> bool \<Rightarrow> goerr option \<Rightarrow> goerr option" where
  "Do_result err interrupted lastErr =
     (case (err, lastErr) of
        (Some e, Some l) \<Rightarrow> if interrupted then Some (ErrWrap (error_text e @ '' while retrying'') l) else Some e
      | _ \<Rightarrow> err)"

section \<open>Forced clean-up\<close>

definition cleanupDirs :: "path list" where
  "cleanupDirs = [''/var/lib/cni'', ''/etc/cni/net.d'']"

definition Cleanup :: "environment \<Rightarrow> path \<Rightarrow> unit wio" where
  "Cleanup env rootDir =
     forE cleanupDirs (\<lambda>dir.
       wrapE (''removing directory '' @ dir) (os_RemoveAll env (Join [rootDir, TrimPrefix dir ''/''])))"

section \<open>Facts\<close>

text \<open>A deadline ends every polling loop: with a positive backoff, an attempt that returns and a
  clock that the attempt does not turn back.\<close>

definition polite :: "'a wio \<Rightarrow> bool" where
  "polite m \<longleftrightarrow> (\<forall>w. \<exists>r w'. m w = Some (r, w') \<and> clock w \<le> clock w')"

lemma poll_returns:
  assumes "polite attempt" and "0 < backoff"
  shows "\<exists>r w'. poll attempt onDone (Some t) backoff k w = Some (r, w')"
proof (induction "t - clock w" arbitrary: k w rule: less_induct)
  case less
  from assms(1) obtain r w1 where a: "attempt w = Some (r, w1)" and le: "clock w \<le> clock w1"
    unfolding polite_def by blast
  show ?case
  proof (cases "\<exists>s. r = Inr (Inl s)")
    case False
    with a show ?thesis by (cases r) (auto simp: poll.simps [of attempt] split: sum.splits)
  next
    case True
    then obtain s where r: "r = Inr (Inl s)" by blast
    show ?thesis
    proof (cases "t \<le> clock w1 + backoff")
      case True
      with a r select_done [OF True] show ?thesis by (simp add: poll.simps [of attempt])
    next
      case False
      let ?w2 = "w1\<lparr>clock := clock w1 + backoff\<rparr>"
      from False have sel: "select_done_or_after (Some t) backoff w1 = Some (Inr False, ?w2)"
        by (simp add: select_after)
      from False le assms(2) have "t - clock ?w2 < t - clock w" by simp
      from less.hyps [OF this] obtain r' w' where
        "poll attempt onDone (Some t) backoff (Suc k) ?w2 = Some (r', w')" by blast
      with a r sel show ?thesis by (simp add: poll.simps [of attempt _ _ _ k])
    qed
  qed
qed


lemma select_cases:
  assumes "select_done_or_after c d w = Some q"
  obtains "fst q = Inr True" and "snd q = w\<lparr>clock := clock (snd q)\<rparr>"
  | "fst q = Inr False" and "snd q = w\<lparr>clock := clock (snd q)\<rparr>"
  using assms by (auto simp: select_done_or_after_def split: option.splits if_splits)

lemma valid_poll:
  assumes att: "valid I attempt (\<lambda>r. case r of Inl s \<Rightarrow> I | Inr u \<Rightarrow> Q u) R"
    and clk: "\<And>w n. I w \<Longrightarrow> I (w\<lparr>clock := n\<rparr>)"
    and dn: "\<And>k s w. I w \<Longrightarrow> R (onDone k s) w"
  shows "valid I (poll attempt onDone c backoff k) Q R"
proof -
  let ?ok = "\<lambda>y. case fst y of Inl e \<Rightarrow> R e (snd y) | Inr x \<Rightarrow> Q x (snd y)"
  have *: "at = attempt \<longrightarrow> od = onDone \<longrightarrow> I w \<longrightarrow> ?ok y"
    if "poll at od cc b k w = Some y" for at od cc b k w y
    using that
  proof (rule poll.raw_induct [rotated, where P = "\<lambda>at od cc b k w y. at = attempt \<longrightarrow> od = onDone \<longrightarrow> I w \<longrightarrow> ?ok y"], intro impI)
    fix pl at od cc b k w y
    assume IH: "\<And>at od cc b k w y. pl at od cc b k w = Some y \<Longrightarrow> at = attempt \<longrightarrow> od = onDone \<longrightarrow> I w \<longrightarrow> ?ok y"
      and body: "Option.bind (at w) (\<lambda>p. case fst p of Inl e \<Rightarrow> Some (Inl e, snd p)
         | Inr (Inr u) \<Rightarrow> Some (Inr u, snd p)
         | Inr (Inl s) \<Rightarrow> Option.bind (select_done_or_after cc b (snd p)) (\<lambda>q.
             if fst q = Inr True then Some (Inl (od (Suc k) s), snd q) else pl at od cc b (Suc k) (snd q))) = Some y"
      and eqs: "at = attempt" "od = onDone" and I: "I w"
    from body eqs obtain p where p: "attempt w = Some p" by (auto simp: bind_eq_Some_conv)
    obtain r w1 where pw: "p = (r, w1)" by (cases p)
    with att p I have a: "case r of Inl e \<Rightarrow> R e w1 | Inr (Inl s) \<Rightarrow> I w1 | Inr (Inr u) \<Rightarrow> Q u w1"
      unfolding valid_def by (fastforce split: sum.splits)
    show "?ok y"
    proof (cases "\<exists>s. r = Inr (Inl s)")
      case False
      with body eqs p pw a show ?thesis by (auto split: sum.splits)
    next
      case True
      then obtain s where r: "r = Inr (Inl s)" by blast
      with body eqs p pw obtain q where q: "select_done_or_after cc b w1 = Some q"
        and rest: "(if fst q = Inr True then Some (Inl (onDone (Suc k) s), snd q) else pl attempt onDone cc b (Suc k) (snd q)) = Some y"
        by (auto simp: bind_eq_Some_conv)
      from a r clk have I1: "I (w1\<lparr>clock := n\<rparr>)" for n by simp
      from q show ?thesis
      proof (cases rule: select_cases)
        case 1
        from 1(2) I1 have "I (snd q)" by metis
        with dn rest 1(1) show ?thesis by auto
      next
        case 2
        from 2(2) I1 have "I (snd q)" by metis
        moreover from rest 2(1) have "pl attempt onDone cc b (Suc k) (snd q) = Some y" by simp
        ultimately show ?thesis using IH by blast
      qed
    qed
  qed
  then show ?thesis by (fastforce simp: valid_def split: sum.splits)
qed

lemma returns_pollI: "polite attempt \<Longrightarrow> 0 < backoff \<Longrightarrow> returns (poll attempt onDone (Some t) backoff k)"
  using poll_returns by (fastforce simp: returns_def)

lemma polite_CombinedOutput: "polite (ctx_CombinedOutput env c args)"
  by (auto simp: polite_def ctx_CombinedOutput_def CombinedOutput_def Let_def split: option.splits)

lemma polite_bind_pure:
  "polite m \<Longrightarrow> (\<And>x. \<exists>r. k x = liftE r) \<Longrightarrow> polite (bindE m k)"
  unfolding polite_def
proof (intro allI)
  fix w assume m: "\<forall>w. \<exists>r w'. m w = Some (r, w') \<and> clock w \<le> clock w'" and k: "\<And>x. \<exists>r. k x = liftE r"
  from m obtain r w' where mw: "m w = Some (r, w')" "clock w \<le> clock w'" by blast
  show "\<exists>r w'. bindE m k w = Some (r, w') \<and> clock w \<le> clock w'"
  proof (cases r)
    case (Inl e)
    with mw show ?thesis by (auto simp: bindE_def)
  next
    case (Inr x)
    moreover obtain s where "k x = liftE s" using k by blast
    ultimately show ?thesis using mw by (auto simp: bindE_def liftE_def)
  qed
qed

lemma liftE_forms: "returnE x = liftE (Inr x)" "throwE e = liftE (Inl e)"
  by (auto simp: returnE_def throwE_def liftE_def)

lemma polite_Retry_attempt: "polite (Retry_attempt env c args)"
  unfolding Retry_attempt_def
  by (rule polite_bind_pure [OF polite_CombinedOutput]) (auto simp: liftE_forms split: prod.splits option.splits)

lemma Retry_returns: "0 < backoff \<Longrightarrow> returns (Retry env (Some t) args backoff)"
  unfolding Retry_def by (rule returns_pollI [OF polite_Retry_attempt])

lemma ctx_CombinedOutput_off:
  assumes "\<And>w f c n tr. I (w\<lparr>fs := f, clock := c, steps := n, trace := tr\<rparr>) = I w"
  shows "preserves I (ctx_CombinedOutput env c args)"
proof -
  have "I (w\<lparr>fs := f, clock := c, steps := n, trace := tr\<rparr>)" if "I w" for w f c n tr
    using assms that by simp
  then show ?thesis
    by (auto simp: valid_def ctx_CombinedOutput_def CombinedOutput_def Let_def split: option.splits if_splits)
qed

text \<open>What a command does to the file system is the command's business. A path the commands of an
  environment leave alone:\<close>

definition cmds_keep :: "environment \<Rightarrow> path \<Rightarrow> bool" where
  "cmds_keep env q \<longleftrightarrow> (\<forall>n args f. cr_fs (run_cmd env n args f) q = f q)"

lemma ctx_CombinedOutput_fs:
  "cmds_keep env q \<Longrightarrow> preserves (\<lambda>w. P (fs w q)) (ctx_CombinedOutput env c args)"
  by (auto simp: valid_def ctx_CombinedOutput_def CombinedOutput_def cmds_keep_def Let_def split: option.splits if_splits)

lemma preserves_Retry:
  assumes "preserves I (ctx_CombinedOutput env c args)" and "\<And>w n. I w \<Longrightarrow> I (w\<lparr>clock := n\<rparr>)"
  shows "preserves I (Retry env c args backoff)"
proof -
  from assms(1) have "preserves I (Retry_attempt env c args)"
    unfolding Retry_attempt_def by (auto intro!: preserves_bindE preserves_returnE split: option.splits)
  then have "valid I (Retry_attempt env c args) (\<lambda>r. case r of Inl s \<Rightarrow> I | Inr u \<Rightarrow> I) (\<lambda>_. I)"
    by (rule valid_post) (auto split: sum.splits)
  then show ?thesis unfolding Retry_def by (rule valid_poll) (auto intro: assms(2))
qed

lemma preserves_Retry_fs:
  "cmds_keep env q \<Longrightarrow> preserves (\<lambda>w. P (fs w q)) (Retry env c args backoff)"
  by (auto intro!: preserves_Retry ctx_CombinedOutput_fs)

lemma preserves_Retry_process:
  "preserves (\<lambda>w. P (tracker_obj w) (SsmDaemonName w)) (Retry env c args backoff)"
  by (auto intro!: preserves_Retry ctx_CombinedOutput_off)

text \<open>A command succeeded: the last event is its run, and the run returned no error.\<close>

definition last_run_ok :: "environment \<Rightarrow> string list \<Rightarrow> world \<Rightarrow> bool" where
  "last_run_ok env args w \<longleftrightarrow>
     (\<exists>n f evs. cr_err (run_cmd env n args f) = None \<and> fs w = cr_fs (run_cmd env n args f) \<and> trace w = evs @ [EvCmd args])"

lemma Retry_ok: "valid_ok (\<lambda>_. True) (Retry env c args backoff) (\<lambda>_. last_run_ok env args)"
proof -
  have co: "valid_ok (\<lambda>_. True) (ctx_CombinedOutput env c args) (\<lambda>oe w. snd oe = None \<longrightarrow> last_run_ok env args w)"
    by (auto simp: valid_def ctx_CombinedOutput_def CombinedOutput_def last_run_ok_def Let_def
        split: option.splits if_splits sum.splits)
  have "valid_ok (\<lambda>_. True) (Retry_attempt env c args)
          (\<lambda>r. case r of Inl s \<Rightarrow> \<lambda>_. True | Inr u \<Rightarrow> last_run_ok env args)"
    unfolding Retry_attempt_def
    by (rule valid_bindE [OF co]) (auto simp: valid_def split: prod.splits option.splits)
  then show ?thesis unfolding Retry_def by (rule valid_poll) auto
qed

subsection \<open>Files\<close>

lemma WriteFileWithDir_ok:
  "valid_ok P (WriteFileWithDir env p d m) (\<lambda>_ w. \<exists>m'. fs w p = Some (RegFile d m'))"
  unfolding WriteFileWithDir_def
  by (rule valid_thenE [where B = "\<lambda>_. True"]) (auto simp: valid_def [of P] intro: WriteFile_ok split: sum.splits)

lemma returns_io_Copy: "returns (io_Copy env p src)"
  unfolding io_Copy_def by (auto intro!: returns_intros returns_os split: option.splits)

lemma io_Copy_ok:
  "valid_ok (\<lambda>w. fs w p = Some (RegFile c m)) (io_Copy env p src)
     (\<lambda>_ w. fs w p = Some (RegFile (c @ fst src) m) \<and> snd src = None)"
  unfolding io_Copy_def
  by (rule valid_thenE [OF Write_ok]) (auto simp: valid_def split: option.splits)

lemma split_on_append_last:
  "c \<notin> set d \<Longrightarrow> split_on c (s @ d) = butlast (split_on c s) @ [last (split_on c s) @ d]"
proof (induction s)
  case Nil
  then show ?case by (simp add: split_on_no_sep)
next
  case (Cons x xs)
  obtain y ys where "split_on c xs = y # ys" by (cases "split_on c xs") auto
  with Cons show ?case by (cases ys) auto
qed

definition has_line :: "bytes \<Rightarrow> bytes \<Rightarrow> bool" where
  "has_line data contents = list_ex (\<lambda>l. Contains l data) (scan_lines contents)"

lemma has_line_appended:
  assumes "newline \<notin> set d" and "d \<noteq> []" and "last d \<noteq> CHR 0x0D"
  shows "has_line d (c @ d @ [newline])"
proof -
  have "split_on newline ((c @ d) @ newline # []) = split_on newline (c @ d) @ [[]]"
    by (simp only: split_on_append) simp
  then have "scan_lines (c @ d @ [newline]) = map drop_cr (split_on newline (c @ d))"
    by (simp add: scan_lines_def Let_def)
  moreover have "last (split_on newline c) @ d \<in> set (split_on newline (c @ d))"
    using assms(1) by (simp add: split_on_append_last)
  moreover have "drop_cr (last (split_on newline c) @ d) = last (split_on newline c) @ d"
    using assms(2,3) by (simp add: drop_cr_def)
  moreover have "Contains (last (split_on newline c) @ d) d"
    by (auto simp: Contains_iff intro: exI [of _ "[]"])
  ultimately show ?thesis unfolding has_line_def list_ex_iff by (metis image_eqI list.set_map)
qed

lemma open_append_ok:
  "valid_ok P (open_append env p m) (\<lambda>c w. \<exists>m'. fs w p = Some (RegFile c m'))"
  by (auto simp: valid_def open_append_def sys_def Let_def
      split: option.splits sum.splits prod.splits if_splits fnode.splits)

lemma WriteFileUniqueLine_ok:
  assumes "newline \<notin> set d" and "d \<noteq> []" and "last d \<noteq> CHR 0x0D"
  shows "valid_ok P (WriteFileUniqueLine env p d m) (\<lambda>_ w. \<exists>c m'. fs w p = Some (RegFile c m') \<and> has_line d c)"
proof -
  have wr: "valid_ok (\<lambda>w. \<exists>m'. fs w p = Some (RegFile c m')) (file_Write env p (d @ [newline]))
              (\<lambda>_ w. \<exists>c m'. fs w p = Some (RegFile c m') \<and> has_line d c)" for c
    using has_line_appended [OF assms]
    by (auto simp: valid_def file_Write_def sys_def append_to_def Let_def split: option.splits sum.splits)
  have "valid_ok (\<lambda>w. \<exists>m'. fs w p = Some (RegFile c m'))
          (if list_ex (\<lambda>l. Contains l d) (Scanner_lines c) then returnE () else file_Write env p (d @ [newline]))
          (\<lambda>_ w. \<exists>c m'. fs w p = Some (RegFile c m') \<and> has_line d c)" for c
  proof (cases "list_ex (\<lambda>l. Contains l d) (Scanner_lines c)")
    case True
    then have "has_line d c" using Scanner_lines_subset [of c] by (auto simp: has_line_def list_ex_iff)
    with True show ?thesis by (auto simp: valid_def)
  next
    case False
    then show ?thesis using wr [of c] by simp
  qed
  then show ?thesis unfolding WriteFileUniqueLine_def
    by (intro valid_thenE [where B = "\<lambda>_. True"] valid_bindE [OF open_append_ok])
      (auto simp: valid_def split: sum.splits)
qed

lemma retryHttp_200: "valid_ok P (retryHttpClient_Do env n err req) (\<lambda>r _. StatusCode r = 200)"
proof (induction n arbitrary: err P)
  case 0
  show ?case by (simp add: valid_def)
next
  case (Suc n)
  show ?case unfolding retryHttpClient_Do.simps
    by (rule valid_bindE [where B = "\<lambda>_ _. True"]) (use Suc in \<open>auto simp: valid_def split: sum.splits\<close>)
qed

lemma returns_retryHttp: "returns (retryHttpClient_Do env n err req)"
  by (induction n arbitrary: err) (auto intro!: returns_intros returns_os split: sum.splits)

lemma returns_http: "returns (GetHttpFileReader env uri)" "returns (GetHttpFile env uri)"
  unfolding GetHttpFile_def GetHttpFileReader_def
  by (auto intro!: returns_intros returns_retryHttp split: option.splits)

text \<open>At most three requests are sent, and none after the first good answer.\<close>

lemma retryHttp_requests:
  "retryHttpClient_Do env n err req w = Some (r, w') \<Longrightarrow>
     \<exists>k \<le> n. trace w' = trace w @ replicate k (EvHttp req) \<and> steps w' = steps w + k \<and> fs w' = fs w"
proof (induction n arbitrary: err w)
  case 0
  then show ?case by simp
next
  case (Suc n)
  let ?w1 = "w\<lparr>steps := Suc (steps w), trace := trace w @ [EvHttp req]\<rparr>"
  have "r = Inr (projr r) \<and> w' = ?w1 \<or> (\<exists>e. retryHttpClient_Do env n e req ?w1 = Some (r, w'))"
    using Suc.prems
    by (auto simp: bindE_def tryE_def http_Get_def split: sum.splits if_splits option.splits)
  then show ?case
  proof
    assume "r = Inr (projr r) \<and> w' = ?w1"
    then show ?thesis by (intro exI [of _ 1]) auto
  next
    assume "\<exists>e. retryHttpClient_Do env n e req ?w1 = Some (r, w')"
    then obtain e k where "k \<le> n" "trace w' = trace ?w1 @ replicate k (EvHttp req)" "steps w' = steps ?w1 + k" "fs w' = fs ?w1"
      using Suc.IH by blast
    then show ?thesis by (intro exI [of _ "Suc k"]) auto
  qed
qed

section \<open>Properties\<close>

text \<open>Downloading a file always ends, after at most three requests for that address, and touches no file.\<close>

theorem http_file_bounded:
  "\<exists>r w' k. GetHttpFile env uri w = Some (r, w') \<and> k \<le> 3 \<and> trace w' = trace w @ replicate k (EvHttp uri) \<and> fs w' = fs w"
proof -
  obtain r w' where run: "GetHttpFile env uri w = Some (r, w')"
    using returns_http(2) [of env uri] by (metis old.prod.exhaust option.exhaust returns_def)
  obtain r1 w1 where do1: "retryHttpClient_Do env 3 (ErrMsg ''nil'') uri w = Some (r1, w1)"
    using returns_retryHttp [of env 3] by (metis old.prod.exhaust option.exhaust returns_def)
  show ?thesis using run
    by (auto simp: GetHttpFile_def GetHttpFileReader_def bindE_def wrapE_def mapErrE_def
        split: option.splits sum.splits dest!: retryHttp_requests)
qed

text \<open>A command retried under a deadline always comes to an end, and when the retry succeeds the command's last
  run was its last interaction and had no error.\<close>

theorem retry_ends_with_success:
  assumes "0 < backoff"
  shows "returns (Retry env (Some t) args backoff) \<and> valid_ok (\<lambda>_. True) (Retry env (Some t) args backoff) (\<lambda>_. last_run_ok env args)"
  using Retry_returns [OF assms] Retry_ok by blast

theorem retry_ends_with_success_witness:
  "valid_ok (\<lambda>_. True) (Retry sample_env (Some 100) [''apt'', ''update''] 5) (\<lambda>_. last_run_ok sample_env [''apt'', ''update'']) \<and>
   fst (the (Retry sample_env (Some 100) [''apt'', ''update''] 5 sample_world)) = Inr ()"
proof
  show "valid_ok (\<lambda>_. True) (Retry sample_env (Some 100) [''apt'', ''update''] 5) (\<lambda>_. last_run_ok sample_env [''apt'', ''update''])"
    using retry_ends_with_success [of 5 sample_env 100 "[''apt'', ''update'']"] by simp
  show "fst (the (Retry sample_env (Some 100) [''apt'', ''update''] 5 sample_world)) = Inr ()"
    by (simp add: Retry_def poll.simps Retry_attempt_def ctx_CombinedOutput_def CombinedOutput_def bindE_def returnE_def Let_def
        sample_env_def sample_world_def)
qed

lemma MkdirAll_keeps_file:
  "preserves (\<lambda>w. fs w p = Some (RegFile c k)) (os_MkdirAll env q m)"
  by (auto simp: valid_def os_MkdirAll_def sys_def make_dirs_def Let_def split: option.splits sum.splits prod.splits if_splits)

text \<open>\<open>WriteFileUniqueLine\<close> succeeds only with the line in the file, and a second call leaves the file as it is, unless
  the file has a line that the scanner cannot hold.\<close>

theorem unique_line_idempotent:
  assumes "newline \<notin> set d" and "d \<noteq> []" and "last d \<noteq> CHR 0x0D"
  shows "valid_ok (\<lambda>_. True) (WriteFileUniqueLine env p d m) (\<lambda>_ w. \<exists>c k. fs w p = Some (RegFile c k) \<and> has_line d c) \<and>
    (\<forall>c k. has_line d c \<and> \<not> Scanner_too_long c \<longrightarrow>
       valid_ok (\<lambda>w. fs w p = Some (RegFile c k)) (WriteFileUniqueLine env p d m) (\<lambda>_ w. fs w p = Some (RegFile c k)))"
proof (intro conjI allI impI)
  show "valid_ok (\<lambda>_. True) (WriteFileUniqueLine env p d m) (\<lambda>_ w. \<exists>c k. fs w p = Some (RegFile c k) \<and> has_line d c)"
    by (rule WriteFileUniqueLine_ok [OF assms])
  fix c k assume h: "has_line d c \<and> \<not> Scanner_too_long c"
  have op: "valid_ok (\<lambda>w. fs w p = Some (RegFile c k)) (open_append env p m) (\<lambda>c' w. c' = c \<and> fs w p = Some (RegFile c k))"
    by (auto simp: valid_def open_append_def sys_def Let_def split: option.splits sum.splits prod.splits if_splits)
  have mk: "valid_ok (\<lambda>w. fs w p = Some (RegFile c k)) (os_MkdirAll env (Dir p) m) (\<lambda>_ w. fs w p = Some (RegFile c k))"
    by (rule valid_post [OF MkdirAll_keeps_file]) auto
  have "valid_ok (\<lambda>w. c' = c \<and> fs w p = Some (RegFile c k))
      (if list_ex (\<lambda>l. Contains l d) (Scanner_lines c') then returnE () else file_Write env p (d @ [newline]))
      (\<lambda>_ w. fs w p = Some (RegFile c k))" for c'
    using h by (cases "c' = c") (auto simp: valid_def has_line_def Scanner_lines_all)
  then show "valid_ok (\<lambda>w. fs w p = Some (RegFile c k)) (WriteFileUniqueLine env p d m) (\<lambda>_ w. fs w p = Some (RegFile c k))"
    unfolding WriteFileUniqueLine_def
    by (rule valid_thenE [OF mk valid_bindE [OF op]])
qed

theorem unique_line_idempotent_witness:
  "valid_ok (\<lambda>w. fs w ''/etc/m'' = Some (RegFile (''module'' @ [newline]) 420)) (WriteFileUniqueLine sample_env ''/etc/m'' ''module'' 420)
     (\<lambda>_ w. fs w ''/etc/m'' = Some (RegFile (''module'' @ [newline]) 420))"
proof -
  have "newline \<notin> set ''module''" "''module'' \<noteq> []" "last ''module'' \<noteq> CHR 0x0D" by (simp_all add: newline_def)
  note unique_line_idempotent [OF this]
  moreover have "has_line ''module'' (''module'' @ [newline]) \<and> \<not> Scanner_too_long (''module'' @ [newline])" by code_simp
  ultimately show ?thesis by blast
qed

end
