(* ===== verification/Artifact_Tracker.thy ===== *)
theory Artifact_Tracker
  imports Util
begin

text \<open>
  \<open>internal/tracker/artifacts.go\<close>: which artifacts nodeadm has installed, in memory
  (\<open>tracker_obj\<close> of the world) and in \<open>/opt/nodeadm/tracker\<close>. The YAML library is the pair
  \<open>yaml_marshal\<close>/\<open>yaml_unmarshal\<close> of the environment; \<open>yaml_roundtrip\<close> is what the code relies on.
\<close>

section \<open>Names\<close>

text \<open>The artifact names of \<open>internal/artifact/hybrid.go\<close>.\<close>

definition artifact_CniPlugins :: string where "artifact_CniPlugins = ''cniPlugins''"
definition artifact_IamAuthenticator :: string where "artifact_IamAuthenticator = ''iamAuthenticator''"
definition artifact_IamRolesAnywhere :: string where "artifact_IamRolesAnywhere = ''iamRolesAnywhere''"
definition artifact_ImageCredentialProvider :: string where "artifact_ImageCredentialProvider = ''imageCredentialProvider''"
definition artifact_Kubectl :: string where "artifact_Kubectl = ''kubectl''"
definition artifact_Kubelet :: string where "artifact_Kubelet = ''kubelet''"
definition artifact_Ssm :: string where "artifact_Ssm = ''ssm''"
definition artifact_Containerd :: string where "artifact_Containerd = ''containerd''"
definition artifact_Iptables :: string where "artifact_Iptables = ''iptables''"

lemmas artifact_names =
  artifact_CniPlugins_def artifact_IamAuthenticator_def artifact_IamRolesAnywhere_def artifact_ImageCredentialProvider_def artifact_Kubectl_def artifact_Kubelet_def artifact_Ssm_def artifact_Containerd_def artifact_Iptables_def

section \<open>Operations\<close>

definition ContainerdSourceNone :: string where "ContainerdSourceNone = ''none''"
definition ContainerdSourceDistro :: string where "ContainerdSourceDistro = ''distro''"
definition ContainerdSourceDocker :: string where "ContainerdSourceDocker = ''docker''"

definition trackerFile :: path where "trackerFile = ''/opt/nodeadm/tracker''"

definition no_artifacts :: InstalledArtifacts where
  "no_artifacts = \<lparr>Containerd = [], CniPlugins = False, IamAuthenticator = False, IamRolesAnywhere = False,
     ImageCredentialProvider = False, Kubectl = False, Kubelet = False, Ssm = False, Iptables = False\<rparr>"

definition ContainerdSource :: "string \<Rightarrow> goerr + string" where
  "ContainerdSource s =
     (if s = ContainerdSourceDistro then Inr ContainerdSourceDistro
      else if s = ContainerdSourceDocker then Inr ContainerdSourceDocker
      else if s = [] \<or> s = ''none'' then Inr ContainerdSourceNone
      else Inl (ErrMsg (''invalid containerd source: '' @ s)))"

definition Add :: "Tracker \<Rightarrow> string \<Rightarrow> goerr + Tracker" where
  "Add tr componentName =
     (let a = Artifacts tr in
      if componentName = artifact_CniPlugins then Inr (tr\<lparr>Artifacts := a\<lparr>CniPlugins := True\<rparr>\<rparr>)
      else if componentName = artifact_IamAuthenticator then Inr (tr\<lparr>Artifacts := a\<lparr>IamAuthenticator := True\<rparr>\<rparr>)
      else if componentName = artifact_IamRolesAnywhere then Inr (tr\<lparr>Artifacts := a\<lparr>IamRolesAnywhere := True\<rparr>\<rparr>)
      else if componentName = artifact_ImageCredentialProvider then Inr (tr\<lparr>Artifacts := a\<lparr>ImageCredentialProvider := True\<rparr>\<rparr>)
      else if componentName = artifact_Kubectl then Inr (tr\<lparr>Artifacts := a\<lparr>Kubectl := True\<rparr>\<rparr>)
      else if componentName = artifact_Kubelet then Inr (tr\<lparr>Artifacts := a\<lparr>Kubelet := True\<rparr>\<rparr>)
      else if componentName = artifact_Ssm then Inr (tr\<lparr>Artifacts := a\<lparr>Ssm := True\<rparr>\<rparr>)
      else if componentName = artifact_Iptables then Inr (tr\<lparr>Artifacts := a\<lparr>Iptables := True\<rparr>\<rparr>)
      else Inl (ErrMsg ''invalid artifact to track''))"

text \<open>\<open>opts.Tracker.Add(name)\<close> on the shared object.\<close>

definition Tracker_Add :: "string \<Rightarrow> unit wio" where
  "Tracker_Add componentName =
     bindE (getE tracker_obj) (\<lambda>tr. case Add tr componentName of
        Inl e \<Rightarrow> throwE e
      | Inr tr' \<Rightarrow> modifyE (\<lambda>w. w\<lparr>tracker_obj := tr'\<rparr>))"

definition Save :: "environment \<Rightarrow> unit wio" where
  "Save env =
     bindE (getE tracker_obj) (\<lambda>tr. case ContainerdSource (Containerd (Artifacts tr)) of
        Inl e \<Rightarrow> throwE e
      | Inr src \<Rightarrow>
          let tr' = tr\<lparr>Artifacts := (Artifacts tr)\<lparr>Containerd := src\<rparr>\<rparr> in
          thenE (modifyE (\<lambda>w. w\<lparr>tracker_obj := tr'\<rparr>))
           (bindE (liftE (yaml_marshal env tr')) (\<lambda>data. WriteFileWithDir env trackerFile data 420)))"

definition Clear :: "environment \<Rightarrow> unit wio" where
  "Clear env = os_RemoveAll env (Dir trackerFile)"

definition GetInstalledArtifacts :: "environment \<Rightarrow> Tracker wio" where
  "GetInstalledArtifacts env =
     bindE (os_ReadFile env trackerFile) (\<lambda>yamlFileData.
      bindE (wrapE ''invalid yaml data in tracker'' (liftE (yaml_unmarshal env yamlFileData))) (\<lambda>artifacts.
       bindE (liftE (ContainerdSource (Containerd (Artifacts artifacts)))) (\<lambda>src.
        returnE (artifacts\<lparr>Artifacts := (Artifacts artifacts)\<lparr>Containerd := src\<rparr>\<rparr>))))"

definition GetCurrentState :: "environment \<Rightarrow> Tracker wio" where
  "GetCurrentState env =
     bindE (tryE (GetInstalledArtifacts env)) (\<lambda>r. case r of
        Inr tr \<Rightarrow> returnE tr
      | Inl err \<Rightarrow> if errors_Is_NotExist err then returnE \<lparr>Artifacts = no_artifacts\<rparr> else throwE err)"

section \<open>Facts\<close>

lemma ContainerdSource_idem: "ContainerdSource s = Inr t \<Longrightarrow> ContainerdSource t = Inr t"
  by (auto simp: ContainerdSource_def ContainerdSourceNone_def ContainerdSourceDistro_def
      ContainerdSourceDocker_def split: if_splits)

text \<open>The artifacts a tracker records, by their names in \<open>internal/artifact/hybrid.go\<close>.\<close>

definition is_tracked :: "InstalledArtifacts \<Rightarrow> string \<Rightarrow> bool" where
  "is_tracked a n \<longleftrightarrow>
     (n = artifact_CniPlugins \<and> CniPlugins a) \<or> (n = artifact_IamAuthenticator \<and> IamAuthenticator a) \<or>
     (n = artifact_IamRolesAnywhere \<and> IamRolesAnywhere a) \<or> (n = artifact_ImageCredentialProvider \<and> ImageCredentialProvider a) \<or>
     (n = artifact_Kubectl \<and> Kubectl a) \<or> (n = artifact_Kubelet \<and> Kubelet a) \<or> (n = artifact_Ssm \<and> Ssm a) \<or>
     (n = artifact_Iptables \<and> Iptables a)"

definition trackable :: "string list" where
  "trackable = [artifact_CniPlugins, artifact_IamAuthenticator, artifact_IamRolesAnywhere, artifact_ImageCredentialProvider,
     artifact_Kubectl, artifact_Kubelet, artifact_Ssm, artifact_Iptables]"

lemma Add_simps:
  "Add tr artifact_CniPlugins = Inr (tr\<lparr>Artifacts := (Artifacts tr)\<lparr>CniPlugins := True\<rparr>\<rparr>)"
  "Add tr artifact_IamAuthenticator = Inr (tr\<lparr>Artifacts := (Artifacts tr)\<lparr>IamAuthenticator := True\<rparr>\<rparr>)"
  "Add tr artifact_IamRolesAnywhere = Inr (tr\<lparr>Artifacts := (Artifacts tr)\<lparr>IamRolesAnywhere := True\<rparr>\<rparr>)"
  "Add tr artifact_ImageCredentialProvider = Inr (tr\<lparr>Artifacts := (Artifacts tr)\<lparr>ImageCredentialProvider := True\<rparr>\<rparr>)"
  "Add tr artifact_Kubectl = Inr (tr\<lparr>Artifacts := (Artifacts tr)\<lparr>Kubectl := True\<rparr>\<rparr>)"
  "Add tr artifact_Kubelet = Inr (tr\<lparr>Artifacts := (Artifacts tr)\<lparr>Kubelet := True\<rparr>\<rparr>)"
  "Add tr artifact_Ssm = Inr (tr\<lparr>Artifacts := (Artifacts tr)\<lparr>Ssm := True\<rparr>\<rparr>)"
  "Add tr artifact_Iptables = Inr (tr\<lparr>Artifacts := (Artifacts tr)\<lparr>Iptables := True\<rparr>\<rparr>)"
  by (simp_all add: Add_def Let_def artifact_names)

lemma Add_trackable: "Add tr n = Inr tr' \<Longrightarrow> n \<in> set trackable"
  by (rule ccontr) (simp add: Add_def trackable_def Let_def)

lemma trackable_cases:
  assumes "n \<in> set trackable"
  obtains "n = artifact_CniPlugins" | "n = artifact_IamAuthenticator" | "n = artifact_IamRolesAnywhere" | "n = artifact_ImageCredentialProvider" | "n = artifact_Kubectl" | "n = artifact_Kubelet" | "n = artifact_Ssm" | "n = artifact_Iptables"
  using assms by (auto simp: trackable_def)

lemma is_tracked_update:
  "is_tracked (a\<lparr>CniPlugins := True\<rparr>) m \<longleftrightarrow> m = artifact_CniPlugins \<or> is_tracked a m"
  "is_tracked (a\<lparr>IamAuthenticator := True\<rparr>) m \<longleftrightarrow> m = artifact_IamAuthenticator \<or> is_tracked a m"
  "is_tracked (a\<lparr>IamRolesAnywhere := True\<rparr>) m \<longleftrightarrow> m = artifact_IamRolesAnywhere \<or> is_tracked a m"
  "is_tracked (a\<lparr>ImageCredentialProvider := True\<rparr>) m \<longleftrightarrow> m = artifact_ImageCredentialProvider \<or> is_tracked a m"
  "is_tracked (a\<lparr>Kubectl := True\<rparr>) m \<longleftrightarrow> m = artifact_Kubectl \<or> is_tracked a m"
  "is_tracked (a\<lparr>Kubelet := True\<rparr>) m \<longleftrightarrow> m = artifact_Kubelet \<or> is_tracked a m"
  "is_tracked (a\<lparr>Ssm := True\<rparr>) m \<longleftrightarrow> m = artifact_Ssm \<or> is_tracked a m"
  "is_tracked (a\<lparr>Iptables := True\<rparr>) m \<longleftrightarrow> m = artifact_Iptables \<or> is_tracked a m"
  by (simp add: is_tracked_def, argo)+

lemma Add_tracked:
  assumes "Add tr n = Inr tr'"
  shows "is_tracked (Artifacts tr') m \<longleftrightarrow> m = n \<or> is_tracked (Artifacts tr) m"
    and "Containerd (Artifacts tr') = Containerd (Artifacts tr)"
proof -
  from assms have "n \<in> set trackable" by (rule Add_trackable)
  then have eq: "is_tracked (Artifacts tr') m = (m = n \<or> is_tracked (Artifacts tr) m) \<and> Containerd (Artifacts tr') = Containerd (Artifacts tr)"
    using assms
    by (cases rule: trackable_cases) (auto simp: Add_simps is_tracked_update)
  then show "is_tracked (Artifacts tr') m \<longleftrightarrow> m = n \<or> is_tracked (Artifacts tr) m"
    and "Containerd (Artifacts tr') = Containerd (Artifacts tr)" by blast+
qed

lemma Add_error_iff: "(\<exists>e. Add tr n = Inl e) \<longleftrightarrow> n \<notin> set trackable"
  by (auto simp: Add_def trackable_def Let_def)

lemma Tracker_Add_fs: "preserves (\<lambda>w. P (fs w)) (Tracker_Add n)"
  by (auto simp: Tracker_Add_def valid_def bindE_def getE_def modifyE_def throwE_def split: sum.splits)

lemma keeps_node_Tracker_Add: "keeps_node q (Tracker_Add n)"
  by (intro keeps_nodeI Tracker_Add_fs)

lemma Tracker_Add_ok: "valid_ok P (Tracker_Add n) (\<lambda>_ w. is_tracked (Artifacts (tracker_obj w)) n)"
  by (auto simp: Tracker_Add_def valid_def bindE_def getE_def modifyE_def throwE_def dest: Add_tracked split: sum.splits)

lemma Tracker_Add_mono:
  "preserves (\<lambda>w. is_tracked (Artifacts (tracker_obj w)) m) (Tracker_Add n)"
  by (auto simp: Tracker_Add_def valid_def bindE_def getE_def modifyE_def throwE_def dest: Add_tracked split: sum.splits)

lemma Tracker_Add_containerd:
  "preserves (\<lambda>w. P (Containerd (Artifacts (tracker_obj w)))) (Tracker_Add n)"
  by (auto simp: Tracker_Add_def valid_def bindE_def getE_def modifyE_def throwE_def dest: Add_tracked split: sum.splits)

lemma returns_Tracker_Add: "returns (Tracker_Add n)"
  unfolding Tracker_Add_def by (auto intro!: returns_intros split: sum.splits)

definition yaml_roundtrip :: "environment \<Rightarrow> bool" where
  "yaml_roundtrip env \<longleftrightarrow> (\<forall>tr d. yaml_marshal env tr = Inr d \<longrightarrow> yaml_unmarshal env d = Inr tr)"

text \<open>The tracker on disk: what \<open>GetInstalledArtifacts\<close> would read from the file.\<close>

definition disk_tracker :: "environment \<Rightarrow> filesystem \<Rightarrow> Tracker option" where
  "disk_tracker env f =
     (case f trackerFile of
        Some (RegFile d _) \<Rightarrow>
          (case yaml_unmarshal env d of
             Inr tr \<Rightarrow> (case ContainerdSource (Containerd (Artifacts tr)) of
                          Inr s \<Rightarrow> Some (tr\<lparr>Artifacts := (Artifacts tr)\<lparr>Containerd := s\<rparr>\<rparr>) | Inl _ \<Rightarrow> None)
           | Inl _ \<Rightarrow> None)
      | _ \<Rightarrow> None)"

lemma WriteFileWithDir_tracker:
  "preserves (\<lambda>w. P (tracker_obj w)) (WriteFileWithDir env p d m)"
  unfolding WriteFileWithDir_def
  by (intro preserves_thenE preserves_off_fs off_fs_tracker)

lemma Save_ok:
  assumes "yaml_roundtrip env"
  shows "valid_ok (\<lambda>_. True) (Save env) (\<lambda>_ w. disk_tracker env (fs w) = Some (tracker_obj w))"
proof (rule validI)
  fix w u w' assume run: "Save env w = Some (Inr u, w')"
  obtain src where src: "ContainerdSource (Containerd (Artifacts (tracker_obj w))) = Inr src"
    using run by (cases "ContainerdSource (Containerd (Artifacts (tracker_obj w)))")
      (auto simp: Save_def bindE_def getE_def throwE_def)
  define tr' where "tr' = (tracker_obj w)\<lparr>Artifacts := (Artifacts (tracker_obj w))\<lparr>Containerd := src\<rparr>\<rparr>"
  obtain d where d: "yaml_marshal env tr' = Inr d"
    using run src by (cases "yaml_marshal env tr'")
      (auto simp: Save_def thenE_def bindE_def getE_def modifyE_def liftE_def Let_def tr'_def)
  have wr: "WriteFileWithDir env trackerFile d 420 (w\<lparr>tracker_obj := tr'\<rparr>) = Some (Inr u, w')"
    using run src d by (auto simp: Save_def thenE_def bindE_def getE_def modifyE_def liftE_def Let_def tr'_def)
  obtain m where "fs w' trackerFile = Some (RegFile d m)"
    using valid_okD [OF WriteFileWithDir_ok [where P = "\<lambda>_. True"] _ wr] by auto
  moreover have "tracker_obj w' = tr'"
    using valid_okD [OF WriteFileWithDir_tracker [where P = "\<lambda>t. t = tr'"] _ wr] by simp
  moreover have "yaml_unmarshal env d = Inr tr'" using assms d by (simp add: yaml_roundtrip_def)
  moreover have "ContainerdSource src = Inr src" using src by (rule ContainerdSource_idem)
  ultimately show "disk_tracker env (fs w') = Some (tracker_obj w')"
    by (simp add: disk_tracker_def tr'_def)
qed simp

lemma GetInstalledArtifacts_disk:
  "valid (\<lambda>w. disk_tracker env (fs w) = d) (GetInstalledArtifacts env)
     (\<lambda>tr w. d = Some tr \<and> disk_tracker env (fs w) = d) (\<lambda>_ w. disk_tracker env (fs w) = d)"
  by (auto simp: valid_def GetInstalledArtifacts_def os_ReadFile_def sys_def disk_tracker_def Let_def
      bindE_def liftE_def returnE_def wrapE_def mapErrE_def
      split: option.splits sum.splits fnode.splits)

lemma Clear_ok: "valid_ok P (Clear env) (\<lambda>_ w. fs w trackerFile = None)"
proof -
  have "under (Dir trackerFile) trackerFile" by (simp add: trackerFile_def under_def) code_simp
  then show ?thesis unfolding Clear_def by (auto intro: valid_post [OF RemoveAll_gone])
qed

lemma returns_tracker: "returns (Save env)" "returns (Clear env)" "returns (GetInstalledArtifacts env)" "returns (GetCurrentState env)"
  unfolding Save_def Clear_def GetCurrentState_def GetInstalledArtifacts_def WriteFileWithDir_def Let_def
  by (auto intro!: returns_intros returns_os split: sum.splits)

lemma sample_yaml: "yaml_roundtrip sample_env"
proof -
  have "decode_tracker (encode_tracker tr) = Inr tr" for tr :: Tracker
    by (cases tr; cases "Artifacts tr") (simp add: encode_tracker_def decode_tracker_def flag_char_def Let_def)
  then show ?thesis by (simp add: yaml_roundtrip_def sample_env_def)
qed

section \<open>Properties\<close>



text \<open>\<open>Tracker.Add\<close> fails exactly on a name that is not an artifact; otherwise it records that artifact and
  changes nothing else.\<close>

theorem Add_records_exactly:
  "case Add tr n of
     Inl _ \<Rightarrow> n \<notin> set trackable
   | Inr tr' \<Rightarrow> n \<in> set trackable \<and> Containerd (Artifacts tr') = Containerd (Artifacts tr) \<and>
       (\<forall>m. is_tracked (Artifacts tr') m \<longleftrightarrow> m = n \<or> is_tracked (Artifacts tr) m)"
proof (cases "Add tr n")
  case (Inl e)
  then show ?thesis using Add_error_iff [of tr n] by auto
next
  case (Inr tr')
  then show ?thesis using Add_tracked [OF Inr] Add_trackable [OF Inr] by simp
qed

end
