(* ===== verification/Artifact.thy ===== *)
theory Artifact
  imports Artifact_Tracker
begin

text \<open>
  \<open>internal/artifact\<close>: checksums (\<open>checksum.go\<close>), sources (\<open>source.go\<close>), installing files
  and archives (\<open>install.go\<close>), upgrading (\<open>upgrade.go\<close>) and packages (\<open>package.go\<close>).

  A source is the byte stream its reader delivers and the expected digest, \<open>None\<close> for the
  verifier that accepts everything. \<open>io.TeeReader\<close> feeds the digest with what has been read, so
  the actual checksum is a function of the bytes read so far, which \<open>InstallFile\<close> returns.
\<close>

section \<open>Checksums and sources\<close>

record source =
  src_stream :: stream
  src_expect :: "bytes option"

definition ParseGNUChecksum :: "bytes \<Rightarrow> goerr + bytes" where
  "ParseGNUChecksum gnuChecksum =
     (case cut_at CHR '' '' gnuChecksum of
        (ch, _, found) \<Rightarrow>
          if \<not> found then Inl (ErrMsg ''invalid gnu checksum'')
          else (case hex_decode ch of
                  None \<Rightarrow> Inl (ErrMsg ''encoding/hex: invalid'')
                | Some checksum \<Rightarrow> Inr checksum))"

definition ExpectedChecksum :: "source \<Rightarrow> bytes" where
  "ExpectedChecksum s = (case src_expect s of None \<Rightarrow> [] | Some e \<Rightarrow> e)"

definition ActualChecksum :: "environment \<Rightarrow> source \<Rightarrow> bytes \<Rightarrow> bytes" where
  "ActualChecksum env s readSoFar = (case src_expect s of None \<Rightarrow> [] | Some _ \<Rightarrow> sha256 env readSoFar)"

definition VerifyChecksum :: "environment \<Rightarrow> source \<Rightarrow> bytes \<Rightarrow> bool" where
  "VerifyChecksum env s readSoFar =
     (case src_expect s of None \<Rightarrow> True | Some _ \<Rightarrow> ActualChecksum env s readSoFar = ExpectedChecksum s)"

definition NewChecksumError :: "environment \<Rightarrow> source \<Rightarrow> bytes \<Rightarrow> goerr" where
  "NewChecksumError env s readSoFar =
     TypedError ''ChecksumError''
       (''checksum mismatch (expect != actual): '' @ ExpectedChecksum s @ '' != '' @ ActualChecksum env s readSoFar) None"

definition WithChecksum :: "stream \<Rightarrow> bytes \<Rightarrow> goerr + source" where
  "WithChecksum rc expect =
     (case ParseGNUChecksum expect of
        Inl e \<Rightarrow> Inl (ErrWrap ''parsing expected checksum'' e)
      | Inr parsedExpectedChecksum \<Rightarrow> Inr \<lparr>src_stream = rc, src_expect = Some parsedExpectedChecksum\<rparr>)"

definition WithNopChecksum :: "stream \<Rightarrow> source" where
  "WithNopChecksum rc = \<lparr>src_stream = rc, src_expect = None\<rparr>"

definition GzippedWithChecksum :: "environment \<Rightarrow> stream \<Rightarrow> bytes \<Rightarrow> goerr + source" where
  "GzippedWithChecksum env rc expect =
     (case gunzip env rc of
        Inl e \<Rightarrow> Inl (ErrWrap ''getting gzip reader'' e)
      | Inr gzipped \<Rightarrow> WithChecksum gzipped expect)"

section \<open>Installing\<close>

definition DefaultDirPerms :: nat where "DefaultDirPerms = 493"

text \<open>On success the whole stream has been read: its bytes are returned for the checksum.\<close>

definition InstallFile :: "environment \<Rightarrow> path \<Rightarrow> stream \<Rightarrow> nat \<Rightarrow> bytes wio" where
  "InstallFile env dst src perms =
     thenE (os_RemoveAll env dst)
      (thenE (os_MkdirAll env (Dir dst) DefaultDirPerms)
       (thenE (os_Create env dst perms)
        (thenE (io_Copy env dst src) (returnE (fst src)))))"

definition validRelPath :: "string \<Rightarrow> bool" where
  "validRelPath p = (\<not> (p = [] \<or> Contains p [CHR 0x5C] \<or> HasPrefix p ''/'' \<or> Contains p ''../''))"

text \<open>\<open>os.Open\<close> and the bytes its reader delivers.\<close>

definition os_Open :: "environment \<Rightarrow> path \<Rightarrow> bytes wio" where
  "os_Open env p = sys env (OpOpen p) no_part
     (\<lambda>f. (case f p of
             None \<Rightarrow> Inl (ErrNotExist (''open '' @ p @ '': no such file or directory''))
           | Some (DirNode _) \<Rightarrow> Inl (ErrMsg (''read '' @ p @ '': is a directory''))
           | Some (RegFile c _) \<Rightarrow> Inr c, f))"

fun untar_loop :: "environment \<Rightarrow> path \<Rightarrow> tar_item list \<Rightarrow> unit wio" where
  "untar_loop env dst [] = returnE ()"
| "untar_loop env dst (TarError e # rest) = throwE (ErrWrap ''reading tar file'' e)"
| "untar_loop env dst (TarEntry name isDir mode data # rest) =
     (if \<not> validRelPath name then throwE (ErrMsg (''tar contained invalid name error '' @ name))
      else let target = Join [dst, name] in
        if isDir then thenE (wrapE ''creating directory'' (os_MkdirAll env target mode)) (untar_loop env dst rest)
        else thenE (wrapE ''creating file'' (os_Create env target mode))
              (thenE (wrapE ''copying file contents'' (io_Copy env target data)) (untar_loop env dst rest)))"

definition InstallTarGz :: "environment \<Rightarrow> path \<Rightarrow> path \<Rightarrow> unit wio" where
  "InstallTarGz env dst src =
     thenE (os_MkdirAll env dst DefaultDirPerms)
      (bindE (wrapE ''opening source file'' (os_Open env src)) (\<lambda>contents.
       bindE (wrapE ''creating gzip reader'' (liftE (gunzip env (contents, None)))) (\<lambda>gzr.
       thenE (untar_loop env dst (untar env gzr))
        (wrapE ''removing source file'' (os_Remove env src)))))"

section \<open>Upgrading\<close>

definition checksumMatch :: "environment \<Rightarrow> path \<Rightarrow> source \<Rightarrow> bool wio" where
  "checksumMatch env installedArtifactPath src =
     bindE (wrapE ''checking for checksum match'' (os_Open env installedArtifactPath)) (\<lambda>contents.
       returnE (sha256 env contents = ExpectedChecksum src))"

definition Upgrade :: "environment \<Rightarrow> string \<Rightarrow> path \<Rightarrow> source \<Rightarrow> nat \<Rightarrow> unit wio" where
  "Upgrade env artifactName p src perms =
     bindE (checksumMatch env p src) (\<lambda>match.
       if \<not> match then
         bindE (wrapE (''installing '' @ artifactName) (InstallFile env p (src_stream src) perms)) (\<lambda>readSoFar.
           if \<not> VerifyChecksum env src readSoFar
           then throwE (ErrWrap (''verifying checksum post installing '' @ artifactName) (NewChecksumError env src readSoFar))
           else returnE ())
       else returnE ())"

section \<open>Packages\<close>

text \<open>A command is its path and arguments; every invocation starts it afresh.\<close>

record cmd =
  cmd_path :: string
  cmd_args :: "string list"

definition NewCmd :: "string \<Rightarrow> string list \<Rightarrow> cmd" where
  "NewCmd p args = \<lparr>cmd_path = p, cmd_args = args\<rparr>"

definition Command :: "cmd \<Rightarrow> string list" where
  "Command c = cmd_path c # cmd_args c"

record packageSource =
  installCmd :: cmd
  uninstallCmd :: cmd
  upgradeCmd :: cmd

definition NewPackageSource :: "cmd \<Rightarrow> cmd \<Rightarrow> cmd \<Rightarrow> packageSource" where
  "NewPackageSource i u g = \<lparr>installCmd = i, uninstallCmd = u, upgradeCmd = g\<rparr>"

definition InstallCmd :: "packageSource \<Rightarrow> string list" where "InstallCmd ps = Command (installCmd ps)"
definition UninstallCmd :: "packageSource \<Rightarrow> string list" where "UninstallCmd ps = Command (uninstallCmd ps)"
definition UpgradeCmd :: "packageSource \<Rightarrow> string list" where "UpgradeCmd ps = Command (upgradeCmd ps)"

section \<open>Facts\<close>

lemma ParseGNUChecksum_print:
  "ParseGNUChecksum (hex_encode d @ CHR '' '' # name) = Inr d"
  by (simp add: ParseGNUChecksum_def cut_at_append hex_encode_no_space hex_decode_encode)

lemma WithChecksum_Inr:
  "WithChecksum rc e = Inr s \<longleftrightarrow> (\<exists>d. ParseGNUChecksum e = Inr d \<and> s = \<lparr>src_stream = rc, src_expect = Some d\<rparr>)"
  by (auto simp: WithChecksum_def split: sum.splits)

lemma VerifyChecksum_iff:
  "VerifyChecksum env s b \<longleftrightarrow> (\<forall>d. src_expect s = Some d \<longrightarrow> sha256 env b = d)"
  by (auto simp: VerifyChecksum_def ActualChecksum_def ExpectedChecksum_def split: option.splits)

lemma returns_InstallFile: "returns (InstallFile env dst src perms)"
  unfolding InstallFile_def by (intro returns_intros returns_os returns_io_Copy)

lemma RemoveAll_absent: "valid_ok P (os_RemoveAll env p) (\<lambda>_ w. fs w p = None)"
  by (rule valid_post [OF RemoveAll_gone]) simp_all

lemma Create_fresh:
  "valid_ok (\<lambda>w. fs w p = None) (os_Create env p m) (\<lambda>_ w. fs w p = Some (RegFile [] m))"
  by (auto simp: valid_def os_Create_def sys_def Let_def
      split: option.splits sum.splits prod.splits if_splits fnode.splits)

text \<open>After a successful install the file holds exactly the stream, with the permissions asked for.\<close>

lemma InstallFile_ok:
  assumes "p \<notin> set (dirs_to (Dir p))"
  shows "valid_ok P (InstallFile env p src m) (\<lambda>b w. b = fst src \<and> snd src = None \<and> fs w p = Some (RegFile b m))"
proof -
  have mk: "valid_ok (\<lambda>w. fs w p = None) (os_MkdirAll env (Dir p) DefaultDirPerms) (\<lambda>_ w. fs w p = None)"
    by (rule valid_post [OF keeps_absent_MkdirAll [OF assms]]) simp_all
  have cp: "valid_ok (\<lambda>w. fs w p = Some (RegFile [] m)) (thenE (io_Copy env p src) (returnE (fst src)))
          (\<lambda>b w. b = fst src \<and> snd src = None \<and> fs w p = Some (RegFile b m))"
    by (rule valid_thenE [OF io_Copy_ok]) (simp add: valid_def)
  have "valid_ok (\<lambda>w. fs w p = None) (thenE (os_Create env p m) (thenE (io_Copy env p src) (returnE (fst src))))
          (\<lambda>b w. b = fst src \<and> snd src = None \<and> fs w p = Some (RegFile b m))"
    by (rule valid_thenE [OF Create_fresh cp])
  then have "valid_ok (\<lambda>w. fs w p = None)
      (thenE (os_MkdirAll env (Dir p) DefaultDirPerms) (thenE (os_Create env p m) (thenE (io_Copy env p src) (returnE (fst src)))))
      (\<lambda>b w. b = fst src \<and> snd src = None \<and> fs w p = Some (RegFile b m))"
    by (rule valid_thenE [OF mk])
  then show ?thesis unfolding InstallFile_def by (rule valid_thenE [OF RemoveAll_absent])
qed

lemma keeps_node_io_Copy: "q \<noteq> p \<Longrightarrow> keeps_node q (io_Copy env p src)"
  unfolding io_Copy_def
  by (intro keeps_node_thenE keeps_node_Write) (auto intro: keeps_node_intros split: option.splits)

lemma keeps_node_InstallFile: "\<not> under p q \<Longrightarrow> keeps_node q (InstallFile env p src m)"
  unfolding InstallFile_def
  by (intro keeps_node_thenE keeps_node_os keeps_node_io_Copy keeps_node_intros) (auto simp: under_def)

lemma io_Copy_off: "off_fs I \<Longrightarrow> preserves I (io_Copy env p src)"
  unfolding io_Copy_def
  by (intro preserves_thenE preserves_off_fs) (auto intro: preserves_intros split: option.splits)

lemma InstallFile_off: "off_fs I \<Longrightarrow> preserves I (InstallFile env p src m)"
  unfolding InstallFile_def by (intro preserves_thenE preserves_off_fs io_Copy_off preserves_returnE)

lemma returns_os_Open: "returns (os_Open env p)"
  unfolding os_Open_def by (rule returns_sys)

lemma returns_untar_loop: "returns (untar_loop env dst items)"
  by (induction env dst items rule: untar_loop.induct)
    (auto simp: Let_def intro!: returns_intros returns_os returns_io_Copy)

lemma returns_InstallTarGz: "returns (InstallTarGz env dst src)"
  unfolding InstallTarGz_def by (intro returns_intros returns_os returns_os_Open returns_untar_loop)

lemma os_Open_ok:
  "valid_ok P (os_Open env p) (\<lambda>c w. \<exists>m. fs w p = Some (RegFile c m))"
  by (auto simp: valid_def os_Open_def sys_def Let_def split: option.splits sum.splits fnode.splits)

text \<open>After a successful upgrade the installed file passes the source's verification.\<close>

lemma Upgrade_ok:
  assumes "p \<notin> set (dirs_to (Dir p))"
  shows "valid_ok P (Upgrade env name p src m) (\<lambda>_ w. \<exists>c m'. fs w p = Some (RegFile c m') \<and> VerifyChecksum env src c)"
proof -
  let ?Q = "\<lambda>_ w. \<exists>c m'. fs w p = Some (RegFile c m') \<and> VerifyChecksum env src c"
  have cm: "valid_ok P (checksumMatch env p src) (\<lambda>b w. b \<longrightarrow> ?Q () w)"
    unfolding checksumMatch_def
    by (rule valid_bindE [OF valid_wrapE [OF os_Open_ok]])
      (auto simp: valid_def ExpectedChecksum_def VerifyChecksum_iff split: option.splits)
  have inst: "valid_ok P' (bindE (wrapE msg (InstallFile env p (src_stream src) m)) (\<lambda>b.
      if \<not> VerifyChecksum env src b then throwE (e b) else returnE ())) ?Q" for msg P' e
    by (rule valid_bindE [OF valid_wrapE [OF InstallFile_ok [OF assms]]]) (auto simp: valid_def)
  show ?thesis unfolding Upgrade_def
  proof (rule valid_bindE [OF cm])
    fix match
    show "valid_ok (\<lambda>w. match \<longrightarrow> ?Q () w)
       (if \<not> match then bindE (wrapE (''installing '' @ name) (InstallFile env p (src_stream src) m)) (\<lambda>readSoFar.
           if \<not> VerifyChecksum env src readSoFar
           then throwE (ErrWrap (''verifying checksum post installing '' @ name) (NewChecksumError env src readSoFar))
           else returnE ())
        else returnE ()) ?Q"
      using inst by (cases match) (simp_all add: valid_def)
  qed
qed

lemma returns_Upgrade: "returns (Upgrade env name p src m)"
  unfolding Upgrade_def checksumMatch_def
  by (auto intro!: returns_intros returns_os_Open returns_InstallFile)

section \<open>Archives stay in their directory\<close>

definition plain_comp :: "string \<Rightarrow> bool" where
  "plain_comp c \<longleftrightarrow> c \<noteq> [] \<and> c \<noteq> ''.'' \<and> c \<noteq> ''..'' \<and> CHR ''/'' \<notin> set c"

lemma abs_path_join: "cs \<noteq> [] \<Longrightarrow> CHR ''/'' # join_with ''/'' cs = abs_path cs"
  by (induction cs rule: induct_list012) (auto simp: abs_path_def)

lemma split_abs_path: "list_all plain_comp cs \<Longrightarrow> split_on CHR ''/'' (abs_path cs) = [] # cs"
proof (induction cs)
  case Nil
  show ?case by (simp add: abs_path_def)
next
  case (Cons c cs)
  have "c = [] @ c" by simp
  from Cons have IH: "split_on CHR ''/'' (abs_path cs) = [] # cs" by simp
  have "split_on CHR ''/'' (c @ abs_path cs) = c # cs"
  proof (cases cs)
    case Nil
    with Cons show ?thesis by (simp add: abs_path_def split_on_no_sep plain_comp_def)
  next
    case (Cons d ds)
    then have ap: "abs_path cs = CHR ''/'' # (d @ abs_path ds)" by (simp add: abs_path_def)
    with IH have "split_on CHR ''/'' (d @ abs_path ds) = cs" by simp
    with ap \<open>list_all plain_comp (c # cs)\<close> show ?thesis
      by (simp add: split_on_append split_on_no_sep plain_comp_def)
  qed
  then show ?case by (simp add: abs_path_def)
qed

lemma path_comps_abs_path: "list_all plain_comp cs \<Longrightarrow> path_comps (abs_path cs) = cs"
proof -
  assume cs: "list_all plain_comp cs"
  then have "filter (\<lambda>c. c \<noteq> []) cs = cs" by (induction cs) (auto simp: plain_comp_def)
  with cs show ?thesis by (simp add: path_comps_def split_abs_path)
qed

lemma abs_path_append: "abs_path (cs @ xs) = abs_path cs @ abs_path xs"
  by (simp add: abs_path_def)

lemma under_abs_path: "under (abs_path cs) (abs_path (cs @ xs))"
proof (cases xs)
  case (Cons x ys)
  then have "abs_path (cs @ xs) = (abs_path cs @ ''/'') @ x @ abs_path ys"
    by (simp add: abs_path_def)
  then show ?thesis unfolding under_def prefix_def by blast
qed simp

lemma dirs_to_abs_path:
  "list_all plain_comp cs \<Longrightarrow> set (dirs_to (abs_path cs)) = {abs_path (take (Suc n) cs) | n. n < length cs}"
  by (auto simp: dirs_to_def path_comps_abs_path)

lemma dirs_to_below:
  assumes "list_all plain_comp (cs @ xs)" and "q \<in> set (dirs_to (abs_path (cs @ xs)))"
  shows "q \<in> set (dirs_to (abs_path cs)) \<or> under (abs_path cs) q"
proof -
  from assms obtain n where n: "n < length (cs @ xs)" and q: "q = abs_path (take (Suc n) (cs @ xs))"
    by (auto simp: dirs_to_abs_path)
  show ?thesis
  proof (cases "n < length cs")
    case True
    with assms(1) q show ?thesis by (auto simp: dirs_to_abs_path)
  next
    case False
    with q have "q = abs_path (cs @ take (Suc n - length cs) xs)" by simp
    then show ?thesis using under_abs_path by blast
  qed
qed

text \<open>A name that \<open>validRelPath\<close> accepts has \<open>..\<close> at most as its last element.\<close>

lemma validRelPath_comps:
  assumes "validRelPath name" and "split_on CHR ''/'' name = init @ [l]"
  shows "''..'' \<notin> set init"
proof
  assume "''..'' \<in> set init"
  then obtain as bs where "init = as @ ''..'' # bs" by (auto simp: in_set_conv_decomp)
  with assms(2) have sp: "split_on CHR ''/'' name = as @ ''..'' # (bs @ [l])" by simp
  have "name = join_with ''/'' (as @ ''..'' # (bs @ [l]))"
    using join_split [of "CHR ''/''" name] sp by simp
  then have "\<exists>u v. name = u @ ''../'' @ v"
  proof (cases as)
    case Nil
    with \<open>name = _\<close> have "name = [] @ ''../'' @ join_with ''/'' (bs @ [l])" by (simp add: join_with_Cons)
    then show ?thesis by blast
  next
    case (Cons a as')
    with \<open>name = _\<close> have "name = (join_with ''/'' as @ ''/'') @ ''../'' @ join_with ''/'' (bs @ [l])"
      using join_with_append [of as "''..'' # (bs @ [l])" "''/''"] by (simp add: join_with_Cons)
    then show ?thesis by blast
  qed
  with assms(1) show False by (auto simp: validRelPath_def Contains_iff)
qed

lemma Join_valid:
  assumes dst: "list_all plain_comp cs" "cs \<noteq> []" and v: "validRelPath name"
  shows "(\<exists>xs. list_all plain_comp xs \<and> Join [abs_path cs, name] = abs_path (cs @ xs)) \<or>
         Join [abs_path cs, name] = CHR ''/'' # join_with ''/'' (butlast cs)"
proof -
  obtain init l where sp: "split_on CHR ''/'' name = init @ [l]"
    by (metis append_butlast_last_id split_on_not_Nil)
  note nodots = validRelPath_comps [OF v sp]
  let ?keep = "filter (\<lambda>c. c \<noteq> [] \<and> c \<noteq> ''.'')"
  from v have ne: "name \<noteq> []" by (simp add: validRelPath_def)
  from dst have apne: "abs_path cs \<noteq> []" by (cases cs) (auto simp: abs_path_def)
  have split: "split_on CHR ''/'' (abs_path cs @ CHR ''/'' # name) = ([] # cs) @ init @ [l]"
    using dst by (simp add: split_on_append split_abs_path sp)
  have csok: "''..'' \<notin> set ([] # cs)" "?keep ([] # cs) = cs"
    using dst(1) by (auto simp: plain_comp_def list_all_iff filter_id_conv)
  have step: "clean_comps True acc (init @ [l]) = clean_comps True (rev (?keep init) @ acc) [l]" for acc
    by (rule clean_comps_append) (use nodots in auto)
  have "clean_comps True [] (([] # cs) @ init @ [l]) = clean_comps True (rev (?keep ([] # cs)) @ []) (init @ [l])"
    by (rule clean_comps_append) (use csok in auto)
  also have "\<dots> = clean_comps True (rev (?keep init) @ rev cs) [l]"
    unfolding csok(2) step by simp
  finally have cl: "clean_comps True [] (([] # cs) @ init @ [l]) = clean_comps True (rev (?keep init) @ rev cs) [l]" .
  have pl: "list_all plain_comp (?keep init)"
    using nodots split_on_parts [of _ "CHR ''/''" name] sp by (auto simp: list_all_iff plain_comp_def)
  have J: "Join [abs_path cs, name] = CHR ''/'' # join_with ''/'' (clean_comps True (rev (?keep init) @ rev cs) [l])"
    using ne apne dst cl split by (cases cs) (auto simp: Join_def Clean_def Let_def abs_path_def)
  consider "l = [] \<or> l = ''.''" | "l = ''..''" | "l \<noteq> []" "l \<noteq> ''.''" "l \<noteq> ''..''" by blast
  then show ?thesis
  proof cases
    case 1
    with J have "Join [abs_path cs, name] = abs_path (cs @ ?keep init)" using dst by (simp add: abs_path_join)
    with pl show ?thesis by blast
  next
    case 3
    have "CHR ''/'' \<notin> set l" using split_on_parts [of l "CHR ''/''" name] sp by simp
    with 3 pl have "list_all plain_comp (?keep init @ [l])" by (simp add: plain_comp_def)
    moreover from 3 J have "Join [abs_path cs, name] = abs_path (cs @ (?keep init @ [l]))"
      using dst abs_path_join [of "cs @ ?keep init @ [l]"] by simp
    ultimately show ?thesis by blast
  next
    case 2
    show ?thesis
    proof (cases "?keep init" rule: rev_cases)
      case Nil
      obtain c cs' where cs: "rev cs = c # cs'" using dst(2) by (cases "rev cs") auto
      then have "c \<in> set cs" by (metis list.set_intros(1) set_rev)
      with dst(1) have "c \<noteq> ''..''" by (auto simp: list_all_iff plain_comp_def)
      moreover have "rev cs' = butlast cs" using cs by (metis butlast_rev list.sel(3) rev_rev_ident butlast_snoc rev.simps(2))
      ultimately show ?thesis using 2 J Nil cs by simp
    next
      case (snoc ys y)
      with pl have "y \<noteq> ''..''" "list_all plain_comp ys" by (auto simp: plain_comp_def)
      with 2 J snoc have "Join [abs_path cs, name] = abs_path (cs @ ys)" using dst by (simp add: abs_path_join)
      with \<open>list_all plain_comp ys\<close> show ?thesis by blast
    qed
  qed
qed

lemma keeps_any_Create: "q \<noteq> p \<Longrightarrow> preserves (\<lambda>w. P (fs w q)) (os_Create env p m)"
  unfolding os_Create_def by (rule preserves_fsI) (auto split: option.splits fnode.splits if_splits)

lemma keeps_any_Write: "q \<noteq> p \<Longrightarrow> preserves (\<lambda>w. P (fs w q)) (file_Write env p d)"
  unfolding file_Write_def by (rule preserves_fsI) (auto simp: append_to_other)

lemma keeps_any_Copy: "q \<noteq> p \<Longrightarrow> preserves (\<lambda>w. P (fs w q)) (io_Copy env p src)"
  unfolding io_Copy_def
  by (intro preserves_thenE keeps_any_Write) (auto intro: preserves_intros split: option.splits)

lemma keeps_any_MkdirAll: "q \<notin> set (dirs_to p) \<Longrightarrow> preserves (\<lambda>w. P (fs w q)) (os_MkdirAll env p m)"
  unfolding os_MkdirAll_def by (rule preserves_fsI) (auto simp: make_dirs_def split: if_splits)

lemma Join_outside:
  assumes dst: "list_all plain_comp cs" "cs \<noteq> []" and v: "validRelPath name"
    and q: "\<not> under (abs_path cs) q" "q \<notin> set (dirs_to (abs_path cs))" "q \<noteq> ''/''"
  shows "q \<noteq> Join [abs_path cs, name] \<and> q \<notin> set (dirs_to (Join [abs_path cs, name]))"
  using Join_valid [OF dst v]
proof
  assume "\<exists>xs. list_all plain_comp xs \<and> Join [abs_path cs, name] = abs_path (cs @ xs)"
  then obtain xs where xs: "list_all plain_comp xs" "Join [abs_path cs, name] = abs_path (cs @ xs)" by blast
  with q(1) under_abs_path have "q \<noteq> Join [abs_path cs, name]" by auto
  moreover have "q \<notin> set (dirs_to (abs_path (cs @ xs)))"
    using dirs_to_below [of cs xs q] dst(1) xs(1) q by auto
  ultimately show ?thesis using xs(2) by simp
next
  assume J: "Join [abs_path cs, name] = CHR ''/'' # join_with ''/'' (butlast cs)"
  show ?thesis
  proof (cases "butlast cs = []")
    case True
    with J q(3) show ?thesis by (simp add: dirs_to_def path_comps_def)
  next
    case False
    have bl: "list_all plain_comp (butlast cs)" using dst(1) by (metis in_set_butlastD list_all_iff)
    from False J have Jb: "Join [abs_path cs, name] = abs_path (butlast cs)" by (simp add: abs_path_join)
    have sub: "set (dirs_to (abs_path (butlast cs))) \<subseteq> set (dirs_to (abs_path cs))"
      using dst(1) bl by (auto simp: dirs_to_abs_path butlast_conv_take min_def)
    moreover have "abs_path (butlast cs) \<in> set (dirs_to (abs_path (butlast cs)))"
    proof -
      obtain n where n: "length (butlast cs) = Suc n" using False by (metis length_0_conv not0_implies_Suc)
      then have "take (Suc n) (butlast cs) = butlast cs" and "n < length (butlast cs)" by simp_all
      then show ?thesis unfolding dirs_to_abs_path [OF bl] by force
    qed
    ultimately show ?thesis using q(2) unfolding Jb by blast
  qed
qed

lemma untar_frame:
  assumes dst: "list_all plain_comp cs" "cs \<noteq> []"
    and q: "\<not> under (abs_path cs) q" "q \<notin> set (dirs_to (abs_path cs))" "q \<noteq> ''/''"
  shows "preserves (\<lambda>w. P (fs w q)) (untar_loop env (abs_path cs) items)"
proof (induction items)
  case Nil
  show ?case by (simp add: preserves_returnE)
next
  case (Cons i items)
  show ?case
  proof (cases i)
    case (TarError e)
    then show ?thesis by (simp add: preserves_throwE)
  next
    case (TarEntry name isDir mode data)
    show ?thesis
    proof (cases "validRelPath name")
      case False
      with TarEntry show ?thesis by (simp add: preserves_throwE)
    next
      case True
      note out = Join_outside [OF dst True q]
      show ?thesis using Cons out unfolding TarEntry
        by (auto simp: Let_def intro!: preserves_thenE preserves_wrapE keeps_any_Create keeps_any_Copy keeps_any_MkdirAll preserves_throwE)
    qed
  qed
qed

lemma keeps_any_Remove: "q \<noteq> p \<Longrightarrow> preserves (\<lambda>w. P (fs w q)) (os_Remove env p)"
  unfolding os_Remove_def by (rule preserves_fsI) (auto split: option.splits fnode.splits)

lemma keeps_any_Open: "preserves (\<lambda>w. P (fs w q)) (os_Open env p)"
  unfolding os_Open_def by (rule preserves_fsI) auto

lemma InstallTarGz_frame:
  assumes "list_all plain_comp cs" and "cs \<noteq> []"
    and "\<not> under (abs_path cs) q" and "q \<notin> set (dirs_to (abs_path cs))" and "q \<noteq> ''/''" and "q \<noteq> src"
  shows "preserves (\<lambda>w. P (fs w q)) (InstallTarGz env (abs_path cs) src)"
  unfolding InstallTarGz_def
  by (intro preserves_thenE preserves_bindE preserves_wrapE preserves_liftE keeps_any_MkdirAll keeps_any_Open keeps_any_Remove untar_frame)
    (use assms in auto)

section \<open>Properties\<close>

text \<open>A published checksum line, the digest in hexadecimal followed by a blank and a name, parses to that digest.\<close>

theorem checksum_line_roundtrip: "ParseGNUChecksum (hex_encode d @ CHR '' '' # name) = Inr d"
  by (rule ParseGNUChecksum_print)

text \<open>C17: Extracting an archive, whatever its entries are called, changes no file outside the destination directory (the
  directories that lead to it and the consumed archive excepted).\<close>

theorem archive_stays_inside:
  assumes "list_all plain_comp cs" and "cs \<noteq> []"
    and "\<not> under (abs_path cs) q" and "q \<notin> set (dirs_to (abs_path cs))" and "q \<noteq> ''/''" and "q \<noteq> src"
  shows "preserves (\<lambda>w. fs w q = n) (InstallTarGz env (abs_path cs) src)"
  by (rule InstallTarGz_frame [OF assms])

theorem archive_stays_inside_witness:
  "preserves (\<lambda>w. fs w ''/etc/passwd'' = Some (RegFile ''x'' 420))
     (InstallTarGz (sample_env\<lparr>untar := \<lambda>_. [TarEntry ''../../etc/passwd'' False 420 (''root'', None)]\<rparr>) (abs_path [''opt'', ''cni'', ''bin'']) ''/tmp/cni.tgz'')"
proof -
  have "list_all plain_comp [''opt'', ''cni'', ''bin'']" "\<not> under (abs_path [''opt'', ''cni'', ''bin'']) ''/etc/passwd''"
    "''/etc/passwd'' \<notin> set (dirs_to (abs_path [''opt'', ''cni'', ''bin'']))"
    by code_simp+
  then show ?thesis by (intro archive_stays_inside) auto
qed

end
