(* ===== verification/Aws_Source.thy ===== *)
theory Aws_Source
  imports Artifact "HOL-Library.Product_Lexorder"
begin

text \<open>
  \<open>internal/aws\<close>: the release manifest and the choice of releases (\<open>manifest.go\<close>,
  \<open>source.go\<close>), partitions (\<open>partition.go\<close>), and the ECR registry of the EKS images
  (\<open>ecr/ecr.go\<close>, with \<open>system/fips.go\<close>).

  \<open>golang.org/x/mod/semver\<close> is the record \<open>semver\<close>, the YAML decoder of the manifest and the
  URL fixed at build time are arguments. \<open>time.Parse("2006-01-02")\<close> is \<open>parse_date\<close>.
\<close>

section \<open>Manifest\<close>

record Artifact_entry =
  ar_Name :: string
  ar_Arch :: string
  ar_OS :: string
  ar_URI :: string
  ar_ChecksumURI :: string
  ar_GzipURI :: string

record EksPatchRelease =
  ep_Version :: string
  ep_PatchVersion :: string
  ep_ReleaseDate :: string
  ep_Artifacts :: "Artifact_entry list"

record SupportedEksRelease =
  MajorMinorVersion :: string
  LatestPatchVersion :: string
  PatchReleases :: "EksPatchRelease list"

record IamRolesAnywhereRelease =
  ir_Version :: string
  ir_Artifacts :: "Artifact_entry list"

record RegionData =
  EcrAccountID :: string
  Partition :: string
  DnsSuffix :: string
  CredProviders :: "string \<Rightarrow> bool option"

record Manifest =
  SupportedEksReleases :: "SupportedEksRelease list"
  IamRolesAnywhereReleases :: "IamRolesAnywhereRelease list"
  SsmReleases :: "IamRolesAnywhereRelease list"
  RegionConfig :: "string \<Rightarrow> RegionData option"

record semver =
  sv_IsValid :: "string \<Rightarrow> bool"
  sv_MajorMinor :: "string \<Rightarrow> string"
  sv_Compare :: "string \<Rightarrow> string \<Rightarrow> int"

record Source =
  Eks :: EksPatchRelease
  Iam :: IamRolesAnywhereRelease
  RegionInfo :: RegionData

section \<open>Partitions\<close>

definition ParsePartitionFromARN :: "string \<Rightarrow> goerr + string" where
  "ParsePartitionFromARN arn =
     (if \<not> HasPrefix arn ''arn:'' then Inl (ErrMsg (''invalid ARN format: '' @ arn))
      else let remaining = TrimPrefix arn ''arn:''; part = fst (cut_at CHR '':'' remaining) in
        if part = [] then Inl (ErrMsg (''partition not found in ARN: '' @ arn)) else Inr part)"

definition GetPartitionDNSSuffix :: "string \<Rightarrow> string" where
  "GetPartitionDNSSuffix aws_partition =
     (if aws_partition = ''aws'' then ''amazonaws.com''
      else if aws_partition = ''aws-cn'' then ''amazonaws.com.cn''
      else if aws_partition = ''aws-us-gov'' then ''amazonaws.com''
      else if aws_partition = ''aws-iso'' then ''c2s.ic.gov''
      else if aws_partition = ''aws-iso-b'' then ''sc2s.sgov.gov''
      else if aws_partition = ''aws-iso-e'' then ''cloud.adc-e.uk''
      else if aws_partition = ''aws-iso-f'' then ''csp.hci.ic.gov''
      else if aws_partition = ''aws-eusc'' then ''amazonaws.eu''
      else ''amazonaws.com'')"

definition GetServiceEndpointForPartition :: "string \<Rightarrow> string \<Rightarrow> string \<Rightarrow> string" where
  "GetServiceEndpointForPartition service region aws_partition =
     service @ ''.'' @ region @ ''.'' @ GetPartitionDNSSuffix aws_partition"

definition GetSerialConsoleEndpoint :: "string \<Rightarrow> string \<Rightarrow> string" where
  "GetSerialConsoleEndpoint region aws_partition =
     (if aws_partition = ''aws-cn'' then ''ec2-serial-console.'' @ region @ ''.api.amazonwebservices.com.cn:22''
      else ''serial-console.ec2-instance-connect.'' @ region @ ''.aws:22'')"

definition GetEC2ServicePrincipal :: "string \<Rightarrow> string" where
  "GetEC2ServicePrincipal aws_partition = (if aws_partition = ''aws-cn'' then ''ec2.amazonaws.com.cn'' else ''ec2.amazonaws.com'')"

definition GetPartitionFromRegionFallback :: "string \<Rightarrow> string" where
  "GetPartitionFromRegionFallback region =
     (if HasPrefix region ''cn-'' then ''aws-cn''
      else if HasPrefix region ''us-gov-'' then ''aws-us-gov''
      else if HasPrefix region ''us-isob-'' then ''aws-iso-b''
      else if HasPrefix region ''us-isoe-'' then ''aws-iso-e''
      else if HasPrefix region ''us-isof-'' then ''aws-iso-f''
      else if HasPrefix region ''us-iso-'' then ''aws-iso''
      else if HasPrefix region ''eusc-'' then ''aws-eusc''
      else ''aws'')"

section \<open>Reading the manifest\<close>

definition getManifestURL :: "string \<Rightarrow> string \<Rightarrow> string" where
  "getManifestURL manifestUrl region =
     (if region = [] then manifestUrl
      else if GetPartitionFromRegionFallback region = ''aws-cn'' then ''https://eks-hybrid-assets.awsstatic.cn/manifest.yaml''
      else manifestUrl)"

definition getReleaseManifest ::
  "environment \<Rightarrow> (bytes \<Rightarrow> goerr + Manifest) \<Rightarrow> string \<Rightarrow> string \<Rightarrow> Manifest wio" where
  "getReleaseManifest env unmarshal manifestUrl region =
     bindE (GetHttpFile env (getManifestURL manifestUrl region)) (\<lambda>yamlFileData.
       wrapE ''invalid yaml data in release manifest'' (liftE (unmarshal yamlFileData)))"

definition getReleaseManifestFromURI ::
  "environment \<Rightarrow> (bytes \<Rightarrow> goerr + Manifest) \<Rightarrow> string \<Rightarrow> Manifest wio" where
  "getReleaseManifestFromURI env unmarshal manifestURI =
     bindE (if HasPrefix manifestURI ''file://''
            then wrapE (''reading manifest file from file:// URI: '' @ manifestURI) (os_ReadFile env (TrimPrefix manifestURI ''file://''))
            else if HasPrefix manifestURI ''https://''
            then wrapE (''downloading manifest file from https:// URI: '' @ manifestURI) (GetHttpFile env manifestURI)
            else wrapE (''reading manifest file: '' @ manifestURI @ '' (hint: use file:// or https:// prefix)'') (os_ReadFile env manifestURI))
       (\<lambda>yamlFileData. wrapE ''invalid yaml data in release manifest'' (liftE (unmarshal yamlFileData)))"

section \<open>Choosing releases\<close>

definition days_in_month :: "nat \<Rightarrow> nat \<Rightarrow> nat" where
  "days_in_month y m =
     (if m = 2 then (if y mod 4 = 0 \<and> (y mod 100 \<noteq> 0 \<or> y mod 400 = 0) then 29 else 28)
      else if m \<in> {4, 6, 9, 11} then 30 else 31)"

text \<open>Year, month, day; dates compare as triples.\<close>

definition parse_date :: "string \<Rightarrow> goerr + nat \<times> nat \<times> nat" where
  "parse_date s =
     (let ys = take 4 s; ms = take 2 (drop 5 s); ds = drop 8 s in
      if length s = 10 \<and> s ! 4 = CHR ''-'' \<and> s ! 7 = CHR ''-'' \<and> list_all is_digit ys \<and> list_all is_digit ms \<and> list_all is_digit ds
         \<and> 1 \<le> dec_val ms \<and> dec_val ms \<le> 12 \<and> 1 \<le> dec_val ds \<and> dec_val ds \<le> days_in_month (dec_val ys) (dec_val ms)
      then Inr (dec_val ys, dec_val ms, dec_val ds)
      else Inl (ErrMsg (''parsing time '' @ s)))"

definition date_after :: "nat \<times> nat \<times> nat \<Rightarrow> nat \<times> nat \<times> nat \<Rightarrow> bool" where
  "date_after a b = (b < a)"

fun getLatestDate_loop :: "EksPatchRelease list \<Rightarrow> EksPatchRelease \<Rightarrow> goerr + EksPatchRelease" where
  "getLatestDate_loop [] latestRelease = Inr latestRelease"
| "getLatestDate_loop (release # rest) latestRelease =
     (case parse_date (ep_ReleaseDate latestRelease) of
        Inl e \<Rightarrow> Inl e
      | Inr latestReleaseDate \<Rightarrow>
          (case parse_date (ep_ReleaseDate release) of
             Inl e \<Rightarrow> Inl e
           | Inr parsedReleaseDate \<Rightarrow>
               getLatestDate_loop rest (if date_after parsedReleaseDate latestReleaseDate then release else latestRelease)))"

definition getLatestDateEksPatchRelease :: "EksPatchRelease list \<Rightarrow> goerr + EksPatchRelease" where
  "getLatestDateEksPatchRelease patchReleases =
     (case patchReleases of
        [] \<Rightarrow> Inl (ErrMsg ''input semver did not match with any available releases'')
      | r # _ \<Rightarrow> getLatestDate_loop patchReleases r)"

definition matching_patch_releases :: "string \<Rightarrow> string option \<Rightarrow> SupportedEksRelease list \<Rightarrow> EksPatchRelease list" where
  "matching_patch_releases majorMinor patch supported =
     concat (map (\<lambda>s. if MajorMinorVersion s = majorMinor
                      then filter (\<lambda>r. ep_PatchVersion r = (case patch of Some p \<Rightarrow> p | None \<Rightarrow> LatestPatchVersion s)) (PatchReleases s)
                      else []) supported)"

text \<open>\<open>strings.CutPrefix(eksVersion, majorMinor + ".")\<close>: the patch version, when the input has one.\<close>

definition requested_patch :: "semver \<Rightarrow> string \<Rightarrow> string \<times> string option" where
  "requested_patch sv eksVersion =
     (let majorMinor = ReplaceAll_char (sv_MajorMinor sv (CHR ''v'' # eksVersion)) CHR ''v'';
          (patch, has) = CutPrefix eksVersion (majorMinor @ ''.'')
      in (majorMinor, if has then Some patch else None))"

definition getLatestEksSource :: "semver \<Rightarrow> string \<Rightarrow> Manifest \<Rightarrow> goerr + EksPatchRelease" where
  "getLatestEksSource sv eksVersion manifest =
     (if eksVersion = [] then Inl (ErrMsg ''eks version is empty'')
      else if \<not> sv_IsValid sv (CHR ''v'' # eksVersion) then Inl (ErrMsg (''invalid semantic version: '' @ eksVersion))
      else let (majorMinor, patch) = requested_patch sv eksVersion;
               matched = matching_patch_releases majorMinor patch (SupportedEksReleases manifest)
        in if length matched = 1 then Inr (hd matched)
           else if length matched > 1 then getLatestDateEksPatchRelease matched
           else if patch \<noteq> None
           then Inl (ErrMsg ''input semver did not match with available releases. Try again with major.minor version'')
           else Inl (ErrMsg ''input semver did not match with any available releases''))"

text \<open>The loop \<open>for _, release := range releases { if newer(latest, release) { latest = release } }\<close>.\<close>

fun pick_latest :: "('a \<Rightarrow> 'a \<Rightarrow> bool) \<Rightarrow> 'a \<Rightarrow> 'a list \<Rightarrow> 'a" where
  "pick_latest newer latest [] = latest"
| "pick_latest newer latest (x # xs) = pick_latest newer (if newer latest x then x else latest) xs"

definition getLatestIamRolesAnywhereSource :: "semver \<Rightarrow> Manifest \<Rightarrow> goerr + IamRolesAnywhereRelease" where
  "getLatestIamRolesAnywhereSource sv manifest =
     (case IamRolesAnywhereReleases manifest of
        [] \<Rightarrow> Inl (ErrMsg ''no iam signer helper releases found'')
      | r # rs \<Rightarrow> Inr (pick_latest (\<lambda>latest release. sv_Compare sv (ir_Version latest) (ir_Version release) < 0) r (r # rs)))"

definition validateKubernetesVersionMatch :: "semver \<Rightarrow> string \<Rightarrow> string \<Rightarrow> goerr option" where
  "validateKubernetesVersionMatch sv requestedVersion manifestVersion =
     (if requestedVersion = [] \<or> manifestVersion = [] then Some (ErrMsg ''version cannot be empty'')
      else if \<not> sv_IsValid sv (CHR ''v'' # requestedVersion) then Some (ErrMsg (''invalid requested version: '' @ requestedVersion))
      else if \<not> sv_IsValid sv (CHR ''v'' # manifestVersion) then Some (ErrMsg (''invalid manifest version: '' @ manifestVersion))
      else let requestedMajorMinor = ReplaceAll_char (sv_MajorMinor sv (CHR ''v'' # requestedVersion)) CHR ''v'';
               manifestMajorMinor = ReplaceAll_char (sv_MajorMinor sv (CHR ''v'' # manifestVersion)) CHR ''v''
        in if requestedMajorMinor \<noteq> manifestMajorMinor
           then Some (ErrMsg (''Kubernetes version mismatch: requested '' @ requestedVersion @ '' but manifest contains '' @ manifestVersion))
           else if Contains requestedVersion ''.'' \<and> Count_char requestedVersion CHR ''.'' = 2 \<and> requestedVersion \<noteq> manifestVersion
           then Some (ErrMsg (''Kubernetes patch version mismatch: requested '' @ requestedVersion @ '' but manifest contains '' @ manifestVersion))
           else None)"

definition getSourceFromManifest :: "semver \<Rightarrow> string \<Rightarrow> string \<Rightarrow> Manifest \<Rightarrow> goerr + Source" where
  "getSourceFromManifest sv eksVersion region manifest =
     (case getLatestEksSource sv eksVersion manifest of
        Inl e \<Rightarrow> Inl (ErrWrap ''getting latest eks release'' e)
      | Inr eksPatchRelease \<Rightarrow>
          (case validateKubernetesVersionMatch sv eksVersion (ep_Version eksPatchRelease) of
             Some e \<Rightarrow> Inl e
           | None \<Rightarrow>
               (case getLatestIamRolesAnywhereSource sv manifest of
                  Inl e \<Rightarrow> Inl (ErrWrap ''getting iam roles anywhere release'' e)
                | Inr iamRelease \<Rightarrow>
                    (case RegionConfig manifest region of
                       None \<Rightarrow> Inl (ErrMsg (''region '' @ region @ '' not found in manifest''))
                     | Some regionCfg \<Rightarrow> Inr \<lparr>Eks = eksPatchRelease, Iam = iamRelease, RegionInfo = regionCfg\<rparr>))))"

definition GetLatestSource ::
  "environment \<Rightarrow> semver \<Rightarrow> (bytes \<Rightarrow> goerr + Manifest) \<Rightarrow> string \<Rightarrow> string \<Rightarrow> string \<Rightarrow> Source wio" where
  "GetLatestSource env sv unmarshal manifestUrl eksVersion region =
     bindE (getReleaseManifest env unmarshal manifestUrl region) (\<lambda>manifest. liftE (getSourceFromManifest sv eksVersion region manifest))"

definition GetLatestSourceFromManifest ::
  "environment \<Rightarrow> semver \<Rightarrow> (bytes \<Rightarrow> goerr + Manifest) \<Rightarrow> string \<Rightarrow> string \<Rightarrow> string \<Rightarrow> Source wio" where
  "GetLatestSourceFromManifest env sv unmarshal eksVersion region manifestURI =
     bindE (getReleaseManifestFromURI env unmarshal manifestURI) (\<lambda>manifest. liftE (getSourceFromManifest sv eksVersion region manifest))"

definition region_of :: "string \<Rightarrow> Manifest \<Rightarrow> goerr + RegionData" where
  "region_of region manifest =
     (case RegionConfig manifest region of
        None \<Rightarrow> Inl (ErrMsg (''region '' @ region @ '' not found in manifest''))
      | Some regionCfg \<Rightarrow> Inr regionCfg)"

definition GetRegionConfig ::
  "environment \<Rightarrow> (bytes \<Rightarrow> goerr + Manifest) \<Rightarrow> string \<Rightarrow> string \<Rightarrow> RegionData wio" where
  "GetRegionConfig env unmarshal manifestUrl region =
     bindE (getReleaseManifest env unmarshal manifestUrl region) (\<lambda>manifest. liftE (region_of region manifest))"

definition GetRegionConfigFromManifest ::
  "environment \<Rightarrow> (bytes \<Rightarrow> goerr + Manifest) \<Rightarrow> string \<Rightarrow> string \<Rightarrow> RegionData wio" where
  "GetRegionConfigFromManifest env unmarshal region manifestURI =
     bindE (getReleaseManifestFromURI env unmarshal manifestURI) (\<lambda>manifest. liftE (region_of region manifest))"

section \<open>Artifact sources\<close>

fun getSource :: "environment \<Rightarrow> string \<Rightarrow> Artifact_entry list \<Rightarrow> source wio" where
  "getSource env artifactName [] = throwE (ErrMsg (''could not find artifact for '' @ goarch env @ '' arch and '' @ goos env @ '' os''))"
| "getSource env artifactName (a # rest) =
     (if ar_Name a = artifactName \<and> ar_Arch a = goarch env \<and> ar_OS a = goos env then
        let uri = (if ar_GzipURI a \<noteq> [] then ar_GzipURI a else ar_URI a) in
        bindE (wrapE ''getting artifact file reader'' (GetHttpFileReader env uri)) (\<lambda>obj.
        bindE (wrapE ''getting artifact checksum file reader'' (GetHttpFile env (ar_ChecksumURI a))) (\<lambda>artifactChecksum.
          wrapE ''getting artifact with checksum''
            (liftE (if ar_GzipURI a \<noteq> [] then GzippedWithChecksum env obj artifactChecksum
                    else WithChecksum obj artifactChecksum))))
      else getSource env artifactName rest)"

definition getEksSource :: "environment \<Rightarrow> Source \<Rightarrow> string \<Rightarrow> source wio" where
  "getEksSource env as artifactName = getSource env artifactName (ep_Artifacts (Eks as))"

definition GetKubelet :: "environment \<Rightarrow> Source \<Rightarrow> source wio" where
  "GetKubelet env as = getEksSource env as ''kubelet''"

definition GetKubectl :: "environment \<Rightarrow> Source \<Rightarrow> source wio" where
  "GetKubectl env as = getEksSource env as ''kubectl''"

definition GetIAMAuthenticator :: "environment \<Rightarrow> Source \<Rightarrow> source wio" where
  "GetIAMAuthenticator env as = getEksSource env as ''aws-iam-authenticator''"

definition GetImageCredentialProvider :: "environment \<Rightarrow> Source \<Rightarrow> source wio" where
  "GetImageCredentialProvider env as = getEksSource env as ''ecr-credential-provider''"

definition GetCniPlugins :: "environment \<Rightarrow> Source \<Rightarrow> source wio" where
  "GetCniPlugins env as = getEksSource env as ''cni-plugins''"

definition GetSigningHelper :: "environment \<Rightarrow> Source \<Rightarrow> source wio" where
  "GetSigningHelper env as = getSource env ''aws_signing_helper'' (ir_Artifacts (Iam as))"

section \<open>ECR registry\<close>

definition nonOptInRegionAccount :: string where "nonOptInRegionAccount = ''602401143452''"

definition accountsByRegion :: "string \<Rightarrow> string option" where
  "accountsByRegion = map_of
     [(''cn-north-1'', ''918309763551''), (''cn-northwest-1'', ''961992271922''), (''eu-isoe-west-1'', ''249663109785''),
      (''us-gov-east-1'', ''151742754352''), (''us-gov-west-1'', ''013241004608''), (''us-iso-east-1'', ''725322719131''),
      (''us-iso-west-1'', ''608367168043''), (''us-isob-east-1'', ''187977181151''), (''us-isof-south-1'', ''676585237158'')]"

definition getEKSRegistryCoordinates :: "string \<Rightarrow> string \<times> string" where
  "getEKSRegistryCoordinates region =
     (case accountsByRegion region of
        Some inRegionRegistry \<Rightarrow> (inRegionRegistry, region)
      | None \<Rightarrow>
          if HasPrefix region ''us-gov-'' then (''013241004608'', ''us-gov-west-1'')
          else if HasPrefix region ''cn-'' then (''961992271922'', ''cn-northwest-1'')
          else if HasPrefix region ''us-iso-'' then (''725322719131'', ''us-iso-east-1'')
          else if HasPrefix region ''us-isob-'' then (''187977181151'', ''us-isob-east-1'')
          else if HasPrefix region ''us-isof-'' then (''676585237158'', ''us-isof-south-1'')
          else (nonOptInRegionAccount, ''us-west-2''))"

definition getEKSRegistryCoordinatesWithRegionConfig :: "string \<Rightarrow> RegionData option \<Rightarrow> string \<times> string" where
  "getEKSRegistryCoordinatesWithRegionConfig region regionConfig =
     (case regionConfig of
        Some rc \<Rightarrow> if EcrAccountID rc \<noteq> [] then (EcrAccountID rc, region) else getEKSRegistryCoordinates region
      | None \<Rightarrow> getEKSRegistryCoordinates region)"

definition getRegistry :: "string \<Rightarrow> string \<Rightarrow> string \<Rightarrow> string \<Rightarrow> string" where
  "getRegistry accountID ecrSubdomain region servicesDomain =
     accountID @ ''.dkr.'' @ ecrSubdomain @ ''.'' @ region @ ''.'' @ servicesDomain"

definition GetFipsInfo :: "environment \<Rightarrow> (bool \<times> bool) wio" where
  "GetFipsInfo env =
     bindE (tryE (os_ReadFile env ''/proc/sys/crypto/fips_enabled'')) (\<lambda>r. case r of
        Inl err \<Rightarrow> if errors_Is_NotExist err then returnE (False, False) else throwE err
      | Inr b \<Rightarrow>
          let cut = (\<lambda>c. c \<in> set [CHR '' '', CHR 0x0A, CHR 0x09]) in
          (case Atoi (rev (dropWhile cut (rev (dropWhile cut b)))) of
             None \<Rightarrow> throwE (ErrMsg ''strconv.Atoi: invalid syntax'')
           | Some i \<Rightarrow> returnE (True, i = 1)))"

text \<open>\<open>net.LookupHost\<close> is the argument \<open>lookupHost\<close>.\<close>

definition getEksRegistryWithServiceDomainAndRegionConfig ::
  "environment \<Rightarrow> (string \<Rightarrow> goerr + string list) \<Rightarrow> string \<Rightarrow> string \<Rightarrow> RegionData option \<Rightarrow> string wio" where
  "getEksRegistryWithServiceDomainAndRegionConfig env lookupHost region0 servicesDomain regionConfig =
     (let (account, region) = getEKSRegistryCoordinatesWithRegionConfig region0 regionConfig in
      bindE (GetFipsInfo env) (\<lambda>(fipsInstalled, fipsEnabled).
        if fipsInstalled \<and> fipsEnabled then
          let fipsRegistry = getRegistry account ''ecr-fips'' region servicesDomain in
          (case lookupHost fipsRegistry of
             Inl e \<Rightarrow> throwE e
           | Inr addresses \<Rightarrow>
               if addresses \<noteq> [] then returnE fipsRegistry else returnE (getRegistry account ''ecr'' region servicesDomain))
        else returnE (getRegistry account ''ecr'' region servicesDomain)))"

text \<open>The instance metadata service (\<open>internal/aws/imds\<close>): its client is a parameter, the body of an answer is read to its end.\<close>

definition GetPropertyBytes :: "(nat \<Rightarrow> string \<Rightarrow> goerr + stream) \<Rightarrow> string \<Rightarrow> bytes wio" where
  "GetPropertyBytes GetMetadata prop = read_answer (api_call ''GetMetadata'' prop (\<lambda>n. GetMetadata n prop))"

definition GetProperty :: "(nat \<Rightarrow> string \<Rightarrow> goerr + stream) \<Rightarrow> string \<Rightarrow> string wio" where
  "GetProperty GetMetadata prop = bindE (GetPropertyBytes GetMetadata prop) (\<lambda>bs. returnE bs)"

definition GetUserData :: "(nat \<Rightarrow> goerr + stream) \<Rightarrow> bytes wio" where
  "GetUserData client = read_answer (api_call ''GetUserData'' [] client)"

definition hybrid_services_domain :: "string \<Rightarrow> RegionData option \<Rightarrow> string" where
  "hybrid_services_domain region regionConfig =
     (case regionConfig of
        Some rc \<Rightarrow> if DnsSuffix rc \<noteq> [] then DnsSuffix rc else GetPartitionDNSSuffix (GetPartitionFromRegionFallback region)
      | None \<Rightarrow> GetPartitionDNSSuffix (GetPartitionFromRegionFallback region))"

definition GetEKSHybridRegistry ::
  "environment \<Rightarrow> (string \<Rightarrow> goerr + string list) \<Rightarrow> string \<Rightarrow> RegionData option \<Rightarrow> string wio" where
  "GetEKSHybridRegistry env lookupHost region regionConfig =
     getEksRegistryWithServiceDomainAndRegionConfig env lookupHost region (hybrid_services_domain region regionConfig) regionConfig"

definition GetImageReference :: "string \<Rightarrow> string \<Rightarrow> string \<Rightarrow> string" where
  "GetImageReference registry repository tag = registry @ ''/'' @ repository @ '':'' @ tag"

definition GetSandboxImage :: "string \<Rightarrow> string" where
  "GetSandboxImage registry = GetImageReference registry ''eks/pause'' ''3.5''"

section \<open>Selecting the latest\<close>

text \<open>The contract of a "newer than" test: \<open>newer a b\<close> says that \<open>b\<close> is newer than \<open>a\<close>. Under it the
  selection loop returns an element that no other one is newer than, the first of its rank.\<close>

locale latest_selection =
  fixes newer :: "'a \<Rightarrow> 'a \<Rightarrow> bool"
  assumes newer_irrefl: "\<not> newer a a"
    and newer_trans: "newer a b \<Longrightarrow> newer b c \<Longrightarrow> newer a c"
    and newer_ranks: "\<not> newer a b \<Longrightarrow> \<not> newer b c \<Longrightarrow> \<not> newer a c"
begin

lemma pick_member: "pick_latest newer r xs \<in> set (r # xs)"
  by (induction xs arbitrary: r) auto

lemma pick_not_older: "\<not> newer (pick_latest newer r xs) r"
proof (induction xs arbitrary: r)
  case Nil
  show ?case by (simp add: newer_irrefl)
next
  case (Cons x xs)
  show ?case
  proof (cases "newer r x")
    case True
    then have "\<not> newer x r" using newer_trans [OF True] newer_irrefl [of r] by blast
    then have "\<not> newer (pick_latest newer x xs) r" by (rule newer_ranks [OF Cons [of x]])
    with True show ?thesis by simp
  next
    case False
    with Cons [of r] show ?thesis by simp
  qed
qed

lemma pick_newest: "x \<in> set (r # xs) \<Longrightarrow> \<not> newer (pick_latest newer r xs) x"
proof (induction xs arbitrary: r)
  case Nil
  then show ?case by (simp add: newer_irrefl)
next
  case (Cons y ys)
  let ?r' = "if newer r y then y else r"
  show ?case
  proof (cases "x \<in> set ys")
    case True
    with Cons.IH [of ?r'] show ?thesis by simp
  next
    case False
    with Cons.prems consider "x = r" | "x = y" by auto
    then have "\<not> newer ?r' x"
    proof cases
      case 1
      then show ?thesis using newer_irrefl [of r] newer_trans [of r y r] by (cases "newer r y") auto
    next
      case 2
      then show ?thesis using newer_irrefl [of y] by (cases "newer r y") auto
    qed
    then have "\<not> newer (pick_latest newer ?r' ys) x" by (rule newer_ranks [OF pick_not_older])
    then show ?thesis by simp
  qed
qed

end

definition newer_release :: "EksPatchRelease \<Rightarrow> EksPatchRelease \<Rightarrow> bool" where
  "newer_release a b =
     (case (parse_date (ep_ReleaseDate a), parse_date (ep_ReleaseDate b)) of
        (Inr da, Inr db) \<Rightarrow> date_after db da
      | (Inl _, Inr _) \<Rightarrow> True
      | _ \<Rightarrow> False)"

lemma date_after_order:
  "\<not> date_after a a" "date_after b a \<Longrightarrow> date_after c b \<Longrightarrow> date_after c a"
  "\<not> date_after b a \<Longrightarrow> \<not> date_after c b \<Longrightarrow> \<not> date_after c a"
  unfolding date_after_def by (auto simp del: less_prod_simp)

interpretation release_date: latest_selection newer_release
proof
  fix a b c
  show "\<not> newer_release a a"
    by (auto simp: newer_release_def date_after_order split: sum.splits)
  show "newer_release a b \<Longrightarrow> newer_release b c \<Longrightarrow> newer_release a c"
    by (auto simp: newer_release_def intro: date_after_order(2) split: sum.splits)
  show "\<not> newer_release a b \<Longrightarrow> \<not> newer_release b c \<Longrightarrow> \<not> newer_release a c"
    using date_after_order(3) by (fastforce simp: newer_release_def split: sum.splits)
qed

lemma getLatestDate_loop_eq:
  "getLatestDate_loop rs r = Inr x \<Longrightarrow> x = pick_latest newer_release r rs"
  by (induction rs arbitrary: r) (auto simp: newer_release_def split: sum.splits if_splits)

lemma getLatestDate_loop_parses:
  "getLatestDate_loop rs r = Inr x \<Longrightarrow> rs \<noteq> [] \<Longrightarrow> y \<in> set (r # rs) \<Longrightarrow> \<exists>d. parse_date (ep_ReleaseDate y) = Inr d"
proof (induction rs arbitrary: r)
  case Nil
  then show ?case by simp
next
  case (Cons a rs)
  show ?case
  proof (cases "rs = []")
    case True
    with Cons.prems show ?thesis by (auto split: sum.splits)
  next
    case False
    from Cons.prems(1) obtain da db where d: "parse_date (ep_ReleaseDate r) = Inr da" "parse_date (ep_ReleaseDate a) = Inr db"
      and rest: "getLatestDate_loop rs (if date_after db da then a else r) = Inr x"
      by (auto split: sum.splits)
    from Cons.prems(3) consider "y = r" | "y = a" | "y \<in> set rs" by auto
    then show ?thesis
    proof cases
      case 3
      then show ?thesis by (intro Cons.IH [OF rest False]) simp
    qed (use d in blast)+
  qed
qed

lemma getLatestDate_total:
  "(\<And>y. y \<in> set (r # rs) \<Longrightarrow> \<exists>d. parse_date (ep_ReleaseDate y) = Inr d) \<Longrightarrow> \<exists>x. getLatestDate_loop rs r = Inr x"
proof (induction rs arbitrary: r)
  case Nil
  then show ?case by simp
next
  case (Cons a rs)
  obtain da db where d: "parse_date (ep_ReleaseDate r) = Inr da" "parse_date (ep_ReleaseDate a) = Inr db"
    using Cons.prems [of r] Cons.prems [of a] by auto
  have "\<exists>x. getLatestDate_loop rs (if date_after db da then a else r) = Inr x"
    by (rule Cons.IH) (use Cons.prems in \<open>auto split: if_splits\<close>)
  with d show ?case by simp
qed

section \<open>Facts about artifact sources\<close>

lemma returns_getSource: "returns (getSource env name as)"
  by (induction as) (auto simp: Let_def intro!: returns_intros returns_http)

lemma http_keeps:
  assumes "\<And>w n tr. I (w\<lparr>steps := n, trace := tr\<rparr>) = I w"
  shows "preserves I (GetHttpFileReader env uri)" and "preserves I (GetHttpFile env uri)"
proof -
  have "preserves I (http_Get env u)" for u
    using assms by (auto simp: valid_def http_Get_def split: sum.splits)
  then have d: "preserves I (retryHttpClient_Do env n e u)" for n e u
    by (induction n arbitrary: e) (auto intro!: preserves_intros split: sum.splits)
  then show r: "preserves I (GetHttpFileReader env uri)" for uri
    unfolding GetHttpFileReader_def by (auto intro!: preserves_intros)
  show "preserves I (GetHttpFile env uri)"
    unfolding GetHttpFile_def by (rule preserves_bindE [OF r]) (auto intro!: preserves_intros split: option.splits)
qed

lemma getSource_keeps:
  assumes "\<And>w n tr. I (w\<lparr>steps := n, trace := tr\<rparr>) = I w"
  shows "preserves I (getSource env name as)"
  by (induction as) (auto simp: Let_def intro!: preserves_intros http_keeps [OF assms])

text \<open>The digest a source expects is the one published at the artifact's checksum URI, and its stream is
  what the artifact's URI serves, decompressed when the artifact has a gzip URI.\<close>

definition served :: "environment \<Rightarrow> string \<Rightarrow> stream \<Rightarrow> bool" where
  "served env uri body \<longleftrightarrow> (\<exists>n r. http_get env n uri = Inr r \<and> StatusCode r = 200 \<and> Body r = body)"

lemma retryHttp_served: "valid_ok P (retryHttpClient_Do env n err req) (\<lambda>r _. \<exists>k. http_get env k req = Inr r \<and> StatusCode r = 200)"
proof (induction n arbitrary: err P)
  case 0
  show ?case by (simp add: valid_def)
next
  case (Suc n)
  have "valid_ok P (tryE (http_Get env req)) (\<lambda>r _. \<exists>k. http_get env k req = r)"
    by (auto simp: valid_def tryE_def http_Get_def)
  then show ?case unfolding retryHttpClient_Do.simps
  proof (rule valid_bindE)
    fix x
    show "valid_ok (\<lambda>_. \<exists>k. http_get env k req = x)
         (case x of Inl e \<Rightarrow> retryHttpClient_Do env n e req
          | Inr resp \<Rightarrow> if StatusCode resp \<noteq> 200
              then retryHttpClient_Do env n (ErrMsg (''unexpected status code: '' @ dec_digits (StatusCode resp))) req
              else returnE resp) (\<lambda>r _. \<exists>k. http_get env k req = Inr r \<and> StatusCode r = 200)"
      using Suc.IH by (cases x) (auto simp: valid_def)
  qed
qed

lemma GetHttpFileReader_served: "valid_ok P (GetHttpFileReader env uri) (\<lambda>b _. served env uri b)"
  unfolding GetHttpFileReader_def
  by (rule valid_bindE [OF valid_wrapE [OF retryHttp_served]]) (auto simp: valid_def served_def)

lemma GetHttpFile_served: "valid_ok P (GetHttpFile env uri) (\<lambda>b _. served env uri (b, None))"
  unfolding GetHttpFile_def
proof (rule valid_bindE [OF GetHttpFileReader_served])
  fix body :: stream
  show "valid_ok (\<lambda>_. served env uri body)
     (case snd body of None \<Rightarrow> returnE (fst body) | Some e \<Rightarrow> throwE (ErrWrap (''failed reading file from url: '' @ uri) e))
     (\<lambda>b _. served env uri (b, None))"
    by (cases body; cases "snd body") (auto simp: valid_def)
qed

definition published :: "environment \<Rightarrow> Artifact_entry \<Rightarrow> source \<Rightarrow> bool" where
  "published env a s \<longleftrightarrow>
     (\<exists>body sum d. served env (if ar_GzipURI a \<noteq> [] then ar_GzipURI a else ar_URI a) body \<and>
        served env (ar_ChecksumURI a) (sum, None) \<and> ParseGNUChecksum sum = Inr d \<and> src_expect s = Some d \<and>
        (if ar_GzipURI a \<noteq> [] then gunzip env body = Inr (src_stream s) else src_stream s = body))"

lemma publishedI:
  assumes "served env (if ar_GzipURI a \<noteq> [] then ar_GzipURI a else ar_URI a) obj" and "served env (ar_ChecksumURI a) (c, None)"
    and "(if ar_GzipURI a \<noteq> [] then GzippedWithChecksum env obj c else WithChecksum obj c) = Inr s"
  shows "published env a s"
proof -
  obtain d where "ParseGNUChecksum c = Inr d" "src_expect s = Some d"
    "if ar_GzipURI a \<noteq> [] then gunzip env obj = Inr (src_stream s) else src_stream s = obj"
    using assms(3) by (auto simp: GzippedWithChecksum_def WithChecksum_Inr split: if_splits sum.splits)
  with assms(1,2) show ?thesis unfolding published_def by blast
qed

lemma getSource_published:
  "valid_ok P (getSource env name as)
     (\<lambda>s _. \<exists>a\<in>set as. ar_Name a = name \<and> ar_Arch a = goarch env \<and> ar_OS a = goos env \<and> published env a s)"
proof (induction as arbitrary: P)
  case Nil
  show ?case by (simp add: valid_def)
next
  case (Cons a as)
  have fin: "valid_ok (\<lambda>_. served env (if ar_GzipURI a \<noteq> [] then ar_GzipURI a else ar_URI a) obj \<and> served env (ar_ChecksumURI a) (c, None))
     (wrapE m (liftE (if ar_GzipURI a \<noteq> [] then GzippedWithChecksum env obj c else WithChecksum obj c))) (\<lambda>s _. published env a s)" for obj c m
    unfolding valid_def by (auto simp del: if_not_P if_P split: sum.splits intro!: publishedI)
  have dl: "valid_ok P (bindE (wrapE m1 (GetHttpFileReader env (if ar_GzipURI a \<noteq> [] then ar_GzipURI a else ar_URI a))) (\<lambda>obj.
        bindE (wrapE m2 (GetHttpFile env (ar_ChecksumURI a))) (\<lambda>c.
          wrapE m3 (liftE (if ar_GzipURI a \<noteq> [] then GzippedWithChecksum env obj c else WithChecksum obj c))))) (\<lambda>s _. published env a s)" for m1 m2 m3 P
  proof (rule valid_bindE [OF valid_wrapE [OF GetHttpFileReader_served]])
    fix obj
    let ?so = "served env (if ar_GzipURI a \<noteq> [] then ar_GzipURI a else ar_URI a) obj"
    have "valid_ok (\<lambda>_. ?so) (GetHttpFile env (ar_ChecksumURI a)) (\<lambda>c _. ?so \<and> served env (ar_ChecksumURI a) (c, None))"
      using GetHttpFile_served [of "\<lambda>_. True" env "ar_ChecksumURI a"] by (auto simp: valid_def split: sum.splits)
    then show "valid_ok (\<lambda>_. ?so) (bindE (wrapE m2 (GetHttpFile env (ar_ChecksumURI a))) (\<lambda>c.
          wrapE m3 (liftE (if ar_GzipURI a \<noteq> [] then GzippedWithChecksum env obj c else WithChecksum obj c)))) (\<lambda>s _. published env a s)"
      by (rule valid_bindE [OF valid_wrapE fin])
  qed
  show ?case
  proof (cases "ar_Name a = name \<and> ar_Arch a = goarch env \<and> ar_OS a = goos env")
    case True
    then show ?thesis unfolding getSource.simps Let_def if_P [OF True]
      by (intro valid_post [OF dl]) auto
  next
    case False
    show ?thesis unfolding getSource.simps Let_def if_not_P [OF False]
      by (rule valid_post [OF Cons.IH]) auto
  qed
qed

lemma getSource_checksummed: "valid_ok P (getSource env name as) (\<lambda>s _. src_expect s \<noteq> None)"
  by (rule valid_post [OF getSource_published]) (auto simp: published_def)

lemma newest_by_date:
  assumes "getLatestDateEksPatchRelease rs = Inr r"
  shows "r \<in> set rs \<and> (\<forall>x\<in>set rs. \<not> newer_release r x)"
proof (cases rs)
  case Nil
  with assms show ?thesis by (simp add: getLatestDateEksPatchRelease_def)
next
  case (Cons a as)
  with assms have "getLatestDate_loop rs a = Inr r" by (simp add: getLatestDateEksPatchRelease_def del: getLatestDate_loop.simps)
  then have eq: "r = pick_latest newer_release a rs" by (rule getLatestDate_loop_eq)
  have "r \<in> set (a # rs)" unfolding eq by (rule release_date.pick_member)
  then show ?thesis using Cons release_date.pick_newest [of _ a rs] unfolding eq by auto
qed

section \<open>Properties\<close>

text \<open>C19: The EKS release that is selected for a version is one of the matching patch releases of the manifest, and no
  matching release has a later release date.\<close>

theorem eks_release_is_newest:
  assumes "getLatestEksSource sv eksVersion manifest = Inr r"
  shows "let matched = (case requested_patch sv eksVersion of (mm, patch) \<Rightarrow> matching_patch_releases mm patch (SupportedEksReleases manifest))
    in r \<in> set matched \<and> (\<forall>x\<in>set matched. \<not> newer_release r x)"
proof -
  obtain mm patch where p: "requested_patch sv eksVersion = (mm, patch)" by (cases "requested_patch sv eksVersion")
  define m where "m = matching_patch_releases mm patch (SupportedEksReleases manifest)"
  have "length m = 1 \<and> r = hd m \<or> getLatestDateEksPatchRelease m = Inr r"
    using assms by (auto simp: getLatestEksSource_def p m_def [symmetric] Let_def split: if_splits)
  then have "r \<in> set m \<and> (\<forall>x\<in>set m. \<not> newer_release r x)"
  proof
    assume "length m = 1 \<and> r = hd m"
    then show ?thesis by (cases m) (auto simp: release_date.newer_irrefl)
  qed (rule newest_by_date)
  then show ?thesis by (simp add: p m_def)
qed

definition sample_release :: "string \<Rightarrow> EksPatchRelease" where
  "sample_release d = \<lparr>ep_Version = ''1.31.2'', ep_PatchVersion = ''2'', ep_ReleaseDate = d, ep_Artifacts = []\<rparr>"

definition sample_semver :: semver where
  "sample_semver = \<lparr>sv_IsValid = \<lambda>_. True, sv_MajorMinor = \<lambda>v. take 5 v, sv_Compare = \<lambda>a b. int (length a) - int (length b)\<rparr>"

definition sample_manifest :: Manifest where
  "sample_manifest = \<lparr>SupportedEksReleases = [\<lparr>MajorMinorVersion = ''1.31'', LatestPatchVersion = ''2'',
       PatchReleases = [sample_release ''2024-11-15'', sample_release ''2025-02-28'', sample_release ''2024-12-30'']\<rparr>],
     IamRolesAnywhereReleases = [\<lparr>ir_Version = ''1.1'', ir_Artifacts = []\<rparr>, \<lparr>ir_Version = ''1.1.1'', ir_Artifacts = []\<rparr>],
     SsmReleases = [], RegionConfig = \<lambda>_. None\<rparr>"

theorem eks_release_is_newest_witness:
  "\<not> newer_release (sample_release ''2025-02-28'') (sample_release ''2024-12-30'')"
proof -
  have "getLatestEksSource sample_semver ''1.31'' sample_manifest = Inr (sample_release ''2025-02-28'')" by code_simp
  note eks_release_is_newest [OF this]
  moreover have "sample_release ''2024-12-30'' \<in> set (case requested_patch sample_semver ''1.31'' of (mm, patch) \<Rightarrow>
      matching_patch_releases mm patch (SupportedEksReleases sample_manifest))" by code_simp
  ultimately show ?thesis by (simp add: Let_def)
qed

text \<open>If the semantic version comparison is an order, the signing helper release that is selected is in the manifest and
  no other release has a greater version.\<close>

theorem signing_helper_is_newest:
  assumes "latest_selection (\<lambda>(a :: IamRolesAnywhereRelease) b. sv_Compare sv (ir_Version a) (ir_Version b) < 0)"
    and "getLatestIamRolesAnywhereSource sv manifest = Inr r"
  shows "r \<in> set (IamRolesAnywhereReleases manifest) \<and>
    (\<forall>x\<in>set (IamRolesAnywhereReleases manifest). \<not> sv_Compare sv (ir_Version r) (ir_Version x) < 0)"
proof -
  let ?newer = "\<lambda>(a :: IamRolesAnywhereRelease) b. sv_Compare sv (ir_Version a) (ir_Version b) < 0"
  obtain a as where rs: "IamRolesAnywhereReleases manifest = a # as" and eq: "r = pick_latest ?newer a (a # as)"
    using assms(2) by (auto simp: getLatestIamRolesAnywhereSource_def split: list.splits)
  show ?thesis
    using latest_selection.pick_member [OF assms(1), of a "a # as"] latest_selection.pick_newest [OF assms(1), of _ a "a # as"]
    unfolding rs eq by auto
qed

theorem signing_helper_is_newest_witness:
  "\<not> sv_Compare sample_semver ''1.1.1'' ''1.1'' < 0"
proof -
  have "latest_selection (\<lambda>(a :: IamRolesAnywhereRelease) b. sv_Compare sample_semver (ir_Version a) (ir_Version b) < 0)"
    by unfold_locales (auto simp: sample_semver_def)
  moreover have "getLatestIamRolesAnywhereSource sample_semver sample_manifest = Inr \<lparr>ir_Version = ''1.1.1'', ir_Artifacts = []\<rparr>"
    by code_simp
  ultimately have "\<forall>x\<in>set (IamRolesAnywhereReleases sample_manifest). \<not> sv_Compare sample_semver ''1.1.1'' (ir_Version x) < 0"
    using signing_helper_is_newest [of sample_semver sample_manifest "\<lparr>ir_Version = ''1.1.1'', ir_Artifacts = []\<rparr>"] by simp
  then show ?thesis by (simp add: sample_manifest_def)
qed

text \<open>Looking up an artifact always ends. A source it returns belongs to an entry of the manifest with that name and the
  machine's architecture and operating system; its bytes are what the entry's address served, decompressed if need be,
  and it expects the digest published at the entry's checksum address.\<close>

theorem source_is_published:
  "returns (getSource env name as) \<and>
   valid_ok (\<lambda>_. True) (getSource env name as)
     (\<lambda>s _. \<exists>a. a \<in> set as \<and> ar_Name a = name \<and> ar_Arch a = goarch env \<and> ar_OS a = goos env \<and> published env a s)"
proof
  show "returns (getSource env name as)" by (rule returns_getSource)
  show "valid_ok (\<lambda>_. True) (getSource env name as)
     (\<lambda>s _. \<exists>a. a \<in> set as \<and> ar_Name a = name \<and> ar_Arch a = goarch env \<and> ar_OS a = goos env \<and> published env a s)"
    by (rule valid_post [OF getSource_published]) auto
qed

end
