(* ===== verification/Daemon.thy ===== *)
theory Daemon
  imports Util
begin

text \<open>
  \<open>internal/daemon\<close>: the systemd daemon manager (\<open>systemd.go\<close>, \<open>manager.go\<close>), waiting for
  a status or for an operation (\<open>wait.go\<close>) and retrying an operation (\<open>retry.go\<close>). D-Bus is the
  \<open>dbus\<close> function of the environment; a job's result channel is the pair of the result and the time
  after which it is sent.
\<close>

section \<open>The manager\<close>

datatype DaemonStatus = DaemonStatusRunning | DaemonStatusStopped | DaemonStatusUnknown

definition getServiceUnitName :: "string \<Rightarrow> string" where
  "getServiceUnitName name = name @ ''.service''"

definition ModeReplace :: string where "ModeReplace = ''replace''"
definition TypeSymlink :: string where "TypeSymlink = ''symlink''"
definition TypeUnlink :: string where "TypeUnlink = ''unlink''"

definition DaemonReload :: "environment \<Rightarrow> unit wio" where
  "DaemonReload env = thenE (dbus_call env ReloadUnits) (returnE ())"

definition StartDaemon :: "environment \<Rightarrow> string \<Rightarrow> unit wio" where
  "StartDaemon env name = thenE (dbus_call env (StartUnit (getServiceUnitName name) ModeReplace)) (returnE ())"

text \<open>The value of the property is the quoted string \<open>status.Value.String()\<close>.\<close>

definition status_of :: "string \<Rightarrow> DaemonStatus" where
  "status_of v =
     (if v = CHR 0x22 # ''active'' @ [CHR 0x22] then DaemonStatusRunning
      else if v = CHR 0x22 # ''inactive'' @ [CHR 0x22] then DaemonStatusStopped
      else DaemonStatusUnknown)"

definition GetDaemonStatus :: "environment \<Rightarrow> string \<Rightarrow> DaemonStatus wio" where
  "GetDaemonStatus env name =
     bindE (dbus_call env (GetUnitProperty (getServiceUnitName name) ''ActiveState'')) (\<lambda>r. returnE (status_of (dr_value r)))"

definition StopDaemon :: "environment \<Rightarrow> string \<Rightarrow> unit wio" where
  "StopDaemon env name =
     bindE (GetDaemonStatus env name) (\<lambda>status.
       if status = DaemonStatusRunning
       then thenE (dbus_call env (StopUnit (getServiceUnitName name) ModeReplace)) (returnE ())
       else returnE ())"

text \<open>Operation options: whether a result channel is given, and the mode (\<open>""\<close> when unset). The
  restart returns what the channel will deliver, \<open>None\<close> without a channel.\<close>

record OperationOptions =
  oo_Result :: bool
  oo_Mode :: string

definition ApplyAll :: "OperationOptions \<Rightarrow> OperationOptions \<Rightarrow> OperationOptions" where
  "ApplyAll o' in' =
     (let a = (if oo_Result o' then in'\<lparr>oo_Result := True\<rparr> else in')
      in if oo_Mode o' \<noteq> [] then a\<lparr>oo_Mode := oo_Mode o'\<rparr> else a)"

type_synonym operation_option = "OperationOptions \<Rightarrow> OperationOptions"

definition RestartDaemon :: "environment \<Rightarrow> string \<Rightarrow> operation_option list \<Rightarrow> (string \<times> nat) option wio" where
  "RestartDaemon env name opts =
     (let o' = foldl (\<lambda>o' opt. opt o') \<lparr>oo_Result = False, oo_Mode = ModeReplace\<rparr> opts in
      bindE (dbus_call env (RestartUnit (getServiceUnitName name) (oo_Mode o'))) (\<lambda>r.
        returnE (if oo_Result o' then dr_job r else None)))"

definition EnableDaemon :: "environment \<Rightarrow> string \<Rightarrow> unit wio" where
  "EnableDaemon env name =
     bindE (dbus_call env (EnableUnitFiles (getServiceUnitName name))) (\<lambda>r. case dr_changes r of
        [] \<Rightarrow> returnE ()
      | c # _ \<Rightarrow> if c \<noteq> TypeSymlink then throwE (ErrMsg (''unexpected unit file change type: '' @ c)) else returnE ())"

definition DisableDaemon :: "environment \<Rightarrow> string \<Rightarrow> unit wio" where
  "DisableDaemon env name =
     bindE (dbus_call env (DisableUnitFiles (getServiceUnitName name))) (\<lambda>r. case dr_changes r of
        [c] \<Rightarrow> if c \<noteq> TypeUnlink then throwE (ErrMsg (''unexpected unit file change type: '' @ c)) else returnE ()
      | cs \<Rightarrow> throwE (ErrMsg (''unexpected number of unit file changes: '' @ dec_digits (length cs))))"

section \<open>Waiting\<close>

definition status_text :: "DaemonStatus \<Rightarrow> string" where
  "status_text s = (case s of DaemonStatusRunning \<Rightarrow> ''running'' | DaemonStatusStopped \<Rightarrow> ''stopped'' | DaemonStatusUnknown \<Rightarrow> ''unknown'')"

text \<open>On an error the manager's status is \<open>unknown\<close>, which is what the final message shows.\<close>

definition WaitForStatus_attempt :: "environment \<Rightarrow> string \<Rightarrow> DaemonStatus \<Rightarrow> (DaemonStatus + unit) wio" where
  "WaitForStatus_attempt env daemonName desired =
     bindE (tryE (GetDaemonStatus env daemonName)) (\<lambda>r. case r of
        Inl err \<Rightarrow> returnE (Inl DaemonStatusUnknown)
      | Inr status \<Rightarrow> returnE (if status = desired then Inr () else Inl status))"

definition WaitForStatus :: "environment \<Rightarrow> ctx \<Rightarrow> string \<Rightarrow> DaemonStatus \<Rightarrow> nat \<Rightarrow> unit wio" where
  "WaitForStatus env c daemonName desired backoff =
     poll (WaitForStatus_attempt env daemonName desired)
       (\<lambda>_ status. ErrWrap (''daemon '' @ daemonName @ '' still has status '' @ status_text status) ctx_err) c backoff 0"

text \<open>Waiting on the result channel or the context: without a deadline and without a result nothing
  ever happens.\<close>

definition select_done_or_result :: "ctx \<Rightarrow> (string \<times> nat) option \<Rightarrow> string option wio" where
  "select_done_or_result c job = (\<lambda>w.
     case (c, job) of
       (None, None) \<Rightarrow> None
     | (None, Some (r, d)) \<Rightarrow> Some (Inr (Some r), w\<lparr>clock := clock w + d\<rparr>)
     | (Some t, None) \<Rightarrow> Some (Inr None, w\<lparr>clock := max (clock w) t\<rparr>)
     | (Some t, Some (r, d)) \<Rightarrow>
         if t \<le> clock w + d then Some (Inr None, w\<lparr>clock := max (clock w) t\<rparr>)
         else Some (Inr (Some r), w\<lparr>clock := clock w + d\<rparr>))"

type_synonym async_operation = "string \<Rightarrow> operation_option list \<Rightarrow> (string \<times> nat) option wio"

definition WaitForOperation :: "ctx \<Rightarrow> async_operation \<Rightarrow> string \<Rightarrow> operation_option list \<Rightarrow> unit wio" where
  "WaitForOperation c op name opts =
     (let o' = foldl (\<lambda>o' opt. opt o') \<lparr>oo_Result = False, oo_Mode = []\<rparr> opts in
      if oo_Result o' then throwE (ErrMsg ''cannot specify a result channel when waiting for an operation'')
      else bindE (op name [ApplyAll (o'\<lparr>oo_Result := True\<rparr>)]) (\<lambda>job.
           bindE (select_done_or_result c job) (\<lambda>res. case res of
             None \<Rightarrow> throwE (ErrWrap (''operation for daemon '' @ name @ '' did not complete in time, result is unknown'') ctx_err)
           | Some r \<Rightarrow>
               if r = ''failed'' \<or> r = ''timeout''
               then throwE (ErrMsg (''operation for daemon '' @ name @ '' failed with result ['' @ r @ '']''))
               else returnE ())))"

definition RetryOperation_attempt :: "ctx \<Rightarrow> async_operation \<Rightarrow> string \<Rightarrow> operation_option list \<Rightarrow> (goerr + unit) wio" where
  "RetryOperation_attempt c op name opts = bindE (tryE (WaitForOperation c op name opts)) returnE"

definition RetryOperation :: "ctx \<Rightarrow> async_operation \<Rightarrow> string \<Rightarrow> nat \<Rightarrow> operation_option list \<Rightarrow> unit wio" where
  "RetryOperation c op name backoff opts =
     poll (RetryOperation_attempt c op name opts)
       (\<lambda>retries err. ErrWrap (''operation didn't succeed after '' @ dec_digits retries @ '' retries'') err) c backoff 0"

section \<open>Facts\<close>

lemma returns_daemon:
  "returns (DaemonReload env)" "returns (StartDaemon env n)" "returns (GetDaemonStatus env n)" "returns (StopDaemon env n)"
  "returns (RestartDaemon env n opts)" "returns (EnableDaemon env n)" "returns (DisableDaemon env n)"
  unfolding DaemonReload_def StartDaemon_def GetDaemonStatus_def StopDaemon_def RestartDaemon_def EnableDaemon_def DisableDaemon_def Let_def
  by (auto intro!: returns_intros returns_os split: list.splits)

lemma polite_dbus: "polite (dbus_call env op)"
  by (auto simp: polite_def dbus_call_def Let_def)

lemma polite_tryE: "polite m \<Longrightarrow> polite (tryE m)"
  unfolding polite_def
proof
  fix w assume "\<forall>w. \<exists>r w'. m w = Some (r, w') \<and> clock w \<le> clock w'"
  then obtain r w' where "m w = Some (r, w')" "clock w \<le> clock w'" by blast
  then show "\<exists>r w'. tryE m w = Some (r, w') \<and> clock w \<le> clock w'" by (simp add: tryE_def)
qed

lemma polite_bindE: "polite m \<Longrightarrow> (\<And>x. polite (k x)) \<Longrightarrow> polite (bindE m k)"
  unfolding polite_def
proof (intro allI)
  fix w assume m: "\<forall>w. \<exists>r w'. m w = Some (r, w') \<and> clock w \<le> clock w'"
    and k: "\<And>x. \<forall>w. \<exists>r w'. k x w = Some (r, w') \<and> clock w \<le> clock w'"
  from m obtain r w1 where 1: "m w = Some (r, w1)" "clock w \<le> clock w1" by blast
  show "\<exists>r w'. bindE m k w = Some (r, w') \<and> clock w \<le> clock w'"
  proof (cases r)
    case (Inr x)
    from k obtain s w2 where "k x w1 = Some (s, w2)" "clock w1 \<le> clock w2" by blast
    with 1 Inr show ?thesis by (auto simp: bindE_def)
  qed (use 1 in \<open>auto simp: bindE_def\<close>)
qed

lemma polite_pure: "polite (returnE x)" "polite (throwE e)"
  by (auto simp: polite_def)

lemma polite_WaitForStatus_attempt: "polite (WaitForStatus_attempt env n d)"
  unfolding WaitForStatus_attempt_def GetDaemonStatus_def
  by (auto intro!: polite_bindE polite_tryE polite_dbus polite_pure split: sum.splits)

lemma polite_RestartDaemon: "polite (RestartDaemon env n opts)"
  unfolding RestartDaemon_def Let_def by (auto intro!: polite_bindE polite_dbus polite_pure)

lemma polite_select_result: "polite (select_done_or_result (Some t) job)"
  by (auto simp: polite_def select_done_or_result_def split: option.splits)

lemma polite_WaitForOperation: "(\<And>n os. polite (op n os)) \<Longrightarrow> polite (WaitForOperation (Some t) op name opts)"
  unfolding WaitForOperation_def Let_def
  by (auto intro!: polite_bindE polite_select_result polite_pure split: option.splits)

lemma polite_RetryOperation_attempt:
  "(\<And>n os. polite (op n os)) \<Longrightarrow> polite (RetryOperation_attempt (Some t) op name opts)"
  unfolding RetryOperation_attempt_def by (auto intro!: polite_bindE polite_tryE polite_WaitForOperation polite_pure)

lemma WaitForStatus_returns: "0 < backoff \<Longrightarrow> returns (WaitForStatus env (Some t) n d backoff)"
  unfolding WaitForStatus_def by (rule returns_pollI [OF polite_WaitForStatus_attempt])

lemma RetryOperation_returns:
  "(\<And>n os. polite (op n os)) \<Longrightarrow> 0 < backoff \<Longrightarrow> returns (RetryOperation (Some t) op name backoff opts)"
  unfolding RetryOperation_def by (rule returns_pollI [OF polite_RetryOperation_attempt])

text \<open>D-Bus calls change neither the file system nor the process state.\<close>

definition off_bus :: "(world \<Rightarrow> bool) \<Rightarrow> bool" where
  "off_bus I \<longleftrightarrow> (\<forall>w c n tr. I (w\<lparr>clock := c, steps := n, trace := tr\<rparr>) = I w)"

lemma off_bus_fs: "off_bus (\<lambda>w. P (fs w) (tracker_obj w) (SsmDaemonName w))"
  by (simp add: off_bus_def)

lemma dbus_keeps: "off_bus I \<Longrightarrow> preserves I (dbus_call env op)"
  by (auto simp: valid_def off_bus_def dbus_call_def Let_def split: option.splits)

lemma off_bus_clock: "off_bus I \<Longrightarrow> I w \<Longrightarrow> I (w\<lparr>clock := c\<rparr>)"
proof -
  assume "off_bus I" and w: "I w"
  then have "I (w\<lparr>clock := c, steps := steps w, trace := trace w\<rparr>) = I w" unfolding off_bus_def by iprover
  moreover have "w\<lparr>clock := c, steps := steps w, trace := trace w\<rparr> = w\<lparr>clock := c\<rparr>" by simp
  ultimately show ?thesis using w by simp
qed

lemma select_keeps: "off_bus I \<Longrightarrow> preserves I (select_done_or_result c job)"
  by (auto simp: valid_def select_done_or_result_def intro: off_bus_clock split: option.splits if_splits)

lemma daemon_keeps:
  assumes "off_bus I"
  shows "preserves I (DaemonReload env)" and "preserves I (StartDaemon env n)" and "preserves I (GetDaemonStatus env n)"
    and "preserves I (StopDaemon env n)" and "preserves I (RestartDaemon env n opts)" and "preserves I (EnableDaemon env n)"
    and "preserves I (DisableDaemon env n)"
  unfolding DaemonReload_def StartDaemon_def GetDaemonStatus_def StopDaemon_def RestartDaemon_def EnableDaemon_def DisableDaemon_def Let_def
  by (auto intro!: preserves_intros dbus_keeps [OF assms] split: list.splits)

lemma preserves_poll:
  assumes "preserves I attempt" and "\<And>w n. I w \<Longrightarrow> I (w\<lparr>clock := n\<rparr>)"
  shows "preserves I (poll attempt onDone c backoff k)"
proof -
  from assms(1) have "valid I attempt (\<lambda>r. case r of Inl s \<Rightarrow> I | Inr u \<Rightarrow> I) (\<lambda>_. I)"
    by (rule valid_post) (auto split: sum.splits)
  then show ?thesis by (rule valid_poll) (auto intro: assms(2))
qed

lemma WaitForStatus_keeps: "off_bus I \<Longrightarrow> preserves I (WaitForStatus env c n d backoff)"
proof -
  assume I: "off_bus I"
  have "preserves I (WaitForStatus_attempt env n d)"
    unfolding WaitForStatus_attempt_def
    by (intro preserves_bindE preserves_tryE daemon_keeps [OF I]) (auto intro: preserves_returnE split: sum.splits)
  then show ?thesis unfolding WaitForStatus_def by (rule preserves_poll) (rule off_bus_clock [OF I])
qed

lemma RetryOperation_keeps:
  "off_bus I \<Longrightarrow> (\<And>n os. preserves I (op n os)) \<Longrightarrow> preserves I (RetryOperation c op name backoff opts)"
proof -
  assume I: "off_bus I" and op: "\<And>n os. preserves I (op n os)"
  have "preserves I (WaitForOperation c op name opts)"
    unfolding WaitForOperation_def Let_def
    by (auto intro!: preserves_bindE preserves_throwE preserves_returnE select_keeps [OF I] op split: option.splits)
  then have "preserves I (RetryOperation_attempt c op name opts)"
    unfolding RetryOperation_attempt_def by (intro preserves_bindE preserves_tryE preserves_returnE)
  then show ?thesis unfolding RetryOperation_def by (rule preserves_poll) (rule off_bus_clock [OF I])
qed

text \<open>\<open>WaitForStatus\<close> succeeds only after systemd has reported the desired status: it is what the
  last interaction answered.\<close>

definition reports_status :: "environment \<Rightarrow> string \<Rightarrow> DaemonStatus \<Rightarrow> world \<Rightarrow> bool" where
  "reports_status env n d w \<longleftrightarrow>
     (\<exists>k. steps w = Suc k \<and>
        (let r = dbus env k (GetUnitProperty (getServiceUnitName n) ''ActiveState'') (fs w) in
         dr_err r = None \<and> status_of (dr_value r) = d))"

lemma WaitForStatus_ok: "valid_ok (\<lambda>_. True) (WaitForStatus env c n d backoff) (\<lambda>_. reports_status env n d)"
proof -
  have st: "valid_ok (\<lambda>_. True) (GetDaemonStatus env n) (\<lambda>s. reports_status env n s)"
    by (auto simp: valid_def GetDaemonStatus_def bindE_def dbus_call_def returnE_def Let_def reports_status_def
        split: option.splits sum.splits)
  have "valid_ok (\<lambda>_. True) (tryE (GetDaemonStatus env n)) (\<lambda>r w. \<forall>s. r = Inr s \<longrightarrow> reports_status env n s w)"
    by (rule valid_tryE, rule valid_post [OF st]) auto
  then have "valid_ok (\<lambda>_. True) (WaitForStatus_attempt env n d) (\<lambda>r. case r of Inl s \<Rightarrow> \<lambda>_. True | Inr u \<Rightarrow> reports_status env n d)"
    unfolding WaitForStatus_attempt_def by (rule valid_bindE) (auto simp: valid_def split: sum.splits)
  then show ?thesis unfolding WaitForStatus_def by (rule valid_poll) auto
qed

section \<open>Properties\<close>

text \<open>Waiting for a daemon's status under a deadline always ends, and ends successfully only when systemd's last answer
  was the desired status.\<close>

theorem wait_for_status_reports:
  assumes "0 < backoff"
  shows "returns (WaitForStatus env (Some t) n d backoff) \<and> valid_ok (\<lambda>_. True) (WaitForStatus env (Some t) n d backoff) (\<lambda>_. reports_status env n d)"
  using WaitForStatus_returns [OF assms] WaitForStatus_ok by blast

theorem wait_for_status_reports_witness:
  "valid_ok (\<lambda>_. True) (WaitForStatus sample_env (Some 60) ''kubelet'' DaemonStatusRunning 5) (\<lambda>_. reports_status sample_env ''kubelet'' DaemonStatusRunning) \<and>
   fst (the (WaitForStatus sample_env (Some 60) ''kubelet'' DaemonStatusRunning 5 sample_world)) = Inr ()"
proof
  show "valid_ok (\<lambda>_. True) (WaitForStatus sample_env (Some 60) ''kubelet'' DaemonStatusRunning 5) (\<lambda>_. reports_status sample_env ''kubelet'' DaemonStatusRunning)"
    using wait_for_status_reports [of 5 sample_env 60 "''kubelet''" DaemonStatusRunning] by simp
  show "fst (the (WaitForStatus sample_env (Some 60) ''kubelet'' DaemonStatusRunning 5 sample_world)) = Inr ()"
    unfolding WaitForStatus_def
    by (subst poll.simps) (simp add: WaitForStatus_attempt_def GetDaemonStatus_def dbus_call_def tryE_def bindE_def returnE_def
        Let_def sample_env_def sample_world_def status_of_def)
qed

text \<open>Retrying an asynchronous systemd operation, such as a restart, under a deadline always ends, even if systemd never
  sends the result of the job.\<close>

theorem retry_operation_ends:
  assumes "0 < backoff"
  shows "returns (RetryOperation (Some t) (RestartDaemon env) name backoff opts)"
  by (rule RetryOperation_returns [OF polite_RestartDaemon assms])

theorem retry_operation_ends_witness:
  "returns (RetryOperation (Some 100) (RestartDaemon (sample_env\<lparr>dbus := \<lambda>_ _ _. \<lparr>dr_err = None, dr_value = [], dr_changes = [], dr_job = None, dr_elapsed = 0\<rparr>\<rparr>)) ''kubelet'' 20 [])"
  by (rule retry_operation_ends) simp

end
