(* ===== verification/Node_Config.thy ===== *)
theory Node_Config
  imports Aws_Source Daemon "HOL-Library.Word"
begin

text \<open>
  The node configuration (\<open>internal/api/types.go\<close>), credential providers
  (\<open>internal/creds/creds.go\<close>), certificates (\<open>internal/certificate\<close>), and the hybrid
  node provider's static validation, defaults, enrichment, version skew, cluster access and
  inactivity checks (\<open>internal/node/hybrid\<close>).

  Go pointers are options. X.509 and PEM, the EKS API and the semantic version parser are parameters.
\<close>

section \<open>Types\<close>

record ClusterDetails =
  cl_Name :: string
  cl_Region :: string
  APIServerEndpoint :: string
  CertificateAuthority :: "bytes option"
  CIDR :: string
  EnableOutpost :: "bool option"
  cl_ID :: string

record KubeletOptions =
  kubelet_Config :: "(string \<times> bytes) list"
  kubelet_Flags :: "string list"

record IAMRolesAnywhere =
  ra_NodeName :: string
  TrustAnchorARN :: string
  ProfileARN :: string
  RoleARN :: string
  AwsConfigPath :: string
  CertificatePath :: string
  PrivateKeyPath :: string

record SSM =
  ActivationCode :: string
  ActivationID :: string

record HybridOptions =
  EnableCredentialsFile :: bool
  ho_IAMRolesAnywhere :: "IAMRolesAnywhere option"
  ho_SSM :: "SSM option"

record NodeConfigSpec =
  Cluster :: ClusterDetails
  containerd_Config :: string
  instance_LocalStorage_Strategy :: string
  Kubelet_opts :: KubeletOptions
  Hybrid :: "HybridOptions option"

record NodeConfigStatus =
  hybrid_NodeName :: string
  SandboxImage :: string
  instance_ID :: string
  instance_Region :: string
  instance_Type :: string
  instance_AvailabilityZone :: string
  instance_MAC :: string
  instance_PrivateDNSName :: string

record NodeConfig =
  Spec :: NodeConfigSpec
  Status :: NodeConfigStatus

datatype NodeType = NT_Ssm | NT_IamRolesAnywhere | NT_Ec2 | NT_Outpost

definition IsHybridNode :: "NodeConfig \<Rightarrow> bool" where
  "IsHybridNode nc = (Hybrid (Spec nc) \<noteq> None)"

definition IsOutpostNode :: "NodeConfig \<Rightarrow> bool" where
  "IsOutpostNode nc = (EnableOutpost (Cluster (Spec nc)) = Some True)"

definition IsIAMRolesAnywhere :: "NodeConfig \<Rightarrow> bool" where
  "IsIAMRolesAnywhere nc = (case Hybrid (Spec nc) of None \<Rightarrow> False | Some h \<Rightarrow> ho_IAMRolesAnywhere h \<noteq> None)"

definition IsSSM :: "NodeConfig \<Rightarrow> bool" where
  "IsSSM nc = (case Hybrid (Spec nc) of None \<Rightarrow> False | Some h \<Rightarrow> ho_SSM h \<noteq> None)"

definition GetNodeType :: "NodeConfig \<Rightarrow> NodeType" where
  "GetNodeType nc =
     (if IsSSM nc then NT_Ssm else if IsIAMRolesAnywhere nc then NT_IamRolesAnywhere
      else if IsOutpostNode nc then NT_Outpost else NT_Ec2)"

section \<open>Credential providers\<close>

datatype CredentialProvider = SsmCredentialProvider | IamRolesAnywhereCredentialProvider

definition GetCredentialProvider :: "string \<Rightarrow> goerr + CredentialProvider" where
  "GetCredentialProvider credProcess =
     (if credProcess = ''ssm'' then Inr SsmCredentialProvider
      else if credProcess = ''iam-ra'' then Inr IamRolesAnywhereCredentialProvider
      else Inl (ErrMsg ''invalid credential process provided. Valid options are ssm and iam-ra''))"

definition GetCredentialProviderFromNodeConfig :: "NodeConfig \<Rightarrow> goerr + CredentialProvider" where
  "GetCredentialProviderFromNodeConfig nodeCfg =
     (if IsSSM nodeCfg then Inr SsmCredentialProvider
      else if IsIAMRolesAnywhere nodeCfg then Inr IamRolesAnywhereCredentialProvider
      else Inl (ErrMsg ''no credential process provided in nodeConfig''))"

definition GetCredentialProviderFromInstalledArtifacts :: "InstalledArtifacts \<Rightarrow> goerr + CredentialProvider" where
  "GetCredentialProviderFromInstalledArtifacts artifacts =
     (if InstalledArtifacts.Ssm artifacts then Inr SsmCredentialProvider
      else if InstalledArtifacts.IamRolesAnywhere artifacts then Inr IamRolesAnywhereCredentialProvider
      else Inl (ErrMsg ''no credential process found in installed artifacts''))"

section \<open>Certificates\<close>

record x509 =
  pem_decode :: "bytes \<Rightarrow> bytes option"
  parse_certificate :: "bytes \<Rightarrow> goerr + nat \<times> nat"
  ca_parses :: "bytes \<Rightarrow> bool"
  verify_chain :: "bytes \<Rightarrow> bytes \<Rightarrow> nat \<Rightarrow> goerr option"

text \<open>A certificate parses to its validity period \<open>(NotBefore, NotAfter)\<close>; the error types of the package
  are \<open>TypedError\<close> values. An error that is not "not exist" is a \<open>CertFileError\<close>.\<close>

definition certificate_Validate :: "environment \<Rightarrow> x509 \<Rightarrow> path \<Rightarrow> bytes \<Rightarrow> unit wio" where
  "certificate_Validate env x certPath ca =
     bindE (tryE (os_Stat env certPath)) (\<lambda>st. case st of
        Inl err \<Rightarrow>
          if os_IsNotExist err then throwE (TypedError ''CertNotFoundError'' ''no certificate found'' (Some err))
          else throwE (TypedError ''CertFileError'' ''checking certificate'' (Some err))
      | Inr _ \<Rightarrow>
          bindE (mapErrE (\<lambda>err. TypedError ''CertReadError'' ''reading certificate'' (Some err)) (os_ReadFile env certPath)) (\<lambda>certData.
            case pem_decode x certData of
              None \<Rightarrow> throwE (TypedError ''CertInvalidFormatError'' ''parsing certificate'' None)
            | Some block \<Rightarrow>
                (case parse_certificate x block of
                   Inl err \<Rightarrow> throwE (TypedError ''CertInvalidFormatError'' ''parsing certificate'' (Some err))
                 | Inr (notBefore, notAfter) \<Rightarrow>
                     bindE (getE clock) (\<lambda>now.
                       if now < notBefore then throwE (TypedError ''CertClockSkewError'' ''server certificate is not yet valid'' None)
                       else if now > notAfter then throwE (TypedError ''CertExpiredError'' ''server certificate has expired'' None)
                       else if ca \<noteq> [] then
                         if \<not> ca_parses x ca then throwE (TypedError ''CertParseCAError'' ''parsing cluster CA certificate'' None)
                         else (case verify_chain x block ca now of
                                 Some err \<Rightarrow> throwE (TypedError ''CertInvalidCAError'' ''certificate is not valid for the current cluster'' (Some err))
                               | None \<Rightarrow> returnE ())
                       else returnE ()))))"

text \<open>\<open>errors.As\<close> to one of the package's types: the chain of wrapped errors is searched.\<close>

fun errors_As :: "string \<Rightarrow> goerr \<Rightarrow> bool" where
  "errors_As n (ErrMsg m) = False"
| "errors_As n (ErrNotExist m) = False"
| "errors_As n (ErrWrap m e) = errors_As n e"
| "errors_As n (ErrJoin es) = list_ex (errors_As n) es"
| "errors_As n (RemediableError e r) = False"
| "errors_As n (WarningError e r) = False"
| "errors_As n (TypedError t m None) = (t = n)"
| "errors_As n (TypedError t m (Some e)) = (t = n \<or> errors_As n e)"

definition IsDateValidationError :: "goerr \<Rightarrow> bool" where
  "IsDateValidationError err = (errors_As ''CertClockSkewError'' err \<or> errors_As ''CertExpiredError'' err)"

definition IsNoCertError :: "goerr \<Rightarrow> bool" where
  "IsNoCertError err = errors_As ''CertNotFoundError'' err"

definition AddKubeletRemediation :: "path \<Rightarrow> goerr \<Rightarrow> goerr" where
  "AddKubeletRemediation certPath err =
     (let errWithContext = ErrWrap ''validating kubelet certificate'' err in
      case err of
        TypedError t _ _ \<Rightarrow>
          if t \<in> {''CertNotFoundError'', ''CertFileError'', ''CertReadError''} then
            WithRemediation errWithContext ''Kubelet certificate will be created when the kubelet is able to authenticate with the API server. Check previous authentication remediation advice.''
          else if t = ''CertInvalidFormatError'' then
            WithRemediation errWithContext (''Delete the kubelet server certificate file '' @ certPath @ '' and restart kubelet'')
          else if t = ''CertClockSkewError'' then
            WithRemediation errWithContext ''Verify the system time is correct and restart the kubelet.''
          else if t = ''CertExpiredError'' then
            WithRemediation errWithContext (''Delete the kubelet server certificate file '' @ certPath @ '' and restart kubelet. Validate `serverTLSBootstrap` is true in the kubelet config /etc/kubernetes/kubelet/config.json to automatically rotate the certificate'')
          else if t = ''CertParseCAError'' then WithRemediation errWithContext ''Ensure the cluster CA certificate is valid''
          else if t = ''CertInvalidCAError'' then
            WithRemediation errWithContext (''Please remove the kubelet server certificate file '' @ certPath @ '' or use '' @ [CHR 0x22] @ ''--skip kubelet-cert-validation'' @ [CHR 0x22] @ '' if this is expected'')
          else errWithContext
      | _ \<Rightarrow> errWithContext)"

definition iamRolesCertGuideURL :: string where
  "iamRolesCertGuideURL = ''To generate a new IAM Roles Anywhere (IAM-RA) certificate, see the steps in the documentation: https://docs.aws.amazon.com/eks/latest/userguide/hybrid-nodes-creds.html#hybrid-nodes-role''"

definition addIAMRARemediation :: "path \<Rightarrow> goerr \<Rightarrow> goerr" where
  "addIAMRARemediation certPath err =
     (let errWithContext = ErrWrap ''validating iam-roles-anywhere certificate'' err in
      case err of
        TypedError t _ _ \<Rightarrow>
          if t \<in> {''CertNotFoundError'', ''CertFileError'', ''CertReadError''} then
            WithRemediation errWithContext (''Verify the IAM role anywhere certificate at '' @ certPath @ ''. '' @ iamRolesCertGuideURL)
          else if t = ''CertInvalidFormatError'' then
            WithRemediation errWithContext (''Verify the IAM Role certificate format. '' @ iamRolesCertGuideURL)
          else if t = ''CertClockSkewError'' then
            WithRemediation errWithContext (''Verify the IAM Role certificate validity or system time is correct. '' @ iamRolesCertGuideURL)
          else if t = ''CertExpiredError'' then
            WithRemediation errWithContext (''Generate a new IAM Roles Anywhere certificate as the current one has expired. '' @ iamRolesCertGuideURL)
          else if t = ''CertParseCAError'' then
            WithRemediation errWithContext (''Ensure the IAM Roles Anywhere certificate is valid. '' @ iamRolesCertGuideURL)
          else if t = ''CertInvalidCAError'' then
            WithRemediation errWithContext (''Please remove the IAM Roles Anywhere certificate file at '' @ certPath @ ''. '' @ iamRolesCertGuideURL)
          else errWithContext
      | _ \<Rightarrow> errWithContext)"

section \<open>Static validation\<close>

fun extractFlagValue_loop :: "string list \<Rightarrow> string \<Rightarrow> string \<Rightarrow> string" where
  "extractFlagValue_loop [] flagPrefix flagValue = flagValue"
| "extractFlagValue_loop (arg # args) flagPrefix flagValue =
     extractFlagValue_loop args flagPrefix (if HasPrefix arg flagPrefix then TrimPrefix arg flagPrefix else flagValue)"

definition extractFlagValue :: "string list \<Rightarrow> string \<Rightarrow> string" where
  "extractFlagValue args flag = extractFlagValue_loop args (''--'' @ flag @ ''='') []"

text \<open>The pattern \<open>^.{20,250}$\<close> counts code points as package \<open>regexp\<close> decodes them (\<open>utf8.DecodeRune\<close>): a
  well-formed UTF-8 sequence is one, and so is every byte that does not begin one. The dot matches all of them but
  the line feed.\<close>

definition byte_between :: "nat \<Rightarrow> nat \<Rightarrow> char \<Rightarrow> bool" where
  "byte_between lo hi c \<longleftrightarrow> lo \<le> (of_char c :: nat) \<and> (of_char c :: nat) \<le> hi"

text \<open>How many bytes after the first one belong to its code point.\<close>

definition rune_tail :: "char \<Rightarrow> string \<Rightarrow> nat" where
  "rune_tail c cs =
     (let b = (of_char c :: nat); cont = byte_between 128 191;
          lo = (if b = 224 then 160 else if b = 240 then 144 else 128);
          hi = (if b = 237 then 159 else if b = 244 then 143 else 191) in
      case cs of
        [] \<Rightarrow> 0
      | c1 # cs1 \<Rightarrow>
          if \<not> (194 \<le> b \<and> b \<le> 244) \<or> \<not> byte_between lo hi c1 then 0
          else if b < 224 then 1
          else (case cs1 of
                  [] \<Rightarrow> 0
                | c2 # cs2 \<Rightarrow>
                    if \<not> cont c2 then 0
                    else if b < 240 then 2
                    else (case cs2 of [] \<Rightarrow> 0 | c3 # _ \<Rightarrow> if cont c3 then 3 else 0)))"

function rune_count :: "string \<Rightarrow> nat" where
  "rune_count [] = 0"
| "rune_count (c # cs) = Suc (rune_count (drop (rune_tail c cs) cs))"
  by pat_completeness auto
termination by (relation "measure length") auto

definition matches_activation_code :: "string \<Rightarrow> bool" where
  "matches_activation_code s = (newline \<notin> set s \<and> 20 \<le> rune_count s \<and> rune_count s \<le> 250)"

definition is_lower_hex :: "char \<Rightarrow> bool" where
  "is_lower_hex c = (is_digit c \<or> (97 \<le> (of_char c :: nat) \<and> (of_char c :: nat) \<le> 102))"

text \<open>\<open>^[0-9a-f]{8}-[0-9a-f]{4}-[0-9a-f]{4}-[0-9a-f]{4}-[0-9a-f]{12}$\<close>\<close>

definition matches_activation_id :: "string \<Rightarrow> bool" where
  "matches_activation_id s =
     (let ps = split_on CHR ''-'' s in map length ps = [8, 4, 4, 4, 12] \<and> list_all (list_all is_lower_hex) ps)"

definition validateRolesAnywhereNode :: "environment \<Rightarrow> x509 \<Rightarrow> IAMRolesAnywhere \<Rightarrow> unit wio" where
  "validateRolesAnywhereNode env x ra =
     (if RoleARN ra = [] then throwE (ErrMsg ''RoleARN is missing in hybrid iam roles anywhere configuration'')
      else if ProfileARN ra = [] then throwE (ErrMsg ''ProfileARN is missing in hybrid iam roles anywhere configuration'')
      else if TrustAnchorARN ra = [] then throwE (ErrMsg ''TrustAnchorARN is missing in hybrid iam roles anywhere configuration'')
      else if ra_NodeName ra = [] then throwE (ErrMsg ''NodeName can't be empty in hybrid iam roles anywhere configuration'')
      else if length (ra_NodeName ra) > 64 then throwE (ErrMsg ''NodeName can't be longer than 64 characters in hybrid iam roles anywhere configuration'')
      else if CertificatePath ra = [] then throwE (ErrMsg ''CertificatePath is missing in hybrid iam roles anywhere configuration'')
      else bindE (file_Exists env (CertificatePath ra)) (\<lambda>certExists.
        if \<not> certExists then throwE (ErrMsg (''IAM Roles Anywhere certificate '' @ CertificatePath ra @ '' not found''))
        else thenE (mapErrE (addIAMRARemediation (CertificatePath ra)) (certificate_Validate env x (CertificatePath ra) []))
          (if PrivateKeyPath ra = [] then throwE (ErrMsg ''PrivateKeyPath is missing in hybrid iam roles anywhere configuration'')
           else bindE (file_Exists env (PrivateKeyPath ra)) (\<lambda>keyExists.
             if \<not> keyExists then throwE (ErrMsg (''IAM Roles Anywhere private key '' @ PrivateKeyPath ra @ '' not found''))
             else returnE ()))))"

definition validate_ssm :: "SSM \<Rightarrow> goerr option" where
  "validate_ssm s =
     (if ActivationCode s = [] then Some (ErrMsg ''ActivationCode is missing in hybrid ssm configuration'')
      else if ActivationID s = [] then Some (ErrMsg ''ActivationID is missing in hybrid ssm configuration'')
      else if \<not> matches_activation_code (ActivationCode s)
      then Some (ErrMsg (''invalid ActivationCode format: '' @ ActivationCode s @ ''. Must be 20-250 characters''))
      else if \<not> matches_activation_id (ActivationID s)
      then Some (ErrMsg (''invalid ActivationID format: '' @ ActivationID s @
                         ''. Must be in format: ^[0-9a-f]{8}-[0-9a-f]{4}-[0-9a-f]{4}-[0-9a-f]{4}-[0-9a-f]{12}$''))
      else None)"

definition iamra_of :: "NodeConfig \<Rightarrow> IAMRolesAnywhere option" where
  "iamra_of nc = (case Hybrid (Spec nc) of None \<Rightarrow> None | Some h \<Rightarrow> ho_IAMRolesAnywhere h)"

definition ssm_of :: "NodeConfig \<Rightarrow> SSM option" where
  "ssm_of nc = (case Hybrid (Spec nc) of None \<Rightarrow> None | Some h \<Rightarrow> ho_SSM h)"

definition ValidateConfig :: "environment \<Rightarrow> x509 \<Rightarrow> NodeConfig \<Rightarrow> unit wio" where
  "ValidateConfig env x cfg =
     (if cl_Name (Cluster (Spec cfg)) = [] then throwE (ErrMsg ''Name is missing in cluster configuration'')
      else if cl_Region (Cluster (Spec cfg)) = [] then throwE (ErrMsg ''Region is missing in cluster configuration'')
      else let hostnameOverride = extractFlagValue (kubelet_Flags (Kubelet_opts (Spec cfg))) ''hostname-override'' in
      if hostnameOverride \<noteq> []
      then throwE (ErrMsg (''hostname-override kubelet flag is not supported for hybrid nodes but found override: '' @ hostnameOverride))
      else if \<not> IsIAMRolesAnywhere cfg \<and> \<not> IsSSM cfg
      then throwE (ErrMsg ''Either IAMRolesAnywhere or SSM must be provided for hybrid node configuration'')
      else if IsIAMRolesAnywhere cfg \<and> IsSSM cfg
      then throwE (ErrMsg ''Only one of IAMRolesAnywhere or SSM must be provided for hybrid node configuration'')
      else thenE (case iamra_of cfg of Some ra \<Rightarrow> validateRolesAnywhereNode env x ra | None \<Rightarrow> returnE ())
        (case ssm_of cfg of
           Some s \<Rightarrow> (case validate_ssm s of Some e \<Rightarrow> throwE e | None \<Rightarrow> returnE ())
         | None \<Rightarrow> returnE ()))"

section \<open>Defaults and enrichment\<close>

definition defaultCertificatePath :: path where "defaultCertificatePath = ''/etc/iam/pki/server.pem''"
definition defaultKeyPath :: path where "defaultKeyPath = ''/etc/iam/pki/server.key''"
definition DefaultAWSConfigPath :: path where "DefaultAWSConfigPath = ''/etc/aws/hybrid/config''"

definition populate_ra :: "IAMRolesAnywhere \<Rightarrow> IAMRolesAnywhere" where
  "populate_ra ra =
     (let a = (if AwsConfigPath ra = [] then ra\<lparr>AwsConfigPath := DefaultAWSConfigPath\<rparr> else ra);
          b = (if CertificatePath a = [] then a\<lparr>CertificatePath := defaultCertificatePath\<rparr> else a)
      in if PrivateKeyPath b = [] then b\<lparr>PrivateKeyPath := defaultKeyPath\<rparr> else b)"

definition PopulateNodeConfigDefaults :: "NodeConfig \<Rightarrow> NodeConfig" where
  "PopulateNodeConfigDefaults nc =
     (case Hybrid (Spec nc) of
        None \<Rightarrow> nc
      | Some h \<Rightarrow>
          (case ho_IAMRolesAnywhere h of
             None \<Rightarrow> nc
           | Some ra \<Rightarrow>
               nc\<lparr>Status := (Status nc)\<lparr>hybrid_NodeName := ra_NodeName ra\<rparr>,
                  Spec := (Spec nc)\<lparr>Hybrid := Some (h\<lparr>ho_IAMRolesAnywhere := Some (populate_ra ra)\<rparr>)\<rparr>\<rparr>))"

definition needsClusterDetails :: "NodeConfig \<Rightarrow> bool" where
  "needsClusterDetails nc =
     (let c = Cluster (Spec nc) in APIServerEndpoint c = [] \<or> CertificateAuthority c = None \<or> CIDR c = [])"

text \<open>What \<open>eks.DescribeCluster\<close> answers, as far as the provider reads it. A nil pointer that the code
  dereferences is a panic. The remote network configuration is absent, without node networks, or with them.\<close>

type_synonym remote_network_config = "string list list option option"

record eks_cluster =
  ec_Name :: "string option"
  ec_Active :: bool
  ec_RemoteNetworkConfig :: remote_network_config
  ec_Endpoint :: "string option"
  ec_CAData :: "string option"
  ec_ServiceIpv4Cidr :: "string option"
  ec_Version :: "string option"

text \<open>The cluster is read once and kept in the provider: what is passed and returned beside the configuration.\<close>

definition getCluster :: "eks_cluster wio \<Rightarrow> eks_cluster option \<Rightarrow> eks_cluster wio" where
  "getCluster readCluster cached = (case cached of Some cluster \<Rightarrow> returnE cluster | None \<Rightarrow> readCluster)"

definition ensureClusterDetails ::
  "(string \<Rightarrow> goerr + bytes) \<Rightarrow> eks_cluster wio \<Rightarrow> NodeConfig \<Rightarrow> eks_cluster option \<Rightarrow> (NodeConfig \<times> eks_cluster option) wio" where
  "ensureClusterDetails base64 readCluster nc cached =
     bindE (getCluster readCluster cached) (\<lambda>cluster.
       if \<not> ec_Active cluster then throwE (ErrMsg ''eks cluster is not active'')
       else if ec_RemoteNetworkConfig cluster = None
       then throwE (ErrMsg ''eks cluster does not have remoteNetworkConfig enabled, which is required for Hybrid Nodes'')
       else let c = Cluster (Spec nc) in
         bindE (if APIServerEndpoint c = [] then (case ec_Endpoint cluster of None \<Rightarrow> panicE | Some e \<Rightarrow> returnE (c\<lparr>APIServerEndpoint := e\<rparr>))
                else returnE c) (\<lambda>c1.
         bindE (if CertificateAuthority c1 = None
                then (case ec_CAData cluster of None \<Rightarrow> panicE
                      | Some d \<Rightarrow> bindE (liftE (base64 d)) (\<lambda>decoded. returnE (c1\<lparr>CertificateAuthority := Some decoded\<rparr>)))
                else returnE c1) (\<lambda>c2.
         bindE (if CIDR c2 = [] then (case ec_ServiceIpv4Cidr cluster of None \<Rightarrow> panicE | Some s \<Rightarrow> returnE (c2\<lparr>CIDR := s\<rparr>))
                else returnE c2) (\<lambda>c3.
         returnE (nc\<lparr>Spec := (Spec nc)\<lparr>Cluster := c3\<rparr>\<rparr>, Some cluster)))))"

definition Enrich ::
  "environment \<Rightarrow> (string \<Rightarrow> goerr + string list) \<Rightarrow> (string \<Rightarrow> goerr + bytes) \<Rightarrow> eks_cluster wio
     \<Rightarrow> RegionData option \<Rightarrow> NodeConfig \<Rightarrow> eks_cluster option \<Rightarrow> (NodeConfig \<times> eks_cluster option) wio" where
  "Enrich env lookupHost base64 readCluster regionConfig nc cached =
     bindE (GetEKSHybridRegistry env lookupHost (cl_Region (Cluster (Spec nc))) regionConfig) (\<lambda>eksRegistry.
       let nc' = nc\<lparr>Status := (Status nc)\<lparr>SandboxImage := GetSandboxImage eksRegistry\<rparr>\<rparr> in
       if needsClusterDetails nc' then ensureClusterDetails base64 readCluster nc' cached else returnE (nc', cached))"

section \<open>Version skew\<close>

text \<open>\<open>github.com/blang/semver\<close>: a parsed version is its three \<open>uint64\<close> numbers.\<close>

type_synonym version3 = "64 word \<times> 64 word \<times> 64 word"

definition maxVersionSkew :: int where "maxVersionSkew = 3"

definition skew_remediation :: string where
  "skew_remediation = ''Ensure the hybrid node's Kubernetes version follows the version skew policy of the EKS cluster. Update the node's Kubernetes components using 'nodeadm upgrade' or reinstall with a compatible version. https://kubernetes.io/releases/version-skew-policy/#kubelet''"

definition parseK8sVersion :: "(string \<Rightarrow> goerr + version3) \<Rightarrow> string \<Rightarrow> goerr + version3" where
  "parseK8sVersion parse version0 =
     (let version = TrimPrefix version0 ''v''
      in parse (if length (split_on CHR ''.'' version) = 2 then version @ ''.0'' else version))"

definition validateSkew :: "(string \<Rightarrow> goerr + version3) \<Rightarrow> string \<Rightarrow> goerr + string \<Rightarrow> goerr option" where
  "validateSkew parse kubeApiServerVersion kubeletVersionResult =
     (case kubeletVersionResult of
        Inl err \<Rightarrow> Some (WithRemediation (ErrWrap ''failed to get kubelet version'' err) skew_remediation)
      | Inr kubeletVersion \<Rightarrow>
          (case parseK8sVersion parse kubeApiServerVersion of
             Inl err \<Rightarrow> Some (WithRemediation (ErrWrap (''failed to parse kube-apiserver version '' @ kubeApiServerVersion) err) skew_remediation)
           | Inr (_, apiMinor, _) \<Rightarrow>
               (case parseK8sVersion parse kubeletVersion of
                  Inl err \<Rightarrow> Some (WithRemediation (ErrWrap (''failed to parse kubelet version '' @ kubeletVersion) err) skew_remediation)
                | Inr (_, kubeletMinor, _) \<Rightarrow>
                    if kubeletMinor > apiMinor
                    then Some (WithRemediation (ErrMsg (''kubelet version '' @ kubeletVersion @ '' is newer than kube-apiserver version '' @ kubeApiServerVersion)) skew_remediation)
                    else if sint (apiMinor - kubeletMinor) > maxVersionSkew
                    then Some (WithRemediation (ErrMsg (''kubelet version '' @ kubeletVersion @ '' is too old for kube-apiserver version '' @ kubeApiServerVersion @ ''; maximum supported version skew is '' @ itoa maxVersionSkew @ '' minor versions'')) skew_remediation)
                    else None)))"

section \<open>Cluster access and inactivity\<close>

record arn =
  arn_Service :: string
  arn_Resource :: string

definition extractRoleNameFromARN :: "arn \<Rightarrow> string option" where
  "extractRoleNameFromARN a =
     (let splitArn = split_on CHR ''/'' (arn_Resource a) in
      if arn_Service a = ''sts'' \<and> HasPrefix (arn_Resource a) ''assumed-role'' \<and> length splitArn \<ge> 2 then Some (splitArn ! 1)
      else if arn_Service a = ''iam'' \<and> HasPrefix (arn_Resource a) ''role'' \<and> length splitArn \<ge> 2 then Some (last splitArn)
      else None)"

definition access_entry_matches :: "string \<Rightarrow> string \<Rightarrow> bool" where
  "access_entry_matches roleName accessEntry =
     (Contains accessEntry (''role/'' @ roleName) \<or> Contains accessEntry (''role/'' @ roleName @ ''/'') \<or> HasSuffix accessEntry roleName)"

text \<open>Fetching all pages: \<open>pages\<close> answers with the entries and the next token (\<open>""\<close> for the last page). The
  loop ends when the API does; \<open>None\<close> if it never does.\<close>

partial_function (option) fetchAllAccessEntries ::
  "(string option \<Rightarrow> (string list \<times> string) wio) \<Rightarrow> string option \<Rightarrow> string list \<Rightarrow> world \<Rightarrow> ((goerr + string list) \<times> world) option" where
  "fetchAllAccessEntries pages nextToken accessEntries w =
     Option.bind (pages nextToken w) (\<lambda>p. case fst p of
        Inl err \<Rightarrow> Some (Inl (ErrWrap ''failed to list access entries'' err), snd p)
      | Inr r \<Rightarrow>
          if snd r = [] then Some (Inr (accessEntries @ fst r), snd p)
          else fetchAllAccessEntries pages (Some (snd r)) (accessEntries @ fst r) (snd p))"

definition nodeActiveRemediation :: string where
  "nodeActiveRemediation = ''Ensure the hybrid node is made inactive by running 'nodeadm uninstall' before attaching to the EKS cluster''"

definition stat_must_not_exist :: "environment \<Rightarrow> path \<Rightarrow> string \<Rightarrow> string \<Rightarrow> unit wio" where
  "stat_must_not_exist env p existsMsg checkMsg =
     bindE (tryE (os_Stat env p)) (\<lambda>r. case r of
        Inr _ \<Rightarrow> throwE (WithWarning (ErrMsg existsMsg) nodeActiveRemediation)
      | Inl statErr \<Rightarrow>
          if os_IsNotExist statErr then returnE ()
          else throwE (WithWarning (ErrWrap checkMsg statErr) nodeActiveRemediation))"

definition ValidateNodeIsInactive :: "environment \<Rightarrow> unit wio" where
  "ValidateNodeIsInactive env =
     thenE (stat_must_not_exist env ''/etc/eks/kubelet/environment''
              ''kubelet args environment file /etc/eks/kubelet/environment exists''
              ''checking kubelet environment file /etc/eks/kubelet/environment cleanup'')
      (thenE (stat_must_not_exist env ''/etc/kubernetes''
                ''kubernetes directory /etc/kubernetes still exists'' ''checking kubernetes directory /etc/kubernetes cleanup'')
       (bindE (mapErrE (\<lambda>e. WithWarning e nodeActiveRemediation) (GetDaemonStatus env ''kubelet'')) (\<lambda>kubeletStatus.
          if kubeletStatus = DaemonStatusRunning
          then throwE (WithWarning (ErrMsg ''kubelet service is still active and may be connected to a previous cluster'') nodeActiveRemediation)
          else returnE ())))"

section \<open>Facts\<close>

text \<open>The flag value is the last one given.\<close>

lemma extractFlagValue_loop_append:
  "extractFlagValue_loop (as @ bs) p v = extractFlagValue_loop bs p (extractFlagValue_loop as p v)"
  by (induction as arbitrary: v) auto

lemma extractFlagValue_loop_none:
  "list_all (\<lambda>a. \<not> HasPrefix a p) as \<Longrightarrow> extractFlagValue_loop as p v = v"
  by (induction as arbitrary: v) auto

lemma extractFlagValue_last:
  assumes "list_all (\<lambda>a. \<not> HasPrefix a (''--'' @ flag @ ''='')) bs"
  shows "extractFlagValue (as @ (''--'' @ flag @ ''='' @ v) # bs) flag = v"
proof -
  let ?p = "''--'' @ flag @ ''=''"
  have "extractFlagValue_loop ((?p @ v) # bs) ?p u = extractFlagValue_loop bs ?p v" for u
    using HasPrefix_append [of ?p v] TrimPrefix_append [of ?p v] by simp
  then show ?thesis
    using extractFlagValue_loop_none [OF assms] by (simp add: extractFlagValue_def extractFlagValue_loop_append)
qed

lemma extractFlagValue_loop_last:
  assumes "\<forall>b\<in>set bs. \<not> prefix p b"
  shows "extractFlagValue_loop (as @ (p @ v) # bs) p u = v"
  using extractFlagValue_loop_none [of p bs] assms
  by (simp add: extractFlagValue_loop_append list_all_iff HasPrefix_def TrimPrefix_def)

text \<open>The flag counts as not given when its last occurrence, if there is one, has the empty value.\<close>

definition last_flag_empty :: "string \<Rightarrow> string list \<Rightarrow> bool" where
  "last_flag_empty p args \<longleftrightarrow> (\<forall>as v bs. args = as @ (p @ v) # bs \<and> (\<forall>b\<in>set bs. \<not> prefix p b) \<longrightarrow> v = [])"

lemma extractFlagValue_empty: "extractFlagValue_loop args p [] = [] \<longleftrightarrow> last_flag_empty p args"
proof
  assume e: "extractFlagValue_loop args p [] = []"
  show "last_flag_empty p args" unfolding last_flag_empty_def
  proof (intro allI impI, elim conjE)
    fix as v bs
    assume a: "args = as @ (p @ v) # bs" and b: "\<forall>b\<in>set bs. \<not> prefix p b"
    show "v = []" using extractFlagValue_loop_last [OF b, of as v "[]"] e unfolding a by simp
  qed
next
  assume l: "last_flag_empty p args"
  show "extractFlagValue_loop args p [] = []"
  proof (cases "\<exists>a\<in>set args. prefix p a")
    case True
    then obtain as x bs where x: "args = as @ x # bs" "prefix p x" "\<forall>b\<in>set bs. \<not> prefix p b"
      using split_list_last_prop [of args "prefix p"] by blast
    obtain v where v: "x = p @ v" using x(2) by (auto simp: prefix_def)
    have "v = []" using l x(1,3) unfolding last_flag_empty_def v by iprover
    then show ?thesis using extractFlagValue_loop_last [OF x(3), of as v "[]"] x(1) v by simp
  next
    case False
    then show ?thesis by (intro extractFlagValue_loop_none) (simp add: list_all_iff HasPrefix_def)
  qed
qed

text \<open>An activation ID: five groups of 8, 4, 4, 4 and 12 hexadecimal digits in lower case, joined by dashes.\<close>

definition lower_hex_digits :: string where
  "lower_hex_digits = ''0123456789abcdef''"

definition uuid_shaped :: "string \<Rightarrow> bool" where
  "uuid_shaped s \<longleftrightarrow>
     (\<exists>a b c d e. s = a @ ''-'' @ b @ ''-'' @ c @ ''-'' @ d @ ''-'' @ e \<and> map length [a, b, c, d, e] = [8, 4, 4, 4, 12] \<and>
        set (a @ b @ c @ d @ e) \<subseteq> set lower_hex_digits)"

lemma is_lower_hex_iff: "is_lower_hex c \<longleftrightarrow> c \<in> set lower_hex_digits"
proof
  assume "is_lower_hex c"
  then have "of_char c \<in> {48..<58} \<union> {97..<(103::nat)}" by (auto simp: is_lower_hex_def is_digit_def)
  then have "of_char c \<in> set ([48..<58] @ [97..<(103::nat)])" by (simp only: set_append set_upt)
  then have "char_of (of_char c :: nat) \<in> char_of ` set ([48..<58] @ [97..<(103::nat)])" by (rule imageI)
  then have "c \<in> set (map char_of ([48..<58] @ [97..<(103::nat)]))" unfolding set_map char_of_char .
  moreover have "map char_of ([48..<58] @ [97..<(103::nat)]) = lower_hex_digits" by code_simp
  ultimately show "c \<in> set lower_hex_digits" by (simp only:)
next
  assume "c \<in> set lower_hex_digits"
  moreover have "list_all is_lower_hex lower_hex_digits" by code_simp
  ultimately show "is_lower_hex c" unfolding list_all_iff by (rule bspec [rotated])
qed

lemma matches_activation_id_iff: "matches_activation_id s \<longleftrightarrow> uuid_shaped s"
proof
  assume m: "matches_activation_id s"
  then obtain a b c d e where p: "split_on CHR ''-'' s = [a, b, c, d, e]" and l: "map length [a, b, c, d, e] = [8, 4, 4, 4, 12]"
    by (auto simp: matches_activation_id_def Let_def map_eq_Cons_conv)
  have s: "s = a @ ''-'' @ b @ ''-'' @ c @ ''-'' @ d @ ''-'' @ e" using join_split [of "CHR ''-''" s] unfolding p by simp
  have "list_all (list_all is_lower_hex) [a, b, c, d, e]" using m p by (simp add: matches_activation_id_def)
  then have h: "set (a @ b @ c @ d @ e) \<subseteq> set lower_hex_digits" by (auto simp: list_all_iff is_lower_hex_iff)
  show "uuid_shaped s" unfolding uuid_shaped_def by (intro exI conjI) (rule s, rule l, rule h)
next
  assume "uuid_shaped s"
  then obtain a b c d e where s: "s = a @ ''-'' @ b @ ''-'' @ c @ ''-'' @ d @ ''-'' @ e"
    and l: "map length [a, b, c, d, e] = [8, 4, 4, 4, 12]" and h: "set (a @ b @ c @ d @ e) \<subseteq> set lower_hex_digits"
    unfolding uuid_shaped_def by iprover
  have "CHR ''-'' \<notin> set lower_hex_digits" by code_simp
  then have "CHR ''-'' \<notin> set x" if "x \<in> set [a, b, c, d, e]" for x using h that by auto
  moreover have "s = join_with [CHR ''-''] [a, b, c, d, e]" by (simp add: s)
  ultimately have p: "split_on CHR ''-'' s = [a, b, c, d, e]" using split_join [of "[a, b, c, d, e]" "CHR ''-''"] by simp
  have "list_all (list_all is_lower_hex) [a, b, c, d, e]" using h by (auto simp: list_all_iff is_lower_hex_iff)
  with l show "matches_activation_id s" by (simp add: matches_activation_id_def p)
qed

text \<open>On ASCII text the number of code points is the length.\<close>

lemma rune_tail_ascii: "(of_char c :: nat) < 128 \<Longrightarrow> rune_tail c cs = 0"
  by (cases cs) (simp_all add: rune_tail_def)

lemma rune_count_ascii: "\<forall>c\<in>set s. (of_char c :: nat) < 128 \<Longrightarrow> rune_count s = length s"
  by (induction s) (simp_all add: rune_tail_ascii)

text \<open>What the documentation asks of a configuration for SSM.\<close>

definition ssm_config_ok :: "NodeConfig \<Rightarrow> bool" where
  "ssm_config_ok cfg \<longleftrightarrow>
     cl_Name (Cluster (Spec cfg)) \<noteq> [] \<and> cl_Region (Cluster (Spec cfg)) \<noteq> [] \<and>
     last_flag_empty ''--hostname-override='' (kubelet_Flags (Kubelet_opts (Spec cfg))) \<and>
     (\<exists>h s. Hybrid (Spec cfg) = Some h \<and> ho_SSM h = Some s \<and> ho_IAMRolesAnywhere h = None \<and>
        newline \<notin> set (ActivationCode s) \<and> 20 \<le> rune_count (ActivationCode s) \<and> rune_count (ActivationCode s) \<le> 250 \<and>
        uuid_shaped (ActivationID s))"

lemma IsSSM_iff: "IsSSM cfg \<longleftrightarrow> ssm_of cfg \<noteq> None"
  by (auto simp: IsSSM_def ssm_of_def split: option.splits)

lemma IsIAMRolesAnywhere_iff: "IsIAMRolesAnywhere cfg \<longleftrightarrow> iamra_of cfg \<noteq> None"
  by (auto simp: IsIAMRolesAnywhere_def iamra_of_def split: option.splits)

lemma validate_ssm_None:
  "validate_ssm s = None \<longleftrightarrow>
     newline \<notin> set (ActivationCode s) \<and> 20 \<le> rune_count (ActivationCode s) \<and> rune_count (ActivationCode s) \<le> 250 \<and>
     uuid_shaped (ActivationID s)"
proof -
  have "\<not> uuid_shaped []" by (auto simp: uuid_shaped_def)
  then show ?thesis
    by (auto simp: validate_ssm_def matches_activation_code_def matches_activation_id_iff)
qed

lemma hostname_override_empty: "extractFlagValue args ''hostname-override'' = [] \<longleftrightarrow> last_flag_empty ''--hostname-override='' args"
  using extractFlagValue_empty [of args "''--hostname-override=''"] by (simp add: extractFlagValue_def)

lemma ValidateConfig_ssm:
  assumes "iamra_of cfg = None"
  shows "ValidateConfig env x cfg w = Some (Inr (), w') \<longleftrightarrow> ssm_config_ok cfg \<and> w' = w"
proof (cases "ssm_of cfg")
  case None
  then have "\<not> ssm_config_ok cfg" by (auto simp: ssm_config_ok_def ssm_of_def)
  with assms None show ?thesis
    by (simp add: ValidateConfig_def Let_def IsSSM_iff IsIAMRolesAnywhere_iff)
next
  case (Some s)
  then obtain h where h: "Hybrid (Spec cfg) = Some h" "ho_SSM h = Some s" "ho_IAMRolesAnywhere h = None"
    using assms by (auto simp: ssm_of_def iamra_of_def split: option.splits)
  have "ssm_config_ok cfg \<longleftrightarrow> cl_Name (Cluster (Spec cfg)) \<noteq> [] \<and> cl_Region (Cluster (Spec cfg)) \<noteq> [] \<and>
      extractFlagValue (kubelet_Flags (Kubelet_opts (Spec cfg))) ''hostname-override'' = [] \<and> validate_ssm s = None"
    unfolding ssm_config_ok_def hostname_override_empty validate_ssm_None using h by auto
  with assms Some show ?thesis
    by (auto simp: ValidateConfig_def Let_def IsSSM_iff IsIAMRolesAnywhere_iff thenE_def bindE_def returnE_def throwE_def split: option.splits)
qed

text \<open>A certificate that validates is a certificate, and the clock is within its period.\<close>

definition cert_in_period :: "x509 \<Rightarrow> path \<Rightarrow> world \<Rightarrow> bool" where
  "cert_in_period x p w \<longleftrightarrow>
     (\<exists>d m b nb na. fs w p = Some (RegFile d m) \<and> pem_decode x d = Some b \<and> parse_certificate x b = Inr (nb, na) \<and>
        nb \<le> clock w \<and> clock w \<le> na)"

lemma ReadFile_ok: "valid_ok P (os_ReadFile env p) (\<lambda>d w. \<exists>m. fs w p = Some (RegFile d m))"
  by (auto simp: valid_def os_ReadFile_def sys_def Let_def split: option.splits sum.splits fnode.splits)

lemma certificate_Validate_ok: "valid_ok (\<lambda>_. True) (certificate_Validate env x p ca) (\<lambda>_ w. cert_in_period x p w)"
proof -
  have rd: "valid_ok (\<lambda>_. True) (mapErrE f (os_ReadFile env p)) (\<lambda>d w. \<exists>m. fs w p = Some (RegFile d m))" for f
    by (rule valid_mapErrE) (rule ReadFile_ok)
  show ?thesis
    unfolding certificate_Validate_def
  proof (rule valid_bindE [where B = "\<lambda>_ _. True"], goal_cases)
    case 1
    show ?case by (simp add: valid_def split: sum.splits)
  next
    case (2 st)
    show ?case
    proof (cases st)
      case (Inl e)
      then show ?thesis by (simp add: valid_def)
    next
      case (Inr n)
      show ?thesis unfolding Inr sum.case
        by (rule valid_bindE [OF rd])
          (auto simp: valid_def bindE_def getE_def throwE_def returnE_def cert_in_period_def not_less
            split: option.splits sum.splits if_splits)
    qed
  qed
qed

lemma Stat_keeps: "preserves (\<lambda>w. P (fs w) (clock w)) (os_Stat env p)"
  by (auto simp: valid_def os_Stat_def sys_def Let_def split: option.splits sum.splits)

lemma file_Exists_keeps: "preserves (\<lambda>w. P (fs w) (clock w)) (file_Exists env p)"
  unfolding file_Exists_def
  by (intro preserves_bindE preserves_tryE Stat_keeps) (auto intro: preserves_returnE split: sum.splits)

definition iamra_config_ok :: "x509 \<Rightarrow> IAMRolesAnywhere \<Rightarrow> world \<Rightarrow> bool" where
  "iamra_config_ok x ra w \<longleftrightarrow>
     RoleARN ra \<noteq> [] \<and> ProfileARN ra \<noteq> [] \<and> TrustAnchorARN ra \<noteq> [] \<and> ra_NodeName ra \<noteq> [] \<and> length (ra_NodeName ra) \<le> 64 \<and>
     CertificatePath ra \<noteq> [] \<and> PrivateKeyPath ra \<noteq> [] \<and> cert_in_period x (CertificatePath ra) w"

lemma validateRolesAnywhereNode_ok:
  "valid_ok (\<lambda>_. True) (validateRolesAnywhereNode env x ra) (\<lambda>_ w. iamra_config_ok x ra w)"
proof (cases "RoleARN ra \<noteq> [] \<and> ProfileARN ra \<noteq> [] \<and> TrustAnchorARN ra \<noteq> [] \<and> ra_NodeName ra \<noteq> [] \<and>
    \<not> length (ra_NodeName ra) > 64 \<and> CertificatePath ra \<noteq> []")
  case False
  then show ?thesis by (auto simp: validateRolesAnywhereNode_def valid_def)
next
  case True
  let ?c = "cert_in_period x (CertificatePath ra)"
  have key: "valid_ok ?c (if PrivateKeyPath ra = [] then throwE e1
       else bindE (file_Exists env (PrivateKeyPath ra)) (\<lambda>keyExists. if \<not> keyExists then throwE e2 else returnE ()))
      (\<lambda>_ w. iamra_config_ok x ra w)" for e1 e2
  proof (cases "PrivateKeyPath ra = []")
    case True
    then show ?thesis by (simp add: valid_def)
  next
    case False
    have fe: "valid_ok ?c (file_Exists env (PrivateKeyPath ra)) (\<lambda>_. ?c)"
      unfolding cert_in_period_def by (rule valid_post [OF file_Exists_keeps]) simp_all
    show ?thesis unfolding if_not_P [OF False]
      by (rule valid_bindE [OF fe]) (use True False in \<open>auto simp: valid_def iamra_config_ok_def\<close>)
  qed
  have cert: "valid_ok (\<lambda>_. True) (thenE (mapErrE f (certificate_Validate env x (CertificatePath ra) []))
      (if PrivateKeyPath ra = [] then throwE e1
       else bindE (file_Exists env (PrivateKeyPath ra)) (\<lambda>keyExists. if \<not> keyExists then throwE e2 else returnE ())))
      (\<lambda>_ w. iamra_config_ok x ra w)" for f e1 e2
    by (rule valid_thenE [OF valid_mapErrE [OF certificate_Validate_ok] key])
  have "valid_ok (\<lambda>_. True) (bindE (file_Exists env (CertificatePath ra)) (\<lambda>certExists.
      if \<not> certExists then throwE e3 else thenE (mapErrE f (certificate_Validate env x (CertificatePath ra) []))
      (if PrivateKeyPath ra = [] then throwE e1
       else bindE (file_Exists env (PrivateKeyPath ra)) (\<lambda>keyExists. if \<not> keyExists then throwE e2 else returnE ()))))
      (\<lambda>_ w. iamra_config_ok x ra w)" for f e1 e2 e3
  proof (rule valid_bindE [where B = "\<lambda>_ _. True"], goal_cases)
    case 1
    show ?case by (simp add: valid_def split: sum.splits)
  next
    case (2 b)
    show ?case using cert by (cases b) (simp_all add: valid_def)
  qed
  with True show ?thesis by (simp add: validateRolesAnywhereNode_def)
qed

text \<open>Defaults are filled in once: populating again changes nothing, and no path stays empty.\<close>

lemma default_paths_nonempty: "DefaultAWSConfigPath \<noteq> []" "defaultCertificatePath \<noteq> []" "defaultKeyPath \<noteq> []"
  by (simp_all add: DefaultAWSConfigPath_def defaultCertificatePath_def defaultKeyPath_def)

lemma populate_ra_paths:
  "AwsConfigPath (populate_ra ra) \<noteq> []" "CertificatePath (populate_ra ra) \<noteq> []" "PrivateKeyPath (populate_ra ra) \<noteq> []"
  "ra_NodeName (populate_ra ra) = ra_NodeName ra"
  unfolding populate_ra_def Let_def using default_paths_nonempty
  by (cases "AwsConfigPath ra = []"; cases "CertificatePath ra = []"; cases "PrivateKeyPath ra = []"; simp)+

lemma populate_ra_id:
  "AwsConfigPath ra \<noteq> [] \<Longrightarrow> CertificatePath ra \<noteq> [] \<Longrightarrow> PrivateKeyPath ra \<noteq> [] \<Longrightarrow> populate_ra ra = ra"
  by (simp add: populate_ra_def Let_def)

lemma populate_ra_idem: "populate_ra (populate_ra ra) = populate_ra ra"
  by (rule populate_ra_id) (rule populate_ra_paths)+

text \<open>A warning is all that an active node costs.\<close>

lemma ValidateNodeIsInactive_warns:
  "valid (\<lambda>_. True) (ValidateNodeIsInactive env) (\<lambda>_ _. True) (\<lambda>e _. IsWarning e)"
proof -
  have st: "valid (\<lambda>_. True) (stat_must_not_exist env p m1 m2) (\<lambda>_ _. True) (\<lambda>e _. IsWarning e)" for p m1 m2
    unfolding stat_must_not_exist_def
    by (rule valid_bindE [where B = "\<lambda>_ _. True"])
      (auto simp: valid_def tryE_def IsWarning_def WithWarning_def split: sum.splits option.splits)
  show ?thesis unfolding ValidateNodeIsInactive_def
    by (rule valid_thenE [OF st], rule valid_thenE [OF st], rule valid_bindE [where B = "\<lambda>_ _. True"])
      (auto simp: valid_def mapErrE_def IsWarning_def WithWarning_def split: sum.splits option.splits if_splits)
qed

section \<open>Properties\<close>


definition sample_config :: NodeConfig where
  "sample_config =
     \<lparr>Spec = \<lparr>Cluster = \<lparr>cl_Name = ''demo'', cl_Region = ''us-west-2'', APIServerEndpoint = [], CertificateAuthority = None,
          CIDR = ''10.100.0.0/16'', EnableOutpost = None, cl_ID = []\<rparr>, containerd_Config = [], instance_LocalStorage_Strategy = [],
        Kubelet_opts = \<lparr>kubelet_Config = [], kubelet_Flags = [''--v=5'']\<rparr>,
        Hybrid = Some \<lparr>EnableCredentialsFile = False, ho_IAMRolesAnywhere = None,
          ho_SSM = Some \<lparr>ActivationCode = ''abcdefghij0123456789'', ActivationID = ''01234567-89ab-cdef-0123-456789abcdef''\<rparr>\<rparr>\<rparr>,
      Status = \<lparr>hybrid_NodeName = ''mi-0123'', SandboxImage = [], instance_ID = [], instance_Region = [], instance_Type = [],
        instance_AvailabilityZone = [], instance_MAC = [], instance_PrivateDNSName = []\<rparr>\<rparr>"

definition sample_x509 :: x509 where
  "sample_x509 = \<lparr>pem_decode = Some, parse_certificate = \<lambda>_. Inr (0, 100), ca_parses = \<lambda>_. True, verify_chain = \<lambda>_ _ _. None\<rparr>"

lemma ssm_config_ok_sample: "ssm_config_ok sample_config"
proof -
  have "newline \<notin> set ''abcdefghij0123456789''" "rune_count ''abcdefghij0123456789'' = 20"
    "matches_activation_id ''01234567-89ab-cdef-0123-456789abcdef''" "extractFlagValue [''--v=5''] ''hostname-override'' = []"
    by code_simp+
  then show ?thesis
    by (simp add: ssm_config_ok_def sample_config_def matches_activation_id_iff hostname_override_empty)
qed


text \<open>A configuration with IAM Roles Anywhere that validates names the three ARNs and a node name of at most 64 bytes, is
  not also configured for SSM, and its certificate file parses and is within its validity period.\<close>

theorem iamra_config_accepted:
  assumes "iamra_of cfg = Some ra"
  shows "valid_ok (\<lambda>_. True) (ValidateConfig env x cfg) (\<lambda>_ w. iamra_config_ok x ra w \<and> ssm_of cfg = None)"
proof (cases "ssm_of cfg")
  case (Some s)
  with assms show ?thesis by (simp add: ValidateConfig_def Let_def IsSSM_iff IsIAMRolesAnywhere_iff valid_def)
next
  case None
  have "valid_ok (\<lambda>_. True) (thenE (validateRolesAnywhereNode env x ra) (returnE ())) (\<lambda>_ w. iamra_config_ok x ra w)"
    by (rule valid_thenE [OF validateRolesAnywhereNode_ok]) (simp add: valid_def)
  with None assms show ?thesis
    by (auto simp: ValidateConfig_def Let_def IsSSM_iff IsIAMRolesAnywhere_iff valid_def split: sum.splits)
qed

definition sample_ra :: IAMRolesAnywhere where
  "sample_ra = \<lparr>ra_NodeName = ''node-1'', TrustAnchorARN = ''arn:ta'', ProfileARN = ''arn:p'', RoleARN = ''arn:r'',
     AwsConfigPath = [], CertificatePath = ''/pki/crt'', PrivateKeyPath = ''/pki/key''\<rparr>"

definition sample_ra_config :: NodeConfig where
  "sample_ra_config = sample_config\<lparr>Spec := (Spec sample_config)\<lparr>Hybrid :=
     Some \<lparr>EnableCredentialsFile = False, ho_IAMRolesAnywhere = Some sample_ra, ho_SSM = None\<rparr>\<rparr>\<rparr>"

definition sample_ra_world :: world where
  "sample_ra_world = sample_world\<lparr>fs := (\<lambda>p. if p = ''/pki/crt'' \<or> p = ''/pki/key'' then Some (RegFile ''pem'' 420) else None)\<rparr>"

theorem iamra_config_accepted_witness:
  "iamra_config_ok sample_x509 sample_ra (snd (the (ValidateConfig sample_env sample_x509 sample_ra_config sample_ra_world)))"
proof -
  let ?m = "ValidateConfig sample_env sample_x509 sample_ra_config"
  have "iamra_of sample_ra_config = Some sample_ra" by (simp add: iamra_of_def sample_ra_config_def)
  note ok = iamra_config_accepted [OF this, of sample_env sample_x509]
  have "(case ?m sample_ra_world of Some (Inr _, _) \<Rightarrow> True | _ \<Rightarrow> False)" by code_simp
  then have "?m sample_ra_world = Some (Inr (), snd (the (?m sample_ra_world)))"
    by (auto split: option.splits sum.splits prod.splits)
  from valid_okD [OF ok TrueI this] show ?thesis ..
qed

text \<open>Populating defaults is idempotent, and afterwards no path of an IAM Roles Anywhere configuration is empty.\<close>

theorem defaults_idempotent:
  "PopulateNodeConfigDefaults (PopulateNodeConfigDefaults nc) = PopulateNodeConfigDefaults nc \<and>
   (case iamra_of (PopulateNodeConfigDefaults nc) of
      None \<Rightarrow> True
    | Some ra \<Rightarrow> AwsConfigPath ra \<noteq> [] \<and> CertificatePath ra \<noteq> [] \<and> PrivateKeyPath ra \<noteq> [])"
  by (auto simp: PopulateNodeConfigDefaults_def iamra_of_def populate_ra_paths populate_ra_idem split: option.splits)

lemma unat_sub_le: "unat b \<le> unat a \<Longrightarrow> unat (a - b) = unat a - unat (b :: 64 word)"
  by (metis unat_sub word_le_nat_alt)

lemma sint_small: "unat (x :: 64 word) < 2 ^ 63 \<Longrightarrow> sint x = int (unat x)"
proof -
  assume "unat x < 2 ^ 63"
  then have "unat x < 9223372036854775808" by simp
  moreover have "uint x = int (unat x)" by simp
  ultimately have "- 9223372036854775808 \<le> uint x \<and> uint x < 9223372036854775808" by linarith
  then show ?thesis by (simp add: sint_uint signed_take_bit_int_eq_self_iff)
qed

text \<open>C20: For versions that parse and minor numbers below 2 to the 63, the skew check accepts exactly the kubelets that are not
  newer than the API server and at most three minor versions older.\<close>

theorem version_skew_iff:
  assumes "parseK8sVersion parse api = Inr (a1, am, a3)" and "parseK8sVersion parse kv = Inr (k1, km, k3)" and "unat am < 2 ^ 63"
  shows "validateSkew parse api (Inr kv) = None \<longleftrightarrow> unat km \<le> unat am \<and> unat am - unat km \<le> 3"
proof (cases "am < km")
  case True
  then show ?thesis using assms(1,2) by (auto simp: validateSkew_def word_less_nat_alt)
next
  case False
  then have le: "unat km \<le> unat am" by (simp add: word_less_nat_alt)
  then have d: "unat (am - km) = unat am - unat km" by (rule unat_sub_le)
  have "sint (am - km) = int (unat am - unat km)"
    using assms(3) d by (subst sint_small) simp_all
  then have "sint (am - km) > maxVersionSkew \<longleftrightarrow> \<not> unat am - unat km \<le> 3"
    unfolding maxVersionSkew_def by linarith
  then show ?thesis using assms(1,2) False le by (simp add: validateSkew_def)
qed

definition sample_parse :: "string \<Rightarrow> goerr + version3" where
  "sample_parse v = (case map parse_dec (split_on CHR ''.'' v) of
     [Some a, Some b, Some c] \<Rightarrow> Inr (word_of_nat a, word_of_nat b, word_of_nat c) | _ \<Rightarrow> Inl (ErrMsg ''invalid''))"

theorem version_skew_iff_witness:
  "validateSkew sample_parse ''1.31'' (Inr ''v1.28.4'') = None \<and> validateSkew sample_parse ''1.31'' (Inr ''v1.27.4'') \<noteq> None"
proof -
  have p: "parseK8sVersion sample_parse ''1.31'' = Inr (1, 31, 0)" "parseK8sVersion sample_parse ''v1.28.4'' = Inr (1, 28, 4)"
    "parseK8sVersion sample_parse ''v1.27.4'' = Inr (1, 27, 4)"
    by code_simp+
  show ?thesis using version_skew_iff [OF p(1,2)] version_skew_iff [OF p(1,3)] by simp
qed

text \<open>The check that the node is inactive only ever warns, so it alone never stops an initialisation.\<close>

theorem inactive_check_only_warns:
  "valid (\<lambda>_. True) (ValidateNodeIsInactive env) (\<lambda>_ _. True) (\<lambda>e _. IsWarning e)"
  by (rule ValidateNodeIsInactive_warns)

end
