(* ===== verification/Json.thy ===== *)
theory Json
  imports Prelude "HOL-Library.AList"
begin

text \<open>
  JSON documents as the program handles them (\<open>map[string]interface{}\<close>), and their merging (\<open>internal/util/merge.go\<close>). An object
  is the association list of its members, without duplicates when it comes from the decoder; a nil map and an empty one
  are both \<open>[]\<close>, as no caller tells them apart. The codec and \<open>mergo\<close> are libraries, the fields of \<open>json_lib\<close>: the
  document with raw members is a \<open>map[string]runtime.RawExtension\<close>, and the flag of the merge is \<open>mergo.WithOverride\<close>.
\<close>

datatype json =
    JNull
  | JBool bool
  | JNumber string
  | JString string
  | JArray "json list"
  | JObject "(string \<times> json) list"

type_synonym json_map = "(string \<times> json) list"

record json_lib =
  js_Unmarshal :: "bytes \<Rightarrow> goerr + json_map"
  js_Marshal :: "json \<Rightarrow> goerr + bytes"
  js_MarshalIndent :: "json_map \<Rightarrow> goerr + bytes"
  js_MarshalDocument :: "(string \<times> bytes) list \<Rightarrow> goerr + bytes"
  mergo_Merge :: "bool \<Rightarrow> json_map \<Rightarrow> json_map \<Rightarrow> goerr + json_map"

text \<open>The two arguments have type \<open>any\<close>: what \<open>json.Marshal\<close> makes of each is passed in.\<close>

definition DocumentMerge :: "json_lib \<Rightarrow> bool \<Rightarrow> goerr + bytes \<Rightarrow> goerr + bytes \<Rightarrow> goerr + json_map" where
  "DocumentMerge js override a b =
     (case a of Inl err \<Rightarrow> Inl err | Inr aBytes \<Rightarrow>
     (case b of Inl err \<Rightarrow> Inl err | Inr bBytes \<Rightarrow>
     (case js_Unmarshal js aBytes of Inl err \<Rightarrow> Inl err | Inr aMap \<Rightarrow>
     (case js_Unmarshal js bBytes of Inl err \<Rightarrow> Inl err | Inr bMap \<Rightarrow> mergo_Merge js override aMap bMap))))"

text \<open>Setting a member of a member that is an object, made if it is anything else.\<close>

definition set_member :: "string \<Rightarrow> string \<Rightarrow> json \<Rightarrow> json_map \<Rightarrow> json_map" where
  "set_member outer key v m =
     (let inner = (case map_of m outer of Some (JObject o') \<Rightarrow> o' | _ \<Rightarrow> []) in
      AList.update outer (JObject (AList.update key v inner)) m)"

lemma set_member_others: "k \<noteq> outer \<Longrightarrow> map_of (set_member outer key v m) k = map_of m k"
  by (simp add: set_member_def Let_def update_conv)

lemma set_member_object:
  "\<exists>o'. map_of (set_member outer key v m) outer = Some (JObject o') \<and> map_of o' key = Some v \<and>
     (\<forall>o0. map_of m outer = Some (JObject o0) \<longrightarrow> (\<forall>k. k \<noteq> key \<longrightarrow> map_of o' k = map_of o0 k))"
  by (intro exI conjI)
    (auto simp: set_member_def Let_def update_conv split: option.splits json.splits)

text \<open>A codec for the samples: a document is a list of one-byte keys, each an empty object.\<close>

definition sample_json :: json_lib where
  "sample_json = \<lparr>js_Unmarshal = \<lambda>b. Inr (map (\<lambda>c. ([c], JObject [])) b), js_Marshal = \<lambda>_. Inr [],
     js_MarshalIndent = \<lambda>m. Inr (map (\<lambda>e. hd (fst e)) m), js_MarshalDocument = \<lambda>d. Inr (map (\<lambda>e. hd (fst e)) d),
     mergo_Merge = \<lambda>_ a b. Inr (AList.merge a b)\<rparr>"

end
