(* ===== verification/Config_Source.thy ===== *)
theory Config_Source
  imports Node_Config Artifact Json
begin

text \<open>
  Where the node configuration comes from: \<open>internal/configprovider\<close> (a file or the instance's user data), the decoding checks of
  \<open>internal/api/bridge/decode.go\<close> and the merge of several configurations (\<open>internal/api/merge.go\<close>, \<open>internal/util/merge.go\<close>).

  Parameters: the URL and MIME parsers, the Kubernetes codec, the JSON and strict YAML codecs, the metadata service, and the merge
  library \<open>mergo\<close>, which is given the transformer for the kubelet options that the code defines. \<open>merges_kubelet\<close> is what the
  library documents of transformers: the field of the transformed type is what the transformer makes of it.
\<close>

section \<open>Parameters\<close>

record source_url =
  su_Scheme :: string
  su_Host :: string
  su_Path :: string

record mime_part =
  mp_ContentType :: string
  mp_content :: "goerr + bytes"

text \<open>The parts of a multipart document up to the end of the document or the first error.\<close>

datatype mime_item = Part mime_part | PartError goerr

record decoded =
  dc_Kind :: string
  dc_Group :: string
  dc_internal :: "NodeConfig option"

text \<open>An inline document maps keys to raw JSON.\<close>

type_synonym InlineDocument = "(string \<times> bytes) list"

record config_env =
  cf_Parse :: "string \<Rightarrow> goerr + source_url"
  cf_UnmarshalStrict :: "bytes \<Rightarrow> goerr + NodeConfig"
  cf_Decode :: "bytes \<Rightarrow> goerr + decoded"
  cf_GetUserData :: "nat \<Rightarrow> goerr + stream"
  cf_ReadMessage :: "bytes \<Rightarrow> goerr + (string \<times> bytes)"
  cf_ParseMediaType :: "string \<Rightarrow> goerr + (string \<times> (string \<Rightarrow> string))"
  cf_parts :: "bytes \<Rightarrow> string \<Rightarrow> mime_item list"
  cf_mergo :: "(KubeletOptions \<Rightarrow> KubeletOptions \<Rightarrow> goerr + KubeletOptions) \<Rightarrow> NodeConfig \<Rightarrow> NodeConfig \<Rightarrow> goerr + NodeConfig"
  cf_json :: json_lib

section \<open>Merging configurations\<close>

definition transformFlags :: "string list \<Rightarrow> string list \<Rightarrow> string list" where
  "transformFlags dst src = dst @ src"

fun toInlineDocument :: "config_env \<Rightarrow> json_map \<Rightarrow> goerr + InlineDocument" where
  "toInlineDocument cf [] = Inr []"
| "toInlineDocument cf ((key, v) # m) =
     (case js_Marshal (cf_json cf) v of
        Inl err \<Rightarrow> Inl err
      | Inr rawBytes \<Rightarrow> (case toInlineDocument cf m of Inl err \<Rightarrow> Inl err | Inr rawMap \<Rightarrow> Inr ((key, rawBytes) # rawMap)))"

definition transformConfig :: "config_env \<Rightarrow> InlineDocument \<Rightarrow> InlineDocument \<Rightarrow> goerr + InlineDocument" where
  "transformConfig cf dst src =
     (if dst = [] then Inr src
      else if src \<noteq> [] then
        (case DocumentMerge (cf_json cf) True (js_MarshalDocument (cf_json cf) dst) (js_MarshalDocument (cf_json cf) src) of
           Inl err \<Rightarrow> Inl err
         | Inr mergedMap \<Rightarrow> toInlineDocument cf mergedMap)
      else Inr dst)"

definition Transformer :: "config_env \<Rightarrow> KubeletOptions \<Rightarrow> KubeletOptions \<Rightarrow> goerr + KubeletOptions" where
  "Transformer cf dst src =
     (case transformConfig cf (kubelet_Config dst) (kubelet_Config src) of
        Inl e \<Rightarrow> Inl e
      | Inr c \<Rightarrow> Inr (dst\<lparr>kubelet_Flags := transformFlags (kubelet_Flags dst) (kubelet_Flags src), kubelet_Config := c\<rparr>))"

definition Merge :: "config_env \<Rightarrow> NodeConfig \<Rightarrow> NodeConfig \<Rightarrow> goerr + NodeConfig" where
  "Merge cf dst src = cf_mergo cf (Transformer cf) dst src"

fun merge_all :: "config_env \<Rightarrow> NodeConfig \<Rightarrow> NodeConfig list \<Rightarrow> goerr + NodeConfig" where
  "merge_all cf config [] = Inr config"
| "merge_all cf config (nc # ncs) = (case Merge cf config nc of Inl e \<Rightarrow> Inl e | Inr config' \<Rightarrow> merge_all cf config' ncs)"

section \<open>Decoding\<close>

definition GroupName :: string where "GroupName = ''node.eks.aws''"
definition KindNodeConfig :: string where "KindNodeConfig = ''NodeConfig''"

definition quoted :: "string \<Rightarrow> string" where
  "quoted s = CHR 0x22 # s @ [CHR 0x22]"

definition DecodeNodeConfig :: "config_env \<Rightarrow> bytes \<Rightarrow> goerr + NodeConfig" where
  "DecodeNodeConfig cf data =
     (case cf_Decode cf data of
        Inl e \<Rightarrow> Inl e
      | Inr d \<Rightarrow>
          if dc_Kind d \<noteq> KindNodeConfig then Inl (ErrMsg (''failed to decode '' @ quoted (dc_Kind d) @ '' (wrong Kind)''))
          else if dc_Group d \<noteq> GroupName
          then Inl (ErrMsg (''failed to decode '' @ quoted (dc_Kind d) @ '', unexpected group: '' @ dc_Group d))
          else (case dc_internal d of
             Some internalConfig \<Rightarrow> Inr internalConfig
           | None \<Rightarrow> Inl (ErrMsg ''unable to convert to internal NodeConfig'')))"

definition DecodeStrictNodeConfig :: "config_env \<Rightarrow> bytes \<Rightarrow> goerr + NodeConfig" where
  "DecodeStrictNodeConfig cf data = cf_UnmarshalStrict cf data"

section \<open>User data\<close>

definition multipartContentTypePrefix :: string where "multipartContentTypePrefix = ''multipart/''"
definition nodeConfigMediaType :: string where "nodeConfigMediaType = ''application/'' @ GroupName"

definition getMIMEMultipartReader :: "config_env \<Rightarrow> bytes \<Rightarrow> goerr + mime_item list" where
  "getMIMEMultipartReader cf data =
     (case cf_ReadMessage cf data of
        Inl e \<Rightarrow> Inl e
      | Inr (contentType, body) \<Rightarrow>
          (case cf_ParseMediaType cf contentType of
             Inl e \<Rightarrow> Inl e
           | Inr (mediaType, params) \<Rightarrow>
               if \<not> HasPrefix mediaType multipartContentTypePrefix then Inl (ErrMsg ''MIME type is not multipart'')
               else Inr (cf_parts cf body (params ''boundary''))))"

fun collect_configs :: "config_env \<Rightarrow> mime_item list \<Rightarrow> NodeConfig list \<Rightarrow> goerr + NodeConfig list" where
  "collect_configs cf [] nodeConfigs = Inr nodeConfigs"
| "collect_configs cf (PartError e # items) nodeConfigs = Inl e"
| "collect_configs cf (Part p # items) nodeConfigs =
     (if length (mp_ContentType p) > 0 then
        (case cf_ParseMediaType cf (mp_ContentType p) of
           Inl e \<Rightarrow> Inl e
         | Inr (mediaType, _) \<Rightarrow>
             if mediaType = nodeConfigMediaType then
               (case mp_content p of
                  Inl e \<Rightarrow> Inl e
                | Inr nodeConfigPart \<Rightarrow>
                    (case DecodeNodeConfig cf nodeConfigPart of
                       Inl e \<Rightarrow> Inl e
                     | Inr decodedConfig \<Rightarrow> collect_configs cf items (nodeConfigs @ [decodedConfig])))
             else collect_configs cf items nodeConfigs)
      else collect_configs cf items nodeConfigs)"

definition parseMultipart :: "config_env \<Rightarrow> mime_item list \<Rightarrow> goerr + NodeConfig" where
  "parseMultipart cf items =
     (case collect_configs cf items [] of
        Inl e \<Rightarrow> Inl e
      | Inr [] \<Rightarrow> Inl (ErrMsg ''Could not find NodeConfig within UserData'')
      | Inr (config # ncs) \<Rightarrow> merge_all cf config ncs)"

definition userData_Provide :: "config_env \<Rightarrow> NodeConfig wio" where
  "userData_Provide cf =
     bindE (GetUserData (cf_GetUserData cf)) (\<lambda>userData.
       liftE (case getMIMEMultipartReader cf userData of
                Inr multipartReader \<Rightarrow> parseMultipart cf multipartReader
              | Inl _ \<Rightarrow> DecodeNodeConfig cf userData))"

section \<open>Files\<close>

text \<open>The file is opened, looked at and read; opening a directory succeeds.\<close>

definition fileConfig_Provide :: "environment \<Rightarrow> config_env \<Rightarrow> path \<Rightarrow> NodeConfig wio" where
  "fileConfig_Provide env cf p =
     thenE (sys env (OpOpen p) no_part
       (\<lambda>f. (case f p of None \<Rightarrow> Inl (ErrNotExist (''open '' @ p @ '': no such file or directory'')) | Some _ \<Rightarrow> Inr (), f)))
      (bindE (os_Stat env p) (\<lambda>info. case info of
         DirNode _ \<Rightarrow> throwE (ErrMsg (''path is a directory, which is not currently supported: '' @ p))
       | RegFile _ _ \<Rightarrow>
           bindE (os_ReadFile env p) (\<lambda>data. liftE (DecodeStrictNodeConfig cf data))))"

definition getURLWithoutScheme :: "source_url \<Rightarrow> string" where
  "getURLWithoutScheme url = su_Host url @ su_Path url"

definition BuildConfigProvider :: "environment \<Rightarrow> config_env \<Rightarrow> string \<Rightarrow> goerr + NodeConfig wio" where
  "BuildConfigProvider env cf rawConfigSourceURL =
     (case cf_Parse cf rawConfigSourceURL of
        Inl e \<Rightarrow> Inl e
      | Inr parsedURL \<Rightarrow>
          if su_Scheme parsedURL = ''imds'' then Inr (userData_Provide cf)
          else if su_Scheme parsedURL = ''file'' then Inr (fileConfig_Provide env cf (getURLWithoutScheme parsedURL))
          else Inl (ErrMsg (''unsupported scheme: '' @ su_Scheme parsedURL)))"

definition read_config :: "environment \<Rightarrow> config_env \<Rightarrow> string \<Rightarrow> NodeConfig wio" where
  "read_config env cf source = bindE (liftE (BuildConfigProvider env cf source)) (\<lambda>provide. provide)"

section \<open>Facts\<close>

definition merges_kubelet :: "config_env \<Rightarrow> bool" where
  "merges_kubelet cf \<longleftrightarrow>
     (\<forall>tr dst src nc. cf_mergo cf tr dst src = Inr nc \<longrightarrow> tr (Kubelet_opts (Spec dst)) (Kubelet_opts (Spec src)) = Inr (Kubelet_opts (Spec nc)))"

abbreviation flags_of :: "NodeConfig \<Rightarrow> string list" where
  "flags_of nc \<equiv> kubelet_Flags (Kubelet_opts (Spec nc))"

lemma Merge_flags:
  assumes "merges_kubelet cf" and "Merge cf dst src = Inr nc"
  shows "flags_of nc = flags_of dst @ flags_of src"
proof -
  have "Transformer cf (Kubelet_opts (Spec dst)) (Kubelet_opts (Spec src)) = Inr (Kubelet_opts (Spec nc))"
    using assms unfolding merges_kubelet_def Merge_def by blast
  then obtain c where "(Kubelet_opts (Spec dst))\<lparr>kubelet_Flags := flags_of dst @ flags_of src, kubelet_Config := c\<rparr> = Kubelet_opts (Spec nc)"
    by (auto simp: Transformer_def transformFlags_def split: sum.splits)
  from arg_cong [OF this, of kubelet_Flags] show ?thesis by simp
qed

lemma merge_all_flags:
  assumes "merges_kubelet cf"
  shows "merge_all cf config ncs = Inr nc \<Longrightarrow> flags_of nc = flags_of config @ concat (map flags_of ncs)"
  by (induction ncs arbitrary: config) (auto split: sum.splits dest: Merge_flags [OF assms])

text \<open>The configurations of a multipart document: its parts of the right media type, in order.\<close>

definition holds_config :: "config_env \<Rightarrow> mime_part \<Rightarrow> bool" where
  "holds_config cf p \<longleftrightarrow> mp_ContentType p \<noteq> [] \<and> (\<exists>params. cf_ParseMediaType cf (mp_ContentType p) = Inr (nodeConfigMediaType, params))"

definition part_of :: "mime_item \<Rightarrow> mime_part option" where
  "part_of item = (case item of Part p \<Rightarrow> Some p | PartError _ \<Rightarrow> None)"

definition config_parts :: "config_env \<Rightarrow> mime_item list \<Rightarrow> mime_part list" where
  "config_parts cf items = filter (holds_config cf) (List.map_filter part_of items)"

definition part_holds :: "config_env \<Rightarrow> mime_part \<Rightarrow> NodeConfig \<Rightarrow> bool" where
  "part_holds cf p nc \<longleftrightarrow> (\<exists>b. mp_content p = Inr b \<and> DecodeNodeConfig cf b = Inr nc)"

lemma config_parts_simps [simp]:
  "config_parts cf [] = []" "config_parts cf (PartError e # items) = config_parts cf items"
  "config_parts cf (Part p # items) = (if holds_config cf p then p # config_parts cf items else config_parts cf items)"
  by (simp_all add: config_parts_def map_filter_def part_of_def)

lemma collect_configs_parts:
  "collect_configs cf items acc = Inr ncs \<Longrightarrow> \<exists>found. ncs = acc @ found \<and> list_all2 (part_holds cf) (config_parts cf items) found"
proof (induction cf items acc rule: collect_configs.induct)
  case (3 cf p items acc)
  show ?case
  proof (cases "holds_config cf p")
    case True
    then obtain params where pm: "mp_ContentType p \<noteq> []" "cf_ParseMediaType cf (mp_ContentType p) = Inr (nodeConfigMediaType, params)"
      by (auto simp: holds_config_def)
    with "3.prems" obtain b nc where b: "mp_content p = Inr b" "DecodeNodeConfig cf b = Inr nc" "collect_configs cf items (acc @ [nc]) = Inr ncs"
      by (auto split: sum.splits)
    from "3.IH"(1) [OF _ pm(2) refl refl b(1,2,3)] pm(1) obtain found where
      "ncs = (acc @ [nc]) @ found" "list_all2 (part_holds cf) (config_parts cf items) found" by auto
    moreover have "part_holds cf p nc" using b unfolding part_holds_def by blast
    ultimately show ?thesis using True by (intro exI [of _ "nc # found"]) simp
  next
    case False
    have "collect_configs cf items acc = Inr ncs"
      using "3.prems" False by (auto simp: holds_config_def split: if_splits sum.splits prod.splits)
    then show ?thesis using "3.prems" False "3.IH"(2,3) by (auto simp: holds_config_def split: if_splits sum.splits)
  qed
qed simp_all

section \<open>Properties\<close>

text \<open>C28: The configuration read from multipart user data has the kubelet flags of every configuration part, in the order of the parts, so
  that a flag of a later part comes after one of an earlier part; each part was decoded, and a document without such a part is an error.\<close>

theorem user_data_keeps_flag_order:
  assumes "merges_kubelet cf" and "getMIMEMultipartReader cf data = Inr items" and "cf_GetUserData cf (steps w) = Inr (data, None)"
    and "userData_Provide cf w = Some (Inr nc, w')"
  shows "\<exists>ncs. ncs \<noteq> [] \<and> list_all2 (part_holds cf) (config_parts cf items) ncs \<and> flags_of nc = concat (map flags_of ncs)"
proof -
  have "parseMultipart cf items = Inr nc"
    using assms(2-4) by (auto simp: userData_Provide_def GetUserData_def read_answer_def io_ReadAll_def bindE_def api_call_def liftE_def returnE_def throwE_def split: sum.splits)
  then obtain config ncs where c: "collect_configs cf items [] = Inr (config # ncs)" and m: "merge_all cf config ncs = Inr nc"
    by (auto simp: parseMultipart_def split: sum.splits list.splits)
  from collect_configs_parts [OF c] merge_all_flags [OF assms(1) m] show ?thesis by (intro exI [of _ "config # ncs"]) simp
qed

text \<open>User data with two configurations and a script between them.\<close>

definition sample_part :: "string \<Rightarrow> bytes \<Rightarrow> mime_item" where
  "sample_part contentType b = Part \<lparr>mp_ContentType = contentType, mp_content = Inr b\<rparr>"

definition with_flag :: "bytes \<Rightarrow> NodeConfig" where
  "with_flag b = sample_config\<lparr>Spec := (Spec sample_config)\<lparr>Kubelet_opts := \<lparr>kubelet_Config = [], kubelet_Flags = [b]\<rparr>\<rparr>\<rparr>"

definition sample_config_env :: config_env where
  "sample_config_env = \<lparr>cf_Parse = \<lambda>_. Inr \<lparr>su_Scheme = ''imds'', su_Host = ''user-data'', su_Path = []\<rparr>,
     cf_UnmarshalStrict = \<lambda>b. Inr (with_flag b),
     cf_Decode = \<lambda>b. Inr \<lparr>dc_Kind = KindNodeConfig, dc_Group = GroupName, dc_internal = Some (with_flag b)\<rparr>,
     cf_GetUserData = \<lambda>_. Inr (''document'', None), cf_ReadMessage = \<lambda>b. Inr (''multipart/mixed'', b), cf_ParseMediaType = \<lambda>s. Inr (s, \<lambda>_. ''#''),
     cf_parts = \<lambda>_ _. [sample_part nodeConfigMediaType ''--v=2'', sample_part ''text/x-shellscript'' ''echo'', sample_part nodeConfigMediaType ''--v=5''],
     cf_mergo = \<lambda>tr dst src. (case tr (Kubelet_opts (Spec dst)) (Kubelet_opts (Spec src)) of
        Inl e \<Rightarrow> Inl e | Inr k \<Rightarrow> Inr (dst\<lparr>Spec := (Spec dst)\<lparr>Kubelet_opts := k\<rparr>\<rparr>)),
     cf_json = sample_json\<rparr>"

lemma sample_merges: "merges_kubelet sample_config_env"
  by (auto simp: merges_kubelet_def sample_config_env_def split: sum.splits)

lemma sample_multipart:
  "getMIMEMultipartReader sample_config_env d =
     Inr [sample_part nodeConfigMediaType ''--v=2'', sample_part ''text/x-shellscript'' ''echo'', sample_part nodeConfigMediaType ''--v=5'']"
  by (simp add: getMIMEMultipartReader_def sample_config_env_def multipartContentTypePrefix_def HasPrefix_def)

lemma sample_decodes: "DecodeNodeConfig sample_config_env b = Inr (with_flag b)"
  by (simp add: DecodeNodeConfig_def sample_config_env_def)

lemma sample_media: "cf_ParseMediaType sample_config_env s = Inr (s, \<lambda>_. ''#'')"
  by (simp add: sample_config_env_def)

lemma media_types: "nodeConfigMediaType \<noteq> []" "''text/x-shellscript'' \<noteq> nodeConfigMediaType" "nodeConfigMediaType \<noteq> ''text/x-shellscript''"
  by (simp_all add: nodeConfigMediaType_def)

lemma sample_user_data_read: "\<exists>nc w'. userData_Provide sample_config_env w = Some (Inr nc, w')"
proof -
  have "\<exists>nc. Merge sample_config_env (with_flag ''--v=2'') (with_flag ''--v=5'') = Inr nc"
    by (simp add: Merge_def sample_config_env_def Transformer_def transformConfig_def with_flag_def)
  then have "\<exists>nc. parseMultipart sample_config_env [sample_part nodeConfigMediaType ''--v=2'', sample_part ''text/x-shellscript'' ''echo'',
      sample_part nodeConfigMediaType ''--v=5''] = Inr nc"
    by (auto simp: parseMultipart_def sample_part_def sample_media sample_decodes media_types)
  moreover have "cf_GetUserData sample_config_env n = Inr (''document'', None)" for n by (simp add: sample_config_env_def)
  ultimately show ?thesis by (auto simp: userData_Provide_def GetUserData_def read_answer_def io_ReadAll_def bindE_def api_call_def sample_multipart liftE_def returnE_def)
qed

theorem user_data_keeps_flag_order_witness:
  "\<exists>nc w'. userData_Provide sample_config_env sample_world = Some (Inr nc, w') \<and> flags_of nc = [''--v=2'', ''--v=5'']"
proof -
  obtain nc w' where run: "userData_Provide sample_config_env sample_world = Some (Inr nc, w')" using sample_user_data_read by iprover
  have "cf_GetUserData sample_config_env (steps sample_world) = Inr (''document'', None)" by (simp add: sample_config_env_def)
  from user_data_keeps_flag_order [OF sample_merges sample_multipart this run] obtain ncs where
    "list_all2 (part_holds sample_config_env) (config_parts sample_config_env [sample_part nodeConfigMediaType ''--v=2'',
       sample_part ''text/x-shellscript'' ''echo'', sample_part nodeConfigMediaType ''--v=5'']) ncs" and f: "flags_of nc = concat (map flags_of ncs)" by iprover
  then have "ncs = [with_flag ''--v=2'', with_flag ''--v=5'']"
    by (auto simp: sample_part_def holds_config_def sample_media media_types list_all2_Cons1 part_holds_def sample_decodes)
  with run f show ?thesis by (intro exI [of _ nc] exI [of _ w']) (simp add: with_flag_def)
qed

end
