(* ===== verification/Network.thy ===== *)
theory Network
  imports Node_Config
begin

text \<open>
  \<open>internal/network\<close>: addresses and CIDR blocks, the node's IP address (\<open>utils.go\<close>), the network
  interface validator (\<open>interface.go\<close>), the proxy validator (\<open>proxy.go\<close>, \<open>proxy_validator.go\<close>),
  and the cluster DNS address of \<open>internal/api/net.go\<close>.

  An IPv4 address is a 32-bit word. The textual IPv6 parser of package \<open>net\<close> is the argument \<open>ip6\<close>,
  which never yields an IPv4-mapped address (\<open>To4\<close> makes those IPv4 addresses). The host's network stack is
  the record \<open>netstack\<close>.
\<close>

unbundle bit_operations_syntax

section \<open>Addresses\<close>

datatype ip = V4 "32 word" | V6 "128 word"

type_synonym ip6_parser = "string \<Rightarrow> 128 word option"

definition octet :: "string \<Rightarrow> nat option" where
  "octet s =
     (if 1 \<le> length s \<and> length s \<le> 3 \<and> list_all is_digit s \<and> (length s > 1 \<longrightarrow> hd s \<noteq> CHR ''0'') \<and> dec_val s \<le> 255
      then Some (dec_val s) else None)"

definition ip4_of_octets :: "nat \<Rightarrow> nat \<Rightarrow> nat \<Rightarrow> nat \<Rightarrow> 32 word" where
  "ip4_of_octets a b c d = word_of_nat (((a * 256 + b) * 256 + c) * 256 + d)"

definition parse_ip4 :: "string \<Rightarrow> 32 word option" where
  "parse_ip4 s =
     (case map octet (split_on CHR ''.'' s) of
        [Some a, Some b, Some c, Some d] \<Rightarrow> Some (ip4_of_octets a b c d)
      | _ \<Rightarrow> None)"

text \<open>\<open>netip.ParseAddr\<close>: the first of \<open>.\<close>, \<open>:\<close>, \<open>%\<close> decides the family.\<close>

definition ParseIP :: "ip6_parser \<Rightarrow> string \<Rightarrow> ip option" where
  "ParseIP ip6 s =
     (case filter (\<lambda>c. c \<in> set '':.%'') s of
        [] \<Rightarrow> None
      | c # _ \<Rightarrow> if c = CHR ''.'' then map_option V4 (parse_ip4 s)
                 else if c = CHR '':'' then map_option V6 (ip6 s) else None)"

record ipnet =
  net_ip :: ip
  net_len :: nat

definition ip_bits :: "ip \<Rightarrow> nat" where
  "ip_bits i = (case i of V4 _ \<Rightarrow> 32 | V6 _ \<Rightarrow> 128)"

definition ParseCIDR :: "ip6_parser \<Rightarrow> string \<Rightarrow> (ip \<times> ipnet) option" where
  "ParseCIDR ip6 s =
     (case cut_at CHR ''/'' s of
        (addr, maskStr, found) \<Rightarrow>
          if \<not> found then None
          else (case (ParseIP ip6 addr, parse_dec maskStr) of
                  (Some i, Some n) \<Rightarrow> if n \<le> ip_bits i then Some (i, \<lparr>net_ip = i, net_len = n\<rparr>) else None
                | _ \<Rightarrow> None))"

text \<open>\<open>net.IPNet.Contains\<close>: the addresses agree on the first \<open>net_len\<close> bits.\<close>

definition ipnet_Contains :: "ipnet \<Rightarrow> ip \<Rightarrow> bool" where
  "ipnet_Contains n i =
     (case (net_ip n, i) of
        (V4 a, V4 b) \<Rightarrow> drop_bit (32 - net_len n) a = drop_bit (32 - net_len n) b
      | (V6 a, V6 b) \<Rightarrow> drop_bit (128 - net_len n) a = drop_bit (128 - net_len n) b
      | _ \<Rightarrow> False)"

definition ContainsIP :: "ip6_parser \<Rightarrow> string \<Rightarrow> ip \<Rightarrow> goerr + bool" where
  "ContainsIP ip6 cidr i =
     (case ParseCIDR ip6 cidr of
        None \<Rightarrow> Inl (ErrMsg (''invalid CIDR address: '' @ cidr))
      | Some (_, n) \<Rightarrow> Inr (ipnet_Contains n i))"

fun in_some_cidr :: "ip6_parser \<Rightarrow> ip \<Rightarrow> string list \<Rightarrow> goerr + bool" where
  "in_some_cidr ip6 i [] = Inr False"
| "in_some_cidr ip6 i (cidr # cidrs) =
     (case ContainsIP ip6 cidr i of
        Inl err \<Rightarrow> Inl (ErrWrap (''error checking IP in CIDR '' @ cidr) err)
      | Inr True \<Rightarrow> Inr True
      | Inr False \<Rightarrow> in_some_cidr ip6 i cidrs)"

definition is_v4 :: "ip \<Rightarrow> bool" where
  "is_v4 i = (case i of V4 _ \<Rightarrow> True | V6 _ \<Rightarrow> False)"

definition IsIPInCIDRs :: "ip6_parser \<Rightarrow> ip \<Rightarrow> string list \<Rightarrow> goerr + bool" where
  "IsIPInCIDRs ip6 i cidrs = (if \<not> is_v4 i then Inl (ErrMsg ''error: ip is invalid'') else in_some_cidr ip6 i cidrs)"

text \<open>A remote node network is its list of CIDR blocks.\<close>

definition ExtractCIDRsFromNodeNetworks :: "string list list \<Rightarrow> string list" where
  "ExtractCIDRsFromNodeNetworks networks = filter (\<lambda>c. c \<noteq> []) (concat networks)"

definition IsLoopback :: "ip \<Rightarrow> bool" where
  "IsLoopback i = (case i of V4 a \<Rightarrow> drop_bit 24 a = 127 | V6 a \<Rightarrow> a = 1)"

definition IsMulticast :: "ip \<Rightarrow> bool" where
  "IsMulticast i = (case i of V4 a \<Rightarrow> drop_bit 28 a = 14 | V6 a \<Rightarrow> drop_bit 120 a = 255)"

definition IsLinkLocalUnicast :: "ip \<Rightarrow> bool" where
  "IsLinkLocalUnicast i = (case i of V4 a \<Rightarrow> drop_bit 16 a = 43518 | V6 a \<Rightarrow> drop_bit 118 a = 1018)"

definition IsUnspecified :: "ip \<Rightarrow> bool" where
  "IsUnspecified i = (case i of V4 a \<Rightarrow> a = 0 | V6 a \<Rightarrow> a = 0)"

section \<open>The node's address\<close>

record netstack =
  LookupIP :: "string \<Rightarrow> ip list"
  ResolveBindAddress :: "ip option \<Rightarrow> goerr + ip option"
  InterfaceAddrs :: "goerr + ip list"
  Interfaces :: "goerr + (string \<times> bool \<times> bool \<times> int \<times> (goerr + ip list)) list"

fun ExtractFlagValue_loop :: "string list \<Rightarrow> string \<Rightarrow> string \<Rightarrow> string" where
  "ExtractFlagValue_loop [] flagPrefix flagValue = flagValue"
| "ExtractFlagValue_loop (arg # args) flagPrefix flagValue =
     ExtractFlagValue_loop args flagPrefix
       (if length arg > length flagPrefix \<and> take (length flagPrefix) arg = flagPrefix then drop (length flagPrefix) arg else flagValue)"

definition ExtractFlagValue :: "string list \<Rightarrow> string \<Rightarrow> string" where
  "ExtractFlagValue args flag = ExtractFlagValue_loop args (''--'' @ flag @ ''='') []"

definition ExtractNodeIPFromFlags :: "ip6_parser \<Rightarrow> string list \<Rightarrow> goerr + ip option" where
  "ExtractNodeIPFromFlags ip6 kubeletArgs =
     (let ipStr = ExtractFlagValue kubeletArgs ''node-ip'' in
      if ipStr \<noteq> [] then
        (case ParseIP ip6 ipStr of
           None \<Rightarrow> Inl (ErrMsg (''invalid ip '' @ ipStr @ '' in --node-ip flag. only 1 IPv4 address is allowed''))
         | Some i \<Rightarrow>
             if \<not> is_v4 i then Inl (ErrMsg (''invalid IPv6 address '' @ ipStr @ '' in --node-ip flag. only IPv4 is supported''))
             else Inr (Some i))
      else Inr None)"

definition ValidateNodeIP :: "netstack \<Rightarrow> ip \<Rightarrow> goerr option" where
  "ValidateNodeIP ns nodeIP =
     (if IsLoopback nodeIP then Some (ErrMsg ''nodeIP can't be loopback address'')
      else if IsMulticast nodeIP then Some (ErrMsg ''nodeIP can't be a multicast address'')
      else if IsLinkLocalUnicast nodeIP then Some (ErrMsg ''nodeIP can't be a link-local unicast address'')
      else if IsUnspecified nodeIP then Some (ErrMsg ''nodeIP can't be an all zeros address'')
      else (case InterfaceAddrs ns of
              Inl err \<Rightarrow> Some err
            | Inr addrs \<Rightarrow>
                if list_ex (\<lambda>a. a = nodeIP) addrs then None
                else Some (ErrMsg ''node IP not found in the host's network interfaces'')))"

fun first_valid_address :: "netstack \<Rightarrow> ip list \<Rightarrow> ip option" where
  "first_valid_address ns [] = None"
| "first_valid_address ns (a # as) = (if is_v4 a \<and> ValidateNodeIP ns a = None then Some a else first_valid_address ns as)"

text \<open>Steps 3 and 4: the first usable address of the node's name, else the address of the default route.\<close>

definition node_ip_fallback :: "netstack \<Rightarrow> ip option \<Rightarrow> string \<Rightarrow> goerr + ip" where
  "node_ip_fallback ns nodeIP nodeName =
     (case (if nodeName \<noteq> [] then first_valid_address ns (LookupIP ns nodeName) else None) of
        Some a \<Rightarrow> Inr a
      | None \<Rightarrow>
          (case ResolveBindAddress ns nodeIP of
             Inr (Some a) \<Rightarrow> Inr a
           | Inr None \<Rightarrow> Inl (ErrMsg ''couldn't get ip address of node: %!w(<nil>)'')
           | Inl err \<Rightarrow> Inl (ErrWrap ''couldn't get ip address of node'' err)))"

definition GetNodeIP :: "ip6_parser \<Rightarrow> netstack \<Rightarrow> string list \<Rightarrow> string \<Rightarrow> goerr + ip" where
  "GetNodeIP ip6 ns kubeletArgs nodeName =
     (case ExtractNodeIPFromFlags ip6 kubeletArgs of
        Inl err \<Rightarrow> Inl err
      | Inr nodeIP \<Rightarrow>
          (case nodeIP of
             Some i \<Rightarrow> if is_v4 i \<and> \<not> IsUnspecified i then Inr i
                       else node_ip_fallback ns nodeIP nodeName
           | None \<Rightarrow> node_ip_fallback ns nodeIP nodeName))"

definition ValidateIPInRemoteNodeNetwork :: "ip6_parser \<Rightarrow> ip \<Rightarrow> string list list \<Rightarrow> goerr option" where
  "ValidateIPInRemoteNodeNetwork ip6 ipAddr remoteNodeNetwork =
     (case IsIPInCIDRs ip6 ipAddr (ExtractCIDRsFromNodeNetworks remoteNodeNetwork) of
        Inl err \<Rightarrow> Some err
      | Inr validIP \<Rightarrow> if \<not> validIP then Some (ErrMsg ''node IP is not in any of the remote network CIDR blocks'') else None)"

definition ValidateClusterRemoteNetworkConfig :: "remote_network_config \<Rightarrow> goerr option" where
  "ValidateClusterRemoteNetworkConfig c =
     (case c of
        None \<Rightarrow> Some (ErrMsg ''remote network config is not set for cluster'')
      | Some None \<Rightarrow> Some (ErrMsg ''remote node networks not found in remote network config for cluster'')
      | Some (Some _) \<Rightarrow> None)"

definition ValidateMTU :: "int \<Rightarrow> goerr option" where
  "ValidateMTU mtu =
     (if mtu \<le> 0 then Some (ErrMsg (''MTU must be a positive value, got '' @ itoa mtu))
      else if mtu \<ge> 68 \<and> mtu \<le> 1500 then None
      else if mtu \<ge> 8000 \<and> mtu \<le> 9001 then None
      else Some (ErrMsg (''MTU '' @ itoa mtu @ '' is not in acceptable ranges: 68-1500 (standard) or 8000-9001 (jumbo frames)'')))"

text \<open>An interface: name, loopback flag, up flag, MTU, addresses.\<close>

fun find_interface ::
  "ip \<Rightarrow> (string \<times> bool \<times> bool \<times> int \<times> (goerr + ip list)) list \<Rightarrow> (string \<times> int) option" where
  "find_interface nodeIP [] = None"
| "find_interface nodeIP ((name, loopback, up, mtu, addrs) # rest) =
     (if loopback \<or> \<not> up then find_interface nodeIP rest
      else (case addrs of
              Inl _ \<Rightarrow> find_interface nodeIP rest
            | Inr as \<Rightarrow> if list_ex (\<lambda>a. a = nodeIP) as then Some (name, mtu) else find_interface nodeIP rest))"

definition FindNetworkInterfaceForIP :: "netstack \<Rightarrow> ip \<Rightarrow> goerr + string \<times> int" where
  "FindNetworkInterfaceForIP ns nodeIP =
     (case Interfaces ns of
        Inl err \<Rightarrow> Inl (ErrWrap ''failed to get network interfaces'' err)
      | Inr ifs \<Rightarrow>
          (case find_interface nodeIP ifs of
             Some r \<Rightarrow> Inr r
           | None \<Rightarrow> Inl (ErrMsg ''no active network interface found with IP'')))"

definition ValidateNetworkInterfaceMTUForIP :: "netstack \<Rightarrow> ip \<Rightarrow> goerr option" where
  "ValidateNetworkInterfaceMTUForIP ns nodeIP =
     (case FindNetworkInterfaceForIP ns nodeIP of
        Inl err \<Rightarrow> Some err
      | Inr (name, mtu) \<Rightarrow>
          (case ValidateMTU mtu of
             None \<Rightarrow> None
           | Some err \<Rightarrow> Some (ErrWrap (''interface '' @ name @ '' has invalid MTU '' @ itoa mtu) err)))"

record NetworkInterfaceValidator =
  niv_network :: netstack
  validateMTU :: bool
  niv_cluster :: "remote_network_config option"

definition NetworkInterfaceValidator_Run :: "ip6_parser \<Rightarrow> NetworkInterfaceValidator \<Rightarrow> NodeConfig \<Rightarrow> goerr option" where
  "NetworkInterfaceValidator_Run ip6 v node =
     (case niv_cluster v of
        None \<Rightarrow> None
      | Some cluster \<Rightarrow>
          (case ValidateClusterRemoteNetworkConfig cluster of
             Some err \<Rightarrow> Some (WithRemediation err ''Ensure the EKS cluster has remote network configuration set up properly.'')
           | None \<Rightarrow>
               (case GetNodeIP ip6 (niv_network v) (kubelet_Flags (Kubelet_opts (Spec node)))
                       (if IsIAMRolesAnywhere node then hybrid_NodeName (Status node) else []) of
                  Inl err \<Rightarrow> Some (WithRemediation err ''Ensure the node has a valid network interface configuration.'')
                | Inr nodeIP \<Rightarrow>
                    (case ValidateIPInRemoteNodeNetwork ip6 nodeIP (case cluster of Some (Some ns) \<Rightarrow> ns | _ \<Rightarrow> []) of
                       Some err \<Rightarrow> Some (WithRemediation err ''Ensure the node IP is within the configured remote network CIDR blocks.'')
                     | None \<Rightarrow>
                         if validateMTU v then
                           (case ValidateNetworkInterfaceMTUForIP (niv_network v) nodeIP of
                              Some err \<Rightarrow> Some (WithRemediation err ''Ensure the network interface with the node IP has a valid MTU value.'')
                            | None \<Rightarrow> None)
                         else None))))"

section \<open>Cluster DNS\<close>

datatype IPFamily = IPFamilyIPv4 | IPFamilyIPv6

definition GetCIDRIpFamily :: "ip6_parser \<Rightarrow> string \<Rightarrow> goerr + IPFamily" where
  "GetCIDRIpFamily ip6 cidr =
     (case ParseCIDR ip6 cidr of
        None \<Rightarrow> Inl (ErrMsg (cidr @ '' is not a valid IP Address.''))
      | Some (i, _) \<Rightarrow> Inr (if is_v4 i then IPFamilyIPv4 else IPFamilyIPv6))"

text \<open>\<open>cidr[:strings.LastIndex(cidr, ".")]\<close>; an IPv4 CIDR has a dot.\<close>

definition before_last_dot :: "string \<Rightarrow> string" where
  "before_last_dot s = rev (drop 1 (dropWhile (\<lambda>c. c \<noteq> CHR ''.'') (rev s)))"

definition GetClusterDns :: "ip6_parser \<Rightarrow> string \<Rightarrow> goerr + string" where
  "GetClusterDns ip6 cidr =
     (case GetCIDRIpFamily ip6 cidr of
        Inl err \<Rightarrow> Inl err
      | Inr IPFamilyIPv4 \<Rightarrow> Inr (before_last_dot cidr @ ''.10'')
      | Inr IPFamilyIPv6 \<Rightarrow> Inr (hd (split_on CHR ''/'' cidr) @ ''a''))"

section \<open>Facts\<close>

text \<open>The dotted text of an address, and of a block.\<close>

definition dotted :: "nat \<Rightarrow> nat \<Rightarrow> nat \<Rightarrow> nat \<Rightarrow> string" where
  "dotted a b c d = join_with ''.'' [dec_digits a, dec_digits b, dec_digits c, dec_digits d]"

lemma dec_digits_octet:
  assumes "n < 256"
  shows "length (dec_digits n) \<le> 3" and "length (dec_digits n) > 1 \<longrightarrow> hd (dec_digits n) \<noteq> CHR ''0''"
proof -
  have zero: "m < 10 \<Longrightarrow> digit_char m = CHR ''0'' \<Longrightarrow> m = 0" for m
    using digit_char_props(2) [of m] by (simp add: digit_val_def)
  have small: "m < 10 \<Longrightarrow> dec_digits m = [digit_char m]" for m by (subst dec_digits.simps) simp
  have step: "\<not> m < 10 \<Longrightarrow> dec_digits m = dec_digits (m div 10) @ [digit_char (m mod 10)]" for m
    by (subst dec_digits.simps) simp
  consider "n < 10" | "10 \<le> n" "n < 100" | "100 \<le> n" by linarith
  then have "length (dec_digits n) \<le> 3 \<and> (length (dec_digits n) > 1 \<longrightarrow> hd (dec_digits n) \<noteq> CHR ''0'')"
  proof cases
    case 1
    then show ?thesis by (simp only: small) simp
  next
    case 2
    then have "dec_digits n = [digit_char (n div 10), digit_char (n mod 10)]"
      using step [of n] small [of "n div 10"] by simp
    moreover have "n div 10 < 10" "n div 10 \<noteq> 0" using 2 by (simp_all add: div_eq_0_iff)
    ultimately show ?thesis using zero [of "n div 10"] by auto
  next
    case 3
    then have "dec_digits n = [digit_char (n div 10 div 10), digit_char (n div 10 mod 10), digit_char (n mod 10)]"
      using step [of n] step [of "n div 10"] small [of "n div 10 div 10"] assms by simp
    moreover have "n div 10 div 10 < 10" "n div 10 div 10 \<noteq> 0"
      using 3 assms by (simp_all add: div_mult2_eq [symmetric] div_eq_0_iff)
    ultimately show ?thesis using zero [of "n div 10 div 10"] by auto
  qed
  then show "length (dec_digits n) \<le> 3" and "length (dec_digits n) > 1 \<longrightarrow> hd (dec_digits n) \<noteq> CHR ''0''" by blast+
qed

lemma octet_dec_digits: "n < 256 \<Longrightarrow> octet (dec_digits n) = Some n"
  unfolding octet_def dec_val_dec_digits
  using dec_digits_octet [of n] dec_digits_all_digits [of n] by (cases "dec_digits n") auto

lemma digits_avoid: "\<not> is_digit c \<Longrightarrow> c \<notin> set (dec_digits n)"
  using dec_digits_all_digits [of n] by (auto simp: list_all_iff)

lemma split_dotted: "split_on CHR ''.'' (dotted a b c d) = [dec_digits a, dec_digits b, dec_digits c, dec_digits d]"
proof -
  have "CHR ''.'' \<notin> set (dec_digits n)" for n by (rule digits_avoid) (simp add: is_digit_def)
  then show ?thesis unfolding dotted_def by (intro split_join) auto
qed

lemma parse_ip4_dotted:
  "a < 256 \<Longrightarrow> b < 256 \<Longrightarrow> c < 256 \<Longrightarrow> d < 256 \<Longrightarrow> parse_ip4 (dotted a b c d) = Some (ip4_of_octets a b c d)"
  by (simp add: parse_ip4_def split_dotted octet_dec_digits)

lemma ParseIP_dotted:
  assumes "a < 256" "b < 256" "c < 256" "d < 256"
  shows "ParseIP ip6 (dotted a b c d) = Some (V4 (ip4_of_octets a b c d))"
proof -
  have dig: "filter (\<lambda>c. c \<in> set '':.%'') (dec_digits n) = []" for n
    using digits_avoid [of "CHR '':''" n] digits_avoid [of "CHR ''.''" n] digits_avoid [of "CHR ''%''" n]
    by (auto simp: filter_empty_conv is_digit_def)
  have "filter (\<lambda>c. c \<in> set '':.%'') (dotted a b c d) = ''...''"
    unfolding dotted_def join_with.simps filter_append dig by simp
  with parse_ip4_dotted [OF assms] show ?thesis by (simp add: ParseIP_def)
qed

lemma dotted_no_slash: "CHR ''/'' \<notin> set (dotted a b c d)"
  unfolding dotted_def using digits_avoid [of "CHR ''/''"] by (auto simp: is_digit_def)

lemma ParseCIDR_dotted:
  assumes "a < 256" "b < 256" "c < 256" "d < 256" "n \<le> 32"
  shows "ParseCIDR ip6 (dotted a b c d @ CHR ''/'' # dec_digits n) =
    Some (V4 (ip4_of_octets a b c d), \<lparr>net_ip = V4 (ip4_of_octets a b c d), net_len = n\<rparr>)"
  using assms by (simp add: ParseCIDR_def cut_at_append [OF dotted_no_slash] ParseIP_dotted ip_bits_def)

lemma unat_ip4_of_octets:
  assumes "a < 256" "b < 256" "c < 256" "d < 256"
  shows "unat (ip4_of_octets a b c d) = ((a * 256 + b) * 256 + c) * 256 + d"
proof -
  have "((a * 256 + b) * 256 + c) * 256 + d < 2 ^ 32" using assms by simp
  then show ?thesis
    unfolding ip4_of_octets_def by (simp only: unat_of_nat len_num1 len_bit0) (simp add: take_bit_nat_eq_self)
qed

lemma Contains_v4:
  "ipnet_Contains \<lparr>net_ip = V4 a, net_len = n\<rparr> (V4 b) \<longleftrightarrow> unat a div 2 ^ (32 - n) = unat b div 2 ^ (32 - n)"
proof -
  have "drop_bit k a = drop_bit k b \<longleftrightarrow> unat (drop_bit k a) = unat (drop_bit k b)" for k by (simp add: word_unat_eq_iff)
  then show ?thesis by (simp add: ipnet_Contains_def unat_drop_bit_eq drop_bit_eq_div [where 'a = nat] del: drop_bit_eq_div)
qed

text \<open>Membership of a list of blocks, when they all parse.\<close>

lemma in_some_cidr_iff:
  "(\<And>c. c \<in> set cidrs \<Longrightarrow> ParseCIDR ip6 c \<noteq> None) \<Longrightarrow>
     in_some_cidr ip6 i cidrs = Inr (\<exists>c\<in>set cidrs. ContainsIP ip6 c i = Inr True)"
proof (induction cidrs)
  case Nil
  show ?case by simp
next
  case (Cons c cidrs)
  then obtain a n where "ParseCIDR ip6 c = Some (a, n)" by fastforce
  then have "ContainsIP ip6 c i = Inr (ipnet_Contains n i)" by (simp add: ContainsIP_def)
  with Cons show ?case by (cases "ipnet_Contains n i") simp_all
qed

lemma in_some_cidr_True: "in_some_cidr ip6 i cidrs = Inr True \<Longrightarrow> \<exists>c\<in>set cidrs. ContainsIP ip6 c i = Inr True"
  by (induction cidrs) (auto split: sum.splits bool.splits)

lemma ValidateIP_accepts:
  assumes "ValidateIPInRemoteNodeNetwork ip6 i nets = None"
  shows "is_v4 i \<and> (\<exists>net\<in>set nets. \<exists>c\<in>set net. ContainsIP ip6 c i = Inr True)"
  using assms in_some_cidr_True [of ip6 i "ExtractCIDRsFromNodeNetworks nets"]
  by (auto simp: ValidateIPInRemoteNodeNetwork_def IsIPInCIDRs_def ExtractCIDRsFromNodeNetworks_def
      split: sum.splits if_splits)

text \<open>Where the node's address comes from.\<close>

lemma first_valid_address_Some:
  "first_valid_address ns as = Some a \<Longrightarrow> a \<in> set as \<and> is_v4 a \<and> ValidateNodeIP ns a = None"
  by (induction as) (auto split: if_splits)

definition node_ip_origin :: "ip6_parser \<Rightarrow> netstack \<Rightarrow> string list \<Rightarrow> string \<Rightarrow> ip \<Rightarrow> bool" where
  "node_ip_origin ip6 ns args name i \<longleftrightarrow>
     (ParseIP ip6 (ExtractFlagValue args ''node-ip'') = Some i \<and> is_v4 i \<and> \<not> IsUnspecified i) \<or>
     (name \<noteq> [] \<and> i \<in> set (LookupIP ns name) \<and> is_v4 i \<and> ValidateNodeIP ns i = None) \<or>
     (\<exists>bindAddr. ResolveBindAddress ns bindAddr = Inr (Some i) \<and> (\<forall>b. bindAddr = Some b \<longrightarrow> IsUnspecified b))"

lemma node_ip_fallback_origin:
  assumes "node_ip_fallback ns nodeIP name = Inr i" and "\<And>b. nodeIP = Some b \<Longrightarrow> IsUnspecified b"
  shows "node_ip_origin ip6 ns args name i"
proof (cases "name \<noteq> [] \<and> first_valid_address ns (LookupIP ns name) = Some i")
  case True
  then show ?thesis using first_valid_address_Some [of ns "LookupIP ns name" i] by (simp add: node_ip_origin_def)
next
  case False
  then have "ResolveBindAddress ns nodeIP = Inr (Some i)"
    using assms(1) by (auto simp: node_ip_fallback_def split: if_splits option.splits sum.splits)
  then show ?thesis using assms(2) by (auto simp: node_ip_origin_def)
qed

lemma ExtractNodeIPFromFlags_Some:
  "ExtractNodeIPFromFlags ip6 args = Inr (Some i) \<Longrightarrow>
     ParseIP ip6 (ExtractFlagValue args ''node-ip'') = Some i \<and> is_v4 i"
  by (auto simp: ExtractNodeIPFromFlags_def Let_def split: if_splits option.splits)

lemma GetNodeIP_origin:
  assumes "GetNodeIP ip6 ns args name = Inr i"
  shows "node_ip_origin ip6 ns args name i"
proof -
  obtain n where n: "ExtractNodeIPFromFlags ip6 args = Inr n"
    using assms by (cases "ExtractNodeIPFromFlags ip6 args") (simp_all add: GetNodeIP_def)
  show ?thesis
  proof (cases "\<exists>j. n = Some j \<and> \<not> IsUnspecified j")
    case True
    then show ?thesis
      using assms n ExtractNodeIPFromFlags_Some by (fastforce simp: GetNodeIP_def node_ip_origin_def)
  next
    case False
    then have "node_ip_fallback ns n name = Inr i"
      using assms n by (auto simp: GetNodeIP_def split: option.splits)
    then show ?thesis using False by (intro node_ip_fallback_origin) auto
  qed
qed

text \<open>An MTU is accepted in one of two ranges.\<close>

lemma ValidateMTU_iff: "ValidateMTU mtu = None \<longleftrightarrow> 68 \<le> mtu \<and> mtu \<le> 1500 \<or> 8000 \<le> mtu \<and> mtu \<le> 9001"
  by (auto simp: ValidateMTU_def)

lemma find_interface_Some:
  "find_interface i ifs = Some (name, mtu) \<Longrightarrow> \<exists>as. (name, False, True, mtu, Inr as) \<in> set ifs \<and> i \<in> set as"
  by (induction i ifs rule: find_interface.induct) (auto simp: list_ex_iff split: if_splits sum.splits)

definition good_interface :: "netstack \<Rightarrow> ip \<Rightarrow> bool" where
  "good_interface ns i \<longleftrightarrow>
     (\<exists>ifs name mtu as. Interfaces ns = Inr ifs \<and> (name, False, True, mtu, Inr as) \<in> set ifs \<and> i \<in> set as \<and> ValidateMTU mtu = None)"

lemma ValidateMTUForIP_accepts: "ValidateNetworkInterfaceMTUForIP ns i = None \<Longrightarrow> good_interface ns i"
  unfolding ValidateNetworkInterfaceMTUForIP_def FindNetworkInterfaceForIP_def good_interface_def
  by (auto split: sum.splits option.splits prod.splits dest!: find_interface_Some)

lemma before_last_dot_append: "CHR ''.'' \<notin> set b \<Longrightarrow> before_last_dot (a @ CHR ''.'' # b) = a"
  by (simp add: before_last_dot_def dropWhile_append)

section \<open>Properties\<close>



text \<open>A node address is the one of the flag, a usable address that the node's name resolves to, or the address of the
  default route when the flag is absent or unspecified.\<close>

theorem node_ip_has_origin:
  assumes "GetNodeIP ip6 ns args name = Inr i"
  shows "node_ip_origin ip6 ns args name i"
  by (rule GetNodeIP_origin [OF assms])

definition sample_netstack :: netstack where
  "sample_netstack = \<lparr>LookupIP = \<lambda>_. [V4 2130706433, V4 173015815],
     ResolveBindAddress = \<lambda>_. Inl (ErrMsg ''no route''),
     InterfaceAddrs = Inr [V4 2130706433, V4 173015815],
     Interfaces = Inr [(''lo'', True, True, 65536, Inr [V4 2130706433]), (''eth0'', False, True, 1500, Inr [V4 173015815])]\<rparr>"

lemma sample_GetNodeIP: "GetNodeIP (\<lambda>_. None) sample_netstack [] ''node-1'' = Inr (V4 173015815)"
  by (simp add: GetNodeIP_def ExtractNodeIPFromFlags_def ExtractFlagValue_def node_ip_fallback_def sample_netstack_def
      ValidateNodeIP_def IsLoopback_def IsMulticast_def IsLinkLocalUnicast_def IsUnspecified_def is_v4_def)

theorem node_ip_has_origin_witness: "node_ip_origin (\<lambda>_. None) sample_netstack [] ''node-1'' (V4 173015815)"
  by (rule node_ip_has_origin [OF sample_GetNodeIP])

text \<open>C32: When the network interface validation passes for a known cluster, the node has an IPv4 address inside one of the
  cluster's remote node networks and, if MTUs are checked, an active interface other than loopback has that address
  and an acceptable MTU.\<close>

theorem interface_validation_accepts:
  assumes "NetworkInterfaceValidator_Run ip6 v node = None" and "niv_cluster v = Some cluster"
  shows "\<exists>nets i. cluster = Some (Some nets) \<and>
    GetNodeIP ip6 (niv_network v) (kubelet_Flags (Kubelet_opts (Spec node))) (if IsIAMRolesAnywhere node then hybrid_NodeName (Status node) else []) = Inr i \<and>
    is_v4 i \<and> (\<exists>net c. net \<in> set nets \<and> c \<in> set net \<and> ContainsIP ip6 c i = Inr True) \<and> (\<not> validateMTU v \<or> good_interface (niv_network v) i)"
proof -
  let ?get = "GetNodeIP ip6 (niv_network v) (kubelet_Flags (Kubelet_opts (Spec node))) (if IsIAMRolesAnywhere node then hybrid_NodeName (Status node) else [])"
  obtain nets where nets: "cluster = Some (Some nets)"
    using assms by (auto simp: NetworkInterfaceValidator_Run_def ValidateClusterRemoteNetworkConfig_def split: option.splits)
  obtain i where i: "?get = Inr i"
    using assms nets by (cases ?get) (simp_all add: NetworkInterfaceValidator_Run_def ValidateClusterRemoteNetworkConfig_def)
  have ip: "ValidateIPInRemoteNodeNetwork ip6 i nets = None"
    using assms nets i by (simp add: NetworkInterfaceValidator_Run_def ValidateClusterRemoteNetworkConfig_def split: option.splits)
  have "validateMTU v \<Longrightarrow> ValidateNetworkInterfaceMTUForIP (niv_network v) i = None"
    using assms nets i ip by (simp add: NetworkInterfaceValidator_Run_def ValidateClusterRemoteNetworkConfig_def split: option.splits)
  then have "\<not> validateMTU v \<or> good_interface (niv_network v) i" using ValidateMTUForIP_accepts by blast
  with nets i ValidateIP_accepts [OF ip] show ?thesis by blast
qed

definition sample_block :: string where
  "sample_block = dotted 10 80 0 0 @ CHR ''/'' # dec_digits 16"

definition sample_validator :: NetworkInterfaceValidator where
  "sample_validator = \<lparr>niv_network = sample_netstack, validateMTU = True, niv_cluster = Some (Some (Some [[sample_block]]))\<rparr>"

definition sample_node :: NodeConfig where
  "sample_node = sample_ra_config\<lparr>Status := (Status sample_ra_config)\<lparr>hybrid_NodeName := ''node-1''\<rparr>\<rparr>"

lemma sample_block_facts: "ContainsIP (\<lambda>_. None) sample_block (V4 173015815) = Inr True" "sample_block \<noteq> []"
  using Contains_v4 [of "ip4_of_octets 10 80 0 0" 16 173015815]
  by (simp_all add: sample_block_def ContainsIP_def ParseCIDR_dotted unat_ip4_of_octets)

lemma sample_run: "NetworkInterfaceValidator_Run (\<lambda>_. None) sample_validator sample_node = None"
proof -
  have "IsIAMRolesAnywhere sample_node" "hybrid_NodeName (Status sample_node) = ''node-1''"
    "kubelet_Flags (Kubelet_opts (Spec sample_node)) = [''--v=5'']"
    by (simp_all add: sample_node_def sample_ra_config_def sample_config_def IsIAMRolesAnywhere_def)
  moreover have "GetNodeIP (\<lambda>_. None) sample_netstack [''--v=5''] ''node-1'' = Inr (V4 173015815)"
    using sample_GetNodeIP by (simp add: GetNodeIP_def ExtractNodeIPFromFlags_def ExtractFlagValue_def)
  moreover have "ValidateIPInRemoteNodeNetwork (\<lambda>_. None) (V4 173015815) [[sample_block]] = None"
    by (simp add: ValidateIPInRemoteNodeNetwork_def IsIPInCIDRs_def ExtractCIDRsFromNodeNetworks_def is_v4_def sample_block_facts)
  moreover have "ValidateNetworkInterfaceMTUForIP sample_netstack (V4 173015815) = None"
    by (simp add: ValidateNetworkInterfaceMTUForIP_def FindNetworkInterfaceForIP_def sample_netstack_def ValidateMTU_def)
  ultimately show ?thesis
    by (simp add: NetworkInterfaceValidator_Run_def sample_validator_def ValidateClusterRemoteNetworkConfig_def)
qed

theorem interface_validation_accepts_witness:
  "\<exists>i. is_v4 i \<and> good_interface sample_netstack i"
proof -
  have "niv_cluster sample_validator = Some (Some (Some [[sample_block]]))" by (simp add: sample_validator_def)
  from interface_validation_accepts [OF sample_run this] show ?thesis by (auto simp: sample_validator_def)
qed

text \<open>An MTU is accepted exactly in the ranges 68 to 1500 and 8000 to 9001.\<close>

theorem mtu_ranges: "ValidateMTU mtu = None \<longleftrightarrow> mtu \<in> {68..1500} \<union> {8000..9001}"
  by (auto simp: ValidateMTU_iff)

lemma GetClusterDns_dotted:
  assumes "a < 256" "b < 256" "c < 256" "d < 256" "n \<le> 32"
  shows "GetClusterDns ip6 (dotted a b c d @ CHR ''/'' # dec_digits n) = Inr (dotted a b c 10)"
proof -
  have "CHR ''.'' \<notin> set (dec_digits d @ CHR ''/'' # dec_digits n)"
    using digits_avoid [of "CHR ''.''"] by (simp add: is_digit_def)
  then have "before_last_dot ((dec_digits a @ ''.'' @ dec_digits b @ ''.'' @ dec_digits c) @ CHR ''.'' # dec_digits d @ CHR ''/'' # dec_digits n) =
      dec_digits a @ ''.'' @ dec_digits b @ ''.'' @ dec_digits c"
    by (rule before_last_dot_append)
  moreover have "dec_digits 10 = ''10''" by code_simp
  ultimately have "before_last_dot (dotted a b c d @ CHR ''/'' # dec_digits n) @ ''.10'' = dotted a b c 10"
    by (simp add: dotted_def)
  moreover have "GetCIDRIpFamily ip6 (dotted a b c d @ CHR ''/'' # dec_digits n) = Inr IPFamilyIPv4"
    by (simp add: GetCIDRIpFamily_def ParseCIDR_dotted [OF assms] is_v4_def)
  ultimately show ?thesis by (simp add: GetClusterDns_def)
qed

text \<open>The cluster DNS address of an IPv4 service network is the tenth address of the block's first three octets.\<close>

theorem cluster_dns_address:
  assumes "a < 256" "b < 256" "c < 256" "d < 256" "n \<le> 32"
  shows "GetClusterDns ip6 (dotted a b c d @ CHR ''/'' # dec_digits n) = Inr (dotted a b c 10)"
  by (rule GetClusterDns_dotted [OF assms])

theorem cluster_dns_address_witness: "GetClusterDns (\<lambda>_. None) (dotted 10 100 0 0 @ CHR ''/'' # dec_digits 16) = Inr (dotted 10 100 0 10)"
  by (rule cluster_dns_address) simp_all

end
