(* ===== verification/Components.thy ===== *)
theory Components
  imports Artifact
begin

text \<open>
  The components installed from a single downloaded file: \<open>internal/kubectl\<close>,
  \<open>internal/iamauthenticator\<close>, \<open>internal/imagecredentialprovider\<close>,
  \<open>internal/iamrolesanywhere/install.go\<close> and \<open>internal/kubelet/install.go\<close>; and the CNI
  plugins of \<open>internal/cni\<close>, which come as an archive.

  The packages repeat the same functions. \<open>download_once\<close> and \<open>for_range_retry\<close> are their common
  bodies; each package instantiates them with its own path, messages and tracker entry. The source
  (\<open>opts.Source\<close>, an interface) is the action \<open>get\<close>. The locale \<open>artifact_component\<close> is the
  contract the installer, upgrader and uninstaller rely on.
\<close>

section \<open>Common bodies\<close>

definition download_once ::
  "environment \<Rightarrow> string \<Rightarrow> string \<Rightarrow> string \<Rightarrow> source wio \<Rightarrow> path \<Rightarrow> nat \<Rightarrow> unit wio" where
  "download_once env getMsg installMsg what get dst perms =
     bindE (wrapE getMsg get) (\<lambda>src.
      bindE (wrapE installMsg (InstallFile env dst (src_stream src) perms)) (\<lambda>readSoFar.
        if \<not> VerifyChecksum env src readSoFar
        then throwE (ErrMsg (what @ '' checksum mismatch: '' @ error_text (NewChecksumError env src readSoFar)))
        else returnE ()))"

text \<open>\<open>for range n { err = f(); if err == nil { break } }; return err\<close>\<close>

fun for_range_retry :: "nat \<Rightarrow> goerr option \<Rightarrow> unit wio \<Rightarrow> unit wio" where
  "for_range_retry 0 err f = (case err of None \<Rightarrow> returnE () | Some e \<Rightarrow> throwE e)"
| "for_range_retry (Suc n) err f =
     bindE (tryE f) (\<lambda>r. case r of Inr _ \<Rightarrow> returnE () | Inl e \<Rightarrow> for_range_retry n (Some e) f)"

definition artifactFilePerms :: nat where "artifactFilePerms = 493"

section \<open>kubectl\<close>

definition kubectl_BinPath :: path where "kubectl_BinPath = ''/usr/local/bin/kubectl''"

definition kubectl_downloadFileTo :: "environment \<Rightarrow> source wio \<Rightarrow> path \<Rightarrow> unit wio" where
  "kubectl_downloadFileTo env get installRoot =
     download_once env ''getting kubectl source'' ''installing kubectl'' ''kubectl'' get
       (Join [installRoot, kubectl_BinPath]) artifactFilePerms"

definition kubectl_downloadFileWithRetries :: "environment \<Rightarrow> source wio \<Rightarrow> path \<Rightarrow> unit wio" where
  "kubectl_downloadFileWithRetries env get installRoot =
     for_range_retry 3 None (kubectl_downloadFileTo env get installRoot)"

definition kubectl_installFromSource :: "environment \<Rightarrow> source wio \<Rightarrow> path \<Rightarrow> unit wio" where
  "kubectl_installFromSource env get installRoot =
     wrapE ''downloading kubectl'' (kubectl_downloadFileWithRetries env get installRoot)"

definition kubectl_Install :: "environment \<Rightarrow> source wio \<Rightarrow> path \<Rightarrow> unit wio" where
  "kubectl_Install env get installRoot =
     thenE (wrapE ''installing kubectl'' (kubectl_installFromSource env get installRoot))
       (wrapE ''adding kubectl to tracker'' (Tracker_Add artifact_Kubectl))"

definition kubectl_Uninstall :: "environment \<Rightarrow> unit wio" where
  "kubectl_Uninstall env = os_RemoveAll env kubectl_BinPath"

definition kubectl_Upgrade :: "environment \<Rightarrow> source wio \<Rightarrow> unit wio" where
  "kubectl_Upgrade env get =
     bindE (wrapE ''getting kubectl source'' get) (\<lambda>src. Upgrade env ''kubectl'' kubectl_BinPath src artifactFilePerms)"

section \<open>iamauthenticator\<close>

definition iamauthenticator_BinPath :: path where "iamauthenticator_BinPath = ''/usr/local/bin/aws-iam-authenticator''"

definition iamauthenticator_downloadFileTo :: "environment \<Rightarrow> source wio \<Rightarrow> path \<Rightarrow> unit wio" where
  "iamauthenticator_downloadFileTo env get installRoot =
     download_once env ''getting aws-iam-authenticator source'' ''installing aws-iam-authenticator'' ''aws-iam-authenticator'' get
       (Join [installRoot, iamauthenticator_BinPath]) artifactFilePerms"

definition iamauthenticator_downloadFileWithRetries :: "environment \<Rightarrow> source wio \<Rightarrow> path \<Rightarrow> unit wio" where
  "iamauthenticator_downloadFileWithRetries env get installRoot =
     for_range_retry 3 None (iamauthenticator_downloadFileTo env get installRoot)"

definition iamauthenticator_installFromSource :: "environment \<Rightarrow> source wio \<Rightarrow> path \<Rightarrow> unit wio" where
  "iamauthenticator_installFromSource env get installRoot =
     wrapE ''downloading aws-iam-authenticator'' (iamauthenticator_downloadFileWithRetries env get installRoot)"

definition iamauthenticator_Install :: "environment \<Rightarrow> source wio \<Rightarrow> path \<Rightarrow> unit wio" where
  "iamauthenticator_Install env get installRoot =
     thenE (wrapE ''installing aws-iam-authenticator'' (iamauthenticator_installFromSource env get installRoot))
       (wrapE ''adding aws-iam-authenticator to tracker'' (Tracker_Add artifact_IamAuthenticator))"

definition iamauthenticator_Uninstall :: "environment \<Rightarrow> unit wio" where
  "iamauthenticator_Uninstall env = os_RemoveAll env iamauthenticator_BinPath"

definition iamauthenticator_Upgrade :: "environment \<Rightarrow> source wio \<Rightarrow> unit wio" where
  "iamauthenticator_Upgrade env get =
     bindE (wrapE ''getting aws-iam-authenticator source'' get) (\<lambda>src. Upgrade env ''aws-iam-authenticator'' iamauthenticator_BinPath src artifactFilePerms)"

section \<open>imagecredentialprovider\<close>

definition imagecredentialprovider_BinPath :: path where "imagecredentialprovider_BinPath = ''/etc/eks/image-credential-provider/ecr-credential-provider''"

definition imagecredentialprovider_downloadFileTo :: "environment \<Rightarrow> source wio \<Rightarrow> path \<Rightarrow> unit wio" where
  "imagecredentialprovider_downloadFileTo env get installRoot =
     download_once env ''getting image-credential-provider source'' ''installing image-credential-provider'' ''image-credential-provider'' get
       (Join [installRoot, imagecredentialprovider_BinPath]) artifactFilePerms"

definition imagecredentialprovider_downloadFileWithRetries :: "environment \<Rightarrow> source wio \<Rightarrow> path \<Rightarrow> unit wio" where
  "imagecredentialprovider_downloadFileWithRetries env get installRoot =
     for_range_retry 3 None (imagecredentialprovider_downloadFileTo env get installRoot)"

definition imagecredentialprovider_installFromSource :: "environment \<Rightarrow> source wio \<Rightarrow> path \<Rightarrow> unit wio" where
  "imagecredentialprovider_installFromSource env get installRoot =
     wrapE ''downloading image-credential-provider'' (imagecredentialprovider_downloadFileWithRetries env get installRoot)"

definition imagecredentialprovider_Install :: "environment \<Rightarrow> source wio \<Rightarrow> path \<Rightarrow> unit wio" where
  "imagecredentialprovider_Install env get installRoot =
     thenE (wrapE ''installing image-credential-provider'' (imagecredentialprovider_installFromSource env get installRoot))
       (wrapE ''adding image-credential-provider to tracker'' (Tracker_Add artifact_ImageCredentialProvider))"

definition imagecredentialprovider_Uninstall :: "environment \<Rightarrow> unit wio" where
  "imagecredentialprovider_Uninstall env = os_RemoveAll env (Dir imagecredentialprovider_BinPath)"

definition imagecredentialprovider_Upgrade :: "environment \<Rightarrow> source wio \<Rightarrow> unit wio" where
  "imagecredentialprovider_Upgrade env get =
     bindE (wrapE ''getting image-credential-provider source'' get) (\<lambda>src. Upgrade env ''image-credential-provider'' imagecredentialprovider_BinPath src artifactFilePerms)"

section \<open>iamrolesanywhere\<close>

definition iamrolesanywhere_BinPath :: path where "iamrolesanywhere_BinPath = ''/usr/local/bin/aws_signing_helper''"

definition iamrolesanywhere_downloadFileTo :: "environment \<Rightarrow> source wio \<Rightarrow> path \<Rightarrow> unit wio" where
  "iamrolesanywhere_downloadFileTo env get installRoot =
     download_once env ''getting source for aws_signing_helper'' ''installing aws_signing_helper'' ''aws_signing_helper'' get
       (Join [installRoot, iamrolesanywhere_BinPath]) artifactFilePerms"

definition iamrolesanywhere_downloadFileWithRetries :: "environment \<Rightarrow> source wio \<Rightarrow> path \<Rightarrow> unit wio" where
  "iamrolesanywhere_downloadFileWithRetries env get installRoot =
     for_range_retry 3 None (iamrolesanywhere_downloadFileTo env get installRoot)"

definition iamrolesanywhere_installFromSource :: "environment \<Rightarrow> source wio \<Rightarrow> path \<Rightarrow> unit wio" where
  "iamrolesanywhere_installFromSource env get installRoot =
     wrapE ''downloading aws_signing_helper'' (iamrolesanywhere_downloadFileWithRetries env get installRoot)"

definition iamrolesanywhere_Install :: "environment \<Rightarrow> source wio \<Rightarrow> path \<Rightarrow> unit wio" where
  "iamrolesanywhere_Install env get installRoot =
     thenE (wrapE ''installing aws_signing_helper'' (iamrolesanywhere_installFromSource env get installRoot))
       (wrapE ''adding aws_signing_helper to tracker'' (Tracker_Add artifact_IamRolesAnywhere))"

definition SigningHelperServiceFilePath :: path where
  "SigningHelperServiceFilePath = ''/etc/systemd/system/aws_signing_helper_update.service''"

definition EksHybridAwsCredentialsPath :: path where
  "EksHybridAwsCredentialsPath = ''/eks-hybrid/.aws/credentials''"

definition iamrolesanywhere_Uninstall :: "environment \<Rightarrow> unit wio" where
  "iamrolesanywhere_Uninstall env =
     thenE (os_RemoveAll env SigningHelperServiceFilePath)
      (thenE (os_RemoveAll env (Dir EksHybridAwsCredentialsPath))
       (os_RemoveAll env iamrolesanywhere_BinPath))"

definition iamrolesanywhere_Upgrade :: "environment \<Rightarrow> source wio \<Rightarrow> unit wio" where
  "iamrolesanywhere_Upgrade env get =
     bindE (wrapE ''getting aws_signing_helper source'' get) (\<lambda>src. Upgrade env ''aws-signing-helper'' iamrolesanywhere_BinPath src artifactFilePerms)"

section \<open>kubelet\<close>

definition kubelet_BinPath :: path where "kubelet_BinPath = ''/usr/bin/kubelet''"
definition UnitPath :: path where "UnitPath = ''/etc/systemd/system/kubelet.service''"
definition kubeconfigRoot :: path where "kubeconfigRoot = ''/var/lib/kubelet''"
definition kubeconfigPath :: path where "kubeconfigPath = Join [kubeconfigRoot, ''kubeconfig'']"
definition kubeletConfigRoot :: path where "kubeletConfigRoot = ''/etc/kubernetes/kubelet''"
definition kubeletCurrentCertPath :: path where
  "kubeletCurrentCertPath = Join [kubeconfigRoot, ''pki'', ''kubelet-server-current.pem'']"

text \<open>The embedded unit file \<open>kubelet.service\<close>.\<close>

definition kubeletUnitFile :: bytes where
  "kubeletUnitFile = concat (map (\<lambda>l. l @ [newline])
     [''[Unit]'',
      ''Description=Kubernetes Kubelet'',
      ''Documentation=https://github.com/kubernetes/kubernetes'',
      ''After=containerd.service'',
      ''Requires=containerd.service'',
      '''',
      ''[Service]'',
      ''Slice=runtime.slice'',
      ''EnvironmentFile=/etc/eks/kubelet/environment'',
      ''ExecStartPre=/sbin/iptables -P FORWARD ACCEPT -w 5'',
      ''ExecStart=/usr/bin/kubelet '' @ [CHR 0x5C],
      ''    --config /etc/kubernetes/kubelet/config.json '' @ [CHR 0x5C],
      ''    --kubeconfig /var/lib/kubelet/kubeconfig '' @ [CHR 0x5C],
      ''    --container-runtime-endpoint unix:///run/containerd/containerd.sock '' @ [CHR 0x5C],
      ''    $NODEADM_KUBELET_ARGS'' @ [CHR 0x5C],
      ''    $KUBELET_EXTRA_ARGS'',
      '''',
      ''Restart=on-failure'',
      ''RestartForceExitStatus=SIGPIPE'',
      ''RestartSec=5'',
      ''KillMode=process'',
      ''CPUAccounting=true'',
      ''MemoryAccounting=true'',
      '''',
      ''[Install]'',
      ''WantedBy=multi-user.target''])"

definition kubelet_downloadFileTo :: "environment \<Rightarrow> source wio \<Rightarrow> path \<Rightarrow> unit wio" where
  "kubelet_downloadFileTo env get installRoot =
     download_once env ''getting kubelet source'' ''installing kubelet'' ''kubelet'' get
       (Join [installRoot, kubelet_BinPath]) artifactFilePerms"

definition kubelet_installFromSource :: "environment \<Rightarrow> source wio \<Rightarrow> path \<Rightarrow> unit wio" where
  "kubelet_installFromSource env get installRoot = for_range_retry 3 None (kubelet_downloadFileTo env get installRoot)"

definition installSystemdUnit :: "environment \<Rightarrow> path \<Rightarrow> unit wio" where
  "installSystemdUnit env unitPath =
     thenE (mapErrE (\<lambda>e. ErrMsg (''failed to install kubelet systemd unit: '' @ error_text e))
              (InstallFile env unitPath (kubeletUnitFile, None) 420)) (returnE ())"

definition kubelet_Install :: "environment \<Rightarrow> source wio \<Rightarrow> path \<Rightarrow> unit wio" where
  "kubelet_Install env get installRoot =
     thenE (wrapE ''installing kubelet'' (kubelet_installFromSource env get installRoot))
      (thenE (wrapE ''installing systemd unit'' (installSystemdUnit env (Join [installRoot, UnitPath])))
       (wrapE ''adding kubelet to tracker'' (Tracker_Add artifact_Kubelet)))"

text \<open>Uninstalling removes every path and joins the errors.\<close>

fun collect_errors :: "unit wio list \<Rightarrow> goerr list \<Rightarrow> goerr list wio" where
  "collect_errors [] errs = returnE errs"
| "collect_errors (a # as) errs =
     bindE (tryE a) (\<lambda>r. collect_errors as (case r of Inl e \<Rightarrow> errs @ [e] | Inr _ \<Rightarrow> errs))"

definition join_errors :: "goerr list \<Rightarrow> unit wio" where
  "join_errors errs = (case errors_Join errs of None \<Rightarrow> returnE () | Some e \<Rightarrow> throwE e)"

definition kubelet_pathsToRemove :: "path \<Rightarrow> path list" where
  "kubelet_pathsToRemove installRoot =
     [Join [installRoot, kubelet_BinPath], Join [installRoot, UnitPath], Join [installRoot, kubeconfigPath],
      Join [installRoot, Dir kubeletConfigRoot], Join [installRoot, kubeletCurrentCertPath]]"

definition kubelet_Uninstall :: "environment \<Rightarrow> path \<Rightarrow> unit wio" where
  "kubelet_Uninstall env installRoot =
     bindE (tryE (EvalSymlinks env (Join [installRoot, kubeletCurrentCertPath]))) (\<lambda>r.
       let (actualCertPath, allErrors) =
         (case r of
            Inr p \<Rightarrow> (p, [])
          | Inl err \<Rightarrow> ([], if os_IsNotExist err then [] else [ErrWrap ''resolving symlink for kubelet cert'' err]));
           pathsToRemove = kubelet_pathsToRemove installRoot @ (if actualCertPath \<noteq> [] then [actualCertPath] else [])
       in bindE (collect_errors (map (os_RemoveAll env) pathsToRemove) allErrors) join_errors)"

definition kubelet_Upgrade :: "environment \<Rightarrow> source wio \<Rightarrow> unit wio" where
  "kubelet_Upgrade env get =
     bindE (wrapE ''getting kubelet source'' get) (\<lambda>src. Upgrade env ''kubelet'' kubelet_BinPath src artifactFilePerms)"

section \<open>CNI plugins\<close>

definition cni_rootDir :: path where "cni_rootDir = ''/opt/cni''"
definition cni_BinPath :: path where "cni_BinPath = ''/opt/cni/bin''"
definition TgzPath :: path where "TgzPath = ''/opt/cni/plugins/cni-plugins.tgz''"

definition cni_downloadFileTo :: "environment \<Rightarrow> source wio \<Rightarrow> path \<Rightarrow> unit wio" where
  "cni_downloadFileTo env get installRoot =
     download_once env ''getting cni-plugins source'' ''installing cni-plugins archive'' ''cni-plugins'' get
       (Join [installRoot, TgzPath]) 493"

definition cni_downloadFileWithRetries :: "environment \<Rightarrow> source wio \<Rightarrow> path \<Rightarrow> unit wio" where
  "cni_downloadFileWithRetries env get installRoot = for_range_retry 3 None (cni_downloadFileTo env get installRoot)"

definition cni_installFromSource :: "environment \<Rightarrow> source wio \<Rightarrow> path \<Rightarrow> unit wio" where
  "cni_installFromSource env get installRoot =
     thenE (wrapE ''installing cni-plugins'' (cni_downloadFileWithRetries env get installRoot))
       (wrapE ''extracting and installing cni-plugins''
         (InstallTarGz env (Join [installRoot, cni_BinPath]) (Join [installRoot, TgzPath])))"

definition cni_Install :: "environment \<Rightarrow> source wio \<Rightarrow> path \<Rightarrow> unit wio" where
  "cni_Install env get installRoot =
     thenE (cni_installFromSource env get installRoot)
       (wrapE ''adding cni-plugins to tracker'' (Tracker_Add artifact_CniPlugins))"

definition cni_Uninstall :: "environment \<Rightarrow> unit wio" where
  "cni_Uninstall env = os_RemoveAll env cni_rootDir"

definition cni_Upgrade :: "environment \<Rightarrow> source wio \<Rightarrow> unit wio" where
  "cni_Upgrade env get = wrapE ''upgrading cni-plugins'' (cni_installFromSource env get [])"

section \<open>Facts about the common bodies\<close>

lemma valid_ran: "valid_ok P m (\<lambda>x w. \<exists>a b. m a = Some (Inr x, b))"
  by (auto simp: valid_def split: sum.splits)

text \<open>The file at \<open>p\<close> is, byte for byte, what some answer of the source delivered, and it passes that
  answer's verification.\<close>

definition installed_from :: "environment \<Rightarrow> source wio \<Rightarrow> path \<Rightarrow> nat \<Rightarrow> world \<Rightarrow> bool" where
  "installed_from env get p perms w \<longleftrightarrow>
     (\<exists>src. (\<exists>a b. get a = Some (Inr src, b)) \<and> snd (src_stream src) = None \<and>
        fs w p = Some (RegFile (fst (src_stream src)) perms) \<and> VerifyChecksum env src (fst (src_stream src)))"

text \<open>The file at \<open>p\<close> passes the verification of some answer of the source.\<close>

definition up_to_date :: "environment \<Rightarrow> source wio \<Rightarrow> path \<Rightarrow> world \<Rightarrow> bool" where
  "up_to_date env get p w \<longleftrightarrow>
     (\<exists>src c m. (\<exists>a b. get a = Some (Inr src, b)) \<and> fs w p = Some (RegFile c m) \<and> VerifyChecksum env src c)"

lemma download_once_ok:
  assumes "p \<notin> set (dirs_to (Dir p))"
  shows "valid_ok P (download_once env gm im what get p perms) (\<lambda>_ w. installed_from env get p perms w)"
proof -
  have step: "valid_ok (\<lambda>w. \<exists>a b. get a = Some (Inr src, b))
      (bindE (wrapE im (InstallFile env p (src_stream src) perms)) (\<lambda>readSoFar.
        if \<not> VerifyChecksum env src readSoFar
        then throwE (ErrMsg (what @ '' checksum mismatch: '' @ error_text (NewChecksumError env src readSoFar)))
        else returnE ())) (\<lambda>_ w. installed_from env get p perms w)" for src
  proof (cases "\<exists>a b. get a = Some (Inr src, b)")
    case True
    then show ?thesis
      by (intro valid_bindE [OF valid_wrapE [OF InstallFile_ok [OF assms]]])
        (auto simp: valid_def installed_from_def)
  next
    case False
    then show ?thesis by (simp add: valid_def)
  qed
  show ?thesis unfolding download_once_def
    by (rule valid_bindE [OF valid_wrapE [OF valid_ran] step])
qed

lemma for_range_retry_ok:
  assumes "valid_ok (\<lambda>_. True) f (\<lambda>_. Q)" and "0 < n \<or> err \<noteq> None"
  shows "valid_ok (\<lambda>_. True) (for_range_retry n err f) (\<lambda>_. Q)"
  using assms(2)
proof (induction n arbitrary: err)
  case 0
  then show ?case by (auto simp: valid_def split: option.splits)
next
  case (Suc n)
  have "valid_ok (\<lambda>_. True) (tryE f) (\<lambda>r w. (\<exists>u. r = Inr u) \<longrightarrow> Q w)"
    by (rule valid_tryE, rule valid_post [OF assms(1)]) auto
  then show ?case unfolding for_range_retry.simps
  proof (rule valid_bindE)
    fix r
    show "valid_ok (\<lambda>w. (\<exists>u. r = Inr u) \<longrightarrow> Q w)
            (case r of Inl e \<Rightarrow> for_range_retry n (Some e) f | Inr u \<Rightarrow> returnE ()) (\<lambda>_. Q)"
      using Suc.IH [of "Some (projl r)"] by (cases r) (auto simp: valid_def)
  qed
qed

lemma preserves_for_range_retry: "preserves I f \<Longrightarrow> preserves I (for_range_retry n err f)"
  by (induction n arbitrary: err) (auto intro!: preserves_intros split: option.splits sum.splits)

lemma returns_for_range_retry: "returns f \<Longrightarrow> returns (for_range_retry n err f)"
  by (induction n arbitrary: err) (auto intro!: returns_intros split: option.splits sum.splits)

lemma returns_download_once: "returns get \<Longrightarrow> returns (download_once env gm im what get p perms)"
  unfolding download_once_def by (auto intro!: returns_intros returns_InstallFile)

lemma preserves_collect_all:
  "(\<And>a. a \<in> set as \<Longrightarrow> preserves I a) \<Longrightarrow> preserves I (collect_errors as errs)"
  by (induction as arbitrary: errs) (auto intro!: preserves_intros)

lemma preserves_collect:
  "(\<And>x. x \<in> set xs \<Longrightarrow> preserves I (f x)) \<Longrightarrow> preserves I (collect_errors (map f xs) errs)"
  by (induction xs arbitrary: errs) (auto intro!: preserves_intros)

lemma preserves_join_errors: "preserves I (join_errors errs)"
  by (auto simp: join_errors_def intro: preserves_intros split: option.splits)

lemma collect_errors_prefix: "valid_ok P (collect_errors as errs) (\<lambda>es _. prefix errs es)"
proof (induction as arbitrary: errs P)
  case Nil
  show ?case by (simp add: valid_def)
next
  case (Cons a as)
  have "valid_ok (\<lambda>_. True) (collect_errors as (case r of Inl e \<Rightarrow> errs @ [e] | Inr u \<Rightarrow> errs)) (\<lambda>es _. prefix errs es)" for r
    by (rule valid_post [OF Cons.IH]) (auto dest: append_prefixD split: sum.splits)
  then show ?case unfolding collect_errors.simps
    by (rule valid_bindE [where B = "\<lambda>_ _. True", rotated]) (auto simp: valid_def split: sum.splits)
qed

lemma collect_errors_ok:
  assumes "\<And>x. x \<in> set xs \<Longrightarrow> valid_ok (\<lambda>_. True) (f x) (\<lambda>_. G x)"
    and "\<And>x y. x \<in> set xs \<Longrightarrow> y \<in> set xs \<Longrightarrow> preserves (G x) (f y)"
  shows "valid_ok (\<lambda>_. True) (collect_errors (map f xs) errs) (\<lambda>es w. es = errs \<longrightarrow> (\<forall>x\<in>set xs. G x w))"
  using assms
proof (induction xs arbitrary: errs)
  case Nil
  show ?case by (simp add: valid_def)
next
  case (Cons x xs)
  have first: "valid_ok (\<lambda>_. True) (tryE (f x)) (\<lambda>r w. (\<exists>u. r = Inr u) \<longrightarrow> G x w)"
    by (rule valid_tryE, rule valid_post [OF Cons.prems(1)]) auto
  have rest: "valid_ok (\<lambda>_. True) (collect_errors (map f xs) es) (\<lambda>es' w. es' = es \<longrightarrow> (\<forall>y\<in>set xs. G y w))" for es
    using Cons by auto
  have keep: "preserves (G x) (collect_errors (map f xs) es)" for es
    using Cons.prems by (auto intro: preserves_collect)
  have ok: "valid_ok (\<lambda>w. G x w) (collect_errors (map f xs) errs) (\<lambda>es w. es = errs \<longrightarrow> (\<forall>y\<in>set (x # xs). G y w))"
    using valid_conj [OF keep [of errs] rest [of errs]] by (rule valid_conseq) auto
  have bad: "valid_ok (\<lambda>_. True) (collect_errors (map f xs) (errs @ [e])) (\<lambda>es w. es = errs \<longrightarrow> (\<forall>y\<in>set (x # xs). G y w))" for e
    by (rule valid_post [OF collect_errors_prefix]) (auto simp: prefix_def)
  show ?case
    unfolding list.map collect_errors.simps
  proof (rule valid_bindE [OF first])
    fix r
    show "valid_ok (\<lambda>w. (\<exists>u. r = Inr u) \<longrightarrow> G x w)
            (collect_errors (map f xs) (case r of Inl e \<Rightarrow> errs @ [e] | Inr u \<Rightarrow> errs))
            (\<lambda>es w. es = errs \<longrightarrow> (\<forall>y\<in>set (x # xs). G y w))"
      using ok bad by (cases r) (auto elim: valid_pre)
  qed
qed

lemma collect_join_ok:
  assumes "\<And>x. x \<in> set xs \<Longrightarrow> valid_ok (\<lambda>_. True) (f x) (\<lambda>_. G x)"
    and "\<And>x y. x \<in> set xs \<Longrightarrow> y \<in> set xs \<Longrightarrow> preserves (G x) (f y)"
  shows "valid_ok (\<lambda>_. True) (bindE (collect_errors (map f xs) errs) join_errors) (\<lambda>_ w. errs = [] \<and> (\<forall>x\<in>set xs. G x w))"
proof -
  have "valid_ok (\<lambda>_. True) (collect_errors (map f xs) errs) (\<lambda>es w. prefix errs es \<and> (es = errs \<longrightarrow> (\<forall>x\<in>set xs. G x w)))"
    using valid_conj [OF collect_errors_prefix [of "\<lambda>_. True"] collect_errors_ok [OF assms]]
    by (rule valid_conseq) auto
  then show ?thesis
    by (rule valid_bindE) (auto simp: valid_def join_errors_def errors_Join_def split: if_splits)
qed

lemma returns_collect: "(\<And>a. a \<in> set as \<Longrightarrow> returns a) \<Longrightarrow> returns (collect_errors as errs)"
  by (induction as arbitrary: errs) (auto intro!: returns_intros)

lemma returns_join_errors: "returns (join_errors errs)"
  by (auto simp: join_errors_def intro: returns_intros split: option.splits)

section \<open>The contract of a component\<close>

locale artifact_component =
  fixes env :: environment and get :: "source wio" and p :: path and name :: string
    and install :: "unit wio" and upgrade :: "unit wio" and uninstall :: "unit wio"
  assumes install_ok:
      "valid_ok (\<lambda>_. True) install
         (\<lambda>_ w. installed_from env get p artifactFilePerms w \<and> is_tracked (Artifacts (tracker_obj w)) name)"
    and upgrade_ok: "valid_ok (\<lambda>_. True) upgrade (\<lambda>_ w. up_to_date env get p w)"
    and uninstall_ok: "valid_ok (\<lambda>_. True) uninstall (\<lambda>_ w. fs w p = None)"
    and uninstall_shrinks: "keeps_absent q uninstall"
    and uninstall_tracker: "preserves (\<lambda>w. P (tracker_obj w)) uninstall"
begin

lemma install_is_up_to_date: "valid_ok (\<lambda>_. True) install (\<lambda>_ w. up_to_date env get p w)"
  by (rule valid_post [OF install_ok]) (auto simp: installed_from_def up_to_date_def)

lemma upgrade_after_install:
  "valid_ok (\<lambda>_. True) (thenE install upgrade) (\<lambda>_ w. up_to_date env get p w)"
  by (rule valid_thenE [OF install_is_up_to_date]) (rule valid_pre [OF upgrade_ok], simp)

lemma uninstall_after_install:
  "valid_ok (\<lambda>_. True) (thenE install uninstall)
     (\<lambda>_ w. fs w p = None \<and> is_tracked (Artifacts (tracker_obj w)) name)"
proof -
  have "valid_ok (\<lambda>_. True) install (\<lambda>_ w. is_tracked (Artifacts (tracker_obj w)) name)"
    by (rule valid_post [OF install_ok]) auto
  moreover have "valid_ok (\<lambda>w. is_tracked (Artifacts (tracker_obj w)) name) uninstall
      (\<lambda>_ w. fs w p = None \<and> is_tracked (Artifacts (tracker_obj w)) name)"
    using valid_conj [OF uninstall_ok uninstall_tracker [where P = "\<lambda>t. is_tracked (Artifacts t) name"]]
    by (rule valid_conseq) auto
  ultimately show ?thesis by (rule valid_thenE)
qed

lemma uninstall_twice: "valid_ok (\<lambda>_. True) (thenE uninstall uninstall) (\<lambda>_ w. fs w p = None)"
  by (rule valid_thenE [OF uninstall_ok]) (rule valid_pre [OF uninstall_ok], simp)

end

lemma component_paths:
  "Join [[], kubectl_BinPath] = kubectl_BinPath" "kubectl_BinPath \<notin> set (dirs_to (Dir kubectl_BinPath))"
  "Join [[], iamauthenticator_BinPath] = iamauthenticator_BinPath"
  "iamauthenticator_BinPath \<notin> set (dirs_to (Dir iamauthenticator_BinPath))"
  "Join [[], imagecredentialprovider_BinPath] = imagecredentialprovider_BinPath"
  "imagecredentialprovider_BinPath \<notin> set (dirs_to (Dir imagecredentialprovider_BinPath))"
  "Join [[], iamrolesanywhere_BinPath] = iamrolesanywhere_BinPath"
  "iamrolesanywhere_BinPath \<notin> set (dirs_to (Dir iamrolesanywhere_BinPath))"
  "Join [[], kubelet_BinPath] = kubelet_BinPath" "kubelet_BinPath \<notin> set (dirs_to (Dir kubelet_BinPath))"
  "Join [[], UnitPath] = UnitPath" "UnitPath \<notin> set (dirs_to (Dir UnitPath))"
  "\<not> under UnitPath kubelet_BinPath" "under (Dir imagecredentialprovider_BinPath) imagecredentialprovider_BinPath"
  by code_simp+

lemma valid_install_track:
  assumes "valid_ok (\<lambda>_. True) m (\<lambda>_. Q)" and "\<And>w tr. Q w \<Longrightarrow> Q (w\<lparr>tracker_obj := tr\<rparr>)"
  shows "valid_ok (\<lambda>_. True) (thenE m (wrapE msg (Tracker_Add n)))
     (\<lambda>_ w. Q w \<and> is_tracked (Artifacts (tracker_obj w)) n)"
proof -
  have "valid_ok Q (Tracker_Add n) (\<lambda>_. Q)"
    using assms(2) by (auto simp: Tracker_Add_def valid_def bindE_def getE_def modifyE_def throwE_def split: sum.splits)
  then have "valid_ok Q (wrapE msg (Tracker_Add n)) (\<lambda>_ w. Q w \<and> is_tracked (Artifacts (tracker_obj w)) n)"
    using valid_conj [OF _ Tracker_Add_ok [of "\<lambda>_. True" n]] by (intro valid_wrapE) (fastforce elim: valid_conseq)
  with assms(1) show ?thesis by (rule valid_thenE)
qed

lemma installed_from_tracker: "installed_from env get p m w \<Longrightarrow> installed_from env get p m (w\<lparr>tracker_obj := tr\<rparr>)"
  by (simp add: installed_from_def)

lemma installed_from_fs: "installed_from env get p m w \<Longrightarrow> fs w' p = fs w p \<Longrightarrow> installed_from env get p m w'"
  by (simp add: installed_from_def)

lemma keeps_node_installed_from:
  assumes "keeps_node p m"
  shows "valid (\<lambda>w. installed_from env get p perms w) m (\<lambda>_ w. installed_from env get p perms w) (\<lambda>_ w. installed_from env get p perms w)"
proof (rule validI)
  fix w x w' assume i: "installed_from env get p perms w" and run: "m w = Some (Inr x, w')"
  then obtain n where n: "fs w p = Some n" by (auto simp: installed_from_def)
  from valid_okD [OF keeps_nodeD [OF assms] n run] i n show "installed_from env get p perms w'"
    by (auto intro: installed_from_fs)
next
  fix w e w' assume i: "installed_from env get p perms w" and run: "m w = Some (Inl e, w')"
  then obtain n where n: "fs w p = Some n" by (auto simp: installed_from_def)
  from valid_errD [OF keeps_nodeD [OF assms] n run] i n show "installed_from env get p perms w'"
    by (auto intro: installed_from_fs)
qed

lemma component_upgrade_ok:
  assumes "p \<notin> set (dirs_to (Dir p))"
  shows "valid_ok (\<lambda>_. True) (bindE (wrapE msg get) (\<lambda>src. Upgrade env name p src perms)) (\<lambda>_ w. up_to_date env get p w)"
proof (rule valid_bindE [OF valid_wrapE [OF valid_ran]])
  fix src
  show "valid_ok (\<lambda>w. \<exists>a b. get a = Some (Inr src, b)) (Upgrade env name p src perms) (\<lambda>_ w. up_to_date env get p w)"
  proof (cases "\<exists>a b. get a = Some (Inr src, b)")
    case True
    then show ?thesis by (intro valid_post [OF Upgrade_ok [OF assms]]) (auto simp: up_to_date_def)
  qed (simp add: valid_def)
qed

lemma RemoveAll_under: "under p q \<Longrightarrow> valid_ok P (os_RemoveAll env p) (\<lambda>_ w. fs w q = None)"
  by (rule valid_post [OF RemoveAll_gone]) auto

lemma component_install_ok:
  assumes "p \<notin> set (dirs_to (Dir p))"
  shows "valid_ok (\<lambda>_. True) (thenE (wrapE m1 (wrapE m2 (for_range_retry 3 None (download_once env gm im what get p perms))))
           (wrapE m3 (Tracker_Add n)))
     (\<lambda>_ w. installed_from env get p perms w \<and> is_tracked (Artifacts (tracker_obj w)) n)"
  by (intro valid_install_track valid_wrapE for_range_retry_ok [OF download_once_ok [OF assms]] installed_from_tracker) auto

interpretation kubectl: artifact_component env get kubectl_BinPath artifact_Kubectl
  "kubectl_Install env get []" "kubectl_Upgrade env get" "kubectl_Uninstall env" for env get
proof unfold_locales
  show "valid_ok (\<lambda>_. True) (kubectl_Install env get [])
      (\<lambda>_ w. installed_from env get kubectl_BinPath artifactFilePerms w \<and> is_tracked (Artifacts (tracker_obj w)) artifact_Kubectl)"
    unfolding kubectl_Install_def kubectl_installFromSource_def kubectl_downloadFileWithRetries_def
      kubectl_downloadFileTo_def component_paths
    by (rule component_install_ok) (rule component_paths)
  show "valid_ok (\<lambda>_. True) (kubectl_Upgrade env get) (\<lambda>_ w. up_to_date env get kubectl_BinPath w)"
    unfolding kubectl_Upgrade_def by (rule component_upgrade_ok) (rule component_paths)
  show "valid_ok (\<lambda>_. True) (kubectl_Uninstall env) (\<lambda>_ w. fs w kubectl_BinPath = None)"
    unfolding kubectl_Uninstall_def by (rule RemoveAll_absent)
  show "keeps_absent q (kubectl_Uninstall env)" for q
    unfolding kubectl_Uninstall_def by (intro preserves_thenE keeps_absent_os)
  show "preserves (\<lambda>w. P (tracker_obj w)) (kubectl_Uninstall env)" for P
    unfolding kubectl_Uninstall_def by (intro preserves_thenE preserves_off_fs off_fs_tracker)
qed

interpretation iamauthenticator: artifact_component env get iamauthenticator_BinPath artifact_IamAuthenticator
  "iamauthenticator_Install env get []" "iamauthenticator_Upgrade env get" "iamauthenticator_Uninstall env" for env get
proof unfold_locales
  show "valid_ok (\<lambda>_. True) (iamauthenticator_Install env get [])
      (\<lambda>_ w. installed_from env get iamauthenticator_BinPath artifactFilePerms w \<and> is_tracked (Artifacts (tracker_obj w)) artifact_IamAuthenticator)"
    unfolding iamauthenticator_Install_def iamauthenticator_installFromSource_def iamauthenticator_downloadFileWithRetries_def
      iamauthenticator_downloadFileTo_def component_paths
    by (rule component_install_ok) (rule component_paths)
  show "valid_ok (\<lambda>_. True) (iamauthenticator_Upgrade env get) (\<lambda>_ w. up_to_date env get iamauthenticator_BinPath w)"
    unfolding iamauthenticator_Upgrade_def by (rule component_upgrade_ok) (rule component_paths)
  show "valid_ok (\<lambda>_. True) (iamauthenticator_Uninstall env) (\<lambda>_ w. fs w iamauthenticator_BinPath = None)"
    unfolding iamauthenticator_Uninstall_def by (rule RemoveAll_absent)
  show "keeps_absent q (iamauthenticator_Uninstall env)" for q
    unfolding iamauthenticator_Uninstall_def by (intro preserves_thenE keeps_absent_os)
  show "preserves (\<lambda>w. P (tracker_obj w)) (iamauthenticator_Uninstall env)" for P
    unfolding iamauthenticator_Uninstall_def by (intro preserves_thenE preserves_off_fs off_fs_tracker)
qed

interpretation imagecredentialprovider: artifact_component env get imagecredentialprovider_BinPath artifact_ImageCredentialProvider
  "imagecredentialprovider_Install env get []" "imagecredentialprovider_Upgrade env get" "imagecredentialprovider_Uninstall env" for env get
proof unfold_locales
  show "valid_ok (\<lambda>_. True) (imagecredentialprovider_Install env get [])
      (\<lambda>_ w. installed_from env get imagecredentialprovider_BinPath artifactFilePerms w \<and> is_tracked (Artifacts (tracker_obj w)) artifact_ImageCredentialProvider)"
    unfolding imagecredentialprovider_Install_def imagecredentialprovider_installFromSource_def imagecredentialprovider_downloadFileWithRetries_def
      imagecredentialprovider_downloadFileTo_def component_paths
    by (rule component_install_ok) (rule component_paths)
  show "valid_ok (\<lambda>_. True) (imagecredentialprovider_Upgrade env get) (\<lambda>_ w. up_to_date env get imagecredentialprovider_BinPath w)"
    unfolding imagecredentialprovider_Upgrade_def by (rule component_upgrade_ok) (rule component_paths)
  show "valid_ok (\<lambda>_. True) (imagecredentialprovider_Uninstall env) (\<lambda>_ w. fs w imagecredentialprovider_BinPath = None)"
    unfolding imagecredentialprovider_Uninstall_def by (rule RemoveAll_under) (rule component_paths)
  show "keeps_absent q (imagecredentialprovider_Uninstall env)" for q
    unfolding imagecredentialprovider_Uninstall_def by (intro preserves_thenE keeps_absent_os)
  show "preserves (\<lambda>w. P (tracker_obj w)) (imagecredentialprovider_Uninstall env)" for P
    unfolding imagecredentialprovider_Uninstall_def by (intro preserves_thenE preserves_off_fs off_fs_tracker)
qed

interpretation iamrolesanywhere: artifact_component env get iamrolesanywhere_BinPath artifact_IamRolesAnywhere
  "iamrolesanywhere_Install env get []" "iamrolesanywhere_Upgrade env get" "iamrolesanywhere_Uninstall env" for env get
proof unfold_locales
  show "valid_ok (\<lambda>_. True) (iamrolesanywhere_Install env get [])
      (\<lambda>_ w. installed_from env get iamrolesanywhere_BinPath artifactFilePerms w \<and> is_tracked (Artifacts (tracker_obj w)) artifact_IamRolesAnywhere)"
    unfolding iamrolesanywhere_Install_def iamrolesanywhere_installFromSource_def iamrolesanywhere_downloadFileWithRetries_def
      iamrolesanywhere_downloadFileTo_def component_paths
    by (rule component_install_ok) (rule component_paths)
  show "valid_ok (\<lambda>_. True) (iamrolesanywhere_Upgrade env get) (\<lambda>_ w. up_to_date env get iamrolesanywhere_BinPath w)"
    unfolding iamrolesanywhere_Upgrade_def by (rule component_upgrade_ok) (rule component_paths)
  show "valid_ok (\<lambda>_. True) (iamrolesanywhere_Uninstall env) (\<lambda>_ w. fs w iamrolesanywhere_BinPath = None)"
    unfolding iamrolesanywhere_Uninstall_def
    by (intro valid_thenE [where B = "\<lambda>_. True"] RemoveAll_absent) (simp_all add: valid_def split: sum.splits)
  show "keeps_absent q (iamrolesanywhere_Uninstall env)" for q
    unfolding iamrolesanywhere_Uninstall_def by (intro preserves_thenE keeps_absent_os)
  show "preserves (\<lambda>w. P (tracker_obj w)) (iamrolesanywhere_Uninstall env)" for P
    unfolding iamrolesanywhere_Uninstall_def by (intro preserves_thenE preserves_off_fs off_fs_tracker)
qed

subsection \<open>kubelet\<close>

definition gone_under :: "path \<Rightarrow> world \<Rightarrow> bool" where
  "gone_under p w \<longleftrightarrow> (\<forall>q. under p q \<longrightarrow> fs w q = None)"

lemma gone_underD: "gone_under p w \<Longrightarrow> fs w p = None"
  by (simp add: gone_under_def)

lemma gone_under_ok: "valid_ok P (os_RemoveAll env p) (\<lambda>_. gone_under p)"
  unfolding gone_under_def by (rule RemoveAll_gone)

lemma preserves_gone_under:
  assumes "\<And>q. keeps_absent q m"
  shows "preserves (gone_under p) m"
proof (rule validI)
  fix w x w' assume "gone_under p w" "m w = Some (Inr x, w')"
  then show "gone_under p w'" using valid_okD [OF assms] unfolding gone_under_def by blast
next
  fix w e w' assume "gone_under p w" "m w = Some (Inl e, w')"
  then show "gone_under p w'" using valid_errD [OF assms] unfolding gone_under_def by blast
qed

lemma keeps_absent_EvalSymlinks: "keeps_absent q (EvalSymlinks env p)"
  by (auto simp: valid_def EvalSymlinks_def split: sum.splits)

lemma kubelet_Uninstall_ok:
  "valid_ok (\<lambda>_. True) (kubelet_Uninstall env root) (\<lambda>_ w. \<forall>p\<in>set (kubelet_pathsToRemove root). gone_under p w)"
proof -
  have "valid_ok (\<lambda>_. True) (bindE (collect_errors (map (os_RemoveAll env) (kubelet_pathsToRemove root @ xs)) errs) join_errors)
     (\<lambda>_ w. \<forall>p\<in>set (kubelet_pathsToRemove root). gone_under p w)" for xs errs
    by (rule valid_post [OF collect_join_ok [where G = gone_under]])
      (auto intro!: gone_under_ok preserves_gone_under keeps_absent_os)
  then show ?thesis unfolding kubelet_Uninstall_def
    by (intro valid_bindE [where B = "\<lambda>_ _. True"])
      (auto simp: valid_def [of "\<lambda>_. True" "tryE (EvalSymlinks _ _)"] Let_def split: prod.splits sum.splits)
qed

lemma kubelet_Uninstall_shrinks: "keeps_absent q (kubelet_Uninstall env root)"
  unfolding kubelet_Uninstall_def
  by (intro preserves_bindE preserves_tryE keeps_absent_EvalSymlinks)
    (auto intro!: preserves_bindE preserves_collect_all keeps_absent_os preserves_join_errors split: prod.splits)

lemma kubelet_Uninstall_off: "off_fs I \<Longrightarrow> preserves I (kubelet_Uninstall env root)"
  unfolding kubelet_Uninstall_def
  by (intro preserves_bindE preserves_tryE preserves_EvalSymlinks)
    (auto intro!: preserves_bindE preserves_collect_all preserves_off_fs preserves_join_errors split: prod.splits)

lemma returns_kubelet_Uninstall: "returns (kubelet_Uninstall env root)"
proof -
  have "returns (EvalSymlinks env p)" for p by (simp add: returns_def EvalSymlinks_def)
  then show ?thesis unfolding kubelet_Uninstall_def
    by (auto intro!: returns_intros returns_collect returns_os returns_join_errors split: prod.splits sum.splits)
qed

lemma keeps_node_installSystemdUnit: "\<not> under p q \<Longrightarrow> keeps_node q (installSystemdUnit env p)"
  unfolding installSystemdUnit_def
  by (intro keeps_node_thenE keeps_node_mapErrE keeps_node_InstallFile keeps_node_intros)

lemma installSystemdUnit_ok:
  "p \<notin> set (dirs_to (Dir p)) \<Longrightarrow>
     valid_ok P (installSystemdUnit env p) (\<lambda>_ w. fs w p = Some (RegFile kubeletUnitFile 420))"
  unfolding installSystemdUnit_def
  by (rule valid_thenE [where B = "\<lambda>w. fs w p = Some (RegFile kubeletUnitFile 420)"], rule valid_mapErrE,
      rule valid_post [OF InstallFile_ok]) (auto simp: valid_def)

lemma kubelet_Install_ok:
  "valid_ok (\<lambda>_. True) (kubelet_Install env get [])
     (\<lambda>_ w. installed_from env get kubelet_BinPath artifactFilePerms w \<and> is_tracked (Artifacts (tracker_obj w)) artifact_Kubelet)"
proof -
  let ?dl = "wrapE ''installing kubelet'' (kubelet_installFromSource env get [])"
  let ?unit = "wrapE ''installing systemd unit'' (installSystemdUnit env UnitPath)"
  have dl: "valid_ok (\<lambda>_. True) ?dl (\<lambda>_ w. installed_from env get kubelet_BinPath artifactFilePerms w)"
    unfolding kubelet_installFromSource_def kubelet_downloadFileTo_def component_paths
    by (intro valid_wrapE for_range_retry_ok [OF download_once_ok] component_paths) simp
  have un: "valid_ok (\<lambda>w. installed_from env get kubelet_BinPath artifactFilePerms w) ?unit
      (\<lambda>_ w. installed_from env get kubelet_BinPath artifactFilePerms w)"
    by (rule valid_post [OF keeps_node_installed_from], rule keeps_node_wrapE,
        rule keeps_node_installSystemdUnit, rule component_paths) simp_all
  have "valid_ok (\<lambda>_. True) (thenE (thenE ?dl ?unit) (wrapE ''adding kubelet to tracker'' (Tracker_Add artifact_Kubelet)))
     (\<lambda>_ w. installed_from env get kubelet_BinPath artifactFilePerms w \<and> is_tracked (Artifacts (tracker_obj w)) artifact_Kubelet)"
    by (rule valid_install_track [OF valid_thenE [OF dl un] installed_from_tracker])
  then show ?thesis unfolding kubelet_Install_def component_paths by (simp add: thenE_assoc)
qed

interpretation kubelet: artifact_component env get kubelet_BinPath artifact_Kubelet
  "kubelet_Install env get []" "kubelet_Upgrade env get" "kubelet_Uninstall env []" for env get
proof unfold_locales
  show "valid_ok (\<lambda>_. True) (kubelet_Install env get [])
     (\<lambda>_ w. installed_from env get kubelet_BinPath artifactFilePerms w \<and> is_tracked (Artifacts (tracker_obj w)) artifact_Kubelet)"
    by (rule kubelet_Install_ok)
  show "valid_ok (\<lambda>_. True) (kubelet_Upgrade env get) (\<lambda>_ w. up_to_date env get kubelet_BinPath w)"
    unfolding kubelet_Upgrade_def by (rule component_upgrade_ok) (rule component_paths)
  show "valid_ok (\<lambda>_. True) (kubelet_Uninstall env []) (\<lambda>_ w. fs w kubelet_BinPath = None)"
    by (rule valid_post [OF kubelet_Uninstall_ok]) (auto simp: kubelet_pathsToRemove_def component_paths dest: gone_underD)
  show "keeps_absent q (kubelet_Uninstall env [])" for q by (rule kubelet_Uninstall_shrinks)
  show "preserves (\<lambda>w. P (tracker_obj w)) (kubelet_Uninstall env [])" for P
    by (rule kubelet_Uninstall_off) (rule off_fs_tracker)
qed

section \<open>Installing succeeds\<close>

text \<open>Without faults, a download whose digest matches is installed at the first attempt.\<close>

definition no_faults :: "environment \<Rightarrow> bool" where
  "no_faults env \<longleftrightarrow> (\<forall>n op. os_fault env n op = None)"

definition room_for :: "path \<Rightarrow> filesystem \<Rightarrow> bool" where
  "room_for p f \<longleftrightarrow> (\<forall>q\<in>set (dirs_to (Dir p)). \<not> is_file f q)"

lemma remove_under_is_file: "\<not> is_file f q \<Longrightarrow> \<not> is_file (remove_under p f) q"
  by (simp add: is_file_def remove_under_def)

lemma make_dirs_is_dir: "q \<in> set (dirs_to p) \<Longrightarrow> \<not> is_file f q \<Longrightarrow> is_dir (make_dirs p m f) q"
  by (auto simp: is_dir_def is_file_def make_dirs_def split: option.splits fnode.splits)

lemma InstallFile_succeeds:
  assumes "no_faults env" "room_for p (fs w)" "Dir p \<in> set (dirs_to (Dir p))" "p \<notin> set (dirs_to (Dir p))" "p \<noteq> ''/''"
    and "snd src = None"
  shows "\<exists>w'. InstallFile env p src m w = Some (Inr (fst src), w') \<and> tracker_obj w' = tracker_obj w"
proof -
  let ?f = "make_dirs (Dir p) DefaultDirPerms (remove_under p (fs w))"
  have nf: "os_fault env n op = None" for n op using assms(1) by (simp add: no_faults_def)
  have nofile: "\<not> list_ex (is_file (remove_under p (fs w))) (dirs_to (Dir p))"
    using assms(2) by (auto simp: room_for_def list_ex_iff dest: remove_under_is_file)
  have dir: "is_dir ?f (Dir p)"
    using assms(2,3) by (intro make_dirs_is_dir remove_under_is_file) (auto simp: room_for_def)
  have none: "?f p = None" using assms(4) by (simp add: make_dirs_def remove_under_def)
  then have "\<not> is_dir ?f p" using assms(5) by (simp add: is_dir_def)
  then show ?thesis using assms(6) nofile dir none
    by (simp add: InstallFile_def io_Copy_def os_RemoveAll_def os_MkdirAll_def os_Create_def file_Write_def
        sys_def nf Let_def thenE_def bindE_def returnE_def append_to_def)
qed

lemma download_once_succeeds:
  assumes "no_faults env" "get w = Some (Inr src, w1)" "room_for p (fs w1)" "Dir p \<in> set (dirs_to (Dir p))"
    "p \<notin> set (dirs_to (Dir p))" "p \<noteq> ''/''" and "snd (src_stream src) = None" and "VerifyChecksum env src (fst (src_stream src))"
  shows "\<exists>w'. download_once env gm im what get p m w = Some (Inr (), w')"
  using InstallFile_succeeds [OF assms(1,3,4,5,6,7), of m] assms(2,8)
  by (auto simp: download_once_def bindE_def wrapE_def mapErrE_def returnE_def)

lemma install_path_facts:
  "Dir kubectl_BinPath \<in> set (dirs_to (Dir kubectl_BinPath))" "kubectl_BinPath \<noteq> ''/''"
  by code_simp+

section \<open>Properties\<close>

text \<open>When the installation of a component returns successfully, the file at the component's path is byte for byte
  what the source delivered, it passed the source's checksum, it has mode 0755, and the tracker records the component.
  This holds for kubelet, kubectl, the IAM authenticator, the image credential provider and the signing helper.\<close>

theorem installed_artifacts_verified:
  "valid_ok (\<lambda>_. True) (kubelet_Install env get []) (\<lambda>_ w. installed_from env get kubelet_BinPath 493 w \<and> is_tracked (Artifacts (tracker_obj w)) artifact_Kubelet) \<and>
   valid_ok (\<lambda>_. True) (kubectl_Install env get []) (\<lambda>_ w. installed_from env get kubectl_BinPath 493 w \<and> is_tracked (Artifacts (tracker_obj w)) artifact_Kubectl) \<and>
   valid_ok (\<lambda>_. True) (iamauthenticator_Install env get [])
     (\<lambda>_ w. installed_from env get iamauthenticator_BinPath 493 w \<and> is_tracked (Artifacts (tracker_obj w)) artifact_IamAuthenticator) \<and>
   valid_ok (\<lambda>_. True) (imagecredentialprovider_Install env get [])
     (\<lambda>_ w. installed_from env get imagecredentialprovider_BinPath 493 w \<and> is_tracked (Artifacts (tracker_obj w)) artifact_ImageCredentialProvider) \<and>
   valid_ok (\<lambda>_. True) (iamrolesanywhere_Install env get [])
     (\<lambda>_ w. installed_from env get iamrolesanywhere_BinPath 493 w \<and> is_tracked (Artifacts (tracker_obj w)) artifact_IamRolesAnywhere)"
  using kubelet.install_ok [of env get] kubectl.install_ok [of env get] iamauthenticator.install_ok [of env get]
    imagecredentialprovider.install_ok [of env get] iamrolesanywhere.install_ok [of env get]
  unfolding artifactFilePerms_def by blast

text \<open>Installing kubectl does succeed when no system call fails, the directories are free and the source delivers bytes
  that match its checksum.\<close>

theorem kubectl_install_succeeds:
  assumes "no_faults env" and "get w = Some (Inr src, w1)" and "room_for kubectl_BinPath (fs w1)"
    and "snd (src_stream src) = None" and "VerifyChecksum env src (fst (src_stream src))"
  shows "\<exists>w'. kubectl_Install env get [] w = Some (Inr (), w')"
proof -
  have "\<exists>w2. download_once env gm im what get kubectl_BinPath artifactFilePerms w = Some (Inr (), w2)" for gm im what
    by (rule download_once_succeeds [where src = src and ?w1.0 = w1])
      (rule assms install_path_facts component_paths)+
  then obtain w2 where "download_once env ''getting kubectl source'' ''installing kubectl'' ''kubectl'' get kubectl_BinPath artifactFilePerms w = Some (Inr (), w2)"
    by iprover
  then have "kubectl_installFromSource env get [] w = Some (Inr (), w2)"
    by (simp add: kubectl_installFromSource_def kubectl_downloadFileWithRetries_def kubectl_downloadFileTo_def
        numeral_3_eq_3 component_paths bindE_def tryE_def wrapE_def mapErrE_def returnE_def)
  then show ?thesis
    by (simp add: kubectl_Install_def thenE_def bindE_def wrapE_def mapErrE_def Tracker_Add_def Add_simps getE_def modifyE_def)
qed

definition sample_source :: "source wio" where
  "sample_source = returnE \<lparr>src_stream = (''elf'', None), src_expect = Some ''elf''\<rparr>"

theorem kubectl_install_succeeds_witness:
  "\<exists>w'. kubectl_Install sample_env sample_source [] sample_world = Some (Inr (), w')"
proof (rule kubectl_install_succeeds)
  show "no_faults sample_env" by (simp add: no_faults_def sample_env_def)
  show "sample_source sample_world = Some (Inr \<lparr>src_stream = (''elf'', None), src_expect = Some ''elf''\<rparr>, sample_world)"
    by (simp add: sample_source_def)
  show "room_for kubectl_BinPath (fs sample_world)" by (simp add: room_for_def is_file_def sample_world_def)
  show "VerifyChecksum sample_env \<lparr>src_stream = (''elf'', None), src_expect = Some ''elf''\<rparr>
      (fst (src_stream \<lparr>src_stream = (''elf'', None), src_expect = Some ''elf''\<rparr>))"
    by (simp add: VerifyChecksum_iff sample_env_def)
qed simp

text \<open>After a successful upgrade each component's file passes the checksum of the source, whether it was replaced or
  already current.\<close>

theorem upgraded_artifacts_verified:
  "valid_ok (\<lambda>_. True) (kubelet_Upgrade env get) (\<lambda>_ w. up_to_date env get kubelet_BinPath w) \<and>
   valid_ok (\<lambda>_. True) (kubectl_Upgrade env get) (\<lambda>_ w. up_to_date env get kubectl_BinPath w) \<and>
   valid_ok (\<lambda>_. True) (iamauthenticator_Upgrade env get) (\<lambda>_ w. up_to_date env get iamauthenticator_BinPath w) \<and>
   valid_ok (\<lambda>_. True) (imagecredentialprovider_Upgrade env get) (\<lambda>_ w. up_to_date env get imagecredentialprovider_BinPath w) \<and>
   valid_ok (\<lambda>_. True) (iamrolesanywhere_Upgrade env get) (\<lambda>_ w. up_to_date env get iamrolesanywhere_BinPath w)"
  using kubelet.upgrade_ok [of env get] kubectl.upgrade_ok [of env get] iamauthenticator.upgrade_ok [of env get]
    imagecredentialprovider.upgrade_ok [of env get] iamrolesanywhere.upgrade_ok [of env get]
  by blast

text \<open>Uninstalling the kubelet ends; when it succeeds, nothing is left at or below any of its paths, and it never creates
  a file.\<close>

theorem kubelet_uninstall_leaves_nothing:
  "returns (kubelet_Uninstall env root) \<and>
   valid_ok (\<lambda>_. True) (kubelet_Uninstall env root)
     (\<lambda>_ w. list_all (\<lambda>p. gone_under p w) (kubelet_pathsToRemove root)) \<and> keeps_absent q (kubelet_Uninstall env root)"
  using kubelet_Uninstall_ok [of env root] kubelet_Uninstall_shrinks [of q env root] returns_kubelet_Uninstall [of env root]
  by (simp add: list_all_iff)

end
