(* ===== verification/Packages.thy ===== *)
theory Packages
  imports Components Aws_Source Daemon
begin

text \<open>
  Components that come from the distribution's packages: \<open>internal/packagemanager\<close>,
  \<open>internal/iptables\<close>, \<open>internal/containerd\<close> (\<open>install.go\<close>, \<open>version.go\<close>), and the SSM
  agent of \<open>internal/ssm\<close> (\<open>install.go\<close>, \<open>registration.go\<close>, \<open>source.go\<close>).

  The go-ini parser, the OpenPGP verifier, the JSON decoders and the SSM API client are parameters.
\<close>

section \<open>Package manager\<close>

definition aptPackageManager :: string where "aptPackageManager = ''apt''"
definition yumPackageManager :: string where "yumPackageManager = ''yum''"
definition snapPackageManager :: string where "snapPackageManager = ''snap''"
definition ubuntuDockerGpgKeyPath :: path where "ubuntuDockerGpgKeyPath = ''/etc/apt/keyrings/docker.asc''"
definition ubuntuDockerGpgKey :: string where "ubuntuDockerGpgKey = ''https://download.docker.com/linux/ubuntu/gpg''"
definition ubuntuDockerRepo :: string where "ubuntuDockerRepo = ''https://download.docker.com/linux/ubuntu''"
definition centOsDockerRepo :: string where "centOsDockerRepo = ''https://download.docker.com/linux/centos/docker-ce.repo''"
definition aptDockerRepoSourceFilePath :: path where "aptDockerRepoSourceFilePath = ''/etc/apt/sources.list.d/docker.list''"
definition yumDockerRepoSourceFilePath :: path where "yumDockerRepoSourceFilePath = ''/etc/yum.repos.d/docker-ce.repo''"

text \<open>\<open>err == nil\<close> of a \<open>LookPath\<close>.\<close>

definition found :: "goerr + path \<Rightarrow> bool" where
  "found r = (\<not> isl r)"

record DistroPackageManager =
  manager :: string
  installVerb :: string
  updateVerb :: string
  deleteVerb :: string
  refreshMetadataVerb :: string
  dockerRepo :: string

text \<open>A Go map from the two managers; a missing key gives the empty string.\<close>

definition by_manager :: "string \<Rightarrow> string \<Rightarrow> string \<Rightarrow> string" where
  "by_manager apt yum m = (if m = aptPackageManager then apt else if m = yumPackageManager then yum else [])"

definition packageManagerInstallCmd :: "string \<Rightarrow> string" where "packageManagerInstallCmd = by_manager ''install'' ''install''"
definition packageManagerUpdateCmd :: "string \<Rightarrow> string" where "packageManagerUpdateCmd = by_manager ''upgrade'' ''update''"
definition packageManagerDeleteCmd :: "string \<Rightarrow> string" where "packageManagerDeleteCmd = by_manager ''autoremove'' ''remove''"
definition packageManagerMetadataRefreshCmd :: "string \<Rightarrow> string" where "packageManagerMetadataRefreshCmd = by_manager ''update'' ''makecache''"
definition managerToDockerRepoMap :: "string \<Rightarrow> string" where "managerToDockerRepoMap = by_manager ubuntuDockerRepo centOsDockerRepo"

fun first_found :: "environment \<Rightarrow> filesystem \<Rightarrow> string list \<Rightarrow> string option" where
  "first_found env f [] = None"
| "first_found env f (m # ms) = (case look_path env m f of Inr _ \<Rightarrow> Some m | Inl _ \<Rightarrow> first_found env f ms)"

definition getOsPackageManager :: "environment \<Rightarrow> string wio" where
  "getOsPackageManager env =
     bindE (getE (\<lambda>w. first_found env (fs w) [yumPackageManager, aptPackageManager])) (\<lambda>r. case r of
        Some m \<Rightarrow> returnE m
      | None \<Rightarrow> throwE (ErrMsg ''unsupported package manager encountered. Please run nodeadm from a supported os''))"

definition packagemanager_New :: "environment \<Rightarrow> string \<Rightarrow> DistroPackageManager wio" where
  "packagemanager_New env containerdSource =
     bindE (getOsPackageManager env) (\<lambda>m.
       returnE \<lparr>manager = m, installVerb = packageManagerInstallCmd m, updateVerb = packageManagerUpdateCmd m,
         deleteVerb = packageManagerDeleteCmd m, refreshMetadataVerb = packageManagerMetadataRefreshCmd m,
         dockerRepo = (if containerdSource = ContainerdSourceDocker then managerToDockerRepoMap m else [])\<rparr>)"

definition pm_package :: "DistroPackageManager \<Rightarrow> string \<Rightarrow> packageSource" where
  "pm_package pm name =
     NewPackageSource (NewCmd (manager pm) [installVerb pm, name, ''-y''])
       (NewCmd (manager pm) [deleteVerb pm, name, ''-y'']) (NewCmd (manager pm) [updateVerb pm, name, ''-y''])"

definition runcPackage :: "DistroPackageManager \<Rightarrow> packageSource" where "runcPackage pm = pm_package pm ''runc''"
definition yumUtilsPackage :: "DistroPackageManager \<Rightarrow> packageSource" where "yumUtilsPackage pm = pm_package pm ''yum-utils''"
definition caCertsPackage :: "DistroPackageManager \<Rightarrow> packageSource" where "caCertsPackage pm = pm_package pm ''ca-certificates''"
definition GetIptables :: "DistroPackageManager \<Rightarrow> packageSource" where "GetIptables pm = pm_package pm ''iptables''"

definition GetSSMPackage :: "DistroPackageManager \<Rightarrow> packageSource" where
  "GetSSMPackage pm =
     (if manager pm = aptPackageManager
      then NewPackageSource (NewCmd snapPackageManager [''install'', ''amazon-ssm-agent''])
             (NewCmd snapPackageManager [''remove'', ''amazon-ssm-agent'']) (NewCmd snapPackageManager [''refresh'', ''amazon-ssm-agent''])
      else pm_package pm ''amazon-ssm-agent'')"

definition appendPackageVersion :: "DistroPackageManager \<Rightarrow> string \<Rightarrow> string \<Rightarrow> string" where
  "appendPackageVersion pm packageName version =
     (if version = [] then packageName
      else if manager pm = yumPackageManager then packageName @ ''-'' @ version
      else if manager pm = aptPackageManager then packageName @ ''='' @ version
      else packageName)"

definition getContainerdPackageNameWithVersionConstraint :: "DistroPackageManager \<Rightarrow> string \<Rightarrow> string" where
  "getContainerdPackageNameWithVersionConstraint pm version =
     appendPackageVersion pm (if dockerRepo pm \<noteq> [] then ''containerd.io'' else ''containerd'') version"

definition GetContainerd :: "DistroPackageManager \<Rightarrow> string \<Rightarrow> packageSource" where
  "GetContainerd pm versionConstraint = pm_package pm (getContainerdPackageNameWithVersionConstraint pm versionConstraint)"

definition RefreshMetadataCache :: "environment \<Rightarrow> ctx \<Rightarrow> DistroPackageManager \<Rightarrow> unit wio" where
  "RefreshMetadataCache env c pm = Retry env c [manager pm, refreshMetadataVerb pm] (seconds 5)"

definition configureYumPackageManagerWithDockerRepo :: "environment \<Rightarrow> ctx \<Rightarrow> DistroPackageManager \<Rightarrow> unit wio" where
  "configureYumPackageManagerWithDockerRepo env c pm =
     bindE (LookPath env ''runc'') (\<lambda>runc.
      thenE (whenE (found runc)
               (wrapE ''failed to remove runc using package manager'' (Retry env c (UninstallCmd (runcPackage pm)) (seconds 5))))
       (thenE (wrapE ''failed to install yum-utils using package manager'' (Retry env c (InstallCmd (yumUtilsPackage pm)) (seconds 5)))
        (bindE (LookPath env ''yum-config-manager'') (\<lambda>p. case p of
           Inl e \<Rightarrow> throwE (ErrWrap ''failed to locate yum utils manager in $PATH'' e)
         | Inr yumUtilsManagerPath \<Rightarrow>
             bindE (CombinedOutput env [yumUtilsManagerPath, ''--add-repo'', centOsDockerRepo]) (\<lambda>(out, err). case err of
                None \<Rightarrow> returnE ()
              | Some e \<Rightarrow> throwE (ErrWrap (''failed adding docker repo to package manager: '' @ out) e))))))"

text \<open>\<open>system.GetOsName\<close> and \<open>system.GetVersionCodeName\<close>: a file that go-ini cannot load is a nil
  configuration, on which the latter panics.\<close>

definition GetOsName :: "environment \<Rightarrow> string wio" where
  "GetOsName env =
     bindE (tryE (os_ReadFile env ''/etc/os-release'')) (\<lambda>r. case r of
        Inl _ \<Rightarrow> returnE [] | Inr b \<Rightarrow> returnE (ini_value env b ''ID''))"

definition GetVersionCodeName :: "environment \<Rightarrow> string wio" where
  "GetVersionCodeName env =
     bindE (tryE (os_ReadFile env ''/etc/os-release'')) (\<lambda>r. case r of
        Inl _ \<Rightarrow> panicE | Inr b \<Rightarrow> returnE (ini_value env b ''VERSION_CODENAME''))"

definition configureAptPackageManagerWithDockerRepo :: "environment \<Rightarrow> ctx \<Rightarrow> DistroPackageManager \<Rightarrow> unit wio" where
  "configureAptPackageManagerWithDockerRepo env c pm =
     thenE (wrapE ''failed running commands to configure package manager'' (Retry env c (InstallCmd (caCertsPackage pm)) (seconds 5)))
      (bindE (wrapE ''downloading docker gpg key'' (GetHttpFile env ubuntuDockerGpgKey)) (\<lambda>data.
       thenE (WriteFileWithDir env ubuntuDockerGpgKeyPath data 493)
        (bindE (GetVersionCodeName env) (\<lambda>codeName.
         thenE (WriteFileWithDir env aptDockerRepoSourceFilePath
                 (''deb [arch='' @ goarch env @ '' signed-by='' @ ubuntuDockerGpgKeyPath @ ''] '' @ ubuntuDockerRepo @ '' '' @ codeName @ '' stable'' @ [newline]) 493)
          (wrapE ''failed running commands to configure package manager'' (RefreshMetadataCache env c pm))))))"

definition Configure :: "environment \<Rightarrow> ctx \<Rightarrow> DistroPackageManager \<Rightarrow> unit wio" where
  "Configure env c pm =
     (if dockerRepo pm \<noteq> [] then
        if manager pm = yumPackageManager then configureYumPackageManagerWithDockerRepo env c pm
        else if manager pm = aptPackageManager then configureAptPackageManagerWithDockerRepo env c pm
        else returnE ()
      else returnE ())"

definition removeRepoFile :: "environment \<Rightarrow> path \<Rightarrow> string \<Rightarrow> unit wio" where
  "removeRepoFile env p pkgType =
     bindE (tryE (os_Stat env p)) (\<lambda>r. case r of
        Inl err \<Rightarrow>
          if os_IsNotExist err then returnE ()
          else throwE (ErrWrap (''encountered error while trying to reach '' @ pkgType @ '' docker repo file at '' @ p) err)
      | Inr _ \<Rightarrow> wrapE (''failed to remove '' @ pkgType @ '' docker repo from '' @ p) (os_Remove env p))"

definition uninstallDockerRepo :: "environment \<Rightarrow> DistroPackageManager \<Rightarrow> unit wio" where
  "uninstallDockerRepo env pm =
     (if manager pm = yumPackageManager then removeRepoFile env yumDockerRepoSourceFilePath yumPackageManager
      else if manager pm = aptPackageManager then
        bindE (tryE (os_Remove env ubuntuDockerGpgKeyPath)) (\<lambda>r. case r of
           Inl err \<Rightarrow> if \<not> os_IsNotExist err then throwE err else removeRepoFile env aptDockerRepoSourceFilePath aptPackageManager
         | Inr _ \<Rightarrow> removeRepoFile env aptDockerRepoSourceFilePath aptPackageManager)
      else returnE ())"

definition pm_Cleanup :: "environment \<Rightarrow> DistroPackageManager \<Rightarrow> unit wio" where
  "pm_Cleanup env pm = (if dockerRepo pm \<noteq> [] then uninstallDockerRepo env pm else returnE ())"

section \<open>iptables\<close>

definition isIptablesInstalled :: "environment \<Rightarrow> bool wio" where
  "isIptablesInstalled env = bindE (LookPath env ''iptables'') (\<lambda>r. returnE (found r))"

definition iptables_Install :: "environment \<Rightarrow> ctx \<Rightarrow> DistroPackageManager \<Rightarrow> unit wio" where
  "iptables_Install env c pm =
     bindE (isIptablesInstalled env) (\<lambda>installed.
       if \<not> installed then
         thenE (wrapE ''failed to install iptables'' (Retry env c (InstallCmd (GetIptables pm)) (seconds 5)))
           (Tracker_Add artifact_Iptables)
       else returnE ())"

definition iptables_Uninstall :: "environment \<Rightarrow> ctx \<Rightarrow> DistroPackageManager \<Rightarrow> unit wio" where
  "iptables_Uninstall env c pm =
     bindE (isIptablesInstalled env) (\<lambda>installed.
       whenE installed (wrapE ''failed to uninstall iptables'' (Retry env c (UninstallCmd (GetIptables pm)) (seconds 5))))"

definition iptables_Upgrade :: "environment \<Rightarrow> ctx \<Rightarrow> DistroPackageManager \<Rightarrow> unit wio" where
  "iptables_Upgrade env c pm =
     bindE (isIptablesInstalled env) (\<lambda>installed.
       whenE installed (wrapE ''failed to upgrade iptables'' (Retry env c (UpgradeCmd (GetIptables pm)) (seconds 5))))"

section \<open>containerd\<close>

definition containerdConfigDir :: path where "containerdConfigDir = ''/etc/containerd''"

definition isContainerdInstalled :: "environment \<Rightarrow> bool wio" where
  "isContainerdInstalled env = bindE (LookPath env ''containerd'') (\<lambda>r. returnE (found r))"

definition areContainerdAndRuncInstalled :: "environment \<Rightarrow> bool wio" where
  "areContainerdAndRuncInstalled env =
     bindE (LookPath env ''containerd'') (\<lambda>a. bindE (LookPath env ''runc'') (\<lambda>b. returnE (found a \<and> found b)))"

definition determineContainerdVersionConstraint :: "semver \<Rightarrow> string \<Rightarrow> string" where
  "determineContainerdVersionConstraint sv kubernetesVersion =
     (if sv_Compare sv (CHR ''v'' # kubernetesVersion) ''v1.30.0'' \<ge> 0 then [] else ''1.*'')"

definition set_containerd_source :: "string \<Rightarrow> unit wio" where
  "set_containerd_source s =
     modifyE (\<lambda>w. w\<lparr>tracker_obj := (tracker_obj w)\<lparr>Artifacts := (Artifacts (tracker_obj w))\<lparr>Containerd := s\<rparr>\<rparr>\<rparr>)"

definition containerd_Install ::
  "environment \<Rightarrow> semver \<Rightarrow> ctx \<Rightarrow> DistroPackageManager \<Rightarrow> string \<Rightarrow> string \<Rightarrow> unit wio" where
  "containerd_Install env sv c pm containerdSource kubernetesVersion =
     bindE (areContainerdAndRuncInstalled env) (\<lambda>installed.
       if containerdSource = ContainerdSourceNone \<or> installed then set_containerd_source ContainerdSourceNone
       else thenE (wrapE ''installing containerd''
                     (Retry env c (InstallCmd (GetContainerd pm (determineContainerdVersionConstraint sv kubernetesVersion))) (seconds 5)))
              (set_containerd_source containerdSource))"

definition containerd_Uninstall :: "environment \<Rightarrow> ctx \<Rightarrow> DistroPackageManager \<Rightarrow> unit wio" where
  "containerd_Uninstall env c pm =
     bindE (isContainerdInstalled env) (\<lambda>installed.
       whenE installed
         (thenE (wrapE ''uninstalling containerd'' (Retry env c (UninstallCmd (GetContainerd pm [])) (seconds 5)))
            (wrapE ''removing containerd config files'' (os_RemoveAll env containerdConfigDir))))"

text \<open>Leftmost match of \<open>[0-9]+\.[0-9]+.[0-9]+\<close>, greedy with backtracking: digits, a dot, digits, any
  character but a line feed, digits. The third element gives digits back so that the unescaped
  dot and the last digits can match.\<close>

definition semver_at :: "string \<Rightarrow> string option" where
  "semver_at s =
     (let a = takeWhile is_digit s; r1 = drop (length a) s in
      if a = [] \<or> r1 = [] \<or> hd r1 \<noteq> CHR ''.'' then None
      else let b = takeWhile is_digit (tl r1); r2 = drop (length b) (tl r1) in
        if b = [] then None
        else if r2 \<noteq> [] \<and> hd r2 \<noteq> newline \<and> takeWhile is_digit (tl r2) \<noteq> []
        then Some (a @ ''.'' @ b @ [hd r2] @ takeWhile is_digit (tl r2))
        else if length b \<ge> 3 then Some (a @ ''.'' @ b) else None)"

fun find_semver :: "string \<Rightarrow> string" where
  "find_semver [] = []"
| "find_semver (x # xs) = (case semver_at (x # xs) of Some m \<Rightarrow> m | None \<Rightarrow> find_semver xs)"

definition GetContainerdVersionRaw :: "environment \<Rightarrow> bytes wio" where
  "GetContainerdVersionRaw env =
     bindE (CombinedOutput env [''containerd'', ''--version'']) (\<lambda>(out, err). case err of
        None \<Rightarrow> returnE out | Some e \<Rightarrow> throwE (ErrWrap ''failed to get containerd version'' e))"

definition GetContainerdVersion :: "environment \<Rightarrow> string wio" where
  "GetContainerdVersion env = bindE (GetContainerdVersionRaw env) (\<lambda>raw. returnE (find_semver raw))"

definition GetContainerdMajorVersion :: "environment \<Rightarrow> int wio" where
  "GetContainerdMajorVersion env =
     bindE (GetContainerdVersion env) (\<lambda>v. case Atoi (hd (split_on CHR ''.'' v)) of
        None \<Rightarrow> throwE (ErrMsg ''strconv.Atoi: invalid syntax'') | Some n \<Rightarrow> returnE n)"

definition containerd_Upgrade ::
  "environment \<Rightarrow> semver \<Rightarrow> ctx \<Rightarrow> DistroPackageManager \<Rightarrow> string \<Rightarrow> bool \<Rightarrow> unit wio" where
  "containerd_Upgrade env sv c pm kubernetesVersion skipContainerdMajorVersionUpgrade =
     bindE (if skipContainerdMajorVersionUpgrade then
              bindE (GetContainerdMajorVersion env) (\<lambda>major.
                if major = 1 then returnE ''1.*'' else if major = 2 then returnE ''2.0.*''
                else throwE (ErrMsg (''unsupported containerd major version: '' @ itoa major)))
            else returnE (determineContainerdVersionConstraint sv kubernetesVersion)) (\<lambda>constraint.
       wrapE ''upgrading containerd'' (Retry env c (UpgradeCmd (GetContainerd pm constraint)) (seconds 5)))"

definition ValidateContainerdSource :: "environment \<Rightarrow> string \<Rightarrow> unit wio" where
  "ValidateContainerdSource env source =
     bindE (GetOsName env) (\<lambda>osName.
       if source = ContainerdSourceNone then returnE ()
       else if source = ContainerdSourceDocker \<and> osName = ''amzn''
       then throwE (ErrMsg ''docker source for containerd is not supported on AL2023. Please provide `none` or `distro` to the --containerd-source flag'')
       else if source = ContainerdSourceDistro \<and> osName = ''rhel''
       then throwE (ErrMsg ''distro source for containerd is not supported on RHEL. Please provide `none` or `docker` to the --containerd-source flag'')
       else returnE ())"

definition ValidateSystemdUnitFile :: "environment \<Rightarrow> unit wio" where
  "ValidateSystemdUnitFile env =
     thenE (DaemonReload env)
      (bindE (tryE (GetDaemonStatus env ''containerd'')) (\<lambda>r. case r of
         Inr s \<Rightarrow> if s = DaemonStatusUnknown then throwE (ErrMsg ''containerd daemon not found'') else returnE ()
       | Inl _ \<Rightarrow> throwE (ErrMsg ''containerd daemon not found'')))"

end
