(* ===== verification/Proxy.thy ===== *)
theory Proxy
  imports Network Packages
begin

text \<open>
  \<open>internal/network/proxy.go\<close> and \<open>proxy_validator.go\<close>: when a proxy is set in the process environment, its
  upper and lower case variables must agree, and the package manager, kubelet, containerd and the SSM agent
  must be configured to use it.
\<close>

definition Getenv :: "environment \<Rightarrow> string \<Rightarrow> string" where
  "Getenv env name = (case lookup_env env name of Some v \<Rightarrow> v | None \<Rightarrow> [])"

text \<open>\<open>httpproxy.FromEnvironment\<close> reads the same four variables, so its two tests add nothing.\<close>

definition IsProxyEnabled :: "environment \<Rightarrow> bool" where
  "IsProxyEnabled env =
     (Getenv env ''HTTP_PROXY'' \<noteq> [] \<or> Getenv env ''HTTPS_PROXY'' \<noteq> [] \<or>
      Getenv env ''http_proxy'' \<noteq> [] \<or> Getenv env ''https_proxy'' \<noteq> [])"

definition getEffectiveProxyValue :: "environment \<Rightarrow> string \<Rightarrow> string \<Rightarrow> string" where
  "getEffectiveProxyValue env upperVar lowerVar =
     (if Getenv env upperVar \<noteq> [] then Getenv env upperVar else Getenv env lowerVar)"

definition proxy_fileExists :: "environment \<Rightarrow> path \<Rightarrow> bool wio" where
  "proxy_fileExists env filePath =
     bindE (tryE (os_Stat env filePath)) (\<lambda>r. case r of
        Inl err \<Rightarrow> returnE (\<not> os_IsNotExist err)
      | Inr _ \<Rightarrow> returnE True)"

definition proxyVars :: "(string \<times> string) list" where
  "proxyVars = [(''HTTP_PROXY'', ''http_proxy''), (''HTTPS_PROXY'', ''https_proxy''), (''NO_PROXY'', ''no_proxy'')]"

fun proxy_consistency_loop :: "environment \<Rightarrow> (string \<times> string) list \<Rightarrow> goerr option" where
  "proxy_consistency_loop env [] = None"
| "proxy_consistency_loop env ((upper, lower) # vars) =
     (let upperValue = Getenv env upper; lowerValue = Getenv env lower in
      if upperValue \<noteq> [] \<and> lowerValue \<noteq> [] \<and> upperValue \<noteq> lowerValue then
        Some (WithRemediation
          (ErrMsg (upper @ '' and '' @ lower @ '' environment variables have different values: '' @
                   upper @ ''='' @ upperValue @ '', '' @ lower @ ''='' @ lowerValue))
          (''Ensure '' @ upper @ '' and '' @ lower @ '' have the same value in your environment''))
      else proxy_consistency_loop env vars)"

definition validateProxyVariableConsistency :: "environment \<Rightarrow> goerr option" where
  "validateProxyVariableConsistency env = proxy_consistency_loop env proxyVars"

section \<open>Configuration files\<close>

text \<open>What the four file checks share: the file exists, it is readable, and each required text occurs in it. An
  entry is the condition for the check, the text, the error and the remediation.\<close>

type_synonym proxy_entry = "bool \<times> string \<times> string \<times> string"

fun require_entries :: "bytes \<Rightarrow> proxy_entry list \<Rightarrow> unit wio" where
  "require_entries content [] = returnE ()"
| "require_entries content ((needed, t, msg, fix) # es) =
     (if needed \<and> \<not> Contains content t then throwE (WithRemediation (ErrMsg msg) fix)
      else require_entries content es)"

definition check_proxy_file ::
  "environment \<Rightarrow> path \<Rightarrow> string \<Rightarrow> string \<Rightarrow> string \<Rightarrow> proxy_entry list \<Rightarrow> unit wio" where
  "check_proxy_file env p missing fix unreadable entries =
     bindE (proxy_fileExists env p) (\<lambda>exists.
      if \<not> exists then throwE (WithRemediation (ErrMsg missing) fix)
      else bindE (wrapE unreadable (os_ReadFile env p)) (\<lambda>content. require_entries content entries))"

definition quoted :: "string \<Rightarrow> string" where
  "quoted s = CHR 0x22 # s @ [CHR 0x22]"

definition validateSystemdServiceProxyConfig :: "environment \<Rightarrow> string \<Rightarrow> path \<Rightarrow> unit wio" where
  "validateSystemdServiceProxyConfig env serviceName servicePath =
     (let httpProxy = getEffectiveProxyValue env ''HTTP_PROXY'' ''http_proxy'';
          httpsProxy = getEffectiveProxyValue env ''HTTPS_PROXY'' ''https_proxy'';
          noProxy = getEffectiveProxyValue env ''NO_PROXY'' ''no_proxy'' in
      if httpProxy = [] \<and> httpsProxy = [] then returnE ()
      else check_proxy_file env servicePath
        (serviceName @ '' proxy configuration file not found: '' @ servicePath)
        (''Create the '' @ serviceName @ '' proxy configuration file at '' @ servicePath @ '' with the following content:'' @ [newline] @
         ''[Service]'' @ [newline] @ ''Environment='' @ quoted (''HTTP_PROXY='' @ httpProxy) @ [newline] @
         ''Environment='' @ quoted (''HTTPS_PROXY='' @ httpsProxy) @ [newline] @ ''Environment='' @ quoted (''NO_PROXY='' @ noProxy))
        (''failed to read '' @ serviceName @ '' proxy configuration file'')
        [(True, ''HTTP_PROXY='' @ httpProxy,
          serviceName @ '' proxy configuration file does not contain correct HTTP_PROXY value'',
          ''Update the '' @ serviceName @ '' proxy configuration file at '' @ servicePath @ '' with the correct HTTP_PROXY value: '' @ httpProxy),
         (True, ''HTTPS_PROXY='' @ httpsProxy,
          serviceName @ '' proxy configuration file does not contain correct HTTPS_PROXY value'',
          ''Update the '' @ serviceName @ '' proxy configuration file at '' @ servicePath @ '' with the correct HTTPS_PROXY value: '' @ httpsProxy)])"

definition kubeletProxyPath :: path where
  "kubeletProxyPath = ''/etc/systemd/system/kubelet.service.d/http-proxy.conf''"

definition containerdProxyPath :: path where
  "containerdProxyPath = ''/usr/lib/systemd/system/containerd.service.d/http-proxy.conf''"

definition validateKubeletProxyConfig :: "environment \<Rightarrow> unit wio" where
  "validateKubeletProxyConfig env = validateSystemdServiceProxyConfig env ''kubelet'' kubeletProxyPath"

definition validateContainerdProxyConfig :: "environment \<Rightarrow> unit wio" where
  "validateContainerdProxyConfig env = validateSystemdServiceProxyConfig env ''containerd'' containerdProxyPath"

definition validateSSMProxyConfig :: "environment \<Rightarrow> string \<Rightarrow> unit wio" where
  "validateSSMProxyConfig env osName =
     (if osName = ''ubuntu'' then
        validateSystemdServiceProxyConfig env ''SSM'' ''/etc/systemd/system/snap.amazon-ssm-agent.amazon-ssm-agent.service.d/http-proxy.conf''
      else if osName = ''rhel'' \<or> osName = ''amzn'' then
        validateSystemdServiceProxyConfig env ''SSM'' ''/etc/systemd/system/amazon-ssm-agent.service.d/http-proxy.conf''
      else throwE (ErrMsg (''unsupported operating system: '' @ osName)))"

definition validateAptProxyConfig :: "environment \<Rightarrow> string \<Rightarrow> string \<Rightarrow> unit wio" where
  "validateAptProxyConfig env httpProxy httpsProxy =
     (let aptConfPath = ''/etc/apt/apt.conf.d/proxy.conf'';
          httpLine = ''Acquire::http::Proxy '' @ quoted httpProxy;
          httpsLine = ''Acquire::https::Proxy '' @ quoted httpsProxy in
      check_proxy_file env aptConfPath
        (''apt proxy configuration file not found: '' @ aptConfPath)
        (''Create the apt proxy configuration file at '' @ aptConfPath @ '' with the following content:'' @ [newline] @
         httpLine @ '';'' @ [newline] @ httpsLine @ '';'')
        ''failed to read apt proxy configuration file''
        [(httpProxy \<noteq> [], httpLine,
          ''apt proxy configuration file does not contain correct HTTP proxy setting'',
          ''Update the apt proxy configuration file at '' @ aptConfPath @ '' with the correct HTTP proxy setting: '' @ httpLine @ '';''),
         (httpsProxy \<noteq> [], httpsLine,
          ''apt proxy configuration file does not contain correct HTTPS proxy setting'',
          ''Update the apt proxy configuration file at '' @ aptConfPath @ '' with the correct HTTPS proxy setting: '' @ httpsLine @ '';'')])"

definition validate_rpm_proxy :: "environment \<Rightarrow> string \<Rightarrow> path \<Rightarrow> string \<Rightarrow> unit wio" where
  "validate_rpm_proxy env tool confPath httpProxy =
     check_proxy_file env confPath
       (tool @ '' configuration file not found: '' @ confPath)
       (''Create the '' @ tool @ '' configuration file at '' @ confPath @ '' with the following content:'' @ [newline] @
        ''[main]'' @ [newline] @ ''proxy='' @ httpProxy)
       (''failed to read '' @ tool @ '' configuration file'')
       [(httpProxy \<noteq> [], ''proxy='' @ httpProxy,
         tool @ '' configuration file does not contain correct proxy setting'',
         ''Update the '' @ tool @ '' configuration file at '' @ confPath @ '' with the correct proxy setting: proxy='' @ httpProxy)]"

definition validateYumProxyConfig :: "environment \<Rightarrow> string \<Rightarrow> string \<Rightarrow> unit wio" where
  "validateYumProxyConfig env httpProxy httpsProxy = validate_rpm_proxy env ''yum'' ''/etc/yum.conf'' httpProxy"

definition validateDnfProxyConfig :: "environment \<Rightarrow> string \<Rightarrow> string \<Rightarrow> unit wio" where
  "validateDnfProxyConfig env httpProxy httpsProxy = validate_rpm_proxy env ''dnf'' ''/etc/dnf/dnf.conf'' httpProxy"

definition validatePackageManagerProxyConfig :: "environment \<Rightarrow> string \<Rightarrow> unit wio" where
  "validatePackageManagerProxyConfig env osName =
     (let httpProxy = getEffectiveProxyValue env ''HTTP_PROXY'' ''http_proxy'';
          httpsProxy = getEffectiveProxyValue env ''HTTPS_PROXY'' ''https_proxy'' in
      if httpProxy = [] \<and> httpsProxy = [] then returnE ()
      else if osName = ''ubuntu'' then validateAptProxyConfig env httpProxy httpsProxy
      else if osName = ''rhel'' then validateYumProxyConfig env httpProxy httpsProxy
      else if osName = ''amzn'' then validateDnfProxyConfig env httpProxy httpsProxy
      else throwE (ErrMsg (''unsupported operating system: '' @ osName)))"

definition ProxyValidator_Validate :: "environment \<Rightarrow> NodeConfig \<Rightarrow> unit wio" where
  "ProxyValidator_Validate env node =
     (if \<not> IsProxyEnabled env then returnE ()
      else (case validateProxyVariableConsistency env of
              Some err \<Rightarrow> throwE err
            | None \<Rightarrow>
                bindE (GetOsName env) (\<lambda>osName.
                 if osName \<noteq> [] then
                   thenE (validatePackageManagerProxyConfig env osName)
                    (thenE (validateKubeletProxyConfig env)
                     (thenE (validateContainerdProxyConfig env)
                      (whenE (IsSSM node) (validateSSMProxyConfig env osName))))
                 else returnE ())))"

section \<open>Facts\<close>

lemma proxy_consistency_iff:
  "proxy_consistency_loop env vars = None \<longleftrightarrow>
     (\<forall>(u, l) \<in> set vars. Getenv env u = [] \<or> Getenv env l = [] \<or> Getenv env u = Getenv env l)"
  by (induction env vars rule: proxy_consistency_loop.induct) (auto simp: Let_def)

definition file_has :: "path \<Rightarrow> string \<Rightarrow> world \<Rightarrow> bool" where
  "file_has p t w \<longleftrightarrow> (\<exists>d m. fs w p = Some (RegFile d m) \<and> Contains d t)"

lemma require_entries_ok:
  "require_entries content es w = Some (r, w') \<Longrightarrow>
     w' = w \<and> (r = Inr () \<longrightarrow> (\<forall>(needed, t, x) \<in> set es. needed \<longrightarrow> Contains content t))"
  by (induction content es rule: require_entries.induct) (auto simp: returnE_def throwE_def split: if_splits)

text \<open>A check that passes has seen every required text in the file.\<close>

lemma check_proxy_file_ok:
  "valid_ok (\<lambda>_. True) (check_proxy_file env p a b c es) (\<lambda>_ w. \<forall>(needed, t, x) \<in> set es. needed \<longrightarrow> file_has p t w)"
proof -
  have rest: "valid_ok (\<lambda>w. \<exists>m. fs w p = Some (RegFile d m)) (require_entries d es)
      (\<lambda>_ w. \<forall>(needed, t, x) \<in> set es. needed \<longrightarrow> file_has p t w)" for d
    using require_entries_ok [of d es] by (fastforce simp: valid_def file_has_def split: option.splits sum.splits)
  show ?thesis
    unfolding check_proxy_file_def
  proof (rule valid_bindE [where B = "\<lambda>_ _. True"], goal_cases)
    case 1
    show ?case by (simp add: valid_def split: option.splits sum.splits)
  next
    case (2 e)
    have "valid_ok (\<lambda>_. True) (bindE (wrapE c (os_ReadFile env p)) (\<lambda>content. require_entries content es))
        (\<lambda>_ w. \<forall>(needed, t, x) \<in> set es. needed \<longrightarrow> file_has p t w)"
      unfolding wrapE_def by (rule valid_bindE [OF valid_mapErrE [OF ReadFile_ok] rest])
    then show ?case by (cases e) (simp_all add: valid_def)
  qed
qed

end
