(* ===== verification/Ssm_Agent.thy ===== *)
theory Ssm_Agent
  imports Packages Json
begin

text \<open>
  \<open>internal/ssm\<close>: the download of the signed installer (\<open>source.go\<close>, \<open>install.go\<close>),
  registration (\<open>registration.go\<close>, \<open>config.go\<close>), the agent's daemon (\<open>daemon.go\<close>) and its removal.

  The OpenPGP verifier, the JSON codecs and the SSM API are the fields of \<open>ssm_env\<close>.
\<close>

record ssm_env =
  pgp_verify :: "bytes \<Rightarrow> stream \<Rightarrow> string \<Rightarrow> goerr option"
  registration_unmarshal :: "bytes \<Rightarrow> goerr + string \<times> string"
  agent_json :: json_lib
  describe_instances :: "nat \<Rightarrow> string \<Rightarrow> goerr + nat"
  deregister_instance :: "nat \<Rightarrow> string \<Rightarrow> goerr + unit"

section \<open>Source\<close>

record ssmInstallerSource =
  si_region :: string
  si_dnsSuffix :: string
  si_publicKey :: string

text \<open>The code ranges over a Go map, in an order the language leaves open: \<open>order\<close> is the order of this run.
  \<open>exec.ErrNotFound\<close> is a failed lookup that the loop skips, any other error is returned.\<close>

fun detectPlatformVariant_loop :: "environment \<Rightarrow> (goerr \<Rightarrow> bool) \<Rightarrow> filesystem \<Rightarrow> (string \<times> string) list \<Rightarrow> goerr + string" where
  "detectPlatformVariant_loop env isNotFound f [] = Inl (ErrMsg ''unsupported platform'')"
| "detectPlatformVariant_loop env isNotFound f ((pkgManager, variant) # rest) =
     (case look_path env pkgManager f of
        Inl e \<Rightarrow> if isNotFound e then detectPlatformVariant_loop env isNotFound f rest else Inl e
      | Inr _ \<Rightarrow> Inr variant)"

definition toVariant :: "(string \<times> string) list" where
  "toVariant = [(''apt'', ''debian''), (''dnf'', ''linux''), (''yum'', ''linux'')]"

definition defaultBuildSSMURL ::
  "environment \<Rightarrow> (goerr \<Rightarrow> bool) \<Rightarrow> (string \<times> string) list \<Rightarrow> ssmInstallerSource \<Rightarrow> string wio" where
  "defaultBuildSSMURL env isNotFound order s =
     bindE (getE (\<lambda>w. detectPlatformVariant_loop env isNotFound (fs w) order)) (\<lambda>r. case r of
        Inl e \<Rightarrow> throwE e
      | Inr variant \<Rightarrow>
          let dnsSuffix = (if si_dnsSuffix s = [] then GetPartitionDNSSuffix (GetPartitionFromRegionFallback (si_region s)) else si_dnsSuffix s);
              platform = variant @ ''_'' @ goarch env
          in returnE (''https://amazon-ssm-'' @ si_region s @ ''.s3.'' @ si_region s @ ''.'' @ dnsSuffix @ ''/latest/'' @ platform @ ''/ssm-setup-cli''))"

definition GetSSMInstaller :: "environment \<Rightarrow> string wio \<Rightarrow> stream wio" where
  "GetSSMInstaller env buildSSMURL = bindE buildSSMURL (\<lambda>endpoint. GetHttpFileReader env endpoint)"

definition GetSSMInstallerSignature :: "environment \<Rightarrow> string wio \<Rightarrow> stream wio" where
  "GetSSMInstallerSignature env buildSSMURL = bindE buildSSMURL (\<lambda>endpoint. GetHttpFileReader env (endpoint @ ''.sig''))"

section \<open>Installation\<close>

definition defaultInstallerPath :: path where "defaultInstallerPath = ''/opt/ssm/ssm-setup-cli''"
definition defaultSSMConfigPath :: path where "defaultSSMConfigPath = ''/etc/amazon/ssm/amazon-ssm-agent.json''"
definition configRoot :: path where "configRoot = ''/etc/amazon''"
definition registrationFilePath :: path where "registrationFilePath = ''/var/lib/amazon/ssm/registration''"
definition defaultAWSConfigPath :: path where "defaultAWSConfigPath = ''/root/.aws''"
definition symlinkedAWSConfigPath :: path where "symlinkedAWSConfigPath = ''/eks-hybrid/.aws''"

text \<open>\<open>ReadAllAndVerifySignature\<close> reads the whole installer, through the tee into the buffer, then
  verifies; a read error of the installer is an error of the verification.\<close>

definition validateSetupSignature :: "ssm_env \<Rightarrow> stream \<Rightarrow> stream \<Rightarrow> string \<Rightarrow> goerr option" where
  "validateSetupSignature se installer signature publicKey =
     (case snd installer of Some e \<Rightarrow> Some e | None \<Rightarrow> pgp_verify se (fst installer) signature publicKey)"

definition ssm_downloadFileTo ::
  "environment \<Rightarrow> ssm_env \<Rightarrow> string wio \<Rightarrow> string \<Rightarrow> path \<Rightarrow> unit wio" where
  "ssm_downloadFileTo env se buildSSMURL publicKey installerPath =
     bindE (wrapE ''getting ssm-setup-cli'' (GetSSMInstaller env buildSSMURL)) (\<lambda>installer.
     bindE (wrapE ''getting ssm-setup-cli signature'' (GetSSMInstallerSignature env buildSSMURL)) (\<lambda>signature.
       case validateSetupSignature se installer signature publicKey of
         Some e \<Rightarrow> throwE (ErrWrap ''validating ssm-setup-cli signature'' e)
       | None \<Rightarrow>
           thenE (wrapE ''installing ssm-setup-cli'' (InstallFile env installerPath (fst installer, None) 493)) (returnE ())))"

definition ssm_downloadFileWithRetries ::
  "environment \<Rightarrow> ssm_env \<Rightarrow> string wio \<Rightarrow> string \<Rightarrow> path \<Rightarrow> unit wio" where
  "ssm_downloadFileWithRetries env se buildSSMURL publicKey installerPath =
     for_range_retry 3 None (ssm_downloadFileTo env se buildSSMURL publicKey installerPath)"

definition writeGpgConfig :: "environment \<Rightarrow> unit wio" where
  "writeGpgConfig env =
     (let homeDir = (case lookup_env env ''HOME'' of Some h \<Rightarrow> h | None \<Rightarrow> ''/root'')
      in WriteFileUniqueLine env (Join [homeDir, ''.gnupg'', ''gpg.conf'']) ''no-tty'' 493)"

definition runInstallWithRetries :: "environment \<Rightarrow> ctx \<Rightarrow> path \<Rightarrow> string \<Rightarrow> unit wio" where
  "runInstallWithRetries env c installerPath region =
     Retry env c [installerPath, ''-install'', ''-region'', region, ''-version'', ''latest''] (seconds 5)"

definition credentialRetryMaxSleepSeconds :: json where
  "credentialRetryMaxSleepSeconds = JNumber ''60''"

text \<open>An existing file keeps its mode, and its settings but the one that is set.\<close>

definition agent_settings :: "json_map \<Rightarrow> json_map" where
  "agent_settings = set_member ''Ssm'' ''CredentialRetryMaxSleepSeconds'' credentialRetryMaxSleepSeconds"

definition write_agent_settings :: "environment \<Rightarrow> ssm_env \<Rightarrow> path \<Rightarrow> json_map \<Rightarrow> nat \<Rightarrow> unit wio" where
  "write_agent_settings env se configFile config fileMode =
     bindE (wrapE ''failed to marshal config data'' (liftE (js_MarshalIndent (agent_json se) (agent_settings config)))) (\<lambda>updatedData.
       wrapE (''failed to write config file '' @ configFile) (os_WriteFile env configFile updatedData fileMode))"

definition configureSSMAgent :: "environment \<Rightarrow> ssm_env \<Rightarrow> path \<Rightarrow> unit wio" where
  "configureSSMAgent env se installRoot =
     (let configFile = Join [installRoot, defaultSSMConfigPath] in
      bindE (tryE (os_ReadFile env configFile)) (\<lambda>r. case r of
         Inl err \<Rightarrow>
           if \<not> os_IsNotExist err then throwE (ErrWrap ''failed to read existing config file'' err)
           else thenE (wrapE ''failed to create config directory'' (os_MkdirAll env (Dir configFile) 448))
                 (write_agent_settings env se configFile [] 384)
       | Inr data \<Rightarrow>
           bindE (tryE (os_Stat env configFile)) (\<lambda>st.
             let fileMode = (case st of Inr (RegFile _ m) \<Rightarrow> m | Inr (DirNode m) \<Rightarrow> m | Inl _ \<Rightarrow> 384) in
             bindE (wrapE (''failed to parse existing config file '' @ configFile) (liftE (js_Unmarshal (agent_json se) data))) (\<lambda>config.
               write_agent_settings env se configFile config fileMode))))"

definition ssm_installFromSource ::
  "environment \<Rightarrow> ssm_env \<Rightarrow> ctx \<Rightarrow> string wio \<Rightarrow> string \<Rightarrow> string \<Rightarrow> path \<Rightarrow> unit wio" where
  "ssm_installFromSource env se c buildSSMURL publicKey region installRoot =
     (let installerPath = Join [installRoot, defaultInstallerPath] in
      thenE (wrapE ''writing gpg config file'' (writeGpgConfig env))
       (thenE (wrapE ''failed to install ssm installer'' (ssm_downloadFileWithRetries env se buildSSMURL publicKey installerPath))
        (thenE (wrapE ''failed to install ssm agent'' (runInstallWithRetries env c installerPath region))
         (wrapE ''failed to configure ssm agent'' (configureSSMAgent env se installRoot)))))"

definition ssm_Install ::
  "environment \<Rightarrow> ssm_env \<Rightarrow> ctx \<Rightarrow> string wio \<Rightarrow> string \<Rightarrow> string \<Rightarrow> path \<Rightarrow> unit wio" where
  "ssm_Install env se c buildSSMURL publicKey region installRoot =
     thenE (ssm_installFromSource env se c buildSSMURL publicKey region installRoot) (Tracker_Add artifact_Ssm)"

definition ssm_Upgrade ::
  "environment \<Rightarrow> ssm_env \<Rightarrow> ctx \<Rightarrow> string wio \<Rightarrow> string \<Rightarrow> string \<Rightarrow> path \<Rightarrow> unit wio" where
  "ssm_Upgrade env se c buildSSMURL publicKey region installRoot =
     ssm_installFromSource env se c buildSSMURL publicKey region installRoot"

section \<open>Registration\<close>

definition RegistrationFilePath :: "path \<Rightarrow> path" where
  "RegistrationFilePath installRoot = Join [installRoot, registrationFilePath]"

definition getManagedHybridInstanceIdAndRegion :: "environment \<Rightarrow> ssm_env \<Rightarrow> path \<Rightarrow> (string \<times> string) wio" where
  "getManagedHybridInstanceIdAndRegion env se installRoot =
     bindE (os_ReadFile env (RegistrationFilePath installRoot)) (\<lambda>data. liftE (registration_unmarshal se data))"

definition GetManagedHybridInstanceId :: "environment \<Rightarrow> ssm_env \<Rightarrow> path \<Rightarrow> string wio" where
  "GetManagedHybridInstanceId env se installRoot =
     bindE (os_ReadFile env (RegistrationFilePath installRoot)) (\<lambda>data.
       bindE (liftE (registration_unmarshal se data)) (\<lambda>r. returnE (fst r)))"

definition isRegistered :: "environment \<Rightarrow> ssm_env \<Rightarrow> path \<Rightarrow> bool wio" where
  "isRegistered env se installRoot =
     bindE (tryE (GetManagedHybridInstanceId env se installRoot)) (\<lambda>r. case r of
        Inr _ \<Rightarrow> returnE True
      | Inl err \<Rightarrow> if os_IsNotExist err then returnE False else throwE (ErrWrap ''reading ssm registration file'' err))"

definition GetRegion :: "environment \<Rightarrow> ssm_env \<Rightarrow> path \<Rightarrow> string wio" where
  "GetRegion env se installRoot =
     bindE (tryE (isRegistered env se installRoot)) (\<lambda>r. case r of
        Inr True \<Rightarrow>
          bindE (tryE (getManagedHybridInstanceIdAndRegion env se installRoot)) (\<lambda>r. case r of
             Inr (_, region) \<Rightarrow> returnE region | Inl _ \<Rightarrow> returnE [])
      | _ \<Rightarrow> returnE [])"

definition isInstanceManaged :: "ssm_env \<Rightarrow> string \<Rightarrow> bool wio" where
  "isInstanceManaged se instanceId =
     bindE (api_call ''DescribeInstanceInformation'' instanceId (\<lambda>n. describe_instances se n instanceId)) (\<lambda>k. returnE (k > 0))"

definition deregister :: "ssm_env \<Rightarrow> string \<Rightarrow> unit wio" where
  "deregister se instanceId = api_call ''DeregisterManagedInstance'' instanceId (\<lambda>n. deregister_instance se n instanceId)"

definition Deregister :: "environment \<Rightarrow> ssm_env \<Rightarrow> path \<Rightarrow> unit wio" where
  "Deregister env se installRoot =
     bindE (tryE (GetManagedHybridInstanceId env se installRoot)) (\<lambda>r. case r of
        Inl err \<Rightarrow> if os_IsNotExist err then returnE () else throwE (ErrWrap ''reading ssm registration file'' err)
      | Inr instanceId \<Rightarrow>
          bindE (wrapE ''getting managed instance information'' (isInstanceManaged se instanceId)) (\<lambda>managed.
            whenE managed (wrapE ''deregistering ssm managed instance'' (deregister se instanceId))))"

section \<open>Removal\<close>

definition removeFileOrDir :: "environment \<Rightarrow> path \<Rightarrow> string \<Rightarrow> unit wio" where
  "removeFileOrDir env p errorMessage = wrapE errorMessage (os_RemoveAll env p)"

definition uninstallPreRegisterComponents :: "environment \<Rightarrow> ctx \<Rightarrow> DistroPackageManager \<Rightarrow> unit wio" where
  "uninstallPreRegisterComponents env c pm =
     thenE (wrapE ''uninstalling ssm'' (Retry env c (UninstallCmd (GetSSMPackage pm)) (seconds 5)))
       (os_RemoveAll env defaultInstallerPath)"

definition ssm_Uninstall :: "environment \<Rightarrow> ssm_env \<Rightarrow> ctx \<Rightarrow> DistroPackageManager \<Rightarrow> path \<Rightarrow> unit wio" where
  "ssm_Uninstall env se c pm installRoot =
     bindE (collect_errors
       [Deregister env se installRoot,
        removeFileOrDir env (RegistrationFilePath installRoot) ''uninstalling ssm registration file'',
        uninstallPreRegisterComponents env c pm,
        removeFileOrDir env (Join [installRoot, configRoot]) ''uninstalling ssm config files'',
        removeFileOrDir env (Join [installRoot, symlinkedAWSConfigPath]) ''uninstalling ssm aws config symlink'',
        removeFileOrDir env (Join [installRoot, defaultAWSConfigPath]) ''uninstalling ssm aws config''] []) join_errors"

section \<open>The daemon\<close>

definition setDaemonName :: "environment \<Rightarrow> unit wio" where
  "setDaemonName env =
     bindE (GetOsName env) (\<lambda>osName.
       if osName = ''ubuntu'' then modifyE (\<lambda>w. w\<lparr>SsmDaemonName := ''snap.amazon-ssm-agent.amazon-ssm-agent''\<rparr>)
       else if osName = ''rhel'' \<or> osName = ''amzn'' then modifyE (\<lambda>w. w\<lparr>SsmDaemonName := ''amazon-ssm-agent''\<rparr>)
       else returnE ())"

definition possibleAgentPaths :: "path list" where
  "possibleAgentPaths = [''/usr/bin/amazon-ssm-agent'', ''/snap/amazon-ssm-agent/current/amazon-ssm-agent'']"

fun agentBinaryPath_loop :: "environment \<Rightarrow> path list \<Rightarrow> path wio" where
  "agentBinaryPath_loop env [] = throwE (ErrMsg ''ssm agent binary not found in any of the well known paths'')"
| "agentBinaryPath_loop env (p # ps) =
     bindE (file_Exists env p) (\<lambda>ex. if ex then returnE p else agentBinaryPath_loop env ps)"

definition agentBinaryPath :: "environment \<Rightarrow> path wio" where
  "agentBinaryPath env = agentBinaryPath_loop env possibleAgentPaths"

text \<open>Registration gives the node its name: the instance id, returned to the caller.\<close>

definition registerMachine ::
  "environment \<Rightarrow> ssm_env \<Rightarrow> ctx \<Rightarrow> string \<Rightarrow> string \<Rightarrow> string \<Rightarrow> string wio" where
  "registerMachine env se c region activationCode activationID =
     bindE (isRegistered env se []) (\<lambda>registered.
      thenE (if registered then returnE ()
             else bindE (wrapE ''can't register without ssm agent installed'' (agentBinaryPath env)) (\<lambda>agentPath.
               wrapE ''failed to register machine with SSM after multiple attempts''
                 (Retry env c [agentPath, ''-register'', ''-y'', ''-region'', region, ''-code'', activationCode, ''-id'', activationID] (seconds 10))))
       (GetManagedHybridInstanceId env se []))"

definition with_timeout :: "ctx \<Rightarrow> nat \<Rightarrow> (ctx \<Rightarrow> 'a wio) \<Rightarrow> 'a wio" where
  "with_timeout c d k = (\<lambda>w. k (Some (case c of None \<Rightarrow> clock w + d | Some t \<Rightarrow> min t (clock w + d))) w)"

text \<open>The two regular expressions end in \<open>*\<close>, so the last letter of the word is optional.\<close>

definition ssm_Configure ::
  "environment \<Rightarrow> ssm_env \<Rightarrow> ctx \<Rightarrow> string \<Rightarrow> string \<Rightarrow> string \<Rightarrow> string wio" where
  "ssm_Configure env se c region activationCode activationID =
     with_timeout c (seconds 60) (\<lambda>c'.
       mapErrE (\<lambda>err.
           if Contains (error_text err) ''ActivationExpire'' then ErrMsg ''SSM activation expired. Please use a valid activation''
           else if Contains (error_text err) ''InvalidActivatio''
           then ErrMsg ''invalid SSM activation. Please use a valid activation code, activation id and region''
           else err)
         (registerMachine env se c' region activationCode activationID))"

definition ssm_EnsureRunning :: "environment \<Rightarrow> ctx \<Rightarrow> unit wio" where
  "ssm_EnsureRunning env c =
     bindE (getE SsmDaemonName) (\<lambda>name.
      thenE (EnableDaemon env name)
       (thenE (with_timeout c (seconds 300) (\<lambda>c'.
                 wrapE ''restarting SSM agent'' (RetryOperation c' (RestartDaemon env) name (seconds 20) [])))
        (with_timeout c (seconds 300) (\<lambda>c'.
           wrapE ''waiting for SSM agent to be running'' (WaitForStatus env c' name DaemonStatusRunning (seconds 5))))))"

definition ssm_Stop :: "environment \<Rightarrow> unit wio" where
  "ssm_Stop env = bindE (getE SsmDaemonName) (StopDaemon env)"

section \<open>Facts\<close>

text \<open>Whatever ends up at the installer's path has passed the signature check.\<close>

lemma ssm_download_signed:
  "p \<notin> set (dirs_to (Dir p)) \<Longrightarrow>
   valid_ok (\<lambda>_. True) (ssm_downloadFileTo env se url key p)
     (\<lambda>_ w. \<exists>b sig. fs w p = Some (RegFile b 493) \<and> pgp_verify se b sig key = None)"
proof -
  assume p: "p \<notin> set (dirs_to (Dir p))"
  have fin: "valid_ok (\<lambda>_. True)
      (case validateSetupSignature se ins sig key of
         Some e \<Rightarrow> throwE (ErrWrap ''validating ssm-setup-cli signature'' e)
       | None \<Rightarrow> thenE (wrapE ''installing ssm-setup-cli'' (InstallFile env p (fst ins, None) 493)) (returnE ()))
      (\<lambda>_ w. \<exists>b sig. fs w p = Some (RegFile b 493) \<and> pgp_verify se b sig key = None)" for ins sig
  proof (cases "validateSetupSignature se ins sig key")
    case None
    then have ok: "pgp_verify se (fst ins) sig key = None"
      by (auto simp: validateSetupSignature_def split: option.splits)
    have "valid_ok (\<lambda>_. True) (wrapE ''installing ssm-setup-cli'' (InstallFile env p (fst ins, None) 493))
            (\<lambda>_ w. fs w p = Some (RegFile (fst ins) 493))"
      by (rule valid_wrapE, rule valid_post [OF InstallFile_ok [OF p]]) auto
    then have "valid_ok (\<lambda>_. True) (thenE (wrapE ''installing ssm-setup-cli'' (InstallFile env p (fst ins, None) 493)) (returnE ()))
      (\<lambda>_ w. \<exists>b sig. fs w p = Some (RegFile b 493) \<and> pgp_verify se b sig key = None)"
      by (rule valid_thenE) (use ok in \<open>cases sig, auto simp: valid_def\<close>)
    with None show ?thesis by simp
  next
    case (Some e)
    then show ?thesis by (simp add: valid_def)
  qed
  show ?thesis unfolding ssm_downloadFileTo_def
    by (rule valid_bindE [where B = "\<lambda>_ _. True"], simp add: valid_def split: sum.splits,
        rule valid_bindE [where B = "\<lambda>_ _. True"], simp add: valid_def split: sum.splits, rule fin)
qed

lemma returns_with_timeout: "(\<And>t. returns (k (Some t))) \<Longrightarrow> returns (with_timeout c d k)"
  by (simp add: returns_def with_timeout_def)

lemma returns_registration:
  "returns (GetManagedHybridInstanceId env se r)" "returns (isRegistered env se r)" "returns (agentBinaryPath env)"
proof -
  show id: "returns (GetManagedHybridInstanceId env se r)" for r
    unfolding GetManagedHybridInstanceId_def by (intro returns_intros returns_os)
  show "returns (isRegistered env se r)"
    unfolding isRegistered_def by (auto intro!: returns_intros id split: sum.splits)
  have "returns (agentBinaryPath_loop env ps)" for ps
    by (induction ps) (auto simp: file_Exists_def intro!: returns_intros returns_os split: sum.splits)
  then show "returns (agentBinaryPath env)" by (simp add: agentBinaryPath_def)
qed

text \<open>Configuring and starting the agent come back whatever the machine does: every wait has a deadline.\<close>

lemma ssm_Configure_returns: "returns (ssm_Configure env se c region code aid)"
  unfolding ssm_Configure_def registerMachine_def
  by (rule returns_with_timeout)
    (auto intro!: returns_intros returns_registration Retry_returns simp: seconds_def)

lemma ssm_EnsureRunning_returns: "returns (ssm_EnsureRunning env c)"
  unfolding ssm_EnsureRunning_def
  by (auto intro!: returns_intros returns_daemon returns_with_timeout RetryOperation_returns WaitForStatus_returns
      polite_RestartDaemon simp: seconds_def)

text \<open>What the file of the agent holds and its mode. A read reports that a file does not exist only when it does not.\<close>

definition reads_honestly :: "environment \<Rightarrow> bool" where
  "reads_honestly env \<longleftrightarrow> (\<forall>n p e. os_fault env n (OpRead p) = Some e \<longrightarrow> \<not> os_IsNotExist e)"

lemma WriteFile_keeps_mode:
  "valid_ok (\<lambda>w. fs w p = Some (RegFile c m)) (os_WriteFile env p d perm) (\<lambda>_ w. fs w p = Some (RegFile d m))"
proof -
  have "valid_ok (\<lambda>w. fs w p = Some (RegFile [] m)) (file_Write env p d) (\<lambda>_ w. fs w p = Some (RegFile d m))"
    by (auto simp: valid_def file_Write_def sys_def append_to_def Let_def split: option.splits sum.splits)
  moreover have "valid_ok (\<lambda>w. fs w p = Some (RegFile c m)) (os_Create env p perm) (\<lambda>_ w. fs w p = Some (RegFile [] m))"
    by (auto simp: valid_def os_Create_def sys_def Let_def split: option.splits sum.splits if_splits)
  ultimately show ?thesis unfolding os_WriteFile_def by (rule valid_thenE [rotated])
qed

lemma write_agent_settings_ok:
  "valid_ok (\<lambda>w. fs w p = Some (RegFile c m)) (write_agent_settings env se p config perm)
     (\<lambda>_ w. \<exists>b. fs w p = Some (RegFile b m) \<and> js_MarshalIndent (agent_json se) (agent_settings config) = Inr b)"
proof (cases "js_MarshalIndent (agent_json se) (agent_settings config)")
  case (Inl e)
  then show ?thesis by (simp add: write_agent_settings_def valid_def liftE_def wrapE_def mapErrE_def bindE_def throwE_def)
next
  case (Inr b)
  have "valid_ok (\<lambda>w. fs w p = Some (RegFile c m)) (wrapE s (os_WriteFile env p b perm))
      (\<lambda>_ w. \<exists>b'. fs w p = Some (RegFile b' m) \<and> js_MarshalIndent (agent_json se) (agent_settings config) = Inr b')" for s
    by (rule valid_wrapE, rule valid_post [OF WriteFile_keeps_mode]) (simp_all add: Inr)
  then show ?thesis using Inr by (simp add: write_agent_settings_def liftE_def wrapE_def mapErrE_def bindE_def returnE_def)
qed

lemma configureSSMAgent_ok:
  assumes rd: "reads_honestly env" and p: "p = Join [root, defaultSSMConfigPath]"
  shows "valid_ok (\<lambda>w. fs w p = Some (RegFile d m) \<and> js_Unmarshal (agent_json se) d = Inr config) (configureSSMAgent env se root)
     (\<lambda>_ w. \<exists>b. fs w p = Some (RegFile b m) \<and> js_MarshalIndent (agent_json se) (agent_settings config) = Inr b)"
  unfolding configureSSMAgent_def Let_def p [symmetric]
proof (rule valid_bindE [where B = "\<lambda>r w. fs w p = Some (RegFile d m) \<and> js_Unmarshal (agent_json se) d = Inr config \<and>
      (case r of Inl e \<Rightarrow> \<not> os_IsNotExist e | Inr x \<Rightarrow> x = d)"], goal_cases)
  case 1
  show ?case using rd by (auto simp: valid_def tryE_def os_ReadFile_def sys_def Let_def reads_honestly_def split: option.splits sum.splits)
next
  case (2 r)
  show ?case
  proof (cases r)
    case (Inl e)
    then show ?thesis by (auto simp: valid_def)
  next
    case (Inr x)
    show ?thesis unfolding Inr sum.case
    proof (rule valid_bindE [where B = "\<lambda>_ w. fs w p = Some (RegFile d m) \<and> js_Unmarshal (agent_json se) d = Inr config \<and> x = d"], goal_cases)
      case 1
      show ?case by (auto simp: valid_def tryE_def os_Stat_def sys_def Let_def split: option.splits sum.splits)
    next
      case (2 st)
      show ?case using write_agent_settings_ok [of p d m env se config]
        by (auto simp: valid_def liftE_def wrapE_def mapErrE_def bindE_def returnE_def)
    qed
  qed
qed

lemma agent_settings_facts:
  "\<exists>o'. map_of (agent_settings config) ''Ssm'' = Some (JObject o') \<and> map_of o' ''CredentialRetryMaxSleepSeconds'' = Some (JNumber ''60'') \<and>
     (\<forall>o0. map_of config ''Ssm'' = Some (JObject o0) \<longrightarrow> (\<forall>k. k \<noteq> ''CredentialRetryMaxSleepSeconds'' \<longrightarrow> map_of o' k = map_of o0 k))"
  "k \<noteq> ''Ssm'' \<Longrightarrow> map_of (agent_settings config) k = map_of config k"
  unfolding agent_settings_def credentialRetryMaxSleepSeconds_def by (rule set_member_object, rule set_member_others)

section \<open>Properties\<close>

text \<open>C36: When the download of the SSM setup program succeeds, the file it leaves, with mode 0755, is one whose detached
  signature verifies under the pinned public key.\<close>

theorem ssm_installer_is_signed:
  assumes "p \<notin> set (dirs_to (Dir p))"
  shows "valid_ok (\<lambda>_. True) (ssm_downloadFileTo env se url key p)
     (\<lambda>_ w. \<exists>b sig. fs w p = Some (RegFile b 493) \<and> pgp_verify se b sig key = None)"
  by (rule ssm_download_signed [OF assms])

definition sample_ssm :: ssm_env where
  "sample_ssm = \<lparr>pgp_verify = \<lambda>b sig key. if fst sig = b @ ''.sig'' then None else Some (ErrMsg ''bad signature''),
     registration_unmarshal = \<lambda>_. Inr (''mi-1'', ''us-west-2''), agent_json = sample_json,
     describe_instances = \<lambda>_ _. Inr 0, deregister_instance = \<lambda>_ _. Inr ()\<rparr>"

theorem ssm_installer_is_signed_witness:
  "valid_ok (\<lambda>_. True) (ssm_downloadFileTo sample_env sample_ssm (returnE ''https://s3/ssm-setup-cli'') ''key'' ''/opt/ssm/ssm-setup-cli'')
     (\<lambda>_ w. \<exists>b sig. fs w ''/opt/ssm/ssm-setup-cli'' = Some (RegFile b 493) \<and> pgp_verify sample_ssm b sig ''key'' = None)"
  by (rule ssm_installer_is_signed) code_simp

text \<open>Registering the SSM agent and starting it always end: their time limits bound every loop.\<close>

theorem ssm_daemon_ends: "returns (ssm_Configure env se c region code aid) \<and> returns (ssm_EnsureRunning env c)"
  using ssm_Configure_returns ssm_EnsureRunning_returns by blast

text \<open>C37: Configuring the SSM agent keeps the settings an administrator gave it: when the agent's configuration file existed and
  parses, a successful run leaves it with its mode, the retry interval set, every other setting of the \<open>Ssm\<close>
  section as it was and every other section as it was.\<close>

theorem agent_settings_kept:
  assumes "reads_honestly env" and "p = Join [root, defaultSSMConfigPath]"
  shows "valid_ok (\<lambda>w. fs w p = Some (RegFile d m) \<and> js_Unmarshal (agent_json se) d = Inr config) (configureSSMAgent env se root)
     (\<lambda>_ w. \<exists>b config' o'. fs w p = Some (RegFile b m) \<and> js_MarshalIndent (agent_json se) config' = Inr b \<and>
        map_of config' ''Ssm'' = Some (JObject o') \<and> map_of o' ''CredentialRetryMaxSleepSeconds'' = Some (JNumber ''60'') \<and>
        (\<forall>o0 k. map_of config ''Ssm'' = Some (JObject o0) \<and> k \<noteq> ''CredentialRetryMaxSleepSeconds'' \<longrightarrow> map_of o' k = map_of o0 k) \<and>
        (\<forall>k. k \<noteq> ''Ssm'' \<longrightarrow> map_of config' k = map_of config k))"
proof (rule valid_post [OF configureSSMAgent_ok [OF assms]], goal_cases)
  case (1 x w)
  then obtain b where b: "fs w p = Some (RegFile b m)" "js_MarshalIndent (agent_json se) (agent_settings config) = Inr b" by blast
  obtain o' where "map_of (agent_settings config) ''Ssm'' = Some (JObject o')" "map_of o' ''CredentialRetryMaxSleepSeconds'' = Some (JNumber ''60'')"
    "\<forall>o0. map_of config ''Ssm'' = Some (JObject o0) \<longrightarrow> (\<forall>k. k \<noteq> ''CredentialRetryMaxSleepSeconds'' \<longrightarrow> map_of o' k = map_of o0 k)"
    using agent_settings_facts(1) [of config] by iprover
  then show ?case using b agent_settings_facts(2) [of _ config] by iprover
qed simp

definition sample_agent_world :: world where
  "sample_agent_world = sample_world\<lparr>fs := (\<lambda>q. if q = ''/etc/amazon/ssm/amazon-ssm-agent.json'' then Some (RegFile ''M'' 420)
       else if q = ''/etc/amazon/ssm'' then Some (DirNode 493) else None)\<rparr>"

text \<open>A run over a file with one section of its own and mode 0644.\<close>

theorem agent_settings_kept_witness:
  "\<exists>w b config'. configureSSMAgent sample_env sample_ssm [] sample_agent_world = Some (Inr (), w) \<and>
     fs w ''/etc/amazon/ssm/amazon-ssm-agent.json'' = Some (RegFile b 420) \<and> js_MarshalIndent sample_json config' = Inr b \<and>
     map_of config' ''M'' = Some (JObject [])"
proof -
  let ?m = "configureSSMAgent sample_env sample_ssm []" and ?p = "''/etc/amazon/ssm/amazon-ssm-agent.json''"
  have p: "?p = Join [[], defaultSSMConfigPath]" by code_simp
  have h: "reads_honestly sample_env" by (simp add: reads_honestly_def sample_env_def)
  have "(case ?m sample_agent_world of Some (Inr _, _) \<Rightarrow> True | _ \<Rightarrow> False)" by code_simp
  then obtain w where run: "?m sample_agent_world = Some (Inr (), w)" by (auto split: option.splits sum.splits prod.splits)
  have pre: "fs sample_agent_world ?p = Some (RegFile ''M'' 420) \<and> js_Unmarshal (agent_json sample_ssm) ''M'' = Inr [(''M'', JObject [])]"
    by (simp add: sample_agent_world_def sample_ssm_def sample_json_def)
  from valid_okD [OF agent_settings_kept [OF h p] pre run] obtain b config' where
    b: "fs w ?p = Some (RegFile b 420)" "js_MarshalIndent (agent_json sample_ssm) config' = Inr b"
      "\<forall>k. k \<noteq> ''Ssm'' \<longrightarrow> map_of config' k = map_of [(''M'', JObject [])] k" by iprover
  have "map_of config' ''M'' = Some (JObject [])" using b(3) [rule_format, of "''M''"] by simp
  moreover have "agent_json sample_ssm = sample_json" by (simp add: sample_ssm_def)
  ultimately show ?thesis using run b(1,2) by (intro exI conjI) simp_all
qed
end
