(* ===== verification/System_Resources.thy ===== *)
theory System_Resources
  imports Util "HOL-Library.Word"
begin

text \<open>
  \<open>internal/system/resources.go\<close>: the processors that the kernel shows under \<open>/sys\<close> and the memory of
  \<open>/proc/meminfo\<close>. \<open>glob\<close> is \<open>filepath.Glob\<close>, the listing of the kernel's directories.
\<close>

text \<open>Arithmetic on Go's \<open>int\<close>, which has 64 bits on the platforms the program is built for, wraps around.\<close>

definition go_int :: "int \<Rightarrow> int" where
  "go_int i = signed_take_bit 63 i"

lemma go_int_id: "- (2 ^ 63) \<le> i \<Longrightarrow> i < 2 ^ 63 \<Longrightarrow> go_int i = i"
  by (simp add: go_int_def signed_take_bit_int_eq_self_iff)

type_synonym globber = "string \<Rightarrow> goerr + path list"

record core =
  core_Id :: int
  Threads :: "int list"
  SocketID :: int

definition nodeDir :: "environment \<Rightarrow> path" where
  "nodeDir env = (case lookup_env env ''NODE_DIR'' of Some d \<Rightarrow> if d \<noteq> [] then d else ''/sys/devices/system/node''
                  | None \<Rightarrow> ''/sys/devices/system/node'')"

definition cpusPath :: "environment \<Rightarrow> path" where
  "cpusPath env = (case lookup_env env ''CPU_DIR'' of Some d \<Rightarrow> if d \<noteq> [] then d else ''/sys/devices/system/cpu''
                   | None \<Rightarrow> ''/sys/devices/system/cpu'')"

section \<open>Processors\<close>

definition getNodesPaths :: "environment \<Rightarrow> globber \<Rightarrow> goerr + path list" where
  "getNodesPaths env glob = glob (nodeDir env @ ''/'' @ ''node*[0-9]'')"

definition getCPUsPaths :: "globber \<Rightarrow> path \<Rightarrow> goerr + path list" where
  "getCPUsPaths glob p = glob (p @ ''/'' @ ''cpu*[0-9]'')"

definition getCPUCount :: "environment \<Rightarrow> globber \<Rightarrow> goerr + int" where
  "getCPUCount env glob =
     (case getCPUsPaths glob (cpusPath env) of
        Inl err \<Rightarrow> Inl err
      | Inr cpusPaths \<Rightarrow>
          if length cpusPaths = 0 then Inl (ErrMsg (''Any CPU is not available, cpusPath: '' @ cpusPath env))
          else Inr (int (length cpusPaths)))"

text \<open>The leftmost match of \<open>/cpu(\d+)\<close>: its digits.\<close>

fun find_cpu_digits :: "string \<Rightarrow> string option" where
  "find_cpu_digits [] = None"
| "find_cpu_digits (c # cs) =
     (if prefix ''/cpu'' (c # cs) \<and> takeWhile is_digit (drop 4 (c # cs)) \<noteq> []
      then Some (takeWhile is_digit (drop 4 (c # cs))) else find_cpu_digits cs)"

definition getCPUID :: "string \<Rightarrow> goerr + int" where
  "getCPUID str =
     (case find_cpu_digits str of
        None \<Rightarrow> Inl (ErrMsg (''failed to match regexp, str: '' @ str))
      | Some ds \<Rightarrow> (case Atoi ds of None \<Rightarrow> Inl (ErrMsg ''strconv.Atoi: value out of range'') | Some n \<Rightarrow> Inr n))"

definition getCoreID :: "environment \<Rightarrow> path \<Rightarrow> string wio" where
  "getCoreID env cpuPath = bindE (os_ReadFile env (cpuPath @ ''/topology/core_id'')) (\<lambda>d. returnE (TrimSpace d))"

definition getCPUPhysicalPackageID :: "environment \<Rightarrow> path \<Rightarrow> string wio" where
  "getCPUPhysicalPackageID env cpuPath =
     bindE (os_ReadFile env (cpuPath @ ''/topology/physical_package_id'')) (\<lambda>d. returnE (TrimSpace d))"

text \<open>\<open>strings.SplitN(s, "-", 3)\<close>: three parts when there are two or more dashes.\<close>

definition parse_uint16 :: "string \<Rightarrow> goerr + 16 word" where
  "parse_uint16 s =
     (case ParseUint 16 s of None \<Rightarrow> Inl (ErrMsg ''strconv.ParseUint: parsing failed'') | Some n \<Rightarrow> Inr (word_of_nat n))"

fun cpu_list_loop :: "path \<Rightarrow> 16 word \<Rightarrow> string list \<Rightarrow> goerr + bool" where
  "cpu_list_loop p cpuID [] = Inr False"
| "cpu_list_loop p cpuID (s # ss) =
     (case split_on CHR ''-'' s of
        [v] \<Rightarrow> (case parse_uint16 v of
                 Inl err \<Rightarrow> Inl err
               | Inr value \<Rightarrow> if value = cpuID then Inr True else cpu_list_loop p cpuID ss)
      | [a, b] \<Rightarrow> (case parse_uint16 a of
                    Inl err \<Rightarrow> Inl err
                  | Inr mn \<Rightarrow>
                      (case parse_uint16 b of
                         Inl err \<Rightarrow> Inl err
                       | Inr mx \<Rightarrow>
                           if mn > mx then Inl (ErrMsg (''invalid values in '' @ p))
                           else if cpuID \<ge> mn \<and> cpuID \<le> mx then Inr True
                           else cpu_list_loop p cpuID ss))
      | _ \<Rightarrow> Inl (ErrMsg (''invalid values in '' @ p)))"

definition isCpuOnline :: "environment \<Rightarrow> path \<Rightarrow> 16 word \<Rightarrow> bool wio" where
  "isCpuOnline env p cpuID =
     bindE (os_ReadFile env p) (\<lambda>fileContent.
      if length fileContent = 0 then throwE (ErrMsg (p @ '' found to be empty''))
      else liftE (cpu_list_loop p cpuID (split_on CHR '','' (TrimSpace fileContent))))"

text \<open>The directory is absolute, so \<open>filepath.Abs\<close> only cleans it and cannot fail.\<close>

definition IsCPUOnline :: "environment \<Rightarrow> int \<Rightarrow> bool wio" where
  "IsCPUOnline env cpuID =
     (let cpuOnlinePath = Clean (cpusPath env @ ''/online'') in
      bindE (tryE (os_Stat env cpuOnlinePath)) (\<lambda>st. case st of
        Inl err \<Rightarrow>
          if os_IsNotExist err then returnE True
          else bindE (tryE (isCpuOnline env cpuOnlinePath (word_of_int cpuID))) (\<lambda>r. case r of Inl _ \<Rightarrow> returnE False | Inr b \<Rightarrow> returnE b)
      | Inr _ \<Rightarrow>
          bindE (tryE (isCpuOnline env cpuOnlinePath (word_of_int cpuID))) (\<lambda>r. case r of Inl _ \<Rightarrow> returnE False | Inr b \<Rightarrow> returnE b)))"

text \<open>The last core with the given identity, if any; else a new one at the end.\<close>

definition same_core :: "int \<Rightarrow> int \<Rightarrow> core \<Rightarrow> bool" where
  "same_core physicalID physicalPackageID c \<longleftrightarrow> core_Id c = physicalID \<and> SocketID c = physicalPackageID"

fun last_index :: "('a \<Rightarrow> bool) \<Rightarrow> 'a list \<Rightarrow> nat option" where
  "last_index P [] = None"
| "last_index P (x # xs) =
     (case last_index P xs of Some i \<Rightarrow> Some (Suc i) | None \<Rightarrow> if P x then Some 0 else None)"

definition add_thread :: "int \<Rightarrow> int \<Rightarrow> int \<Rightarrow> core list \<Rightarrow> core list" where
  "add_thread cpuID physicalID physicalPackageID cores =
     (case last_index (same_core physicalID physicalPackageID) cores of
        Some i \<Rightarrow> cores[i := \<lparr>core_Id = physicalID, Threads = Threads (cores ! i) @ [cpuID], SocketID = physicalPackageID\<rparr>]
      | None \<Rightarrow> cores @ [\<lparr>core_Id = physicalID, Threads = [cpuID], SocketID = physicalPackageID\<rparr>])"

definition atoiE :: "string \<Rightarrow> int wio" where
  "atoiE s = (case Atoi s of None \<Rightarrow> throwE (ErrMsg (''strconv.Atoi: parsing '' @ s @ '': invalid syntax'')) | Some n \<Rightarrow> returnE n)"

text \<open>The identity of an online processor: \<open>None\<close> when it is offline or a topology file is missing.\<close>

definition cpu_identity :: "environment \<Rightarrow> path \<Rightarrow> (int \<times> int \<times> int) option wio" where
  "cpu_identity env cpuDir =
     (case getCPUID cpuDir of
        Inl _ \<Rightarrow> throwE (ErrMsg (''unexpected format of CPU directory, cpuDirRegExp /cpu([0-9]+), cpuDir: '' @ cpuDir))
      | Inr cpuID \<Rightarrow>
          bindE (IsCPUOnline env cpuID) (\<lambda>online.
           if \<not> online then returnE None
           else bindE (tryE (getCoreID env cpuDir)) (\<lambda>r. case r of
             Inl err \<Rightarrow> if os_IsNotExist err then returnE None else throwE err
           | Inr rawPhysicalID \<Rightarrow>
               bindE (atoiE rawPhysicalID) (\<lambda>physicalID.
               bindE (tryE (getCPUPhysicalPackageID env cpuDir)) (\<lambda>r2. case r2 of
                 Inl err \<Rightarrow> if os_IsNotExist err then returnE None else throwE err
               | Inr rawPhysicalPackageID \<Rightarrow>
                   bindE (atoiE rawPhysicalPackageID) (\<lambda>physicalPackageID.
                     returnE (Some (cpuID, physicalID, physicalPackageID))))))))"

fun getCoresInfo_loop :: "environment \<Rightarrow> path list \<Rightarrow> core list \<Rightarrow> core list wio" where
  "getCoresInfo_loop env [] cores = returnE cores"
| "getCoresInfo_loop env (cpuDir # cpuDirs) cores =
     bindE (cpu_identity env cpuDir) (\<lambda>i. case i of
        None \<Rightarrow> getCoresInfo_loop env cpuDirs cores
      | Some (cpuID, physicalID, physicalPackageID) \<Rightarrow>
          getCoresInfo_loop env cpuDirs (add_thread cpuID physicalID physicalPackageID cores))"

definition getCoresInfo :: "environment \<Rightarrow> path list \<Rightarrow> core list wio" where
  "getCoresInfo env cpuDirs = getCoresInfo_loop env cpuDirs []"

definition count_threads :: "core list \<Rightarrow> nat" where
  "count_threads cores = sum_list (map (\<lambda>c. length (Threads c)) cores)"

fun logical_cores_loop :: "environment \<Rightarrow> globber \<Rightarrow> path list \<Rightarrow> nat \<Rightarrow> nat wio" where
  "logical_cores_loop env glob [] n = returnE n"
| "logical_cores_loop env glob (dir # dirs) n =
     (let cpuDirs = (case getCPUsPaths glob dir of Inr ds \<Rightarrow> ds | Inl _ \<Rightarrow> []) in
      if length cpuDirs = 0 then logical_cores_loop env glob dirs n
      else bindE (getCoresInfo env cpuDirs) (\<lambda>cores. logical_cores_loop env glob dirs (n + count_threads cores)))"

definition GetMilliNumCores :: "environment \<Rightarrow> globber \<Rightarrow> int wio" where
  "GetMilliNumCores env glob =
     (case getNodesPaths env glob of
        Inl err \<Rightarrow> throwE err
      | Inr nodesDirs \<Rightarrow>
          if length nodesDirs = 0 then
            (case getCPUCount env glob of Inl err \<Rightarrow> throwE err | Inr cpuCount \<Rightarrow> returnE (go_int (cpuCount * 1000)))
          else bindE (logical_cores_loop env glob nodesDirs 0) (\<lambda>n. returnE (go_int (int n * 1000))))"

section \<open>Memory\<close>

text \<open>The leftmost match of \<open>MemTotal:\s*([0-9]+) kB\<close>: its digits. The class \<open>\s\<close> of package \<open>regexp\<close> is tab,
  line feed, form feed, carriage return and space.\<close>

definition is_re_space :: "char \<Rightarrow> bool" where
  "is_re_space c = (c \<in> set [CHR 0x09, CHR 0x0A, CHR 0x0C, CHR 0x0D, CHR 0x20])"

fun find_mem_total :: "bytes \<Rightarrow> string option" where
  "find_mem_total [] = None"
| "find_mem_total (c # cs) =
     (let r = dropWhile is_re_space (drop 9 (c # cs)); ds = takeWhile is_digit r in
      if prefix ''MemTotal:'' (c # cs) \<and> ds \<noteq> [] \<and> prefix '' kB'' (drop (length ds) r) then Some ds
      else find_mem_total cs)"

definition parseCapacity :: "bytes \<Rightarrow> goerr + 64 word" where
  "parseCapacity b =
     (case find_mem_total b of
        None \<Rightarrow> Inl (ErrMsg (''failed to match regexp in output: '' @ b))
      | Some ds \<Rightarrow>
          (case ParseUint 64 ds of
             None \<Rightarrow> Inl (ErrMsg ''strconv.ParseUint: value out of range'')
           | Some m \<Rightarrow> Inr (word_of_nat m * 1024)))"

definition GetMachineMemoryCapacity :: "environment \<Rightarrow> 64 word wio" where
  "GetMachineMemoryCapacity env = bindE (os_ReadFile env ''/proc/meminfo'') (\<lambda>out. liftE (parseCapacity out))"

section \<open>Facts\<close>

lemma last_index_Some: "last_index P xs = Some i \<Longrightarrow> i < length xs \<and> P (xs ! i)"
  by (induction xs arbitrary: i) (auto split: option.splits if_splits)

text \<open>Grouping by core loses no thread: every counted processor adds one.\<close>

lemma count_threads_update:
  "i < length cores \<Longrightarrow> count_threads (cores[i := c]) + length (Threads (cores ! i)) = count_threads cores + length (Threads c)"
proof (induction cores arbitrary: i)
  case Nil
  then show ?case by simp
next
  case (Cons x cores)
  show ?case
  proof (cases i)
    case 0
    then show ?thesis by (simp add: count_threads_def)
  next
    case (Suc j)
    then have "count_threads (cores[j := c]) + length (Threads (cores ! j)) = count_threads cores + length (Threads c)"
      using Cons by simp
    then show ?thesis using Suc by (simp add: count_threads_def)
  qed
qed

lemma count_add_thread: "count_threads (add_thread t p q cores) = Suc (count_threads cores)"
proof (cases "last_index (same_core p q) cores")
  case None
  then show ?thesis by (simp add: add_thread_def count_threads_def)
next
  case (Some i)
  with last_index_Some [OF Some]
    count_threads_update [of i cores "\<lparr>core_Id = p, Threads = Threads (cores ! i) @ [t], SocketID = q\<rparr>"]
  show ?thesis by (simp add: add_thread_def)
qed

text \<open>A thread stands on the core it names: the map from threads to cores is kept.\<close>

definition on_core :: "core list \<Rightarrow> int \<Rightarrow> int \<Rightarrow> int \<Rightarrow> bool" where
  "on_core cores t p q \<longleftrightarrow> (\<exists>c\<in>set cores. same_core p q c \<and> t \<in> set (Threads c))"

lemma list_update_eq: "i < length xs \<Longrightarrow> set (xs[i := x]) = insert x {xs ! j |j. j < length xs \<and> j \<noteq> i}"
  by (auto simp: set_conv_nth nth_list_update; metis)

lemma add_thread_on_core: "on_core (add_thread t p q cores) t' p' q' \<longleftrightarrow> on_core cores t' p' q' \<or> (t' = t \<and> p' = p \<and> q' = q)"
proof (cases "last_index (same_core p q) cores")
  case None
  then show ?thesis by (auto simp: add_thread_def on_core_def same_core_def)
next
  case (Some i)
  let ?c = "\<lparr>core_Id = p, Threads = Threads (cores ! i) @ [t], SocketID = q\<rparr>"
  have i: "i < length cores" "core_Id (cores ! i) = p" "SocketID (cores ! i) = q"
    using last_index_Some [OF Some] by (simp_all add: same_core_def)
  have old: "(\<exists>c\<in>set cores. Q c) \<longleftrightarrow> Q (cores ! i) \<or> (\<exists>j<length cores. j \<noteq> i \<and> Q (cores ! j))" for Q
  proof -
    have "(\<exists>c\<in>set cores. Q c) \<longleftrightarrow> (\<exists>j<length cores. Q (cores ! j))" by (metis in_set_conv_nth)
    with i(1) show ?thesis by blast
  qed
  have new: "(\<exists>c\<in>set (cores[i := ?c]). Q c) \<longleftrightarrow> Q ?c \<or> (\<exists>j<length cores. j \<noteq> i \<and> Q (cores ! j))" for Q
    unfolding list_update_eq [OF i(1)] by auto
  show ?thesis unfolding on_core_def add_thread_def Some option.case new old
    using i by (auto simp: same_core_def)
qed

text \<open>The printed CPU list: ranges \<open>lo-hi\<close> separated by commas.\<close>

definition cpu_range :: "nat \<times> nat \<Rightarrow> string" where
  "cpu_range r = (if fst r = snd r then dec_digits (fst r) else dec_digits (fst r) @ ''-'' @ dec_digits (snd r))"

lemma parse_uint16_digits: "n < 65536 \<Longrightarrow> parse_uint16 (dec_digits n) = Inr (word_of_nat n)"
  by (simp add: parse_uint16_def ParseUint_def)

lemma split_cpu_range:
  "split_on CHR ''-'' (cpu_range (lo, hi)) = (if lo = hi then [dec_digits lo] else [dec_digits lo, dec_digits hi])"
proof -
  have n: "CHR ''-'' \<notin> set (dec_digits k)" for k
    using dec_digits_all_digits [of k] by (auto simp: list_all_iff is_digit_def)
  then show ?thesis
    using split_on_append [of "CHR ''-''" "dec_digits lo" "dec_digits hi"] by (simp add: cpu_range_def split_on_no_sep)
qed

lemma word16_le: "m < 65536 \<Longrightarrow> n < 65536 \<Longrightarrow> (word_of_nat m :: 16 word) \<le> word_of_nat n \<longleftrightarrow> m \<le> n"
  by (simp add: word_le_nat_alt unat_of_nat take_bit_nat_eq_self)

lemma word16_less: "m < 65536 \<Longrightarrow> n < 65536 \<Longrightarrow> (word_of_nat m :: 16 word) < word_of_nat n \<longleftrightarrow> m < n"
  using word16_le [of n m] by (simp add: not_le [symmetric])

lemma word16_eq: "m < 65536 \<Longrightarrow> n < 65536 \<Longrightarrow> (word_of_nat m :: 16 word) = word_of_nat n \<longleftrightarrow> m = n"
  using word16_le [of m n] word16_le [of n m] by (auto simp: order_eq_iff)

lemma cpu_list_ranges:
  assumes "\<And>lo hi. (lo, hi) \<in> set rs \<Longrightarrow> lo \<le> hi \<and> hi < 65536" and "k < 65536"
  shows "cpu_list_loop p (word_of_nat k) (map cpu_range rs) = Inr (\<exists>(lo, hi)\<in>set rs. lo \<le> k \<and> k \<le> hi)"
  using assms(1)
proof (induction rs)
  case Nil
  show ?case by simp
next
  case (Cons r rs)
  obtain lo hi where r: "r = (lo, hi)" by (cases r)
  have b: "lo \<le> hi" "hi < 65536" "lo < 65536" using Cons.prems [of lo hi] r by auto
  have rest: "cpu_list_loop p (word_of_nat k) (map cpu_range rs) = Inr (\<exists>(lo, hi)\<in>set rs. lo \<le> k \<and> k \<le> hi)"
    using Cons by auto
  show ?case using b rest assms(2)
    by (auto simp: r split_cpu_range parse_uint16_digits word16_le word16_less word16_eq split: if_splits)
qed

section \<open>Properties\<close>

text \<open>The identities of the processors, in the order of their directories.\<close>

fun identities :: "environment \<Rightarrow> path list \<Rightarrow> (int \<times> int \<times> int) list wio" where
  "identities env [] = returnE []"
| "identities env (d # ds) =
     bindE (cpu_identity env d) (\<lambda>i. bindE (identities env ds) (\<lambda>is. returnE (case i of None \<Rightarrow> is | Some t \<Rightarrow> t # is)))"

definition group_threads :: "core list \<Rightarrow> (int \<times> int \<times> int) list \<Rightarrow> core list" where
  "group_threads cores ids = foldl (\<lambda>cs (t, p, q). add_thread t p q cs) cores ids"

lemma bindE_assoc: "bindE (bindE m k) h = bindE m (\<lambda>x. bindE (k x) h)"
  by (rule ext) (simp add: bindE_def split: option.splits sum.splits prod.splits)

lemma bindE_returnE: "bindE (returnE x) k = k x"
  by (rule ext) (simp add: bindE_def returnE_def)

lemma getCoresInfo_loop_identities:
  "getCoresInfo_loop env ds cores = bindE (identities env ds) (\<lambda>ids. returnE (group_threads cores ids))"
proof (induction ds arbitrary: cores)
  case Nil
  show ?case by (simp add: bindE_def returnE_def group_threads_def)
next
  case (Cons d ds)
  have "(case i of None \<Rightarrow> getCoresInfo_loop env ds cores | Some (t, p, q) \<Rightarrow> getCoresInfo_loop env ds (add_thread t p q cores)) =
      bindE (identities env ds) (\<lambda>is. returnE (group_threads cores (case i of None \<Rightarrow> is | Some t \<Rightarrow> t # is)))" for i
    by (cases i) (auto simp: Cons group_threads_def)
  then have "(\<lambda>i. case i of None \<Rightarrow> getCoresInfo_loop env ds cores | Some (t, p, q) \<Rightarrow> getCoresInfo_loop env ds (add_thread t p q cores)) =
      (\<lambda>i. bindE (identities env ds) (\<lambda>is. returnE (group_threads cores (case i of None \<Rightarrow> is | Some t \<Rightarrow> t # is))))"
    by (rule ext)
  then show ?case unfolding getCoresInfo_loop.simps identities.simps bindE_assoc bindE_returnE by (rule arg_cong)
qed

lemma count_group_threads: "count_threads (group_threads cores ids) = count_threads cores + length ids"
  unfolding group_threads_def by (induction ids arbitrary: cores) (auto simp: count_add_thread)

lemma group_threads_on_core:
  "on_core (group_threads cores ids) t p q \<longleftrightarrow> on_core cores t p q \<or> (t, p, q) \<in> set ids"
  unfolding group_threads_def
proof (induction ids arbitrary: cores)
  case Nil
  show ?case by simp
next
  case (Cons i ids)
  obtain t' p' q' where i: "i = (t', p', q')" by (metis surj_pair)
  show ?case unfolding i foldl.simps prod.case Cons.IH add_thread_on_core by (simp add: disj_commute disj_left_commute)
qed

text \<open>The cores found are the online processors grouped by core and socket: every one of them is counted once, and a
  thread is on exactly the core that the kernel names for it.\<close>

theorem cores_group_all_threads:
  "getCoresInfo env dirs = bindE (identities env dirs) (\<lambda>ids. returnE (group_threads [] ids)) \<and>
   count_threads (group_threads [] ids) = length ids \<and> (on_core (group_threads [] ids) t p q \<longleftrightarrow> (t, p, q) \<in> set ids)"
  by (simp add: getCoresInfo_def getCoresInfo_loop_identities count_group_threads group_threads_on_core)
    (simp add: count_threads_def on_core_def)

text \<open>The kernel's list of online processors, ranges separated by commas, is read as the union of its ranges.\<close>

theorem online_list_is_union:
  assumes "\<And>lo hi. (lo, hi) \<in> set rs \<Longrightarrow> lo \<le> hi \<and> hi < 65536" and "k < 65536"
  shows "cpu_list_loop p (word_of_nat k) (map cpu_range rs) = Inr (\<exists>(lo, hi)\<in>set rs. lo \<le> k \<and> k \<le> hi)"
  by (rule cpu_list_ranges [OF assms])

theorem online_list_is_union_witness:
  "cpu_list_loop ''/sys/online'' (word_of_nat 9) (map cpu_range [(0, 3), (5, 5), (8, 15)]) = Inr True"
proof -
  have "cpu_list_loop ''/sys/online'' (word_of_nat 9) (map cpu_range [(0, 3), (5, 5), (8, 15)]) =
      Inr (\<exists>(lo, hi)\<in>set [(0 :: nat, 3 :: nat), (5, 5), (8, 15)]. lo \<le> 9 \<and> 9 \<le> hi)"
    by (rule online_list_is_union) auto
  also have "(\<exists>(lo, hi)\<in>set [(0 :: nat, 3 :: nat), (5, 5), (8, 15)]. lo \<le> 9 \<and> 9 \<le> hi) = True" by simp
  finally show ?thesis .
qed

end
