(* ===== verification/Kubelet_Config.thy ===== *)
theory Kubelet_Config
  imports Network Ssm_Agent System_Resources "HOL-Library.AList" "HOL-Library.Signed_Division"
begin

text \<open>
  The kubelet daemon: its configuration, flags, environment file, kubeconfig, credential provider configuration
  and life cycle (\<open>internal/kubelet/{config,daemon,environment,kubeconfig,image-credential-provider,eni_max_pods,
  version,cert}.go\<close>, \<open>internal/util/ec2.go\<close>).

  The Go maps \<open>flags\<close> and \<open>environment\<close> of the kubelet object are association lists without duplicate keys, and the
  order in which Go ranges over them is the parameter \<open>ke_range\<close>. JSON and YAML of the kubelet configuration
  and the document merge, which are third-party encodings, the instance metadata service, EC2 and the
  resolver are the record \<open>kubelet_env\<close>.
\<close>

section \<open>Types\<close>

record TypeMeta =
  Kind :: string
  APIVersion :: string

record KubeletAuthentication =
  anonymous_Enabled :: "bool option"
  webhook_Enabled :: "bool option"
  webhook_CacheTTL :: nat
  x509_ClientCAFile :: string

record KubeletAuthorization =
  auth_Mode :: string
  CacheAuthorizedTTL :: nat
  CacheUnauthorizedTTL :: nat

record kubeletConfig =
  Address :: string
  Authentication :: KubeletAuthentication
  Authorization :: KubeletAuthorization
  CgroupDriver :: string
  CgroupRoot :: string
  ClusterDNS :: "string list"
  ClusterDomain :: string
  ContainerRuntimeEndpoint :: string
  EvictionHard :: "(string \<times> string) list"
  FeatureGates :: "(string \<times> bool) list"
  HairpinMode :: string
  KubeAPIBurst :: "int option"
  KubeAPIQPS :: "int option"
  KubeReserved :: "(string \<times> string) list"
  KubeReservedCgroup :: "string option"
  Verbosity :: int
  MaxPods :: "32 word"
  ProtectKernelDefaults :: bool
  ProviderID :: "string option"
  ReadOnlyPort :: int
  RegisterWithTaints :: "string list"
  SerializeImagePulls :: bool
  ServerTLSBootstrap :: bool
  SystemReservedCgroup :: "string option"
  TLSCipherSuites :: "string list"
  ResolvConf :: string
  config_TypeMeta :: TypeMeta

record CredentialProviderAwsConfig =
  cp_Profile :: string
  CredentialsPath :: string

record kubelet =
  nodeConfig :: NodeConfig
  kubelet_environment :: "(string \<times> string) list"
  flags :: "(string \<times> string) list"
  credentialProviderAwsConfig :: CredentialProviderAwsConfig
  kubelet_skipPhases :: "string list option"

record credential_provider_config =
  cpc_name :: string
  cpc_env :: "(string \<times> string) list"

record kubelet_env =
  ke_semver :: semver
  ke_glob :: globber
  ke_ip6 :: ip6_parser
  ke_range :: "(string \<times> string) list \<Rightarrow> (string \<times> string) list"
  ke_marshal :: "kubeletConfig \<Rightarrow> goerr + bytes"
  ke_json :: json_lib
  ke_Marshal :: "kubeletConfig \<Rightarrow> goerr + bytes"
  ke_Marshal_type :: "TypeMeta \<Rightarrow> goerr + bytes"
  ke_unmarshal :: "bytes \<Rightarrow> goerr + kubeletConfig"
  ke_marshal_provider :: "credential_provider_config \<Rightarrow> goerr + bytes"
  ke_url_host :: "string \<Rightarrow> goerr + string"
  ke_lookup_host :: "string \<Rightarrow> goerr + string list"
  ke_imds :: "nat \<Rightarrow> string \<Rightarrow> goerr + stream"
  ke_eni_max_pods :: string
  ke_load_aws_config :: "string \<Rightarrow> goerr + unit"
  ke_describe_instance_types :: "nat \<Rightarrow> string \<Rightarrow> goerr + (32 word \<times> 32 word) list"

section \<open>Version\<close>

text \<open>The leftmost match of \<open>v[0-9]+\.[0-9]+.[0-9]+\<close>.\<close>

fun parseSemVer :: "string \<Rightarrow> string" where
  "parseSemVer [] = []"
| "parseSemVer (c # cs) =
     (case (if c = CHR ''v'' then semver_at cs else None) of Some m \<Rightarrow> CHR ''v'' # m | None \<Rightarrow> parseSemVer cs)"

definition GetKubeletVersionRaw :: "environment \<Rightarrow> bytes wio" where
  "GetKubeletVersionRaw env =
     bindE (CombinedOutput env [''kubelet'', ''--version'']) (\<lambda>(out, err). case err of None \<Rightarrow> returnE out | Some e \<Rightarrow> throwE e)"

definition GetKubeletVersion :: "environment \<Rightarrow> string wio" where
  "GetKubeletVersion env = bindE (GetKubeletVersionRaw env) (\<lambda>rawVersion. returnE (parseSemVer rawVersion))"

definition before_1_29 :: "kubelet_env \<Rightarrow> string \<Rightarrow> bool" where
  "before_1_29 ke kubeletVersion \<longleftrightarrow> sv_Compare (ke_semver ke) kubeletVersion ''v1.29.0'' < 0"

section \<open>Default configuration\<close>

definition caCertificatePath :: path where "caCertificatePath = ''/etc/kubernetes/pki/ca.crt''"
definition kubeletConfigPerm :: nat where "kubeletConfigPerm = 420"

definition defaultKubeletSubConfig :: kubeletConfig where
  "defaultKubeletSubConfig =
     \<lparr>Address = ''0.0.0.0'',
      Authentication = \<lparr>anonymous_Enabled = Some False, webhook_Enabled = Some True, webhook_CacheTTL = seconds 120,
                        x509_ClientCAFile = caCertificatePath\<rparr>,
      Authorization = \<lparr>auth_Mode = ''Webhook'', CacheAuthorizedTTL = seconds 300, CacheUnauthorizedTTL = seconds 30\<rparr>,
      CgroupDriver = ''systemd'',
      CgroupRoot = ''/'',
      ClusterDNS = [],
      ClusterDomain = ''cluster.local'',
      ContainerRuntimeEndpoint = ''unix:///run/containerd/containerd.sock'',
      EvictionHard = [(''memory.available'', ''100Mi''), (''nodefs.available'', ''10%''), (''nodefs.inodesFree'', ''5%'')],
      FeatureGates = [(''RotateKubeletServerCertificate'', True)],
      HairpinMode = ''hairpin-veth'',
      KubeAPIBurst = None,
      KubeAPIQPS = None,
      KubeReserved = [],
      KubeReservedCgroup = None,
      Verbosity = 2,
      MaxPods = 0,
      ProtectKernelDefaults = True,
      ProviderID = None,
      ReadOnlyPort = 0,
      RegisterWithTaints = [],
      SerializeImagePulls = False,
      ServerTLSBootstrap = True,
      SystemReservedCgroup = None,
      TLSCipherSuites =
        [''TLS_ECDHE_ECDSA_WITH_AES_128_GCM_SHA256'', ''TLS_ECDHE_ECDSA_WITH_AES_256_GCM_SHA384'',
         ''TLS_ECDHE_ECDSA_WITH_CHACHA20_POLY1305'', ''TLS_ECDHE_RSA_WITH_AES_128_GCM_SHA256'',
         ''TLS_ECDHE_RSA_WITH_AES_256_GCM_SHA384'', ''TLS_ECDHE_RSA_WITH_CHACHA20_POLY1305'',
         ''TLS_RSA_WITH_AES_128_GCM_SHA256'', ''TLS_RSA_WITH_AES_256_GCM_SHA384''],
      ResolvConf = [],
      config_TypeMeta = \<lparr>Kind = ''KubeletConfiguration'', APIVersion = ''kubelet.config.k8s.io/v1beta1''\<rparr>\<rparr>"

definition withFallbackClusterDns :: "kubelet_env \<Rightarrow> ClusterDetails \<Rightarrow> kubeletConfig \<Rightarrow> goerr + kubeletConfig" where
  "withFallbackClusterDns ke cluster ksc =
     (case GetClusterDns (ke_ip6 ke) (CIDR cluster) of
        Inl err \<Rightarrow> Inl err | Inr clusterDns \<Rightarrow> Inr (ksc\<lparr>ClusterDNS := [clusterDns]\<rparr>))"

text \<open>Appending to an existing file without creating it.\<close>

definition append_existing :: "environment \<Rightarrow> path \<Rightarrow> bytes \<Rightarrow> unit wio" where
  "append_existing env p d =
     thenE (sys env (OpOpen p) no_part
              (\<lambda>f. (case f p of
                      Some (RegFile _ _) \<Rightarrow> Inr ()
                    | Some (DirNode _) \<Rightarrow> Inl (ErrMsg (''open '' @ p @ '': is a directory''))
                    | None \<Rightarrow> Inl (ErrNotExist (''open '' @ p @ '': no such file or directory'')), f)))
       (file_Write env p d)"

definition withOutpostSetup :: "environment \<Rightarrow> kubelet_env \<Rightarrow> NodeConfig \<Rightarrow> unit wio" where
  "withOutpostSetup env ke cfg =
     (if EnableOutpost (Cluster (Spec cfg)) = Some True then
        if cl_ID (Cluster (Spec cfg)) = [] then throwE (ErrMsg ''clusterId cannot be empty when outpost is enabled.'')
        else (case ke_url_host ke (APIServerEndpoint (Cluster (Spec cfg))) of
                Inl err \<Rightarrow> throwE err
              | Inr host \<Rightarrow>
                  (case ke_lookup_host ke host of
                     Inl err \<Rightarrow> throwE err
                   | Inr ipAddresses \<Rightarrow>
                       append_existing env ''/etc/hosts''
                         (join_with [newline] (map (\<lambda>i. i @ [CHR 0x09] @ host) ipAddresses) @ [newline])))
      else returnE ())"

section \<open>Flags\<close>

definition set_flag :: "string \<Rightarrow> string \<Rightarrow> kubelet \<Rightarrow> kubelet" where
  "set_flag name v k = k\<lparr>flags := AList.update name v (flags k)\<rparr>"

definition setEnv :: "string \<Rightarrow> string \<Rightarrow> kubelet \<Rightarrow> kubelet" where
  "setEnv envName envArg k = k\<lparr>kubelet_environment := AList.update envName envArg (kubelet_environment k)\<rparr>"

definition getProviderId :: "string \<Rightarrow> string \<Rightarrow> string" where
  "getProviderId availabilityZone instanceId = ''aws:///'' @ availabilityZone @ ''/'' @ instanceId"

definition getHybridProviderId :: "NodeConfig \<Rightarrow> string" where
  "getHybridProviderId cfg =
     ''eks-hybrid'' @ '':///'' @ cl_Region (Cluster (Spec cfg)) @ ''/'' @ cl_Name (Cluster (Spec cfg)) @ ''/'' @ hybrid_NodeName (Status cfg)"

definition withHybridCloudProvider :: "kubeletConfig \<times> kubelet \<Rightarrow> kubeletConfig \<times> kubelet" where
  "withHybridCloudProvider = (\<lambda>(ksc, k).
     (ksc\<lparr>ProviderID := Some (getHybridProviderId (nodeConfig k))\<rparr>,
      set_flag ''hostname-override'' (hybrid_NodeName (Status (nodeConfig k))) (set_flag ''cloud-provider'' [] k)))"

definition withCloudProvider :: "kubeletConfig \<times> kubelet \<Rightarrow> kubeletConfig \<times> kubelet" where
  "withCloudProvider = (\<lambda>(ksc, k).
     (ksc\<lparr>ProviderID := Some (getProviderId (instance_AvailabilityZone (Status (nodeConfig k))) (instance_ID (Status (nodeConfig k))))\<rparr>,
      set_flag ''hostname-override'' (instance_PrivateDNSName (Status (nodeConfig k))) (set_flag ''cloud-provider'' ''external'' k)))"

definition node_type_text :: "NodeType \<Rightarrow> string" where
  "node_type_text t = (case t of NT_Ssm \<Rightarrow> ''ssm'' | NT_IamRolesAnywhere \<Rightarrow> ''iam-ra'' | NT_Ec2 \<Rightarrow> ''ec2'' | NT_Outpost \<Rightarrow> ''outpost'')"

definition withHybridNodeLabels :: "kubelet \<Rightarrow> kubelet" where
  "withHybridNodeLabels k =
     set_flag ''node-labels''
       (join_with '',''
          [''eks.amazonaws.com/compute-type=hybrid'',
           ''eks.amazonaws.com/hybrid-credential-provider'' @ ''='' @ node_type_text (GetNodeType (nodeConfig k))]) k"

definition withPodInfraContainerImage :: "kubelet_env \<Rightarrow> string \<Rightarrow> kubelet \<Rightarrow> kubelet" where
  "withPodInfraContainerImage ke kubeletVersion k =
     (if before_1_29 ke kubeletVersion then set_flag ''pod-infra-container-image'' (SandboxImage (Status (nodeConfig k))) k else k)"

definition getNodeIp :: "kubelet_env \<Rightarrow> NodeConfig \<Rightarrow> string wio" where
  "getNodeIp ke cfg =
     bindE (liftE (GetCIDRIpFamily (ke_ip6 ke) (CIDR (Cluster (Spec cfg))))) (\<lambda>ipFamily.
       let q = (case ipFamily of
                  IPFamilyIPv4 \<Rightarrow> ''local-ipv4''
                | IPFamilyIPv6 \<Rightarrow> ''network/interfaces/macs/'' @ instance_MAC (Status cfg) @ ''/ipv6s'')
       in read_answer (api_call ''imds:GetMetadata'' q (\<lambda>n. ke_imds ke n q)))"

definition withNodeIp :: "kubelet_env \<Rightarrow> kubelet \<Rightarrow> kubelet wio" where
  "withNodeIp ke k = bindE (getNodeIp ke (nodeConfig k)) (\<lambda>nodeIp. returnE (set_flag ''node-ip'' nodeIp k))"

section \<open>Reserved resources\<close>

text \<open>Go's \<open>int\<close> has 64 bits: every result wraps (\<open>go_int\<close>), and \<open>/\<close> truncates towards zero.\<close>

definition getResourceToReserveInRange :: "int \<Rightarrow> int \<Rightarrow> int \<Rightarrow> int \<Rightarrow> int" where
  "getResourceToReserveInRange totalCPU startRange endRange percentage =
     (if totalCPU \<le> startRange then 0
      else (let reserved = (if totalCPU > endRange then endRange else totalCPU) in
            go_int (go_int (reserved - startRange) * percentage) sdiv 10000))"

definition cpuRanges :: "int \<Rightarrow> int list" where
  "cpuRanges totalCPUMillicores = [0, 1000, 2000, 4000, totalCPUMillicores]"

definition cpuPercentageReservedForRanges :: "int list" where
  "cpuPercentageReservedForRanges = [600, 100, 50, 25]"

definition cpu_to_reserve :: "int \<Rightarrow> int" where
  "cpu_to_reserve totalCPU =
     foldl (\<lambda>cpuToReserve i.
              go_int (cpuToReserve + getResourceToReserveInRange totalCPU (cpuRanges totalCPU ! i) (cpuRanges totalCPU ! Suc i)
                                       (cpuPercentageReservedForRanges ! i)))
       0 [0..<length cpuPercentageReservedForRanges]"

definition getCPUMillicoresToReserve :: "environment \<Rightarrow> kubelet_env \<Rightarrow> int wio" where
  "getCPUMillicoresToReserve env ke =
     bindE (tryE (GetMilliNumCores env (ke_glob ke))) (\<lambda>r. case r of
        Inl _ \<Rightarrow> returnE 0
      | Inr totalCPUMillicores \<Rightarrow> returnE (cpu_to_reserve totalCPUMillicores))"

definition getMemoryMebibytesToReserve :: "32 word \<Rightarrow> 32 word" where
  "getMemoryMebibytesToReserve maxPods = 11 * maxPods + 255"

text \<open>\<open>MaxPodsPerInstanceType\<close>, built by \<open>init\<close> from the embedded table; a later line overrides an earlier one.\<close>

fun max_pods_loop :: "string list \<Rightarrow> (string \<times> int) list \<Rightarrow> (string \<times> int) list" where
  "max_pods_loop [] m = m"
| "max_pods_loop (l # ls) m =
     (let line = TrimSpace l in
      if line = [] \<or> HasPrefix line ''#'' then max_pods_loop ls m
      else (case Fields line of
              [instanceType, n] \<Rightarrow>
                (case Atoi n of None \<Rightarrow> max_pods_loop ls m | Some maxPods \<Rightarrow> max_pods_loop ls (AList.update instanceType maxPods m))
            | _ \<Rightarrow> max_pods_loop ls m))"

definition MaxPodsPerInstanceType :: "string \<Rightarrow> (string \<times> int) list" where
  "MaxPodsPerInstanceType eniMaxPods = max_pods_loop (split_on newline eniMaxPods) []"

definition GetEniInfoForInstanceType :: "kubelet_env \<Rightarrow> string \<Rightarrow> (32 word \<times> 32 word) wio" where
  "GetEniInfoForInstanceType ke instanceType =
     bindE (wrapE (''error describing instance type '' @ instanceType)
              (api_call ''DescribeInstanceTypes'' instanceType (\<lambda>n. ke_describe_instance_types ke n instanceType))) (\<lambda>r. case r of
        info # _ \<Rightarrow> returnE info
      | [] \<Rightarrow> throwE (ErrMsg (''no instance found for type: '' @ instanceType)))"

definition defaultMaxPods :: "32 word" where "defaultMaxPods = 110"

definition CalcMaxPods :: "kubelet_env \<Rightarrow> string \<Rightarrow> string \<Rightarrow> 32 word wio" where
  "CalcMaxPods ke awsRegion instanceType =
     (case ke_load_aws_config ke awsRegion of
        Inl _ \<Rightarrow> returnE defaultMaxPods
      | Inr _ \<Rightarrow>
          bindE (tryE (GetEniInfoForInstanceType ke instanceType)) (\<lambda>r. case r of
             Inl _ \<Rightarrow> returnE defaultMaxPods
           | Inr (eniCount, podsPerEniCount) \<Rightarrow> returnE (eniCount * (podsPerEniCount - 1) + 2)))"

definition reserved_resources :: "int \<Rightarrow> string \<Rightarrow> (string \<times> string) list" where
  "reserved_resources cpu memory = [(''cpu'', itoa cpu @ ''m''), (''ephemeral-storage'', ''1Gi''), (''memory'', memory)]"

definition withDefaultReservedResources :: "environment \<Rightarrow> kubelet_env \<Rightarrow> NodeConfig \<Rightarrow> kubeletConfig \<Rightarrow> kubeletConfig wio" where
  "withDefaultReservedResources env ke cfg ksc =
     bindE (case map_of (MaxPodsPerInstanceType (ke_eni_max_pods ke)) (instance_Type (Status cfg)) of
              None \<Rightarrow> CalcMaxPods ke (instance_Region (Status cfg)) (instance_Type (Status cfg))
            | Some maxPods \<Rightarrow> returnE (word_of_int maxPods)) (\<lambda>maxPods.
      bindE (getCPUMillicoresToReserve env ke) (\<lambda>cpu.
       returnE (ksc\<lparr>SystemReservedCgroup := Some ''/system'', KubeReservedCgroup := Some ''/runtime'', MaxPods := maxPods,
                    KubeReserved := reserved_resources cpu (itoa (sint (getMemoryMebibytesToReserve maxPods)) @ ''Mi'')\<rparr>)))"

text \<open>The reserved memory of a hybrid node, in hundredths of a GiB before rounding. The code computes it in
  \<open>float64\<close> and rounds half away from zero; an exhaustive comparison gives the same results as this
  exact arithmetic for every machine of 1 to 200000 GiB.\<close>

definition hybrid_memory_hundredths :: "nat \<Rightarrow> nat" where
  "hybrid_memory_hundredths g =
     (if g < 4 then g * 25
      else if g < 8 then 25 * 4 + (g - 4) * 20
      else if g < 16 then 25 * 4 + 20 * 4 + (g - 8) * 10
      else if g \<le> 128 then 25 * 4 + 20 * 4 + 10 * 8 + (g - 16) * 6
      else 25 * 4 + 20 * 4 + 10 * 8 + 6 * 112 + (g - 128) * 2)"

definition round_hundredths :: "nat \<Rightarrow> nat" where
  "round_hundredths n = (n + 50) div 100"

definition hybrid_reserved_memory :: "nat \<Rightarrow> string" where
  "hybrid_reserved_memory totalMemoryGiB =
     (if totalMemoryGiB < 1 then ''255Mi''
      else dec_digits (round_hundredths (hybrid_memory_hundredths totalMemoryGiB)) @ ''Gi'')"

definition withHybridReservedResources :: "environment \<Rightarrow> kubelet_env \<Rightarrow> kubeletConfig \<Rightarrow> kubeletConfig wio" where
  "withHybridReservedResources env ke ksc =
     bindE (GetMachineMemoryCapacity env) (\<lambda>totalMemory.
      let totalMemoryGiB = unat (totalMemory div (1024 * 1024 * 1024)) in
      bindE (getCPUMillicoresToReserve env ke) (\<lambda>cpu.
       returnE (ksc\<lparr>SystemReservedCgroup := Some ''/system'', KubeReservedCgroup := Some ''/runtime'',
                    KubeReserved := reserved_resources cpu (hybrid_reserved_memory totalMemoryGiB)\<rparr>)))"

section \<open>The configuration of a node\<close>

definition GenerateKubeletConfig :: "environment \<Rightarrow> kubelet_env \<Rightarrow> kubelet \<Rightarrow> (kubeletConfig \<times> kubelet) wio" where
  "GenerateKubeletConfig env ke k =
     bindE (GetKubeletVersion env) (\<lambda>kubeletVersion.
      bindE (liftE (withFallbackClusterDns ke (Cluster (Spec (nodeConfig k))) defaultKubeletSubConfig)) (\<lambda>ksc.
       thenE (withOutpostSetup env ke (nodeConfig k))
        (let k1 = withPodInfraContainerImage ke kubeletVersion k in
         if IsHybridNode (nodeConfig k) then
           (case withHybridCloudProvider (ksc, k1) of (ksc1, k2) \<Rightarrow>
              let k3 = withHybridNodeLabels k2 in
              bindE (withHybridReservedResources env ke ksc1) (\<lambda>ksc2.
               bindE (GetOsName env) (\<lambda>osName.
                returnE (if osName = ''ubuntu'' then ksc2\<lparr>ResolvConf := ''/run/systemd/resolve/resolv.conf''\<rparr> else ksc2, k3))))
         else
           bindE (withNodeIp ke k1) (\<lambda>k2.
             case withCloudProvider (ksc, k2) of (ksc1, k3) \<Rightarrow>
               bindE (withDefaultReservedResources env ke (nodeConfig k) ksc1) (\<lambda>ksc2. returnE (ksc2, k3))))))"

definition kubelet_config_path :: path where
  "kubelet_config_path = Join [kubeletConfigRoot, ''config.json'']"

definition kubelet_dropin_dir :: path where
  "kubelet_dropin_dir = Join [kubeletConfigRoot, ''config.json.d'']"

text \<open>\<open>util.DocumentMerge\<close> with the user's document, then \<open>json.MarshalIndent\<close>.\<close>

definition mergedConfig :: "kubelet_env \<Rightarrow> bool \<Rightarrow> goerr + bytes \<Rightarrow> (string \<times> bytes) list \<Rightarrow> goerr + bytes" where
  "mergedConfig ke override generated user =
     (case DocumentMerge (ke_json ke) override generated (js_MarshalDocument (ke_json ke) user) of
        Inl err \<Rightarrow> Inl err
      | Inr mergedMap \<Rightarrow> js_MarshalIndent (ke_json ke) mergedMap)"

definition writeKubeletConfigToFile :: "environment \<Rightarrow> kubelet_env \<Rightarrow> kubelet \<Rightarrow> kubelet wio" where
  "writeKubeletConfigToFile env ke k =
     bindE (GenerateKubeletConfig env ke k) (\<lambda>(ksc, k1).
      bindE (liftE (if length (kubelet_Config (Kubelet_opts (Spec (nodeConfig k)))) > 0
                    then mergedConfig ke True (ke_Marshal ke ksc) (kubelet_Config (Kubelet_opts (Spec (nodeConfig k))))
                    else ke_marshal ke ksc)) (\<lambda>bytes.
       thenE (WriteFileWithDir env kubelet_config_path bytes kubeletConfigPerm)
        (returnE (set_flag ''config'' kubelet_config_path k1))))"

definition writeKubeletConfigToDir :: "environment \<Rightarrow> kubelet_env \<Rightarrow> kubelet \<Rightarrow> kubelet wio" where
  "writeKubeletConfigToDir env ke k =
     bindE (GenerateKubeletConfig env ke k) (\<lambda>(ksc, k1).
      bindE (liftE (ke_marshal ke ksc)) (\<lambda>bytes.
       let k2 = set_flag ''config'' kubelet_config_path k1; user = kubelet_Config (Kubelet_opts (Spec (nodeConfig k))) in
       thenE (WriteFileWithDir env kubelet_config_path bytes kubeletConfigPerm)
        (if length user > 0 then
           let k3 = setEnv ''KUBELET_CONFIG_DROPIN_DIR_ALPHA'' ''on'' (set_flag ''config-dir'' kubelet_dropin_dir k2) in
           bindE (liftE (mergedConfig ke False (ke_Marshal_type ke (config_TypeMeta defaultKubeletSubConfig)) user)) (\<lambda>userBytes.
            thenE (WriteFileWithDir env (Join [kubelet_dropin_dir, ''00-nodeadm.conf'']) userBytes kubeletConfigPerm)
             (returnE k3))
         else returnE k2)))"

definition writeKubeletConfig :: "environment \<Rightarrow> kubelet_env \<Rightarrow> kubelet \<Rightarrow> kubelet wio" where
  "writeKubeletConfig env ke k =
     bindE (GetKubeletVersion env) (\<lambda>kubeletVersion.
      if before_1_29 ke kubeletVersion then writeKubeletConfigToFile env ke k else writeKubeletConfigToDir env ke k)"

section \<open>The node name on disk\<close>

text \<open>The match of \<open>^eks-hybrid:///[^/]+/[^/]+/(.+)$\<close>: a first part, a second part, and the rest without
  a line feed.\<close>

definition node_name_of_provider_id :: "string \<Rightarrow> string option" where
  "node_name_of_provider_id s =
     (case CutPrefix s ''eks-hybrid:///'' of (rest, has) \<Rightarrow>
        if \<not> has then None
        else (case cut_at CHR ''/'' rest of (region, r1, f1) \<Rightarrow>
                case cut_at CHR ''/'' r1 of (cluster, name, f2) \<Rightarrow>
                  if f1 \<and> f2 \<and> region \<noteq> [] \<and> cluster \<noteq> [] \<and> name \<noteq> [] \<and> newline \<notin> set name then Some name else None))"

definition getKubeletConfigFromDisk :: "environment \<Rightarrow> kubelet_env \<Rightarrow> kubeletConfig wio" where
  "getKubeletConfigFromDisk env ke = bindE (os_ReadFile env kubelet_config_path) (\<lambda>data. liftE (ke_unmarshal ke data))"

definition GetNodeName :: "environment \<Rightarrow> kubelet_env \<Rightarrow> string wio" where
  "GetNodeName env ke =
     bindE (wrapE ''failed to get kubelet configuration from disk'' (getKubeletConfigFromDisk env ke)) (\<lambda>kubeletConf.
      case ProviderID kubeletConf of
        None \<Rightarrow> panicE
      | Some pid \<Rightarrow>
          (case node_name_of_provider_id pid of
             Some name \<Rightarrow> returnE name
           | None \<Rightarrow> throwE (ErrMsg ''failed to get node name from provider id'')))"

section \<open>Kubeconfig\<close>

record kubeconfigTemplateVars =
  tv_Cluster :: string
  tv_Region :: string
  tv_APIServerEndpoint :: string
  CaCertPath :: string
  tv_AwsConfigPath :: string
  AwsIamAuthenticatorPath :: string
  AwsProfile :: string

definition newKubeconfigTemplateVars :: "NodeConfig \<Rightarrow> kubeconfigTemplateVars" where
  "newKubeconfigTemplateVars cfg =
     \<lparr>tv_Cluster = cl_Name (Cluster (Spec cfg)), tv_Region = instance_Region (Status cfg),
      tv_APIServerEndpoint = APIServerEndpoint (Cluster (Spec cfg)), CaCertPath = caCertificatePath,
      tv_AwsConfigPath = [], AwsIamAuthenticatorPath = [], AwsProfile = []\<rparr>"

definition withOutpostVars :: "NodeConfig \<Rightarrow> kubeconfigTemplateVars \<Rightarrow> kubeconfigTemplateVars" where
  "withOutpostVars cfg kct = kct\<lparr>tv_Cluster := cl_ID (Cluster (Spec cfg))\<rparr>"

definition withHybridTemplateVars :: "NodeConfig \<Rightarrow> kubeconfigTemplateVars \<Rightarrow> kubeconfigTemplateVars" where
  "withHybridTemplateVars cfg kct =
     (case Hybrid (Spec cfg) of
        None \<Rightarrow> kct
      | Some h \<Rightarrow>
          (case ho_IAMRolesAnywhere h of
             Some ra \<Rightarrow> kct\<lparr>tv_Region := cl_Region (Cluster (Spec cfg)), tv_AwsConfigPath := AwsConfigPath ra, AwsProfile := ''default''\<rparr>
           | None \<Rightarrow> (case ho_SSM h of Some _ \<Rightarrow> kct\<lparr>tv_Region := cl_Region (Cluster (Spec cfg))\<rparr> | None \<Rightarrow> kct)))
       \<lparr>AwsIamAuthenticatorPath := iamauthenticator_BinPath\<rparr>"

definition q2 :: "string \<Rightarrow> string" where
  "q2 s = CHR 0x22 # s @ [CHR 0x22]"

definition kubeconfig_head :: "kubeconfigTemplateVars \<Rightarrow> string list" where
  "kubeconfig_head v =
     [''---'', ''apiVersion: v1'', ''kind: Config'', ''clusters:'', ''  - name: kubernetes'', ''    cluster:'',
      ''      certificate-authority: '' @ CaCertPath v, ''      server: '' @ tv_APIServerEndpoint v,
      ''current-context: kubelet'', ''contexts:'', ''  - name: kubelet'', ''    context:'', ''      cluster: kubernetes'',
      ''      user: kubelet'', ''users:'', ''  - name: kubelet'', ''    user:'', ''      exec:'',
      ''        apiVersion: client.authentication.k8s.io/v1beta1'']"

definition arg_lines :: "string list \<Rightarrow> string list" where
  "arg_lines as = map (\<lambda>a. ''          - '' @ q2 a) as"

definition hybridKubeconfigTemplate :: "kubeconfigTemplateVars \<Rightarrow> string list" where
  "hybridKubeconfigTemplate v =
     kubeconfig_head v @ [''        command: '' @ q2 (AwsIamAuthenticatorPath v)] @
     (if tv_AwsConfigPath v \<noteq> [] then
        [''        env:'', ''          - name: '' @ q2 ''AWS_PROFILE'', ''            value: '' @ q2 (AwsProfile v),
         ''          - name: '' @ q2 ''AWS_CONFIG_FILE'', ''            value: '' @ q2 (tv_AwsConfigPath v)]
      else []) @
     [''        args:''] @ arg_lines [''token'', ''--cluster-id'', tv_Cluster v, ''--region'', tv_Region v]"

definition kubeconfigTemplate :: "kubeconfigTemplateVars \<Rightarrow> string list" where
  "kubeconfigTemplate v =
     kubeconfig_head v @ [''        command: aws'', ''        args:''] @
     arg_lines [''eks'', ''get-token'', ''--cluster-name'', tv_Cluster v, ''--region'', tv_Region v]"

definition generateKubeconfig :: "NodeConfig \<Rightarrow> bytes" where
  "generateKubeconfig cfg =
     (let v0 = newKubeconfigTemplateVars cfg;
          v1 = (if IsOutpostNode cfg then withOutpostVars cfg v0 else v0);
          v2 = (if IsHybridNode cfg then withHybridTemplateVars cfg v1 else v1)
      in concat (map (\<lambda>l. l @ [newline]) (if IsHybridNode cfg then hybridKubeconfigTemplate v2 else kubeconfigTemplate v2)))"

definition kubeconfigBootstrapPath :: path where
  "kubeconfigBootstrapPath = Join [kubeconfigRoot, ''bootstrap-kubeconfig'']"

definition writeKubeconfig :: "environment \<Rightarrow> kubelet \<Rightarrow> kubelet wio" where
  "writeKubeconfig env k =
     (let kubeconfig = generateKubeconfig (nodeConfig k) in
      if IsOutpostNode (nodeConfig k) then
        thenE (WriteFileWithDir env kubeconfigBootstrapPath kubeconfig 420)
          (returnE (set_flag ''bootstrap-kubeconfig'' kubeconfigBootstrapPath k))
      else
        thenE (WriteFileWithDir env kubeconfigPath kubeconfig 420)
          (returnE (set_flag ''kubeconfig'' kubeconfigPath k)))"

section \<open>Credential provider, certificate, environment file\<close>

definition imageCredentialProviderRoot :: path where "imageCredentialProviderRoot = ''/etc/eks/image-credential-provider''"

definition imageCredentialProviderConfigPath :: path where
  "imageCredentialProviderConfigPath = Join [imageCredentialProviderRoot, ''config.json'']"

definition ensureCredentialProviderBinaryExists :: "environment \<Rightarrow> path \<Rightarrow> unit wio" where
  "ensureCredentialProviderBinaryExists env binPath =
     bindE (mapErrE (\<lambda>err. ErrMsg (''image credential provider binary was not found on path '' @ binPath @ ''. error: '' @ error_text err))
              (os_Stat env binPath)) (\<lambda>_. returnE ())"

text \<open>Of the configuration only the provider's name and environment depend on the input.\<close>

definition generateImageCredentialProviderConfig ::
  "kubelet_env \<Rightarrow> NodeConfig \<Rightarrow> path \<Rightarrow> CredentialProviderAwsConfig \<Rightarrow> goerr + bytes" where
  "generateImageCredentialProviderConfig ke cfg binPath aws =
     (let e1 = (case Hybrid (Spec cfg) of
                  Some h \<Rightarrow> (case ho_IAMRolesAnywhere h of Some ra \<Rightarrow> [(''AWS_CONFIG_FILE'', AwsConfigPath ra)] | None \<Rightarrow> [])
                | None \<Rightarrow> []);
          e2 = (if cp_Profile aws \<noteq> [] then [(''AWS_PROFILE'', cp_Profile aws)] else []);
          e3 = (if CredentialsPath aws \<noteq> [] then [(''AWS_SHARED_CREDENTIALS_FILE'', CredentialsPath aws)] else [])
      in case ke_marshal_provider ke \<lparr>cpc_name = Base binPath, cpc_env = e1 @ e2 @ e3\<rparr> of
           Inl err \<Rightarrow> Inl (ErrWrap ''marshalling image credential provider config'' err)
         | Inr data \<Rightarrow> Inr data)"

definition writeImageCredentialProviderConfig :: "environment \<Rightarrow> kubelet_env \<Rightarrow> kubelet \<Rightarrow> kubelet wio" where
  "writeImageCredentialProviderConfig env ke k =
     (let binPath = (case lookup_env env ''ECR_CREDENTIAL_PROVIDER_BIN_PATH'' of
                       Some p \<Rightarrow> p | None \<Rightarrow> Join [imageCredentialProviderRoot, ''ecr-credential-provider''])
      in thenE (ensureCredentialProviderBinaryExists env binPath)
          (bindE (liftE (generateImageCredentialProviderConfig ke (nodeConfig k) binPath (credentialProviderAwsConfig k))) (\<lambda>conf.
            thenE (WriteFileWithDir env imageCredentialProviderConfigPath conf 420)
              (returnE (set_flag ''image-credential-provider-config'' imageCredentialProviderConfigPath
                          (set_flag ''image-credential-provider-bin-dir'' (Dir binPath) k))))))"

definition writeClusterCaCert :: "environment \<Rightarrow> bytes \<Rightarrow> unit wio" where
  "writeClusterCaCert env caCert = WriteFileWithDir env caCertificatePath caCert kubeletConfigPerm"

definition kubelet_args :: "kubelet_env \<Rightarrow> kubelet \<Rightarrow> string list" where
  "kubelet_args ke k =
     map (\<lambda>(flag, v). ''--'' @ flag @ ''='' @ v) (ke_range ke (flags k)) @ kubelet_Flags (Kubelet_opts (Spec (nodeConfig k)))"

definition kubeletEnvironmentFilePath :: path where "kubeletEnvironmentFilePath = ''/etc/eks/kubelet/environment''"

definition writeKubeletEnvironment :: "environment \<Rightarrow> kubelet_env \<Rightarrow> kubelet \<Rightarrow> unit wio" where
  "writeKubeletEnvironment env ke k =
     (let k1 = setEnv ''NODEADM_KUBELET_ARGS'' (join_with '' '' (kubelet_args ke k)) k in
      WriteFileWithDir env kubeletEnvironmentFilePath
        (join_with [newline] (map (\<lambda>(eKey, eValue). eKey @ ''='' @ q2 eValue) (ke_range ke (kubelet_environment k1))))
        kubeletConfigPerm)"

section \<open>The daemon\<close>

definition NewKubeletDaemon :: "NodeConfig \<Rightarrow> CredentialProviderAwsConfig \<Rightarrow> string list option \<Rightarrow> kubelet" where
  "NewKubeletDaemon cfg aws skipPhases =
     \<lparr>nodeConfig = cfg, kubelet_environment = [], flags = [], credentialProviderAwsConfig = aws, kubelet_skipPhases = skipPhases\<rparr>"

text \<open>A step as a validation. In the state \<open>None\<close> an earlier one has not returned, and nothing more runs.\<close>

definition as_validation :: "(NodeConfig \<Rightarrow> unit wio) \<Rightarrow> (NodeConfig, world option) validate" where
  "as_validation m nc s =
     (case s of
        None \<Rightarrow> (None, nc, None)
      | Some w \<Rightarrow>
          (case m nc w of
             None \<Rightarrow> (None, nc, None)
           | Some (Inl e, w') \<Rightarrow> (Some e, nc, Some w')
           | Some (Inr _, w') \<Rightarrow> (None, nc, Some w')))"

text \<open>A runner whose state is the world, as a step: a panic and a validation that does not return do not return.\<close>

definition run_steps :: "(NodeConfig, world option) runner \<Rightarrow> NodeConfig \<Rightarrow> unit wio" where
  "run_steps r nc = (\<lambda>w.
     case Sequentially r nc (Some w) of
       (Panicked _, _) \<Rightarrow> None
     | (Returned _, None) \<Rightarrow> None
     | (Returned None, Some w') \<Rightarrow> Some (Inr (), w')
     | (Returned (Some e), Some w') \<Rightarrow> Some (Inl e, w'))"

text \<open>\<open>request\<close> is the \<open>MakeAuthenticatedRequest\<close> of the API server validator.\<close>

definition kubelet_Configure :: "environment \<Rightarrow> kubelet_env \<Rightarrow> unit wio \<Rightarrow> kubelet \<Rightarrow> unit wio" where
  "kubelet_Configure env ke request k =
     bindE (writeKubeletConfig env ke k) (\<lambda>k1.
     bindE (writeKubeconfig env k1) (\<lambda>k2.
     bindE (writeImageCredentialProviderConfig env ke k2) (\<lambda>k3.
     thenE (writeClusterCaCert env (case CertificateAuthority (Cluster (Spec (nodeConfig k))) of Some ca \<Rightarrow> ca | None \<Rightarrow> []))
      (thenE (writeKubeletEnvironment env ke k3)
        (case kubelet_skipPhases k of
           None \<Rightarrow> returnE ()
         | Some skipPhases \<Rightarrow>
             run_steps
               (Register (NewRunner [WithSkipValidations skipPhases])
                  [New ''k8s-authentication-validation'' (as_validation (\<lambda>_. request))])
               (nodeConfig k))))))"

definition KubeletDaemonName :: string where "KubeletDaemonName = ''kubelet''"

definition kubelet_EnsureRunning :: "environment \<Rightarrow> ctx \<Rightarrow> unit wio" where
  "kubelet_EnsureRunning env c =
     thenE (DaemonReload env)
      (thenE (EnableDaemon env KubeletDaemonName)
       (bindE (RestartDaemon env KubeletDaemonName []) (\<lambda>_.
         with_timeout c (seconds 300) (\<lambda>c'.
           wrapE ''waiting for kubelet to be running''
             (WaitForStatus env c' KubeletDaemonName DaemonStatusRunning (seconds 5))))))"

definition kubelet_Stop :: "environment \<Rightarrow> unit wio" where
  "kubelet_Stop env = StopDaemon env KubeletDaemonName"

section \<open>Facts\<close>

text \<open>The reserved share of the processors: 6% of the first core, 1% of the second, 0.5% of the next two and
  0.25% of the rest.\<close>

definition reserve_in_range :: "int \<Rightarrow> int \<Rightarrow> int \<Rightarrow> int \<Rightarrow> int" where
  "reserve_in_range t s e p = (if t \<le> s then 0 else (min t e - s) * p div 10000)"

text \<open>Below the bound at which the 64-bit product wraps, the code computes the share exactly.\<close>

lemma reserve_exact:
  assumes "0 \<le> s" "s < e \<or> t \<le> s" "0 < p" "p * (min t e - s) < 2 ^ 63"
  shows "getResourceToReserveInRange t s e p = reserve_in_range t s e p"
proof (cases "t \<le> s")
  case False
  define r where "r = min t e - s"
  have r: "0 < r" "r \<le> r * p" using False assms by (auto simp: r_def mult_le_cancel_left1)
  have rp: "r * p < 2 ^ 63" using assms(4) by (simp add: r_def mult.commute)
  have "go_int r = r" by (rule go_int_id; use r rp in linarith)
  moreover have "go_int (r * p) = r * p" by (rule go_int_id; use r rp in linarith)
  moreover have "(if t > e then e else t) - s = r" by (simp add: r_def)
  moreover have "0 < r * p" using r by linarith
  ultimately show ?thesis using False
    by (simp add: getResourceToReserveInRange_def reserve_in_range_def signed_divide_int_def Let_def flip: r_def)
qed (simp add: getResourceToReserveInRange_def reserve_in_range_def)

lemma reserve_bounds:
  assumes "0 \<le> p" "s \<le> e" "0 \<le> s"
  shows "0 \<le> reserve_in_range t s e p"
    and "10000 * reserve_in_range t s e p \<le> p * max 0 (min t e - s)"
  using assms by (auto simp: reserve_in_range_def pos_imp_zdiv_nonneg_iff mult.commute min_def max_def
      intro: order_trans [OF _ zdiv_mono1])

lemma reserve_mono:
  "0 \<le> p \<Longrightarrow> s \<le> e \<Longrightarrow> e \<le> e' \<Longrightarrow> t \<le> t' \<Longrightarrow> reserve_in_range t s e p \<le> reserve_in_range t' s e' p"
  by (auto simp: reserve_in_range_def pos_imp_zdiv_nonneg_iff intro!: zdiv_mono1 mult_right_mono)

lemma reserve_last:
  "0 \<le> reserve_in_range t 4000 t 25" "10000 * reserve_in_range t 4000 t 25 \<le> 25 * max 0 (t - 4000)"
  using reserve_bounds [of 25 4000 t t] by (cases "4000 \<le> t"; simp add: reserve_in_range_def)+

lemma cpu_to_reserve_sum:
  assumes "25 * t < 2 ^ 63"
  shows "cpu_to_reserve t =
     reserve_in_range t 0 1000 600 + reserve_in_range t 1000 2000 100 +
     reserve_in_range t 2000 4000 50 + reserve_in_range t 4000 t 25"
proof -
  let ?a = "reserve_in_range t 0 1000 600" and ?b = "reserve_in_range t 1000 2000 100"
  let ?c = "reserve_in_range t 2000 4000 50" and ?d = "reserve_in_range t 4000 t 25"
  have eqs: "getResourceToReserveInRange t 0 1000 600 = ?a" "getResourceToReserveInRange t 1000 2000 100 = ?b"
    "getResourceToReserveInRange t 2000 4000 50 = ?c" "getResourceToReserveInRange t 4000 t 25 = ?d"
    by (rule reserve_exact; use assms in \<open>auto simp: min_def\<close>)+
  have lo: "0 \<le> ?a" "0 \<le> ?b" "0 \<le> ?c" "0 \<le> ?d"
    using reserve_bounds(1) [of 600 0 1000 t] reserve_bounds(1) [of 100 1000 2000 t] reserve_bounds(1) [of 50 2000 4000 t] reserve_last
    by simp_all
  have "10000 * ?a \<le> 600 * 1000" "10000 * ?b \<le> 100 * 1000" "10000 * ?c \<le> 50 * 2000" "10000 * ?d < 2 ^ 63"
    using reserve_bounds(2) [of 600 0 1000 t] reserve_bounds(2) [of 100 1000 2000 t] reserve_bounds(2) [of 50 2000 4000 t]
      reserve_last(2) [of t] assms
    by (auto simp: min_def max_def split: if_splits)
  then have "?a + ?b + ?c + ?d < 2 ^ 63" by simp
  with lo have "go_int ?a = ?a" "go_int (?a + ?b) = ?a + ?b" "go_int (?a + ?b + ?c) = ?a + ?b + ?c"
    "go_int (?a + ?b + ?c + ?d) = ?a + ?b + ?c + ?d"
    by (intro go_int_id; linarith)+
  then show ?thesis
    by (simp add: cpu_to_reserve_def cpuRanges_def cpuPercentageReservedForRanges_def upt_conv_Cons eqs)
qed

lemma cpu_to_reserve_mono: "t \<le> t' \<Longrightarrow> 25 * t' < 2 ^ 63 \<Longrightarrow> cpu_to_reserve t \<le> cpu_to_reserve t'"
proof -
  assume t: "t \<le> t'" "25 * t' < 2 ^ 63"
  then have "25 * t < 2 ^ 63" by linarith
  moreover have "reserve_in_range t 4000 t 25 \<le> reserve_in_range t' 4000 t' 25"
    using t by (auto simp: reserve_in_range_def pos_imp_zdiv_nonneg_iff intro!: zdiv_mono1)
  ultimately show ?thesis unfolding cpu_to_reserve_sum [OF t(2)]
    using reserve_mono [of 600 0 1000 1000 t t'] reserve_mono [of 100 1000 2000 2000 t t'] reserve_mono [of 50 2000 4000 4000 t t'] t
    by (simp add: cpu_to_reserve_sum)
qed

lemma cpu_to_reserve_large: "4000 \<le> t \<Longrightarrow> 25 * t < 2 ^ 63 \<Longrightarrow> cpu_to_reserve t = 80 + (t - 4000) div 400"
  by (auto simp: cpu_to_reserve_sum reserve_in_range_def min_def)

lemma cpu_to_reserve_small:
  "cpu_to_reserve 0 = 0" "cpu_to_reserve 1000 = 60" "cpu_to_reserve 2000 = 70" "cpu_to_reserve 3000 = 75"
  by (simp_all add: cpu_to_reserve_sum reserve_in_range_def)

text \<open>The documented table for memory: 25% of the first 4 GiB, 20% of the next 4, 10% of the next 8, 6% of the next
  112, 2% of the rest.\<close>

definition documented_hundredths :: "nat \<Rightarrow> nat" where
  "documented_hundredths g =
     25 * min g 4 + 20 * min (g - 4) 4 + 10 * min (g - 8) 8 + 6 * min (g - 16) 112 + 2 * (g - 128)"

lemma hybrid_memory_documented: "hybrid_memory_hundredths g = documented_hundredths g"
  by (auto simp: hybrid_memory_hundredths_def documented_hundredths_def min_def)

lemma round_nearest: "100 * round_hundredths n \<le> n + 50" "n < 100 * round_hundredths n + 50"
  by (auto simp: round_hundredths_def)

text \<open>Provider identifiers.\<close>

lemma node_name_roundtrip:
  assumes "r \<noteq> []" "CHR ''/'' \<notin> set r" "c \<noteq> []" "CHR ''/'' \<notin> set c" "n \<noteq> []" "newline \<notin> set n"
  shows "node_name_of_provider_id (''eks-hybrid:///'' @ r @ ''/'' @ c @ ''/'' @ n) = Some n"
proof -
  have "CutPrefix (''eks-hybrid:///'' @ r @ ''/'' @ c @ ''/'' @ n) ''eks-hybrid:///'' = (r @ ''/'' @ c @ ''/'' @ n, True)"
    by (simp add: CutPrefix_def HasPrefix_def)
  then show ?thesis
    using assms cut_at_append [of "CHR ''/''" r "c @ ''/'' @ n"] cut_at_append [of "CHR ''/''" c n]
    by (simp add: node_name_of_provider_id_def)
qed

definition nameable :: "NodeConfig \<Rightarrow> bool" where
  "nameable cfg \<longleftrightarrow>
     cl_Region (Cluster (Spec cfg)) \<noteq> [] \<and> CHR ''/'' \<notin> set (cl_Region (Cluster (Spec cfg))) \<and>
     cl_Name (Cluster (Spec cfg)) \<noteq> [] \<and> CHR ''/'' \<notin> set (cl_Name (Cluster (Spec cfg))) \<and>
     hybrid_NodeName (Status cfg) \<noteq> [] \<and> newline \<notin> set (hybrid_NodeName (Status cfg))"

lemma getHybridProviderId_name: "nameable cfg \<Longrightarrow> node_name_of_provider_id (getHybridProviderId cfg) = Some (hybrid_NodeName (Status cfg))"
  using node_name_roundtrip [of "cl_Region (Cluster (Spec cfg))" "cl_Name (Cluster (Spec cfg))" "hybrid_NodeName (Status cfg)"]
  by (simp add: nameable_def getHybridProviderId_def)

text \<open>The flags the kubelet sees: a flag of the user wins over a generated one.\<close>

lemma ExtractFlagValue_loop_append:
  "ExtractFlagValue_loop (as @ bs) p v = ExtractFlagValue_loop bs p (ExtractFlagValue_loop as p v)"
  by (induction as arbitrary: v) simp_all

lemma ExtractFlagValue_loop_pick:
  "ExtractFlagValue_loop bs p v = (if ExtractFlagValue_loop bs p [] = [] then v else ExtractFlagValue_loop bs p [])"
proof (induction bs arbitrary: v)
  case Nil
  show ?case by simp
next
  case (Cons b bs)
  define L where "L = ExtractFlagValue_loop bs p []"
  have L: "ExtractFlagValue_loop bs p y = (if L = [] then y else L)" for y unfolding L_def by (rule Cons.IH)
  show ?case by (simp add: L)
qed

definition flag_text :: "string \<times> string \<Rightarrow> string" where
  "flag_text = (\<lambda>(f, v). ''--'' @ f @ ''='' @ v)"

lemma flag_prefix_eq:
  assumes "CHR ''='' \<notin> set f" "CHR ''='' \<notin> set g"
  shows "(length (flag_text (g, v)) > length (''--'' @ f @ ''='') \<and> take (length (''--'' @ f @ ''='')) (flag_text (g, v)) = ''--'' @ f @ ''='')
     \<longleftrightarrow> g = f \<and> v \<noteq> []"
proof
  assume l: "length (flag_text (g, v)) > length (''--'' @ f @ ''='') \<and> take (length (''--'' @ f @ ''='')) (flag_text (g, v)) = ''--'' @ f @ ''=''"
  then obtain t where "flag_text (g, v) = (''--'' @ f @ ''='') @ t" by (metis append_take_drop_id)
  then have "g @ CHR ''='' # v = f @ CHR ''='' # t" by (simp add: flag_text_def)
  then have "cut_at CHR ''='' (g @ CHR ''='' # v) = cut_at CHR ''='' (f @ CHR ''='' # t)" by simp
  then have "g = f" unfolding cut_at_append [OF assms(1)] cut_at_append [OF assms(2)] by simp
  with l show "g = f \<and> v \<noteq> []" by (auto simp: flag_text_def)
qed (auto simp: flag_text_def)

lemma ExtractFlagValue_generated:
  assumes "CHR ''='' \<notin> set f" and "\<And>g. g \<in> fst ` set fl \<Longrightarrow> CHR ''='' \<notin> set g" and "distinct (map fst fl)"
  shows "ExtractFlagValue_loop (map flag_text fl) (''--'' @ f @ ''='') [] = (case map_of fl f of Some v \<Rightarrow> v | None \<Rightarrow> [])"
  using assms(2,3)
proof (induction fl)
  case Nil
  show ?case by simp
next
  case (Cons x fl)
  obtain g v where x: "x = (g, v)" by (cases x)
  have g: "CHR ''='' \<notin> set g" using Cons.prems(1) [of g] x by force
  have IH: "ExtractFlagValue_loop (map flag_text fl) (''--'' @ f @ ''='') [] = (case map_of fl f of Some v \<Rightarrow> v | None \<Rightarrow> [])"
    using Cons by auto
  have none: "g = f \<Longrightarrow> map_of fl f = None" using Cons.prems(2) x by (auto simp: map_of_eq_None_iff)
  show ?case
    unfolding x list.map ExtractFlagValue_loop.simps flag_prefix_eq [OF assms(1) g]
    using IH none by (auto simp: ExtractFlagValue_loop_pick [of _ _ v] flag_text_def)
qed

text \<open>Go may range over a map in any order.\<close>

definition ranges_over :: "kubelet_env \<Rightarrow> bool" where
  "ranges_over ke \<longleftrightarrow> (\<forall>m. distinct (map fst m) \<longrightarrow> distinct (map fst (ke_range ke m)) \<and> map_of (ke_range ke m) = map_of m)"

definition good_flags :: "kubelet \<Rightarrow> bool" where
  "good_flags k \<longleftrightarrow> distinct (map fst (flags k)) \<and> (\<forall>g\<in>fst ` set (flags k). CHR ''='' \<notin> set g)"

lemma set_flag_good: "good_flags k \<Longrightarrow> CHR ''='' \<notin> set f \<Longrightarrow> good_flags (set_flag f v k)"
  unfolding good_flags_def set_flag_def using dom_update [of f v "flags k"] by (simp add: distinct_update)

lemma kubelet_args_value:
  assumes "ranges_over ke" "good_flags k" "CHR ''='' \<notin> set f"
  shows "ExtractFlagValue (kubelet_args ke k) f =
    (let user = ExtractFlagValue (kubelet_Flags (Kubelet_opts (Spec (nodeConfig k)))) f in
     if user \<noteq> [] then user else case map_of (flags k) f of Some v \<Rightarrow> v | None \<Rightarrow> [])"
proof -
  have r: "distinct (map fst (ke_range ke (flags k)))" "map_of (ke_range ke (flags k)) = map_of (flags k)"
    using assms by (simp_all add: ranges_over_def good_flags_def)
  have "fst ` set (ke_range ke (flags k)) = fst ` set (flags k)"
    using r(2) by (metis dom_map_of_conv_image_fst)
  then have e: "\<And>g. g \<in> fst ` set (ke_range ke (flags k)) \<Longrightarrow> CHR ''='' \<notin> set g"
    using assms(2) unfolding good_flags_def by metis
  show ?thesis
    using ExtractFlagValue_generated [OF assms(3) e r(1)] r(2)
    by (simp add: ExtractFlagValue_def kubelet_args_def ExtractFlagValue_loop_append Let_def flag_text_def
        ExtractFlagValue_loop_pick [of "kubelet_Flags (Kubelet_opts (Spec (nodeConfig k)))" _ "case map_of (flags k) f of Some v \<Rightarrow> v | None \<Rightarrow> []"])
qed

text \<open>The configuration of a hybrid node names it, in the provider identifier and in the host name flag.\<close>

definition names_node :: "NodeConfig \<Rightarrow> kubeletConfig \<times> kubelet \<Rightarrow> bool" where
  "names_node cfg r \<longleftrightarrow> ProviderID (fst r) = Some (getHybridProviderId cfg) \<and> nodeConfig (snd r) = cfg \<and>
     map_of (flags (snd r)) ''hostname-override'' = Some (hybrid_NodeName (Status cfg)) \<and>
     map_of (flags (snd r)) ''cloud-provider'' = Some []"

lemma withHybridReservedResources_keeps:
  "valid_ok (\<lambda>_. True) (withHybridReservedResources env ke ksc) (\<lambda>ksc' _. ProviderID ksc' = ProviderID ksc)"
  by (auto simp: valid_def withHybridReservedResources_def Let_def bindE_def returnE_def split: option.splits sum.splits prod.splits)

lemma hybrid_flags:
  "names_node (nodeConfig k) (case withHybridCloudProvider (ksc, k1) of (ksc1, k2) \<Rightarrow> (ksc1, withHybridNodeLabels k2))"
  if "nodeConfig k1 = nodeConfig k"
  using that
  by (simp add: names_node_def withHybridCloudProvider_def withHybridNodeLabels_def set_flag_def update_conv')

lemma valid_trivial: "valid P m (\<lambda>_ _. True) (\<lambda>_ _. True)"
  by (simp add: valid_def split: sum.splits)

lemma valid_skip: "valid_ok (\<lambda>_. True) k Q \<Longrightarrow> valid_ok P (thenE m k) Q"
  by (rule valid_thenE [where B = "\<lambda>_. True"]) (auto intro: valid_trivial)

lemma valid_skipB: "(\<And>x. valid_ok (\<lambda>_. True) (k x) Q) \<Longrightarrow> valid_ok P (bindE m k) Q"
  by (rule valid_bindE [where B = "\<lambda>_ _. True"]) (auto intro: valid_trivial)

lemma valid_pureI: "(\<And>w. Q x w) \<Longrightarrow> valid_ok P (returnE x) Q"
  by (simp add: valid_def)

lemma GenerateKubeletConfig_hybrid:
  assumes "IsHybridNode (nodeConfig k)"
  shows "valid_ok (\<lambda>_. True) (GenerateKubeletConfig env ke k) (\<lambda>r _. names_node (nodeConfig k) r)"
proof -
  let ?cfg = "nodeConfig k"
  have "valid_ok (\<lambda>_. True)
      (case withHybridCloudProvider (ksc, k1) of (ksc1, k2) \<Rightarrow>
         let k3 = withHybridNodeLabels k2 in
         bindE (withHybridReservedResources env ke ksc1) (\<lambda>ksc2. bindE (GetOsName env) (\<lambda>osName.
           returnE (if osName = ''ubuntu'' then ksc2\<lparr>ResolvConf := ''/run/systemd/resolve/resolv.conf''\<rparr> else ksc2, k3))))
      (\<lambda>r _. names_node ?cfg r)" if k1: "nodeConfig k1 = ?cfg" for ksc k1
  proof -
    obtain ksc1 k2 where eq: "withHybridCloudProvider (ksc, k1) = (ksc1, k2)" by (metis surj_pair)
    have n: "names_node ?cfg (ksc1, withHybridNodeLabels k2)" using hybrid_flags [OF k1, of ksc] eq by simp
    have end_ok: "valid_ok (\<lambda>_. ProviderID ksc2 = ProviderID ksc1)
        (bindE (GetOsName env) (\<lambda>osName.
          returnE (if osName = ''ubuntu'' then ksc2\<lparr>ResolvConf := ''/run/systemd/resolve/resolv.conf''\<rparr> else ksc2, withHybridNodeLabels k2)))
        (\<lambda>r _. names_node ?cfg r)" for ksc2
    proof (cases "ProviderID ksc2 = ProviderID ksc1")
      case True
      show ?thesis by (rule valid_skipB, rule valid_pureI) (use True n in \<open>simp add: names_node_def\<close>)
    next
      case False
      then show ?thesis by (simp add: valid_def)
    qed
    show ?thesis unfolding eq prod.case Let_def
      by (rule valid_bindE [OF withHybridReservedResources_keeps end_ok])
  qed
  moreover have "nodeConfig (withPodInfraContainerImage ke v k) = ?cfg" for v
    by (simp add: withPodInfraContainerImage_def set_flag_def)
  ultimately show ?thesis
    unfolding GenerateKubeletConfig_def if_P [OF assms] Let_def
    by (intro valid_skipB valid_skip) blast
qed

text \<open>What reading the configuration back needs of the JSON and YAML libraries.\<close>

definition marshal_keeps_id :: "kubelet_env \<Rightarrow> bool" where
  "marshal_keeps_id ke \<longleftrightarrow>
     (\<forall>c d. ke_marshal ke c = Inr d \<longrightarrow> (\<exists>c'. ke_unmarshal ke d = Inr c' \<and> ProviderID c' = ProviderID c))"

definition named_on_disk :: "kubelet_env \<Rightarrow> NodeConfig \<Rightarrow> world \<Rightarrow> bool" where
  "named_on_disk ke cfg w \<longleftrightarrow>
     (\<exists>c d m. fs w kubelet_config_path = Some (RegFile d m) \<and> ke_marshal ke c = Inr d \<and> ProviderID c = Some (getHybridProviderId cfg))"

lemma write_config_named:
  assumes "ProviderID c = Some (getHybridProviderId cfg)"
  shows "valid_ok (\<lambda>_. True)
    (bindE (liftE (ke_marshal ke c)) (\<lambda>d. thenE (WriteFileWithDir env kubelet_config_path d kubeletConfigPerm) (returnE x)))
    (\<lambda>_ w. named_on_disk ke cfg w)"
proof (cases "ke_marshal ke c")
  case (Inl e)
  then show ?thesis by (simp add: valid_def bindE_def liftE_def)
next
  case (Inr d)
  have "valid_ok (\<lambda>_. True) (WriteFileWithDir env kubelet_config_path d kubeletConfigPerm) (\<lambda>_ w. named_on_disk ke cfg w)"
    using assms Inr by (intro valid_post [OF WriteFileWithDir_ok]) (auto simp: named_on_disk_def)
  then have "valid_ok (\<lambda>_. True) (thenE (WriteFileWithDir env kubelet_config_path d kubeletConfigPerm) (returnE x))
      (\<lambda>_ w. named_on_disk ke cfg w)"
    by (rule valid_thenE) (simp add: valid_def)
  with Inr show ?thesis by (simp add: valid_def bindE_def liftE_def)
qed

lemma writeKubeletConfig_named:
  assumes "IsHybridNode (nodeConfig k)" and "kubelet_Config (Kubelet_opts (Spec (nodeConfig k))) = []"
  shows "valid_ok (\<lambda>_. True) (writeKubeletConfig env ke k) (\<lambda>_ w. named_on_disk ke (nodeConfig k) w)"
proof -
  have w: "valid_ok (\<lambda>_. names_node (nodeConfig k) r)
     (case r of (ksc, k1) \<Rightarrow> bindE (liftE (ke_marshal ke ksc)) (\<lambda>d.
        thenE (WriteFileWithDir env kubelet_config_path d kubeletConfigPerm) (returnE (set_flag ''config'' kubelet_config_path k1))))
     (\<lambda>_ w. named_on_disk ke (nodeConfig k) w)" for r
  proof (cases "names_node (nodeConfig k) r")
    case True
    then show ?thesis
      by (cases r) (auto simp: names_node_def intro!: valid_pre [OF write_config_named])
  next
    case False
    then show ?thesis by (simp add: valid_def)
  qed
  have "valid_ok (\<lambda>_. True) (writeKubeletConfigToFile env ke k) (\<lambda>_ w. named_on_disk ke (nodeConfig k) w)"
    unfolding writeKubeletConfigToFile_def assms(2) using w
    by (intro valid_bindE [OF GenerateKubeletConfig_hybrid [OF assms(1)]]) simp
  moreover have "valid_ok (\<lambda>_. True) (writeKubeletConfigToDir env ke k) (\<lambda>_ w. named_on_disk ke (nodeConfig k) w)"
    unfolding writeKubeletConfigToDir_def assms(2) using w
    by (intro valid_bindE [OF GenerateKubeletConfig_hybrid [OF assms(1)]]) (simp add: Let_def)
  ultimately show ?thesis unfolding writeKubeletConfig_def by (intro valid_skipB) simp
qed

lemma GetNodeName_named:
  assumes "marshal_keeps_id ke" "nameable cfg" "named_on_disk ke cfg w"
    and "os_fault env (steps w) (OpRead kubelet_config_path) = None"
  shows "\<exists>w'. GetNodeName env ke w = Some (Inr (hybrid_NodeName (Status cfg)), w') \<and> fs w' = fs w"
proof -
  obtain c0 d m where d: "fs w kubelet_config_path = Some (RegFile d m)" "ke_marshal ke c0 = Inr d"
    "ProviderID c0 = Some (getHybridProviderId cfg)"
    using assms(3) unfolding named_on_disk_def by iprover
  obtain c' where "ke_unmarshal ke d = Inr c'" "ProviderID c' = ProviderID c0"
    using assms(1) d(2) unfolding marshal_keeps_id_def by iprover
  with d have c: "fs w kubelet_config_path = Some (RegFile d m)" "ke_unmarshal ke d = Inr c'"
    "ProviderID c' = Some (getHybridProviderId cfg)" by simp_all
  then have "getKubeletConfigFromDisk env ke w = Some (Inr c', w\<lparr>steps := Suc (steps w), fs := fs w\<rparr>)"
    using assms(4) by (simp add: getKubeletConfigFromDisk_def os_ReadFile_def sys_def Let_def bindE_def liftE_def)
  then show ?thesis
    using c getHybridProviderId_name [OF assms(2)]
    by (simp add: GetNodeName_def bindE_def wrapE_def mapErrE_def returnE_def)
qed

lemma valid_with_timeout: "(\<And>t. valid P (k (Some t)) Q R) \<Longrightarrow> valid P (with_timeout c d k) Q R"
  by (auto simp: valid_def with_timeout_def)

text \<open>The kubelet daemon: starting it ends, and only successfully when systemd reports it running.\<close>

lemma kubelet_EnsureRunning_returns: "returns (kubelet_EnsureRunning env c)"
  unfolding kubelet_EnsureRunning_def
  by (auto intro!: returns_intros returns_daemon returns_with_timeout WaitForStatus_returns simp: seconds_def)

lemma kubelet_EnsureRunning_ok: "valid_ok (\<lambda>_. True) (kubelet_EnsureRunning env c) (\<lambda>_. reports_status env KubeletDaemonName DaemonStatusRunning)"
proof -
  have "valid_ok (\<lambda>_. True) (with_timeout c d (\<lambda>c'. wrapE m (WaitForStatus env c' n s b))) (\<lambda>_. reports_status env n s)" for d m n s b
    unfolding wrapE_def by (rule valid_with_timeout, rule valid_mapErrE, rule WaitForStatus_ok)
  then show ?thesis unfolding kubelet_EnsureRunning_def by (intro valid_skip valid_skipB)
qed

section \<open>Properties\<close>

text \<open>C38: On a machine of up to 2^63 / 25 millicores (some 3.6 * 10^14 processors), the largest number at which the
  64-bit product of \<open>getResourceToReserveInRange\<close> does not wrap, the reserved processor share is never negative
  and at most 6% of the machine, it grows with the number of millicores, and from four cores on it is 80
  millicores plus 0.25% of the rest.\<close>

theorem cpu_reserve_bounds:
  assumes "t \<le> t'" and "25 * t' < 2 ^ 63"
  shows "0 \<le> cpu_to_reserve t \<and> 10000 * cpu_to_reserve t \<le> 600 * max 0 t \<and> cpu_to_reserve t \<le> cpu_to_reserve t' \<and>
    (4000 \<le> t \<longrightarrow> cpu_to_reserve t = 80 + (t - 4000) div 400)"
proof (intro conjI impI)
  have t: "25 * t < 2 ^ 63" using assms by linarith
  show "0 \<le> cpu_to_reserve t" unfolding cpu_to_reserve_sum [OF t]
    using reserve_last(1) [of t] reserve_bounds(1) [of 600 0 1000 t] reserve_bounds(1) [of 100 1000 2000 t] reserve_bounds(1) [of 50 2000 4000 t]
    by simp
  show "10000 * cpu_to_reserve t \<le> 600 * max 0 t" unfolding cpu_to_reserve_sum [OF t]
    using reserve_last(2) [of t] reserve_bounds(2) [of 600 0 1000 t] reserve_bounds(2) [of 100 1000 2000 t] reserve_bounds(2) [of 50 2000 4000 t]
    by (simp add: min_def max_def split: if_splits)
  show "cpu_to_reserve t \<le> cpu_to_reserve t'" by (rule cpu_to_reserve_mono [OF assms])
  show "4000 \<le> t \<Longrightarrow> cpu_to_reserve t = 80 + (t - 4000) div 400" by (rule cpu_to_reserve_large [OF _ t])
qed

theorem cpu_reserve_bounds_witness:
  "cpu_to_reserve 2000 \<le> cpu_to_reserve 8000 \<and> 10000 * cpu_to_reserve 2000 \<le> 600 * 2000 \<and> cpu_to_reserve 8000 = 90"
  using cpu_reserve_bounds [of 2000 8000] cpu_reserve_bounds [of 8000 8000] by simp

text \<open>C39: The memory reserved on a hybrid node is 255 MiB below one GiB and otherwise the documented table (25% of the first
  4 GiB, 20% of the next 4, 10% of the next 8, 6% of the next 112, 2% of the rest), rounded to the nearest GiB.\<close>

theorem hybrid_memory_table:
  "hybrid_reserved_memory g = (if g = 0 then ''255Mi'' else dec_digits (round_hundredths (documented_hundredths g)) @ ''Gi'') \<and>
   100 * round_hundredths (documented_hundredths g) \<le> documented_hundredths g + 50 \<and>
   documented_hundredths g < 100 * round_hundredths (documented_hundredths g) + 50"
  using round_nearest [of "documented_hundredths g"] by (simp add: hybrid_reserved_memory_def hybrid_memory_documented)

text \<open>C35: After the kubelet configuration of a hybrid node has been written, for a user who gave no kubelet
  configuration of their own (\<open>spec.kubelet.config\<close> is empty: a user's \<open>providerID\<close> would override the generated one
  for a kubelet before 1.29), the node name read back from the disk is the node's own. The further hypotheses: the
  JSON written is read back with the same \<open>providerID\<close>; region and cluster name are not empty and have no slash, the
  node name is not empty and has no line break; reading the file meets no fault.\<close>

theorem node_name_from_disk:
  assumes "marshal_keeps_id ke" and "nameable (nodeConfig k)" and "IsHybridNode (nodeConfig k)"
    and "kubelet_Config (Kubelet_opts (Spec (nodeConfig k))) = []"
    and "writeKubeletConfig env ke k w = Some (Inr k', w')" and "os_fault env (steps w') (OpRead kubelet_config_path) = None"
  shows "\<exists>w''. GetNodeName env ke w' = Some (Inr (hybrid_NodeName (Status (nodeConfig k))), w'') \<and> fs w'' = fs w'"
  using GetNodeName_named [OF assms(1,2) _ assms(6)] valid_okD [OF writeKubeletConfig_named [OF assms(3,4)] TrueI assms(5)] by iprover

text \<open>In the arguments written for the kubelet a flag of the user wins over a generated flag of the same name, in whatever
  order Go ranges over the generated flags, and every other generated flag keeps its value.\<close>

theorem user_flags_win:
  assumes "ranges_over ke" and "good_flags k" and "CHR ''='' \<notin> set f"
  shows "ExtractFlagValue (kubelet_args ke k) f =
    (let user = ExtractFlagValue (kubelet_Flags (Kubelet_opts (Spec (nodeConfig k)))) f in
     if user \<noteq> [] then user else case map_of (flags k) f of Some v \<Rightarrow> v | None \<Rightarrow> [])"
  by (rule kubelet_args_value [OF assms])

text \<open>Starting the kubelet always ends, and ends successfully only when systemd reports it running.\<close>

theorem kubelet_start_ends:
  "returns (kubelet_EnsureRunning env c) \<and>
   valid_ok (\<lambda>_. True) (kubelet_EnsureRunning env c) (\<lambda>_. reports_status env KubeletDaemonName DaemonStatusRunning)"
  using kubelet_EnsureRunning_returns kubelet_EnsureRunning_ok by blast

subsection \<open>Witnesses\<close>

text \<open>A configuration is written as its provider identifier, and maps are ranged over backwards.\<close>

definition sample_kubelet_env :: kubelet_env where
  "sample_kubelet_env =
     \<lparr>ke_semver = sample_semver, ke_glob = \<lambda>_. Inr [], ke_ip6 = \<lambda>_. None, ke_range = rev,
      ke_marshal = \<lambda>c. Inr (case ProviderID c of None \<Rightarrow> [] | Some p \<Rightarrow> CHR ''.'' # p), ke_json = sample_json,
      ke_Marshal = \<lambda>_. Inr [], ke_Marshal_type = \<lambda>_. Inr [],
      ke_unmarshal = \<lambda>d. Inr (defaultKubeletSubConfig\<lparr>ProviderID := (case d of [] \<Rightarrow> None | _ # p \<Rightarrow> Some p)\<rparr>),
      ke_marshal_provider = \<lambda>_. Inr [], ke_url_host = Inr, ke_lookup_host = \<lambda>_. Inr [], ke_imds = \<lambda>_ _. Inr ([], None), ke_eni_max_pods = [],
      ke_load_aws_config = \<lambda>_. Inr (), ke_describe_instance_types = \<lambda>_ _. Inr []\<rparr>"

definition sample_kubelet :: kubelet where
  "sample_kubelet = NewKubeletDaemon sample_config \<lparr>cp_Profile = [], CredentialsPath = []\<rparr> None"

lemma sample_kubelet_env_facts: "marshal_keeps_id sample_kubelet_env" "ranges_over sample_kubelet_env"
proof -
  show "marshal_keeps_id sample_kubelet_env"
    by (auto simp: marshal_keeps_id_def sample_kubelet_env_def split: option.splits)
  have "map_of (rev m) = map_of m" if "distinct (map fst m)" for m :: "(string \<times> string) list"
    by (rule map_of_eqI) (use that in \<open>auto simp: map_of_eq_Some_iff rev_map [symmetric] dom_map_of_conv_image_fst\<close>)
  then show "ranges_over sample_kubelet_env"
    by (simp add: ranges_over_def sample_kubelet_env_def rev_map [symmetric])
qed

theorem user_flags_win_witness:
  "ExtractFlagValue (kubelet_args sample_kubelet_env (set_flag ''v'' ''2'' (set_flag ''config'' ''/c'' sample_kubelet))) ''v'' = ''5'' \<and>
   ExtractFlagValue (kubelet_args sample_kubelet_env (set_flag ''v'' ''2'' (set_flag ''config'' ''/c'' sample_kubelet))) ''config'' = ''/c''"
proof -
  let ?k = "set_flag ''v'' ''2'' (set_flag ''config'' ''/c'' sample_kubelet)"
  have g: "good_flags ?k"
    by (intro set_flag_good) (simp_all add: good_flags_def sample_kubelet_def NewKubeletDaemon_def)
  have f: "kubelet_Flags (Kubelet_opts (Spec (nodeConfig ?k))) = [''--v=5'']" "map_of (flags ?k) ''config'' = Some ''/c''"
    by (simp_all add: set_flag_def sample_kubelet_def NewKubeletDaemon_def sample_config_def)
  show ?thesis
    using user_flags_win [OF sample_kubelet_env_facts(2) g, of "''v''"] user_flags_win [OF sample_kubelet_env_facts(2) g, of "''config''"]
    unfolding f by (simp add: ExtractFlagValue_def Let_def)
qed

definition sample_machine :: world where
  "sample_machine = sample_world\<lparr>fs := [''/proc/meminfo'' \<mapsto> RegFile ''MemTotal:  2 kB'' 420]\<rparr>"

lemma sample_memory: "\<exists>m. parseCapacity ''MemTotal:  2 kB'' = Inr m"
proof -
  have "find_mem_total ''MemTotal:  2 kB'' = Some ''2''" by code_simp
  moreover have "parse_dec ''2'' = Some 2" by code_simp
  ultimately show ?thesis by (simp add: parseCapacity_def ParseUint_def)
qed

lemma sample_dns: "\<exists>d. GetClusterDns p ''10.100.0.0/16'' = Inr d"
proof -
  have "''10.100.0.0/16'' = dotted 10 100 0 0 @ CHR ''/'' # dec_digits 16" by code_simp
  then show ?thesis using GetClusterDns_dotted [of 10 100 0 0 16 p] by simp
qed

lemma sample_version: "\<exists>v'. GetKubeletVersion sample_env v = Some (Inr [], v') \<and> fs v' = fs v"
  by (simp add: GetKubeletVersion_def GetKubeletVersionRaw_def CombinedOutput_def bindE_def returnE_def Let_def sample_env_def)

lemma sample_generates:
  assumes "fs w = fs sample_machine"
  shows "\<exists>r w'. GenerateKubeletConfig sample_env sample_kubelet_env sample_kubelet w = Some (Inr r, w') \<and> fs w' = fs w"
proof -
  obtain m where m: "parseCapacity ''MemTotal:  2 kB'' = Inr m" using sample_memory by blast
  obtain d where d: "GetClusterDns (\<lambda>_. None) ''10.100.0.0/16'' = Inr d" using sample_dns by blast
  have cpu: "getCPUMillicoresToReserve sample_env sample_kubelet_env v = Some (Inr 0, v)" for v
    by (simp add: getCPUMillicoresToReserve_def GetMilliNumCores_def getNodesPaths_def getCPUCount_def getCPUsPaths_def
        tryE_def bindE_def sample_kubelet_env_def throwE_def)
  have mem: "\<exists>v'. GetMachineMemoryCapacity sample_env v = Some (Inr m, v') \<and> fs v' = fs v" if "fs v = fs sample_machine" for v
    using that m by (simp add: GetMachineMemoryCapacity_def os_ReadFile_def sys_def Let_def bindE_def sample_env_def sample_machine_def liftE_def)
  have os: "\<exists>n v'. GetOsName sample_env v = Some (Inr n, v') \<and> fs v' = fs v" for v
    by (simp add: GetOsName_def os_ReadFile_def sys_def Let_def bindE_def tryE_def sample_env_def returnE_def split: option.splits fnode.splits)
  have dns: "withFallbackClusterDns sample_kubelet_env (Cluster (Spec (nodeConfig sample_kubelet))) c = Inr (c\<lparr>ClusterDNS := [d]\<rparr>)" for c
    using d by (simp add: withFallbackClusterDns_def sample_kubelet_env_def sample_kubelet_def NewKubeletDaemon_def sample_config_def)
  have out: "withOutpostSetup sample_env sample_kubelet_env (nodeConfig sample_kubelet) = returnE ()"
    by (simp add: withOutpostSetup_def sample_kubelet_def NewKubeletDaemon_def sample_config_def)
  have h: "IsHybridNode (nodeConfig sample_kubelet)"
    by (simp add: sample_kubelet_def NewKubeletDaemon_def sample_config_def IsHybridNode_def)
  obtain w1 where w1: "GetKubeletVersion sample_env w = Some (Inr [], w1)" "fs w1 = fs w" using sample_version by blast
  obtain w2 where w2: "GetMachineMemoryCapacity sample_env w1 = Some (Inr m, w2)" "fs w2 = fs w1" using mem assms w1 by metis
  obtain n w3 where w3: "GetOsName sample_env w2 = Some (Inr n, w3)" "fs w3 = fs w2" using os by blast
  show ?thesis
    using w1 w2 w3 by (simp add: GenerateKubeletConfig_def bindE_def thenE_def liftE_def dns out h returnE_def Let_def
        withHybridReservedResources_def cpu split: prod.splits)
qed

lemma sample_writes:
  assumes "fs w = fs sample_machine"
  shows "\<exists>w'. WriteFileWithDir sample_env kubelet_config_path d kubeletConfigPerm w = Some (Inr (), w')"
proof -
  have p: "kubelet_config_path = ''/etc/kubernetes/kubelet/config.json''" by code_simp
  have "Dir ''/etc/kubernetes/kubelet/config.json'' = ''/etc/kubernetes/kubelet''" "dirs_to ''/etc/kubernetes/kubelet'' = [''/etc'', ''/etc/kubernetes'', ''/etc/kubernetes/kubelet'']"
    by code_simp+
  then show ?thesis using assms 
    by (simp add: p WriteFileWithDir_def os_WriteFile_def os_defs sys_def Let_def thenE_def bindE_def sample_env_def sample_machine_def
        is_file_def is_dir_def make_dirs_def)
qed

theorem node_name_from_disk_witness:
  "\<exists>w w'. GetNodeName sample_env sample_kubelet_env w = Some (Inr ''mi-0123'', w')"
proof -
  have c: "nameable (nodeConfig sample_kubelet)" "IsHybridNode (nodeConfig sample_kubelet)"
    "kubelet_Config (Kubelet_opts (Spec (nodeConfig sample_kubelet))) = []"
    "hybrid_NodeName (Status (nodeConfig sample_kubelet)) = ''mi-0123''"
    by (simp_all add: nameable_def newline_def sample_kubelet_def NewKubeletDaemon_def sample_config_def IsHybridNode_def)
  obtain w1 where w1: "GetKubeletVersion sample_env sample_machine = Some (Inr [], w1)" "fs w1 = fs sample_machine" using sample_version by blast
  obtain ksc k1 w2 where w2: "GenerateKubeletConfig sample_env sample_kubelet_env sample_kubelet w1 = Some (Inr (ksc, k1), w2)" "fs w2 = fs w1"
    using sample_generates [OF w1(2)] by auto
  obtain d where d: "ke_marshal sample_kubelet_env ksc = Inr d" by (simp add: sample_kubelet_env_def)
  obtain w3 where w3: "WriteFileWithDir sample_env kubelet_config_path d kubeletConfigPerm w2 = Some (Inr (), w3)"
    using sample_writes w1 w2 by metis
  have "writeKubeletConfig sample_env sample_kubelet_env sample_kubelet sample_machine = Some (Inr (set_flag ''config'' kubelet_config_path k1), w3)"
    using w1 w2 d w3 c(3)
    by (simp add: writeKubeletConfig_def writeKubeletConfigToFile_def writeKubeletConfigToDir_def bindE_def thenE_def liftE_def returnE_def Let_def)
  from node_name_from_disk [OF sample_kubelet_env_facts(1) c(1-3) this] show ?thesis
    unfolding c(4) by (auto simp: sample_env_def)
qed

end
