(* ===== verification/Cluster_Access.thy ===== *)
theory Cluster_Access
  imports Proxy Kubelet_Config
begin

text \<open>
  Reaching the cluster: \<open>internal/retry/network.go\<close>, \<open>internal/network/connection.go\<close>, \<open>internal/kubernetes\<close> (\<open>connection.go\<close>,
  \<open>unauthenticated.go\<close>, \<open>access.go\<close>, \<open>validate.go\<close>, \<open>cert.go\<close>, \<open>cluster.go\<close>), \<open>internal/aws/eks/cluster.go\<close> and
  \<open>internal/aws/sts/validate.go\<close>. The network, the AWS and Kubernetes clients and the wait loop of
  \<open>k8s.io/apimachinery\<close> are the parameters \<open>cluster_env\<close>; what is relied on of the wait loop is \<open>waits_for\<close>. The
  validators return what they report; the informer's messages are not part of the result.
\<close>

section \<open>Parameters\<close>

record url =
  url_Scheme :: string
  url_Hostname :: string
  url_Port :: string

record user_info =
  ui_Username :: string
  ui_Groups :: "string list"
  ui_ExtraARN :: "string list"

text \<open>A subset of the Kubernetes endpoint: its ports by name, and its addresses.\<close>

record endpoint_subset =
  es_Ports :: "(string \<times> int) list"
  es_Addresses :: "string list"

text \<open>The settings of a \<open>Retrier\<close>, in nanoseconds and percent. What a retried closure stores in the variables it captures is its
  reply.\<close>

record Retrier =
  rt_Timeout :: nat
  rt_OperationTimeout :: nat
  rt_Duration :: nat
  rt_Factor :: nat
  rt_Jitter :: nat
  rt_Steps :: nat

text \<open>Of a \<open>corev1.Node\<close> the scheduling flag, the addresses with their types and the conditions with their status; of a
  \<open>corev1.Pod\<close> the name and the kind of its controller, which \<open>metav1.GetControllerOf\<close> finds.\<close>

record kube_node =
  kn_Unschedulable :: bool
  kn_Addresses :: "(string \<times> string) list"
  kn_Conditions :: "(string \<times> string) list"

record pod =
  pod_Name :: string
  pod_ControllerKind :: "string option"

datatype reply = NoReply | HttpReply nat bytes | EndpointsReply "endpoint_subset list" | ReviewReply user_info
  | NodeReply kube_node | PodsReply "pod list"

text \<open>The variables a retry loop carries: \<open>lastErr\<close>, the counter of the error handler and the reply.\<close>

type_synonym wait_state = "goerr option \<times> int \<times> reply"
type_synonym error_handler = "goerr option \<Rightarrow> int \<Rightarrow> goerr option \<times> int"

text \<open>\<open>ce_wait r cond s\<close> is \<open>wait.ExponentialBackoffWithContext\<close> with the settings \<open>r\<close>: the error of the loop, whether it is an
  interruption, and the variables at the end.\<close>

text \<open>What the node program looks at of a loaded kubeconfig: the environment of the \<open>exec\<close> section of its users. The rest is the
  client library's, kept as text.\<close>

record auth_info =
  ai_ExecEnv :: "(string \<times> string) list option"
  ai_rest :: bytes

record client_config =
  cc_AuthInfos :: "(string \<times> auth_info) list"
  cc_rest :: bytes

record cluster_env =
  ce_wait :: "Retrier \<Rightarrow> (wait_state \<Rightarrow> (bool \<times> wait_state) wio) \<Rightarrow> wait_state \<Rightarrow> (goerr option \<times> bool \<times> wait_state) wio"
  ce_ParseRequestURI :: "string \<Rightarrow> goerr + url"
  ce_LookupIPAddr :: "nat \<Rightarrow> string \<Rightarrow> goerr + string list"
  ce_ProxyFunc :: "url \<Rightarrow> goerr + string option"
  ce_Dial :: "nat \<Rightarrow> string \<Rightarrow> goerr option"
  ce_WriteConnect :: "nat \<Rightarrow> string \<Rightarrow> goerr option"
  ce_ReadConnect :: "nat \<Rightarrow> string \<Rightarrow> goerr + nat"
  ce_CertPool :: "bytes \<Rightarrow> bool"
  ce_NewRequest :: "string \<Rightarrow> goerr option"
  ce_Get :: "nat \<Rightarrow> string \<Rightarrow> bytes \<Rightarrow> goerr + nat \<times> stream"
  ce_Message :: "bytes \<Rightarrow> goerr + string"
  ce_LoadFromFile :: "filesystem \<Rightarrow> path \<Rightarrow> goerr + client_config"
  ce_ClientConfig :: "client_config \<Rightarrow> goerr + bytes"
  ce_NewForConfig :: "bytes \<Rightarrow> goerr + unit"
  ce_GetEndpoints :: "nat \<Rightarrow> goerr + endpoint_subset list"
  ce_SelfSubjectReview :: "nat \<Rightarrow> goerr + user_info"
  ce_DescribeCluster :: "nat \<Rightarrow> string \<Rightarrow> goerr + eks_cluster"
  ce_base64 :: "string \<Rightarrow> goerr + bytes"
  ce_ResolveEndpoint :: "string \<Rightarrow> goerr + url"
  ce_GetCallerIdentity :: "nat \<Rightarrow> goerr + string option"
  ce_ParseARN :: "string \<Rightarrow> goerr + arn"
  ce_ListAccessEntries :: "nat \<Rightarrow> string \<Rightarrow> string option \<Rightarrow> goerr + string list \<times> string"

section \<open>Retried requests\<close>

definition max_int :: nat where "max_int = 9223372036854775807"

text \<open>\<open>Retrier.Do\<close>: the operation says whether it is done, and what it has stored.\<close>

definition retry_turn :: "error_handler option \<Rightarrow> (bool \<times> reply) wio \<Rightarrow> wait_state \<Rightarrow> (bool \<times> wait_state) wio" where
  "retry_turn HandleError op s =
     bindE (tryE op) (\<lambda>r.
       let (finished, err, reply') = (case r of Inl e \<Rightarrow> (False, Some e, snd (snd s)) | Inr (b, x) \<Rightarrow> (b, None, x)) in
       case Do_turn HandleError finished err (fst s, fst (snd s)) of
         (Inl e, _, _) \<Rightarrow> throwE e
       | (Inr b, lastErr, attempts) \<Rightarrow> returnE (b, lastErr, attempts, reply'))"

definition Retrier_Do :: "cluster_env \<Rightarrow> Retrier \<Rightarrow> error_handler option \<Rightarrow> (bool \<times> reply) wio \<Rightarrow> reply wio" where
  "Retrier_Do ce r HandleError op =
     bindE (ce_wait ce (if rt_Steps r = 0 then r\<lparr>rt_Steps := max_int\<rparr> else r) (retry_turn HandleError op) (None, 0, NoReply))
       (\<lambda>(err, interrupted, lastErr, _, reply'). case Do_result err interrupted lastErr of
          None \<Rightarrow> returnE reply'
        | Some e \<Rightarrow> throwE e)"

text \<open>A request is done when it has no error.\<close>

definition once_ok :: "reply wio \<Rightarrow> (bool \<times> reply) wio" where
  "once_ok request = bindE request (\<lambda>x. returnE (True, x))"

definition network_retrier :: Retrier where
  "network_retrier = \<lparr>rt_Timeout = seconds 10, rt_OperationTimeout = 0, rt_Duration = seconds 1, rt_Factor = 2, rt_Jitter = 10, rt_Steps = 0\<rparr>"

definition NetworkRequest :: "cluster_env \<Rightarrow> reply wio \<Rightarrow> reply wio" where
  "NetworkRequest ce request = Retrier_Do ce network_retrier None (once_ok request)"

definition defaultRetrier :: Retrier where
  "defaultRetrier = \<lparr>rt_Timeout = seconds 120, rt_OperationTimeout = seconds 30, rt_Duration = seconds 1, rt_Factor = 2, rt_Jitter = 10, rt_Steps = 4\<rparr>"

definition retryRequest :: "cluster_env \<Rightarrow> reply wio \<Rightarrow> reply wio" where
  "retryRequest ce request = Retrier_Do ce defaultRetrier None (once_ok request)"

text \<open>The generic requests of \<open>internal/kubernetes/retry.go\<close>: the client's call is the argument, to which the options have been applied.\<close>

definition GetRetry :: "cluster_env \<Rightarrow> reply wio \<Rightarrow> reply wio" where
  "GetRetry ce get = retryRequest ce get"

definition ListRetry :: "cluster_env \<Rightarrow> reply wio \<Rightarrow> reply wio" where
  "ListRetry ce list = retryRequest ce list"

definition tolerate :: "(goerr \<Rightarrow> bool) \<Rightarrow> unit wio \<Rightarrow> reply wio" where
  "tolerate ignored request =
     bindE (tryE request) (\<lambda>r. case r of
        Inl err \<Rightarrow> if ignored err then returnE NoReply else throwE err
      | Inr _ \<Rightarrow> returnE NoReply)"

definition IdempotentDelete :: "cluster_env \<Rightarrow> (goerr \<Rightarrow> bool) \<Rightarrow> unit wio \<Rightarrow> unit wio" where
  "IdempotentDelete ce isNotFound delete = thenE (retryRequest ce (tolerate isNotFound delete)) (returnE ())"

definition IdempotentCreate :: "cluster_env \<Rightarrow> (goerr \<Rightarrow> bool) \<Rightarrow> unit wio \<Rightarrow> unit wio" where
  "IdempotentCreate ce isAlreadyExists create = thenE (retryRequest ce (tolerate isAlreadyExists create)) (returnE ())"

section \<open>Connections\<close>

text \<open>A call to the network: the step number of the world tells the answers apart.\<close>

definition net_call :: "string \<Rightarrow> string \<Rightarrow> (nat \<Rightarrow> goerr option) \<Rightarrow> unit wio" where
  "net_call name arg ans = api_call name arg (\<lambda>n. case ans n of None \<Rightarrow> Inr () | Some e \<Rightarrow> Inl e)"

definition CheckConnectionToHost :: "cluster_env \<Rightarrow> url \<Rightarrow> unit wio" where
  "CheckConnectionToHost ce targetURL =
     (let port = (if url_Port targetURL = [] \<and> url_Scheme targetURL = ''https'' then ''443'' else url_Port targetURL);
          target = url_Hostname targetURL @ '':'' @ port in
      case ce_ProxyFunc ce targetURL of
        Inl err \<Rightarrow> throwE (ErrWrap ''getting proxy URL'' err)
      | Inr proxyURL \<Rightarrow>
          let host = (case proxyURL of None \<Rightarrow> target | Some p \<Rightarrow> p) in
          thenE (wrapE (''dialing '' @ host) (net_call ''dial'' host (\<lambda>n. ce_Dial ce n host)))
            (if proxyURL = None then returnE ()
             else thenE (wrapE ''proxy: writing CONNECT request'' (net_call ''connect'' target (\<lambda>n. ce_WriteConnect ce n target)))
              (bindE (wrapE ''proxy: reading CONNECT response'' (api_call ''read'' target (\<lambda>n. ce_ReadConnect ce n target))) (\<lambda>status.
                 if status \<noteq> 200 then throwE (ErrMsg (''proxy: returned status: '' @ dec_digits status)) else returnE ()))))"

definition check_with_retries :: "cluster_env \<Rightarrow> url \<Rightarrow> unit wio" where
  "check_with_retries ce u = thenE (NetworkRequest ce (thenE (CheckConnectionToHost ce u) (returnE NoReply))) (returnE ())"

definition with_remediation :: "string \<Rightarrow> 'a wio \<Rightarrow> 'a wio" where
  "with_remediation advice m = mapErrE (\<lambda>e. WithRemediation e advice) m"

definition validateEndpointResolution :: "cluster_env \<Rightarrow> string \<Rightarrow> unit wio" where
  "validateEndpointResolution ce hostname =
     (if hostname = [] then throwE (ErrMsg ''hostname is empty'')
      else bindE (wrapE (''failed to resolve hostname '' @ hostname) (api_call ''resolve'' hostname (\<lambda>n. ce_LookupIPAddr ce n hostname))) (\<lambda>ips.
        if ips = [] then throwE (ErrMsg (''hostname '' @ hostname @ '' did not resolve to any IP addresses'')) else returnE ()))"

definition checkAPIServerConnection :: "cluster_env \<Rightarrow> NodeConfig \<Rightarrow> unit wio" where
  "checkAPIServerConnection ce node =
     bindE (with_remediation ''Ensure the Kubernetes API server endpoint provided is correct.''
              (liftE (ce_ParseRequestURI ce (APIServerEndpoint (Cluster (Spec node)))))) (\<lambda>endpoint.
      thenE (with_remediation ''Ensure DNS server settings and network connectivity are correct, and verify the hostname is reachable''
               (validateEndpointResolution ce (url_Hostname endpoint)))
       (with_remediation ''Ensure your network configuration allows the node to access the Kubernetes API endpoint.''
          (check_with_retries ce endpoint)))"

definition ValidateAPIServerEndpointResolution :: "cluster_env \<Rightarrow> NodeConfig \<Rightarrow> unit wio" where
  "ValidateAPIServerEndpointResolution ce node = checkAPIServerConnection ce node"

section \<open>The unauthenticated request\<close>

definition MakeUnauthenticatedRequest :: "cluster_env \<Rightarrow> string \<Rightarrow> bytes \<Rightarrow> unit wio" where
  "MakeUnauthenticatedRequest ce endpoint caCertificate =
     (if \<not> ce_CertPool ce caCertificate
      then throwE (WithRemediation (ErrMsg ''failed to parse Cluster CA certificate'') ''Ensure the Cluster CA certificate provided is correct.'')
      else case ce_NewRequest ce endpoint of
        Some err \<Rightarrow> throwE (WithRemediation err ''Ensure the Kubernetes API server endpoint provided is correct.'')
      | None \<Rightarrow>
          bindE (with_remediation ''Ensure the provided Kubernetes API server endpoint is correct and the CA certificate is valid for that endpoint.''
            (retryRequest ce
              (bindE (api_call ''get'' endpoint (\<lambda>n. ce_Get ce n endpoint caCertificate)) (\<lambda>(status, body). case snd body of
                 Some err \<Rightarrow> throwE (ErrWrap ''reading unauthenticated request response body'' err)
               | None \<Rightarrow> returnE (HttpReply status (fst body)))))) (\<lambda>reply'. case reply' of
             HttpReply status body \<Rightarrow>
               bindE (wrapE ''unmarshalling unauthenticated request response'' (liftE (ce_Message ce body))) (\<lambda>message.
                 if status \<noteq> 403 \<and> status \<noteq> 401
                 then throwE (WithRemediation
                   (ErrMsg (''expected status code from unauthenticated request 403 or 401, got '' @ dec_digits status @ ''. Message: '' @ message))
                   ''Ensure the Kubernetes API server endpoint provided is correct and the CA certificate is valid for that endpoint.'')
                 else returnE ())
           | _ \<Rightarrow> panicE))"

definition ca_bytes :: "NodeConfig \<Rightarrow> bytes" where
  "ca_bytes node = (case CertificateAuthority (Cluster (Spec node)) of Some ca \<Rightarrow> ca | None \<Rightarrow> [])"

definition CheckUnauthenticatedAccess :: "cluster_env \<Rightarrow> NodeConfig \<Rightarrow> unit wio" where
  "CheckUnauthenticatedAccess ce node = MakeUnauthenticatedRequest ce (APIServerEndpoint (Cluster (Spec node))) (ca_bytes node)"

text \<open>\<open>AccessValidator.Run\<close>: both checks on the node with the complete cluster details, the second only after the first.\<close>

definition AccessValidator_Run :: "cluster_env \<Rightarrow> ClusterDetails \<Rightarrow> NodeConfig \<Rightarrow> unit wio" where
  "AccessValidator_Run ce cluster node =
     (let nodeComplete = node\<lparr>Spec := (Spec node)\<lparr>Cluster := cluster\<rparr>\<rparr> in
      thenE (ValidateAPIServerEndpointResolution ce nodeComplete) (CheckUnauthenticatedAccess ce nodeComplete))"

section \<open>Requests with the node's identity\<close>

definition badPermissionsRemediation :: string where
  "badPermissionsRemediation = ''Verify the Kubernetes identity and permissions assigned to the IAM roles on this node, it should belong to the group 'system:nodes'. Check your Access Entries or aws-auth ConfigMap.''"

text \<open>A client for the node's kubeconfig. Extra environment variables go to the user \<open>kubelet\<close>, whose entry and \<open>exec\<close> section are
  dereferenced without a check.\<close>

definition GetKubeClientFromKubeConfig :: "cluster_env \<Rightarrow> (string \<times> string) list \<Rightarrow> unit wio" where
  "GetKubeClientFromKubeConfig ce awsEnvVars =
     bindE (getE fs) (\<lambda>f.
     bindE (wrapE ''loading kubeconfig'' (liftE (ce_LoadFromFile ce f kubeconfigPath))) (\<lambda>config.
     bindE (if length awsEnvVars > 0 then
              (case map_of (cc_AuthInfos config) ''kubelet'' of
                 None \<Rightarrow> panicE
               | Some info \<Rightarrow>
                   (case ai_ExecEnv info of
                      None \<Rightarrow> panicE
                    | Some execEnv \<Rightarrow>
                        returnE (config\<lparr>cc_AuthInfos := AList.update ''kubelet'' (info\<lparr>ai_ExecEnv := Some (execEnv @ awsEnvVars)\<rparr>) (cc_AuthInfos config)\<rparr>)))
            else returnE config) (\<lambda>config'.
     bindE (wrapE ''building config from kubeconfig'' (liftE (ce_ClientConfig ce config'))) (\<lambda>restConfig.
       liftE (ce_NewForConfig ce restConfig)))))"

definition BuildClient :: "cluster_env \<Rightarrow> unit wio" where
  "BuildClient ce = GetKubeClientFromKubeConfig ce []"

definition api_client :: "cluster_env \<Rightarrow> unit wio" where
  "api_client ce = with_remediation (''Ensure the kubeconfig at '' @ kubeconfigPath @ '' has been created and is valid.'')
     (BuildClient ce)"

definition get_kubernetes_endpoints :: "cluster_env \<Rightarrow> endpoint_subset list wio" where
  "get_kubernetes_endpoints ce =
     bindE (with_remediation badPermissionsRemediation
       (GetRetry ce (bindE (api_call ''endpoints'' ''kubernetes'' (ce_GetEndpoints ce)) (\<lambda>e. returnE (EndpointsReply e)))))
       (\<lambda>reply'. case reply' of EndpointsReply e \<Rightarrow> returnE e | _ \<Rightarrow> panicE)"

definition MakeAuthenticatedRequest :: "cluster_env \<Rightarrow> unit wio" where
  "MakeAuthenticatedRequest ce = thenE (api_client ce) (thenE (get_kubernetes_endpoints ce) (returnE ()))"

definition principalARN :: "user_info \<Rightarrow> string" where
  "principalARN u = (case ui_ExtraARN u of [] \<Rightarrow> [] | p # _ \<Rightarrow> p)"

definition CheckIdentity :: "environment \<Rightarrow> cluster_env \<Rightarrow> semver \<Rightarrow> unit wio" where
  "CheckIdentity env ce sv =
     bindE (GetKubeletVersion env) (\<lambda>kubeletVersion.
       if sv_Compare sv kubeletVersion ''v1.28.0'' < 0 then returnE ()
       else thenE (api_client ce)
        (bindE (with_remediation badPermissionsRemediation
           (NetworkRequest ce (bindE (api_call ''selfsubjectreviews'' [] (ce_SelfSubjectReview ce)) (\<lambda>u. returnE (ReviewReply u)))))
          (\<lambda>reply'. case reply' of
             ReviewReply u \<Rightarrow>
               if ''system:nodes'' \<notin> set (ui_Groups u)
               then throwE (WithRemediation (ErrMsg (''node identity '' @ ui_Username u @ '' for principal '' @ principalARN u @
                      '' does not belong to the group 'system:nodes'' @ [CHR 0x27])) badPermissionsRemediation)
               else if \<not> HasPrefix (ui_Username u) ''system:node:''
               then throwE (WithRemediation (ErrMsg (''node identity '' @ ui_Username u @ '' for principal '' @ principalARN u @
                      '' does not match a node identity, username should start with 'system:node:'' @ [CHR 0x27])) badPermissionsRemediation)
               else returnE ()
           | _ \<Rightarrow> panicE)))"

text \<open>The port named \<open>https\<close>, 0 without one; a subset without it is passed over, as is an empty address.\<close>

fun https_port :: "(string \<times> int) list \<Rightarrow> int" where
  "https_port [] = 0"
| "https_port ((name, port) # ps) = (if name = ''https'' then port else https_port ps)"

definition vpc_targets :: "endpoint_subset \<Rightarrow> (string \<times> url) list" where
  "vpc_targets s =
     (let port = https_port (es_Ports s) in
      if port = 0 then []
      else map (\<lambda>ip. (ip, \<lparr>url_Scheme = ''https'', url_Hostname = ip, url_Port = itoa port\<rparr>)) (filter (\<lambda>ip. ip \<noteq> []) (es_Addresses s)))"

definition CheckVPCEndpointAccess :: "cluster_env \<Rightarrow> unit wio" where
  "CheckVPCEndpointAccess ce =
     thenE (api_client ce)
      (bindE (get_kubernetes_endpoints ce) (\<lambda>subsets.
        if subsets = [] then throwE (ErrMsg ''no subsets found in the Kubernetes endpoint, can't validate VPC API server access'')
        else forE (concat (map vpc_targets subsets)) (\<lambda>(ip, u).
          with_remediation (''Ensure the node has access to the Kube-API server endpoint '' @ ip @ '' in the VPC'') (check_with_retries ce u))))"

section \<open>The kubelet's certificate\<close>

record KubeletCertificateValidator =
  kcv_certPath :: path
  kcv_ca :: bytes
  kcv_ignoreDateAndNoCertErrors :: bool

definition KubeletCertificateValidator_Run :: "environment \<Rightarrow> x509 \<Rightarrow> KubeletCertificateValidator \<Rightarrow> unit wio" where
  "KubeletCertificateValidator_Run env x v =
     bindE (tryE (certificate_Validate env x (kcv_certPath v) (kcv_ca v))) (\<lambda>r. case r of
        Inr _ \<Rightarrow> returnE ()
      | Inl err \<Rightarrow>
          if kcv_ignoreDateAndNoCertErrors v \<and> (IsDateValidationError err \<or> IsNoCertError err) then returnE ()
          else throwE (AddKubeletRemediation (kcv_certPath v) err))"

section \<open>Cluster details\<close>

definition ReadCluster :: "cluster_env \<Rightarrow> NodeConfig \<Rightarrow> eks_cluster wio" where
  "ReadCluster ce node =
     with_remediation ''Ensure the node has access and permissions to call DescribeCluster EKS API. Check AWS credentials and IAM permissions.''
       (api_call ''DescribeCluster'' (cl_Name (Cluster (Spec node))) (\<lambda>n. ce_DescribeCluster ce n (cl_Name (Cluster (Spec node)))))"

definition ReadClusterDetails :: "cluster_env \<Rightarrow> NodeConfig \<Rightarrow> ClusterDetails wio" where
  "ReadClusterDetails ce node =
     (let c = Cluster (Spec node) in
      if APIServerEndpoint c \<noteq> [] \<and> CertificateAuthority c \<noteq> None \<and> CIDR c \<noteq> [] then returnE c
      else bindE (ReadCluster ce node) (\<lambda>cluster.
        if \<not> ec_Active cluster
        then (case ec_Name cluster of None \<Rightarrow> panicE | Some name \<Rightarrow> throwE (ErrMsg (''eks cluster '' @ name @ '' is not active'')))
        else
         bindE (if APIServerEndpoint c = [] then (case ec_Endpoint cluster of None \<Rightarrow> panicE | Some e \<Rightarrow> returnE (c\<lparr>APIServerEndpoint := e\<rparr>))
                else returnE c) (\<lambda>c1.
         bindE (if CertificateAuthority c1 = None
                then (case ec_CAData cluster of None \<Rightarrow> panicE
                      | Some d \<Rightarrow> bindE (liftE (ce_base64 ce d)) (\<lambda>decoded. returnE (c1\<lparr>CertificateAuthority := Some decoded\<rparr>)))
                else returnE c1) (\<lambda>c2.
          if CIDR c2 = [] then (case ec_ServiceIpv4Cidr cluster of None \<Rightarrow> panicE | Some s \<Rightarrow> returnE (c2\<lparr>CIDR := s\<rparr>))
          else returnE c2))))"

text \<open>The provider caches what it read; the cache is its state.\<close>

definition clusterProvider_ReadClusterDetails ::
  "cluster_env \<Rightarrow> NodeConfig \<Rightarrow> ClusterDetails option \<Rightarrow> (ClusterDetails \<times> ClusterDetails option) wio" where
  "clusterProvider_ReadClusterDetails ce node cache =
     (let c = Cluster (Spec node) in
      if APIServerEndpoint c \<noteq> [] \<and> CertificateAuthority c \<noteq> None \<and> CIDR c \<noteq> [] then returnE (c, cache)
      else case cache of
        Some cached \<Rightarrow> returnE (cached, cache)
      | None \<Rightarrow>
          bindE (with_remediation ''Either provide the Kubernetes API server endpoint or ensure the node has access and permissions to call DescribeCluster EKS API.''
                   (ReadClusterDetails ce node)) (\<lambda>cluster. returnE (cluster, Some cluster)))"

section \<open>AWS endpoints and identity\<close>

definition GetPartitionFromConfig :: "cluster_env \<Rightarrow> string wio" where
  "GetPartitionFromConfig ce =
     bindE (wrapE ''failed to get caller identity'' (api_call ''GetCallerIdentity'' [] (ce_GetCallerIdentity ce))) (\<lambda>identity. case identity of
        None \<Rightarrow> throwE (ErrMsg ''caller identity ARN is nil'')
      | Some a \<Rightarrow> liftE (ParsePartitionFromARN a))"

text \<open>\<open>CheckEndpointAccess\<close> of the packages \<open>sts\<close>, \<open>ssm\<close> and \<open>iamrolesanywhere\<close>: the same function for three services.\<close>

definition CheckEndpointAccess :: "cluster_env \<Rightarrow> string \<Rightarrow> unit wio" where
  "CheckEndpointAccess ce service =
     bindE (wrapE (''resolving '' @ service @ '' endpoint'') (liftE (ce_ResolveEndpoint ce service))) (\<lambda>endpoint.
       wrapE (''checking connection to '' @ service @ '' endpoint'') (check_with_retries ce endpoint))"

definition AuthenticationValidator_Run :: "cluster_env \<Rightarrow> unit wio" where
  "AuthenticationValidator_Run ce =
     bindE (tryE (CheckEndpointAccess ce ''sts'')) (\<lambda>r. case r of
        Inl _ \<Rightarrow> returnE ()
      | Inr _ \<Rightarrow>
          thenE (with_remediation ''Check your AWS configuration and make sure you can obtain valid AWS credentials.''
            (api_call ''GetCallerIdentity'' [] (ce_GetCallerIdentity ce))) (returnE ()))"

definition ssm_AccessValidator_Run :: "cluster_env \<Rightarrow> unit wio" where
  "ssm_AccessValidator_Run ce =
     with_remediation ''Ensure your network configuration allows access to the AWS SSM API endpoint'' (CheckEndpointAccess ce ''ssm'')"

definition iamra_AccessValidator_Run :: "cluster_env \<Rightarrow> unit wio" where
  "iamra_AccessValidator_Run ce =
     with_remediation ''Ensure your network configuration allows access to the AWS IAM Roles Anywhere API endpoint''
       (CheckEndpointAccess ce ''IAM Roles Anywhere'')"

section \<open>Access entries\<close>

definition accessEntryRemediation :: string where
  "accessEntryRemediation = ''Ensure your EKS cluster has at least one access entry of type HYBRID_LINUX with the hybrid node IAM role as principal.''"

definition list_access_entries :: "cluster_env \<Rightarrow> string \<Rightarrow> string option \<Rightarrow> (string list \<times> string) wio" where
  "list_access_entries ce clusterName token = api_call ''ListAccessEntries'' clusterName (\<lambda>n. ce_ListAccessEntries ce n clusterName token)"

definition ValidateClusterAccess :: "cluster_env \<Rightarrow> bool \<Rightarrow> eks_cluster option \<Rightarrow> unit wio" where
  "ValidateClusterAccess ce awsConfigured cluster =
     (if \<not> awsConfigured then throwE (ErrMsg ''AWS config not set'')
      else case Option.bind cluster ec_Name of
        None \<Rightarrow> returnE ()
      | Some clusterName \<Rightarrow>
          with_remediation accessEntryRemediation
           (bindE (wrapE ''getting caller identity'' (api_call ''GetCallerIdentity'' [] (ce_GetCallerIdentity ce))) (\<lambda>identity. case identity of
              None \<Rightarrow> throwE (ErrMsg ''caller identity ARN is nil'')
            | Some roleArn \<Rightarrow>
                bindE (wrapE ''parsing role ARN'' (liftE (ce_ParseARN ce roleArn))) (\<lambda>parsedARN. case extractRoleNameFromARN parsedARN of
                   None \<Rightarrow> throwE (ErrMsg (''extracting role name from ARN: '' @ roleArn))
                 | Some roleName \<Rightarrow>
                     if roleName = [] then throwE (ErrMsg (''extracting role name from ARN: '' @ roleArn))
                     else bindE (wrapE ''fetching access entries from cluster'' (fetchAllAccessEntries (list_access_entries ce clusterName) None []))
                       (\<lambda>accessEntries.
                          if list_ex (access_entry_matches roleName) accessEntries then returnE ()
                          else throwE (ErrMsg (''missing access entry of type HYBRID_LINUX with Hybrid Node role principal: '' @ roleName)))))))"

declare fetchAllAccessEntries.simps [code]

section \<open>Facts\<close>

text \<open>What is relied on of the wait loop: without an error, its last call of the condition answered that it is done.\<close>

definition waits_for :: "cluster_env \<Rightarrow> bool" where
  "waits_for ce \<longleftrightarrow>
     (\<forall>r cond s w i s' w'. ce_wait ce r cond s w = Some (Inr (None, i, s'), w') \<longrightarrow> (\<exists>s0 w0. cond s0 w0 = Some (Inr (True, s'), w')))"

lemma retry_turn_finished:
  "retry_turn h op s w = Some (Inr (True, l, a, x), w') \<Longrightarrow> op w = Some (Inr (True, x), w')"
  by (auto simp: retry_turn_def bindE_def tryE_def Do_turn_def returnE_def throwE_def Let_def
      split: option.splits sum.splits prod.splits if_splits)

lemma Do_result_None: "Do_result err i l = None \<longleftrightarrow> err = None"
  by (auto simp: Do_result_def split: option.splits)

text \<open>A retried operation that succeeds was done once, and so has a retried request succeeded once.\<close>

lemma Retrier_Do_done:
  assumes "waits_for ce"
  shows "valid_ok P (Retrier_Do ce r h op) (\<lambda>x w'. \<exists>w0. op w0 = Some (Inr (True, x), w'))"
proof (rule validI)
  fix w x w' assume run: "Retrier_Do ce r h op w = Some (Inr x, w')"
  let ?r = "if rt_Steps r = 0 then r\<lparr>rt_Steps := max_int\<rparr> else r"
  obtain err i l a y w1 where wt: "ce_wait ce ?r (retry_turn h op) (None, 0, NoReply) w = Some (Inr (err, i, l, a, y), w1)"
    and res: "(case Do_result err i l of None \<Rightarrow> returnE y | Some e \<Rightarrow> throwE e) w1 = Some (Inr x, w')"
    using run by (auto simp: Retrier_Do_def bindE_def split: option.splits sum.splits prod.splits)
  from res have "err = None" "y = x" "w1 = w'"
    by (auto simp: returnE_def throwE_def Do_result_None split: option.splits)
  with wt assms obtain s0 w0 where "retry_turn h op s0 w0 = Some (Inr (True, l, a, x), w')" unfolding waits_for_def by blast
  then show "\<exists>w0. op w0 = Some (Inr (True, x), w')" by (blast dest: retry_turn_finished)
qed simp

lemma Retrier_Do_ok:
  assumes "waits_for ce"
  shows "valid_ok P (Retrier_Do ce r h (once_ok request)) (\<lambda>x w'. \<exists>w0. request w0 = Some (Inr x, w'))"
  by (rule valid_post [OF Retrier_Do_done [OF assms]]) (auto simp: once_ok_def elim!: bindE_okE)

lemma retryRequest_ok:
  assumes "waits_for ce"
  shows "valid_ok P (retryRequest ce request) (\<lambda>x w'. \<exists>w0. request w0 = Some (Inr x, w'))"
    and "valid_ok P (GetRetry ce request) (\<lambda>x w'. \<exists>w0. request w0 = Some (Inr x, w'))"
    and "valid_ok P (ListRetry ce request) (\<lambda>x w'. \<exists>w0. request w0 = Some (Inr x, w'))"
  unfolding GetRetry_def ListRetry_def retryRequest_def by (rule Retrier_Do_ok [OF assms])+

text \<open>An idempotent request succeeds only when its last attempt did or failed with the error that says it was not needed.\<close>

lemma idempotent_ok:
  assumes "waits_for ce"
  shows "valid_ok P (IdempotentDelete ce ignored request) (\<lambda>_ w'. \<exists>w0 r. request w0 = Some (r, w') \<and> (case r of Inl e \<Rightarrow> ignored e | Inr _ \<Rightarrow> True))"
    and "valid_ok P (IdempotentCreate ce ignored request) (\<lambda>_ w'. \<exists>w0 r. request w0 = Some (r, w') \<and> (case r of Inl e \<Rightarrow> ignored e | Inr _ \<Rightarrow> True))"
proof -
  define Q where "Q w' \<longleftrightarrow> (\<exists>w0 r. request w0 = Some (r, w') \<and> (case r of Inl e \<Rightarrow> ignored e | Inr _ \<Rightarrow> True))" for w'
  have "Q w'" if "tolerate ignored request w0 = Some (Inr x, w')" for w0 x w'
  proof (cases "request w0")
    case (Some p)
    with that have "request w0 = Some (fst p, w') \<and> (case fst p of Inl e \<Rightarrow> ignored e | Inr _ \<Rightarrow> True)"
      by (cases p; cases "fst p") (auto simp: tolerate_def bindE_def tryE_def returnE_def throwE_def split: if_splits)
    then show ?thesis unfolding Q_def by blast
  qed (use that in \<open>simp add: tolerate_def bindE_def tryE_def\<close>)
  then have "valid_ok P (retryRequest ce (tolerate ignored request)) (\<lambda>_. Q)" by (blast intro: valid_post [OF retryRequest_ok(1) [OF assms]])
  then have "valid_ok P (thenE (retryRequest ce (tolerate ignored request)) (returnE ())) (\<lambda>_. Q)"
    by (rule valid_thenE) (simp add: valid_def returnE_def)
  then show "valid_ok P (IdempotentDelete ce ignored request) (\<lambda>_ w'. \<exists>w0 r. request w0 = Some (r, w') \<and> (case r of Inl e \<Rightarrow> ignored e | Inr _ \<Rightarrow> True))"
    "valid_ok P (IdempotentCreate ce ignored request) (\<lambda>_ w'. \<exists>w0 r. request w0 = Some (r, w') \<and> (case r of Inl e \<Rightarrow> ignored e | Inr _ \<Rightarrow> True))"
    by (simp_all add: IdempotentDelete_def IdempotentCreate_def Q_def [abs_def])
qed

lemma valid_with_remediation: "valid_ok P m Q \<Longrightarrow> valid_ok P (with_remediation a m) Q"
  unfolding with_remediation_def by (rule valid_mapErrE)

lemma api_call_ok: "valid_ok P (api_call nm arg ans) (\<lambda>x _. \<exists>n. ans n = Inr x)"
  by (auto simp: valid_def api_call_def split: sum.splits)

text \<open>A connection that could be made: directly, or through the proxy with its agreement to open the tunnel.\<close>

definition connected :: "cluster_env \<Rightarrow> url \<Rightarrow> bool" where
  "connected ce u \<longleftrightarrow>
     (let target = url_Hostname u @ '':'' @ (if url_Port u = [] \<and> url_Scheme u = ''https'' then ''443'' else url_Port u) in
      case ce_ProxyFunc ce u of
        Inl _ \<Rightarrow> False
      | Inr None \<Rightarrow> (\<exists>n. ce_Dial ce n target = None)
      | Inr (Some p) \<Rightarrow> (\<exists>n. ce_Dial ce n p = None) \<and> (\<exists>n. ce_WriteConnect ce n target = None) \<and> (\<exists>n. ce_ReadConnect ce n target = Inr 200))"

lemma net_call_ok: "valid_ok P (net_call nm arg ans) (\<lambda>_ _. \<exists>n. ans n = None)"
  unfolding net_call_def by (rule valid_post [OF api_call_ok]) (auto split: option.splits)

text \<open>Facts that do not depend on the world are kept by every action.\<close>

lemma valid_keep: "valid_ok (\<lambda>_. True) m (\<lambda>_ _. B) \<Longrightarrow> valid_ok (\<lambda>_. A) m (\<lambda>_ _. A \<and> B)"
  by (auto simp: valid_def split: sum.splits)

lemma valid_then_keep:
  "valid_ok (\<lambda>_. True) m (\<lambda>_ _. A) \<Longrightarrow> valid_ok (\<lambda>_. True) k (\<lambda>_ _. B) \<Longrightarrow> valid_ok P (thenE m k) (\<lambda>_ _. A \<and> B)"
  by (rule valid_pre, rule valid_thenE, assumption, rule valid_keep) simp_all

lemma CheckConnection_ok: "valid_ok P (CheckConnectionToHost ce u) (\<lambda>_ _. connected ce u)"
proof -
  define target where "target = url_Hostname u @ '':'' @ (if url_Port u = [] \<and> url_Scheme u = ''https'' then ''443'' else url_Port u)"
  have read: "valid_ok (\<lambda>_. True) (bindE (wrapE m (api_call nm a (\<lambda>n. ce_ReadConnect ce n target))) (\<lambda>status.
      if status \<noteq> 200 then throwE (ErrMsg (e @ dec_digits status)) else returnE ())) (\<lambda>_ _. \<exists>n. ce_ReadConnect ce n target = Inr 200)" for m nm a e
  proof (rule valid_bindE [OF valid_wrapE [OF api_call_ok]])
    fix status
    show "valid_ok (\<lambda>_. \<exists>n. ce_ReadConnect ce n target = Inr status) (if status \<noteq> 200 then throwE (ErrMsg (e @ dec_digits status)) else returnE ())
      (\<lambda>_ _. \<exists>n. ce_ReadConnect ce n target = Inr 200)" by (simp add: valid_def)
  qed
  note steps = valid_then_keep [OF valid_wrapE [OF net_call_ok] valid_then_keep [OF valid_wrapE [OF net_call_ok] read]]
    valid_thenE [OF valid_wrapE [OF net_call_ok]]
  show ?thesis
  proof (cases "ce_ProxyFunc ce u")
    case (Inl e)
    then show ?thesis by (simp add: CheckConnectionToHost_def Let_def valid_def)
  next
    case (Inr proxy)
    show ?thesis
    proof (cases proxy)
      case None
      have "valid_ok P (thenE (wrapE (''dialing '' @ target) (net_call ''dial'' target (\<lambda>n. ce_Dial ce n target))) (returnE ()))
          (\<lambda>_ _. \<exists>n. ce_Dial ce n target = None)"
        by (rule valid_thenE [OF valid_wrapE [OF net_call_ok]]) (simp add: valid_def)
      then show ?thesis
        by (simp only: CheckConnectionToHost_def connected_def Inr None Let_def target_def [symmetric] sum.case option.case if_True simp_thms)
    next
      case (Some p)
      show ?thesis using steps(1)
        by (simp only: CheckConnectionToHost_def connected_def Inr Some Let_def target_def [symmetric] sum.case option.case option.distinct
            if_False simp_thms)
    qed
  qed
qed

lemma check_with_retries_ok:
  assumes "waits_for ce"
  shows "valid_ok P (check_with_retries ce u) (\<lambda>_ _. connected ce u)"
proof -
  have "valid_ok P (NetworkRequest ce (thenE (CheckConnectionToHost ce u) (returnE NoReply))) (\<lambda>_ _. connected ce u)"
    unfolding NetworkRequest_def
  proof (rule valid_post [OF Retrier_Do_ok [OF assms]])
    fix x w assume "\<exists>w0. thenE (CheckConnectionToHost ce u) (returnE NoReply) w0 = Some (Inr x, w)"
    then show "connected ce u" using valid_okD [OF CheckConnection_ok TrueI]
      by (fastforce simp: thenE_def bindE_def returnE_def split: option.splits sum.splits prod.splits)
  qed simp
  then show ?thesis unfolding check_with_retries_def by (rule valid_thenE) (simp add: valid_def returnE_def)
qed

lemma with_remediation_liftE: "bindE (with_remediation a (liftE (Inr x))) k = k x"
  by (rule ext) (simp add: with_remediation_def mapErrE_def liftE_def bindE_def)

lemma checkAPIServerConnection_ok:
  assumes "waits_for ce"
  shows "valid_ok P (checkAPIServerConnection ce node)
    (\<lambda>_ _. \<exists>u. ce_ParseRequestURI ce (APIServerEndpoint (Cluster (Spec node))) = Inr u \<and> url_Hostname u \<noteq> [] \<and>
       (\<exists>n ips. ce_LookupIPAddr ce n (url_Hostname u) = Inr ips \<and> ips \<noteq> []) \<and> connected ce u)"
proof (cases "ce_ParseRequestURI ce (APIServerEndpoint (Cluster (Spec node)))")
  case (Inl e)
  then show ?thesis by (simp add: checkAPIServerConnection_def with_remediation_def mapErrE_def liftE_def bindE_def valid_def)
next
  case (Inr u)
  have res: "valid_ok P (validateEndpointResolution ce (url_Hostname u))
      (\<lambda>_ _. url_Hostname u \<noteq> [] \<and> (\<exists>n ips. ce_LookupIPAddr ce n (url_Hostname u) = Inr ips \<and> ips \<noteq> []))" for P
  proof (cases "url_Hostname u = []")
    case True
    then show ?thesis by (simp add: validateEndpointResolution_def valid_def)
  next
    case False
    have "valid_ok P (bindE (wrapE m (api_call nm a (\<lambda>n. ce_LookupIPAddr ce n h))) (\<lambda>ips. if ips = [] then throwE e else returnE ()))
        (\<lambda>_ _. \<exists>n ips. ce_LookupIPAddr ce n h = Inr ips \<and> ips \<noteq> [])" for m nm a h e
      by (rule valid_bindE [OF valid_wrapE [OF api_call_ok]]) (auto simp: valid_def)
    then show ?thesis using False by (simp add: validateEndpointResolution_def)
  qed
  show ?thesis unfolding checkAPIServerConnection_def Inr with_remediation_liftE
    using valid_then_keep [OF valid_with_remediation [OF res] valid_with_remediation [OF check_with_retries_ok [OF assms]]]
    by (rule valid_post) blast+
qed

text \<open>What the API server and the identity it sees have answered.\<close>

lemma MakeUnauthenticatedRequest_ok:
  assumes "waits_for ce"
  shows "valid_ok P (MakeUnauthenticatedRequest ce endpoint ca)
    (\<lambda>_ _. ce_CertPool ce ca \<and> (\<exists>n status body. ce_Get ce n endpoint ca = Inr (status, (body, None)) \<and> status \<in> {401, 403}))"
proof -
  let ?req = "bindE (api_call ''get'' endpoint (\<lambda>n. ce_Get ce n endpoint ca)) (\<lambda>(status, body). case snd body of
     Some err \<Rightarrow> throwE (ErrWrap ''reading unauthenticated request response body'' err) | None \<Rightarrow> returnE (HttpReply status (fst body)))"
  have req: "\<exists>n status body. x = HttpReply status body \<and> ce_Get ce n endpoint ca = Inr (status, (body, None))" if "?req w0 = Some (Inr x, w')" for x w0 w'
    using that by (auto simp: bindE_def api_call_def returnE_def throwE_def split: option.splits sum.splits prod.splits)
  have retry: "valid_ok P (with_remediation a (retryRequest ce ?req))
      (\<lambda>x _. \<exists>n status body. x = HttpReply status body \<and> ce_Get ce n endpoint ca = Inr (status, (body, None)))" for P a
    unfolding retryRequest_def
    by (rule valid_with_remediation [OF valid_post [OF Retrier_Do_ok [OF assms]]]) (use req in blast)+
  have tail: "valid_ok (\<lambda>_. \<exists>n status body. x = HttpReply status body \<and> ce_Get ce n endpoint ca = Inr (status, (body, None)))
      (case x of HttpReply status body \<Rightarrow> bindE (wrapE m (liftE (ce_Message ce body))) (\<lambda>message. if status \<noteq> 403 \<and> status \<noteq> 401 then throwE (g status message) else returnE ())
       | _ \<Rightarrow> panicE)
      (\<lambda>_ _. \<exists>n status body. ce_Get ce n endpoint ca = Inr (status, (body, None)) \<and> status \<in> {401, 403})" for x m g
    by (cases x) (auto simp: valid_def bindE_def wrapE_def mapErrE_def liftE_def returnE_def throwE_def panicE_def split: sum.splits if_splits)
  show ?thesis
  proof (cases "ce_CertPool ce ca \<and> ce_NewRequest ce endpoint = None")
    case False
    then show ?thesis by (auto simp: MakeUnauthenticatedRequest_def valid_def split: option.splits)
  next
    case True
    then have c: "ce_CertPool ce ca" "ce_NewRequest ce endpoint = None" by blast+
    show ?thesis unfolding MakeUnauthenticatedRequest_def c option.case
      by (simp only: c(1) not_True_eq_False if_False simp_thms) (rule valid_bindE [OF retry tail])
  qed
qed

lemma CheckIdentity_ok:
  assumes "waits_for ce"
  shows "valid_ok P (CheckIdentity env ce sv)
    (\<lambda>_ _. (\<exists>v. sv_Compare sv v ''v1.28.0'' < 0) \<or>
       (\<exists>n u. ce_SelfSubjectReview ce n = Inr u \<and> ''system:nodes'' \<in> set (ui_Groups u) \<and> HasPrefix (ui_Username u) ''system:node:''))"
proof -
  let ?req = "bindE (api_call ''selfsubjectreviews'' [] (ce_SelfSubjectReview ce)) (\<lambda>u. returnE (ReviewReply u))"
  have req: "\<exists>n u. x = ReviewReply u \<and> ce_SelfSubjectReview ce n = Inr u" if "?req w0 = Some (Inr x, w')" for x w0 w'
    using that by (auto simp: bindE_def api_call_def returnE_def split: option.splits sum.splits)
  have retry: "valid_ok P (with_remediation a (NetworkRequest ce ?req)) (\<lambda>x _. \<exists>n u. x = ReviewReply u \<and> ce_SelfSubjectReview ce n = Inr u)" for P a
    unfolding NetworkRequest_def
    by (rule valid_with_remediation [OF valid_post [OF Retrier_Do_ok [OF assms]]]) (use req in blast)+
  have tail: "valid_ok (\<lambda>_. \<exists>n u. x = ReviewReply u \<and> ce_SelfSubjectReview ce n = Inr u)
      (case x of ReviewReply u \<Rightarrow> if g \<notin> set (ui_Groups u) then throwE (e u) else if \<not> HasPrefix (ui_Username u) p then throwE (e' u) else returnE ()
       | _ \<Rightarrow> panicE)
      (\<lambda>_ _. \<exists>n u. ce_SelfSubjectReview ce n = Inr u \<and> g \<in> set (ui_Groups u) \<and> HasPrefix (ui_Username u) p)" for x g p e e'
    by (cases x) (auto simp: valid_def returnE_def throwE_def panicE_def split: if_splits)
  note checked = valid_skip [OF valid_bindE [OF retry tail]]
  show ?thesis unfolding CheckIdentity_def
  proof (rule valid_skipB)
    fix v
    show "valid_ok (\<lambda>_. True) (if sv_Compare sv v ''v1.28.0'' < 0 then returnE ()
       else thenE (api_client ce) (bindE (with_remediation badPermissionsRemediation (NetworkRequest ce ?req)) (\<lambda>reply'. case reply' of
             ReviewReply u \<Rightarrow>
               if ''system:nodes'' \<notin> set (ui_Groups u)
               then throwE (WithRemediation (ErrMsg (''node identity '' @ ui_Username u @ '' for principal '' @ principalARN u @
                      '' does not belong to the group 'system:nodes'' @ [CHR 0x27])) badPermissionsRemediation)
               else if \<not> HasPrefix (ui_Username u) ''system:node:''
               then throwE (WithRemediation (ErrMsg (''node identity '' @ ui_Username u @ '' for principal '' @ principalARN u @
                      '' does not match a node identity, username should start with 'system:node:'' @ [CHR 0x27])) badPermissionsRemediation)
               else returnE ()
           | _ \<Rightarrow> panicE)))
      (\<lambda>_ _. (\<exists>v. sv_Compare sv v ''v1.28.0'' < 0) \<or>
       (\<exists>n u. ce_SelfSubjectReview ce n = Inr u \<and> ''system:nodes'' \<in> set (ui_Groups u) \<and> HasPrefix (ui_Username u) ''system:node:''))"
    proof (cases "sv_Compare sv v ''v1.28.0'' < 0")
      case True
      then show ?thesis by (simp only: if_True) (auto simp: valid_def)
    next
      case False
      show ?thesis unfolding if_not_P [OF False] by (rule valid_post [OF checked]) simp_all
    qed
  qed
qed

text \<open>Every entry that is returned was on a page, and all pages of a chain of tokens are read.\<close>

lemma fetchAll_sound:
  assumes "fetchAllAccessEntries pages tok acc w = Some (Inr es, w')" and "e \<in> set es"
  shows "e \<in> set acc \<or> (\<exists>t w0 r w1. pages t w0 = Some (Inr r, w1) \<and> e \<in> set (fst r))"
proof -
  let ?seen = "\<lambda>pages acc. e \<in> set acc \<or> (\<exists>t w0 r w1. pages t w0 = Some (Inr r, w1) \<and> e \<in> set (fst r))"
  let ?P = "\<lambda>(pages :: string option \<Rightarrow> (string list \<times> string) wio) (tok :: string option) acc (w :: world) (y :: (goerr + string list) \<times> world).
    fst y = Inr es \<longrightarrow> ?seen pages acc"
  have "?P pages tok acc w (Inr es, w')"
    using assms(1)
  proof (rule fetchAllAccessEntries.raw_induct [rotated, where P = ?P], intro impI)
    fix f pages tok acc w y
    assume IH: "\<And>pages tok acc w y. f pages tok acc w = Some y \<Longrightarrow> ?P pages tok acc w y" and y: "fst y = Inr es"
      and body: "Option.bind (pages tok w) (\<lambda>p. case fst p of Inl err \<Rightarrow> Some (Inl (ErrWrap ''failed to list access entries'' err), snd p)
        | Inr r \<Rightarrow> if snd r = [] then Some (Inr (acc @ fst r), snd p) else f pages (Some (snd r)) (acc @ fst r) (snd p)) = Some y"
    obtain a w1 where aw: "pages tok w = Some (a, w1)" using body by (cases "pages tok w") auto
    obtain r where "a = Inr r" using body y aw by (cases a) auto
    with aw have page: "pages tok w = Some (Inr r, w1)" by simp
    show "?seen pages acc"
    proof (cases "snd r = []")
      case True
      with body page y have "es = acc @ fst r" by auto
      then have "e \<in> set acc \<or> e \<in> set (fst r)" using assms(2) by simp
      with page show ?thesis by blast
    next
      case False
      with body page have "f pages (Some (snd r)) (acc @ fst r) w1 = Some y" by simp
      from IH [OF this] y have "?seen pages (acc @ fst r)" by blast
      then have "?seen pages acc \<or> e \<in> set (fst r)" unfolding set_append Un_iff by blast
      with page show ?thesis by blast
    qed
  qed
  then show ?thesis by simp
qed

text \<open>An API that answers by a table of pages; the pages from a token on, when at most \<open>n\<close> follow.\<close>

definition answers_by :: "(string option \<Rightarrow> (string list \<times> string) wio) \<Rightarrow> (string option \<Rightarrow> string list \<times> string) \<Rightarrow> bool" where
  "answers_by pages tbl \<longleftrightarrow> (\<forall>t w. \<exists>w'. pages t w = Some (Inr (tbl t), w'))"

fun pages_from :: "nat \<Rightarrow> (string option \<Rightarrow> string list \<times> string) \<Rightarrow> string option \<Rightarrow> string list option" where
  "pages_from 0 tbl t = None"
| "pages_from (Suc n) tbl t =
     (if snd (tbl t) = [] then Some (fst (tbl t)) else map_option (\<lambda>es. fst (tbl t) @ es) (pages_from n tbl (Some (snd (tbl t)))))"

lemma fetchAll_complete:
  assumes "answers_by pages tbl"
  shows "pages_from n tbl t = Some es \<Longrightarrow> \<exists>w'. fetchAllAccessEntries pages t acc w = Some (Inr (acc @ es), w')"
proof (induction n arbitrary: t es acc w)
  case 0
  then show ?case by simp
next
  case (Suc n)
  obtain w1 where p: "pages t w = Some (Inr (tbl t), w1)" using assms unfolding answers_by_def by blast
  show ?case
  proof (cases "snd (tbl t) = []")
    case True
    with Suc.prems p show ?thesis by (simp add: fetchAllAccessEntries.simps [of pages t])
  next
    case False
    with Suc.prems obtain es' where rest: "pages_from n tbl (Some (snd (tbl t))) = Some es'" and es: "es = fst (tbl t) @ es'" by auto
    from Suc.IH [OF rest, of "acc @ fst (tbl t)" w1] p False es show ?thesis
      by (simp add: fetchAllAccessEntries.simps [of pages t])
  qed
qed

text \<open>The caller's role and an entry of the cluster that matches it.\<close>

definition access_granted :: "cluster_env \<Rightarrow> string \<Rightarrow> bool" where
  "access_granted ce clusterName \<longleftrightarrow>
     (\<exists>i a parsed role. ce_GetCallerIdentity ce i = Inr (Some a) \<and> ce_ParseARN ce a = Inr parsed \<and>
        extractRoleNameFromARN parsed = Some role \<and> role \<noteq> [] \<and>
        (\<exists>j tok es tok' e. ce_ListAccessEntries ce j clusterName tok = Inr (es, tok') \<and> e \<in> set es \<and> access_entry_matches role e))"

lemma fetch_matching:
  "valid_ok P (bindE (wrapE m (fetchAllAccessEntries (list_access_entries ce n) None []))
      (\<lambda>es. if list_ex (access_entry_matches role) es then returnE () else throwE err))
    (\<lambda>_ _. \<exists>j tok es tok' e. ce_ListAccessEntries ce j n tok = Inr (es, tok') \<and> e \<in> set es \<and> access_entry_matches role e)"
proof (rule valid_bindE)
  show "valid_ok P (wrapE m (fetchAllAccessEntries (list_access_entries ce n) None []))
      (\<lambda>es _. \<forall>e\<in>set es. \<exists>j tok ys tok'. ce_ListAccessEntries ce j n tok = Inr (ys, tok') \<and> e \<in> set ys)"
  proof (rule valid_wrapE, rule validI, rule ballI)
    fix w es w' e assume "fetchAllAccessEntries (list_access_entries ce n) None [] w = Some (Inr es, w')" "e \<in> set es"
    from fetchAll_sound [OF this] obtain t w0 r w1 where "list_access_entries ce n t w0 = Some (Inr r, w1)" "e \<in> set (fst r)" by auto
    then have "ce_ListAccessEntries ce (steps w0) n t = Inr (fst r, snd r)" by (auto simp: list_access_entries_def api_call_def)
    with \<open>e \<in> set (fst r)\<close> show "\<exists>j tok ys tok'. ce_ListAccessEntries ce j n tok = Inr (ys, tok') \<and> e \<in> set ys" by blast
  qed simp
  fix es
  show "valid_ok (\<lambda>_. \<forall>e\<in>set es. \<exists>j tok ys tok'. ce_ListAccessEntries ce j n tok = Inr (ys, tok') \<and> e \<in> set ys)
      (if list_ex (access_entry_matches role) es then returnE () else throwE err)
      (\<lambda>_ _. \<exists>j tok es tok' e. ce_ListAccessEntries ce j n tok = Inr (es, tok') \<and> e \<in> set es \<and> access_entry_matches role e)"
    by (fastforce simp: valid_def returnE_def throwE_def list_ex_iff)
qed

lemma ValidateClusterAccess_ok:
  assumes "ec_Name cl = Some n"
  shows "valid_ok (\<lambda>_. True) (ValidateClusterAccess ce True (Some cl)) (\<lambda>_ _. access_granted ce n)"
proof -
  have arn: "valid_ok P (wrapE m (liftE (ce_ParseARN ce a))) (\<lambda>parsed _. ce_ParseARN ce a = Inr parsed)" for P m a
    by (rule valid_wrapE) (auto simp: valid_def liftE_def split: sum.splits)
  have named: "valid_ok (\<lambda>_. ce_GetCallerIdentity ce i = Inr (Some a) \<and> ce_ParseARN ce a = Inr parsed)
      (case extractRoleNameFromARN parsed of None \<Rightarrow> throwE e1
       | Some role \<Rightarrow> if role = [] then throwE e1 else bindE (wrapE m (fetchAllAccessEntries (list_access_entries ce n) None []))
           (\<lambda>es. if list_ex (access_entry_matches role) es then returnE () else throwE (e2 role)))
      (\<lambda>_ _. access_granted ce n)" (is "valid_ok (\<lambda>_. ?pre) _ _") for i a parsed e1 e2 m
  proof (cases "?pre \<and> (\<exists>role. extractRoleNameFromARN parsed = Some role \<and> role \<noteq> [])")
    case True
    then obtain role where r: "?pre" "extractRoleNameFromARN parsed = Some role" "role \<noteq> []" by blast
    show ?thesis unfolding r(2) option.case if_not_P [OF r(3)]
      by (rule valid_post [OF fetch_matching]) (use r in \<open>unfold access_granted_def, blast\<close>)+
  next
    case False
    then show ?thesis by (auto simp: valid_def split: option.splits)
  qed
  have parse: "valid_ok (\<lambda>_. \<exists>i. ce_GetCallerIdentity ce i = Inr identity)
      (case identity of None \<Rightarrow> throwE e0 | Some a \<Rightarrow> bindE (wrapE m1 (liftE (ce_ParseARN ce a))) (\<lambda>parsed. case extractRoleNameFromARN parsed of None \<Rightarrow> throwE (e1 a)
       | Some role \<Rightarrow> if role = [] then throwE (e1 a) else bindE (wrapE m (fetchAllAccessEntries (list_access_entries ce n) None []))
           (\<lambda>es. if list_ex (access_entry_matches role) es then returnE () else throwE (e2 role))))
      (\<lambda>_ _. access_granted ce n)" for identity e0 e1 e2 m m1
  proof (cases "\<exists>i a. identity = Some a \<and> ce_GetCallerIdentity ce i = Inr (Some a)")
    case True
    then obtain i a where ia: "identity = Some a" "ce_GetCallerIdentity ce i = Inr (Some a)" by blast
    show ?thesis unfolding ia(1) option.case
      by (rule valid_bindE [OF arn], rule valid_pre [OF named [of i]]) (use ia in simp)
  next
    case False
    then show ?thesis by (cases identity) (auto simp: valid_def)
  qed
  show ?thesis unfolding ValidateClusterAccess_def
    by (simp only: Option.bind.bind_lunit assms not_True_eq_False if_False option.case simp_thms)
      (rule valid_with_remediation, rule valid_bindE [OF valid_wrapE [OF api_call_ok] parse])
qed

text \<open>The details returned: what the user set is kept, and nothing the code fills in is missing a source.\<close>

definition completes :: "ClusterDetails \<Rightarrow> ClusterDetails \<Rightarrow> bool" where
  "completes c d \<longleftrightarrow>
     cl_Name d = cl_Name c \<and> cl_Region d = cl_Region c \<and> EnableOutpost d = EnableOutpost c \<and> cl_ID d = cl_ID c \<and>
     (if APIServerEndpoint c \<noteq> [] then APIServerEndpoint d = APIServerEndpoint c else True) \<and>
     (if CertificateAuthority c \<noteq> None then CertificateAuthority d = CertificateAuthority c else CertificateAuthority d \<noteq> None) \<and>
     (if CIDR c \<noteq> [] then CIDR d = CIDR c else True)"

lemma ReadClusterDetails_ok:
  "valid_ok P (ReadClusterDetails ce node) (\<lambda>d _. completes (Cluster (Spec node)) d)"
proof (rule validI)
  fix w d w' assume "ReadClusterDetails ce node w = Some (Inr d, w')"
  then show "completes (Cluster (Spec node)) d"
    by (auto simp: ReadClusterDetails_def Let_def bindE_def returnE_def throwE_def panicE_def liftE_def completes_def
        split: option.splits sum.splits prod.splits if_splits)
qed simp

lemma cert_checked:
  assumes "KubeletCertificateValidator_Run env x v w = Some (Inr (), w')"
  shows "\<exists>r. certificate_Validate env x (kcv_certPath v) (kcv_ca v) w = Some (r, w') \<and>
    (case r of Inr _ \<Rightarrow> True | Inl e \<Rightarrow> kcv_ignoreDateAndNoCertErrors v \<and> (IsDateValidationError e \<or> IsNoCertError e))"
  using assms by (auto simp: KubeletCertificateValidator_Run_def bindE_def tryE_def returnE_def throwE_def split: option.splits sum.splits prod.splits if_splits)

section \<open>Properties\<close>

text \<open>When the access validation passes, the endpoint was a well-formed address whose host resolved, a connection to it could be made
  (through the proxy, the proxy agreed to open the tunnel), the cluster's certificate authority was usable and the API server answered the
  unauthenticated request with 401 or 403.\<close>

theorem api_server_reached:
  assumes "waits_for ce" and "AccessValidator_Run ce cluster node w = Some (Inr (), w')"
  shows "\<exists>u n ips. ce_ParseRequestURI ce (APIServerEndpoint cluster) = Inr u \<and>
    ce_LookupIPAddr ce n (url_Hostname u) = Inr ips \<and> ips \<noteq> [] \<and> connected ce u \<and>
    (\<exists>ca m status body. ce_CertPool ce ca \<and> ce_Get ce m (APIServerEndpoint cluster) ca = Inr (status, (body, None)) \<and> status \<in> {401, 403})"
proof -
  let ?node = "node\<lparr>Spec := (Spec node)\<lparr>Cluster := cluster\<rparr>\<rparr>"
  have e: "APIServerEndpoint (Cluster (Spec ?node)) = APIServerEndpoint cluster" by simp
  note both = valid_then_keep [OF checkAPIServerConnection_ok [OF assms(1), of _ ?node]
      MakeUnauthenticatedRequest_ok [OF assms(1), of _ "APIServerEndpoint (Cluster (Spec ?node))" "ca_bytes ?node"], of "\<lambda>_. True"]
  from valid_okD [OF both TrueI] assms(2) show ?thesis
    unfolding AccessValidator_Run_def ValidateAPIServerEndpointResolution_def CheckUnauthenticatedAccess_def Let_def e by metis
qed

text \<open>When the identity check passes, the kubelet is older than 1.28 or the API server has said that the node's identity is in the group
  \<open>system:nodes\<close> and has a node's user name.\<close>

theorem node_identity_confirmed:
  assumes "waits_for ce" and "CheckIdentity env ce sv w = Some (Inr (), w')"
  shows "(\<exists>v. sv_Compare sv v ''v1.28.0'' < 0) \<or>
    (\<exists>n u. ce_SelfSubjectReview ce n = Inr u \<and> ''system:nodes'' \<in> set (ui_Groups u) \<and> HasPrefix (ui_Username u) ''system:node:'')"
  using valid_okD [OF CheckIdentity_ok [OF assms(1)] TrueI assms(2)] .


text \<open>C24: Listing the access entries ends and returns the entries of all pages in order, when the API answers every request and its chain of
  tokens ends.\<close>

theorem all_pages_are_read:
  assumes "answers_by pages tbl" and "pages_from n tbl None = Some es"
  shows "\<exists>w'. fetchAllAccessEntries pages None [] w = Some (Inr es, w')"
  using fetchAll_complete [OF assms, of "[]"] by simp

text \<open>The cluster details that are read keep every value the user has set and always have a certificate authority; a second read answers
  the same from the cache, without a call.\<close>

theorem cluster_details_complete:
  assumes "clusterProvider_ReadClusterDetails ce node None w = Some (Inr (d, cache), w')"
  shows "completes (Cluster (Spec node)) d \<and> clusterProvider_ReadClusterDetails ce node cache w'' = Some (Inr (d, cache), w'')"
proof (cases "APIServerEndpoint (Cluster (Spec node)) \<noteq> [] \<and> CertificateAuthority (Cluster (Spec node)) \<noteq> None \<and> CIDR (Cluster (Spec node)) \<noteq> []")
  case True
  with assms show ?thesis by (auto simp: clusterProvider_ReadClusterDetails_def Let_def returnE_def completes_def)
next
  case False
  with assms have "ReadClusterDetails ce node w = Some (Inr d, w')" "cache = Some d"
    by (auto simp: clusterProvider_ReadClusterDetails_def Let_def returnE_def bindE_def with_remediation_def mapErrE_def
        split: option.splits sum.splits prod.splits if_splits)
  with False valid_okD [OF ReadClusterDetails_ok TrueI] show ?thesis
    by (auto simp: clusterProvider_ReadClusterDetails_def Let_def returnE_def)
qed

subsection \<open>Witnesses\<close>

text \<open>A wait loop that calls its condition once, and services that answer well.\<close>

definition sample_cluster :: eks_cluster where
  "sample_cluster = \<lparr>ec_Name = Some ''prod'', ec_Active = True, ec_RemoteNetworkConfig = Some (Some [[''10.0.0.0/8'']]), ec_Endpoint = Some ''https://api'',
     ec_CAData = Some ''ca'', ec_ServiceIpv4Cidr = Some ''172.16.0.0/16'', ec_Version = Some ''1.31''\<rparr>"

definition sample_cluster_env :: cluster_env where
  "sample_cluster_env =
     \<lparr>ce_wait = \<lambda>r cond s. bindE (cond s) (\<lambda>(finished, s'). returnE (if finished then None else Some (ErrMsg ''timed out''), \<not> finished, s')),
      ce_ParseRequestURI = \<lambda>_. Inr \<lparr>url_Scheme = ''https'', url_Hostname = ''api'', url_Port = []\<rparr>, ce_LookupIPAddr = \<lambda>_ _. Inr [''10.0.0.1''],
      ce_ProxyFunc = \<lambda>_. Inr (Some ''proxy:3128''), ce_Dial = \<lambda>_ _. None, ce_WriteConnect = \<lambda>_ _. None, ce_ReadConnect = \<lambda>_ _. Inr 200,
      ce_CertPool = \<lambda>_. True, ce_NewRequest = \<lambda>_. None, ce_Get = \<lambda>_ _ _. Inr (401, (''denied'', None)), ce_Message = Inr,
      ce_LoadFromFile = \<lambda>_ _. Inr \<lparr>cc_AuthInfos = [(''kubelet'', \<lparr>ai_ExecEnv = Some [], ai_rest = []\<rparr>)], cc_rest = []\<rparr>,
      ce_ClientConfig = \<lambda>_. Inr [], ce_NewForConfig = \<lambda>_. Inr (), ce_GetEndpoints = \<lambda>_. Inr [], ce_SelfSubjectReview = \<lambda>_. Inr \<lparr>ui_Username = ''system:node:mi-1'', ui_Groups = [''system:nodes''], ui_ExtraARN = []\<rparr>,
      ce_DescribeCluster = \<lambda>_ _. Inr sample_cluster, ce_base64 = Inr, ce_ResolveEndpoint = \<lambda>s. Inr \<lparr>url_Scheme = ''https'', url_Hostname = s, url_Port = []\<rparr>,
      ce_GetCallerIdentity = \<lambda>_. Inr (Some ''arn''), ce_ParseARN = \<lambda>_. Inr \<lparr>arn_Service = ''sts'', arn_Resource = ''assumed-role/node/mi-1''\<rparr>,
      ce_ListAccessEntries = \<lambda>_ _ t. Inr (case t of None \<Rightarrow> ([''arn:aws:iam::1:role/admin''], ''next'') | Some _ \<Rightarrow> ([''arn:aws:iam::1:role/node''], []))\<rparr>"

lemma sample_waits: "waits_for sample_cluster_env"
  unfolding waits_for_def
  by (auto simp: sample_cluster_env_def bindE_def returnE_def split: option.splits sum.splits prod.splits if_splits)

definition succeeded :: "((goerr + unit) \<times> world) option \<Rightarrow> bool" where
  "succeeded r = (case r of Some (Inr _, _) \<Rightarrow> True | _ \<Rightarrow> False)"

lemma succeededE:
  assumes "succeeded r"
  obtains w where "r = Some (Inr (), w)"
  using assms by (auto simp: succeeded_def split: option.splits sum.splits prod.splits)

lemma sample_answers: "succeeds (\<lambda>_. True) (api_call nm arg (\<lambda>_. Inr x))" "succeeds (\<lambda>_. True) (net_call nm arg (\<lambda>_. None))"
  by (simp_all add: succeeds_def net_call_def api_call_def)

lemma sample_status:
  "succeeds (\<lambda>_. True) (bindE (wrapE m (api_call nm arg (\<lambda>_. Inr s))) (\<lambda>x. if x \<noteq> s then throwE (e x) else returnE ()))"
  by (simp add: succeeds_def bindE_def wrapE_def mapErrE_def api_call_def returnE_def)

lemma sample_Do:
  assumes "succeeds (\<lambda>_. True) request"
  shows "succeeds (\<lambda>_. True) (Retrier_Do sample_cluster_env r None (once_ok request))"
proof (rule succeedsI)
  fix w obtain x w1 where "request w = Some (Inr x, w1)" using assms by (rule succeedsE) simp
  then show "\<exists>x w'. Retrier_Do sample_cluster_env r None (once_ok request) w = Some (Inr x, w') \<and> True"
    by (simp add: Retrier_Do_def sample_cluster_env_def retry_turn_def once_ok_def bindE_def tryE_def returnE_def Do_turn_def Do_result_def Let_def)
qed

lemma sample_connects: "succeeds (\<lambda>_. True) (check_with_retries sample_cluster_env u)"
proof -
  have "succeeds (\<lambda>_. True) (CheckConnectionToHost sample_cluster_env u)"
    by (simp add: CheckConnectionToHost_def Let_def sample_cluster_env_def)
      (intro conjI impI succeeds_intros sample_status sample_answers)
  then show ?thesis unfolding check_with_retries_def NetworkRequest_def by (intro succeeds_thenE sample_Do succeeds_returnE)
qed

lemma sample_access: "succeeds (\<lambda>_. True) (AccessValidator_Run sample_cluster_env c n)"
proof -
  let ?ce = sample_cluster_env
  have host: "succeeds (\<lambda>_. True) (validateEndpointResolution ?ce ''api'')"
    by (simp add: validateEndpointResolution_def sample_cluster_env_def succeeds_def bindE_def wrapE_def mapErrE_def api_call_def returnE_def)
  have uri: "ce_ParseRequestURI ?ce x = Inr \<lparr>url_Scheme = ''https'', url_Hostname = ''api'', url_Port = []\<rparr>" for x
    by (simp add: sample_cluster_env_def)
  have conn: "succeeds (\<lambda>_. True) (checkAPIServerConnection ?ce m)" for m
    unfolding checkAPIServerConnection_def uri with_remediation_liftE
    by (simp only: url.select_convs with_remediation_def) (intro succeeds_thenE succeeds_mapErrE host sample_connects)
  have un: "succeeds (\<lambda>_. True) (MakeUnauthenticatedRequest ?ce e ca)" for e ca
    by (simp add: succeeds_def MakeUnauthenticatedRequest_def with_remediation_def mapErrE_def wrapE_def retryRequest_def Retrier_Do_def
        retry_turn_def once_ok_def sample_cluster_env_def bindE_def api_call_def tryE_def returnE_def Do_turn_def Do_result_def liftE_def Let_def)
  show ?thesis unfolding AccessValidator_Run_def Let_def ValidateAPIServerEndpointResolution_def CheckUnauthenticatedAccess_def
    by (intro succeeds_thenE conn un)
qed

theorem api_server_reached_witness:
  "\<exists>u. connected sample_cluster_env u \<and> ce_ParseRequestURI sample_cluster_env ''https://api'' = Inr u"
proof -
  let ?c = "(Cluster (Spec sample_config))\<lparr>APIServerEndpoint := ''https://api''\<rparr>"
  obtain w where "AccessValidator_Run sample_cluster_env ?c sample_config sample_world = Some (Inr (), w)"
    using succeedsE [OF sample_access TrueI] by (metis old.unit.exhaust)
  from api_server_reached [OF sample_waits this] show ?thesis by auto
qed

theorem node_identity_confirmed_witness:
  "\<exists>w. CheckIdentity sample_env sample_cluster_env sample_semver sample_world = Some (Inr (), w) \<and>
    ((\<exists>v. sv_Compare sample_semver v ''v1.28.0'' < 0) \<or>
     (\<exists>n u. ce_SelfSubjectReview sample_cluster_env n = Inr u \<and> ''system:nodes'' \<in> set (ui_Groups u) \<and> HasPrefix (ui_Username u) ''system:node:''))"
proof -
  have "succeeded (CheckIdentity sample_env sample_cluster_env sample_semver sample_world)" by code_simp
  then obtain w where w: "CheckIdentity sample_env sample_cluster_env sample_semver sample_world = Some (Inr (), w)" by (rule succeededE)
  from node_identity_confirmed [OF sample_waits w] w show ?thesis by blast
qed


theorem all_pages_are_read_witness:
  "\<exists>w'. fetchAllAccessEntries (list_access_entries sample_cluster_env ''prod'') None [] sample_world
     = Some (Inr [''arn:aws:iam::1:role/admin'', ''arn:aws:iam::1:role/node''], w')"
proof -
  let ?tbl = "\<lambda>t. case t of None \<Rightarrow> ([''arn:aws:iam::1:role/admin''], ''next'') | Some (_ :: string) \<Rightarrow> ([''arn:aws:iam::1:role/node''], [])"
  have "answers_by (list_access_entries sample_cluster_env ''prod'') ?tbl"
    by (simp add: answers_by_def list_access_entries_def api_call_def sample_cluster_env_def)
  moreover have "pages_from 2 ?tbl None = Some [''arn:aws:iam::1:role/admin'', ''arn:aws:iam::1:role/node'']" by (simp add: numeral_2_eq_2)
  ultimately show ?thesis by (rule all_pages_are_read)
qed

theorem cluster_details_complete_witness:
  "\<exists>d cache w'. clusterProvider_ReadClusterDetails sample_cluster_env sample_config None sample_world = Some (Inr (d, cache), w') \<and>
     completes (Cluster (Spec sample_config)) d"
proof -
  obtain d cache w' where run: "clusterProvider_ReadClusterDetails sample_cluster_env sample_config None sample_world = Some (Inr (d, cache), w')"
    by (auto simp: clusterProvider_ReadClusterDetails_def ReadClusterDetails_def ReadCluster_def with_remediation_def mapErrE_def bindE_def api_call_def
        returnE_def liftE_def Let_def sample_cluster_env_def sample_cluster_def sample_config_def)
  from cluster_details_complete [OF this] run show ?thesis by blast
qed

end
