(* ===== verification/Firewall.thy ===== *)
theory Firewall
  imports Packages
begin

text \<open>
  The firewall managers (\<open>internal/firewall\<close>) and the ports aspect (\<open>internal/system/ports.go\<close>) that opens the
  node's ports through them. The interface \<open>firewall.Manager\<close> is the locale \<open>firewall_manager\<close>; ufw and
  firewalld interpret it, and what the aspect does is proved once, for both.
\<close>

section \<open>Managers\<close>

record rule =
  rule_port :: string
  rule_protocol :: string
  rule_action :: string

record UncomplicatedFireWall =
  ufw_binPath :: path
  rules :: "rule list"

record firewalld =
  fd_binPath :: path

text \<open>An error of \<open>cmd.CombinedOutput()\<close> that is an \<open>*exec.ExitError\<close> with the given code.\<close>

definition is_exit :: "goerr \<Rightarrow> nat \<Rightarrow> bool" where
  "is_exit e code \<longleftrightarrow> e = TypedError ''*exec.ExitError'' (''exit status '' @ dec_digits code) None"

text \<open>\<open>exec.LookPath\<close> with its error dropped.\<close>

definition LookPath_or_empty :: "environment \<Rightarrow> string \<Rightarrow> path wio" where
  "LookPath_or_empty env name = bindE (LookPath env name) (\<lambda>r. returnE (case r of Inl _ \<Rightarrow> [] | Inr p \<Rightarrow> p))"

text \<open>A command whose failure is reported with its output.\<close>

definition run_or_fail :: "environment \<Rightarrow> string \<Rightarrow> string list \<Rightarrow> unit wio" where
  "run_or_fail env what args =
     bindE (CombinedOutput env args) (\<lambda>(out, err). case err of
        None \<Rightarrow> returnE ()
      | Some e \<Rightarrow> throwE (ErrMsg (what @ '': '' @ out @ '', error: '' @ error_text e)))"

subsection \<open>ufw\<close>

definition NewUncomplicatedFirewall :: "environment \<Rightarrow> UncomplicatedFireWall wio" where
  "NewUncomplicatedFirewall env = bindE (LookPath_or_empty env ''ufw'') (\<lambda>p. returnE \<lparr>ufw_binPath = p, rules = []\<rparr>)"

text \<open>The pattern \<open>.*Status: active*\<close> matches wherever its text without the last letter occurs.\<close>

definition ufw_IsEnabled :: "environment \<Rightarrow> UncomplicatedFireWall \<Rightarrow> bool wio" where
  "ufw_IsEnabled env ufw =
     (if ufw_binPath ufw \<noteq> [] then
        bindE (CombinedOutput env [ufw_binPath ufw, ''status'']) (\<lambda>(out, err). case err of
           Some e \<Rightarrow> throwE (ErrMsg (''failed to get status of uncomplicated firewall: '' @ out @ '', error: '' @ error_text e))
         | None \<Rightarrow> returnE (Contains out ''Status: activ''))
      else returnE False)"

definition ufw_AllowTcpPort :: "environment \<Rightarrow> UncomplicatedFireWall \<Rightarrow> string \<Rightarrow> unit wio" where
  "ufw_AllowTcpPort env ufw port =
     run_or_fail env (''failed to allow port '' @ port @ '' in firewall'') [ufw_binPath ufw, ''allow'', port @ ''/tcp'']"

definition ufw_AllowTcpPortRange :: "environment \<Rightarrow> UncomplicatedFireWall \<Rightarrow> string \<Rightarrow> string \<Rightarrow> unit wio" where
  "ufw_AllowTcpPortRange env ufw startPort endPort =
     run_or_fail env ''failed to allow ports in firewall'' [ufw_binPath ufw, ''allow'', startPort @ '':'' @ endPort @ ''/tcp'']"

definition ufw_FlushRules :: "unit wio" where
  "ufw_FlushRules = returnE ()"

text \<open>The pattern \<open>(\d+)\s*/(\w+)\s+(ALLOW|DENY)\s+Anywhere\<close> at the head of a string. Each repetition ends where the
  next element cannot start, so the longest run is the only one that can match.\<close>

definition is_word_char :: "char \<Rightarrow> bool" where
  "is_word_char c =
     (let n = (of_char c :: nat) in is_digit c \<or> c = CHR ''_'' \<or> (65 \<le> n \<and> n \<le> 90) \<or> (97 \<le> n \<and> n \<le> 122))"

definition is_blank_char :: "char \<Rightarrow> bool" where
  "is_blank_char c = (c \<in> set [CHR 0x09, CHR 0x0A, CHR 0x0C, CHR 0x0D, CHR 0x20])"

definition ufw_rule_at :: "string \<Rightarrow> rule option" where
  "ufw_rule_at s =
     (let port = takeWhile is_digit s;
          r1 = dropWhile is_blank_char (drop (length port) s);
          proto = takeWhile is_word_char (drop 1 r1);
          r2 = drop (length proto) (drop 1 r1);
          r3 = dropWhile is_blank_char r2;
          act = (if HasPrefix r3 ''ALLOW'' then ''ALLOW'' else if HasPrefix r3 ''DENY'' then ''DENY'' else []);
          r4 = drop (length act) r3
      in if port \<noteq> [] \<and> HasPrefix r1 ''/'' \<and> proto \<noteq> [] \<and> r2 \<noteq> [] \<and> is_blank_char (hd r2) \<and> act \<noteq> []
            \<and> r4 \<noteq> [] \<and> is_blank_char (hd r4) \<and> HasPrefix (dropWhile is_blank_char r4) ''Anywhere''
         then Some \<lparr>rule_port = port, rule_protocol = proto, rule_action = act\<rparr> else None)"

fun find_ufw_rule :: "string \<Rightarrow> rule option" where
  "find_ufw_rule [] = None"
| "find_ufw_rule (c # cs) = (case ufw_rule_at (c # cs) of Some r \<Rightarrow> Some r | None \<Rightarrow> find_ufw_rule cs)"

definition refreshActiveRules :: "environment \<Rightarrow> UncomplicatedFireWall \<Rightarrow> UncomplicatedFireWall wio" where
  "refreshActiveRules env ufw =
     bindE (CombinedOutput env [ufw_binPath ufw, ''status'']) (\<lambda>(out, err). case err of
        Some e \<Rightarrow> throwE e
      | None \<Rightarrow>
          let ufw' = ufw\<lparr>rules := rules ufw @ List.map_filter find_ufw_rule (Scanner_lines out)\<rparr> in
          if Scanner_too_long out then throwE (ErrMsg ''bufio.Scanner: token too long'') else returnE ufw')"

text \<open>The updated manager is returned: the rules that were read stay in the object.\<close>

definition ufw_IsPortOpen :: "environment \<Rightarrow> UncomplicatedFireWall \<Rightarrow> string \<Rightarrow> string \<Rightarrow> (bool \<times> UncomplicatedFireWall) wio" where
  "ufw_IsPortOpen env ufw port protocol =
     bindE (if rules ufw = [] then refreshActiveRules env ufw else returnE ufw) (\<lambda>ufw'.
       returnE (list_ex (\<lambda>r. rule_port r = port \<and> rule_protocol r = protocol \<and> rule_action r = ''ALLOW'') (rules ufw'), ufw'))"

subsection \<open>firewalld\<close>

definition NewFirewalld :: "environment \<Rightarrow> firewalld wio" where
  "NewFirewalld env = bindE (LookPath_or_empty env ''firewall-cmd'') (\<lambda>p. returnE \<lparr>fd_binPath = p\<rparr>)"

definition runningButFailedExitCode :: nat where "runningButFailedExitCode = 251"
definition notRunningExitCode :: nat where "notRunningExitCode = 252"

definition fd_IsEnabled :: "environment \<Rightarrow> firewalld \<Rightarrow> bool wio" where
  "fd_IsEnabled env fd =
     (if fd_binPath fd \<noteq> [] then
        bindE (CombinedOutput env [fd_binPath fd, ''--state'']) (\<lambda>(out, err). case err of
           Some e \<Rightarrow> if is_exit e runningButFailedExitCode \<or> is_exit e notRunningExitCode then returnE False else throwE e
         | None \<Rightarrow> returnE (Contains out ''runnin''))
      else returnE False)"

definition fd_AllowTcpPort :: "environment \<Rightarrow> firewalld \<Rightarrow> string \<Rightarrow> unit wio" where
  "fd_AllowTcpPort env fd port =
     run_or_fail env (''failed to allow port '' @ port @ '' in firewall'') [fd_binPath fd, ''--permanent'', ''--add-port='' @ port @ ''/tcp'']"

definition fd_AllowTcpPortRange :: "environment \<Rightarrow> firewalld \<Rightarrow> string \<Rightarrow> string \<Rightarrow> unit wio" where
  "fd_AllowTcpPortRange env fd startPort endPort =
     run_or_fail env ''failed to allow ports in firewall''
       [fd_binPath fd, ''--permanent'', ''--add-port='' @ startPort @ ''-'' @ endPort @ ''/tcp'']"

definition fd_FlushRules :: "environment \<Rightarrow> firewalld \<Rightarrow> unit wio" where
  "fd_FlushRules env fd =
     thenE (run_or_fail env ''failed to reload firewall'' [fd_binPath fd, ''--reload''])
       (run_or_fail env ''failed to persist firewall rules'' [fd_binPath fd, ''--runtime-to-permanent''])"

definition fd_IsPortOpen :: "environment \<Rightarrow> firewalld \<Rightarrow> string \<Rightarrow> string \<Rightarrow> bool wio" where
  "fd_IsPortOpen env fd port protocol =
     bindE (CombinedOutput env [fd_binPath fd, ''--query-port='' @ port @ ''/'' @ protocol]) (\<lambda>(out, err). case err of
        Some _ \<Rightarrow> returnE False
      | None \<Rightarrow> if Contains out ''ye'' then returnE True else throwE (ErrMsg ''unsupported firewall port status''))"

subsection \<open>The interface value\<close>

datatype Manager = Ufw UncomplicatedFireWall | Firewalld firewalld

definition NewFirewallManager :: "environment \<Rightarrow> Manager wio" where
  "NewFirewallManager env =
     bindE (GetOsName env) (\<lambda>osName.
       if osName = ''ubuntu'' then bindE (NewUncomplicatedFirewall env) (\<lambda>u. returnE (Ufw u))
       else bindE (NewFirewalld env) (\<lambda>f. returnE (Firewalld f)))"

definition IsEnabled :: "environment \<Rightarrow> Manager \<Rightarrow> bool wio" where
  "IsEnabled env m = (case m of Ufw u \<Rightarrow> ufw_IsEnabled env u | Firewalld f \<Rightarrow> fd_IsEnabled env f)"

definition AllowTcpPort :: "environment \<Rightarrow> Manager \<Rightarrow> string \<Rightarrow> unit wio" where
  "AllowTcpPort env m p = (case m of Ufw u \<Rightarrow> ufw_AllowTcpPort env u p | Firewalld f \<Rightarrow> fd_AllowTcpPort env f p)"

definition AllowTcpPortRange :: "environment \<Rightarrow> Manager \<Rightarrow> string \<Rightarrow> string \<Rightarrow> unit wio" where
  "AllowTcpPortRange env m a b =
     (case m of Ufw u \<Rightarrow> ufw_AllowTcpPortRange env u a b | Firewalld f \<Rightarrow> fd_AllowTcpPortRange env f a b)"

definition FlushRules :: "environment \<Rightarrow> Manager \<Rightarrow> unit wio" where
  "FlushRules env m = (case m of Ufw u \<Rightarrow> ufw_FlushRules | Firewalld f \<Rightarrow> fd_FlushRules env f)"

definition IsPortOpen :: "environment \<Rightarrow> Manager \<Rightarrow> string \<Rightarrow> string \<Rightarrow> (bool \<times> Manager) wio" where
  "IsPortOpen env m port protocol =
     (case m of
        Ufw u \<Rightarrow> bindE (ufw_IsPortOpen env u port protocol) (\<lambda>(b, u'). returnE (b, Ufw u'))
      | Firewalld f \<Rightarrow> bindE (fd_IsPortOpen env f port protocol) (\<lambda>b. returnE (b, Firewalld f)))"

section \<open>The ports aspect\<close>

definition kubeletServePort :: string where "kubeletServePort = ''10250''"
definition kubeProxyHealthzPort :: string where "kubeProxyHealthzPort = ''10256''"
definition nodePortStartRangePort :: string where "nodePortStartRangePort = ''30000''"
definition nodePortEndRangePort :: string where "nodePortEndRangePort = ''32767''"

definition ports_Setup :: "environment \<Rightarrow> Manager \<Rightarrow> unit wio" where
  "ports_Setup env firewallManager =
     bindE (tryE (IsEnabled env firewallManager)) (\<lambda>r. case r of
        Inl _ \<Rightarrow> returnE ()
      | Inr firewallEnabled \<Rightarrow>
          if firewallEnabled then
            thenE (AllowTcpPort env firewallManager kubeletServePort)
             (thenE (AllowTcpPort env firewallManager kubeProxyHealthzPort)
              (thenE (AllowTcpPortRange env firewallManager nodePortStartRangePort nodePortEndRangePort)
               (FlushRules env firewallManager)))
          else returnE ())"

section \<open>The contract of a manager\<close>

text \<open>Some run of the command had no error.\<close>

definition run_succeeds :: "environment \<Rightarrow> string list \<Rightarrow> bool" where
  "run_succeeds env args \<longleftrightarrow> (\<exists>n f. cr_err (run_cmd env n args f) = None)"

text \<open>An action that, when it succeeds, has run exactly these commands, each of them successfully.\<close>

definition runs_exactly :: "environment \<Rightarrow> string list list \<Rightarrow> unit wio \<Rightarrow> bool" where
  "runs_exactly env cmds m \<longleftrightarrow>
     (\<forall>t. valid_ok (\<lambda>w. trace w = t) m (\<lambda>_ w. trace w = t @ map EvCmd cmds \<and> list_all (run_succeeds env) cmds))"

lemma runs_exactly_thenE:
  assumes "runs_exactly env xs m" and "runs_exactly env ys k"
  shows "runs_exactly env (xs @ ys) (thenE m k)"
  unfolding runs_exactly_def
proof
  fix t
  show "valid_ok (\<lambda>w. trace w = t) (thenE m k) (\<lambda>_ w. trace w = t @ map EvCmd (xs @ ys) \<and> list_all (run_succeeds env) (xs @ ys))"
  proof (rule valid_thenE)
    show "valid_ok (\<lambda>w. trace w = t) m (\<lambda>_ w. trace w = t @ map EvCmd xs \<and> list_all (run_succeeds env) xs)"
      using assms(1) by (simp add: runs_exactly_def)
    show "valid_ok (\<lambda>w. trace w = t @ map EvCmd xs \<and> list_all (run_succeeds env) xs) k
        (\<lambda>_ w. trace w = t @ map EvCmd (xs @ ys) \<and> list_all (run_succeeds env) (xs @ ys))"
    proof (cases "list_all (run_succeeds env) xs")
      case True
      then show ?thesis using assms(2) [unfolded runs_exactly_def, THEN spec, of "t @ map EvCmd xs"] by simp
    next
      case False
      then show ?thesis by (simp add: valid_def)
    qed
  qed
qed

lemma runs_exactly_none: "runs_exactly env [] (returnE ())"
  by (simp add: runs_exactly_def valid_def)

lemma run_or_fail_runs: "runs_exactly env [args] (run_or_fail env what args)"
  by (auto simp: runs_exactly_def valid_def run_or_fail_def CombinedOutput_def run_succeeds_def bindE_def returnE_def throwE_def Let_def
      split: option.splits)

locale firewall_manager =
  fixes env :: environment
    and allow :: "string \<Rightarrow> unit wio" and allow_range :: "string \<Rightarrow> string \<Rightarrow> unit wio" and flush :: "unit wio"
    and allow_cmd :: "string \<Rightarrow> string list" and range_cmd :: "string \<Rightarrow> string \<Rightarrow> string list" and flush_cmds :: "string list list"
  assumes allow_runs: "runs_exactly env [allow_cmd p] (allow p)"
    and range_runs: "runs_exactly env [range_cmd a b] (allow_range a b)"
    and flush_runs: "runs_exactly env flush_cmds flush"
begin

lemma opening_runs:
  "runs_exactly env ([allow_cmd p, allow_cmd q, range_cmd a b] @ flush_cmds)
     (thenE (allow p) (thenE (allow q) (thenE (allow_range a b) flush)))"
  using runs_exactly_thenE [OF allow_runs runs_exactly_thenE [OF allow_runs runs_exactly_thenE [OF range_runs flush_runs]]] by simp

end

interpretation ufw: firewall_manager env "ufw_AllowTcpPort env u" "ufw_AllowTcpPortRange env u" ufw_FlushRules
  "\<lambda>p. [ufw_binPath u, ''allow'', p @ ''/tcp'']" "\<lambda>a b. [ufw_binPath u, ''allow'', a @ '':'' @ b @ ''/tcp'']" "[]"
  for env u
  by unfold_locales
    (simp_all add: ufw_AllowTcpPort_def ufw_AllowTcpPortRange_def ufw_FlushRules_def run_or_fail_runs runs_exactly_none)

interpretation fd: firewall_manager env "fd_AllowTcpPort env f" "fd_AllowTcpPortRange env f" "fd_FlushRules env f"
  "\<lambda>p. [fd_binPath f, ''--permanent'', ''--add-port='' @ p @ ''/tcp'']"
  "\<lambda>a b. [fd_binPath f, ''--permanent'', ''--add-port='' @ a @ ''-'' @ b @ ''/tcp'']"
  "[[fd_binPath f, ''--reload''], [fd_binPath f, ''--runtime-to-permanent'']]"
  for env f
proof unfold_locales
  show "runs_exactly env [[fd_binPath f, ''--reload''], [fd_binPath f, ''--runtime-to-permanent'']] (fd_FlushRules env f)"
    unfolding fd_FlushRules_def using runs_exactly_thenE [OF run_or_fail_runs run_or_fail_runs] by fastforce
qed (simp_all add: fd_AllowTcpPort_def fd_AllowTcpPortRange_def run_or_fail_runs)

text \<open>The commands that open the node's ports.\<close>

definition opening_commands :: "Manager \<Rightarrow> string list list" where
  "opening_commands m =
     (case m of
        Ufw u \<Rightarrow> map (\<lambda>p. [ufw_binPath u, ''allow'', p @ ''/tcp'']) [''10250'', ''10256'', ''30000:32767'']
      | Firewalld f \<Rightarrow>
          map (\<lambda>p. [fd_binPath f, ''--permanent'', ''--add-port='' @ p @ ''/tcp'']) [''10250'', ''10256'', ''30000-32767'']
          @ [[fd_binPath f, ''--reload''], [fd_binPath f, ''--runtime-to-permanent'']])"

lemma opening_ports:
  "runs_exactly env (opening_commands m)
     (thenE (AllowTcpPort env m kubeletServePort) (thenE (AllowTcpPort env m kubeProxyHealthzPort)
       (thenE (AllowTcpPortRange env m nodePortStartRangePort nodePortEndRangePort) (FlushRules env m))))"
proof (cases m)
  case (Ufw u)
  show ?thesis
    using ufw.opening_runs [of env u kubeletServePort kubeProxyHealthzPort nodePortStartRangePort nodePortEndRangePort]
    unfolding Ufw AllowTcpPort_def AllowTcpPortRange_def FlushRules_def
    by (simp add: opening_commands_def kubeletServePort_def kubeProxyHealthzPort_def nodePortStartRangePort_def nodePortEndRangePort_def)
next
  case (Firewalld f)
  show ?thesis
    using fd.opening_runs [of env f kubeletServePort kubeProxyHealthzPort nodePortStartRangePort nodePortEndRangePort]
    unfolding Firewalld AllowTcpPort_def AllowTcpPortRange_def FlushRules_def
    by (simp add: opening_commands_def kubeletServePort_def kubeProxyHealthzPort_def nodePortStartRangePort_def nodePortEndRangePort_def)
qed

section \<open>Properties\<close>

text \<open>C34: When the firewall is enabled, setting up the ports succeeds only after the commands that open the kubelet port, the
  kube-proxy health port and the node port range have all been run successfully, in that order and nothing else; when it is
  disabled or its state is unknown, nothing is changed.\<close>

theorem ports_are_opened:
  assumes "IsEnabled env m w = Some (r, w1)" and "ports_Setup env m w = Some (Inr (), w')"
  shows "if r = Inr True then trace w' = trace w1 @ map EvCmd (opening_commands m) \<and> list_all (run_succeeds env) (opening_commands m)
    else w' = w1"
proof (cases "r = Inr True")
  case True
  with assms have "thenE (AllowTcpPort env m kubeletServePort) (thenE (AllowTcpPort env m kubeProxyHealthzPort)
       (thenE (AllowTcpPortRange env m nodePortStartRangePort nodePortEndRangePort) (FlushRules env m))) w1 = Some (Inr (), w')"
    by (simp add: ports_Setup_def bindE_def tryE_def)
  with True show ?thesis using opening_ports [of env m] valid_okD unfolding runs_exactly_def by fastforce
next
  case False
  with assms show ?thesis
    by (auto simp: ports_Setup_def bindE_def tryE_def split: sum.splits if_splits)
qed

definition active_firewall_env :: environment where
  "active_firewall_env = sample_env\<lparr>run_cmd := \<lambda>_ _ f. \<lparr>cr_out = ''Status: active'', cr_err = None, cr_fs = f, cr_elapsed = 0\<rparr>\<rparr>"

theorem ports_are_opened_witness:
  "\<exists>w'. ports_Setup active_firewall_env (Ufw \<lparr>ufw_binPath = ''/usr/sbin/ufw'', rules = []\<rparr>) sample_world = Some (Inr (), w') \<and>
     trace w' = map EvCmd ([''/usr/sbin/ufw'', ''status''] # opening_commands (Ufw \<lparr>ufw_binPath = ''/usr/sbin/ufw'', rules = []\<rparr>))"
proof -
  let ?m = "Ufw \<lparr>ufw_binPath = ''/usr/sbin/ufw'', rules = []\<rparr>"
  define w1 where "w1 = snd (the (IsEnabled active_firewall_env ?m sample_world))"
  define w' where "w' = snd (the (ports_Setup active_firewall_env ?m sample_world))"
  have "Contains ''Status: active'' ''Status: activ''" by code_simp
  then have e: "IsEnabled active_firewall_env ?m sample_world = Some (Inr True, w1)" "trace w1 = [EvCmd [''/usr/sbin/ufw'', ''status'']]"
    by (simp_all add: w1_def IsEnabled_def ufw_IsEnabled_def CombinedOutput_def active_firewall_env_def bindE_def returnE_def Let_def sample_world_def)
  then have s: "ports_Setup active_firewall_env ?m sample_world = Some (Inr (), w')"
    by (simp add: w'_def ports_Setup_def bindE_def tryE_def thenE_def AllowTcpPort_def AllowTcpPortRange_def FlushRules_def ufw_AllowTcpPort_def
        ufw_AllowTcpPortRange_def ufw_FlushRules_def run_or_fail_def CombinedOutput_def active_firewall_env_def returnE_def Let_def)
  from ports_are_opened [OF e(1) s] have "trace w' = trace w1 @ map EvCmd (opening_commands ?m)" by simp
  with s e(2) show ?thesis by (intro exI [of _ w']) simp
qed

end
