(* ===== verification/Containerd.thy ===== *)
theory Containerd
  imports Kubelet_Config Firewall
begin

text \<open>
  The containerd daemon: its configuration file, kernel modules, life cycle and the caching of the sandbox image
  (\<open>internal/containerd/{config,daemon,sandbox}.go\<close> with \<open>config.template.toml\<close> and \<open>kernel-modules.conf\<close>). The ECR
  token, the CRI image service and its pull are parameters. \<open>daemon\<close> is the interface value
  \<open>daemon.Daemon\<close> through which the flows use every daemon.
\<close>

section \<open>The interface of a daemon\<close>

record daemon =
  d_Configure :: "ctx \<Rightarrow> unit wio"
  d_EnsureRunning :: "ctx \<Rightarrow> unit wio"
  d_PostLaunch :: "unit wio"
  d_Stop :: "unit wio"
  d_Name :: string

section \<open>Configuration\<close>

definition containerdConfigFile :: path where "containerdConfigFile = ''/etc/containerd/config.toml''"
definition containerdConfigImportDir :: path where "containerdConfigImportDir = ''/etc/containerd/config.d''"
definition containerdKernelModulesConfigFile :: path where "containerdKernelModulesConfigFile = ''/etc/modules-load.d/containerd.conf''"
definition containerdConfigPerm :: nat where "containerdConfigPerm = 420"

definition cri_table :: "string \<Rightarrow> string" where
  "cri_table sub = ''  [plugins.'' @ q2 ''io.containerd.grpc.v1.cri'' @ sub @ '']''"

definition config_before_sandbox :: "string list" where
  "config_before_sandbox =
     [''version = 2'', ''root = '' @ q2 ''/var/lib/containerd'', ''state = '' @ q2 ''/run/containerd'',
      ''# Users can use the following import directory to add additional'',
      ''# configuration to containerd. The imports do not behave exactly like overrides.'',
      ''# see: https://github.com/containerd/containerd/blob/main/docs/man/containerd-config.toml.5.md#format'',
      ''imports = ['' @ q2 ''/etc/containerd/config.d/*.toml'' @ '']'', [], ''[grpc]'',
      ''  address = '' @ q2 ''/run/containerd/containerd.sock'', [], ''[plugins]'', cri_table ''.containerd'',
      ''    default_runtime_name = '' @ q2 ''runc'', ''    discard_unpacked_layers = true'', cri_table []]"

definition config_after_sandbox :: "string list" where
  "config_after_sandbox =
     [cri_table ''.registry'', ''    config_path = '' @ q2 ''/etc/containerd/certs.d:/etc/docker/certs.d'',
      cri_table ''.containerd.runtimes.runc'', ''    runtime_type = '' @ q2 ''io.containerd.runc.v2'',
      cri_table ''.containerd.runtimes.runc.options'', ''    SystemdCgroup = true'', cri_table ''.cni'',
      ''    bin_dir = '' @ q2 ''/opt/cni/bin'', ''    conf_dir = '' @ q2 ''/etc/cni/net.d'']"

definition lines_text :: "string list \<Rightarrow> bytes" where
  "lines_text ls = concat (map (\<lambda>l. l @ [newline]) ls)"

definition generateContainerdConfig :: "NodeConfig \<Rightarrow> bytes" where
  "generateContainerdConfig cfg =
     lines_text config_before_sandbox @ ''    sandbox_image = '' @ q2 (SandboxImage (Status cfg)) @ [newline] @ lines_text config_after_sandbox"

definition writeContainerdConfig :: "environment \<Rightarrow> NodeConfig \<Rightarrow> unit wio" where
  "writeContainerdConfig env cfg =
     thenE (WriteFileWithDir env containerdConfigFile (generateContainerdConfig cfg) containerdConfigPerm)
      (if length (containerd_Config (Spec cfg)) > 0
       then WriteFileWithDir env (Join [containerdConfigImportDir, ''00-nodeadm.toml'']) (containerd_Config (Spec cfg)) containerdConfigPerm
       else returnE ())"

definition containerdKernelModulesFileData :: bytes where
  "containerdKernelModulesFileData = ''overlay'' @ [newline] @ ''br_netfilter''"

definition writeContainerdKernelModulesConfig :: "environment \<Rightarrow> unit wio" where
  "writeContainerdKernelModulesConfig env =
     WriteFileWithDir env containerdKernelModulesConfigFile containerdKernelModulesFileData containerdConfigPerm"

section \<open>The sandbox image\<close>

text \<open>What follows the leftmost occurrence of \<open>key\<close> at which \<open>p\<close> accepts the remainder.\<close>

fun find_after :: "string \<Rightarrow> (string \<Rightarrow> 'a option) \<Rightarrow> bytes \<Rightarrow> 'a option" where
  "find_after key p [] = None"
| "find_after key p (c # cs) =
     (case (if prefix key (c # cs) then p (drop (length key) (c # cs)) else None) of
        Some x \<Rightarrow> Some x | None \<Rightarrow> find_after key p cs)"

definition digits_at :: "string \<Rightarrow> string option" where
  "digits_at s = (let ds = takeWhile is_digit s in if ds = [] then None else Some ds)"

definition is_quote :: "char \<Rightarrow> bool" where
  "is_quote c = (c \<in> set [CHR 0x22, CHR 0x27])"

definition quoted_at :: "string \<Rightarrow> string option" where
  "quoted_at s =
     (if s \<noteq> [] \<and> is_quote (hd s) \<and> list_ex is_quote (tl s) then Some (takeWhile (\<lambda>c. \<not> is_quote c) (tl s)) else None)"

definition parseConfigVersion :: "bytes \<Rightarrow> goerr + int" where
  "parseConfigVersion dump =
     (case find_after ''version = '' digits_at dump of
        None \<Rightarrow> Inl (ErrMsg ''config version not found in containerd config dump'')
      | Some versionStr \<Rightarrow>
          (case Atoi versionStr of
             None \<Rightarrow> Inl (ErrWrap (''failed to parse config version '' @ [CHR 0x27] @ versionStr @ [CHR 0x27]) (ErrMsg ''strconv.Atoi: value out of range''))
           | Some version \<Rightarrow> Inr version))"

text \<open>The regular expression for a configuration version, by the key it looks for.\<close>

definition sandboxImageRegexForConfigVersion :: "int \<Rightarrow> goerr + string" where
  "sandboxImageRegexForConfigVersion configVersion =
     (if configVersion \<ge> 3 then Inr ''sandbox = ''
      else if configVersion = 2 then Inr ''sandbox_image = ''
      else Inl (ErrMsg (''unsupported containerd config version: '' @ itoa configVersion)))"

definition sandbox_image_of :: "bytes \<Rightarrow> goerr + string" where
  "sandbox_image_of dump =
     (case parseConfigVersion dump of
        Inl err \<Rightarrow> Inl (ErrWrap ''failed to parse containerd config version'' err)
      | Inr configVersion \<Rightarrow>
          (case sandboxImageRegexForConfigVersion configVersion of
             Inl err \<Rightarrow> Inl err
           | Inr key \<Rightarrow>
               (case find_after key quoted_at dump of
                  None \<Rightarrow> Inl (ErrMsg (''sandbox image could not be found in containerd config (version '' @ itoa configVersion @ '' format)''))
                | Some sandboxImage \<Rightarrow> Inr sandboxImage)))"

record image_env =
  ie_authorization_token :: "nat \<Rightarrow> goerr + string option list"
  ie_image_service :: "nat \<Rightarrow> goerr + unit"
  ie_pull_image :: "nat \<Rightarrow> string \<Rightarrow> string \<Rightarrow> goerr + string"

text \<open>\<open>ecr.GetAuthorizationToken\<close>: the token of the first authorization of the answer.\<close>

definition GetAuthorizationToken :: "image_env \<Rightarrow> string wio" where
  "GetAuthorizationToken ie =
     bindE (api_call ''ecr:GetAuthorizationToken'' [] (ie_authorization_token ie)) (\<lambda>tokens. case tokens of
        Some authData # _ \<Rightarrow> returnE authData
      | _ \<Rightarrow> panicE)"

definition cacheSandboxImage :: "environment \<Rightarrow> image_env \<Rightarrow> unit wio" where
  "cacheSandboxImage env ie =
     bindE (CombinedOutput env [''containerd'', ''config'', ''dump'']) (\<lambda>(dump, err). case err of
        Some e \<Rightarrow> throwE e
      | None \<Rightarrow>
          bindE (liftE (sandbox_image_of dump)) (\<lambda>sandboxImage.
          bindE (GetAuthorizationToken ie) (\<lambda>ecrUserToken.
          bindE (api_call ''cri:NewImageService'' ''unix:///run/containerd/containerd.sock'' (ie_image_service ie)) (\<lambda>_.
            RetryExponentialBackoff 3 (seconds 2)
              (bindE (api_call ''cri:PullImage'' sandboxImage (\<lambda>n. ie_pull_image ie n sandboxImage ecrUserToken)) (\<lambda>imageRef. returnE ()))))))"

section \<open>The daemon\<close>

definition ContainerdDaemonName :: string where "ContainerdDaemonName = ''containerd''"
definition kernelModulesSystemdUnit :: string where "kernelModulesSystemdUnit = ''systemd-modules-load''"

definition containerd_Configure :: "environment \<Rightarrow> NodeConfig \<Rightarrow> unit wio" where
  "containerd_Configure env cfg = thenE (writeContainerdConfig env cfg) (writeContainerdKernelModulesConfig env)"

definition containerd_EnsureRunning :: "environment \<Rightarrow> ctx \<Rightarrow> unit wio" where
  "containerd_EnsureRunning env c =
     thenE (RestartDaemon env kernelModulesSystemdUnit [])
      (thenE (EnableDaemon env ContainerdDaemonName)
       (thenE (RestartDaemon env ContainerdDaemonName [])
        (with_timeout c (seconds 300) (\<lambda>c'.
           wrapE ''waiting for containerd to be running''
             (WaitForStatus env c' ContainerdDaemonName DaemonStatusRunning (seconds 5))))))"

definition NewContainerdDaemon :: "environment \<Rightarrow> image_env \<Rightarrow> NodeConfig \<Rightarrow> daemon" where
  "NewContainerdDaemon env ie cfg =
     \<lparr>d_Configure = \<lambda>_. containerd_Configure env cfg, d_EnsureRunning = containerd_EnsureRunning env,
      d_PostLaunch = cacheSandboxImage env ie, d_Stop = StopDaemon env ContainerdDaemonName, d_Name = ContainerdDaemonName\<rparr>"

text \<open>The kubelet as a daemon; its \<open>PostLaunch\<close> does nothing.\<close>

definition kubelet_daemon :: "environment \<Rightarrow> kubelet_env \<Rightarrow> unit wio \<Rightarrow> kubelet \<Rightarrow> daemon" where
  "kubelet_daemon env ke request k =
     \<lparr>d_Configure = \<lambda>_. kubelet_Configure env ke request k, d_EnsureRunning = kubelet_EnsureRunning env, d_PostLaunch = returnE (),
      d_Stop = kubelet_Stop env, d_Name = KubeletDaemonName\<rparr>"

section \<open>Facts\<close>

lemma find_after_skip:
  "\<not> Contains (xs @ butlast key) key \<Longrightarrow> key \<noteq> [] \<Longrightarrow> find_after key p (xs @ key @ ys) = find_after key p (key @ ys)"
proof (induction xs)
  case (Cons x xs)
  have "\<not> prefix key (x # xs @ key @ ys)"
  proof
    assume "prefix key (x # xs @ key @ ys)"
    moreover have "prefix (x # xs @ butlast key) (x # xs @ key @ ys)"
      using Cons.prems(2) by (metis append.assoc append_Cons append_butlast_last_id prefixI)
    moreover have "length key \<le> length (x # xs @ butlast key)" using Cons.prems(2) by simp
    ultimately have "prefix key (x # xs @ butlast key)" by (rule prefix_length_prefix)
    with Cons.prems(1) show False by simp
  qed
  moreover have "\<not> Contains (xs @ butlast key) key" using Cons.prems(1) by simp
  ultimately show ?case using Cons by simp
qed simp

lemma find_after_first:
  assumes "\<not> Contains (xs @ butlast key) key" and "key \<noteq> []" and "p ys = Some r"
  shows "find_after key p (xs @ key @ ys) = Some r"
proof -
  obtain c cs where key: "key = c # cs" using assms(2) by (cases key) auto
  have "find_after key p (key @ ys) = Some r" using assms(3) unfolding key by simp
  with find_after_skip [OF assms(1,2), of p ys] show ?thesis by simp
qed

lemma config_version: "parseConfigVersion (generateContainerdConfig cfg) = Inr 2"
proof -
  define rest where "rest = lines_text (tl config_before_sandbox) @ ''    sandbox_image = '' @ q2 (SandboxImage (Status cfg)) @ [newline]
    @ lines_text config_after_sandbox"
  have eq: "generateContainerdConfig cfg = [] @ ''version = '' @ (CHR ''2'' # newline # rest)"
    by (simp add: rest_def generateContainerdConfig_def config_before_sandbox_def lines_text_def)
  have d: "digits_at (CHR ''2'' # newline # rest) = Some ''2''"
    by (simp add: digits_at_def is_digit_def newline_def)
  have "find_after ''version = '' digits_at ([] @ ''version = '' @ (CHR ''2'' # newline # rest)) = Some ''2''"
    by (rule find_after_first [where p = digits_at, OF _ _ d]) code_simp+
  moreover have "parse_dec ''2'' = Some 2" by code_simp
  then have "Atoi ''2'' = Some 2" by (simp add: Atoi_def)
  ultimately show ?thesis unfolding parseConfigVersion_def eq by simp
qed

lemma sandbox_image_generated:
  assumes "list_all (\<lambda>c. \<not> is_quote c) (SandboxImage (Status cfg))"
  shows "sandbox_image_of (generateContainerdConfig cfg) = Inr (SandboxImage (Status cfg))"
proof -
  define image where "image = SandboxImage (Status cfg)"
  define rest where "rest = newline # lines_text config_after_sandbox"
  have eq: "generateContainerdConfig cfg = (lines_text config_before_sandbox @ ''    '') @ ''sandbox_image = '' @ (q2 image @ rest)"
    by (simp add: generateContainerdConfig_def image_def rest_def)
  have "takeWhile (\<lambda>c. \<not> is_quote c) (image @ CHR 0x22 # ys) = image" for ys
    using assms by (simp add: takeWhile_append list_all_iff is_quote_def image_def)
  then have q: "quoted_at (q2 image @ rest) = Some image" by (simp add: quoted_at_def q2_def is_quote_def)
  have "\<not> Contains ((lines_text config_before_sandbox @ ''    '') @ butlast ''sandbox_image = '') ''sandbox_image = ''" by code_simp
  from find_after_first [where p = quoted_at, OF this _ q] have "find_after ''sandbox_image = '' quoted_at (generateContainerdConfig cfg) = Some image"
    unfolding eq by simp
  then show ?thesis using config_version [of cfg]
    by (simp add: sandbox_image_of_def sandboxImageRegexForConfigVersion_def image_def)
qed

lemma containerd_EnsureRunning_returns: "returns (containerd_EnsureRunning env c)"
  unfolding containerd_EnsureRunning_def
  by (auto intro!: returns_intros returns_daemon returns_with_timeout WaitForStatus_returns simp: seconds_def)

lemma containerd_EnsureRunning_ok:
  "valid_ok (\<lambda>_. True) (containerd_EnsureRunning env c) (\<lambda>_. reports_status env ContainerdDaemonName DaemonStatusRunning)"
proof -
  have "valid_ok (\<lambda>_. True) (with_timeout c d (\<lambda>c'. wrapE m (WaitForStatus env c' n s b))) (\<lambda>_. reports_status env n s)" for d m n s b
    unfolding wrapE_def by (rule valid_with_timeout, rule valid_mapErrE, rule WaitForStatus_ok)
  then show ?thesis unfolding containerd_EnsureRunning_def by (intro valid_skip)
qed

lemma keeps_node_file:
  assumes "keeps_node q m"
  shows "valid_ok (\<lambda>w. \<exists>k. fs w q = Some (RegFile c k)) m (\<lambda>_ w. \<exists>k. fs w q = Some (RegFile c k))"
proof (rule validI)
  fix w x w' assume "\<exists>k. fs w q = Some (RegFile c k)" and run: "m w = Some (Inr x, w')"
  then obtain k where "fs w q = Some (RegFile c k)" by blast
  from valid_okD [OF keeps_nodeD [OF assms] this run] show "\<exists>k. fs w' q = Some (RegFile c k)" by blast
qed simp

lemma containerd_config_written:
  "valid_ok (\<lambda>_. True) (writeContainerdConfig env cfg)
     (\<lambda>_ w. \<exists>m. fs w containerdConfigFile = Some (RegFile (generateContainerdConfig cfg) m))"
proof -
  let ?on_disk = "\<lambda>w. \<exists>m. fs w containerdConfigFile = Some (RegFile (generateContainerdConfig cfg) m)"
  have "containerdConfigFile \<noteq> Join [containerdConfigImportDir, ''00-nodeadm.toml'']" by code_simp
  then have "keeps_node containerdConfigFile (WriteFileWithDir env (Join [containerdConfigImportDir, ''00-nodeadm.toml'']) d m)" for d m
    unfolding WriteFileWithDir_def by (intro keeps_node_thenE keeps_node_MkdirAll keeps_node_WriteFile)
  then have "valid_ok ?on_disk (WriteFileWithDir env (Join [containerdConfigImportDir, ''00-nodeadm.toml'']) d m) (\<lambda>_. ?on_disk)" for d m
    by (rule keeps_node_file)
  then have "valid_ok ?on_disk (if b then WriteFileWithDir env (Join [containerdConfigImportDir, ''00-nodeadm.toml'']) d m else returnE ()) (\<lambda>_. ?on_disk)" for b d m
    by (simp add: valid_def)
  moreover have "valid_ok (\<lambda>_. True) (WriteFileWithDir env containerdConfigFile (generateContainerdConfig cfg) containerdConfigPerm) (\<lambda>_. ?on_disk)"
    by (rule valid_post [OF WriteFileWithDir_ok]) auto
  ultimately show ?thesis unfolding writeContainerdConfig_def by (intro valid_thenE [where B = ?on_disk])
qed

section \<open>Properties\<close>

text \<open>The sandbox image that is cached is the configured one: the image written into containerd's configuration, which is
  on disk when writing it succeeds, is the image that is found in a dump of that configuration.\<close>

theorem sandbox_image_roundtrip:
  assumes "list_all (\<lambda>c. \<not> is_quote c) (SandboxImage (Status cfg))"
  shows "sandbox_image_of (generateContainerdConfig cfg) = Inr (SandboxImage (Status cfg)) \<and>
    valid_ok (\<lambda>_. True) (writeContainerdConfig env cfg)
      (\<lambda>_ w. \<exists>m. fs w containerdConfigFile = Some (RegFile (generateContainerdConfig cfg) m))"
  using sandbox_image_generated [OF assms] containerd_config_written by blast

theorem sandbox_image_roundtrip_witness:
  "sandbox_image_of (generateContainerdConfig (sample_config\<lparr>Status := (Status sample_config)\<lparr>SandboxImage := ''ecr/pause:3.5''\<rparr>\<rparr>))
     = Inr ''ecr/pause:3.5''"
proof -
  let ?cfg = "sample_config\<lparr>Status := (Status sample_config)\<lparr>SandboxImage := ''ecr/pause:3.5''\<rparr>\<rparr>"
  have "list_all (\<lambda>c. \<not> is_quote c) (SandboxImage (Status ?cfg))" by (simp add: is_quote_def)
  from sandbox_image_roundtrip [OF this] show ?thesis by simp
qed

text \<open>Starting containerd always ends, and ends successfully only when systemd reports it running.\<close>

theorem containerd_start_ends:
  "returns (containerd_EnsureRunning env c) \<and>
   valid_ok (\<lambda>_. True) (containerd_EnsureRunning env c) (\<lambda>_. reports_status env ContainerdDaemonName DaemonStatusRunning)"
  using containerd_EnsureRunning_returns containerd_EnsureRunning_ok by blast

end
