(* ===== verification/System_Aspects.thy ===== *)
theory System_Aspects
  imports Firewall Node_Config Proxy
begin

text \<open>
  The system aspects that \<open>nodeadm init\<close> sets up and the checks of the same settings that \<open>nodeadm debug\<close> makes
  (\<open>internal/system/{swap,swap_validator,sysctl,local_disk,networking,ulimit,ulimit_validator,ntp}.go\<close>; the ports aspect is in
  \<open>Firewall\<close>). The lines of a file are what \<open>bufio.Scanner\<close> delivers: a read error or a line of 64 KiB ends it early,
  and the code does not ask the scanner for its error.
\<close>

unbundle bit_operations_syntax

section \<open>Swap\<close>

record swap =
  filePath :: path
  swapType :: string

record mount =
  mnt_spec :: string
  mnt_file :: string
  vfsType :: string

definition swapTypePartition :: string where "swapTypePartition = ''partition''"
definition swapTypeFile :: string where "swapTypeFile = ''file''"

text \<open>What a scanner reads from an opened file: a failing read delivers a part.\<close>

definition scan_opened :: "environment \<Rightarrow> path \<Rightarrow> bytes \<Rightarrow> string list wio" where
  "scan_opened env p contents = (\<lambda>w.
     Some (Inr (Scanner_lines (case os_fault env (steps w) (OpRead p) of None \<Rightarrow> contents | Some _ \<Rightarrow> take (written env (steps w)) contents)),
           w\<lparr>steps := Suc (steps w)\<rparr>))"

definition parseFstabLine :: "string \<Rightarrow> goerr + mount option" where
  "parseFstabLine l =
     (let line = TrimSpace l; fields = Fields line in
      if line = [] \<or> hd line = CHR ''#'' then Inr None
      else if length fields < 3
      then Inl (ErrMsg (''too few fields ('' @ dec_digits (length fields) @ ''), at least 4 are expected''))
      else Inr (Some \<lparr>mnt_spec = fields ! 0, mnt_file = fields ! 1, vfsType = fields ! 2\<rparr>))"

definition parseProcSwapsLine :: "string \<Rightarrow> goerr + swap option" where
  "parseProcSwapsLine l =
     (let line = TrimSpace l; fields = Fields line in
      if line = [] \<or> hd line = CHR ''#'' then Inr None
      else if length fields \<noteq> 5
      then Inl (ErrMsg (''Error in /proc/swaps file, line ('' @ line @ '') has '' @ dec_digits (length fields) @ '' fields, 5 are expected''))
      else Inr (Some \<lparr>filePath = fields ! 0, swapType = fields ! 1\<rparr>))"

text \<open>The loop after the heading; \<open>n\<close> is the number of the line before.\<close>

fun proc_swaps_loop :: "nat \<Rightarrow> string list \<Rightarrow> swap option list \<Rightarrow> goerr + swap option list" where
  "proc_swaps_loop n [] paths = Inr paths"
| "proc_swaps_loop n (l # ls) paths =
     (case parseProcSwapsLine l of
        Inl err \<Rightarrow> Inl (ErrMsg (''/proc/swaps file syntax error at line '' @ dec_digits (Suc n) @ '': '' @ error_text err))
      | Inr s \<Rightarrow> proc_swaps_loop (Suc n) ls (paths @ [s]))"

definition activeSwapAreasFile :: "environment \<Rightarrow> path" where
  "activeSwapAreasFile env = (let f = Getenv env ''ACTIVE_SWAP_AREAS'' in if f = [] then ''/proc/swaps'' else f)"

definition getSwapfilePaths :: "environment \<Rightarrow> swap option list wio" where
  "getSwapfilePaths env =
     bindE (tryE (os_Open env (activeSwapAreasFile env))) (\<lambda>r. case r of
        Inl err \<Rightarrow> if os_IsNotExist err then returnE [] else throwE err
      | Inr contents \<Rightarrow>
          bindE (scan_opened env (activeSwapAreasFile env) contents) (\<lambda>ls. liftE (proc_swaps_loop 1 (drop 1 ls) [])))"

text \<open>A blank line of the file is a nil pointer in the list, which the two loops dereference.\<close>

fun partitionSwapExists :: "swap option list \<Rightarrow> bool wio" where
  "partitionSwapExists [] = returnE False"
| "partitionSwapExists (None # ss) = panicE"
| "partitionSwapExists (Some s # ss) = (if swapType s = swapTypePartition then returnE True else partitionSwapExists ss)"

fun swapOff :: "environment \<Rightarrow> swap option list \<Rightarrow> unit wio" where
  "swapOff env [] = returnE ()"
| "swapOff env (None # ss) = panicE"
| "swapOff env (Some s # ss) =
     (if swapType s = swapTypePartition
      then throwE (ErrMsg (''partition type swapfile '' @ filePath s @ '' found in /proc/swaps, please remove the swapfile''))
      else bindE (tryE (os_Stat env (filePath s))) (\<lambda>r. case r of
        Inr _ \<Rightarrow>
          bindE (CombinedOutput env [''swapoff'', filePath s]) (\<lambda>(out, err). case err of
             Some e \<Rightarrow> throwE (ErrMsg (''failed to turn of swap on '' @ filePath s @ '', command output: '' @ out @ '', '' @ error_text e))
           | None \<Rightarrow> swapOff env ss)
      | Inl err \<Rightarrow>
          if errors_Is_NotExist err then swapOff env ss
          else throwE (ErrMsg (''unexpced error while trying to open /proc/swaps file: '' @ error_text err))))"

definition is_swap_line :: "string \<Rightarrow> bool" where
  "is_swap_line l = (case parseFstabLine l of Inr (Some m) \<Rightarrow> vfsType m = ''swap'' | _ \<Rightarrow> False)"

fun fstab_loop :: "nat \<Rightarrow> string list \<Rightarrow> bytes \<Rightarrow> goerr + bytes" where
  "fstab_loop n [] buf = Inr buf"
| "fstab_loop n (l # ls) buf =
     (case parseFstabLine l of
        Inl err \<Rightarrow> Inl (ErrMsg (''/etc/fstab syntax error at line '' @ dec_digits (Suc n) @ '': '' @ error_text err))
      | Inr fstabMount \<Rightarrow>
          fstab_loop (Suc n) ls
            (case fstabMount of
               Some m \<Rightarrow> if vfsType m \<noteq> ''swap'' then buf @ l @ [newline] else buf
             | None \<Rightarrow> buf @ l @ [newline]))"

definition fstab_path :: path where "fstab_path = ''/etc/fstab''"

text \<open>Truncating the open file; the write that follows starts at offset 0.\<close>

definition file_Truncate :: "environment \<Rightarrow> path \<Rightarrow> unit wio" where
  "file_Truncate env p = sys env (OpWrite p) no_part
     (\<lambda>f. (Inr (), case f p of Some (RegFile _ m) \<Rightarrow> f(p \<mapsto> RegFile [] m) | _ \<Rightarrow> f))"

definition disableSwapOnFstab :: "environment \<Rightarrow> unit wio" where
  "disableSwapOnFstab env =
     bindE (os_Open env fstab_path) (\<lambda>contents.
      bindE (scan_opened env fstab_path contents) (\<lambda>ls.
       bindE (liftE (fstab_loop 0 ls [])) (\<lambda>buf.
        thenE (file_Truncate env fstab_path) (file_Write env fstab_path buf))))"

definition swap_Setup :: "environment \<Rightarrow> unit wio" where
  "swap_Setup env =
     bindE (getSwapfilePaths env) (\<lambda>swapfiles.
      bindE (partitionSwapExists swapfiles) (\<lambda>hasSwapPartition.
       if hasSwapPartition then throwE (ErrMsg ''failed to disable swap: partition type swap found on the host'')
       else thenE (swapOff env swapfiles) (disableSwapOnFstab env)))"

definition SwapValidator_Run :: "environment \<Rightarrow> unit wio" where
  "SwapValidator_Run env =
     bindE (wrapE ''getting swapfile paths '' (getSwapfilePaths env)) (\<lambda>swapfiles.
      bindE (wrapE ''check if partition swap exists'' (partitionSwapExists swapfiles)) (\<lambda>hasPartitionSwap.
       if hasPartitionSwap then
         throwE (WithRemediation (ErrMsg ''partition swap detected on host'')
           (''Nodeadm can only disable file-based swap automatically. Please manually disable partition swap before running nodeadm init. ''
            @ ''Run 'sudo swapoff -a' to disable swap and remove swap entries from /etc/fstab to make the change persistent.''))
       else if length swapfiles > 0 then
         (let err = ErrMsg (''swap still active on host: '' @ dec_digits (length swapfiles) @ '' swap entries found'') in
          case swapfiles of
            [Some s] \<Rightarrow>
              if swapType s = swapTypeFile then
                throwE (WithRemediation err
                  (''File-based swap should have been disabled during nodeadm init. This may indicate init did not complete successfully. ''
                   @ ''Try running 'sudo swapoff '' @ filePath s @ [CHR 0x27] @ '' and re-run nodeadm init if needed.''))
              else throwE (WithRemediation err
                  (''All swap should be disabled before running debug. For partition swap, run 'sudo swapoff -a' and remove entries from /etc/fstab. ''
                   @ ''For file swap, this indicates nodeadm init may not have completed successfully.''))
          | _ \<Rightarrow> throwE (WithRemediation err
                  (''All swap should be disabled before running debug. For partition swap, run 'sudo swapoff -a' and remove entries from /etc/fstab. ''
                   @ ''For file swap, this indicates nodeadm init may not have completed successfully.'')))
       else returnE ()))"

section \<open>Kernel parameters, local disks, network configuration\<close>

text \<open>A command run for its exit status.\<close>

definition cmd_Run :: "environment \<Rightarrow> string list \<Rightarrow> unit wio" where
  "cmd_Run env args = bindE (CombinedOutput env args) (\<lambda>(out, err). case err of None \<Rightarrow> returnE () | Some e \<Rightarrow> throwE e)"

definition sysctlConfFileData :: bytes where
  "sysctlConfFileData =
     join_with [newline] [''vm.overcommit_memory=1'', ''kernel.panic=10'', ''kernel.panic_on_oops=1'', ''net.ipv4.ip_forward=1'']"

definition nodeadmSysctlConfPath :: path where
  "nodeadmSysctlConfPath = Join [''/etc/sysctl.d'', ''99-nodeadm.conf'']"

definition writeSysctlConfig :: "environment \<Rightarrow> unit wio" where
  "writeSysctlConfig env = WriteFileWithDir env nodeadmSysctlConfPath sysctlConfFileData 420"

definition reloadSysctl :: "environment \<Rightarrow> unit wio" where
  "reloadSysctl env = run_or_fail env ''running sysctl reload command'' [''sysctl'', ''--system'']"

definition sysctl_Setup :: "environment \<Rightarrow> unit wio" where
  "sysctl_Setup env = thenE (writeSysctlConfig env) (reloadSysctl env)"

definition to_lower :: "string \<Rightarrow> string" where
  "to_lower s = map (\<lambda>c. let n = (of_char c :: nat) in if 65 \<le> n \<and> n \<le> 90 then char_of (n + 32) else c) s"

definition localDisk_Setup :: "environment \<Rightarrow> NodeConfig \<Rightarrow> unit wio" where
  "localDisk_Setup env cfg =
     (if instance_LocalStorage_Strategy (Spec cfg) = [] then returnE ()
      else cmd_Run env [''setup-local-disks'', to_lower (instance_LocalStorage_Strategy (Spec cfg))])"

definition networkCfgDropInDir :: path where
  "networkCfgDropInDir = ''/etc/systemd/network'' @ ''/'' @ ''80-ec2.network'' @ ''.d''"

definition eksPrimaryENIOnlyConfPathName :: path where
  "eksPrimaryENIOnlyConfPathName = networkCfgDropInDir @ ''/'' @ ''10-eks_primary_eni_only.conf''"

definition generateEKSPrimaryENIOnlyConfiguration :: "NodeConfig \<Rightarrow> bytes" where
  "generateEKSPrimaryENIOnlyConfiguration cfg =
     ''[Match]'' @ [newline] @ ''PermanentMACAddress='' @ instance_MAC (Status cfg)"

definition reloadNetworkConfigurations :: "environment \<Rightarrow> unit wio" where
  "reloadNetworkConfigurations env = cmd_Run env [''networkctl'', ''reload'']"

definition ensureEKSNetworkConfiguration :: "environment \<Rightarrow> NodeConfig \<Rightarrow> unit wio" where
  "ensureEKSNetworkConfiguration env cfg =
     bindE (wrapE ''failed to check eks_primary_eni_only network configuration existance''
              (IsFilePathExists env eksPrimaryENIOnlyConfPathName)) (\<lambda>exists.
       if exists then returnE ()
       else thenE (wrapE (''failed to create network configuration drop-in directory '' @ networkCfgDropInDir)
                     (os_MkdirAll env networkCfgDropInDir 493))
             (thenE (wrapE ''failed to write eks_primary_eni_only network configuration''
                       (os_WriteFile env eksPrimaryENIOnlyConfPathName (generateEKSPrimaryENIOnlyConfiguration cfg) 420))
               (wrapE ''failed to reload network configurations'' (reloadNetworkConfigurations env))))"

definition networking_Setup :: "environment \<Rightarrow> NodeConfig \<Rightarrow> unit wio" where
  "networking_Setup env cfg = wrapE ''failed to ensure eks network configuration'' (ensureEKSNetworkConfiguration env cfg)"

section \<open>Limits\<close>

definition ulimitOptions :: "string \<Rightarrow> string" where
  "ulimitOptions t = (if t = ''nofile'' then ''-n'' else if t = ''nproc'' then ''-u'' else [])"

definition getUlimit :: "environment \<Rightarrow> string \<Rightarrow> 64 word wio" where
  "getUlimit env limitType =
     bindE (CombinedOutput env [''bash'', ''-c'', ''ulimit '' @ ulimitOptions limitType]) (\<lambda>(output, err). case err of
        Some e \<Rightarrow> throwE (ErrWrap ''failed to execute ulimit command'' e)
      | None \<Rightarrow>
          let limit = TrimSpace output in
          if limit = ''unlimited'' then returnE (NOT 0)
          else (case ParseUint 64 limit of
                  None \<Rightarrow> throwE (ErrWrap (''failed to parse ulimit value '' @ limit) (ErrMsg ''strconv.ParseUint: invalid syntax''))
                | Some n \<Rightarrow> returnE (word_of_nat n)))"

definition getUlimits :: "environment \<Rightarrow> (64 word \<times> 64 word) wio" where
  "getUlimits env =
     bindE (wrapE ''failed to get nofile ulimit'' (getUlimit env ''nofile'')) (\<lambda>noFileLimit.
      bindE (wrapE ''failed to get nproc ulimit'' (getUlimit env ''nproc'')) (\<lambda>nProcLimit.
       returnE (noFileLimit, nProcLimit)))"

definition noFileRecommendedLimit :: "64 word" where "noFileRecommendedLimit = 1024"
definition nProcRecommendedLimit :: "64 word" where "nProcRecommendedLimit = 4096"

definition limit_issue :: "nat \<Rightarrow> string \<Rightarrow> 64 word \<Rightarrow> 64 word \<Rightarrow> string" where
  "limit_issue count what limit recommended =
     ''        '' @ dec_digits count @ ''. '' @ what @ '' limit is '' @ dec_digits (unat limit)
       @ '', which is lower than the recommended value of '' @ dec_digits (unat recommended)"

definition checkCriticalLimits :: "64 word \<Rightarrow> 64 word \<Rightarrow> string list" where
  "checkCriticalLimits noFileLimit nProcLimit =
     (let i1 = (if noFileLimit < noFileRecommendedLimit
                then [limit_issue 1 ''max open file descriptors'' noFileLimit noFileRecommendedLimit] else [])
      in i1 @ (if nProcLimit < nProcRecommendedLimit
               then [limit_issue (Suc (length i1)) ''max processes'' nProcLimit nProcRecommendedLimit] else []))"

definition UlimitValidator_Run :: "environment \<Rightarrow> unit wio" where
  "UlimitValidator_Run env =
     bindE (wrapE ''unable to read ulimit configuration'' (getUlimits env)) (\<lambda>(noFileLimit, nProcLimit).
       let issues = checkCriticalLimits noFileLimit nProcLimit in
       if length issues > 0 then
         throwE (WithRemediation
           (ErrMsg (''ulimit configuration issues detected: '' @ dec_digits (length issues) @ '' issues found:'' @ [newline] @ join_with [newline] issues))
           ''Consider adjusting the above ulimit values for optimal Kubernetes node operation'')
       else returnE ())"

section \<open>Clock synchronisation\<close>

definition localhostReferenceIDs :: "string list" where
  "localhostReferenceIDs = [''(00000000)'', ''(0.0.0.0)'', ''(127.0.0.1)'']"

definition commandExists :: "environment \<Rightarrow> string \<Rightarrow> bool wio" where
  "commandExists env command = bindE (LookPath env command) (\<lambda>r. returnE (found r))"

text \<open>\<open>hasReference\<close> and \<open>leapStatusNormal\<close> are set by some line and never reset.\<close>

definition names_reference :: "string \<Rightarrow> bool" where
  "names_reference l \<longleftrightarrow>
     (let line = TrimSpace l; parts = Fields line in
      Contains line ''Reference ID'' \<and> length parts \<ge> 5 \<and> parts ! 4 \<notin> set localhostReferenceIDs)"

definition leap_normal :: "string \<Rightarrow> bool" where
  "leap_normal l \<longleftrightarrow> (let line = TrimSpace l in Contains line ''Leap status'' \<and> Contains line ''Normal'')"

text \<open>The result of a check: whether the command itself failed, and the error.\<close>

definition checkChronyc :: "environment \<Rightarrow> (bool \<times> goerr option) wio" where
  "checkChronyc env =
     bindE (CombinedOutput env [''chronyc'', ''tracking'']) (\<lambda>(output, err). case err of
        Some e \<Rightarrow> returnE (True, Some (ErrWrap (''getting system clock settings from chronyc: '' @ TrimSpace output @ '', error'') e))
      | None \<Rightarrow>
          let ls = split_on newline output in
          if \<not> list_ex names_reference ls \<or> \<not> list_ex leap_normal ls then returnE (False, Some (ErrMsg ''chronyd not synchronized''))
          else returnE (False, None))"

definition checkTimedatectl :: "environment \<Rightarrow> (bool \<times> goerr option) wio" where
  "checkTimedatectl env =
     bindE (CombinedOutput env [''timedatectl'', ''status'']) (\<lambda>(output, err). case err of
        Some e \<Rightarrow> returnE (True, Some (ErrWrap (''getting system clock settings from timedatectl: '' @ TrimSpace output @ '', error'') e))
      | None \<Rightarrow>
          if \<not> list_ex (\<lambda>l. Contains (TrimSpace l) ''System clock synchronized: yes'') (split_on newline output)
          then returnE (False, Some (ErrMsg ''System clock not synchronized'')) else returnE (False, None))"

definition clock_check :: "bool \<Rightarrow> (bool \<times> goerr option) wio \<Rightarrow> string \<Rightarrow> string \<Rightarrow> unit wio" where
  "clock_check exists check kind msg =
     (if exists then
        bindE check (\<lambda>(commandFailed, err). case err of
           None \<Rightarrow> returnE ()
         | Some e \<Rightarrow> if commandFailed then throwE e else throwE (TypedError kind msg (Some e)))
      else returnE ())"

definition ntp_Validate :: "environment \<Rightarrow> unit wio" where
  "ntp_Validate env =
     bindE (commandExists env ''chronyc'') (\<lambda>hasChronyc.
      thenE (clock_check hasChronyc (checkChronyc env) ''ChronycSynchronizationError'' ''validating NTP synchronization via chronyc'')
       (bindE (commandExists env ''timedatectl'') (\<lambda>hasTimedatectl.
         clock_check hasTimedatectl (checkTimedatectl env) ''TimedatectlSynchronizationError'' ''validating NTP synchronization via timedatectl'')))"

definition addNTPRemediation :: "goerr \<Rightarrow> goerr" where
  "addNTPRemediation err =
     (case err of
        TypedError kind m c \<Rightarrow>
          if kind = ''ChronycSynchronizationError'' then
            WithRemediation err
              (''Ensure the hybrid node is synchronized with NTP through chronyd services. ''
               @ ''Verify NTP server configuration in /etc/chrony.conf. ''
               @ ''If using airgapped networks, ensure chrony is configured with local NTP sources and adjusted manually.'')
          else if kind = ''TimedatectlSynchronizationError'' then
            WithRemediation err ''Ensure the hybrid node is synchronized with NTP by running `timedatectl set-ntp true`.''
          else ErrWrap ''validating NTP synchronization'' err
      | _ \<Rightarrow> ErrWrap ''validating NTP synchronization'' err)"

definition NTPValidator_Run :: "environment \<Rightarrow> unit wio" where
  "NTPValidator_Run env = mapErrE addNTPRemediation (ntp_Validate env)"

section \<open>Facts\<close>

definition fstab_lines :: "string list \<Rightarrow> bytes" where
  "fstab_lines ls = concat (map (\<lambda>l. l @ [newline]) ls)"

lemma fstab_loop_keeps:
  "fstab_loop n ls buf = Inr b \<Longrightarrow> b = buf @ fstab_lines (filter (\<lambda>l. \<not> is_swap_line l) ls)"
  by (induction n ls buf rule: fstab_loop.induct)
    (auto simp: is_swap_line_def fstab_lines_def split: sum.splits option.splits if_splits)

lemma split_fstab_lines:
  "list_all (\<lambda>l. newline \<notin> set l) ls \<Longrightarrow> split_on newline (fstab_lines ls) = ls @ [[]]"
  by (induction ls) (simp_all add: fstab_lines_def split_on_append split_on_no_sep)

lemma scan_fstab_lines:
  "list_all (\<lambda>l. newline \<notin> set l) ls \<Longrightarrow> scan_lines (fstab_lines ls) = map drop_cr ls"
  by (simp add: scan_lines_def split_fstab_lines Let_def)

lemma Scanner_lines_no_newline: "list_all (\<lambda>l. newline \<notin> set l) (Scanner_lines s)"
proof -
  have parts: "newline \<notin> set l" if "l \<in> set (split_on newline s)" for l
    using split_on_parts that by blast
  have cr: "set (drop_cr l) \<subseteq> set l" for l by (auto simp: drop_cr_def dest: in_set_butlastD)
  show ?thesis
    unfolding Scanner_lines_def Let_def list_all_iff using parts cr
    by (fastforce dest: set_takeWhileD in_set_butlastD split: if_splits)
qed

lemma TrimSpace_drop_cr [simp]: "TrimSpace (drop_cr l) = TrimSpace l"
proof (cases "l \<noteq> [] \<and> last l = CHR 0x0D")
  case True
  then obtain l' where l: "l = l' @ [CHR 0x0D]" by (metis append_butlast_last_id)
  have "is_space (CHR 0x0D)" by (simp add: is_space_def)
  then show ?thesis by (auto simp: l drop_cr_def TrimSpace_def dropWhile_append dest: set_dropWhileD)
next
  case False
  then show ?thesis by (auto simp: drop_cr_def)
qed

lemma is_swap_line_drop_cr [simp]: "is_swap_line (drop_cr l) = is_swap_line l"
  by (simp add: is_swap_line_def parseFstabLine_def Let_def)

lemma file_Truncate_ok:
  "valid_ok (\<lambda>w. fs w p = Some (RegFile c m)) (file_Truncate env p) (\<lambda>_ w. fs w p = Some (RegFile [] m))"
  by (auto simp: valid_def file_Truncate_def sys_def Let_def split: option.splits sum.splits)

lemma rewrite_ok:
  "valid_ok (\<lambda>w. fs w p = Some (RegFile c m)) (thenE (file_Truncate env p) (file_Write env p d)) (\<lambda>_ w. fs w p = Some (RegFile d m))"
  using valid_thenE [OF file_Truncate_ok Write_ok [where c = "[]"]] by simp

lemma scan_opened_ok:
  "valid_ok (\<lambda>w. fs w p = Some (RegFile c m)) (scan_opened env p c)
     (\<lambda>ls w. fs w p = Some (RegFile c m) \<and> list_all (\<lambda>l. newline \<notin> set l) ls \<and>
       ((\<forall>n. os_fault env n (OpRead p) = None) \<longrightarrow> ls = Scanner_lines c))"
  using Scanner_lines_no_newline by (auto simp: valid_def scan_opened_def split: option.splits)

lemma os_Open_same:
  "valid_ok (\<lambda>w. fs w p = Some (RegFile c m)) (os_Open env p) (\<lambda>c' w. c' = c \<and> fs w p = Some (RegFile c m))"
  by (auto simp: valid_def os_Open_def sys_def Let_def split: option.splits sum.splits)

definition no_swap_in :: "path \<Rightarrow> world \<Rightarrow> bool" where
  "no_swap_in p w \<longleftrightarrow> (\<exists>c m. fs w p = Some (RegFile c m) \<and> \<not> list_ex is_swap_line (scan_lines c))"

lemma fstab_lines_no_swap:
  "list_all (\<lambda>l. newline \<notin> set l) ls \<Longrightarrow> \<not> list_ex is_swap_line (scan_lines (fstab_lines (filter (\<lambda>l. \<not> is_swap_line l) ls)))"
  by (subst scan_fstab_lines) (auto simp: list_all_iff list_ex_iff)

text \<open>What is written back: the lines that were scanned, less the swap mounts.\<close>

lemma disableSwapOnFstab_rewrites:
  "valid_ok (\<lambda>w. fs w fstab_path = Some (RegFile c m)) (disableSwapOnFstab env)
     (\<lambda>_ w. \<exists>ls. fs w fstab_path = Some (RegFile (fstab_lines (filter (\<lambda>l. \<not> is_swap_line l) ls)) m) \<and>
        list_all (\<lambda>l. newline \<notin> set l) ls \<and> ((\<forall>n. os_fault env n (OpRead fstab_path) = None) \<longrightarrow> ls = Scanner_lines c))"
proof -
  let ?P = "\<lambda>w. fs w fstab_path = Some (RegFile c m)"
  let ?good = "\<lambda>ls. list_all (\<lambda>l. newline \<notin> set l) ls \<and> ((\<forall>n. os_fault env n (OpRead fstab_path) = None) \<longrightarrow> ls = Scanner_lines c)"
  let ?Q = "\<lambda>_ w. \<exists>ls. fs w fstab_path = Some (RegFile (fstab_lines (filter (\<lambda>l. \<not> is_swap_line l) ls)) m) \<and> ?good ls"
  have rewritten: "valid_ok (\<lambda>w. ?P w \<and> ?good ls)
      (bindE (liftE (fstab_loop 0 ls [])) (\<lambda>buf. thenE (file_Truncate env fstab_path) (file_Write env fstab_path buf))) ?Q" for ls
  proof (cases "?good ls")
    case True
    show ?thesis
    proof (cases "fstab_loop 0 ls []")
      case (Inl e)
      then show ?thesis by (simp add: valid_def bindE_def liftE_def)
    next
      case (Inr b)
      then have b: "b = fstab_lines (filter (\<lambda>l. \<not> is_swap_line l) ls)" using fstab_loop_keeps by fastforce
      have "valid_ok (\<lambda>w. ?P w \<and> ?good ls) (thenE (file_Truncate env fstab_path) (file_Write env fstab_path b)) ?Q"
        unfolding b by (rule valid_conseq [OF rewrite_ok]) (use True in auto)
      with Inr show ?thesis by (simp add: valid_def bindE_def liftE_def)
    qed
  next
    case False
    then show ?thesis by (auto simp: valid_def)
  qed
  have "valid_ok (\<lambda>w. c' = c \<and> ?P w)
      (bindE (scan_opened env fstab_path c') (\<lambda>ls. bindE (liftE (fstab_loop 0 ls []))
        (\<lambda>buf. thenE (file_Truncate env fstab_path) (file_Write env fstab_path buf)))) ?Q" for c'
  proof (cases "c' = c")
    case True
    then show ?thesis using valid_bindE [OF scan_opened_ok rewritten] by simp
  next
    case False
    then show ?thesis by (simp add: valid_def)
  qed
  then show ?thesis unfolding disableSwapOnFstab_def by (rule valid_bindE [OF os_Open_same])
qed

lemma disableSwapOnFstab_no_swap: "valid_ok (\<lambda>_. True) (disableSwapOnFstab env) (\<lambda>_ w. no_swap_in fstab_path w)"
proof (rule validI)
  fix w x w' assume run: "disableSwapOnFstab env w = Some (Inr x, w')"
  then obtain c m where "fs w fstab_path = Some (RegFile c m)"
    by (auto simp: disableSwapOnFstab_def os_Open_def sys_def bindE_def Let_def split: option.splits fnode.splits)
  from valid_okD [OF disableSwapOnFstab_rewrites this run] show "no_swap_in fstab_path w'"
    using fstab_lines_no_swap unfolding no_swap_in_def by blast
qed simp

lemma partitionSwapExists_False:
  "partitionSwapExists ss w = Some (Inr False, w') \<Longrightarrow>
     w' = w \<and> list_all (\<lambda>s. case s of None \<Rightarrow> False | Some x \<Rightarrow> swapType x \<noteq> swapTypePartition) ss"
  by (induction ss rule: partitionSwapExists.induct) (auto simp: panicE_def split: if_splits)

lemma swap_Setup_no_partition:
  assumes "swap_Setup env w = Some (Inr (), w')"
  obtains ss w1 where "getSwapfilePaths env w = Some (Inr ss, w1)"
    and "list_all (\<lambda>s. case s of None \<Rightarrow> False | Some x \<Rightarrow> swapType x \<noteq> swapTypePartition) ss"
proof -
  obtain ss w1 where ss: "getSwapfilePaths env w = Some (Inr ss, w1)" and
    rest: "bindE (partitionSwapExists ss) (\<lambda>hasSwapPartition.
       if hasSwapPartition then throwE (ErrMsg ''failed to disable swap: partition type swap found on the host'')
       else thenE (swapOff env ss) (disableSwapOnFstab env)) w1 = Some (Inr (), w')"
    using assms unfolding swap_Setup_def by (rule bindE_okE)
  from rest obtain b w2 where b: "partitionSwapExists ss w1 = Some (Inr b, w2)" "b = False"
    by (rule bindE_okE) (auto split: if_splits)
  show thesis by (rule that [OF ss]) (use partitionSwapExists_False [of ss w1 w2] b in simp)
qed

lemma swap_Setup_no_swap: "valid_ok (\<lambda>_. True) (swap_Setup env) (\<lambda>_. no_swap_in fstab_path)"
proof -
  have "valid_ok (\<lambda>_. True) (thenE (swapOff env ss) (disableSwapOnFstab env)) (\<lambda>_. no_swap_in fstab_path)" for ss
    by (rule valid_thenE [OF _ disableSwapOnFstab_no_swap]) (simp add: valid_def split: sum.splits)
  then have "valid_ok (\<lambda>_. True) (if b then throwE e else thenE (swapOff env ss) (disableSwapOnFstab env)) (\<lambda>_. no_swap_in fstab_path)" for b e ss
    by (simp add: valid_def)
  then show ?thesis unfolding swap_Setup_def
    by (intro valid_bindE [where B = "\<lambda>_ _. True"]) (simp_all add: valid_def split: sum.splits)
qed

section \<open>Properties\<close>


definition sample_fstab :: bytes where
  "sample_fstab = ''/dev/sda1 / ext4'' @ [newline] @ ''/swapfile none swap'' @ [newline]"


end
