(* ===== verification/Install_Flow.thy ===== *)
theory Install_Flow
  imports Components Aws_Source Ssm_Agent Node_Config Containerd
begin

text \<open>
  The flows \<open>nodeadm install\<close> and \<open>nodeadm uninstall\<close> (\<open>internal/flows/install.go\<close>, \<open>internal/flows/uninstall.go\<close>): the
  components in the order the code installs and removes them, over the shared tracker and the package manager.
  \<open>flow_env\<close> gathers the parameters of the components below.
\<close>

record flow_env =
  fe_ssm :: ssm_env
  fe_semver :: semver
  fe_isNotFound :: "goerr \<Rightarrow> bool"
  fe_order :: "(string \<times> string) list"
  fe_publicKey :: string
  fe_load_aws :: "string \<Rightarrow> goerr + unit"

section \<open>Installation\<close>

text \<open>A credential provider that is neither of the two constants is \<open>None\<close>.\<close>

record Installer =
  in_AwsSource :: Source
  in_ContainerdSource :: string
  in_PackageManager :: DistroPackageManager
  in_CredentialProvider :: "CredentialProvider option"
  in_SsmRegion :: string
  in_PrivateMode :: bool

definition NewSSMInstaller :: "flow_env \<Rightarrow> string \<Rightarrow> string \<Rightarrow> ssmInstallerSource" where
  "NewSSMInstaller fe region dnsSuffix = \<lparr>si_region = region, si_dnsSuffix = dnsSuffix, si_publicKey = fe_publicKey fe\<rparr>"

definition ssm_url :: "environment \<Rightarrow> flow_env \<Rightarrow> ssmInstallerSource \<Rightarrow> string wio" where
  "ssm_url env fe s = defaultBuildSSMURL env (fe_isNotFound fe) (fe_order fe) s"

text \<open>The containerd version is only logged, whether or not it can be determined.\<close>

definition installDistroPackages :: "environment \<Rightarrow> flow_env \<Rightarrow> ctx \<Rightarrow> Installer \<Rightarrow> unit wio" where
  "installDistroPackages env fe c i =
     thenE (containerd_Install env (fe_semver fe) c (in_PackageManager i) (in_ContainerdSource i) (ep_Version (Eks (in_AwsSource i))))
      (bindE (tryE (GetContainerdVersion env)) (\<lambda>_.
        iptables_Install env c (in_PackageManager i)))"

definition installCredentialProcess :: "environment \<Rightarrow> flow_env \<Rightarrow> ctx \<Rightarrow> Installer \<Rightarrow> unit wio" where
  "installCredentialProcess env fe c i =
     (case in_CredentialProvider i of
        Some IamRolesAnywhereCredentialProvider \<Rightarrow> iamrolesanywhere_Install env (GetSigningHelper env (in_AwsSource i)) []
      | Some SsmCredentialProvider \<Rightarrow>
          let ssmInstaller = NewSSMInstaller fe (in_SsmRegion i) (DnsSuffix (RegionInfo (in_AwsSource i))) in
          ssm_Install env (fe_ssm fe) c (ssm_url env fe ssmInstaller) (si_publicKey ssmInstaller) (in_SsmRegion i) []
      | None \<Rightarrow> throwE (ErrMsg ''unable to detect hybrid auth method''))"

definition installEksArtifacts :: "environment \<Rightarrow> Installer \<Rightarrow> unit wio" where
  "installEksArtifacts env i =
     thenE (kubelet_Install env (GetKubelet env (in_AwsSource i)) [])
      (thenE (kubectl_Install env (GetKubectl env (in_AwsSource i)) [])
       (thenE (cni_Install env (GetCniPlugins env (in_AwsSource i)) [])
        (thenE (imagecredentialprovider_Install env (GetImageCredentialProvider env (in_AwsSource i)) [])
         (iamauthenticator_Install env (GetIAMAuthenticator env (in_AwsSource i)) []))))"

definition Installer_Run :: "environment \<Rightarrow> flow_env \<Rightarrow> ctx \<Rightarrow> Installer \<Rightarrow> unit wio" where
  "Installer_Run env fe c i =
     thenE (bindE (GetCurrentState env) (\<lambda>tr. modifyE (\<lambda>w. w\<lparr>tracker_obj := tr\<rparr>)))
      (if in_PrivateMode i then
         thenE (installCredentialProcess env fe c i) (thenE (installEksArtifacts env i) (Save env))
       else
         thenE (Configure env c (in_PackageManager i))
          (thenE (installDistroPackages env fe c i)
           (thenE (installCredentialProcess env fe c i) (thenE (installEksArtifacts env i) (Save env)))))"

section \<open>Removal\<close>

record Uninstaller =
  un_Artifacts :: InstalledArtifacts
  un_PackageManager :: DistroPackageManager

definition eksConfigDir :: path where "eksConfigDir = ''/etc/eks''"

text \<open>On an error \<open>GetDaemonStatus\<close> answers \<open>unknown\<close>, so the disjunction in front of the stop of the signing helper
  is just the absence of an error.\<close>

definition uninstallDaemons :: "environment \<Rightarrow> flow_env \<Rightarrow> ctx \<Rightarrow> Uninstaller \<Rightarrow> unit wio" where
  "uninstallDaemons env fe c u =
     thenE (whenE (Kubelet (un_Artifacts u))
              (thenE (StopDaemon env KubeletDaemonName) (kubelet_Uninstall env [])))
      (thenE (whenE (Ssm (un_Artifacts u))
                (thenE (bindE (getE SsmDaemonName) (StopDaemon env))
                  (bindE (GetRegion env (fe_ssm fe) []) (\<lambda>region.
                    thenE (liftE (fe_load_aws fe region))
                      (wrapE ''uninstalling SSM'' (ssm_Uninstall env (fe_ssm fe) c (un_PackageManager u) []))))))
       (thenE (whenE (IamRolesAnywhere (un_Artifacts u))
                 (bindE (tryE (GetDaemonStatus env ''aws_signing_helper_update'')) (\<lambda>r. case r of
                    Inr _ \<Rightarrow> StopDaemon env ''aws_signing_helper_update'' | Inl _ \<Rightarrow> returnE ())))
        (whenE (Containerd (un_Artifacts u) \<noteq> ContainerdSourceNone)
           (thenE (StopDaemon env ContainerdDaemonName) (containerd_Uninstall env c (un_PackageManager u))))))"

definition uninstallBinaries :: "environment \<Rightarrow> ctx \<Rightarrow> Uninstaller \<Rightarrow> unit wio" where
  "uninstallBinaries env c u =
     thenE (whenE (Kubectl (un_Artifacts u)) (kubectl_Uninstall env))
      (thenE (whenE (CniPlugins (un_Artifacts u)) (cni_Uninstall env))
       (thenE (whenE (IamAuthenticator (un_Artifacts u)) (iamauthenticator_Uninstall env))
        (thenE (whenE (IamRolesAnywhere (un_Artifacts u)) (iamrolesanywhere_Uninstall env))
         (thenE (whenE (ImageCredentialProvider (un_Artifacts u)) (imagecredentialprovider_Uninstall env))
          (whenE (Iptables (un_Artifacts u)) (iptables_Uninstall env c (un_PackageManager u)))))))"

definition Uninstaller_cleanup :: "environment \<Rightarrow> Uninstaller \<Rightarrow> unit wio" where
  "Uninstaller_cleanup env u = thenE (pm_Cleanup env (un_PackageManager u)) (os_RemoveAll env eksConfigDir)"

definition Uninstaller_Run :: "environment \<Rightarrow> flow_env \<Rightarrow> ctx \<Rightarrow> Uninstaller \<Rightarrow> unit wio" where
  "Uninstaller_Run env fe c u =
     thenE (uninstallDaemons env fe c u)
      (thenE (uninstallBinaries env c u)
       (thenE (Uninstaller_cleanup env u) (Clear env)))"

section \<open>What installing a component keeps\<close>

lemma keeps_node_for_range_retry: "keeps_node q f \<Longrightarrow> keeps_node q (for_range_retry n err f)"
  by (rule keeps_nodeI, rule preserves_for_range_retry, erule keeps_nodeD)

lemma keeps_node_download_once:
  "keeps_node q get \<Longrightarrow> \<not> under p q \<Longrightarrow> keeps_node q (download_once env gm im what get p perms)"
  unfolding download_once_def
  by (intro keeps_node_bindE keeps_node_wrapE keeps_node_InstallFile) (auto intro: keeps_node_intros)

lemma download_once_off:
  "off_fs I \<Longrightarrow> preserves I get \<Longrightarrow> preserves I (download_once env gm im what get p perms)"
  unfolding download_once_def
  by (intro preserves_bindE preserves_wrapE InstallFile_off) (auto intro: preserves_returnE preserves_throwE)

text \<open>A source that only reads.\<close>

definition reads_only :: "source wio \<Rightarrow> bool" where
  "reads_only get \<longleftrightarrow> (\<forall>I. (\<forall>w n tr. I (w\<lparr>steps := n, trace := tr\<rparr>) = I w) \<longrightarrow> preserves I get)"

lemma reads_onlyD: "reads_only get \<Longrightarrow> (\<And>w n tr. I (w\<lparr>steps := n, trace := tr\<rparr>) = I w) \<Longrightarrow> preserves I get"
  by (simp add: reads_only_def)

lemma reads_only_sources:
  "reads_only (GetKubelet env s)" "reads_only (GetKubectl env s)" "reads_only (GetIAMAuthenticator env s)"
  "reads_only (GetImageCredentialProvider env s)" "reads_only (GetCniPlugins env s)" "reads_only (GetSigningHelper env s)"
  unfolding reads_only_def GetKubelet_def GetKubectl_def GetIAMAuthenticator_def GetImageCredentialProvider_def GetCniPlugins_def
    GetSigningHelper_def getEksSource_def
  by (auto intro!: getSource_keeps)

lemma reads_only_keeps: "reads_only get \<Longrightarrow> keeps_node q get"
  by (rule keeps_nodeI) (simp add: reads_onlyD)

lemma reads_only_tracker: "reads_only get \<Longrightarrow> preserves (\<lambda>w. P (tracker_obj w)) get"
  by (simp add: reads_onlyD)

text \<open>The installed components: where each comes from, its path and its name in the tracker.\<close>

type_synonym component = "source wio \<times> path \<times> string"

definition in_place :: "environment \<Rightarrow> component \<Rightarrow> world \<Rightarrow> bool" where
  "in_place env k w \<longleftrightarrow>
     installed_from env (fst k) (fst (snd k)) artifactFilePerms w \<and> is_tracked (Artifacts (tracker_obj w)) (snd (snd k))"

locale installable = artifact_component env get p name install upgrade uninstall
  for env get p name install upgrade uninstall +
  assumes install_keeps: "\<not> under p q \<Longrightarrow> \<not> under UnitPath q \<Longrightarrow> keeps_node q install"
    and install_tracks: "preserves (\<lambda>w. is_tracked (Artifacts (tracker_obj w)) n) install"
begin

lemma install_keeps_component:
  assumes "\<not> under p (fst (snd k))" and "\<not> under UnitPath (fst (snd k))"
  shows "valid_ok (in_place env k) install (\<lambda>_. in_place env k)"
  unfolding in_place_def
  using valid_conj [OF keeps_node_installed_from [OF install_keeps [OF assms]] install_tracks] by (rule valid_conseq) auto

lemma install_adds:
  assumes "list_all (\<lambda>k. \<not> under p (fst (snd k)) \<and> \<not> under UnitPath (fst (snd k))) ks"
  shows "valid_ok (\<lambda>w. list_all (\<lambda>k. in_place env k w) ks) install (\<lambda>_ w. list_all (\<lambda>k. in_place env k w) ((get, p, name) # ks))"
  using assms
proof (induction ks)
  case Nil
  show ?case using install_ok by (simp add: in_place_def)
next
  case (Cons k ks)
  then have "valid_ok (in_place env k) install (\<lambda>_. in_place env k)" by (intro install_keeps_component) simp_all
  moreover have "valid_ok (\<lambda>w. list_all (\<lambda>k. in_place env k w) ks) install (\<lambda>_ w. list_all (\<lambda>k. in_place env k w) ((get, p, name) # ks))"
    using Cons by simp
  ultimately show ?case using valid_conj by (fastforce elim: valid_conseq)
qed

end

lemma component_install_keeps:
  assumes "reads_only get" and "\<not> under p q"
  shows "keeps_node q (thenE (wrapE m1 (wrapE m2 (for_range_retry 3 None (download_once env gm im what get p perms)))) (wrapE m3 (Tracker_Add n)))"
  using assms
  by (intro keeps_node_thenE keeps_node_wrapE keeps_node_for_range_retry keeps_node_download_once reads_only_keeps keeps_node_Tracker_Add)

lemma component_install_tracks:
  assumes "reads_only get"
  shows "preserves (\<lambda>w. is_tracked (Artifacts (tracker_obj w)) m)
    (thenE (wrapE m1 (wrapE m2 (for_range_retry 3 None (download_once env gm im what get p perms)))) (wrapE m3 (Tracker_Add n)))"
  using assms
  by (intro preserves_thenE preserves_wrapE preserves_for_range_retry download_once_off off_fs_tracker reads_only_tracker Tracker_Add_mono)

lemmas kubectl_Install_unfold =
  kubectl_Install_def kubectl_installFromSource_def kubectl_downloadFileWithRetries_def kubectl_downloadFileTo_def component_paths

lemmas iamauthenticator_Install_unfold =
  iamauthenticator_Install_def iamauthenticator_installFromSource_def iamauthenticator_downloadFileWithRetries_def iamauthenticator_downloadFileTo_def component_paths

lemmas imagecredentialprovider_Install_unfold =
  imagecredentialprovider_Install_def imagecredentialprovider_installFromSource_def imagecredentialprovider_downloadFileWithRetries_def imagecredentialprovider_downloadFileTo_def component_paths

lemmas iamrolesanywhere_Install_unfold =
  iamrolesanywhere_Install_def iamrolesanywhere_installFromSource_def iamrolesanywhere_downloadFileWithRetries_def iamrolesanywhere_downloadFileTo_def component_paths

interpretation published_kubectl: installable env "GetKubectl env s" kubectl_BinPath artifact_Kubectl
  "kubectl_Install env (GetKubectl env s) []" "kubectl_Upgrade env (GetKubectl env s)" "kubectl_Uninstall env" for env s
  by (intro installable.intro installable_axioms.intro kubectl.artifact_component_axioms)
    (simp_all only: kubectl_Install_unfold component_install_keeps component_install_tracks reads_only_sources not_False_eq_True)

interpretation published_iamauthenticator: installable env "GetIAMAuthenticator env s" iamauthenticator_BinPath artifact_IamAuthenticator
  "iamauthenticator_Install env (GetIAMAuthenticator env s) []" "iamauthenticator_Upgrade env (GetIAMAuthenticator env s)" "iamauthenticator_Uninstall env" for env s
  by (intro installable.intro installable_axioms.intro iamauthenticator.artifact_component_axioms)
    (simp_all only: iamauthenticator_Install_unfold component_install_keeps component_install_tracks reads_only_sources not_False_eq_True)

interpretation published_imagecredentialprovider: installable env "GetImageCredentialProvider env s" imagecredentialprovider_BinPath artifact_ImageCredentialProvider
  "imagecredentialprovider_Install env (GetImageCredentialProvider env s) []" "imagecredentialprovider_Upgrade env (GetImageCredentialProvider env s)" "imagecredentialprovider_Uninstall env" for env s
  by (intro installable.intro installable_axioms.intro imagecredentialprovider.artifact_component_axioms)
    (simp_all only: imagecredentialprovider_Install_unfold component_install_keeps component_install_tracks reads_only_sources not_False_eq_True)

interpretation published_iamrolesanywhere: installable env "GetSigningHelper env s" iamrolesanywhere_BinPath artifact_IamRolesAnywhere
  "iamrolesanywhere_Install env (GetSigningHelper env s) []" "iamrolesanywhere_Upgrade env (GetSigningHelper env s)" "iamrolesanywhere_Uninstall env" for env s
  by (intro installable.intro installable_axioms.intro iamrolesanywhere.artifact_component_axioms)
    (simp_all only: iamrolesanywhere_Install_unfold component_install_keeps component_install_tracks reads_only_sources not_False_eq_True)

interpretation published_kubelet: installable env "GetKubelet env s" kubelet_BinPath artifact_Kubelet
  "kubelet_Install env (GetKubelet env s) []" "kubelet_Upgrade env (GetKubelet env s)" "kubelet_Uninstall env []" for env s
proof (intro installable.intro installable_axioms.intro kubelet.artifact_component_axioms)
  fix q assume q: "\<not> under kubelet_BinPath q" "\<not> under UnitPath q"
  show "keeps_node q (kubelet_Install env (GetKubelet env s) [])"
    unfolding kubelet_Install_def kubelet_installFromSource_def kubelet_downloadFileTo_def component_paths
    by (intro keeps_node_thenE keeps_node_wrapE keeps_node_for_range_retry keeps_node_download_once reads_only_keeps
        reads_only_sources keeps_node_installSystemdUnit keeps_node_Tracker_Add q)
next
  fix n
  show "preserves (\<lambda>w. is_tracked (Artifacts (tracker_obj w)) n) (kubelet_Install env (GetKubelet env s) [])"
    unfolding kubelet_Install_def kubelet_installFromSource_def kubelet_downloadFileTo_def installSystemdUnit_def component_paths
    by (intro preserves_thenE preserves_wrapE preserves_mapErrE preserves_for_range_retry download_once_off InstallFile_off off_fs_tracker
        reads_only_tracker reads_only_sources preserves_returnE Tracker_Add_mono)
qed

section \<open>The installed node\<close>

text \<open>CNI plugins touch nothing outside \<open>/opt/cni\<close>.\<close>

lemma cni_paths:
  "Join [[], TgzPath] = TgzPath" "Join [[], cni_BinPath] = abs_path [''opt'', ''cni'', ''bin'']"
  "list_all plain_comp [''opt'', ''cni'', ''bin'']" "set (dirs_to (abs_path [''opt'', ''cni'', ''bin''])) = {''/opt'', ''/opt/cni'', ''/opt/cni/bin''}"
  by code_simp+

lemma cni_Install_keeps:
  assumes "reads_only get" and "\<not> under TgzPath q" and "\<not> under cni_BinPath q" and "q \<notin> {''/opt'', ''/opt/cni'', ''/''}"
  shows "keeps_node q (cni_Install env get [])"
proof -
  have "abs_path [''opt'', ''cni'', ''bin''] = cni_BinPath" by code_simp
  then have u: "\<not> under (abs_path [''opt'', ''cni'', ''bin'']) q" using assms(3) by simp
  have "q \<noteq> TgzPath" "q \<noteq> ''/opt/cni/bin''" using assms(2,3) under_refl by (auto simp: cni_BinPath_def)
  moreover from this have d: "q \<notin> set (dirs_to (abs_path [''opt'', ''cni'', ''bin'']))" unfolding cni_paths(4) using assms(4) by simp
  ultimately have "keeps_node q (InstallTarGz env (abs_path [''opt'', ''cni'', ''bin'']) TgzPath)"
    by (intro keeps_nodeI InstallTarGz_frame cni_paths(3) u d) (use assms(4) in simp_all)
  then show ?thesis using assms
    unfolding cni_Install_def cni_installFromSource_def cni_downloadFileWithRetries_def cni_downloadFileTo_def cni_paths(1,2)
    by (intro keeps_node_thenE keeps_node_wrapE keeps_node_for_range_retry keeps_node_download_once reads_only_keeps keeps_node_Tracker_Add)
qed

lemma InstallTarGz_off: "off_fs I \<Longrightarrow> preserves I (InstallTarGz env dst src)"
proof -
  assume I: "off_fs I"
  have "preserves I (untar_loop env dst items)" for items
    by (induction items rule: untar_loop.induct)
      (auto simp: Let_def intro!: preserves_intros preserves_off_fs [OF I] io_Copy_off [OF I] split: if_splits)
  moreover have "preserves I (os_Open env p)" for p
    unfolding os_Open_def using I by (intro sys_other) (simp add: off_fs_def)
  ultimately show ?thesis
    unfolding InstallTarGz_def by (auto intro!: preserves_intros preserves_off_fs [OF I])
qed

lemma cni_Install_tracks:
  assumes "reads_only get"
  shows "preserves (\<lambda>w. is_tracked (Artifacts (tracker_obj w)) n) (cni_Install env get [])"
    and "valid_ok (\<lambda>_. True) (cni_Install env get []) (\<lambda>_ w. is_tracked (Artifacts (tracker_obj w)) artifact_CniPlugins)"
proof -
  show "preserves (\<lambda>w. is_tracked (Artifacts (tracker_obj w)) n) (cni_Install env get [])"
    unfolding cni_Install_def cni_installFromSource_def cni_downloadFileWithRetries_def cni_downloadFileTo_def
    by (intro preserves_thenE preserves_wrapE preserves_for_range_retry download_once_off InstallTarGz_off off_fs_tracker
        reads_only_tracker Tracker_Add_mono assms)
  show "valid_ok (\<lambda>_. True) (cni_Install env get []) (\<lambda>_ w. is_tracked (Artifacts (tracker_obj w)) artifact_CniPlugins)"
    unfolding cni_Install_def by (intro valid_skip valid_wrapE Tracker_Add_ok)
qed

text \<open>The files of the EKS release, and what a credential provider adds.\<close>

definition eks_components :: "environment \<Rightarrow> Source \<Rightarrow> component list" where
  "eks_components env s =
     [(GetIAMAuthenticator env s, iamauthenticator_BinPath, artifact_IamAuthenticator),
      (GetImageCredentialProvider env s, imagecredentialprovider_BinPath, artifact_ImageCredentialProvider),
      (GetKubectl env s, kubectl_BinPath, artifact_Kubectl),
      (GetKubelet env s, kubelet_BinPath, artifact_Kubelet)]"

definition signing_helper :: "environment \<Rightarrow> Source \<Rightarrow> component" where
  "signing_helper env s = (GetSigningHelper env s, iamrolesanywhere_BinPath, artifact_IamRolesAnywhere)"

definition credential_components :: "environment \<Rightarrow> Installer \<Rightarrow> component list" where
  "credential_components env i =
     (if in_CredentialProvider i = Some IamRolesAnywhereCredentialProvider then [signing_helper env (in_AwsSource i)] else [])"

lemma separate_paths:
  "list_all (\<lambda>(p, q). \<not> under p q)
     [(kubelet_BinPath, iamrolesanywhere_BinPath), (kubectl_BinPath, iamrolesanywhere_BinPath),
      (imagecredentialprovider_BinPath, iamrolesanywhere_BinPath), (iamauthenticator_BinPath, iamrolesanywhere_BinPath),
      (kubectl_BinPath, kubelet_BinPath), (imagecredentialprovider_BinPath, kubelet_BinPath), (iamauthenticator_BinPath, kubelet_BinPath),
      (imagecredentialprovider_BinPath, kubectl_BinPath), (iamauthenticator_BinPath, kubectl_BinPath),
      (iamauthenticator_BinPath, imagecredentialprovider_BinPath)]"
  "list_all (\<lambda>q. \<not> under UnitPath q \<and> \<not> under TgzPath q \<and> \<not> under cni_BinPath q \<and> q \<noteq> ''/opt'' \<and> q \<noteq> ''/opt/cni'' \<and> q \<noteq> ''/'' \<and> q \<noteq> trackerFile)
     [iamrolesanywhere_BinPath, kubelet_BinPath, kubectl_BinPath, imagecredentialprovider_BinPath, iamauthenticator_BinPath]"
  by code_simp+

lemma keeps_in_place:
  assumes "keeps_node (fst (snd k)) m" and "preserves (\<lambda>w. is_tracked (Artifacts (tracker_obj w)) (snd (snd k))) m"
  shows "valid_ok (in_place env k) m (\<lambda>_. in_place env k)"
  unfolding in_place_def using valid_conj [OF keeps_node_installed_from [OF assms(1)] assms(2)] by (rule valid_conseq) auto

lemma keeps_all_in_place:
  assumes "\<And>k. k \<in> set ks \<Longrightarrow> keeps_node (fst (snd k)) m" and "\<And>n. preserves (\<lambda>w. is_tracked (Artifacts (tracker_obj w)) n) m"
  shows "valid_ok (\<lambda>w. list_all (\<lambda>k. in_place env k w) ks) m (\<lambda>_ w. list_all (\<lambda>k. in_place env k w) ks)"
  using assms
proof (induction ks)
  case Nil
  show ?case by (simp add: valid_def split: sum.splits)
next
  case (Cons k ks)
  have "valid_ok (in_place env k) m (\<lambda>_. in_place env k)" using Cons.prems by (intro keeps_in_place) simp_all
  moreover have "valid_ok (\<lambda>w. list_all (\<lambda>k. in_place env k w) ks) m (\<lambda>_ w. list_all (\<lambda>k. in_place env k w) ks)"
    using Cons by simp
  ultimately show ?case using valid_conj by (fastforce elim: valid_conseq)
qed

text \<open>The state that the installation of the EKS artifacts establishes and that saving the tracker keeps.\<close>

definition node_installed :: "environment \<Rightarrow> Installer \<Rightarrow> world \<Rightarrow> bool" where
  "node_installed env i w \<longleftrightarrow>
     list_all (\<lambda>k. in_place env k w) (eks_components env (in_AwsSource i) @ credential_components env i) \<and>
     is_tracked (Artifacts (tracker_obj w)) artifact_CniPlugins"

text \<open>The credential provider is recorded: with IAM Roles Anywhere by \<open>credential_components\<close>, with SSM here.\<close>

definition ssm_recorded :: "Installer \<Rightarrow> world \<Rightarrow> bool" where
  "ssm_recorded i w \<longleftrightarrow> in_CredentialProvider i \<noteq> Some SsmCredentialProvider \<or> is_tracked (Artifacts (tracker_obj w)) artifact_Ssm"

lemma installEksArtifacts_ok:
  "valid_ok (\<lambda>w. list_all (\<lambda>k. in_place env k w) (credential_components env i)) (installEksArtifacts env i) (\<lambda>_. node_installed env i)"
proof -
  let ?s = "in_AwsSource i" and ?cr = "credential_components env i"
  let ?all = "\<lambda>ks w. list_all (\<lambda>k. in_place env k w) ks"
  let ?cni = "\<lambda>w. is_tracked (Artifacts (tracker_obj w)) artifact_CniPlugins"
  let ?kl = "(GetKubelet env ?s, kubelet_BinPath, artifact_Kubelet)" and ?kc = "(GetKubectl env ?s, kubectl_BinPath, artifact_Kubectl)"
  let ?ip = "(GetImageCredentialProvider env ?s, imagecredentialprovider_BinPath, artifact_ImageCredentialProvider)"
  let ?ia = "(GetIAMAuthenticator env ?s, iamauthenticator_BinPath, artifact_IamAuthenticator)"
  have kl: "valid_ok (?all ?cr) (kubelet_Install env (GetKubelet env ?s) []) (\<lambda>_. ?all (?kl # ?cr))"
    by (rule published_kubelet.install_adds) (use separate_paths in \<open>auto simp: credential_components_def signing_helper_def\<close>)
  have kc: "valid_ok (?all (?kl # ?cr)) (kubectl_Install env (GetKubectl env ?s) []) (\<lambda>_. ?all (?kc # ?kl # ?cr))"
    by (rule published_kubectl.install_adds) (use separate_paths in \<open>auto simp: credential_components_def signing_helper_def\<close>)
  have cni: "valid_ok (?all (?kc # ?kl # ?cr)) (cni_Install env (GetCniPlugins env ?s) []) (\<lambda>_ w. ?all (?kc # ?kl # ?cr) w \<and> ?cni w)"
  proof -
    have "valid_ok (?all (?kc # ?kl # ?cr)) (cni_Install env (GetCniPlugins env ?s) []) (\<lambda>_. ?all (?kc # ?kl # ?cr))"
      by (rule keeps_all_in_place, rule cni_Install_keeps [OF reads_only_sources(5)])
        (use separate_paths cni_Install_tracks(1) [OF reads_only_sources(5)] in
          \<open>auto simp: credential_components_def signing_helper_def split: if_splits\<close>)
    from valid_conj [OF this cni_Install_tracks(2) [OF reads_only_sources(5)]] show ?thesis by (rule valid_conseq) auto
  qed
  have ip: "valid_ok (\<lambda>w. ?all (?kc # ?kl # ?cr) w \<and> ?cni w) (imagecredentialprovider_Install env (GetImageCredentialProvider env ?s) [])
      (\<lambda>_ w. ?all (?ip # ?kc # ?kl # ?cr) w \<and> ?cni w)"
  proof -
    have "valid_ok (?all (?kc # ?kl # ?cr)) (imagecredentialprovider_Install env (GetImageCredentialProvider env ?s) [])
        (\<lambda>_. ?all (?ip # ?kc # ?kl # ?cr))"
      by (rule published_imagecredentialprovider.install_adds) (use separate_paths in \<open>auto simp: credential_components_def signing_helper_def\<close>)
    from valid_conj [OF this published_imagecredentialprovider.install_tracks [where n = artifact_CniPlugins]] show ?thesis
      by (rule valid_conseq) auto
  qed
  have ia: "valid_ok (\<lambda>w. ?all (?ip # ?kc # ?kl # ?cr) w \<and> ?cni w) (iamauthenticator_Install env (GetIAMAuthenticator env ?s) [])
      (\<lambda>_. node_installed env i)"
  proof -
    have "valid_ok (?all (?ip # ?kc # ?kl # ?cr)) (iamauthenticator_Install env (GetIAMAuthenticator env ?s) [])
        (\<lambda>_. ?all (?ia # ?ip # ?kc # ?kl # ?cr))"
      by (rule published_iamauthenticator.install_adds) (use separate_paths in \<open>auto simp: credential_components_def signing_helper_def\<close>)
    from valid_conj [OF this published_iamauthenticator.install_tracks [where n = artifact_CniPlugins]] show ?thesis
      by (rule valid_conseq) (auto simp: node_installed_def eks_components_def)
  qed
  show ?thesis unfolding installEksArtifacts_def
    by (rule valid_thenE [OF kl valid_thenE [OF kc valid_thenE [OF cni valid_thenE [OF ip ia]]]])
qed

lemma installEksArtifacts_tracks: "preserves (\<lambda>w. is_tracked (Artifacts (tracker_obj w)) n) (installEksArtifacts env i)"
  unfolding installEksArtifacts_def
  by (intro preserves_thenE published_kubelet.install_tracks published_kubectl.install_tracks cni_Install_tracks reads_only_sources
      published_imagecredentialprovider.install_tracks published_iamauthenticator.install_tracks)

lemma installCredentialProcess_ok:
  "valid_ok (\<lambda>_. True) (installCredentialProcess env fe c i)
     (\<lambda>_ w. list_all (\<lambda>k. in_place env k w) (credential_components env i) \<and> ssm_recorded i w)"
proof (cases "in_CredentialProvider i")
  case None
  then show ?thesis by (simp add: installCredentialProcess_def valid_def)
next
  case (Some p)
  show ?thesis
  proof (cases p)
    case SsmCredentialProvider
    have "valid_ok (\<lambda>_. True) (ssm_Install env se c u k r root) (\<lambda>_ w. is_tracked (Artifacts (tracker_obj w)) artifact_Ssm)" for se u k r root
      unfolding ssm_Install_def by (rule valid_skip [OF Tracker_Add_ok])
    then show ?thesis
      by (simp add: installCredentialProcess_def Some SsmCredentialProvider credential_components_def ssm_recorded_def Let_def)
  next
    case IamRolesAnywhereCredentialProvider
    then show ?thesis using iamrolesanywhere.install_ok [of env "GetSigningHelper env (in_AwsSource i)"]
      by (simp add: installCredentialProcess_def Some credential_components_def ssm_recorded_def in_place_def signing_helper_def)
  qed
qed

lemma is_tracked_source: "is_tracked (a\<lparr>Containerd := s\<rparr>) n = is_tracked a n"
  by (simp add: is_tracked_def)

lemma Save_keeps:
  "q \<noteq> trackerFile \<Longrightarrow> keeps_node q (Save env)"
  "preserves (\<lambda>w. is_tracked (Artifacts (tracker_obj w)) n) (Save env)"
proof -
  have m: "preserves I (modifyE (\<lambda>w. w\<lparr>tracker_obj := t\<rparr>))" if "\<And>w. I w \<Longrightarrow> I (w\<lparr>tracker_obj := t\<rparr>)" for I t
    using that by (simp add: valid_def modifyE_def)
  show "keeps_node q (Save env)" if "q \<noteq> trackerFile"
    unfolding Save_def WriteFileWithDir_def Let_def
    by (intro keeps_nodeI preserves_bindE preserves_getE, split sum.split, intro conjI allI impI preserves_thenE preserves_throwE
        preserves_bindE preserves_liftE keeps_nodeD [OF keeps_node_MkdirAll] keeps_nodeD [OF keeps_node_WriteFile [OF that]] m) simp
  let ?I = "\<lambda>w. is_tracked (Artifacts (tracker_obj w)) n"
  have wr: "preserves ?I (bindE (liftE r) (\<lambda>data. WriteFileWithDir env trackerFile data 420))" for r
    by (intro preserves_bindE preserves_liftE WriteFileWithDir_tracker)
  have md: "valid (\<lambda>w. is_tracked (Artifacts tr) n) (modifyE (\<lambda>w. w\<lparr>tracker_obj := tr\<lparr>Artifacts := (Artifacts tr)\<lparr>Containerd := s\<rparr>\<rparr>\<rparr>)) (\<lambda>_. ?I) (\<lambda>_. ?I)" for tr s
    by (simp add: valid_def modifyE_def is_tracked_source)
  show "preserves ?I (Save env)"
    unfolding Save_def Let_def
  proof (rule valid_bindE [where B = "\<lambda>tr w. is_tracked (Artifacts tr) n \<and> ?I w"])
    show "valid ?I (getE tracker_obj) (\<lambda>tr w. is_tracked (Artifacts tr) n \<and> ?I w) (\<lambda>_. ?I)" by (simp add: valid_def getE_def)
    fix tr
    show "valid (\<lambda>w. is_tracked (Artifacts tr) n \<and> ?I w)
      (case ContainerdSource (Containerd (Artifacts tr)) of Inl e \<Rightarrow> throwE e
       | Inr src \<Rightarrow> thenE (modifyE (\<lambda>w. w\<lparr>tracker_obj := tr\<lparr>Artifacts := (Artifacts tr)\<lparr>Containerd := src\<rparr>\<rparr>\<rparr>))
           (bindE (liftE (yaml_marshal env (tr\<lparr>Artifacts := (Artifacts tr)\<lparr>Containerd := src\<rparr>\<rparr>))) (\<lambda>data. WriteFileWithDir env trackerFile data 420)))
      (\<lambda>_. ?I) (\<lambda>_. ?I)"
    proof (cases "ContainerdSource (Containerd (Artifacts tr))")
      case (Inl e)
      then show ?thesis by (simp add: valid_def)
    next
      case (Inr s)
      show ?thesis unfolding Inr sum.case by (rule valid_thenE [OF valid_pre [OF md] wr]) simp
    qed
  qed
qed

lemma installation_ok:
  assumes "yaml_roundtrip env"
  shows "valid_ok (\<lambda>_. True) (thenE (installCredentialProcess env fe c i) (thenE (installEksArtifacts env i) (Save env)))
    (\<lambda>_ w. node_installed env i w \<and> ssm_recorded i w \<and> disk_tracker env (fs w) = Some (tracker_obj w))"
proof -
  have rec: "valid_ok (ssm_recorded i) m (\<lambda>_. ssm_recorded i)"
    if "preserves (\<lambda>w. is_tracked (Artifacts (tracker_obj w)) artifact_Ssm) m" for m :: "unit wio"
    unfolding ssm_recorded_def using that by (auto simp: valid_def split: sum.splits)
  have eks: "valid_ok (\<lambda>w. list_all (\<lambda>k. in_place env k w) (credential_components env i) \<and> ssm_recorded i w) (installEksArtifacts env i)
      (\<lambda>_ w. node_installed env i w \<and> ssm_recorded i w)"
    using valid_conj [OF installEksArtifacts_ok rec [OF installEksArtifacts_tracks]] by simp
  have paths: "fst (snd k) \<noteq> trackerFile" if "k \<in> set (eks_components env (in_AwsSource i) @ credential_components env i)" for k
    using that separate_paths(2) by (auto simp: eks_components_def credential_components_def signing_helper_def split: if_splits)
  have "valid_ok (\<lambda>w. list_all (\<lambda>k. in_place env k w) (eks_components env (in_AwsSource i) @ credential_components env i)) (Save env)
      (\<lambda>_ w. list_all (\<lambda>k. in_place env k w) (eks_components env (in_AwsSource i) @ credential_components env i))"
    by (rule keeps_all_in_place) (use paths Save_keeps in blast)+
  from valid_conj [OF valid_conj [OF this Save_keeps(2) [where n = artifact_CniPlugins]] valid_conj [OF rec [OF Save_keeps(2)] Save_ok [OF assms]]]
  have save: "valid_ok (\<lambda>w. node_installed env i w \<and> ssm_recorded i w) (Save env)
      (\<lambda>_ w. node_installed env i w \<and> ssm_recorded i w \<and> disk_tracker env (fs w) = Some (tracker_obj w))"
    by (rule valid_conseq) (simp_all add: node_installed_def)
  show ?thesis by (rule valid_thenE [OF installCredentialProcess_ok valid_thenE [OF eks save]])
qed

lemma Installer_Run_ok:
  assumes "yaml_roundtrip env"
  shows "valid_ok (\<lambda>_. True) (Installer_Run env fe c i)
    (\<lambda>_ w. node_installed env i w \<and> ssm_recorded i w \<and> disk_tracker env (fs w) = Some (tracker_obj w))"
  unfolding Installer_Run_def using installation_ok [OF assms, of fe c i]
  by (cases "in_PrivateMode i") (simp_all add: valid_skip)

text \<open>The file at \<open>p\<close> is the artifact \<open>name\<close> of the manifest for this machine: it has the bytes published at the
  artifact's address, checked against the digest published beside it, and mode 0755.\<close>

definition genuine :: "environment \<Rightarrow> Artifact_entry list \<Rightarrow> string \<Rightarrow> path \<Rightarrow> world \<Rightarrow> bool" where
  "genuine env as name p w \<longleftrightarrow>
     (\<exists>a src. a \<in> set as \<and> ar_Name a = name \<and> ar_Arch a = goarch env \<and> ar_OS a = goos env \<and> published env a src \<and>
        fs w p = Some (RegFile (fst (src_stream src)) 493) \<and> src_expect src = Some (sha256 env (fst (src_stream src))))"

lemma installed_genuine:
  assumes "installed_from env (getSource env name as) p artifactFilePerms w"
  shows "genuine env as name p w"
proof -
  obtain src a b where get: "getSource env name as a = Some (Inr src, b)"
    and content: "fs w p = Some (RegFile (fst (src_stream src)) 493)" and sum: "VerifyChecksum env src (fst (src_stream src))"
    using assms by (auto simp: installed_from_def artifactFilePerms_def)
  from valid_okD [OF getSource_published TrueI get] obtain x where
    "x \<in> set as" "ar_Name x = name" "ar_Arch x = goarch env" "ar_OS x = goos env" "published env x src" by auto
  moreover have "src_expect src = Some (sha256 env (fst (src_stream src)))"
    using sum \<open>published env x src\<close> by (auto simp: VerifyChecksum_iff published_def)
  ultimately show ?thesis unfolding genuine_def using content by blast
qed

end
