(* ===== verification/Hybrid_Provider.thy ===== *)
theory Hybrid_Provider
  imports Cluster_Access Containerd System_Aspects Install_Flow
begin

text \<open>
  The hybrid node provider (\<open>internal/node/hybrid\<close>): AWS credentials through SSM (\<open>internal/ssm/credentials.go\<close>, \<open>daemon.go\<close>) or IAM
  Roles Anywhere (\<open>internal/iamrolesanywhere/aws_config.go\<close>, \<open>daemon.go\<close>), the validations it registers, its daemons and aspects. The
  provider's fields are the record \<open>HybridNodeProvider\<close>, passed and returned.
\<close>

section \<open>Parameters\<close>

text \<open>An AWS configuration is known by the options it was loaded with (\<open>None\<close>: the default of the SDK).\<close>

record aws_config =
  ac_Region :: string
  ac_SharedConfigFiles :: "path list option"
  ac_SharedCredentialsFiles :: "path list option"
  ac_Profile :: string

text \<open>\<open>he_background\<close> is what other processes (the SSM agent, the signing helper) do to the file system while the program waits.\<close>

record hybrid_env =
  he_ssm :: ssm_env
  he_x509 :: x509
  he_clients :: "aws_config \<Rightarrow> cluster_env"
  he_LoadDefaultConfig :: "nat \<Rightarrow> aws_config \<Rightarrow> goerr option"
  he_background :: "nat \<Rightarrow> filesystem \<Rightarrow> filesystem"
  he_lookupHost :: "string \<Rightarrow> goerr + string list"
  he_network :: netstack
  he_ip6 :: ip6_parser
  he_kubelet :: kubelet_env
  he_image :: image_env
  he_ParseVersion :: "string \<Rightarrow> goerr + version3"

definition load_config :: "(nat \<Rightarrow> aws_config \<Rightarrow> goerr option) \<Rightarrow> aws_config \<Rightarrow> aws_config wio" where
  "load_config load cfg = api_call ''LoadDefaultConfig'' (ac_Region cfg) (\<lambda>n. case load n cfg of None \<Rightarrow> Inr cfg | Some e \<Rightarrow> Inl e)"

definition LoadDefaultConfig :: "hybrid_env \<Rightarrow> aws_config \<Rightarrow> aws_config wio" where
  "LoadDefaultConfig he = load_config (he_LoadDefaultConfig he)"

text \<open>The loops that wait for a file: \<open>for !file.Exists(p) { select { ctx.Done | time.After(backoff) } }\<close>.\<close>

definition file_appears :: "environment \<Rightarrow> hybrid_env \<Rightarrow> path \<Rightarrow> (unit + unit) wio" where
  "file_appears env he p =
     thenE (modifyE (\<lambda>w. w\<lparr>fs := he_background he (steps w) (fs w)\<rparr>))
      (bindE (file_Exists env p) (\<lambda>b. returnE (if b then Inr () else Inl ())))"

definition wait_for_file :: "environment \<Rightarrow> hybrid_env \<Rightarrow> ctx \<Rightarrow> nat \<Rightarrow> string \<Rightarrow> path \<Rightarrow> unit wio" where
  "wait_for_file env he c backoff what p =
     poll (file_appears env he p) (\<lambda>_ _. ErrWrap (what @ p @ '' hasn't been created on time'') ctx_err) c backoff 0"

section \<open>IAM Roles Anywhere\<close>

definition ProfileName :: string where "ProfileName = ''default''"
definition SigningHelperBinPath :: path where "SigningHelperBinPath = iamrolesanywhere_BinPath"
definition SigningHelperDaemonName :: string where "SigningHelperDaemonName = ''aws_signing_helper_update''"

record AWSConfig =
  aw_TrustAnchorARN :: string
  aw_ProfileARN :: string
  aw_RoleARN :: string
  aw_Region :: string
  aw_NodeName :: string
  aw_ConfigPath :: string
  aw_SigningHelperBinPath :: string
  aw_CertificatePath :: string
  aw_PrivateKeyPath :: string
  aw_ProxyEnabled :: bool

definition validateAWSConfig :: "AWSConfig \<Rightarrow> goerr option" where
  "validateAWSConfig cfg =
     errors_Join (List.map_filter (\<lambda>(v, m). if v = [] then Some (ErrMsg m) else None)
       [(aw_TrustAnchorARN cfg, ''TrustAnchorARN cannot be empty''), (aw_ProfileARN cfg, ''ProfileARN cannot be empty''),
        (aw_RoleARN cfg, ''RoleARN cannot be empty''), (aw_Region cfg, ''Region cannot be empty''), (aw_NodeName cfg, ''NodeName cannot be empty''),
        (aw_SigningHelperBinPath cfg, ''Signing helper path cannot be empty''), (aw_CertificatePath cfg, ''CertificatePath cannot be empty''),
        (aw_PrivateKeyPath cfg, ''PrivateKeyPath cannot be empty'')])"

text \<open>The two templates, a line at a time.\<close>

definition with_proxy :: "bool \<Rightarrow> string" where
  "with_proxy b = (if b then '' --with-proxy'' else [])"

definition profile_lines :: "string \<Rightarrow> AWSConfig \<Rightarrow> string list" where
  "profile_lines name cfg =
     [''[profile '' @ name @ '']'', ''region = '' @ aw_Region cfg,
      ''credential_process = '' @ aw_SigningHelperBinPath cfg @ '' credential-process --certificate '' @ aw_CertificatePath cfg @
      '' --private-key '' @ aw_PrivateKeyPath cfg @ '' --trust-anchor-arn '' @ aw_TrustAnchorARN cfg @ '' --profile-arn '' @ aw_ProfileARN cfg @
      '' --role-arn '' @ aw_RoleARN cfg @ '' --role-session-name '' @ aw_NodeName cfg @ with_proxy (aw_ProxyEnabled cfg)]"

definition awsConfigTpl :: "AWSConfig \<Rightarrow> bytes" where
  "awsConfigTpl cfg = lines_text
     (profile_lines ProfileName cfg @
      [[], ''# hybrid profile is maintained for backwards compatibility, nodeadm no longer uses it''] @ profile_lines ''hybrid'' cfg)"

text \<open>\<open>os.MkdirAll\<close> gets \<open>os.ModeDir\<close>, which has no permission bits.\<close>

definition writeConfigFile :: "environment \<Rightarrow> AWSConfig \<Rightarrow> unit wio" where
  "writeConfigFile env cfg =
     thenE (os_MkdirAll env (Dir (aw_ConfigPath cfg)) 0)
      (wrapE ''writing AWS config file'' (os_WriteFile env (aw_ConfigPath cfg) (awsConfigTpl cfg) 420))"

definition WriteAWSConfig :: "environment \<Rightarrow> AWSConfig \<Rightarrow> unit wio" where
  "WriteAWSConfig env cfg =
     (let cfg1 = (if aw_ConfigPath cfg = [] then cfg\<lparr>aw_ConfigPath := DefaultAWSConfigPath\<rparr> else cfg);
          cfg2 = cfg1\<lparr>aw_ProxyEnabled := IsProxyEnabled env\<rparr> in
      case validateAWSConfig cfg2 of Some e \<Rightarrow> throwE e | None \<Rightarrow> writeConfigFile env cfg2)"

text \<open>The unit of the signing helper. The continuation lines end in a backslash.\<close>

definition continued :: "string \<Rightarrow> string" where
  "continued l = l @ '' '' @ [CHR 0x5C]"

definition GenerateUpdateSystemdService :: "environment \<Rightarrow> ClusterDetails \<Rightarrow> IAMRolesAnywhere \<Rightarrow> bytes" where
  "GenerateUpdateSystemdService env cl ra = lines_text
     ([''[Unit]'', ''Description=Service that runs aws_signing_helper update to keep the AWS credentials refreshed in '' @ EksHybridAwsCredentialsPath @ ''.'', [],
       ''[Service]'', ''User=root'', ''Environment=AWS_SHARED_CREDENTIALS_FILE='' @ EksHybridAwsCredentialsPath] @
      map continued
       [''ExecStart='' @ SigningHelperBinPath @ '' update'', ''        --certificate '' @ CertificatePath ra, ''        --private-key '' @ PrivateKeyPath ra,
        ''        --trust-anchor-arn '' @ TrustAnchorARN ra, ''        --profile-arn '' @ ProfileARN ra, ''        --role-arn '' @ RoleARN ra,
        ''        --role-session-name '' @ ra_NodeName ra] @
      [''        --region '' @ cl_Region cl @ with_proxy (IsProxyEnabled env), ''StandardOutput=journal'', ''StandardError=journal'', ''Restart=always'',
       ''RestartSec=10'', ''CPUAccounting=true'', ''MemoryAccounting=true'', [], ''[Install]'', ''WantedBy=multi-user.target''])"

text \<open>A nil pointer on the way to the options is a panic.\<close>

definition ra_or_panic :: "NodeConfig \<Rightarrow> IAMRolesAnywhere wio" where
  "ra_or_panic nc = (case iamra_of nc of None \<Rightarrow> panicE | Some ra \<Rightarrow> returnE ra)"

definition hybrid_or_panic :: "NodeConfig \<Rightarrow> HybridOptions wio" where
  "hybrid_or_panic nc = (case Hybrid (Spec nc) of None \<Rightarrow> panicE | Some h \<Rightarrow> returnE h)"

definition signingHelper_Configure :: "environment \<Rightarrow> NodeConfig \<Rightarrow> unit wio" where
  "signingHelper_Configure env node =
     bindE (ra_or_panic node) (\<lambda>ra.
      thenE (mapErrE (\<lambda>e. ErrMsg (''writing aws_signing_helper_update service file '' @ EksHybridAwsCredentialsPath @ '': '' @ error_text e))
               (WriteFileWithDir env SigningHelperServiceFilePath (GenerateUpdateSystemdService env (Cluster (Spec node)) ra) 420))
       (mapErrE (\<lambda>e. ErrMsg (''reloading systemd daemon: '' @ error_text e)) (DaemonReload env)))"

definition signingHelper_EnsureRunning :: "environment \<Rightarrow> ctx \<Rightarrow> unit wio" where
  "signingHelper_EnsureRunning env c =
     thenE (EnableDaemon env SigningHelperDaemonName) (thenE (RestartDaemon env SigningHelperDaemonName []) (returnE ()))"

definition waitForIAMRolesAnywhereCreds :: "environment \<Rightarrow> hybrid_env \<Rightarrow> ctx \<Rightarrow> nat \<Rightarrow> path \<Rightarrow> unit wio" where
  "waitForIAMRolesAnywhereCreds env he c backoff p = wait_for_file env he c backoff ''iam-roles-anywhere AWS creds file '' p"

definition signingHelper_PostLaunch :: "environment \<Rightarrow> hybrid_env \<Rightarrow> NodeConfig \<Rightarrow> unit wio" where
  "signingHelper_PostLaunch env he node =
     bindE (hybrid_or_panic node) (\<lambda>h.
       if \<not> EnableCredentialsFile h then returnE ()
       else with_timeout None (seconds 120) (\<lambda>c.
         wrapE ''waiting for AWS credentials file'' (waitForIAMRolesAnywhereCreds env he c (seconds 2) EksHybridAwsCredentialsPath)))"

definition NewSigningHelperDaemon :: "environment \<Rightarrow> hybrid_env \<Rightarrow> NodeConfig \<Rightarrow> daemon" where
  "NewSigningHelperDaemon env he node =
     \<lparr>d_Configure = \<lambda>_. signingHelper_Configure env node, d_EnsureRunning = signingHelper_EnsureRunning env,
      d_PostLaunch = signingHelper_PostLaunch env he node, d_Stop = StopDaemon env SigningHelperDaemonName, d_Name = SigningHelperDaemonName\<rparr>"

definition RolesAnywhereAWSConfigurator_Configure :: "environment \<Rightarrow> hybrid_env \<Rightarrow> ctx \<Rightarrow> NodeConfig \<Rightarrow> unit wio" where
  "RolesAnywhereAWSConfigurator_Configure env he c nc =
     bindE (ra_or_panic nc) (\<lambda>ra.
      thenE (WriteAWSConfig env
        \<lparr>aw_TrustAnchorARN = TrustAnchorARN ra, aw_ProfileARN = ProfileARN ra, aw_RoleARN = RoleARN ra, aw_Region = cl_Region (Cluster (Spec nc)),
         aw_NodeName = hybrid_NodeName (Status nc), aw_ConfigPath = AwsConfigPath ra, aw_SigningHelperBinPath = SigningHelperBinPath,
         aw_CertificatePath = CertificatePath ra, aw_PrivateKeyPath = PrivateKeyPath ra, aw_ProxyEnabled = False\<rparr>)
       (bindE (hybrid_or_panic nc) (\<lambda>h.
          if \<not> EnableCredentialsFile h then returnE ()
          else let d = NewSigningHelperDaemon env he nc in thenE (d_Configure d c) (thenE (d_EnsureRunning d c) (d_PostLaunch d)))))"

definition LoadAWSConfigForRolesAnywhere :: "hybrid_env \<Rightarrow> NodeConfig \<Rightarrow> aws_config wio" where
  "LoadAWSConfigForRolesAnywhere he nc =
     bindE (ra_or_panic nc) (\<lambda>ra.
       LoadDefaultConfig he
         \<lparr>ac_Region = cl_Region (Cluster (Spec nc)), ac_SharedConfigFiles = Some [AwsConfigPath ra],
          ac_SharedCredentialsFiles = Some [EksHybridAwsCredentialsPath], ac_Profile = ProfileName\<rparr>)"

section \<open>SSM\<close>

definition eksHybridPath :: path where "eksHybridPath = ''/eks-hybrid''"
definition awsCredentialsFilePath :: path where "awsCredentialsFilePath = ''/root/.aws/credentials''"

text \<open>\<open>os.Symlink\<close>: it fails when the name is taken or its directory missing. The link leads to a directory and is entered as one.\<close>

definition os_Symlink :: "environment \<Rightarrow> path \<Rightarrow> path \<Rightarrow> unit wio" where
  "os_Symlink env oldname newname = sys env (OpCreate newname) no_part
     (\<lambda>f. if f newname \<noteq> None then (Inl (ErrMsg (''symlink '' @ oldname @ '' '' @ newname @ '': file exists'')), f)
          else if \<not> is_dir f (Dir newname) then (Inl (ErrNotExist (''symlink '' @ oldname @ '' '' @ newname @ '': no such file or directory'')), f)
          else (Inr (), f(newname \<mapsto> DirNode 511)))"

definition ssm_PostLaunch :: "environment \<Rightarrow> NodeConfig \<Rightarrow> unit wio" where
  "ssm_PostLaunch env nc =
     bindE (hybrid_or_panic nc) (\<lambda>h.
       if EnableCredentialsFile h then
         thenE (mapErrE (\<lambda>e. ErrMsg (''creating path: '' @ error_text e)) (os_MkdirAll env eksHybridPath 493))
          (thenE (bindE (tryE (os_RemoveAll env symlinkedAWSConfigPath)) (\<lambda>r. case r of
                    Inl e \<Rightarrow> if \<not> os_IsNotExist e then throwE (ErrMsg (''removing directory '' @ symlinkedAWSConfigPath @ '': '' @ error_text e)) else returnE ()
                  | Inr _ \<Rightarrow> returnE ()))
           (mapErrE (\<lambda>e. ErrMsg (''creating symlink: '' @ error_text e)) (os_Symlink env defaultAWSConfigPath symlinkedAWSConfigPath)))
       else returnE ())"

definition awsCredsFile :: "environment \<Rightarrow> path" where
  "awsCredsFile env = (case lookup_env env ''AWS_SHARED_CREDENTIALS_FILE'' of Some f \<Rightarrow> f | None \<Rightarrow> awsCredentialsFilePath)"

definition WaitForAWSConfig :: "environment \<Rightarrow> hybrid_env \<Rightarrow> ctx \<Rightarrow> NodeConfig \<Rightarrow> nat \<Rightarrow> aws_config wio" where
  "WaitForAWSConfig env he c nc backoff =
     (let credsFile = awsCredsFile env in
      thenE (wait_for_file env he c backoff ''ssm AWS creds file '' credsFile)
        (LoadDefaultConfig he \<lparr>ac_Region = cl_Region (Cluster (Spec nc)), ac_SharedConfigFiles = Some [],
           ac_SharedCredentialsFiles = Some [credsFile], ac_Profile = []\<rparr>))"

text \<open>The SSM daemon names the node: the configuration is returned.\<close>

definition SSMAWSConfigurator_Configure :: "environment \<Rightarrow> hybrid_env \<Rightarrow> ctx \<Rightarrow> NodeConfig \<Rightarrow> NodeConfig wio" where
  "SSMAWSConfigurator_Configure env he c nc =
     thenE (setDaemonName env)
      (case ssm_of nc of
         None \<Rightarrow> panicE
       | Some s \<Rightarrow>
           bindE (ssm_Configure env (he_ssm he) c (cl_Region (Cluster (Spec nc))) (ActivationCode s) (ActivationID s)) (\<lambda>registeredNodeName.
             let nc' = nc\<lparr>Status := (Status nc)\<lparr>hybrid_NodeName := registeredNodeName\<rparr>\<rparr> in
             thenE (ssm_EnsureRunning env c) (thenE (ssm_PostLaunch env nc') (returnE nc'))))"

section \<open>The provider\<close>

text \<open>The skipped phases are a slice that may be nil (\<open>None\<close>): the kubelet distinguishes nil from empty.\<close>

record HybridNodeProvider =
  hp_nodeConfig :: NodeConfig
  hp_awsConfig :: "aws_config option"
  hp_cluster :: "eks_cluster option"
  hp_skipPhases :: "string list option"
  hp_certPath :: path

definition NewHybridNodeProvider :: "NodeConfig \<Rightarrow> string list option \<Rightarrow> HybridNodeProvider" where
  "NewHybridNodeProvider nc skipPhases =
     \<lparr>hp_nodeConfig = nc, hp_awsConfig = None, hp_cluster = None, hp_skipPhases = skipPhases, hp_certPath = kubeletCurrentCertPath\<rparr>"

definition hybrid_ConfigureAws :: "environment \<Rightarrow> hybrid_env \<Rightarrow> ctx \<Rightarrow> HybridNodeProvider \<Rightarrow> HybridNodeProvider wio" where
  "hybrid_ConfigureAws env he c hnp =
     (let nc = hp_nodeConfig hnp in
      if IsSSM nc then
        bindE (wrapE ''configuring aws credentials with SSM'' (SSMAWSConfigurator_Configure env he c nc)) (\<lambda>nc'.
         with_timeout c (seconds 120) (\<lambda>c'.
           bindE (wrapE ''reading aws config for SSM'' (WaitForAWSConfig env he c' nc' (seconds 2))) (\<lambda>awsConfig.
             returnE (hnp\<lparr>hp_nodeConfig := nc', hp_awsConfig := Some awsConfig\<rparr>))))
      else
        thenE (wrapE ''configuring aws credentials with IAM Roles Anywhere'' (RolesAnywhereAWSConfigurator_Configure env he c nc))
         (bindE (wrapE ''generating aws config for IAM Roles Anywhere'' (LoadAWSConfigForRolesAnywhere he nc)) (\<lambda>awsConfig.
           returnE (hnp\<lparr>hp_awsConfig := Some awsConfig\<rparr>))))"

definition readCluster :: "hybrid_env \<Rightarrow> HybridNodeProvider \<Rightarrow> eks_cluster wio" where
  "readCluster he hnp =
     (case hp_awsConfig hnp of
        None \<Rightarrow> panicE
      | Some aws \<Rightarrow>
          let name = cl_Name (Cluster (Spec (hp_nodeConfig hnp))) in
          api_call ''DescribeCluster'' name (\<lambda>n. ce_DescribeCluster (he_clients he aws) n name))"

definition clients_of :: "hybrid_env \<Rightarrow> HybridNodeProvider \<Rightarrow> cluster_env" where
  "clients_of he hnp = he_clients he (case hp_awsConfig hnp of Some a \<Rightarrow> a
     | None \<Rightarrow> \<lparr>ac_Region = [], ac_SharedConfigFiles = None, ac_SharedCredentialsFiles = None, ac_Profile = []\<rparr>)"

definition hybrid_Enrich :: "environment \<Rightarrow> hybrid_env \<Rightarrow> RegionData option \<Rightarrow> HybridNodeProvider \<Rightarrow> HybridNodeProvider wio" where
  "hybrid_Enrich env he regionConfig hnp =
     bindE (Enrich env (he_lookupHost he) (ce_base64 (clients_of he hnp)) (readCluster he hnp) regionConfig (hp_nodeConfig hnp) (hp_cluster hnp))
       (\<lambda>(nc, cluster). returnE (hnp\<lparr>hp_nodeConfig := nc, hp_cluster := cluster\<rparr>))"

definition ValidateKubeletVersionSkew :: "environment \<Rightarrow> hybrid_env \<Rightarrow> eks_cluster option \<Rightarrow> unit wio" where
  "ValidateKubeletVersionSkew env he cluster =
     (case cluster of
        None \<Rightarrow> returnE ()
      | Some cl \<Rightarrow>
          (case ec_Version cl of
             None \<Rightarrow> panicE
           | Some kubeApiServerVersion \<Rightarrow>
               bindE (tryE (GetKubeletVersion env)) (\<lambda>kubeletVersion.
                 case validateSkew (he_ParseVersion he) kubeApiServerVersion kubeletVersion of None \<Rightarrow> returnE () | Some e \<Rightarrow> throwE e)))"

definition creds_Validations :: "cluster_env \<Rightarrow> NodeConfig \<Rightarrow> (NodeConfig, world option) validation list" where
  "creds_Validations ce nc =
     (if IsSSM nc then [New ''ssm-api-network'' (as_validation (\<lambda>_. ssm_AccessValidator_Run ce))]
      else if IsIAMRolesAnywhere nc then [New ''iam-ra-api-network'' (as_validation (\<lambda>_. iamra_AccessValidator_Run ce))]
      else [])"

definition hybrid_validations :: "environment \<Rightarrow> hybrid_env \<Rightarrow> HybridNodeProvider \<Rightarrow> (NodeConfig, world option) validation list" where
  "hybrid_validations env he hnp =
     (let nc = hp_nodeConfig hnp; ce = clients_of he hnp in
      (if hp_awsConfig hnp \<noteq> None
       then creds_Validations ce nc @ [New ''aws-auth-validation'' (as_validation (\<lambda>_. AuthenticationValidator_Run ce))] else []) @
      [New ''node-ip-validation'' (as_validation (\<lambda>node. case NetworkInterfaceValidator_Run (he_ip6 he)
             \<lparr>niv_network = he_network he, validateMTU = False, niv_cluster = map_option ec_RemoteNetworkConfig (hp_cluster hnp)\<rparr> node of
           None \<Rightarrow> returnE () | Some e \<Rightarrow> throwE e)),
       New ''kubelet-cert-validation'' (as_validation (\<lambda>_. KubeletCertificateValidator_Run env (he_x509 he)
           \<lparr>kcv_certPath = hp_certPath hnp, kcv_ca = ca_bytes nc, kcv_ignoreDateAndNoCertErrors = True\<rparr>)),
       New ''kubelet-version-skew-validation'' (as_validation (\<lambda>_. ValidateKubeletVersionSkew env he (hp_cluster hnp))),
       New ''api-server-endpoint-resolution-validation'' (as_validation (ValidateAPIServerEndpointResolution ce)),
       New ''proxy-validation'' (as_validation (ProxyValidator_Validate env)),
       New ''node-inactive-validation'' (as_validation (\<lambda>_. ValidateNodeIsInactive env)),
       New ''cluster-access-validation'' (as_validation (\<lambda>_. ValidateClusterAccess ce (hp_awsConfig hnp \<noteq> None) (hp_cluster hnp)))])"

definition slice_elems :: "'a list option \<Rightarrow> 'a list" where
  "slice_elems s = (case s of None \<Rightarrow> [] | Some xs \<Rightarrow> xs)"

definition hybrid_Validate :: "environment \<Rightarrow> hybrid_env \<Rightarrow> HybridNodeProvider \<Rightarrow> unit wio" where
  "hybrid_Validate env he hnp =
     run_steps (Register (NewRunner [WithSkipValidations (slice_elems (hp_skipPhases hnp))]) (hybrid_validations env he hnp)) (hp_nodeConfig hnp)"

text \<open>Making the ports aspect looks for the firewall; the aspects are returned as the set-ups to run.\<close>

definition hybrid_GetAspects :: "environment \<Rightarrow> HybridNodeProvider \<Rightarrow> unit wio list wio" where
  "hybrid_GetAspects env hnp =
     bindE (NewFirewallManager env) (\<lambda>m. returnE [sysctl_Setup env, swap_Setup env, ports_Setup env m])"

definition hybrid_GetDaemons :: "environment \<Rightarrow> hybrid_env \<Rightarrow> HybridNodeProvider \<Rightarrow> daemon list wio" where
  "hybrid_GetDaemons env he hnp =
     (if hp_awsConfig hnp = None then throwE (ErrMsg ''aws config not set'')
      else let nc = hp_nodeConfig hnp;
               credentialProviderAwsConfig = (if IsIAMRolesAnywhere nc
                 then \<lparr>cp_Profile = ProfileName, CredentialsPath = EksHybridAwsCredentialsPath\<rparr> else \<lparr>cp_Profile = [], CredentialsPath = []\<rparr>)
           in returnE [NewContainerdDaemon env (he_image he) nc,
                       kubelet_daemon env (he_kubelet he) (MakeAuthenticatedRequest (clients_of he hnp))
                         (NewKubeletDaemon nc credentialProviderAwsConfig (hp_skipPhases hnp))])"

section \<open>Facts about the validations\<close>

text \<open>A step that lets the runner go on without an error: it returned, and whatever it reported are warnings.\<close>

definition passed :: "(NodeConfig \<Rightarrow> unit wio) \<Rightarrow> NodeConfig \<Rightarrow> bool" where
  "passed m nc \<longleftrightarrow> (\<exists>w r w'. m nc w = Some (r, w') \<and> (case r of Inr _ \<Rightarrow> True | Inl e \<Rightarrow> list_all IsWarning (Unwrap e)))"

definition is_step :: "(NodeConfig, world option) validation \<Rightarrow> bool" where
  "is_step v \<longleftrightarrow> (\<exists>m. Validate v = as_validation m)"

lemma hybrid_validations_steps: "list_all is_step (hybrid_validations env he hnp)"
  unfolding hybrid_validations_def creds_Validations_def Let_def is_step_def New_def by auto

lemma Sequentially_loop_passed:
  assumes "list_all is_step vs" and "Sequentially_loop vs errs nc s = (errs', nc', s')"
  shows "nc' = nc \<and> (s' \<noteq> None \<longrightarrow> errs' = [] \<longrightarrow> s \<noteq> None \<and> errs = [] \<and> (\<forall>v\<in>set vs. \<forall>m. Validate v = as_validation m \<longrightarrow> passed m nc))"
  using assms
proof (induction vs arbitrary: errs s)
  case Nil
  then show ?case by simp
next
  case (Cons v vs)
  obtain m where m: "Validate v = as_validation m" using Cons.prems(1) by (auto simp: is_step_def)
  have "fst (snd (as_validation m nc s)) = nc" by (simp add: as_validation_def split: option.splits prod.splits sum.splits)
  then obtain r s1 where step: "as_validation m nc s = (r, nc, s1)" by (metis prod.collapse)
  define errs1 where "errs1 = (case r of None \<Rightarrow> errs | Some e \<Rightarrow> add_non_warnings errs (Unwrap e))"
  have rest: "Sequentially_loop vs errs1 nc s1 = (errs', nc', s')"
    using Cons.prems(2) by (auto simp: m step errs1_def split: option.splits)
  have IH: "nc' = nc \<and> (s' \<noteq> None \<longrightarrow> errs' = [] \<longrightarrow> s1 \<noteq> None \<and> errs1 = [] \<and> (\<forall>v\<in>set vs. \<forall>m. Validate v = as_validation m \<longrightarrow> passed m nc))"
    using Cons.IH [OF _ rest] Cons.prems(1) by simp
  have here: "s \<noteq> None \<and> errs = [] \<and> passed m' nc" if ok: "s1 \<noteq> None" "errs1 = []" and m': "Validate v = as_validation m'" for m'
  proof -
    have step': "as_validation m' nc s = (r, nc, s1)" using m m' step by simp
    obtain w where s: "s = Some w" using ok(1) step by (cases s) (auto simp: as_validation_def)
    obtain x w1 where x: "m' nc w = Some (x, w1)" using ok(1) step' unfolding s as_validation_def by (cases "m' nc w") auto
    have r: "r = (case x of Inr _ \<Rightarrow> None | Inl e \<Rightarrow> Some e)" using step' unfolding s as_validation_def by (simp add: x split: sum.splits)
    have "case x of Inr _ \<Rightarrow> True | Inl e \<Rightarrow> list_all IsWarning (Unwrap e)"
      using ok(2) unfolding errs1_def r by (cases x) (auto simp: add_non_warnings_eq list_all_iff filter_empty_conv)
    with x have "passed m' nc" unfolding passed_def by blast
    moreover have "errs = []" using ok(2) unfolding errs1_def by (auto simp: add_non_warnings_eq split: option.splits)
    ultimately show ?thesis using s by simp
  qed
  show ?case using IH here m by auto
qed

lemma run_steps_passed:
  assumes "list_all is_step (validations r)" and "run_steps r nc w = Some (Inr (), w')" and "New n (as_validation m) \<in> set (validations r)"
  shows "passed m nc"
proof -
  obtain errs nc' s where run: "Sequentially_loop (validations r) [] nc (Some w) = (errs, nc', s)" by (metis prod_cases3)
  have "s \<noteq> None \<and> errs = []"
    using assms(2) unfolding run_steps_def Sequentially_def run by (auto simp: errors_Join_def split: if_splits option.splits)
  with Sequentially_loop_passed [OF assms(1) run] have "\<forall>v\<in>set (validations r). \<forall>m. Validate v = as_validation m \<longrightarrow> passed m nc" by blast
  moreover have "Validate (New n (as_validation m)) = as_validation m" by (simp add: New_def)
  ultimately show ?thesis using assms(3) by blast
qed

lemma hybrid_Validate_passed:
  assumes "hybrid_Validate env he hnp w = Some (Inr (), w')"
    and "New n (as_validation m) \<in> set (hybrid_validations env he hnp)" and "n \<notin> set (slice_elems (hp_skipPhases hnp))"
  shows "passed m (hp_nodeConfig hnp)"
proof -
  define r where "r = Register (NewRunner [WithSkipValidations (slice_elems (hp_skipPhases hnp))]) (hybrid_validations env he hnp)"
  have vs: "validations r = filter (\<lambda>v. Name v \<notin> set (slice_elems (hp_skipPhases hnp))) (hybrid_validations env he hnp)"
    by (simp add: r_def Register_eq NewRunner_def WithSkipValidations_def)
  have "list_all is_step (validations r)" using hybrid_validations_steps [of env he hnp] unfolding vs by (auto simp: list_all_iff)
  moreover have "New n (as_validation m) \<in> set (validations r)" using assms(2,3) unfolding vs by (simp add: New_def)
  ultimately show ?thesis using run_steps_passed assms(1) unfolding hybrid_Validate_def r_def [symmetric] by blast
qed

text \<open>Errors with a remediation are never warnings.\<close>

lemma with_remediation_ok: "m w = Some (Inr x, w') \<Longrightarrow> with_remediation a m w = Some (Inr x, w')"
  by (simp add: with_remediation_def mapErrE_def)

lemma passed_with_remediation:
  assumes "passed (\<lambda>_. with_remediation a m) nc"
  shows "\<exists>w x w'. m w = Some (Inr x, w')"
proof -
  obtain w r w' where run: "with_remediation a m w = Some (r, w')" and r: "case r of Inr _ \<Rightarrow> True | Inl e \<Rightarrow> list_all IsWarning (Unwrap e)"
    using assms by (auto simp: passed_def)
  obtain y where y: "m w = Some (y, w')" using run by (auto simp: with_remediation_def mapErrE_def split: option.splits sum.splits prod.splits)
  show ?thesis
  proof (cases y)
    case (Inl e)
    with run y r show ?thesis by (auto simp: with_remediation_def mapErrE_def Unwrap_def IsWarning_def WithRemediation_def)
  next
    case (Inr x)
    with y show ?thesis by blast
  qed
qed

text \<open>What the cluster access and version skew validations stand for.\<close>

lemma passed_access:
  assumes "passed (\<lambda>_. ValidateClusterAccess ce True (Some cl)) nc" and "ec_Name cl = Some n"
  shows "access_granted ce n"
proof -
  obtain w r w' where run: "ValidateClusterAccess ce True (Some cl) w = Some (r, w')"
    and r: "case r of Inr _ \<Rightarrow> True | Inl e \<Rightarrow> list_all IsWarning (Unwrap e)"
    using assms(1) by (auto simp: passed_def)
  have "\<exists>m. ValidateClusterAccess ce True (Some cl) = with_remediation accessEntryRemediation m"
    unfolding ValidateClusterAccess_def by (simp add: assms(2)) blast
  with assms(1) obtain w x w' where "ValidateClusterAccess ce True (Some cl) w = Some (Inr x, w')"
    by (metis passed_with_remediation with_remediation_ok)
  from valid_okD [OF ValidateClusterAccess_ok [OF assms(2)] TrueI this] show ?thesis .
qed

lemma validateSkew_errors: "validateSkew parse api k = Some e \<Longrightarrow> \<not> list_all IsWarning (Unwrap e)"
  by (auto simp: validateSkew_def WithRemediation_def Unwrap_def IsWarning_def split: sum.splits prod.splits if_splits)

lemma passed_skew:
  assumes "passed (\<lambda>_. ValidateKubeletVersionSkew env he (Some cl)) nc"
  shows "\<exists>api k. ec_Version cl = Some api \<and> validateSkew (he_ParseVersion he) api k = None"
proof -
  obtain w r w' where run: "ValidateKubeletVersionSkew env he (Some cl) w = Some (r, w')"
    and r: "case r of Inr _ \<Rightarrow> True | Inl e \<Rightarrow> list_all IsWarning (Unwrap e)"
    using assms by (auto simp: passed_def)
  obtain api where api: "ec_Version cl = Some api" using run by (cases "ec_Version cl") (auto simp: ValidateKubeletVersionSkew_def panicE_def)
  obtain k w1 where k: "GetKubeletVersion env w = Some (k, w1)" using run
    by (cases "GetKubeletVersion env w") (auto simp: ValidateKubeletVersionSkew_def api bindE_def tryE_def)
  show ?thesis
  proof (cases "validateSkew (he_ParseVersion he) api k")
    case None
    with api show ?thesis by blast
  next
    case (Some e)
    with run k api have "r = Inl e" by (auto simp: ValidateKubeletVersionSkew_def bindE_def tryE_def)
    with r validateSkew_errors [OF Some] show ?thesis by simp
  qed
qed

text \<open>Configuring the kubelet ends with a request to the API server, unless there is no runner or it skips the request.\<close>

lemma kubelet_Configure_asks:
  assumes "kubelet_Configure env ke request k w = Some (Inr (), w')" and "kubelet_skipPhases k = Some ps"
    and "''k8s-authentication-validation'' \<notin> set ps"
  shows "passed (\<lambda>_. request) (nodeConfig k)"
proof -
  let ?v = "New ''k8s-authentication-validation'' (as_validation (\<lambda>_. request))"
  define r where "r = Register (NewRunner [WithSkipValidations ps]) [?v]"
  obtain w1 where run: "run_steps r (nodeConfig k) w1 = Some (Inr (), w')"
    using assms(1) unfolding kubelet_Configure_def assms(2) option.case r_def [symmetric] by (elim bindE_okE thenE_okE)
  have vs: "validations r = [?v]" using assms(3) unfolding r_def
    by (simp add: Register_eq NewRunner_def WithSkipValidations_def New_def)
  have "list_all is_step (validations r)" unfolding vs by (simp add: is_step_def New_def) blast
  from run_steps_passed [OF this run] show ?thesis unfolding vs by simp
qed

text \<open>An authenticated request that passes has been answered: all its errors carry a remediation.\<close>

lemma passed_request:
  assumes "passed (\<lambda>_. MakeAuthenticatedRequest ce) nc"
  shows "\<exists>w w'. MakeAuthenticatedRequest ce w = Some (Inr (), w')"
proof -
  obtain w r w' where run: "MakeAuthenticatedRequest ce w = Some (r, w')" and r: "case r of Inr _ \<Rightarrow> True | Inl e \<Rightarrow> list_all IsWarning (Unwrap e)"
    using assms by (auto simp: passed_def)
  have "\<not> list_all IsWarning (Unwrap (WithRemediation e a))" for e a by (simp add: Unwrap_def IsWarning_def WithRemediation_def)
  moreover have "\<exists>e' a. e = WithRemediation e' a" if "MakeAuthenticatedRequest ce w = Some (Inl e, w')" for e
    using that unfolding MakeAuthenticatedRequest_def api_client_def get_kubernetes_endpoints_def
    by (auto simp: thenE_def bindE_def with_remediation_def mapErrE_def returnE_def panicE_def split: option.splits sum.splits prod.splits reply.splits)
  ultimately show ?thesis using run r by (cases r) fastforce+
qed

end
