(* ===== verification/Install_Liveness.thy ===== *)
theory Install_Liveness
  imports Install_Flow Sample_World
begin

text \<open>
  That the installation does succeed: \<open>succeeds I m\<close> for its parts. The invariant is \<open>tidy\<close>: directories stand only where the node's
  directories belong and files stand nowhere there.
\<close>

lemma succeeds_for_range_retry: "succeeds I m \<Longrightarrow> succeeds I (for_range_retry (Suc n) err m)"
proof (rule succeedsI)
  fix w assume "succeeds I m" "I w"
  then obtain x w1 where "m w = Some (Inr x, w1)" "I w1" by (rule succeedsE)
  then show "\<exists>x w'. for_range_retry (Suc n) err m w = Some (Inr x, w') \<and> I w'"
    by (simp add: bindE_def tryE_def returnE_def)
qed

section \<open>A tidy machine\<close>

definition tidy :: "path set \<Rightarrow> filesystem \<Rightarrow> bool" where
  "tidy D f \<longleftrightarrow> (\<forall>q. case f q of None \<Rightarrow> True | Some (DirNode _) \<Rightarrow> q \<in> D | Some (RegFile _ _) \<Rightarrow> q \<notin> D)"

lemma tidyD: "tidy D f \<Longrightarrow> d \<in> D \<Longrightarrow> \<not> is_file f d" "tidy D f \<Longrightarrow> p \<notin> D \<Longrightarrow> p \<noteq> ''/'' \<Longrightarrow> \<not> is_dir f p"
  unfolding tidy_def is_file_def is_dir_def by (auto split: option.splits fnode.splits dest: spec [of _ d] spec [of _ p])

lemma tidy_remove: "tidy D f \<Longrightarrow> tidy D (remove_under p f)"
  by (auto simp: tidy_def remove_under_def)

lemma tidy_make_dirs: "tidy D f \<Longrightarrow> set (dirs_to p) \<subseteq> D \<Longrightarrow> tidy D (make_dirs p m f)"
  unfolding tidy_def make_dirs_def by auto

lemma tidy_file: "tidy D f \<Longrightarrow> p \<notin> D \<Longrightarrow> tidy D (f(p \<mapsto> RegFile c m))"
  by (simp add: tidy_def)

lemma tidy_del: "tidy D f \<Longrightarrow> tidy D (f(p := None))"
  by (simp add: tidy_def)

text \<open>A file of the node: its directories are in \<open>D\<close>, it is not.\<close>

definition placed :: "path set \<Rightarrow> path \<Rightarrow> bool" where
  "placed D p \<longleftrightarrow> set (dirs_to (Dir p)) \<subseteq> D \<and> Dir p \<in> set (dirs_to (Dir p)) \<and> p \<notin> D \<and> p \<noteq> ''/''"

abbreviation tidyw :: "path set \<Rightarrow> world \<Rightarrow> bool" where
  "tidyw D w \<equiv> tidy D (fs w) \<and> (\<exists>s. ContainerdSource (Containerd (Artifacts (tracker_obj w))) = Inr s)"

lemma no_faultsD: "no_faults env \<Longrightarrow> os_fault env n op = None"
  by (simp add: no_faults_def)

lemma succeeds_MkdirAll: "no_faults env \<Longrightarrow> set (dirs_to p) \<subseteq> D \<Longrightarrow> succeeds (tidyw D) (os_MkdirAll env p m)"
  by (rule succeedsI) (auto simp: os_MkdirAll_def sys_def Let_def no_faultsD list_ex_iff dest: tidyD(1) intro: tidy_make_dirs)

lemma succeeds_RemoveAll: "no_faults env \<Longrightarrow> succeeds (tidyw D) (os_RemoveAll env p)"
  by (rule succeedsI) (simp add: os_RemoveAll_def sys_def Let_def no_faultsD tidy_remove)

text \<open>Creating a file needs its directory, which the call before made.\<close>

lemma succeeds_write:
  assumes "no_faults env" and "placed D p" and "snd src = None"
  shows "succeeds (tidyw D) (thenE (os_MkdirAll env (Dir p) m) (thenE (os_Create env p k) (io_Copy env p src)))"
proof (rule succeedsI)
  fix w assume w: "tidyw D w"
  let ?f = "make_dirs (Dir p) m (fs w)"
  have p: "set (dirs_to (Dir p)) \<subseteq> D" "Dir p \<in> set (dirs_to (Dir p))" "p \<notin> D" "p \<noteq> ''/''" using assms(2) by (simp_all add: placed_def)
  have nofile: "\<not> list_ex (is_file (fs w)) (dirs_to (Dir p))" using w p(1) tidyD(1) by (fastforce simp: list_ex_iff)
  have t: "tidy D ?f" using w p(1) by (simp add: tidy_make_dirs)
  have dir: "is_dir ?f (Dir p)" using w p(1,2) by (intro make_dirs_is_dir) (auto dest: tidyD(1))
  have notdir: "\<not> is_dir ?f p" using t p(3,4) by (rule tidyD(2))
  then have "?f p = None \<or> (\<exists>c x. ?f p = Some (RegFile c x))" by (auto simp: is_dir_def split: option.splits fnode.splits)
  then show "\<exists>x w'. thenE (os_MkdirAll env (Dir p) m) (thenE (os_Create env p k) (io_Copy env p src)) w = Some (Inr x, w') \<and> tidyw D w'"
    using assms(1,3) w t nofile dir notdir p(3)
    by (auto simp: io_Copy_def os_MkdirAll_def os_Create_def file_Write_def sys_def no_faultsD Let_def thenE_def bindE_def returnE_def
        append_to_def tidy_file)
qed

lemma succeeds_InstallFile:
  assumes "no_faults env" and "placed D p" and "snd src = None"
  shows "succeeds (tidyw D) (InstallFile env p src m)"
proof -
  have "InstallFile env p src m = thenE (os_RemoveAll env p)
      (thenE (thenE (os_MkdirAll env (Dir p) DefaultDirPerms) (thenE (os_Create env p m) (io_Copy env p src))) (returnE (fst src)))"
    by (simp only: InstallFile_def thenE_assoc)
  then show ?thesis by (simp only:) (intro succeeds_thenE succeeds_RemoveAll succeeds_write succeeds_returnE assms)
qed

lemma succeeds_WriteFileWithDir:
  assumes "no_faults env" and "placed D p"
  shows "succeeds (tidyw D) (WriteFileWithDir env p d m)"
proof -
  have "io_Copy env p (d, None) = file_Write env p d" by (simp add: io_Copy_def thenE_unit)
  with succeeds_write [OF assms, of "(d, None)" m m] show ?thesis by (simp add: WriteFileWithDir_def os_WriteFile_def)
qed

section \<open>The components\<close>

text \<open>A source that delivers bytes matching its checksum.\<close>

definition delivers :: "environment \<Rightarrow> source wio \<Rightarrow> bool" where
  "delivers env get \<longleftrightarrow> (\<forall>w. \<exists>src n tr. get w = Some (Inr src, w\<lparr>steps := n, trace := tr\<rparr>) \<and>
     snd (src_stream src) = None \<and> VerifyChecksum env src (fst (src_stream src)))"

lemma InstallFile_content: "InstallFile env p src m w = Some (Inr b, w') \<Longrightarrow> b = fst src"
  by (auto simp: InstallFile_def thenE_def bindE_def returnE_def split: option.splits sum.splits prod.splits)

lemma succeeds_download_once:
  assumes "no_faults env" and "delivers env get" and "placed D p"
  shows "succeeds (tidyw D) (download_once env gm im what get p m)"
proof (rule succeedsI)
  fix w assume w: "tidyw D w"
  obtain src n tr where get: "get w = Some (Inr src, w\<lparr>steps := n, trace := tr\<rparr>)"
    and ok: "snd (src_stream src) = None" and sum: "VerifyChecksum env src (fst (src_stream src))"
    using assms(2) unfolding delivers_def by blast
  have w1: "tidyw D (w\<lparr>steps := n, trace := tr\<rparr>)" using w by simp
  obtain b w2 where inst: "InstallFile env p (src_stream src) m (w\<lparr>steps := n, trace := tr\<rparr>) = Some (Inr b, w2)" and w2: "tidyw D w2"
    using succeeds_InstallFile [OF assms(1,3) ok] w1 by (rule succeedsE)
  have "b = fst (src_stream src)" using inst by (rule InstallFile_content)
  then show "\<exists>x w'. download_once env gm im what get p m w = Some (Inr x, w') \<and> tidyw D w'"
    using get inst sum w2 by (simp add: download_once_def bindE_def wrapE_def mapErrE_def returnE_def)
qed

definition known_artifact :: "string \<Rightarrow> bool" where
  "known_artifact n \<longleftrightarrow> n \<in> {artifact_CniPlugins, artifact_IamAuthenticator, artifact_IamRolesAnywhere,
     artifact_ImageCredentialProvider, artifact_Kubectl, artifact_Kubelet}"

lemma succeeds_Tracker_Add: "known_artifact n \<Longrightarrow> succeeds (tidyw D) (Tracker_Add n)"
  by (rule succeedsI) (auto simp: known_artifact_def Tracker_Add_def Add_simps bindE_def getE_def modifyE_def)

lemma succeeds_component:
  assumes "no_faults env" and "delivers env get" and "placed D p" and "known_artifact n"
  shows "succeeds (tidyw D)
    (thenE (wrapE m1 (wrapE m2 (for_range_retry 3 None (download_once env gm im what get p perms)))) (wrapE m3 (Tracker_Add n)))"
  unfolding numeral_3_eq_3
  by (intro succeeds_intros succeeds_for_range_retry succeeds_download_once succeeds_Tracker_Add assms)

text \<open>The directories of the node.\<close>

definition node_dirs :: "path list" where
  "node_dirs = [''/usr'', ''/usr/bin'', ''/usr/local'', ''/usr/local/bin'', ''/etc'', ''/etc/eks'', ''/etc/eks/image-credential-provider'',
     ''/etc/systemd'', ''/etc/systemd/system'', ''/opt'', ''/opt/cni'', ''/opt/cni/bin'', ''/opt/cni/plugins'', ''/opt/nodeadm'']"

lemma node_placed:
  "list_all (placed (set node_dirs)) [kubelet_BinPath, UnitPath, kubectl_BinPath, iamauthenticator_BinPath,
     imagecredentialprovider_BinPath, iamrolesanywhere_BinPath, TgzPath, trackerFile]"
  unfolding list.pred_inject placed_def by (intro conjI) code_simp+

lemma artifacts_known:
  "known_artifact artifact_CniPlugins" "known_artifact artifact_IamAuthenticator" "known_artifact artifact_IamRolesAnywhere"
  "known_artifact artifact_ImageCredentialProvider" "known_artifact artifact_Kubectl" "known_artifact artifact_Kubelet"
  by (simp_all add: known_artifact_def)

lemmas node_placedD = node_placed [unfolded list.pred_inject]

text \<open>An archive of plain files, as the published CNI archive is: each entry a regular file directly in the destination.\<close>

definition plain_item :: "path set \<Rightarrow> path \<Rightarrow> tar_item \<Rightarrow> bool" where
  "plain_item D dst it \<longleftrightarrow> (case it of
      TarEntry name isDir m data \<Rightarrow> \<not> isDir \<and> validRelPath name \<and> snd data = None \<and>
        Dir (Join [dst, name]) = dst \<and> Join [dst, name] \<notin> D \<and> Join [dst, name] \<noteq> ''/''
    | TarError _ \<Rightarrow> False)"

definition extracting :: "path set \<Rightarrow> path \<Rightarrow> path \<Rightarrow> world \<Rightarrow> bool" where
  "extracting D dst src w \<longleftrightarrow> tidyw D w \<and> is_dir (fs w) dst \<and> is_file (fs w) src"

lemma extracting_write:
  assumes "extracting D dst src w" and "p \<notin> D" and "dst \<in> D"
  shows "extracting D dst src (w\<lparr>steps := n, fs := (fs w)(p \<mapsto> RegFile c m)\<rparr>)"
proof -
  have "p \<noteq> dst" using assms(2,3) by auto
  then show ?thesis using assms by (auto simp: extracting_def tidy_file is_dir_def is_file_def)
qed

lemma succeeds_create:
  assumes "no_faults env" and "p \<notin> D" and "p \<noteq> ''/''" and "Dir p = dst" and "dst \<in> D" and "snd data = None"
  shows "succeeds (extracting D dst src) (thenE (wrapE m1 (os_Create env p k)) (wrapE m2 (io_Copy env p data)))"
proof (rule succeedsI)
  fix w assume w: "extracting D dst src w"
  then have "\<not> is_dir (fs w) p" using assms(2,3) tidyD(2) unfolding extracting_def by blast
  then have "fs w p = None \<or> (\<exists>c x. fs w p = Some (RegFile c x))" by (auto simp: is_dir_def split: option.splits fnode.splits)
  moreover have "is_dir (fs w) (Dir p)" using w assms(4) by (simp add: extracting_def)
  ultimately show "\<exists>x w'. thenE (wrapE m1 (os_Create env p k)) (wrapE m2 (io_Copy env p data)) w = Some (Inr x, w') \<and> extracting D dst src w'"
    using assms(1,6) \<open>\<not> is_dir (fs w) p\<close> extracting_write [OF w assms(2,5)]
    by (auto simp: io_Copy_def os_Create_def file_Write_def sys_def no_faultsD Let_def thenE_def bindE_def returnE_def wrapE_def mapErrE_def
        append_to_def)
qed

lemma succeeds_untar_loop:
  assumes "no_faults env" and "dst \<in> D" and "list_all (plain_item D dst) items"
  shows "succeeds (extracting D dst src) (untar_loop env dst items)"
  using assms(3)
proof (induction items)
  case Nil
  show ?case by (simp add: succeeds_returnE)
next
  case (Cons it items)
  then obtain name m data where it: "it = TarEntry name False m data" and ok: "validRelPath name" "snd data = None"
    "Dir (Join [dst, name]) = dst" "Join [dst, name] \<notin> D" "Join [dst, name] \<noteq> ''/''"
    by (cases it) (auto simp: plain_item_def)
  have "untar_loop env dst (it # items) =
      thenE (thenE (wrapE ''creating file'' (os_Create env (Join [dst, name]) m)) (wrapE ''copying file contents'' (io_Copy env (Join [dst, name]) data)))
        (untar_loop env dst items)"
    by (simp add: it ok Let_def thenE_assoc)
  then show ?case using Cons
    by (simp only: list.pred_inject) (intro succeeds_thenE succeeds_create assms(1,2) ok, simp)
qed

lemma succeeds_InstallTarGz:
  assumes "no_faults env" and "set (dirs_to dst) \<subseteq> D" and "dst \<in> set (dirs_to dst)" and "src \<notin> D"
    and "\<And>b. \<exists>s. gunzip env (b, None) = Inr s \<and> list_all (plain_item D dst) (untar env s)"
    and w: "tidyw D w" "is_file (fs w) src"
  shows "\<exists>x w'. InstallTarGz env dst src w = Some (Inr x, w') \<and> tidyw D w'"
proof -
  have dst: "dst \<in> D" using assms(2,3) by auto
  let ?w1 = "w\<lparr>steps := Suc (steps w), fs := make_dirs dst DefaultDirPerms (fs w)\<rparr>"
  have nofile: "\<not> list_ex (is_file (fs w)) (dirs_to dst)" using w(1) assms(2) tidyD(1) by (fastforce simp: list_ex_iff)
  then have mk: "os_MkdirAll env dst DefaultDirPerms w = Some (Inr (), ?w1)"
    by (simp add: os_MkdirAll_def sys_def Let_def no_faultsD assms(1))
  have keep: "is_file (make_dirs dst DefaultDirPerms (fs w)) src" using w(2) by (auto simp: is_file_def make_dirs_def split: option.splits)
  then obtain c m where c: "make_dirs dst DefaultDirPerms (fs w) src = Some (RegFile c m)" by (auto simp: is_file_def split: option.splits fnode.splits)
  let ?w2 = "?w1\<lparr>steps := Suc (Suc (steps w))\<rparr>"
  have op: "os_Open env src ?w1 = Some (Inr c, ?w2)" by (simp add: os_Open_def sys_def Let_def no_faultsD assms(1) c)
  obtain s where s: "gunzip env (c, None) = Inr s" "list_all (plain_item D dst) (untar env s)" using assms(5) by blast
  have e: "extracting D dst src ?w2" unfolding extracting_def
    using w(1) keep assms(2) make_dirs_is_dir [OF assms(3) tidyD(1) [OF _ dst]] by (simp add: tidy_make_dirs)
  obtain x w3 where w3: "untar_loop env dst (untar env s) ?w2 = Some (Inr x, w3)" "extracting D dst src w3"
    using succeeds_untar_loop [OF assms(1) dst s(2)] e by (rule succeedsE)
  then obtain c' m' where "fs w3 src = Some (RegFile c' m')" by (auto simp: extracting_def is_file_def split: option.splits fnode.splits)
  then have "os_Remove env src w3 = Some (Inr (), w3\<lparr>steps := Suc (steps w3), fs := (fs w3)(src := None)\<rparr>)"
    by (simp add: os_Remove_def sys_def Let_def no_faultsD assms(1))
  then show ?thesis using mk op s(1) w3
    by (simp add: InstallTarGz_def thenE_def bindE_def wrapE_def mapErrE_def liftE_def extracting_def tidy_del)
qed

lemma succeeds_cni_Install:
  assumes "no_faults env" and "delivers env get"
    and "\<And>b. \<exists>s. gunzip env (b, None) = Inr s \<and> list_all (plain_item (set node_dirs) cni_BinPath) (untar env s)"
  shows "succeeds (tidyw (set node_dirs)) (cni_Install env get [])"
proof -
  let ?D = "set node_dirs"
  have paths: "set (dirs_to cni_BinPath) \<subseteq> ?D" "cni_BinPath \<in> set (dirs_to cni_BinPath)" "TgzPath \<notin> ?D"
    "Join [[], TgzPath] = TgzPath" "Join [[], cni_BinPath] = cni_BinPath" "TgzPath \<notin> set (dirs_to (Dir TgzPath))" by code_simp+
  let ?dl = "wrapE ''installing cni-plugins'' (cni_downloadFileWithRetries env get [])"
  have dl: "succeeds (tidyw ?D) ?dl"
    unfolding cni_downloadFileWithRetries_def cni_downloadFileTo_def paths(4) numeral_3_eq_3
    by (intro succeeds_wrapE succeeds_for_range_retry succeeds_download_once assms(1,2)) (simp add: node_placedD)
  have "valid_ok (\<lambda>_. True) (cni_downloadFileWithRetries env get []) (\<lambda>_ w. installed_from env get TgzPath 493 w)"
    unfolding cni_downloadFileWithRetries_def cni_downloadFileTo_def paths(4)
    by (rule for_range_retry_ok [OF download_once_ok [OF paths(6)]]) simp
  then have tgz: "valid_ok (\<lambda>_. True) ?dl (\<lambda>_ w. is_file (fs w) TgzPath)"
    by (rule valid_wrapE [OF valid_post]) (auto simp: installed_from_def is_file_def)
  have "succeeds (tidyw ?D) (cni_installFromSource env get [])"
  proof (rule succeedsI)
    fix w assume "tidyw ?D w"
    with dl obtain x w1 where w1: "?dl w = Some (Inr x, w1)" "tidyw ?D w1" by (rule succeedsE)
    then have "is_file (fs w1) TgzPath" using valid_okD [OF tgz TrueI] by blast
    then obtain y w2 where "InstallTarGz env cni_BinPath TgzPath w1 = Some (Inr y, w2)" "tidyw ?D w2"
      using succeeds_InstallTarGz [OF assms(1) paths(1-3) assms(3) w1(2)] by blast
    then show "\<exists>x w'. cni_installFromSource env get [] w = Some (Inr x, w') \<and> tidyw ?D w'"
      using w1(1) by (simp add: cni_installFromSource_def paths thenE_def bindE_def wrapE_def mapErrE_def)
  qed
  then show ?thesis unfolding cni_Install_def by (intro succeeds_intros succeeds_Tracker_Add artifacts_known)
qed

lemma succeeds_kubelet_Install:
  assumes "no_faults env" and "delivers env get"
  shows "succeeds (tidyw (set node_dirs)) (kubelet_Install env get [])"
proof -
  have u: "Join [[], UnitPath] = UnitPath" by code_simp
  have unit: "succeeds (tidyw (set node_dirs)) (installSystemdUnit env UnitPath)"
    unfolding installSystemdUnit_def by (intro succeeds_intros succeeds_InstallFile assms(1)) (simp_all add: node_placedD)
  show ?thesis unfolding kubelet_Install_def kubelet_installFromSource_def kubelet_downloadFileTo_def u component_paths numeral_3_eq_3
    by (intro succeeds_intros succeeds_for_range_retry succeeds_download_once succeeds_Tracker_Add unit assms artifacts_known)
      (simp_all add: node_placedD)
qed

lemma succeeds_Save:
  assumes "no_faults env" and "\<And>tr. \<exists>d. yaml_marshal env tr = Inr d"
  shows "succeeds (tidyw (set node_dirs)) (Save env)"
proof (rule succeedsI)
  fix w assume w: "tidyw (set node_dirs) w"
  then obtain s where s: "ContainerdSource (Containerd (Artifacts (tracker_obj w))) = Inr s" by blast
  let ?tr = "(tracker_obj w)\<lparr>Artifacts := (Artifacts (tracker_obj w))\<lparr>Containerd := s\<rparr>\<rparr>"
  obtain d where d: "yaml_marshal env ?tr = Inr d" using assms(2) by blast
  have "tidyw (set node_dirs) (w\<lparr>tracker_obj := ?tr\<rparr>)" using w ContainerdSource_idem [OF s] by simp
  then obtain x w1 where "WriteFileWithDir env trackerFile d 420 (w\<lparr>tracker_obj := ?tr\<rparr>) = Some (Inr x, w1)" "tidyw (set node_dirs) w1"
    using succeeds_WriteFileWithDir [OF assms(1), of "set node_dirs" trackerFile d 420] node_placedD by (blast elim: succeedsE)
  then show "\<exists>x w'. Save env w = Some (Inr x, w') \<and> tidyw (set node_dirs) w'"
    by (simp add: Save_def bindE_def thenE_def getE_def modifyE_def liftE_def s d Let_def)
qed

lemma GetCurrentState_fresh:
  assumes "no_faults env" and "fs w trackerFile = None"
  shows "GetCurrentState env w = Some (Inr \<lparr>Artifacts = no_artifacts\<rparr>, w\<lparr>steps := Suc (steps w)\<rparr>)"
  using assms by (simp add: GetCurrentState_def GetInstalledArtifacts_def os_ReadFile_def sys_def Let_def no_faultsD bindE_def tryE_def
      returnE_def)

text \<open>Everything the private installation downloads is delivered.\<close>

definition release_delivered :: "environment \<Rightarrow> Source \<Rightarrow> bool" where
  "release_delivered env s \<longleftrightarrow> list_all (delivers env)
     [GetSigningHelper env s, GetKubelet env s, GetKubectl env s, GetCniPlugins env s, GetImageCredentialProvider env s, GetIAMAuthenticator env s]"

lemma Installer_Run_succeeds:
  assumes "no_faults env" and "release_delivered env (in_AwsSource i)"
    and "\<And>b. \<exists>s. gunzip env (b, None) = Inr s \<and> list_all (plain_item (set node_dirs) cni_BinPath) (untar env s)"
    and "\<And>tr. \<exists>d. yaml_marshal env tr = Inr d"
    and "in_PrivateMode i" and "in_CredentialProvider i = Some IamRolesAnywhereCredentialProvider"
    and "tidy (set node_dirs) (fs w)" and "fs w trackerFile = None"
  shows "\<exists>w'. Installer_Run env fe c i w = Some (Inr (), w')"
proof -
  let ?D = "set node_dirs" and ?s = "in_AwsSource i"
  let ?w1 = "w\<lparr>steps := Suc (steps w), tracker_obj := \<lparr>Artifacts = no_artifacts\<rparr>\<rparr>"
  note del = assms(2) [unfolded release_delivered_def list.pred_inject]
  have cred: "succeeds (tidyw ?D) (installCredentialProcess env fe c i)"
    unfolding installCredentialProcess_def assms(6) option.case CredentialProvider.case iamrolesanywhere_Install_unfold
    by (rule succeeds_component) (use assms(1) del node_placedD artifacts_known in auto)
  have comp: "succeeds (tidyw ?D) (kubectl_Install env (GetKubectl env ?s) [])"
      "succeeds (tidyw ?D) (imagecredentialprovider_Install env (GetImageCredentialProvider env ?s) [])"
      "succeeds (tidyw ?D) (iamauthenticator_Install env (GetIAMAuthenticator env ?s) [])"
    unfolding kubectl_Install_unfold imagecredentialprovider_Install_unfold iamauthenticator_Install_unfold
    by (rule succeeds_component; use assms(1) del node_placedD artifacts_known in auto)+
  have "succeeds (tidyw ?D) (installEksArtifacts env i)"
    unfolding installEksArtifacts_def
    by (intro succeeds_thenE comp succeeds_kubelet_Install succeeds_cni_Install assms(1,3)) (use del in auto)
  then have run: "succeeds (tidyw ?D) (thenE (installCredentialProcess env fe c i) (thenE (installEksArtifacts env i) (Save env)))"
    by (intro succeeds_thenE cred succeeds_Save assms(1,4))
  have "tidyw ?D ?w1" using assms(7) by (simp add: no_artifacts_def ContainerdSource_def)
  with run obtain x w2 where "thenE (installCredentialProcess env fe c i) (thenE (installEksArtifacts env i) (Save env)) ?w1 = Some (Inr x, w2)"
    by (rule succeedsE)
  moreover have "bindE (GetCurrentState env) (\<lambda>tr. modifyE (\<lambda>w. w\<lparr>tracker_obj := tr\<rparr>)) w = Some (Inr (), ?w1)"
    by (simp add: GetCurrentState_fresh [OF assms(1,8)] bindE_def modifyE_def)
  ultimately show ?thesis unfolding Installer_Run_def using assms(5) by (simp add: thenE_after)
qed

section \<open>A sample release\<close>

text \<open>Served by \<open>sample_env\<close>, where an address is its own content and a digest is the identity.\<close>

definition sample_entry :: "string \<Rightarrow> Artifact_entry" where
  "sample_entry name = \<lparr>ar_Name = name, ar_Arch = ''amd64'', ar_OS = ''linux'', ar_URI = ''ab'', ar_ChecksumURI = ''6162 x'', ar_GzipURI = []\<rparr>"

definition sample_node_release :: Source where
  "sample_node_release =
     \<lparr>Eks = \<lparr>ep_Version = ''1.31'', ep_PatchVersion = ''2'', ep_ReleaseDate = ''2025-01-10'', ep_Artifacts = map sample_entry
        [''kubelet'', ''kubectl'', ''cni-plugins'', ''ecr-credential-provider'', ''aws-iam-authenticator'']\<rparr>,
      Iam = \<lparr>ir_Version = ''1.4.0'', ir_Artifacts = [sample_entry ''aws_signing_helper'']\<rparr>,
      RegionInfo = \<lparr>EcrAccountID = ''602401143452'', Partition = ''aws'', DnsSuffix = ''amazonaws.com'', CredProviders = \<lambda>_. Some True\<rparr>\<rparr>"

definition sample_pm :: DistroPackageManager where
  "sample_pm = \<lparr>manager = ''apt'', installVerb = ''install'', updateVerb = ''upgrade'', deleteVerb = ''autoremove'',
     refreshMetadataVerb = ''update'', dockerRepo = []\<rparr>"

definition sample_flow :: flow_env where
  "sample_flow = \<lparr>fe_ssm = sample_ssm, fe_semver = sample_semver, fe_isNotFound = \<lambda>_. False, fe_order = [], fe_publicKey = ''key'',
     fe_load_aws = \<lambda>_. Inr ()\<rparr>"

definition sample_installer :: Installer where
  "sample_installer = \<lparr>in_AwsSource = sample_node_release, in_ContainerdSource = ''none'', in_PackageManager = sample_pm,
     in_CredentialProvider = Some IamRolesAnywhereCredentialProvider, in_SsmRegion = ''us-west-2'', in_PrivateMode = True\<rparr>"

lemma sample_http:
  "GetHttpFileReader sample_env u w = Some (Inr (u, None), w\<lparr>steps := Suc (steps w), trace := trace w @ [EvHttp u]\<rparr>)"
  by (simp add: GetHttpFileReader_def numeral_3_eq_3 bindE_def tryE_def wrapE_def mapErrE_def returnE_def http_Get_def sample_env_def)

lemma sample_getSource:
  assumes "sample_entry name \<in> set as" and "\<And>a. a \<in> set as \<Longrightarrow> a \<in> range sample_entry"
  shows "delivers sample_env (getSource sample_env name as)"
proof -
  have sum: "ParseGNUChecksum ''6162 x'' = Inr ''ab''" by code_simp
  let ?src = "\<lparr>src_stream = (''ab'', None), src_expect = Some ''ab''\<rparr>"
  have arch: "goarch sample_env = ''amd64''" "goos sample_env = ''linux''" by (simp_all add: sample_env_def)
  have "\<exists>n tr. getSource sample_env name as w = Some (Inr ?src, w\<lparr>steps := n, trace := tr\<rparr>)" for w
    using assms
  proof (induction as)
    case Nil
    then show ?case by simp
  next
    case (Cons a as)
    then obtain nm where a: "a = sample_entry nm" by auto
    show ?case
    proof (cases "nm = name")
      case True
      then show ?thesis
        by (simp add: a arch sample_entry_def GetHttpFile_def sample_http WithChecksum_def sum bindE_def wrapE_def mapErrE_def returnE_def liftE_def Let_def)
          blast
    next
      case False
      then have "sample_entry name \<in> set as" using Cons.prems(1) a by (auto simp: sample_entry_def)
      then have "\<exists>n tr. getSource sample_env name as w = Some (Inr ?src, w\<lparr>steps := n, trace := tr\<rparr>)"
        using Cons.IH Cons.prems(2) by simp
      moreover have "ar_Name a \<noteq> name" using False by (simp add: a sample_entry_def)
      ultimately show ?thesis by simp
    qed
  qed
  moreover have "VerifyChecksum sample_env ?src ''ab''" by (simp add: VerifyChecksum_iff sample_env_def)
  ultimately show ?thesis unfolding delivers_def by (metis fst_conv snd_conv source.select_convs(1))
qed

lemma sample_delivered: "release_delivered sample_env sample_node_release"
  unfolding release_delivered_def GetSigningHelper_def GetKubelet_def GetKubectl_def GetCniPlugins_def GetImageCredentialProvider_def
    GetIAMAuthenticator_def getEksSource_def list.pred_inject
  by (intro conjI sample_getSource TrueI) (auto simp: sample_node_release_def)

lemma sample_facts:
  "no_faults sample_env" "yaml_roundtrip sample_env" "\<exists>d. yaml_marshal sample_env tr = Inr d"
  "\<exists>s. gunzip sample_env (b, None) = Inr s \<and> list_all (plain_item D dst) (untar sample_env s)"
  "tidy D (fs sample_world)" "fs sample_world trackerFile = None"
  by (simp_all add: no_faults_def sample_env_def tidy_def sample_world_def yaml_roundtrip_def encode_tracker_def decode_tracker_def flag_char_def Let_def)

section \<open>Properties\<close>

text \<open>The names a finished installation has recorded.\<close>

definition recorded_names :: "Installer \<Rightarrow> string list" where
  "recorded_names i =
     [artifact_Kubelet, artifact_Kubectl, artifact_CniPlugins, artifact_ImageCredentialProvider, artifact_IamAuthenticator] @
     (case in_CredentialProvider i of Some IamRolesAnywhereCredentialProvider \<Rightarrow> [artifact_IamRolesAnywhere]
      | Some SsmCredentialProvider \<Rightarrow> [artifact_Ssm] | None \<Rightarrow> [])"

text \<open>C1: When \<open>nodeadm install\<close> reports success, every binary of the EKS release is in place: the bytes published for this
  machine's operating system and architecture, matching the published digest, with mode 0755 (with IAM Roles Anywhere the signing
  helper too); the tracker names every component installed, the CNI plugins and the credential provider included, and the tracker
  file holds what the process recorded. It holds at the end of the whole run, so no later step damages what an earlier one installed.\<close>

theorem install_complete:
  assumes "yaml_roundtrip env" and "Installer_Run env fe c i w = Some (Inr (), w')"
  shows "genuine env (ep_Artifacts (Eks (in_AwsSource i))) ''kubelet'' kubelet_BinPath w' \<and>
    genuine env (ep_Artifacts (Eks (in_AwsSource i))) ''kubectl'' kubectl_BinPath w' \<and>
    genuine env (ep_Artifacts (Eks (in_AwsSource i))) ''ecr-credential-provider'' imagecredentialprovider_BinPath w' \<and>
    genuine env (ep_Artifacts (Eks (in_AwsSource i))) ''aws-iam-authenticator'' iamauthenticator_BinPath w' \<and>
    (if in_CredentialProvider i = Some IamRolesAnywhereCredentialProvider
     then genuine env (ir_Artifacts (Iam (in_AwsSource i))) ''aws_signing_helper'' iamrolesanywhere_BinPath w' else True) \<and>
    list_all (is_tracked (Artifacts (tracker_obj w'))) (recorded_names i) \<and> disk_tracker env (fs w') = Some (tracker_obj w')"
proof -
  have post: "node_installed env i w'" "ssm_recorded i w'" "disk_tracker env (fs w') = Some (tracker_obj w')"
    using valid_okD [OF Installer_Run_ok [OF assms(1)] TrueI assms(2)] by simp_all
  then show ?thesis
    by (auto simp: node_installed_def eks_components_def credential_components_def signing_helper_def in_place_def ssm_recorded_def
        recorded_names_def GetKubelet_def GetKubectl_def GetImageCredentialProvider_def GetIAMAuthenticator_def GetSigningHelper_def
        getEksSource_def intro!: installed_genuine split: option.splits CredentialProvider.splits)
qed

theorem install_complete_witness:
  "\<exists>w'. Installer_Run sample_env sample_flow None sample_installer sample_world = Some (Inr (), w') \<and>
     genuine sample_env (ep_Artifacts (Eks sample_node_release)) ''kubelet'' kubelet_BinPath w' \<and>
     genuine sample_env (ir_Artifacts (Iam sample_node_release)) ''aws_signing_helper'' iamrolesanywhere_BinPath w'"
proof -
  let ?i = "sample_installer"
  have i: "in_AwsSource ?i = sample_node_release" "in_PrivateMode ?i" "in_CredentialProvider ?i = Some IamRolesAnywhereCredentialProvider"
    by (simp_all add: sample_installer_def)
  obtain w' where run: "Installer_Run sample_env sample_flow None ?i sample_world = Some (Inr (), w')"
    using Installer_Run_succeeds [OF sample_facts(1) _ sample_facts(4,3) i(2,3) sample_facts(5,6)] sample_delivered i(1) by auto
  with install_complete [OF sample_facts(2) run] i show ?thesis by auto
qed



end
