(* ===== verification/Init_Flow.thy ===== *)
theory Init_Flow
  imports Hybrid_Provider Install_Liveness
begin

text \<open>
  The flows \<open>nodeadm init\<close> and \<open>nodeadm upgrade\<close> (\<open>internal/flows/init.go\<close>, \<open>internal/flows/upgrade.go\<close>) over the interface of a node
  provider (\<open>internal/nodeprovider/interface.go\<close>). A provider is a record of operations on its state \<open>'s\<close>, which the flows pass on; the
  flows return the provider as they leave it. The contract of a provider's daemons is the locale \<open>node_provider\<close>, interpreted by
  the hybrid provider here and by the EC2 provider in \<open>Ec2_Provider\<close>.
\<close>

section \<open>The interface\<close>

record 's NodeProvider =
  np_GetNodeConfig :: "'s \<Rightarrow> NodeConfig"
  np_PopulateNodeConfigDefaults :: "'s \<Rightarrow> 's"
  np_ValidateConfig :: "'s \<Rightarrow> unit wio"
  np_ConfigureAws :: "ctx \<Rightarrow> 's \<Rightarrow> 's wio"
  np_Enrich :: "RegionData option \<Rightarrow> 's \<Rightarrow> 's wio"
  np_Validate :: "'s \<Rightarrow> unit wio"
  np_GetAspects :: "'s \<Rightarrow> unit wio list wio"
  np_PreProcessDaemon :: "ctx \<Rightarrow> 's \<Rightarrow> unit wio"
  np_GetDaemons :: "'s \<Rightarrow> daemon list wio"
  np_Cleanup :: "'s \<Rightarrow> unit wio"

section \<open>Initialising\<close>

definition preprocessPhase :: string where "preprocessPhase = ''preprocess''"
definition configPhase :: string where "configPhase = ''config''"
definition runPhase :: string where "runPhase = ''run''"

definition initDaemons :: "'s NodeProvider \<Rightarrow> ctx \<Rightarrow> string list \<Rightarrow> 's \<Rightarrow> unit wio" where
  "initDaemons np c skipPhases s =
     thenE (whenE (preprocessPhase \<notin> set skipPhases) (np_PreProcessDaemon np c s))
      (bindE (np_GetDaemons np s) (\<lambda>daemons.
        thenE (whenE (configPhase \<notin> set skipPhases) (forE daemons (\<lambda>d. d_Configure d c)))
         (whenE (runPhase \<notin> set skipPhases) (forE daemons (\<lambda>d. thenE (d_EnsureRunning d c) (d_PostLaunch d))))))"

record Initer =
  it_SkipPhases :: "string list"
  it_ManifestOverride :: string
  it_PrivateMode :: bool

text \<open>How the release manifest is read: the YAML decoder and the address built into the program.\<close>

record manifest_env =
  me_unmarshal :: "bytes \<Rightarrow> goerr + Manifest"
  me_url :: string

text \<open>Without a region configuration the run goes on.\<close>

definition region_config :: "environment \<Rightarrow> manifest_env \<Rightarrow> Initer \<Rightarrow> string \<Rightarrow> RegionData option wio" where
  "region_config env me i region =
     bindE (tryE (if it_ManifestOverride i \<noteq> [] then GetRegionConfigFromManifest env (me_unmarshal me) region (it_ManifestOverride i)
                  else GetRegionConfig env (me_unmarshal me) (me_url me) region))
       (\<lambda>r. returnE (case r of Inr rc \<Rightarrow> Some rc | Inl _ \<Rightarrow> None))"

definition Initer_Run :: "environment \<Rightarrow> manifest_env \<Rightarrow> 's NodeProvider \<Rightarrow> ctx \<Rightarrow> Initer \<Rightarrow> 's \<Rightarrow> 's wio" where
  "Initer_Run env me np c i s0 =
     (let s1 = np_PopulateNodeConfigDefaults np s0 in
      thenE (np_ValidateConfig np s1)
       (bindE (np_ConfigureAws np c s1) (\<lambda>s2.
        bindE (region_config env me i (cl_Region (Cluster (Spec (np_GetNodeConfig np s2))))) (\<lambda>regionConfig.
        bindE (np_Enrich np regionConfig s2) (\<lambda>s3.
        thenE (np_Validate np s3)
         (bindE (np_GetAspects np s3) (\<lambda>aspects.
           thenE (forE aspects (\<lambda>setup. setup))
            (thenE (initDaemons np c (it_SkipPhases i) s3)
             (thenE (np_Cleanup np s3) (returnE s3))))))))))"

section \<open>Upgrading\<close>

record Upgrader =
  up_AwsSource :: Source
  up_PackageManager :: DistroPackageManager
  up_CredentialProvider :: "CredentialProvider option"
  up_Artifacts :: InstalledArtifacts
  up_SkipPhases :: "string list"
  up_PrivateMode :: bool

definition upgradeDistroPackages :: "environment \<Rightarrow> flow_env \<Rightarrow> ctx \<Rightarrow> Upgrader \<Rightarrow> unit wio" where
  "upgradeDistroPackages env fe c u =
     thenE (RefreshMetadataCache env c (up_PackageManager u))
      (thenE (whenE (Containerd (up_Artifacts u) \<noteq> ContainerdSourceNone)
                (containerd_Upgrade env (fe_semver fe) c (up_PackageManager u) (ep_Version (Eks (up_AwsSource u)))
                   (''containerd-major-version-upgrade'' \<in> set (up_SkipPhases u))))
       (whenE (Iptables (up_Artifacts u)) (iptables_Upgrade env c (up_PackageManager u))))"

definition upgradeCredentialProvider :: "environment \<Rightarrow> flow_env \<Rightarrow> ctx \<Rightarrow> Upgrader \<Rightarrow> NodeConfig \<Rightarrow> unit wio" where
  "upgradeCredentialProvider env fe c u nc =
     (case up_CredentialProvider u of
        Some IamRolesAnywhereCredentialProvider \<Rightarrow> iamrolesanywhere_Upgrade env (GetSigningHelper env (up_AwsSource u))
      | Some SsmCredentialProvider \<Rightarrow>
          let region = cl_Region (Cluster (Spec nc)); ssmInstaller = NewSSMInstaller fe region (DnsSuffix (RegionInfo (up_AwsSource u))) in
          ssm_Upgrade env (fe_ssm fe) c (ssm_url env fe ssmInstaller) (si_publicKey ssmInstaller) region []
      | None \<Rightarrow> throwE (ErrMsg ''installed credential provider is not supported for upgrade''))"

definition upgradeEksArtifacts :: "environment \<Rightarrow> Upgrader \<Rightarrow> unit wio" where
  "upgradeEksArtifacts env u =
     thenE (wrapE ''failed to upgrade kubelet'' (kubelet_Upgrade env (GetKubelet env (up_AwsSource u))))
      (thenE (kubectl_Upgrade env (GetKubectl env (up_AwsSource u)))
       (thenE (imagecredentialprovider_Upgrade env (GetImageCredentialProvider env (up_AwsSource u)))
        (thenE (iamauthenticator_Upgrade env (GetIAMAuthenticator env (up_AwsSource u)))
         (cni_Upgrade env (GetCniPlugins env (up_AwsSource u))))))"

definition Upgrader_Run :: "environment \<Rightarrow> flow_env \<Rightarrow> 's NodeProvider \<Rightarrow> ctx \<Rightarrow> Upgrader \<Rightarrow> 's \<Rightarrow> 's wio" where
  "Upgrader_Run env fe np c u s0 =
     thenE (whenE (\<not> up_PrivateMode u) (upgradeDistroPackages env fe c u))
      (thenE (upgradeCredentialProvider env fe c u (np_GetNodeConfig np s0))
       (thenE (upgradeEksArtifacts env u)
        (bindE (np_ConfigureAws np c s0) (\<lambda>s1.
         bindE (np_Enrich np (Some (RegionInfo (up_AwsSource u))) s1) (\<lambda>s2.
          thenE (initDaemons np c (up_SkipPhases u) s2) (thenE (np_Cleanup np s2) (returnE s2)))))))"

section \<open>The hybrid provider\<close>

definition hybrid_NodeProvider :: "environment \<Rightarrow> hybrid_env \<Rightarrow> HybridNodeProvider NodeProvider" where
  "hybrid_NodeProvider env he =
     \<lparr>np_GetNodeConfig = hp_nodeConfig,
      np_PopulateNodeConfigDefaults = \<lambda>s. s\<lparr>hp_nodeConfig := PopulateNodeConfigDefaults (hp_nodeConfig s)\<rparr>,
      np_ValidateConfig = \<lambda>s. ValidateConfig env (he_x509 he) (hp_nodeConfig s),
      np_ConfigureAws = hybrid_ConfigureAws env he,
      np_Enrich = hybrid_Enrich env he,
      np_Validate = hybrid_Validate env he,
      np_GetAspects = hybrid_GetAspects env,
      np_PreProcessDaemon = \<lambda>_ _. returnE (),
      np_GetDaemons = hybrid_GetDaemons env he,
      np_Cleanup = \<lambda>_. returnE ()\<rparr>"

lemma hybrid_operations:
  "np_ConfigureAws (hybrid_NodeProvider env he) = hybrid_ConfigureAws env he" "np_Enrich (hybrid_NodeProvider env he) = hybrid_Enrich env he"
  "np_Validate (hybrid_NodeProvider env he) = hybrid_Validate env he"
  by (simp_all add: hybrid_NodeProvider_def)

section \<open>What the daemons of a provider promise\<close>

definition starts :: "(string \<Rightarrow> world \<Rightarrow> bool) \<Rightarrow> daemon \<Rightarrow> bool" where
  "starts running d \<longleftrightarrow> (\<forall>c. valid_ok (\<lambda>_. True) (d_EnsureRunning d c) (\<lambda>_. running (d_Name d)))"

definition launches_quietly :: "(string \<Rightarrow> world \<Rightarrow> bool) \<Rightarrow> daemon \<Rightarrow> bool" where
  "launches_quietly running d \<longleftrightarrow> valid_ok (running (d_Name d)) (d_PostLaunch d) (\<lambda>_. running (d_Name d))"

locale node_provider =
  fixes np :: "'s NodeProvider" and running :: "string \<Rightarrow> world \<Rightarrow> bool" and final :: string
  assumes daemons_start: "valid_ok (\<lambda>_. True) (np_GetDaemons np s)
      (\<lambda>ds _. ds \<noteq> [] \<and> list_all (starts running) ds \<and> launches_quietly running (last ds) \<and> d_Name (last ds) = final)"
    and cleanup_keeps: "valid_ok (running n) (np_Cleanup np s) (\<lambda>_. running n)"
begin

lemma last_runs:
  assumes "ds \<noteq> []" and "list_all (starts running) ds" and "launches_quietly running (last ds)"
  shows "valid_ok (\<lambda>_. True) (forE ds (\<lambda>d. thenE (d_EnsureRunning d c) (d_PostLaunch d))) (\<lambda>_. running (d_Name (last ds)))"
proof -
  have ds: "ds = butlast ds @ [last ds]" using assms(1) by simp
  have "starts running (last ds)" using assms(1,2) by (simp add: list_all_iff)
  then have "valid_ok (\<lambda>_. True) (thenE (d_EnsureRunning (last ds) c) (d_PostLaunch (last ds))) (\<lambda>_. running (d_Name (last ds)))"
    using assms(3) unfolding starts_def launches_quietly_def by (blast intro: valid_thenE)
  then have "valid_ok (\<lambda>_. True) (forE [last ds] (\<lambda>d. thenE (d_EnsureRunning d c) (d_PostLaunch d))) (\<lambda>_. running (d_Name (last ds)))"
    by (simp add: thenE_unit)
  then show ?thesis by (subst ds) (simp only: forE_append, rule valid_skip)
qed

lemma initDaemons_runs:
  assumes "runPhase \<notin> set skip"
  shows "valid_ok P (initDaemons np c skip s) (\<lambda>_. running final)"
proof -
  have step: "valid_ok (\<lambda>_. ds \<noteq> [] \<and> list_all (starts running) ds \<and> launches_quietly running (last ds) \<and> d_Name (last ds) = final)
      (thenE m (whenE (runPhase \<notin> set skip) (forE ds (\<lambda>d. thenE (d_EnsureRunning d c) (d_PostLaunch d))))) (\<lambda>_. running final)" for m ds
  proof (cases "ds \<noteq> [] \<and> list_all (starts running) ds \<and> launches_quietly running (last ds) \<and> d_Name (last ds) = final")
    case True
    then show ?thesis using valid_skip [OF last_runs] assms by (fastforce simp: whenE_def intro: valid_pre)
  next
    case False
    then show ?thesis by (auto simp: valid_def)
  qed
  have "valid_ok (\<lambda>_. True) (initDaemons np c skip s) (\<lambda>_. running final)"
    unfolding initDaemons_def by (rule valid_skip, rule valid_bindE [OF daemons_start step])
  then show ?thesis by (rule valid_pre) simp
qed

lemma cleanup_after: "valid_ok (running n) (thenE (np_Cleanup np s) (returnE s)) (\<lambda>_. running n)"
  by (rule valid_thenE [OF cleanup_keeps]) (simp add: valid_def)

lemma init_runs:
  assumes "runPhase \<notin> set (it_SkipPhases i)"
  shows "valid_ok (\<lambda>_. True) (Initer_Run env me np c i s0) (\<lambda>_. running final)"
  unfolding Initer_Run_def Let_def
  by (rule valid_skip, rule valid_skipB, rule valid_skipB, rule valid_skipB, rule valid_skip, rule valid_skipB, rule valid_skip)
    (rule valid_thenE [OF initDaemons_runs [OF assms] cleanup_after])

lemma upgrade_runs:
  assumes "runPhase \<notin> set (up_SkipPhases u)"
  shows "valid_ok (\<lambda>_. True) (Upgrader_Run env fe np c u s0) (\<lambda>_. running final)"
  unfolding Upgrader_Run_def
  by (rule valid_skip, rule valid_skip, rule valid_skip, rule valid_skipB, rule valid_skipB)
    (rule valid_thenE [OF initDaemons_runs [OF assms] cleanup_after])

end

lemma node_daemons_start:
  "starts (\<lambda>n. reports_status env n DaemonStatusRunning) (NewContainerdDaemon env ie nc)"
  "starts (\<lambda>n. reports_status env n DaemonStatusRunning) (kubelet_daemon env ke request k)"
  "launches_quietly (\<lambda>n. reports_status env n DaemonStatusRunning) (kubelet_daemon env ke request k)"
  "d_Name (kubelet_daemon env ke request k) = KubeletDaemonName"
  using containerd_EnsureRunning_ok kubelet_EnsureRunning_ok
  by (simp_all add: starts_def launches_quietly_def NewContainerdDaemon_def kubelet_daemon_def valid_def)

interpretation hybrid: node_provider "hybrid_NodeProvider env he" "\<lambda>n. reports_status env n DaemonStatusRunning" KubeletDaemonName for env he
proof
  fix s n
  show "valid_ok (\<lambda>_. True) (np_GetDaemons (hybrid_NodeProvider env he) s)
      (\<lambda>ds _. ds \<noteq> [] \<and> list_all (starts (\<lambda>n. reports_status env n DaemonStatusRunning)) ds \<and>
         launches_quietly (\<lambda>n. reports_status env n DaemonStatusRunning) (last ds) \<and> d_Name (last ds) = KubeletDaemonName)"
    using node_daemons_start by (simp add: hybrid_NodeProvider_def hybrid_GetDaemons_def Let_def valid_def)
  show "valid_ok (reports_status env n DaemonStatusRunning) (np_Cleanup (hybrid_NodeProvider env he) s) (\<lambda>_. reports_status env n DaemonStatusRunning)"
    by (simp add: hybrid_NodeProvider_def valid_def)
qed

section \<open>What a finished run has checked\<close>

text \<open>The steps of a run that reports success.\<close>

lemma Initer_Run_okE:
  assumes "Initer_Run env me np c i s0 w = Some (Inr s, w')"
  obtains rc s2 w1 w2 w3 w4 w5 where "np_ValidateConfig np (np_PopulateNodeConfigDefaults np s0) w = Some (Inr (), w1)"
    and "np_ConfigureAws np c (np_PopulateNodeConfigDefaults np s0) w1 = Some (Inr s2, w2)"
    and "np_Enrich np rc s2 w3 = Some (Inr s, w4)" and "np_Validate np s w4 = Some (Inr (), w5)"
  using assms unfolding Initer_Run_def Let_def by (elim thenE_okE bindE_okE) (simp add: returnE_def)

text \<open>The provider's AWS configuration is set once it is needed.\<close>

lemma ConfigureAws_sets: "valid_ok (\<lambda>_. True) (hybrid_ConfigureAws env he c hnp) (\<lambda>h _. hp_awsConfig h \<noteq> None)"
  unfolding hybrid_ConfigureAws_def Let_def
  by (cases "IsSSM (hp_nodeConfig hnp)"; simp only: if_True if_False; intro valid_skipB valid_skip valid_with_timeout; simp add: valid_def)

lemma Enrich_keeps_aws:
  assumes "hybrid_Enrich env he rc hnp w = Some (Inr h, w')"
  shows "hp_awsConfig h = hp_awsConfig hnp"
  using assms unfolding hybrid_Enrich_def by (elim bindE_okE) (auto simp: returnE_def split: prod.splits)

lemma Initer_Run_aws:
  assumes "Initer_Run env me (hybrid_NodeProvider env he) c i hnp w = Some (Inr h, w')"
  shows "hp_awsConfig h \<noteq> None"
  using assms
proof (rule Initer_Run_okE)
  fix rc s2 w1 w2 w3 w4
  assume "np_ConfigureAws (hybrid_NodeProvider env he) c (np_PopulateNodeConfigDefaults (hybrid_NodeProvider env he) hnp) w1 = Some (Inr s2, w2)"
    and "np_Enrich (hybrid_NodeProvider env he) rc s2 w3 = Some (Inr h, w4)"
  then show ?thesis using valid_okD [OF ConfigureAws_sets TrueI] Enrich_keeps_aws unfolding hybrid_operations by metis
qed

lemma Initer_Run_daemons:
  assumes "Initer_Run env me np c i s0 w = Some (Inr s, w')"
  obtains w1 w2 where "initDaemons np c (it_SkipPhases i) s w1 = Some (Inr (), w2)"
  using assms unfolding Initer_Run_def Let_def by (elim thenE_okE bindE_okE) (simp add: returnE_def unit_eq)

lemma initDaemons_configures:
  assumes "initDaemons np c skip s w = Some (Inr (), w')" and "configPhase \<notin> set skip"
  obtains ds w1 w2 where "np_GetDaemons np s w1 = Some (Inr ds, w2)" and "\<And>d. d \<in> set ds \<Longrightarrow> \<exists>a b. d_Configure d c a = Some (Inr (), b)"
proof -
  obtain ds w1 w2 w3 where "np_GetDaemons np s w1 = Some (Inr ds, w2)" "forE ds (\<lambda>d. d_Configure d c) w2 = Some (Inr (), w3)"
    using assms unfolding initDaemons_def by (elim thenE_okE bindE_okE) (simp add: whenE_def unit_eq)
  note d = this
  show thesis by (rule that [OF d(1)]) (rule forE_each [OF d(2)])
qed

lemma init_asks_api_server:
  assumes run: "Initer_Run env me (hybrid_NodeProvider env he) c i hnp w = Some (Inr h, w')"
    and "configPhase \<notin> set (it_SkipPhases i)" and ps: "hp_skipPhases h = Some ps" "''k8s-authentication-validation'' \<notin> set ps"
  shows "\<exists>w0 w1. MakeAuthenticatedRequest (clients_of he h) w0 = Some (Inr (), w1)"
proof -
  obtain w1 w2 where init: "initDaemons (hybrid_NodeProvider env he) c (it_SkipPhases i) h w1 = Some (Inr (), w2)"
    using run by (rule Initer_Run_daemons)
  obtain ds w3 w4 where ds: "hybrid_GetDaemons env he h w3 = Some (Inr ds, w4)"
    and conf: "\<And>d. d \<in> set ds \<Longrightarrow> \<exists>a b. d_Configure d c a = Some (Inr (), b)"
  proof -
    have np: "np_GetDaemons (hybrid_NodeProvider env he) = hybrid_GetDaemons env he" by (simp add: hybrid_NodeProvider_def)
    show thesis using init assms(2) by (rule initDaemons_configures) (rule that, unfold np)
  qed
  define cp where "cp = (if IsIAMRolesAnywhere (hp_nodeConfig h)
     then \<lparr>cp_Profile = ProfileName, CredentialsPath = EksHybridAwsCredentialsPath\<rparr> else \<lparr>cp_Profile = [], CredentialsPath = []\<rparr>)"
  have "kubelet_daemon env (he_kubelet he) (MakeAuthenticatedRequest (clients_of he h)) (NewKubeletDaemon (hp_nodeConfig h) cp (hp_skipPhases h)) \<in> set ds"
    using ds unfolding hybrid_GetDaemons_def Let_def cp_def [symmetric] by (auto simp: returnE_def throwE_def split: if_splits)
  from conf [OF this] obtain a b where
    "kubelet_Configure env (he_kubelet he) (MakeAuthenticatedRequest (clients_of he h)) (NewKubeletDaemon (hp_nodeConfig h) cp (hp_skipPhases h)) a = Some (Inr (), b)"
    by (auto simp: kubelet_daemon_def)
  from kubelet_Configure_asks [OF this _ ps(2)] ps(1) show ?thesis by (intro passed_request) (simp add: NewKubeletDaemon_def)
qed
section \<open>Upgraded artifacts\<close>

text \<open>The file at the path of a source is current.\<close>

abbreviation all_current :: "environment \<Rightarrow> (source wio \<times> path) list \<Rightarrow> world \<Rightarrow> bool" where
  "all_current env ks w \<equiv> list_all (\<lambda>k. up_to_date env (fst k) (snd k) w) ks"

lemma keeps_node_up_to_date:
  assumes "keeps_node p m"
  shows "valid_ok (up_to_date env get p) m (\<lambda>_. up_to_date env get p)"
proof (rule validI)
  fix w x w' assume i: "up_to_date env get p w" and run: "m w = Some (Inr x, w')"
  then obtain n where n: "fs w p = Some n" by (auto simp: up_to_date_def)
  from valid_okD [OF keeps_nodeD [OF assms] n run] i n show "up_to_date env get p w'" by (auto simp: up_to_date_def)
qed simp

lemma keeps_all_current: "(\<And>k. k \<in> set ks \<Longrightarrow> keeps_node (snd k) m) \<Longrightarrow> valid_ok (all_current env ks) m (\<lambda>_. all_current env ks)"
proof (induction ks)
  case Nil
  show ?case by (simp add: valid_def split: sum.splits)
next
  case (Cons k ks)
  have "valid_ok (up_to_date env (fst k) (snd k)) m (\<lambda>_. up_to_date env (fst k) (snd k))"
    using Cons.prems by (intro keeps_node_up_to_date) simp
  from valid_conj [OF this Cons.IH] Cons.prems show ?case by (fastforce elim: valid_conseq)
qed

lemma keeps_node_Upgrade: "\<not> under p q \<Longrightarrow> keeps_node q (Upgrade env nm p src m)"
proof -
  assume "\<not> under p q"
  moreover have "keeps_node q (os_Open env r)" for r
    unfolding os_Open_def by (rule keeps_nodeI) (auto simp: valid_def sys_def Let_def split: option.splits fnode.splits sum.splits prod.splits)
  ultimately show ?thesis unfolding Upgrade_def checksumMatch_def
    by (intro keeps_node_bindE keeps_node_wrapE) (auto intro!: keeps_node_bindE keeps_node_wrapE keeps_node_InstallFile intro: keeps_node_intros)
qed

lemma upgrade_adds:
  assumes "p \<notin> set (dirs_to (Dir p))" and "reads_only get" and "list_all (\<lambda>k. \<not> under p (snd k)) ks"
  shows "valid_ok (all_current env ks) (bindE (wrapE msg get) (\<lambda>src. Upgrade env nm p src perms)) (\<lambda>_. all_current env ((get, p) # ks))"
proof -
  have "valid_ok (all_current env ks) (bindE (wrapE msg get) (\<lambda>src. Upgrade env nm p src perms)) (\<lambda>_. all_current env ks)"
    by (rule keeps_all_current)
      (use assms(3) in \<open>auto simp: list_all_iff intro!: keeps_node_bindE keeps_node_wrapE reads_only_keeps [OF assms(2)] keeps_node_Upgrade\<close>)
  from valid_conj [OF component_upgrade_ok [OF assms(1)] this] show ?thesis by (rule valid_conseq) auto
qed

definition upgraded_components :: "environment \<Rightarrow> Source \<Rightarrow> (source wio \<times> path) list" where
  "upgraded_components env s =
     [(GetIAMAuthenticator env s, iamauthenticator_BinPath), (GetImageCredentialProvider env s, imagecredentialprovider_BinPath),
      (GetKubectl env s, kubectl_BinPath), (GetKubelet env s, kubelet_BinPath)]"

definition upgraded_signing_helper :: "environment \<Rightarrow> Upgrader \<Rightarrow> (source wio \<times> path) list" where
  "upgraded_signing_helper env u =
     (if up_CredentialProvider u = Some IamRolesAnywhereCredentialProvider then [(GetSigningHelper env (up_AwsSource u), iamrolesanywhere_BinPath)] else [])"

lemma cni_Upgrade_keeps:
  assumes "reads_only get" and "\<not> under TgzPath q" and "\<not> under cni_BinPath q" and "q \<notin> {''/opt'', ''/opt/cni'', ''/''}"
  shows "keeps_node q (cni_Upgrade env get)"
proof -
  have "abs_path [''opt'', ''cni'', ''bin''] = cni_BinPath" by code_simp
  then have u: "\<not> under (abs_path [''opt'', ''cni'', ''bin'']) q" using assms(3) by simp
  have "q \<noteq> TgzPath" "q \<noteq> ''/opt/cni/bin''" using assms(2,3) under_refl by (auto simp: cni_BinPath_def)
  moreover from this have d: "q \<notin> set (dirs_to (abs_path [''opt'', ''cni'', ''bin'']))" unfolding cni_paths(4) using assms(4) by simp
  ultimately have "keeps_node q (InstallTarGz env (abs_path [''opt'', ''cni'', ''bin'']) TgzPath)"
    by (intro keeps_nodeI InstallTarGz_frame cni_paths(3) u d) (use assms(4) in simp_all)
  then show ?thesis using assms
    unfolding cni_Upgrade_def cni_installFromSource_def cni_downloadFileWithRetries_def cni_downloadFileTo_def cni_paths(1,2)
    by (intro keeps_node_thenE keeps_node_wrapE keeps_node_for_range_retry keeps_node_download_once reads_only_keeps)
qed

lemma upgrade_current:
  "valid_ok (\<lambda>_. True) (thenE (upgradeCredentialProvider env fe c u nc) (upgradeEksArtifacts env u))
     (\<lambda>_. all_current env (upgraded_components env (up_AwsSource u) @ upgraded_signing_helper env u))"
proof -
  let ?s = "up_AwsSource u" and ?sh = "upgraded_signing_helper env u"
  have cred: "valid_ok (\<lambda>_. True) (upgradeCredentialProvider env fe c u nc) (\<lambda>_. all_current env ?sh)"
  proof (cases "up_CredentialProvider u = Some IamRolesAnywhereCredentialProvider")
    case True
    show ?thesis unfolding upgradeCredentialProvider_def upgraded_signing_helper_def True option.case CredentialProvider.case if_P [OF refl]
      by (rule valid_post [OF iamrolesanywhere.upgrade_ok]) simp_all
  next
    case False
    then show ?thesis by (simp add: upgraded_signing_helper_def valid_def split: sum.splits)
  qed
  have kl: "valid_ok (all_current env ?sh) (wrapE m (kubelet_Upgrade env (GetKubelet env ?s))) (\<lambda>_. all_current env ((GetKubelet env ?s, kubelet_BinPath) # ?sh))" for m
    unfolding kubelet_Upgrade_def
    by (rule valid_wrapE, rule upgrade_adds, rule component_paths, rule reads_only_sources)
      (use separate_paths in \<open>auto simp: upgraded_signing_helper_def\<close>)
  have kc: "valid_ok (all_current env ((GetKubelet env ?s, kubelet_BinPath) # ?sh)) (kubectl_Upgrade env (GetKubectl env ?s))
      (\<lambda>_. all_current env ((GetKubectl env ?s, kubectl_BinPath) # (GetKubelet env ?s, kubelet_BinPath) # ?sh))"
    unfolding kubectl_Upgrade_def by (rule upgrade_adds, rule component_paths, rule reads_only_sources)
      (use separate_paths in \<open>auto simp: upgraded_signing_helper_def\<close>)
  have ip: "valid_ok (all_current env ((GetKubectl env ?s, kubectl_BinPath) # (GetKubelet env ?s, kubelet_BinPath) # ?sh))
      (imagecredentialprovider_Upgrade env (GetImageCredentialProvider env ?s))
      (\<lambda>_. all_current env ((GetImageCredentialProvider env ?s, imagecredentialprovider_BinPath) # (GetKubectl env ?s, kubectl_BinPath) #
         (GetKubelet env ?s, kubelet_BinPath) # ?sh))"
    unfolding imagecredentialprovider_Upgrade_def by (rule upgrade_adds, rule component_paths, rule reads_only_sources)
      (use separate_paths in \<open>auto simp: upgraded_signing_helper_def\<close>)
  have ia: "valid_ok (all_current env ((GetImageCredentialProvider env ?s, imagecredentialprovider_BinPath) # (GetKubectl env ?s, kubectl_BinPath) #
         (GetKubelet env ?s, kubelet_BinPath) # ?sh))
      (iamauthenticator_Upgrade env (GetIAMAuthenticator env ?s)) (\<lambda>_. all_current env (upgraded_components env ?s @ ?sh))"
    unfolding iamauthenticator_Upgrade_def upgraded_components_def append_Cons append_Nil
    by (rule upgrade_adds, rule component_paths, rule reads_only_sources)
      (use separate_paths in \<open>auto simp: upgraded_signing_helper_def\<close>)
  have cni: "valid_ok (all_current env (upgraded_components env ?s @ ?sh)) (cni_Upgrade env (GetCniPlugins env ?s))
      (\<lambda>_. all_current env (upgraded_components env ?s @ ?sh))"
    by (rule keeps_all_current, rule cni_Upgrade_keeps, rule reads_only_sources)
      (use separate_paths(2) in \<open>auto simp: upgraded_components_def upgraded_signing_helper_def split: if_splits\<close>)
  show ?thesis unfolding upgradeEksArtifacts_def
    by (rule valid_thenE [OF cred valid_thenE [OF kl valid_thenE [OF kc valid_thenE [OF ip valid_thenE [OF ia cni]]]]])
qed

text \<open>A file that matches what the manifest publishes.\<close>

definition matches_published :: "environment \<Rightarrow> Artifact_entry list \<Rightarrow> string \<Rightarrow> path \<Rightarrow> world \<Rightarrow> bool" where
  "matches_published env as name p w \<longleftrightarrow>
     (\<exists>a src c m. a \<in> set as \<and> ar_Name a = name \<and> ar_Arch a = goarch env \<and> ar_OS a = goos env \<and> published env a src \<and>
        fs w p = Some (RegFile c m) \<and> src_expect src = Some (sha256 env c))"

lemma up_to_date_published:
  assumes "up_to_date env (getSource env name as) p w"
  shows "matches_published env as name p w"
proof -
  obtain src c m a b where get: "getSource env name as a = Some (Inr src, b)" and f: "fs w p = Some (RegFile c m)" and sum: "VerifyChecksum env src c"
    using assms by (auto simp: up_to_date_def)
  from valid_okD [OF getSource_published TrueI get] obtain x where
    x: "x \<in> set as" "ar_Name x = name" "ar_Arch x = goarch env" "ar_OS x = goos env" "published env x src" by auto
  moreover have "src_expect src = Some (sha256 env c)" using sum x(5) by (auto simp: VerifyChecksum_iff published_def)
  ultimately show ?thesis unfolding matches_published_def using f by blast
qed

section \<open>Properties\<close>


text \<open>C8: When the upgrade of the artifacts succeeds, every binary of the node matches the digest published for the new release, whether it
  was replaced or already current, and no later step of it damaged an earlier one.\<close>

theorem upgrade_matches_release:
  "valid_ok (\<lambda>_. True) (thenE (upgradeCredentialProvider env fe c u nc) (upgradeEksArtifacts env u))
     (\<lambda>_ w. list_all (\<lambda>(name, p). matches_published env (ep_Artifacts (Eks (up_AwsSource u))) name p w)
          [(''kubelet'', kubelet_BinPath), (''kubectl'', kubectl_BinPath), (''ecr-credential-provider'', imagecredentialprovider_BinPath),
           (''aws-iam-authenticator'', iamauthenticator_BinPath)] \<and>
        (if up_CredentialProvider u = Some IamRolesAnywhereCredentialProvider
         then matches_published env (ir_Artifacts (Iam (up_AwsSource u))) ''aws_signing_helper'' iamrolesanywhere_BinPath w else True))"
  by (rule valid_post [OF upgrade_current])
    (auto simp: upgraded_components_def upgraded_signing_helper_def GetKubelet_def GetKubectl_def GetImageCredentialProvider_def
      GetIAMAuthenticator_def GetSigningHelper_def getEksSource_def intro!: up_to_date_published split: if_splits)

end
