(* ===== verification/Ec2_Provider.thy ===== *)
theory Ec2_Provider
  imports Init_Flow
begin

text \<open>
  The EC2 node provider (\<open>internal/node/ec2\<close>), the instance details it reads (\<open>internal/api/status.go\<close>) and the loop that waits
  for an instance to meet a condition (\<open>internal/aws/ec2/instance_waiter.go\<close>). It is the second provider of the interface in
  \<open>Init_Flow\<close>.

  The instance metadata service, the EC2 API, the time a request takes and the delays of \<open>smithywaiter.ComputeDelay\<close> are
  parameters. Durations are nanoseconds; the messages leave them out.
\<close>

section \<open>Parameters\<close>

record ec2_instance =
  ei_PrivateDnsName :: "string option"

type_synonym DescribeInstancesOutput = "ec2_instance list list"

record identity_document =
  id_InstanceID :: string
  id_Region :: string
  id_InstanceType :: string
  id_AvailabilityZone :: string

record ec2_env =
  xe_LoadDefaultConfig :: "nat \<Rightarrow> aws_config \<Rightarrow> goerr option"
  xe_lookupHost :: "string \<Rightarrow> goerr + string list"
  xe_kubelet :: kubelet_env
  xe_image :: image_env
  xe_GetInstanceIdentityDocument :: "nat \<Rightarrow> goerr + identity_document"
  xe_GetMetadata :: "nat \<Rightarrow> string \<Rightarrow> goerr + stream"
  xe_DescribeInstances :: "nat \<Rightarrow> string \<Rightarrow> goerr + DescribeInstancesOutput option"
  xe_took :: "nat \<Rightarrow> nat"
  xe_APIErrorCode :: "goerr \<Rightarrow> string option"
  xe_ComputeDelay :: "nat \<Rightarrow> int \<Rightarrow> int \<Rightarrow> int \<Rightarrow> goerr + int"

section \<open>Waiting for an instance\<close>

record InstanceConditionWaiterOptions =
  MinDelay :: int
  MaxDelay :: int
  LogWaitAttempts :: bool

type_synonym instance_condition = "DescribeInstancesOutput option \<Rightarrow> goerr + bool"

record InstanceConditionWaiter =
  wt_condition :: instance_condition
  wt_options :: InstanceConditionWaiterOptions

definition NewInstanceConditionWaiter ::
  "instance_condition \<Rightarrow> (InstanceConditionWaiterOptions \<Rightarrow> InstanceConditionWaiterOptions) list \<Rightarrow> InstanceConditionWaiter" where
  "NewInstanceConditionWaiter condition optFns =
     \<lparr>wt_condition = condition,
      wt_options = fold (\<lambda>fn o'. fn o') optFns
        \<lparr>MinDelay = int (seconds 15), MaxDelay = int (seconds 120), LogWaitAttempts = False\<rparr>\<rparr>"

definition instanceRetryable :: "ec2_env \<Rightarrow> goerr \<Rightarrow> goerr + bool" where
  "instanceRetryable xe err =
     (case xe_APIErrorCode xe err of
        None \<Rightarrow> Inl (ErrWrap ''expected err to be of type smithy.APIError, got'' err)
      | Some code \<Rightarrow> if code = ''InvalidInstanceID.NotFound'' then Inr True else Inr True)"

definition DescribeInstances :: "ec2_env \<Rightarrow> string \<Rightarrow> DescribeInstancesOutput option wio" where
  "DescribeInstances xe instanceID = (\<lambda>w.
     api_call ''DescribeInstances'' instanceID (\<lambda>n. xe_DescribeInstances xe n instanceID) (w\<lparr>clock := clock w + xe_took xe (steps w)\<rparr>))"

text \<open>One turn of the loop: the result, or the time that remains.\<close>

definition remaining_turn ::
  "ec2_env \<Rightarrow> InstanceConditionWaiterOptions \<Rightarrow> ctx \<Rightarrow> nat \<Rightarrow> int \<Rightarrow> ((goerr + DescribeInstancesOutput option) + int) wio" where
  "remaining_turn xe options c attempt remainingTime =
     (if remainingTime < MinDelay options \<or> remainingTime \<le> 0
      then returnE (Inl (Inl (ErrMsg ''exceeded max wait time for InstanceCondition waiter'')))
      else case xe_ComputeDelay xe attempt (MinDelay options) (MaxDelay options) remainingTime of
        Inl err \<Rightarrow> returnE (Inl (Inl (ErrWrap ''error computing waiter delay'' err)))
      | Inr delay \<Rightarrow>
          bindE (select_done_or_after c (nat delay)) (\<lambda>cancelled.
            returnE (if cancelled then Inl (Inl (ErrWrap ''request cancelled while waiting'' ctx_err)) else Inr (remainingTime - delay))))"

definition waiter_turn ::
  "ec2_env \<Rightarrow> instance_condition \<Rightarrow> InstanceConditionWaiterOptions \<Rightarrow> ctx \<Rightarrow> string \<Rightarrow> nat \<Rightarrow> int
     \<Rightarrow> ((goerr + DescribeInstancesOutput option) + int) wio" where
  "waiter_turn xe condition options c instanceID attempt remainingTime =
     bindE (getE clock) (\<lambda>start.
     bindE (tryE (DescribeInstances xe instanceID)) (\<lambda>r.
     bindE (getE clock) (\<lambda>now.
       let retry = remaining_turn xe options c attempt (remainingTime - int (now - start)) in
       (case r of
          Inl err \<Rightarrow>
            (case instanceRetryable xe err of
               Inl err' \<Rightarrow> returnE (Inl (Inl err'))
             | Inr retryable \<Rightarrow> if \<not> retryable then returnE (Inl (Inr None)) else retry)
        | Inr res \<Rightarrow>
            (case condition res of
               Inl err \<Rightarrow> returnE (Inl (Inl err))
             | Inr conditionMet \<Rightarrow> if conditionMet then returnE (Inl (Inr res)) else retry)))))"

partial_function (option) waiter_loop ::
  "(nat \<Rightarrow> int \<Rightarrow> ((goerr + DescribeInstancesOutput option) + int) wio) \<Rightarrow> nat \<Rightarrow> int \<Rightarrow> world
     \<Rightarrow> ((goerr + DescribeInstancesOutput option) \<times> world) option" where
  "waiter_loop turn attempt remainingTime w =
     Option.bind (turn (Suc attempt) remainingTime w) (\<lambda>p.
       case fst p of
         Inl e \<Rightarrow> Some (Inl e, snd p)
       | Inr (Inl r) \<Rightarrow> Some (r, snd p)
       | Inr (Inr remaining) \<Rightarrow> waiter_loop turn (Suc attempt) remaining (snd p))"

declare waiter_loop.simps [code]

definition WaitForOutput ::
  "ec2_env \<Rightarrow> InstanceConditionWaiter \<Rightarrow> ctx \<Rightarrow> string \<Rightarrow> int \<Rightarrow> (InstanceConditionWaiterOptions \<Rightarrow> InstanceConditionWaiterOptions) list
     \<Rightarrow> DescribeInstancesOutput option wio" where
  "WaitForOutput xe w c instanceID maxWaitDur optFns =
     (if maxWaitDur \<le> 0 then throwE (ErrMsg ''maximum wait time for waiter must be greater than zero'')
      else let options0 = fold (\<lambda>fn o'. fn o') optFns (wt_options w);
               options = (if MaxDelay options0 \<le> 0 then options0\<lparr>MaxDelay := int (seconds 120)\<rparr> else options0) in
      if MinDelay options > MaxDelay options
      then throwE (ErrMsg ''minimum waiter delay must be lesser than or equal to maximum waiter delay'')
      else with_timeout c (nat maxWaitDur) (\<lambda>c'. waiter_loop (waiter_turn xe (wt_condition w) options c' instanceID) 0 maxWaitDur))"

definition waiter_Wait ::
  "ec2_env \<Rightarrow> InstanceConditionWaiter \<Rightarrow> ctx \<Rightarrow> string \<Rightarrow> int \<Rightarrow> (InstanceConditionWaiterOptions \<Rightarrow> InstanceConditionWaiterOptions) list \<Rightarrow> unit wio" where
  "waiter_Wait xe w c instanceID maxWaitDur optFns = thenE (WaitForOutput xe w c instanceID maxWaitDur optFns) (returnE ())"

section \<open>The details of the instance\<close>

definition ToString :: "string option \<Rightarrow> string" where
  "ToString p = (case p of None \<Rightarrow> [] | Some s \<Rightarrow> s)"

definition privateDNSNameAvailable :: instance_condition where
  "privateDNSNameAvailable output =
     (case output of
        Some [[i]] \<Rightarrow> Inr (ToString (ei_PrivateDnsName i) \<noteq> [])
      | _ \<Rightarrow> Inl (ErrMsg ''reservation or instance not found''))"

definition privateDNSNameAvailableTimeout :: int where
  "privateDNSNameAvailableTimeout = int (seconds 180)"

definition getPrivateDNSName :: "ec2_env \<Rightarrow> string \<Rightarrow> string wio" where
  "getPrivateDNSName xe instanceID =
     bindE (WaitForOutput xe (NewInstanceConditionWaiter privateDNSNameAvailable [\<lambda>opts. opts\<lparr>LogWaitAttempts := True\<rparr>]) None instanceID
              privateDNSNameAvailableTimeout [])
       (\<lambda>output. case output of
          Some ((i # _) # _) \<Rightarrow> returnE (ToString (ei_PrivateDnsName i))
        | _ \<Rightarrow> panicE)"

definition GetInstanceDetails :: "ec2_env \<Rightarrow> NodeConfigStatus \<Rightarrow> NodeConfigStatus wio" where
  "GetInstanceDetails xe status =
     bindE (api_call ''GetInstanceIdentityDocument'' [] (xe_GetInstanceIdentityDocument xe)) (\<lambda>doc.
     bindE (read_answer (api_call ''GetMetadata'' ''mac'' (\<lambda>n. xe_GetMetadata xe n ''mac''))) (\<lambda>mac.
     bindE (getPrivateDNSName xe (id_InstanceID doc)) (\<lambda>privateDNSName.
       returnE (status\<lparr>instance_ID := id_InstanceID doc, instance_Region := id_Region doc, instance_Type := id_InstanceType doc,
         instance_AvailabilityZone := id_AvailabilityZone doc, instance_MAC := mac, instance_PrivateDNSName := privateDNSName\<rparr>))))"

section \<open>The provider\<close>

record ec2NodeProvider =
  en_nodeConfig :: NodeConfig
  en_awsConfig :: "aws_config option"

definition NewEc2NodeProvider :: "NodeConfig \<Rightarrow> ec2NodeProvider" where
  "NewEc2NodeProvider nc = \<lparr>en_nodeConfig = nc, en_awsConfig = None\<rparr>"

definition sdk_default :: "string \<Rightarrow> aws_config" where
  "sdk_default region = \<lparr>ac_Region = region, ac_SharedConfigFiles = None, ac_SharedCredentialsFiles = None, ac_Profile = []\<rparr>"

definition ec2_ConfigureAws :: "ec2_env \<Rightarrow> ctx \<Rightarrow> ec2NodeProvider \<Rightarrow> ec2NodeProvider wio" where
  "ec2_ConfigureAws xe c enp =
     bindE (load_config (xe_LoadDefaultConfig xe) (sdk_default (instance_Region (Status (en_nodeConfig enp))))) (\<lambda>awsConfig.
       returnE (enp\<lparr>en_awsConfig := Some awsConfig\<rparr>))"

definition GetEKSRegistry :: "environment \<Rightarrow> ec2_env \<Rightarrow> string \<Rightarrow> RegionData option \<Rightarrow> string wio" where
  "GetEKSRegistry env xe region regionConfig =
     bindE (GetProperty (xe_GetMetadata xe) ''services/domain'') (\<lambda>servicesDomain.
       getEksRegistryWithServiceDomainAndRegionConfig env (xe_lookupHost xe) region servicesDomain regionConfig)"

text \<open>The region of the configuration that is loaded here comes from the metadata service.\<close>

definition ec2_Enrich :: "environment \<Rightarrow> ec2_env \<Rightarrow> RegionData option \<Rightarrow> ec2NodeProvider \<Rightarrow> ec2NodeProvider wio" where
  "ec2_Enrich env xe regionConfig enp =
     thenE (load_config (xe_LoadDefaultConfig xe) (sdk_default []))
      (bindE (GetInstanceDetails xe (Status (en_nodeConfig enp))) (\<lambda>status.
        bindE (GetEKSRegistry env xe (instance_Region status) regionConfig) (\<lambda>eksRegistry.
          returnE (enp\<lparr>en_nodeConfig := (en_nodeConfig enp)\<lparr>Status := status\<lparr>SandboxImage := GetSandboxImage eksRegistry\<rparr>\<rparr>\<rparr>))))"

definition ec2_ValidateConfig :: "NodeConfig \<Rightarrow> unit wio" where
  "ec2_ValidateConfig cfg =
     (if cl_Name (Cluster (Spec cfg)) = [] then throwE (ErrMsg ''Name is missing in cluster configuration'')
      else if APIServerEndpoint (Cluster (Spec cfg)) = [] then throwE (ErrMsg ''Apiserver endpoint is missing in cluster configuration'')
      else if CertificateAuthority (Cluster (Spec cfg)) = None then throwE (ErrMsg ''Certificate authority is missing in cluster configuration'')
      else if CIDR (Cluster (Spec cfg)) = [] then throwE (ErrMsg ''CIDR is missing in cluster configuration'')
      else if IsOutpostNode cfg \<and> cl_ID (Cluster (Spec cfg)) = [] then throwE (ErrMsg ''CIDR is missing in cluster configuration'')
      else returnE ())"

text \<open>Without a validation runner (nil phases) the kubelet makes no request to the API server.\<close>

definition ec2_GetDaemons :: "environment \<Rightarrow> ec2_env \<Rightarrow> ec2NodeProvider \<Rightarrow> daemon list wio" where
  "ec2_GetDaemons env xe enp =
     (if en_awsConfig enp = None then throwE (ErrMsg ''aws config not set'')
      else returnE [NewContainerdDaemon env (xe_image xe) (en_nodeConfig enp),
                    kubelet_daemon env (xe_kubelet xe) panicE
                      (NewKubeletDaemon (en_nodeConfig enp) \<lparr>cp_Profile = [], CredentialsPath = []\<rparr> None)])"

definition ec2_GetAspects :: "environment \<Rightarrow> ec2NodeProvider \<Rightarrow> unit wio list" where
  "ec2_GetAspects env enp = [localDisk_Setup env (en_nodeConfig enp), networking_Setup env (en_nodeConfig enp)]"

definition ec2_NodeProvider :: "environment \<Rightarrow> ec2_env \<Rightarrow> ec2NodeProvider NodeProvider" where
  "ec2_NodeProvider env xe =
     \<lparr>np_GetNodeConfig = en_nodeConfig,
      np_PopulateNodeConfigDefaults = \<lambda>s. s,
      np_ValidateConfig = \<lambda>s. ec2_ValidateConfig (en_nodeConfig s),
      np_ConfigureAws = ec2_ConfigureAws xe,
      np_Enrich = ec2_Enrich env xe,
      np_Validate = \<lambda>_. returnE (),
      np_GetAspects = \<lambda>s. returnE (ec2_GetAspects env s),
      np_PreProcessDaemon = \<lambda>_ _. returnE (),
      np_GetDaemons = ec2_GetDaemons env xe,
      np_Cleanup = \<lambda>_. returnE ()\<rparr>"


section \<open>Waiting ends\<close>

lemma waiter_loop_ends:
  assumes turn: "\<And>a r w. \<exists>q w'. turn a r w = Some (Inr q, w') \<and> (case q of Inl res \<Rightarrow> Q res | Inr r' \<Rightarrow> r' < r \<and> 0 < r)"
  shows "\<exists>res w'. waiter_loop turn a r w = Some (res, w') \<and> Q res"
proof (induction "nat r" arbitrary: a r w rule: less_induct)
  case less
  from turn [of "Suc a" r w] obtain q w1 where q: "turn (Suc a) r w = Some (Inr q, w1)" "case q of Inl res \<Rightarrow> Q res | Inr r' \<Rightarrow> r' < r \<and> 0 < r"
    by blast
  show ?case
  proof (cases q)
    case (Inl res)
    with q show ?thesis by (simp add: waiter_loop.simps [of turn a])
  next
    case (Inr r')
    with q have "nat r' < nat r" by simp
    from less.hyps [OF this, of "Suc a" w1] q Inr show ?thesis by (simp add: waiter_loop.simps [of turn a])
  qed
qed

text \<open>What the waiting relies on: a request takes time and a delay is not negative.\<close>

definition time_passes :: "ec2_env \<Rightarrow> bool" where
  "time_passes xe \<longleftrightarrow> (\<forall>n. 0 < xe_took xe n) \<and> (\<forall>a lo hi r d. xe_ComputeDelay xe a lo hi r = Inr d \<longrightarrow> 0 \<le> d)"

definition met :: "ec2_env \<Rightarrow> instance_condition \<Rightarrow> string \<Rightarrow> goerr + DescribeInstancesOutput option \<Rightarrow> bool" where
  "met xe condition instanceID res \<longleftrightarrow>
     (case res of Inl _ \<Rightarrow> True | Inr r \<Rightarrow> condition r = Inr True \<and> (\<exists>n. xe_DescribeInstances xe n instanceID = Inr r))"

lemma remaining_turn_ends:
  assumes "time_passes xe" and "rem < r"
  shows "\<exists>q w'. remaining_turn xe options c a rem w = Some (Inr q, w') \<and>
    (case q of Inl res \<Rightarrow> met xe condition instanceID res | Inr r' \<Rightarrow> r' < r \<and> 0 < r)"
proof (cases "rem < MinDelay options \<or> rem \<le> 0")
  case True
  then show ?thesis by (auto simp: remaining_turn_def returnE_def met_def)
next
  case False
  show ?thesis
  proof (cases "xe_ComputeDelay xe a (MinDelay options) (MaxDelay options) rem")
    case (Inl e)
    with False show ?thesis by (auto simp: remaining_turn_def returnE_def met_def)
  next
    case (Inr d)
    with assms have "0 \<le> d" by (auto simp: time_passes_def)
    with False Inr assms(2) show ?thesis
      by (auto simp: remaining_turn_def bindE_def returnE_def met_def select_done_or_after_def split: option.splits)
  qed
qed

lemma waiter_turn_ends:
  assumes "time_passes xe"
  shows "\<exists>q w'. waiter_turn xe condition options c instanceID a r w = Some (Inr q, w') \<and>
    (case q of Inl res \<Rightarrow> met xe condition instanceID res | Inr r' \<Rightarrow> r' < r \<and> 0 < r)"
proof -
  have t: "0 < xe_took xe (steps w)" using assms by (simp add: time_passes_def)
  define w1 where "w1 = w\<lparr>clock := clock w + xe_took xe (steps w), steps := Suc (steps w), trace := trace w @ [EvApi ''DescribeInstances'' instanceID]\<rparr>"
  define ans where "ans = xe_DescribeInstances xe (steps w) instanceID"
  define rem where "rem = r - int (xe_took xe (steps w))"
  have body: "waiter_turn xe condition options c instanceID a r w =
    (case ans of
       Inl err \<Rightarrow> (case instanceRetryable xe err of Inl e \<Rightarrow> returnE (Inl (Inl e))
          | Inr retryable \<Rightarrow> if \<not> retryable then returnE (Inl (Inr None)) else remaining_turn xe options c a rem)
     | Inr res \<Rightarrow> (case condition res of Inl e \<Rightarrow> returnE (Inl (Inl e))
          | Inr conditionMet \<Rightarrow> if conditionMet then returnE (Inl (Inr res)) else remaining_turn xe options c a rem)) w1"
    by (simp add: waiter_turn_def bindE_def getE_def tryE_def DescribeInstances_def api_call_def Let_def w1_def ans_def rem_def cong: if_cong sum.case_cong)
  have "rem < r" using t by (simp add: rem_def)
  note retry = remaining_turn_ends [OF assms this]
  show ?thesis
  proof (cases ans)
    case (Inl err)
    then show ?thesis unfolding body using retry
      by (cases "instanceRetryable xe err") (auto simp: returnE_def met_def instanceRetryable_def split: option.splits if_splits)
  next
    case (Inr res)
    then show ?thesis unfolding body using retry
      by (cases "condition res") (auto simp: returnE_def met_def ans_def split: if_splits)
  qed
qed

lemma WaitForOutput_ends:
  assumes "time_passes xe"
  shows "\<exists>res w'. WaitForOutput xe wt c instanceID d fns w = Some (res, w') \<and> met xe (wt_condition wt) instanceID res"
proof -
  have "\<exists>res w'. waiter_loop (waiter_turn xe (wt_condition wt) options c' instanceID) 0 d w = Some (res, w') \<and> met xe (wt_condition wt) instanceID res"
    for options c' w by (rule waiter_loop_ends [OF waiter_turn_ends [OF assms]])
  moreover have "met xe (wt_condition wt) instanceID (Inl e)" for e by (simp add: met_def)
  ultimately show ?thesis by (simp add: WaitForOutput_def Let_def throwE_def with_timeout_def)
qed

section \<open>The provider keeps the contract\<close>

interpretation ec2: node_provider "ec2_NodeProvider env xe" "\<lambda>n. reports_status env n DaemonStatusRunning" KubeletDaemonName for env xe
proof
  fix s n
  show "valid_ok (\<lambda>_. True) (np_GetDaemons (ec2_NodeProvider env xe) s)
      (\<lambda>ds _. ds \<noteq> [] \<and> list_all (starts (\<lambda>n. reports_status env n DaemonStatusRunning)) ds \<and>
         launches_quietly (\<lambda>n. reports_status env n DaemonStatusRunning) (last ds) \<and> d_Name (last ds) = KubeletDaemonName)"
    using node_daemons_start by (simp add: ec2_NodeProvider_def ec2_GetDaemons_def valid_def)
  show "valid_ok (reports_status env n DaemonStatusRunning) (np_Cleanup (ec2_NodeProvider env xe) s) (\<lambda>_. reports_status env n DaemonStatusRunning)"
    by (simp add: ec2_NodeProvider_def valid_def)
qed

definition identified :: "ec2_env \<Rightarrow> NodeConfigStatus \<Rightarrow> bool" where
  "identified xe st \<longleftrightarrow> (\<exists>n doc. xe_GetInstanceIdentityDocument xe n = Inr doc \<and> instance_ID st = id_InstanceID doc \<and>
     instance_Region st = id_Region doc \<and> instance_Type st = id_InstanceType doc \<and> instance_AvailabilityZone st = id_AvailabilityZone doc)"

lemma identified_SandboxImage [simp]: "identified xe (st\<lparr>SandboxImage := im\<rparr>) = identified xe st"
  by (simp add: identified_def)

lemma GetInstanceDetails_ok:
  assumes "GetInstanceDetails xe st w = Some (Inr st', w')"
  shows "identified xe st'"
  using assms unfolding GetInstanceDetails_def
proof (elim bindE_okE)
  fix doc mac name w1 w2 w3
  assume "api_call ''GetInstanceIdentityDocument'' [] (xe_GetInstanceIdentityDocument xe) w = Some (Inr doc, w1)"
    and st': "returnE (st\<lparr>instance_ID := id_InstanceID doc, instance_Region := id_Region doc, instance_Type := id_InstanceType doc,
      instance_AvailabilityZone := id_AvailabilityZone doc, instance_MAC := mac, instance_PrivateDNSName := name\<rparr>) w3 = Some (Inr st', w')"
  then have "xe_GetInstanceIdentityDocument xe (steps w) = Inr doc" by (simp add: api_call_def)
  with st' show ?thesis unfolding identified_def by (intro exI [of _ "steps w"] exI [of _ doc]) (auto simp: returnE_def)
qed

lemma ec2_Enrich_ok:
  assumes "ec2_Enrich env xe rc s w = Some (Inr s', w')"
  shows "en_awsConfig s' = en_awsConfig s \<and> Spec (en_nodeConfig s') = Spec (en_nodeConfig s) \<and> identified xe (Status (en_nodeConfig s'))"
  using assms unfolding ec2_Enrich_def
  by (elim thenE_okE bindE_okE) (auto simp: returnE_def dest!: GetInstanceDetails_ok)

definition ec2_config_ok :: "NodeConfig \<Rightarrow> bool" where
  "ec2_config_ok nc \<longleftrightarrow> cl_Name (Cluster (Spec nc)) \<noteq> [] \<and> APIServerEndpoint (Cluster (Spec nc)) \<noteq> [] \<and>
     CertificateAuthority (Cluster (Spec nc)) \<noteq> None \<and> CIDR (Cluster (Spec nc)) \<noteq> [] \<and> (IsOutpostNode nc \<longrightarrow> cl_ID (Cluster (Spec nc)) \<noteq> [])"

lemma ec2_ValidateConfig_iff: "ec2_ValidateConfig nc w = Some (Inr (), w) \<longleftrightarrow> ec2_config_ok nc"
  by (auto simp: ec2_ValidateConfig_def ec2_config_ok_def throwE_def returnE_def)

lemma ec2_config_ok_Spec: "Spec a = Spec b \<Longrightarrow> ec2_config_ok a = ec2_config_ok b"
  by (simp add: ec2_config_ok_def IsOutpostNode_def)

section \<open>Properties\<close>

text \<open>C27: Waiting for the private DNS name of an instance ends, when requests take time and the delays between them are not negative.
  A name it returns is not empty and is what EC2 answered for the one instance asked for.\<close>

theorem private_dns_name_is_current:
  assumes "time_passes xe"
  shows "\<exists>r w'. getPrivateDNSName xe instanceID w = Some (r, w') \<and>
    (case r of Inl _ \<Rightarrow> True
     | Inr name \<Rightarrow> name \<noteq> [] \<and> (\<exists>n i. xe_DescribeInstances xe n instanceID = Inr (Some [[i]]) \<and> ei_PrivateDnsName i = Some name))"
proof -
  define wt where "wt = NewInstanceConditionWaiter privateDNSNameAvailable [\<lambda>opts. opts\<lparr>LogWaitAttempts := True\<rparr>]"
  have c: "wt_condition wt = privateDNSNameAvailable" by (simp add: wt_def NewInstanceConditionWaiter_def)
  from WaitForOutput_ends [OF assms] obtain res w1 where
    run: "WaitForOutput xe wt None instanceID privateDNSNameAvailableTimeout [] w = Some (res, w1)" and m: "met xe privateDNSNameAvailable instanceID res"
    unfolding c [symmetric] by blast
  show ?thesis
  proof (cases res)
    case (Inl e)
    with run show ?thesis by (simp add: getPrivateDNSName_def wt_def [symmetric] bindE_def)
  next
    case (Inr r)
    with m obtain n i where r: "r = Some [[i]]" and name: "ToString (ei_PrivateDnsName i) \<noteq> []" and d: "xe_DescribeInstances xe n instanceID = Inr r"
      by (auto simp: met_def privateDNSNameAvailable_def split: option.splits list.splits)
    then obtain s where "ei_PrivateDnsName i = Some s" "s \<noteq> []" by (auto simp: ToString_def split: option.splits)
    with run Inr r d show ?thesis by (auto simp: getPrivateDNSName_def wt_def [symmetric] bindE_def returnE_def ToString_def)
  qed
qed

text \<open>C9: \<open>nodeadm init\<close> on an EC2 instance reports success only for a configuration that names the cluster with its endpoint, authority
  and address range, with AWS credentials loaded, with the instance's identity taken from the metadata service, and with systemd's last
  answer about the kubelet being that it runs, unless the run phase was skipped.\<close>

theorem ec2_init_success:
  "valid_ok (\<lambda>_. True) (Initer_Run env me (ec2_NodeProvider env xe) c i enp)
     (\<lambda>s w. ec2_config_ok (en_nodeConfig s) \<and> en_awsConfig s \<noteq> None \<and>
        identified xe (Status (en_nodeConfig s)) \<and>
        (if runPhase \<in> set (it_SkipPhases i) then True else reports_status env KubeletDaemonName DaemonStatusRunning w))"
proof (rule validI)
  fix w s w' assume run: "Initer_Run env me (ec2_NodeProvider env xe) c i enp w = Some (Inr s, w')"
  have up: "if runPhase \<in> set (it_SkipPhases i) then True else reports_status env KubeletDaemonName DaemonStatusRunning w'"
    using valid_okD [OF ec2.init_runs TrueI run] by simp
  from run show "ec2_config_ok (en_nodeConfig s) \<and> en_awsConfig s \<noteq> None \<and>
        identified xe (Status (en_nodeConfig s)) \<and>
        (if runPhase \<in> set (it_SkipPhases i) then True else reports_status env KubeletDaemonName DaemonStatusRunning w')"
  proof (rule Initer_Run_okE, unfold ec2_NodeProvider_def NodeProvider.simps)
    fix rc s2 w1 w2 w3 w4
    assume v: "ec2_ValidateConfig (en_nodeConfig enp) w = Some (Inr (), w1)" and a: "ec2_ConfigureAws xe c enp w1 = Some (Inr s2, w2)"
      and e: "ec2_Enrich env xe rc s2 w3 = Some (Inr s, w4)"
    have "ec2_config_ok (en_nodeConfig enp)" using v by (auto simp: ec2_ValidateConfig_def ec2_config_ok_def throwE_def returnE_def split: if_splits)
    moreover have "en_nodeConfig s2 = en_nodeConfig enp" "en_awsConfig s2 \<noteq> None"
      using a unfolding ec2_ConfigureAws_def by (auto elim!: bindE_okE simp: returnE_def)
    ultimately show ?thesis using ec2_Enrich_ok [OF e] ec2_config_ok_Spec [of "en_nodeConfig s" "en_nodeConfig s2"] up by auto
  qed
qed simp

text \<open>An instance whose name EC2 does not know at the first request.\<close>

definition sample_ec2 :: ec2_env where
  "sample_ec2 = \<lparr>xe_LoadDefaultConfig = \<lambda>_ _. None, xe_lookupHost = \<lambda>_. Inr [], xe_kubelet = sample_kubelet_env,
     xe_image = \<lparr>ie_authorization_token = \<lambda>_. Inr [Some ''token''], ie_image_service = \<lambda>_. Inr (), ie_pull_image = \<lambda>_ _ _. Inr ''sha256:0''\<rparr>,
     xe_GetInstanceIdentityDocument =
       \<lambda>_. Inr \<lparr>id_InstanceID = ''i-0123'', id_Region = ''us-west-2'', id_InstanceType = ''m5.large'', id_AvailabilityZone = ''us-west-2a''\<rparr>,
     xe_GetMetadata = \<lambda>_ _. Inr (''amazonaws.com'', None),
     xe_DescribeInstances = \<lambda>n _. Inr (Some [[\<lparr>ei_PrivateDnsName = if n = 0 then None else Some ''ip-10-0-0-7''\<rparr>]]),
     xe_took = \<lambda>_. 1000000, xe_APIErrorCode = \<lambda>_. None, xe_ComputeDelay = \<lambda>_ lo _ r. Inr (max 0 (min lo (r - lo)))\<rparr>"

lemma sample_ec2_name: "xe_DescribeInstances sample_ec2 n i = Inr (Some [[x]]) \<Longrightarrow> ei_PrivateDnsName x = Some name \<Longrightarrow> name = ''ip-10-0-0-7''"
  by (auto simp: sample_ec2_def split: if_splits)

theorem private_dns_name_is_current_witness:
  "\<exists>r w'. getPrivateDNSName sample_ec2 ''i-0123'' sample_world = Some (r, w') \<and> (case r of Inl _ \<Rightarrow> True | Inr name \<Rightarrow> name = ''ip-10-0-0-7'')"
proof -
  have "time_passes sample_ec2" by (auto simp: time_passes_def sample_ec2_def)
  from private_dns_name_is_current [OF this, of "''i-0123''" sample_world] obtain r w'
    where "getPrivateDNSName sample_ec2 ''i-0123'' sample_world = Some (r, w')"
      and "case r of Inl _ \<Rightarrow> True | Inr name \<Rightarrow> name \<noteq> [] \<and>
        (\<exists>n i. xe_DescribeInstances sample_ec2 n ''i-0123'' = Inr (Some [[i]]) \<and> ei_PrivateDnsName i = Some name)" by iprover
  then show ?thesis using sample_ec2_name by (intro exI [of _ r] exI [of _ w']) (auto split: sum.splits)
qed

end
