(* ===== verification/Removal.thy ===== *)
theory Removal
  imports Install_Liveness
begin

text \<open>
  What \<open>nodeadm uninstall\<close> leaves behind (\<open>internal/flows/uninstall.go\<close>). \<open>cleans ps m\<close>: when the action succeeds nothing stands at or
  below the paths \<open>ps\<close>. The actions after it have to be \<open>quiet\<close> there, which for commands of the package manager is a hypothesis.
\<close>

section \<open>What removal leaves\<close>

text \<open>Commands that create nothing at or below the given paths.\<close>

definition quiet_commands :: "environment \<Rightarrow> path list \<Rightarrow> bool" where
  "quiet_commands env ps \<longleftrightarrow>
     (\<forall>p q n args f. p \<in> set ps \<longrightarrow> under p q \<longrightarrow> f q = None \<longrightarrow> cr_fs (run_cmd env n args f) q = None)"

text \<open>An action that creates nothing at or below these paths.\<close>

definition quiet :: "path list \<Rightarrow> 'a wio \<Rightarrow> bool" where
  "quiet ps m \<longleftrightarrow> (\<forall>p q. p \<in> set ps \<longrightarrow> under p q \<longrightarrow> keeps_absent q m)"

lemma quietI: "(\<And>q. keeps_absent q m) \<Longrightarrow> quiet ps m"
  by (simp add: quiet_def)

lemma quiet_gone: "quiet ps m \<Longrightarrow> p \<in> set ps \<Longrightarrow> preserves (gone_under p) m"
proof (rule validI)
  assume q: "quiet ps m" "p \<in> set ps"
  then have k: "under p r \<Longrightarrow> keeps_absent r m" for r unfolding quiet_def by iprover
  { fix w x w' assume "gone_under p w" "m w = Some (Inr x, w')"
    then show "gone_under p w'" using valid_okD [OF k] unfolding gone_under_def by blast }
  { fix w e w' assume "gone_under p w" "m w = Some (Inl e, w')"
    then show "gone_under p w'" using valid_errD [OF k] unfolding gone_under_def by blast }
qed

lemma quiet_intros:
  "quiet ps (returnE x)" "quiet ps (throwE e)" "quiet ps (getE f)" "quiet ps (liftE r)"
  by (auto intro!: quietI preserves_intros)

lemma quiet_thenE: "quiet ps m \<Longrightarrow> quiet ps k \<Longrightarrow> quiet ps (thenE m k)"
  unfolding quiet_def by (auto intro!: preserves_thenE)

lemma quiet_bindE: "quiet ps m \<Longrightarrow> (\<And>x. quiet ps (k x)) \<Longrightarrow> quiet ps (bindE m k)"
  unfolding quiet_def by (auto intro!: preserves_bindE)

lemma quiet_wrapE: "quiet ps m \<Longrightarrow> quiet ps (wrapE msg m)"
  unfolding quiet_def by (auto intro!: preserves_wrapE)

lemma quiet_tryE: "quiet ps m \<Longrightarrow> quiet ps (tryE m)"
  unfolding quiet_def by (auto intro!: preserves_tryE)

lemma quiet_whenE: "(b \<Longrightarrow> quiet ps m) \<Longrightarrow> quiet ps (whenE b m)"
  by (cases b) (simp_all add: whenE_def quiet_intros)

lemma quiet_os:
  "quiet ps (os_Stat env p)" "quiet ps (os_ReadFile env p)" "quiet ps (os_RemoveAll env p)" "quiet ps (os_Remove env p)"
  by (auto intro!: quietI keeps_absent_os keeps_absent_Remove)

lemma quiet_daemon:
  "quiet ps (GetDaemonStatus env n)" "quiet ps (StopDaemon env n)"
  by (auto intro!: quietI daemon_keeps off_bus_fs)

lemma quiet_collect: "(\<And>a. a \<in> set as \<Longrightarrow> quiet ps a) \<Longrightarrow> quiet ps (bindE (collect_errors as errs) join_errors)"
  unfolding quiet_def by (auto intro!: preserves_bindE preserves_collect_all preserves_join_errors)

lemma quiet_Retry:
  assumes "quiet_commands env ps"
  shows "quiet ps (Retry env c args backoff)"
  unfolding quiet_def
proof (intro allI impI)
  fix p q assume "p \<in> set ps" "under p q"
  then have "keeps_absent q (ctx_CombinedOutput env c args)"
    using assms unfolding quiet_commands_def
    by (auto simp: valid_def ctx_CombinedOutput_def CombinedOutput_def Let_def split: option.splits if_splits)
  then show "keeps_absent q (Retry env c args backoff)" by (rule preserves_Retry) simp
qed

lemmas quiet_rules = quiet_intros quiet_thenE quiet_bindE quiet_wrapE quiet_tryE quiet_whenE quiet_os quiet_daemon

lemma quiet_api_call: "quiet ps (api_call nm arg ans)"
  by (rule quietI) (auto simp: valid_def api_call_def split: sum.splits)

lemma quiet_registration:
  "quiet ps (isRegistered env se root)" "quiet ps (getManagedHybridInstanceIdAndRegion env se root)"
  "quiet ps (GetManagedHybridInstanceId env se root)" "quiet ps (GetRegion env se root)"
proof -
  show reg: "quiet ps (isRegistered env se root)" and id: "quiet ps (getManagedHybridInstanceIdAndRegion env se root)"
      and "quiet ps (GetManagedHybridInstanceId env se root)"
    unfolding isRegistered_def getManagedHybridInstanceIdAndRegion_def GetManagedHybridInstanceId_def
    by (intro quiet_rules | auto split: sum.splits)+
  show "quiet ps (GetRegion env se root)" unfolding GetRegion_def
    by (intro quiet_bindE quiet_tryE reg) (auto intro!: quiet_rules id split: sum.splits bool.splits)
qed

text \<open>The parts of the uninstallation of the SSM agent, in order.\<close>

lemma quiet_ssm_parts:
  assumes "quiet_commands env ps"
  shows "quiet ps (Deregister env se root)" and "quiet ps (uninstallPreRegisterComponents env c pm)" and "quiet ps (removeFileOrDir env p m)"
proof -
  show "quiet ps (Deregister env se root)"
    unfolding Deregister_def isInstanceManaged_def deregister_def
    by (intro quiet_bindE quiet_tryE quiet_registration, split sum.split) (auto intro!: quiet_rules quiet_api_call)
  show "quiet ps (uninstallPreRegisterComponents env c pm)" "quiet ps (removeFileOrDir env p m)"
    unfolding uninstallPreRegisterComponents_def removeFileOrDir_def by (intro quiet_rules quiet_Retry [OF assms])+
qed

lemma quiet_packages:
  assumes "quiet_commands env ps"
  shows "quiet ps (containerd_Uninstall env c pm)" and "quiet ps (iptables_Uninstall env c pm)" and "quiet ps (pm_Cleanup env pm)"
    and "quiet ps (ssm_Uninstall env se c pm root)"
proof -
  note r = quiet_rules quiet_Retry [OF assms]
  show "quiet ps (containerd_Uninstall env c pm)" "quiet ps (iptables_Uninstall env c pm)"
    unfolding containerd_Uninstall_def iptables_Uninstall_def isContainerdInstalled_def isIptablesInstalled_def LookPath_def
    by (intro r)+
  have "quiet ps (removeRepoFile env p t)" for p t
    unfolding removeRepoFile_def by (intro r) (auto split: sum.splits intro!: r)
  then show "quiet ps (pm_Cleanup env pm)"
    unfolding pm_Cleanup_def uninstallDockerRepo_def by (auto split: sum.splits intro!: r)
  show "quiet ps (ssm_Uninstall env se c pm root)"
    unfolding ssm_Uninstall_def by (intro quiet_collect) (auto intro: quiet_ssm_parts [OF assms])
qed

section \<open>Cleaning\<close>

definition cleans :: "path list \<Rightarrow> 'a wio \<Rightarrow> bool" where
  "cleans ps m \<longleftrightarrow> valid_ok (\<lambda>_. True) m (\<lambda>_ w. list_all (\<lambda>p. gone_under p w) ps)"

lemma cleans_Nil: "cleans [] m"
  by (simp add: cleans_def valid_def split: sum.splits)

lemma cleans_RemoveAll: "cleans [p] (os_RemoveAll env p)"
  unfolding cleans_def list.pred_inject by (rule valid_post [OF gone_under_ok]) simp_all

lemma quiet_keeps_clean:
  assumes "quiet qs m" and "set ps \<subseteq> set qs"
  shows "valid_ok (\<lambda>w. list_all (\<lambda>p. gone_under p w) ps) m (\<lambda>_ w. list_all (\<lambda>p. gone_under p w) ps)"
  using assms(2)
proof (induction ps)
  case Nil
  show ?case by (simp add: valid_def split: sum.splits)
next
  case (Cons p ps)
  then have "valid_ok (gone_under p) m (\<lambda>_. gone_under p)"
    using valid_post [OF quiet_gone [OF assms(1)]] by fastforce
  from valid_conj [OF this] Cons show ?case by (fastforce elim: valid_conseq)
qed

lemma cleans_thenE:
  assumes "cleans ps m" and "set ps \<subseteq> set qs" and "quiet qs k" and "cleans rs k"
  shows "cleans (ps @ rs) (thenE m k)"
proof -
  have "valid_ok (\<lambda>w. list_all (\<lambda>p. gone_under p w) ps \<and> True) k (\<lambda>_ w. list_all (\<lambda>p. gone_under p w) ps \<and> list_all (\<lambda>p. gone_under p w) rs)"
    using valid_conj [OF quiet_keeps_clean [OF assms(3,2)] assms(4) [unfolded cleans_def]] by (rule valid_conseq) auto
  then show ?thesis using assms(1) unfolding cleans_def by (intro valid_thenE) (auto simp: list_all_append)
qed

lemma cleans_after: "cleans ps k \<Longrightarrow> cleans ps (thenE m k)"
  unfolding cleans_def by (rule valid_skip)

lemma cleans_bind_after: "(\<And>x. cleans ps (k x)) \<Longrightarrow> cleans ps (bindE m k)"
  unfolding cleans_def by (rule valid_skipB)

lemma cleans_wrapE: "cleans ps m \<Longrightarrow> cleans ps (wrapE msg m)"
  unfolding cleans_def by (rule valid_wrapE)

lemma cleans_whenE: "cleans ps m \<Longrightarrow> cleans (if b then ps else []) (whenE b m)"
  by (simp add: whenE_def cleans_Nil)

lemma cleans_kubelet: "cleans (kubelet_pathsToRemove root) (kubelet_Uninstall env root)"
  unfolding cleans_def by (rule valid_post [OF kubelet_Uninstall_ok]) (simp_all add: list_all_iff)

lemma quiet_components:
  "quiet ps (kubelet_Uninstall env root)" "quiet ps (kubectl_Uninstall env)" "quiet ps (cni_Uninstall env)"
  "quiet ps (iamauthenticator_Uninstall env)" "quiet ps (iamrolesanywhere_Uninstall env)" "quiet ps (imagecredentialprovider_Uninstall env)"
  unfolding cni_Uninstall_def
  by (auto intro!: quietI kubelet_Uninstall_shrinks keeps_absent_os kubectl.uninstall_shrinks iamauthenticator.uninstall_shrinks
      iamrolesanywhere.uninstall_shrinks imagecredentialprovider.uninstall_shrinks)

lemma cleans_components:
  "cleans [kubectl_BinPath] (kubectl_Uninstall env)" "cleans [cni_rootDir] (cni_Uninstall env)"
  "cleans [iamauthenticator_BinPath] (iamauthenticator_Uninstall env)"
  "cleans [Dir imagecredentialprovider_BinPath] (imagecredentialprovider_Uninstall env)"
  unfolding kubectl_Uninstall_def cni_Uninstall_def iamauthenticator_Uninstall_def imagecredentialprovider_Uninstall_def
  by (rule cleans_RemoveAll)+

abbreviation signing_helper_paths :: "path list" where
  "signing_helper_paths \<equiv> [SigningHelperServiceFilePath, Dir EksHybridAwsCredentialsPath, iamrolesanywhere_BinPath]"

lemma cleans_signing_helper: "cleans signing_helper_paths (iamrolesanywhere_Uninstall env)"
proof -
  have "cleans [Dir EksHybridAwsCredentialsPath, iamrolesanywhere_BinPath]
      (thenE (os_RemoveAll env (Dir EksHybridAwsCredentialsPath)) (os_RemoveAll env iamrolesanywhere_BinPath))"
    using cleans_thenE [OF cleans_RemoveAll order_refl quiet_os(3) cleans_RemoveAll] by simp
  from cleans_thenE [OF cleans_RemoveAll order_refl quiet_thenE [OF quiet_os(3) quiet_os(3)] this] show ?thesis
    by (simp add: iamrolesanywhere_Uninstall_def)
qed

text \<open>The paths of the SSM agent that its uninstallation removes itself.\<close>

definition ssm_paths :: "path list" where
  "ssm_paths = [RegistrationFilePath [], Join [[], configRoot], Join [[], symlinkedAWSConfigPath], Join [[], defaultAWSConfigPath]]"

lemma cleans_ssm:
  assumes "quiet_commands env ssm_paths"
  shows "cleans ssm_paths (ssm_Uninstall env se c pm [])"
proof -
  let ?rm = "\<lambda>p m. (removeFileOrDir env p m, [p])"
  define xs where "xs = [(Deregister env se [], []), ?rm (RegistrationFilePath []) ''uninstalling ssm registration file'',
    (uninstallPreRegisterComponents env c pm, []), ?rm (Join [[], configRoot]) ''uninstalling ssm config files'',
    ?rm (Join [[], symlinkedAWSConfigPath]) ''uninstalling ssm aws config symlink'', ?rm (Join [[], defaultAWSConfigPath]) ''uninstalling ssm aws config'']"
  let ?G = "\<lambda>x w. list_all (\<lambda>p. gone_under p w) (snd x)"
  have rm: "cleans [p] (removeFileOrDir env p m)" for p m
    unfolding removeFileOrDir_def by (intro cleans_wrapE cleans_RemoveAll)
  have quiet: "quiet ssm_paths (fst y)" if "y \<in> set xs" for y
    using that quiet_ssm_parts [OF assms] unfolding xs_def by auto
  have ok: "valid_ok (\<lambda>_. True) (fst x) (\<lambda>_. ?G x)" if "x \<in> set xs" for x
    using that rm cleans_Nil unfolding xs_def cleans_def by auto
  have keep: "preserves (?G x) (fst y)" if "x \<in> set xs" "y \<in> set xs" for x y
  proof -
    have "set (snd x) \<subseteq> set ssm_paths" using that(1) by (auto simp: xs_def ssm_paths_def)
    moreover have "snd x = [] \<or> (\<exists>p. snd x = [p])" using that(1) by (auto simp: xs_def)
    ultimately show ?thesis using quiet_gone [OF quiet [OF that(2)]] by (auto simp: valid_def split: sum.splits)
  qed
  have "cleans (concat (map snd xs)) (bindE (collect_errors (map fst xs) []) join_errors)"
    unfolding cleans_def
    by (rule valid_post [OF collect_join_ok [where G = ?G, OF ok keep]]) (auto simp: list_all_iff)
  moreover have "concat (map snd xs) = ssm_paths" by (simp add: xs_def ssm_paths_def)
  ultimately show ?thesis by (simp add: ssm_Uninstall_def xs_def)
qed

section \<open>The whole run\<close>

definition daemon_paths :: "InstalledArtifacts \<Rightarrow> path list" where
  "daemon_paths a = (if Kubelet a then kubelet_pathsToRemove [] else []) @ (if Ssm a then ssm_paths else [])"

definition binary_paths :: "InstalledArtifacts \<Rightarrow> path list" where
  "binary_paths a =
     (if Kubectl a then [kubectl_BinPath] else []) @ (if CniPlugins a then [cni_rootDir] else []) @
     (if IamAuthenticator a then [iamauthenticator_BinPath] else []) @ (if IamRolesAnywhere a then signing_helper_paths else []) @
     (if ImageCredentialProvider a then [Dir imagecredentialprovider_BinPath] else [])"

definition owned_paths :: "InstalledArtifacts \<Rightarrow> path list" where
  "owned_paths a = daemon_paths a @ binary_paths a @ [eksConfigDir, Dir trackerFile]"

lemma quiet_commands_mono: "quiet_commands env qs \<Longrightarrow> set ps \<subseteq> set qs \<Longrightarrow> quiet_commands env ps"
  unfolding quiet_commands_def by blast

lemma cleans_daemons:
  assumes "quiet_commands env (owned_paths (un_Artifacts u))"
  shows "cleans (daemon_paths (un_Artifacts u)) (uninstallDaemons env fe c u)"
proof -
  let ?a = "un_Artifacts u" and ?qs = "owned_paths (un_Artifacts u)"
  have ssm: "cleans (if Ssm ?a then ssm_paths else []) (whenE (Ssm ?a) (thenE (bindE (getE SsmDaemonName) (StopDaemon env))
     (bindE (GetRegion env (fe_ssm fe) []) (\<lambda>region. thenE (liftE (fe_load_aws fe region))
       (wrapE ''uninstalling SSM'' (ssm_Uninstall env (fe_ssm fe) c (un_PackageManager u) []))))))"
  proof (cases "Ssm ?a")
    case True
    then have "quiet_commands env ssm_paths" using assms by (rule_tac quiet_commands_mono) (auto simp: owned_paths_def daemon_paths_def)
    then show ?thesis by (intro cleans_whenE cleans_after cleans_bind_after cleans_wrapE cleans_ssm)
  next
    case False
    then show ?thesis by (simp add: cleans_Nil)
  qed
  have tail: "quiet ?qs (thenE (whenE (IamRolesAnywhere ?a)
                 (bindE (tryE (GetDaemonStatus env ''aws_signing_helper_update'')) (\<lambda>r. case r of
                    Inr _ \<Rightarrow> StopDaemon env ''aws_signing_helper_update'' | Inl _ \<Rightarrow> returnE ())))
        (whenE (Containerd ?a \<noteq> ContainerdSourceNone)
           (thenE (StopDaemon env ContainerdDaemonName) (containerd_Uninstall env c (un_PackageManager u)))))" (is "quiet _ ?t")
    by (auto intro!: quiet_rules quiet_packages assms split: sum.splits)
  have region: "quiet ?qs (GetRegion env (fe_ssm fe) [])" by (rule quiet_registration(4))
  have qssm: "quiet ?qs (whenE (Ssm ?a) (thenE (bindE (getE SsmDaemonName) (StopDaemon env))
     (bindE (GetRegion env (fe_ssm fe) []) (\<lambda>region. thenE (liftE (fe_load_aws fe region))
       (wrapE ''uninstalling SSM'' (ssm_Uninstall env (fe_ssm fe) c (un_PackageManager u) []))))))"
    by (intro quiet_rules quiet_packages assms region)
  have sub: "set (if Ssm ?a then ssm_paths else []) \<subseteq> set ?qs" "set (if Kubelet ?a then kubelet_pathsToRemove [] else []) \<subseteq> set ?qs"
    by (auto simp: owned_paths_def daemon_paths_def)
  have rest: "cleans (if Ssm ?a then ssm_paths else []) (thenE (whenE (Ssm ?a) (thenE (bindE (getE SsmDaemonName) (StopDaemon env))
     (bindE (GetRegion env (fe_ssm fe) []) (\<lambda>region. thenE (liftE (fe_load_aws fe region))
       (wrapE ''uninstalling SSM'' (ssm_Uninstall env (fe_ssm fe) c (un_PackageManager u) [])))))) ?t)"
    using cleans_thenE [OF ssm sub(1) tail cleans_Nil] by simp
  have "cleans (if Kubelet ?a then kubelet_pathsToRemove [] else [])
      (whenE (Kubelet ?a) (thenE (StopDaemon env KubeletDaemonName) (kubelet_Uninstall env [])))"
    by (intro cleans_whenE cleans_after cleans_kubelet)
  from cleans_thenE [OF this sub(2) quiet_thenE [OF qssm tail] rest] show ?thesis
    unfolding uninstallDaemons_def daemon_paths_def .
qed

lemma quiet_binaries:
  assumes "quiet_commands env qs"
  shows "quiet qs (uninstallBinaries env c u)"
  unfolding uninstallBinaries_def by (intro quiet_rules quiet_components quiet_packages assms)

lemma cleans_seq:
  assumes "cleans ps m" and "set ps \<subseteq> set qs" and "quiet qs k \<and> cleans rs k" and "quiet qs m"
  shows "quiet qs (thenE m k) \<and> cleans (ps @ rs) (thenE m k)"
  using assms by (blast intro: cleans_thenE quiet_thenE)

lemma cleans_binaries:
  assumes "quiet_commands env (owned_paths (un_Artifacts u))"
  shows "cleans (binary_paths (un_Artifacts u)) (uninstallBinaries env c u)"
proof -
  let ?a = "un_Artifacts u" and ?qs = "owned_paths (un_Artifacts u)"
  have seq: "quiet ?qs (thenE (whenE b m) k) \<and> cleans ((if b then ps else []) @ rs) (thenE (whenE b m) k)"
    if "quiet ?qs k \<and> cleans rs k" and "cleans ps m" and "quiet ?qs m" and "b \<Longrightarrow> set ps \<subseteq> set ?qs" for b ps rs and m k :: "unit wio"
    by (rule cleans_seq [OF cleans_whenE [OF that(2)] _ that(1) quiet_whenE [OF that(3)]]) (use that(4) in auto)
  have "quiet ?qs (whenE (Iptables ?a) (iptables_Uninstall env c (un_PackageManager u))) \<and>
      cleans [] (whenE (Iptables ?a) (iptables_Uninstall env c (un_PackageManager u)))"
    by (intro conjI quiet_whenE quiet_packages assms cleans_Nil)
  then show ?thesis
    unfolding uninstallBinaries_def binary_paths_def
    by (subst append_Nil2 [symmetric], simp only: append_assoc)
      (intro seq [THEN conjunct2] seq quiet_components cleans_components cleans_signing_helper;
        auto simp: owned_paths_def binary_paths_def)
qed

lemma cleans_Uninstaller_Run:
  assumes "quiet_commands env (owned_paths (un_Artifacts u))"
  shows "cleans (owned_paths (un_Artifacts u)) (Uninstaller_Run env fe c u)"
proof -
  let ?qs = "owned_paths (un_Artifacts u)"
  have clear: "quiet ?qs (Clear env) \<and> cleans [Dir trackerFile] (Clear env)"
    unfolding Clear_def by (intro conjI quiet_os cleans_RemoveAll)
  have clean: "quiet ?qs (Uninstaller_cleanup env u)" "cleans [eksConfigDir] (Uninstaller_cleanup env u)"
    unfolding Uninstaller_cleanup_def by (intro quiet_thenE quiet_packages assms quiet_os cleans_after cleans_RemoveAll)+
  have tail: "quiet ?qs (thenE (Uninstaller_cleanup env u) (Clear env)) \<and>
      cleans [eksConfigDir, Dir trackerFile] (thenE (Uninstaller_cleanup env u) (Clear env))"
    using cleans_seq [OF clean(2) _ clear clean(1)] by (simp add: owned_paths_def)
  have bins: "quiet ?qs (thenE (uninstallBinaries env c u) (thenE (Uninstaller_cleanup env u) (Clear env))) \<and>
      cleans (binary_paths (un_Artifacts u) @ [eksConfigDir, Dir trackerFile]) (thenE (uninstallBinaries env c u) (thenE (Uninstaller_cleanup env u) (Clear env)))"
    by (rule cleans_seq [OF cleans_binaries [OF assms] _ tail quiet_binaries [OF assms]]) (auto simp: owned_paths_def)
  show ?thesis unfolding Uninstaller_Run_def owned_paths_def
    by (rule cleans_thenE [OF cleans_daemons [OF assms] _ conjunct1 [OF bins] conjunct2 [OF bins]]) (auto simp: owned_paths_def)
qed

section \<open>Properties\<close>

text \<open>C5: When \<open>nodeadm uninstall\<close> reports success, nothing is left at or below any path of a component the tracker named: the kubelet's
  binary, unit, kubeconfig, configuration and certificate, kubectl, the CNI directory, the IAM authenticator, the signing helper with
  its service and credentials, the image credential provider, the SSM registration and configuration, nor of \<open>/etc/eks\<close> and of the
  tracker's own directory - provided the package manager's commands create nothing there.\<close>

theorem uninstall_leaves_nothing:
  assumes "quiet_commands env (owned_paths (un_Artifacts u))" and "Uninstaller_Run env fe c u w = Some (Inr (), w')"
  shows "list_all (\<lambda>p. gone_under p w') (owned_paths (un_Artifacts u))"
  using valid_okD [OF cleans_Uninstaller_Run [OF assms(1), unfolded cleans_def] TrueI assms(2)] .

definition sample_installed :: InstalledArtifacts where
  "sample_installed = sample_artifacts\<lparr>Containerd := ''none'', Kubelet := True, Kubectl := True, CniPlugins := True, IamAuthenticator := True,
     IamRolesAnywhere := True, ImageCredentialProvider := True\<rparr>"

definition sample_uninstaller :: Uninstaller where
  "sample_uninstaller = \<lparr>un_Artifacts = sample_installed, un_PackageManager = sample_pm\<rparr>"

definition sample_node_world :: world where
  "sample_node_world = sample_world\<lparr>fs := [kubectl_BinPath \<mapsto> RegFile ''elf'' 493, kubelet_BinPath \<mapsto> RegFile ''elf'' 493]\<rparr>"

lemma sample_pm_dockerRepo: "dockerRepo sample_pm = []"
  by (simp add: sample_pm_def)

lemma sample_quiet: "quiet_commands sample_env ps"
  by (simp add: quiet_commands_def sample_env_def)

lemma succeeds_sample:
  "succeeds (\<lambda>_. True) (os_RemoveAll sample_env p)" "succeeds (\<lambda>_. True) (StopDaemon sample_env n)" "succeeds (\<lambda>_. True) (GetDaemonStatus sample_env n)"
  "succeeds (\<lambda>_. True) (kubelet_Uninstall sample_env root)"
proof -
  show rm: "succeeds (\<lambda>_. True) (os_RemoveAll sample_env p)" for p
    by (rule succeedsI) (simp add: os_RemoveAll_def sys_def sample_env_def Let_def)
  have dbus: "succeeds (\<lambda>_. True) (dbus_call sample_env op)" for op
    by (rule succeedsI) (simp add: dbus_call_def sample_env_def Let_def)
  then show "succeeds (\<lambda>_. True) (GetDaemonStatus sample_env n)" for n
    unfolding GetDaemonStatus_def by (intro succeeds_bindE succeeds_returnE)
  then show "succeeds (\<lambda>_. True) (StopDaemon sample_env n)"
    unfolding StopDaemon_def by (intro succeeds_bindE) (simp_all add: succeeds_thenE succeeds_returnE dbus)
  have collect: "\<exists>w'. collect_errors (map (os_RemoveAll sample_env) ps) es w = Some (Inr es, w')" for ps es w
  proof (induction ps arbitrary: w)
    case Nil
    show ?case by (simp add: returnE_def)
  next
    case (Cons q ps)
    obtain x w1 where "os_RemoveAll sample_env q w = Some (Inr x, w1)" using succeedsE [OF rm TrueI] by blast
    then show ?case using Cons by (simp add: bindE_def tryE_def)
  qed
  show "succeeds (\<lambda>_. True) (kubelet_Uninstall sample_env root)"
  proof (rule succeedsI)
    fix w
    let ?p = "Join [root, kubeletCurrentCertPath]"
    let ?ps = "kubelet_pathsToRemove root @ (if ?p \<noteq> [] then [?p] else [])"
    have ev: "EvalSymlinks sample_env ?p w = Some (Inr ?p, w\<lparr>steps := Suc (steps w)\<rparr>)" by (simp add: EvalSymlinks_def sample_env_def)
    obtain w' where c: "collect_errors (map (os_RemoveAll sample_env) ?ps) [] (w\<lparr>steps := Suc (steps w)\<rparr>) = Some (Inr [], w')"
      using collect by blast
    have "kubelet_Uninstall sample_env root w = Some (Inr (), w')"
      unfolding kubelet_Uninstall_def bindE_def tryE_def ev option.case prod.case sum.case Let_def c
      by (simp add: join_errors_def errors_Join_def returnE_def)
    then show "\<exists>x w'. kubelet_Uninstall sample_env root w = Some (Inr x, w') \<and> True" by blast
  qed
qed

lemma sample_removal_succeeds:
  assumes "dockerRepo pm = []"
  shows "succeeds (\<lambda>_. True) (Uninstaller_Run sample_env fe c \<lparr>un_Artifacts = sample_installed, un_PackageManager = pm\<rparr>)"
proof -
  let ?u = "\<lparr>un_Artifacts = sample_installed, un_PackageManager = pm\<rparr>"
  have rest: "succeeds (\<lambda>_. True) (uninstallBinaries sample_env c ?u)"
      "succeeds (\<lambda>_. True) (Uninstaller_cleanup sample_env ?u)" "succeeds (\<lambda>_. True) (Clear sample_env)"
    unfolding uninstallBinaries_def Uninstaller_cleanup_def Clear_def kubectl_Uninstall_def cni_Uninstall_def iamauthenticator_Uninstall_def
      iamrolesanywhere_Uninstall_def imagecredentialprovider_Uninstall_def pm_Cleanup_def
    by (simp_all add: assms sample_installed_def sample_artifacts_def whenE_def
        succeeds_thenE succeeds_sample succeeds_returnE)
  have "succeeds (\<lambda>_. True) (bindE (tryE (GetDaemonStatus sample_env n)) (\<lambda>r. case r of Inr _ \<Rightarrow> StopDaemon sample_env n | Inl _ \<Rightarrow> returnE ()))" for n
    by (intro succeeds_bindE succeeds_tryE succeeds_sample, split sum.split) (simp add: succeeds_sample succeeds_returnE)
  then have "succeeds (\<lambda>_. True) (uninstallDaemons sample_env fe c ?u)"
    unfolding uninstallDaemons_def
    by (simp add: sample_installed_def sample_artifacts_def whenE_def ContainerdSourceNone_def
        succeeds_thenE succeeds_sample succeeds_returnE)
  then show ?thesis unfolding Uninstaller_Run_def by (intro succeeds_thenE rest)
qed

theorem uninstall_leaves_nothing_witness:
  "\<exists>w'. Uninstaller_Run sample_env sample_flow None sample_uninstaller sample_node_world = Some (Inr (), w') \<and>
     list_all (\<lambda>p. gone_under p w') (owned_paths sample_installed)"
proof -
  obtain w' where run: "Uninstaller_Run sample_env sample_flow None sample_uninstaller sample_node_world = Some (Inr (), w')"
    using succeedsE [OF sample_removal_succeeds [of sample_pm] TrueI] unfolding sample_uninstaller_def
    by (metis old.unit.exhaust sample_pm_dockerRepo)
  have "un_Artifacts sample_uninstaller = sample_installed" by (simp add: sample_uninstaller_def)
  with uninstall_leaves_nothing [OF sample_quiet run] run show ?thesis by auto
qed

end
