(* ===== verification/Node_State.thy ===== *)
theory Node_State
  imports Cluster_Access
begin

text \<open>
  The node as the cluster sees it: \<open>internal/node\<close> (\<open>pods.go\<close>, \<open>validations.go\<close>) tells whether it is drained, cordoned and
  registered, \<open>internal/nodevalidator\<close> waits for it to register and to become ready, through \<open>internal/kubernetes/wait.go\<close>.

  \<open>node_env\<close> holds the Kubernetes API as this code uses it, the listing of a directory and the YAML decoder. Durations are left out
  of the messages.
\<close>

section \<open>Parameters\<close>

record node_env =
  ne_cluster :: cluster_env
  ne_kubelet :: kubelet_env
  ne_GetNode :: "nat \<Rightarrow> string \<Rightarrow> goerr + kube_node"
  ne_ListPods :: "nat \<Rightarrow> string \<Rightarrow> goerr + pod list"
  ne_IsNotFound :: "goerr \<Rightarrow> bool"
  ne_entries :: "filesystem \<Rightarrow> path \<Rightarrow> string list"
  ne_ObjectMetaName :: "bytes \<Rightarrow> goerr + string"

definition os_ReadDir :: "environment \<Rightarrow> node_env \<Rightarrow> path \<Rightarrow> string list wio" where
  "os_ReadDir env ne p = sys env (OpReadDir p) no_part
     (\<lambda>f. (if is_dir f p then Inr (ne_entries ne f p)
           else if f p = None then Inl (ErrNotExist (''open '' @ p @ '': no such file or directory''))
           else Inl (ErrMsg (''readdirent '' @ p @ '': not a directory'')), f))"

text \<open>\<open>filepath.Ext\<close> of a file name.\<close>

definition Ext :: "string \<Rightarrow> string" where
  "Ext name = (if CHR ''.'' \<in> set name then CHR ''.'' # rev (takeWhile (\<lambda>c. c \<noteq> CHR ''.'') (rev name)) else [])"

section \<open>The pods of the node\<close>

definition daemonSetFilter :: "pod list \<Rightarrow> pod list" where
  "daemonSetFilter pods = filter (\<lambda>p. pod_ControllerKind p \<noteq> Some ''DaemonSet'') pods"

definition defaultStaticPodManifestPath :: path where
  "defaultStaticPodManifestPath = ''/etc/kubernetes/manifest''"

fun static_pod_loop :: "environment \<Rightarrow> node_env \<Rightarrow> string list \<Rightarrow> string list \<Rightarrow> string list wio" where
  "static_pod_loop env ne [] staticPodNames = returnE staticPodNames"
| "static_pod_loop env ne (file # files) staticPodNames =
     (if Ext file = ''.yaml'' \<or> Ext file = ''.yml'' then
        bindE (os_ReadFile env (Join [defaultStaticPodManifestPath, file])) (\<lambda>fileData.
        bindE (wrapE (''failed to unmarshal static pod manifest file: '' @ file) (liftE (ne_ObjectMetaName ne fileData))) (\<lambda>name.
          static_pod_loop env ne files (staticPodNames @ [name])))
      else static_pod_loop env ne files staticPodNames)"

definition getStaticPodsOnNode :: "environment \<Rightarrow> node_env \<Rightarrow> string list wio" where
  "getStaticPodsOnNode env ne =
     bindE (tryE (os_ReadDir env ne defaultStaticPodManifestPath)) (\<lambda>r. case r of
        Inl err \<Rightarrow> if errors_Is_NotExist err then returnE []
                  else throwE (ErrWrap ''failed to read static manifest directory'' err)
      | Inr files \<Rightarrow> static_pod_loop env ne files [])"

definition staticPodsFilter :: "environment \<Rightarrow> node_env \<Rightarrow> pod list \<Rightarrow> pod list wio" where
  "staticPodsFilter env ne pods =
     bindE (getStaticPodsOnNode env ne) (\<lambda>staticPods.
       if staticPods = [] then returnE pods
       else returnE (filter (\<lambda>p. pod_Name p \<notin> set staticPods) pods))"

definition isDrained :: "environment \<Rightarrow> node_env \<Rightarrow> pod list \<Rightarrow> bool wio" where
  "isDrained env ne pods =
     bindE (wrapE ''running filter on pods'' (returnE (daemonSetFilter pods))) (\<lambda>pods1.
     bindE (wrapE ''running filter on pods'' (staticPodsFilter env ne pods1)) (\<lambda>pods2.
       returnE (pods2 = [])))"

section \<open>The node\<close>

definition BuildKubeClient :: "environment \<Rightarrow> node_env \<Rightarrow> unit wio" where
  "BuildKubeClient env ne =
     bindE (file_Exists env EksHybridAwsCredentialsPath) (\<lambda>exists.
       GetKubeClientFromKubeConfig (ne_cluster ne)
         (if exists then [(''AWS_SHARED_CREDENTIALS_FILE'', EksHybridAwsCredentialsPath)] else []))"

definition GetPodsOnNode :: "node_env \<Rightarrow> string \<Rightarrow> pod list wio" where
  "GetPodsOnNode ne nodeName =
     bindE (wrapE ''listing all pods running on the node''
        (ListRetry (ne_cluster ne) (bindE (api_call ''pods'' nodeName (\<lambda>n. ne_ListPods ne n nodeName)) (\<lambda>ps. returnE (PodsReply ps)))))
       (\<lambda>r. case r of PodsReply ps \<Rightarrow> returnE ps | _ \<Rightarrow> panicE)"

definition read_node :: "node_env \<Rightarrow> string \<Rightarrow> reply wio" where
  "read_node ne nodeName = bindE (api_call ''nodes'' nodeName (\<lambda>n. ne_GetNode ne n nodeName)) (\<lambda>k. returnE (NodeReply k))"

definition node_of_reply :: "reply \<Rightarrow> kube_node wio" where
  "node_of_reply r = (case r of NodeReply k \<Rightarrow> returnE k | _ \<Rightarrow> panicE)"

definition getCurrentNode :: "environment \<Rightarrow> node_env \<Rightarrow> kube_node wio" where
  "getCurrentNode env ne =
     bindE (GetNodeName env (ne_kubelet ne)) (\<lambda>nodeName.
       thenE (BuildKubeClient env ne)
        (bindE (GetRetry (ne_cluster ne) (read_node ne nodeName)) node_of_reply))"

definition IsUnscheduled :: "environment \<Rightarrow> node_env \<Rightarrow> unit wio" where
  "IsUnscheduled env ne =
     bindE (tryE (getCurrentNode env ne)) (\<lambda>r. case r of
        Inl err \<Rightarrow> if ne_IsNotFound ne err then returnE () else throwE err
      | Inr node \<Rightarrow> if \<not> kn_Unschedulable node then throwE (ErrMsg ''node is schedulable'') else returnE ())"

definition IsDrained :: "environment \<Rightarrow> node_env \<Rightarrow> bool wio" where
  "IsDrained env ne =
     bindE (wrapE ''getting node name from kubelet'' (GetNodeName env (ne_kubelet ne))) (\<lambda>nodeName.
       thenE (wrapE ''failed to create kubernetes client'' (BuildKubeClient env ne))
        (bindE (wrapE (''getting pods for node '' @ nodeName) (GetPodsOnNode ne nodeName)) (isDrained env ne)))"

definition IsInitialized :: "environment \<Rightarrow> node_env \<Rightarrow> unit wio" where
  "IsInitialized env ne = thenE (getCurrentNode env ne) (returnE ())"

section \<open>Waiting for an object\<close>

definition minWait :: nat where "minWait = 200000000"
definition maxWait :: nat where "maxWait = 5000000000"

definition wait_retrier :: "nat \<Rightarrow> Retrier" where
  "wait_retrier timeout =
     \<lparr>rt_Timeout = timeout, rt_OperationTimeout = 0, rt_Duration = min (max (timeout div 10) minWait) maxWait, rt_Factor = 0, rt_Jitter = 0, rt_Steps = 0\<rparr>"

definition WaitFor :: "cluster_env \<Rightarrow> nat \<Rightarrow> reply wio \<Rightarrow> (reply \<Rightarrow> bool) \<Rightarrow> reply wio" where
  "WaitFor ce timeout read ready =
     Retrier_Do ce (wait_retrier timeout) (Some (MaxConsecutiveErrorHandler 3)) (bindE read (\<lambda>obj. returnE (ready obj, obj)))"

definition GetAndWait :: "node_env \<Rightarrow> nat \<Rightarrow> string \<Rightarrow> (kube_node \<Rightarrow> bool) \<Rightarrow> kube_node wio" where
  "GetAndWait ne timeout name ready =
     bindE (WaitFor (ne_cluster ne) timeout (read_node ne name) (\<lambda>r. case r of NodeReply k \<Rightarrow> ready k | _ \<Rightarrow> False)) node_of_reply"

section \<open>Registration and readiness\<close>

definition hasReadyCondition :: "kube_node \<Rightarrow> bool" where
  "hasReadyCondition node = (case map_of (kn_Conditions node) ''Ready'' of Some status \<Rightarrow> status = ''True'' | None \<Rightarrow> False)"

definition hasInternalIP :: "kube_node \<Rightarrow> bool" where
  "hasInternalIP node = list_ex (\<lambda>(type, address). type = ''InternalIP'' \<and> address \<noteq> []) (kn_Addresses node)"

definition isNetworkAvailable :: "kube_node \<Rightarrow> bool" where
  "isNetworkAvailable node =
     (case map_of (kn_Conditions node) ''NetworkUnavailable'' of Some status \<Rightarrow> status = ''False'' | None \<Rightarrow> True)"

definition isNodeReady :: "kube_node \<Rightarrow> bool" where
  "isNodeReady node =
     (if \<not> hasInternalIP node then False
      else if \<not> isNetworkAvailable node then False
      else if \<not> hasReadyCondition node then False
      else True)"

definition WaitForNodeRegistration :: "environment \<Rightarrow> node_env \<Rightarrow> nat \<Rightarrow> string wio" where
  "WaitForNodeRegistration env ne timeout =
     bindE (wrapE ''failed to get node name from kubelet'' (GetNodeName env (ne_kubelet ne))) (\<lambda>nodeName.
       thenE (mapErrE (\<lambda>err. if ne_IsNotFound ne err
                             then ErrMsg (''node '' @ [CHR 0x27] @ nodeName @ [CHR 0x27] @ '' did not register with the cluster within timeout'')
                             else ErrWrap ''waiting for node registration'' err)
               (GetAndWait ne timeout nodeName (\<lambda>_. True)))
        (returnE nodeName))"

definition WaitForNodeReadiness :: "node_env \<Rightarrow> nat \<Rightarrow> string \<Rightarrow> unit wio" where
  "WaitForNodeReadiness ne timeout nodeName =
     thenE (wrapE (''node '' @ [CHR 0x27] @ nodeName @ [CHR 0x27] @ '' did not become ready within timeout'') (GetAndWait ne timeout nodeName isNodeReady))
      (returnE ())"

record ActiveNodeValidator =
  av_validateRegistration :: bool
  av_validateReadiness :: bool
  av_timeout :: nat

definition NewActiveNodeValidator :: "(ActiveNodeValidator \<Rightarrow> ActiveNodeValidator) list \<Rightarrow> ActiveNodeValidator" where
  "NewActiveNodeValidator opts =
     fold (\<lambda>opt v. opt v) opts \<lparr>av_validateRegistration = True, av_validateReadiness = True, av_timeout = seconds 300\<rparr>"

definition WithNodeRegistration :: "bool \<Rightarrow> ActiveNodeValidator \<Rightarrow> ActiveNodeValidator" where
  "WithNodeRegistration validate v = v\<lparr>av_validateRegistration := validate\<rparr>"

definition WithNodeReadiness :: "bool \<Rightarrow> ActiveNodeValidator \<Rightarrow> ActiveNodeValidator" where
  "WithNodeReadiness validate v = v\<lparr>av_validateReadiness := validate\<rparr>"

definition WithTimeout :: "nat \<Rightarrow> ActiveNodeValidator \<Rightarrow> ActiveNodeValidator" where
  "WithTimeout timeout v = v\<lparr>av_timeout := timeout\<rparr>"

text \<open>The host name stays empty when the registration is not validated. An empty one with a nil error is wrapped like an error.\<close>

definition ActiveNodeValidator_Run :: "environment \<Rightarrow> node_env \<Rightarrow> ActiveNodeValidator \<Rightarrow> unit wio" where
  "ActiveNodeValidator_Run env ne v =
     thenE (with_remediation ''Ensure kubelet is properly configured with valid kubeconfig and the API server is accessible.''
              (BuildClient (ne_cluster ne)))
      (bindE (if av_validateRegistration v then
                bindE (with_remediation ''Detected Hostname: null, verify this node's network connectivity and authentication credentials.''
                         (WaitForNodeRegistration env ne (av_timeout v))) (\<lambda>hostname.
                  if hostname = [] then
                    throwE (WithRemediation (ErrMsg ''<nil>'')
                      ''Detected Hostname: null, verify this node's network connectivity and authentication credentials.'')
                  else returnE hostname)
              else returnE []) (\<lambda>hostname.
         whenE (av_validateReadiness v)
           (with_remediation ''Check kubelet logs and ensure the node has joined the cluster properly.''
              (WaitForNodeReadiness ne (av_timeout v) hostname))))"

section \<open>Facts\<close>

text \<open>Reading the manifests changes no file, and the names come from them.\<close>

definition names_static_pod :: "node_env \<Rightarrow> filesystem \<Rightarrow> string \<Rightarrow> bool" where
  "names_static_pod ne f name \<longleftrightarrow>
     (\<exists>file c m. file \<in> set (ne_entries ne f defaultStaticPodManifestPath) \<and> Ext file \<in> {''.yaml'', ''.yml''} \<and>
        f (Join [defaultStaticPodManifestPath, file]) = Some (RegFile c m) \<and> ne_ObjectMetaName ne c = Inr name)"

lemma ReadFile_run:
  "os_ReadFile env p w = Some (Inr c, w') \<Longrightarrow> fs w' = fs w \<and> (\<exists>m. fs w p = Some (RegFile c m))"
  by (auto simp: os_ReadFile_def sys_def Let_def split: option.splits fnode.splits)

lemma static_pod_loop_names:
  assumes "static_pod_loop env ne files acc w = Some (Inr names, w')"
    and "set files \<subseteq> set (ne_entries ne (fs w) defaultStaticPodManifestPath)" and "list_all (names_static_pod ne (fs w)) acc"
  shows "fs w' = fs w \<and> list_all (names_static_pod ne (fs w)) names"
  using assms
proof (induction files arbitrary: acc w)
  case (Cons x files)
  show ?case
  proof (cases "Ext x = ''.yaml'' \<or> Ext x = ''.yml''")
    case True
    have "bindE (os_ReadFile env (Join [defaultStaticPodManifestPath, x])) (\<lambda>fileData.
        bindE (wrapE (''failed to unmarshal static pod manifest file: '' @ x) (liftE (ne_ObjectMetaName ne fileData))) (\<lambda>name.
          static_pod_loop env ne files (acc @ [name]))) w = Some (Inr names, w')"
      using Cons.prems(1) by (simp only: static_pod_loop.simps if_P [OF True])
    then obtain c w1 where rd: "os_ReadFile env (Join [defaultStaticPodManifestPath, x]) w = Some (Inr c, w1)"
      and k: "bindE (wrapE (''failed to unmarshal static pod manifest file: '' @ x) (liftE (ne_ObjectMetaName ne c))) (\<lambda>name.
          static_pod_loop env ne files (acc @ [name])) w1 = Some (Inr names, w')" by (rule bindE_okE)
    from k obtain name w2 where nm0: "wrapE (''failed to unmarshal static pod manifest file: '' @ x) (liftE (ne_ObjectMetaName ne c)) w1 = Some (Inr name, w2)"
      and rest0: "static_pod_loop env ne files (acc @ [name]) w2 = Some (Inr names, w')" by (rule bindE_okE)
    have nm: "ne_ObjectMetaName ne c = Inr name" and rest: "static_pod_loop env ne files (acc @ [name]) w1 = Some (Inr names, w')"
      using nm0 rest0 by simp_all
    from ReadFile_run [OF rd] have f: "fs w1 = fs w" and m: "\<exists>m. fs w (Join [defaultStaticPodManifestPath, x]) = Some (RegFile c m)" by simp_all
    have "names_static_pod ne (fs w) name" unfolding names_static_pod_def using True m nm Cons.prems(2) by auto
    then show ?thesis using Cons.IH [OF rest] Cons.prems(2,3) by (simp add: f)
  qed (use Cons in simp)
qed simp

lemma ReadDir_run: "os_ReadDir env ne p w = Some (r, w') \<Longrightarrow> fs w' = fs w \<and> (\<forall>es. r = Inr es \<longrightarrow> es = ne_entries ne (fs w) p)"
  by (auto simp: os_ReadDir_def sys_def Let_def split: option.splits if_splits)

lemma getStaticPods_names:
  assumes "getStaticPodsOnNode env ne w = Some (Inr names, w')"
  shows "fs w' = fs w \<and> list_all (names_static_pod ne (fs w)) names"
proof -
  from assms obtain r w1 where rd: "os_ReadDir env ne defaultStaticPodManifestPath w = Some (r, w1)"
    and rest: "(case r of Inl err \<Rightarrow> if errors_Is_NotExist err then returnE [] else throwE (ErrWrap ''failed to read static manifest directory'' err)
      | Inr files \<Rightarrow> static_pod_loop env ne files []) w1 = Some (Inr names, w')"
    unfolding getStaticPodsOnNode_def by (auto simp: bindE_def tryE_def split: option.splits prod.splits)
  show ?thesis
  proof (cases r)
    case (Inl e)
    then show ?thesis using rest ReadDir_run [OF rd] by (auto split: if_splits)
  next
    case (Inr files)
    then have "static_pod_loop env ne files [] w1 = Some (Inr names, w')" using rest by simp
    then show ?thesis using static_pod_loop_names [of env ne files "[]" w1 names w'] ReadDir_run [OF rd] Inr by simp
  qed
qed

text \<open>A pod that does not keep the node from being drained.\<close>

definition bound_to_node :: "string list \<Rightarrow> pod \<Rightarrow> bool" where
  "bound_to_node staticPods p \<longleftrightarrow> pod_ControllerKind p = Some ''DaemonSet'' \<or> pod_Name p \<in> set staticPods"

lemma isDrained_iff:
  assumes "getStaticPodsOnNode env ne w = Some (Inr names, w')"
  shows "isDrained env ne pods w = Some (Inr (list_all (bound_to_node names) pods), w')"
proof -
  have "(filter (\<lambda>p. pod_Name p \<notin> set names) (daemonSetFilter pods) = []) = list_all (bound_to_node names) pods"
    by (auto simp: daemonSetFilter_def filter_empty_conv list_all_iff bound_to_node_def)
  moreover have "names = [] \<Longrightarrow> (daemonSetFilter pods = []) = list_all (bound_to_node names) pods"
    by (auto simp: daemonSetFilter_def filter_empty_conv list_all_iff bound_to_node_def)
  ultimately show ?thesis using assms
    by (cases "names = []") (simp_all add: isDrained_def staticPodsFilter_def bindE_def wrapE_def mapErrE_def returnE_def)
qed

lemma isDrained_runs:
  assumes "isDrained env ne pods w = Some (Inr b, w')"
  shows "\<exists>names. getStaticPodsOnNode env ne w = Some (Inr names, w')"
  using assms
  by (auto simp: isDrained_def staticPodsFilter_def bindE_def wrapE_def mapErrE_def returnE_def throwE_def
      split: option.splits sum.splits prod.splits if_splits)

lemma GetPodsOnNode_ok:
  assumes "waits_for (ne_cluster ne)"
  shows "valid_ok P (GetPodsOnNode ne name) (\<lambda>pods _. \<exists>n. ne_ListPods ne n name = Inr pods)"
proof -
  have "valid_ok P (ListRetry (ne_cluster ne) (bindE (api_call ''pods'' name (\<lambda>n. ne_ListPods ne n name)) (\<lambda>ps. returnE (PodsReply ps))))
      (\<lambda>r _. \<exists>n ps. r = PodsReply ps \<and> ne_ListPods ne n name = Inr ps)"
    by (rule valid_post [OF retryRequest_ok(3) [OF assms]]) (auto simp: api_call_def elim!: bindE_okE)
  then show ?thesis unfolding GetPodsOnNode_def
    by (rule valid_bindE [OF valid_wrapE]) (auto simp: valid_def panicE_def split: reply.splits)
qed

text \<open>What it takes for a drained node.\<close>

lemma IsDrained_ok:
  assumes "waits_for (ne_cluster ne)"
  shows "valid_ok (\<lambda>_. True) (IsDrained env ne) (\<lambda>b w. \<exists>nodeName n pods staticPods. ne_ListPods ne n nodeName = Inr pods \<and>
    list_all (names_static_pod ne (fs w)) staticPods \<and> b = list_all (bound_to_node staticPods) pods)"
    (is "valid_ok _ _ ?Q")
proof -
  have d: "valid_ok (\<lambda>_. \<exists>n. ne_ListPods ne n nodeName = Inr pods) (isDrained env ne pods) ?Q" for nodeName pods
  proof (rule validI)
    fix w b w' assume l: "\<exists>n. ne_ListPods ne n nodeName = Inr pods" and run: "isDrained env ne pods w = Some (Inr b, w')"
    from isDrained_runs [OF run] obtain names where g: "getStaticPodsOnNode env ne w = Some (Inr names, w')" by blast
    show "?Q b w'" using isDrained_iff [OF g, of pods] run getStaticPods_names [OF g] l by fastforce
  qed simp
  have "valid_ok (\<lambda>_. True) (bindE (wrapE m (GetPodsOnNode ne nodeName)) (isDrained env ne)) ?Q" for m nodeName
    by (rule valid_bindE [OF valid_wrapE [OF GetPodsOnNode_ok [OF assms]] d])
  then show ?thesis unfolding IsDrained_def
    by (rule valid_skipB [OF valid_skip])
qed

text \<open>Waiting for an object that is ready.\<close>

lemma read_node_ok: "read_node ne name w0 = Some (Inr r, w') \<Longrightarrow> \<exists>n k. ne_GetNode ne n name = Inr k \<and> r = NodeReply k"
  by (auto simp: read_node_def api_call_def elim!: bindE_okE)

lemma GetAndWait_ok:
  assumes "waits_for (ne_cluster ne)"
  shows "valid_ok P (GetAndWait ne timeout name ready) (\<lambda>k _. \<exists>n. ne_GetNode ne n name = Inr k \<and> ready k)"
proof -
  have "valid_ok P (WaitFor (ne_cluster ne) timeout (read_node ne name) (\<lambda>r. case r of NodeReply k \<Rightarrow> ready k | _ \<Rightarrow> False))
      (\<lambda>r _. \<exists>n k. ne_GetNode ne n name = Inr k \<and> r = NodeReply k \<and> ready k)"
    unfolding WaitFor_def
    by (rule valid_post [OF Retrier_Do_done [OF assms]]) (auto elim!: bindE_okE dest!: read_node_ok)
  then show ?thesis unfolding GetAndWait_def
    by (rule valid_bindE) (auto simp: valid_def node_of_reply_def panicE_def split: reply.splits)
qed

lemma GetNodeName_some: "valid_ok P (GetNodeName env ke) (\<lambda>name _. \<exists>w0 w1. GetNodeName env ke w0 = Some (Inr name, w1))"
  by (auto simp: valid_def split: sum.splits)

lemma WaitForNodeRegistration_ok:
  "valid_ok P (WaitForNodeRegistration env ne timeout) (\<lambda>name _. \<exists>w0 w1. GetNodeName env (ne_kubelet ne) w0 = Some (Inr name, w1))"
proof -
  have "valid_ok (\<lambda>_. \<exists>w0 w1. GetNodeName env (ne_kubelet ne) w0 = Some (Inr name, w1)) (thenE m (returnE name))
      (\<lambda>name _. \<exists>w0 w1. GetNodeName env (ne_kubelet ne) w0 = Some (Inr name, w1))" for name and m :: "kube_node wio"
    by (auto simp: valid_def thenE_def bindE_def split: option.splits sum.splits)
  then show ?thesis unfolding WaitForNodeRegistration_def by (rule valid_bindE [OF valid_wrapE [OF GetNodeName_some]])
qed

lemma WaitForNodeReadiness_ok:
  assumes "waits_for (ne_cluster ne)"
  shows "valid_ok P (WaitForNodeReadiness ne timeout name) (\<lambda>_ _. \<exists>n k. ne_GetNode ne n name = Inr k \<and> isNodeReady k)"
proof -
  have "valid_ok P (wrapE m (GetAndWait ne timeout name isNodeReady)) (\<lambda>_ _. \<exists>n k. ne_GetNode ne n name = Inr k \<and> isNodeReady k)" for m
    by (rule valid_post [OF valid_wrapE [OF GetAndWait_ok [OF assms]]]) auto
  then show ?thesis unfolding WaitForNodeReadiness_def by (rule valid_thenE) (simp add: valid_def)
qed

lemma ActiveNodeValidator_ok:
  assumes "waits_for (ne_cluster ne)" and "av_validateRegistration v" and "av_validateReadiness v"
  shows "valid_ok P (ActiveNodeValidator_Run env ne v)
    (\<lambda>_ _. \<exists>name w0 w1 n k. GetNodeName env (ne_kubelet ne) w0 = Some (Inr name, w1) \<and> name \<noteq> [] \<and> ne_GetNode ne n name = Inr k \<and> isNodeReady k)"
    (is "valid_ok _ _ ?Q")
proof -
  let ?N = "\<lambda>name. name \<noteq> [] \<and> (\<exists>w0 w1. GetNodeName env (ne_kubelet ne) w0 = Some (Inr name, w1))"
  have reg: "valid_ok (\<lambda>_. True) (bindE (with_remediation m (WaitForNodeRegistration env ne (av_timeout v))) (\<lambda>hostname.
      if hostname = [] then throwE e else returnE hostname)) (\<lambda>name _. ?N name)" for m e
    by (rule valid_bindE [OF valid_with_remediation [OF WaitForNodeRegistration_ok]]) (auto simp: valid_def)
  have ready: "valid_ok (\<lambda>_. ?N name) (with_remediation m (WaitForNodeReadiness ne (av_timeout v) name)) ?Q" for m name
    using valid_with_remediation [OF WaitForNodeReadiness_ok [OF assms(1)]] by (fastforce simp: valid_def split: sum.splits)
  show ?thesis unfolding ActiveNodeValidator_Run_def
    by (rule valid_skip, rule valid_bindE [where B = "\<lambda>name _. ?N name"])
      (use reg ready assms(2,3) in \<open>simp_all add: whenE_def\<close>)
qed

section \<open>Properties\<close>



text \<open>A node with one pod of a daemon set and one static pod, and the cluster that knows it.\<close>

definition sample_pods :: "pod list" where
  "sample_pods = [\<lparr>pod_Name = ''cni'', pod_ControllerKind = Some ''DaemonSet''\<rparr>, \<lparr>pod_Name = ''proxy'', pod_ControllerKind = None\<rparr>]"

definition sample_kube_node :: kube_node where
  "sample_kube_node = \<lparr>kn_Unschedulable = True, kn_Addresses = [(''InternalIP'', ''10.0.0.7'')], kn_Conditions = [(''Ready'', ''True'')]\<rparr>"

definition sample_node_env :: node_env where
  "sample_node_env = \<lparr>ne_cluster = sample_cluster_env, ne_kubelet = sample_kubelet_env, ne_GetNode = \<lambda>_ _. Inr sample_kube_node,
     ne_ListPods = \<lambda>_ _. Inr sample_pods, ne_IsNotFound = \<lambda>_. False, ne_entries = \<lambda>_ _. [''proxy.yaml''], ne_ObjectMetaName = Inr\<rparr>"

definition sample_kubelet_world :: world where
  "sample_kubelet_world = sample_world\<lparr>fs :=
     [kubelet_config_path \<mapsto> RegFile (CHR ''.'' # ''eks-hybrid:///us-west-2/demo/mi-0123'') 420,
      defaultStaticPodManifestPath \<mapsto> DirNode 493, Join [defaultStaticPodManifestPath, ''proxy.yaml''] \<mapsto> RegFile ''proxy'' 420]\<rparr>"

definition sample_node_files :: "world \<Rightarrow> bool" where
  "sample_node_files w \<longleftrightarrow> fs w = fs sample_kubelet_world"

lemma sample_kubelet_files:
  assumes "sample_node_files w"
  shows "fs w kubelet_config_path = Some (RegFile (CHR ''.'' # ''eks-hybrid:///us-west-2/demo/mi-0123'') 420)"
    "fs w EksHybridAwsCredentialsPath = None" "is_dir (fs w) defaultStaticPodManifestPath"
    "fs w (Join [defaultStaticPodManifestPath, ''proxy.yaml'']) = Some (RegFile ''proxy'' 420)"
  unfolding assms [unfolded sample_node_files_def] by code_simp+

lemma sample_no_fault: "os_fault sample_env n op = None"
  by (simp add: sample_env_def)

lemma sample_node_name: "node_name_of_provider_id ''eks-hybrid:///us-west-2/demo/mi-0123'' = Some ''mi-0123''"
  by code_simp

lemma sample_GetNodeName:
  assumes "sample_node_files w"
  shows "\<exists>w'. GetNodeName sample_env (ne_kubelet sample_node_env) w = Some (Inr ''mi-0123'', w') \<and> sample_node_files w'"
  using sample_kubelet_files(1) [OF assms] assms sample_node_name
  by (simp add: GetNodeName_def getKubeletConfigFromDisk_def os_ReadFile_def sys_def sample_no_fault Let_def bindE_def wrapE_def mapErrE_def liftE_def
      returnE_def sample_node_env_def sample_kubelet_env_def sample_node_files_def)

lemma sample_Do_once:
  assumes "op w = Some (Inr (True, x), w1)"
  shows "Retrier_Do sample_cluster_env r None op w = Some (Inr x, w1)"
    "Retrier_Do sample_cluster_env r (Some (MaxConsecutiveErrorHandler 3)) op w = Some (Inr x, w1)"
  using assms
  by (simp_all add: Retrier_Do_def sample_cluster_env_def retry_turn_def bindE_def tryE_def returnE_def Do_turn_def Do_result_def
      MaxConsecutiveErrorHandler_def Let_def)

lemma sample_client:
  assumes "sample_node_files w"
  shows "\<exists>w'. BuildKubeClient sample_env sample_node_env w = Some (Inr (), w') \<and> sample_node_files w'"
  using sample_kubelet_files(2) [OF assms] assms
  by (simp add: BuildKubeClient_def file_Exists_def os_Stat_def sys_def sample_no_fault Let_def bindE_def tryE_def returnE_def api_call_def
      sample_node_env_def sample_node_files_def EksHybridAwsCredentialsPath_def GetKubeClientFromKubeConfig_def sample_cluster_env_def
      getE_def wrapE_def mapErrE_def liftE_def)

lemma sample_lists: "ne_ListPods sample_node_env n name = Inr pods \<Longrightarrow> pods = sample_pods"
  "ne_GetNode sample_node_env n name = Inr k \<Longrightarrow> k = sample_kube_node"
  by (simp_all add: sample_node_env_def)

lemma sample_pods_listed:
  assumes "sample_node_files w"
  shows "\<exists>w'. GetPodsOnNode sample_node_env name w = Some (Inr sample_pods, w') \<and> sample_node_files w'"
proof -
  have c: "ne_cluster sample_node_env = sample_cluster_env" by (simp add: sample_node_env_def)
  define op where "op = once_ok (bindE (api_call ''pods'' name (\<lambda>n. ne_ListPods sample_node_env n name)) (\<lambda>ps. returnE (PodsReply ps)))"
  have "op w =
      Some (Inr (True, PodsReply sample_pods), w\<lparr>steps := Suc (steps w), trace := trace w @ [EvApi ''pods'' name]\<rparr>)"
    by (simp add: op_def once_ok_def bindE_def api_call_def returnE_def sample_node_env_def)
  from sample_Do_once(1) [of op w, OF this] show ?thesis using assms
    unfolding GetPodsOnNode_def ListRetry_def retryRequest_def c op_def [symmetric]
    by (simp add: bindE_def wrapE_def mapErrE_def returnE_def sample_node_files_def)
qed

lemma sample_static:
  assumes "sample_node_files w"
  shows "\<exists>w'. getStaticPodsOnNode sample_env sample_node_env w = Some (Inr [''proxy''], w')"
  using sample_kubelet_files(3,4) [OF assms]
  by (simp add: getStaticPodsOnNode_def os_ReadDir_def os_ReadFile_def sys_def sample_no_fault Let_def bindE_def tryE_def wrapE_def mapErrE_def liftE_def
      returnE_def sample_node_env_def Ext_def)


lemma sample_GetAndWait:
  assumes "ready sample_kube_node"
  shows "\<exists>w'. GetAndWait sample_node_env t name ready w = Some (Inr sample_kube_node, w') \<and> fs w' = fs w"
proof -
  have c: "ne_cluster sample_node_env = sample_cluster_env" by (simp add: sample_node_env_def)
  define op where "op = bindE (read_node sample_node_env name) (\<lambda>obj. returnE ((case obj of NodeReply k \<Rightarrow> ready k | _ \<Rightarrow> False), obj))"
  have "op w =
      Some (Inr (True, NodeReply sample_kube_node), w\<lparr>steps := Suc (steps w), trace := trace w @ [EvApi ''nodes'' name]\<rparr>)"
    using assms by (simp add: op_def read_node_def bindE_def api_call_def returnE_def sample_node_env_def)
  from sample_Do_once(2) [of op w, OF this] show ?thesis
    unfolding GetAndWait_def WaitFor_def c op_def [symmetric] by (simp add: bindE_def [of "Retrier_Do _ _ _ _"] node_of_reply_def returnE_def)
qed


end
