(* ===== verification/Commands.thy ===== *)
theory Commands
  imports Config_Source Ec2_Provider Removal Node_State
begin

text \<open>
  The subcommands of \<open>nodeadm\<close> (\<open>cmd/nodeadm\<close>): \<open>install\<close>, \<open>uninstall\<close>, \<open>upgrade\<close>, \<open>init\<close>, \<open>debug\<close> and \<open>config check\<close>, each the
  body of its \<open>Run\<close> over the flows and components below, and the choice of the node provider (\<open>internal/node/node.go\<close>).

  A provider value of the Go interface is the sum of the two providers, \<open>dispatch\<close> its method calls. The command line parser is not
  modelled: the fields of a command are its parsed flags. \<open>ShowHelpAndExit\<close> ends the process with a non-zero status and nothing more
  done; it is an error here. \<open>errors.NewSilent\<close> only keeps an error from being printed twice and is left out.
\<close>

section \<open>Parameters\<close>

record command_env =
  cv_CurrentUid :: "nat \<Rightarrow> goerr + string"
  cv_connect :: "nat \<Rightarrow> goerr option"
  cv_config :: config_env
  cv_flow :: flow_env
  cv_manifest :: manifest_env
  cv_hybrid :: hybrid_env
  cv_ec2 :: ec2_env
  cv_node :: node_env

definition IsRunningAsRoot :: "command_env \<Rightarrow> bool wio" where
  "IsRunningAsRoot cv = bindE (api_call ''user'' [] (cv_CurrentUid cv)) (\<lambda>uid. returnE (uid = ''0''))"

definition ErrMustRunAsRoot :: goerr where
  "ErrMustRunAsRoot = ErrMsg ''must run as root''"

definition must_be_root :: "command_env \<Rightarrow> unit wio" where
  "must_be_root cv = bindE (IsRunningAsRoot cv) (\<lambda>root. if \<not> root then throwE ErrMustRunAsRoot else returnE ())"

definition NewDaemonManager :: "command_env \<Rightarrow> unit wio" where
  "NewDaemonManager cv = api_call ''dbus'' [] (\<lambda>n. case cv_connect cv n of None \<Rightarrow> Inr () | Some e \<Rightarrow> Inl e)"

definition ShowHelpAndExit :: "string \<Rightarrow> 'a wio" where
  "ShowHelpAndExit msg = throwE (ErrMsg msg)"

definition configSourceHelp :: string where
  "configSourceHelp = ''--config-source is a required flag. The format is a URI with supported schemes: [file, imds]. For example on hybrid nodes --config-source file://nodeConfig.yaml''"

definition privateModeError :: goerr where
  "privateModeError = ErrMsg ''--private-mode requires --manifest-override to be specified''"

text \<open>In private mode the package manager is a nil pointer that no flow follows.\<close>

definition no_package_manager :: DistroPackageManager where
  "no_package_manager = \<lparr>manager = [], installVerb = [], updateVerb = [], deleteVerb = [], refreshMetadataVerb = [], dockerRepo = []\<rparr>"

definition release_source :: "environment \<Rightarrow> command_env \<Rightarrow> string \<Rightarrow> string \<Rightarrow> string \<Rightarrow> Source wio" where
  "release_source env cv kubernetesVersion region manifestOverride =
     (if manifestOverride \<noteq> []
      then GetLatestSourceFromManifest env (fe_semver (cv_flow cv)) (me_unmarshal (cv_manifest cv)) kubernetesVersion region manifestOverride
      else GetLatestSource env (fe_semver (cv_flow cv)) (me_unmarshal (cv_manifest cv)) (me_url (cv_manifest cv)) kubernetesVersion region)"

section \<open>Installing\<close>

record install_command =
  ic_kubernetesVersion :: string
  ic_credentialProvider :: string
  ic_containerdSource :: string
  ic_region :: string
  ic_manifestOverride :: string
  ic_privateMode :: bool
  ic_timeout :: nat

definition install_Run :: "environment \<Rightarrow> command_env \<Rightarrow> install_command \<Rightarrow> unit wio" where
  "install_Run env cv ic =
     thenE (must_be_root cv)
      (if ic_credentialProvider ic = []
       then ShowHelpAndExit ''--credential-provider is a required flag. Allowed values are ssm & iam-ra''
       else if ic_privateMode ic \<and> ic_manifestOverride ic = [] then throwE privateModeError
       else
        bindE (liftE (GetCredentialProvider (ic_credentialProvider ic))) (\<lambda>credentialProvider.
        bindE (liftE (ContainerdSource (ic_containerdSource ic))) (\<lambda>containerdSource.
        thenE (ValidateContainerdSource env containerdSource)
         (with_timeout None (ic_timeout ic) (\<lambda>c.
           bindE (release_source env cv (ic_kubernetesVersion ic) (ic_region ic) (ic_manifestOverride ic)) (\<lambda>awsSource.
           bindE (if \<not> ic_privateMode ic then packagemanager_New env containerdSource else returnE no_package_manager) (\<lambda>packageManager.
             Installer_Run env (cv_flow cv) c
               \<lparr>in_AwsSource = awsSource, in_ContainerdSource = containerdSource, in_PackageManager = packageManager,
                in_CredentialProvider = Some credentialProvider, in_SsmRegion = ic_region ic, in_PrivateMode = ic_privateMode ic\<rparr>)))))))"

section \<open>Uninstalling\<close>

definition skipPodPreflightCheck :: string where "skipPodPreflightCheck = ''pod-validation''"
definition skipNodePreflightCheck :: string where "skipNodePreflightCheck = ''node-validation''"
definition initNodePreflightCheck :: string where "initNodePreflightCheck = ''init-validation''"

definition notDrainedError :: goerr where
  "notDrainedError = ErrMsg ''only static pods and pods controlled by daemon-sets can be running on the node. Please move pods to different node or use --skip pod-validation''"

text \<open>The checks on a node whose kubelet runs, before its components are removed or replaced.\<close>

definition preflight :: "environment \<Rightarrow> command_env \<Rightarrow> string list \<Rightarrow> InstalledArtifacts \<Rightarrow> unit wio" where
  "preflight env cv skipPhases artifacts =
     whenE (Kubelet artifacts)
      (bindE (GetDaemonStatus env KubeletDaemonName) (\<lambda>kubeletStatus.
        whenE (kubeletStatus = DaemonStatusRunning)
         (thenE (whenE (skipPodPreflightCheck \<notin> set skipPhases)
                   (bindE (wrapE ''validating if node has been drained'' (IsDrained env (cv_node cv))) (\<lambda>drained.
                     if \<not> drained
                     then throwE notDrainedError
                     else returnE ())))
           (whenE (skipNodePreflightCheck \<notin> set skipPhases)
              (wrapE ''please drain or cordon node to mark it unschedulable or use --skip node-validation'' (IsUnscheduled env (cv_node cv)))))))"

record uninstall_command =
  uc_skipPhases :: "string list"
  uc_force :: bool

definition uninstall_Run :: "environment \<Rightarrow> command_env \<Rightarrow> uninstall_command \<Rightarrow> unit wio" where
  "uninstall_Run env cv uc =
     thenE (must_be_root cv)
      (bindE (tryE (GetInstalledArtifacts env)) (\<lambda>r. case r of
         Inl err \<Rightarrow> if os_IsNotExist err then returnE () else throwE err
       | Inr installed \<Rightarrow>
           thenE (NewDaemonManager cv)
            (thenE (preflight env cv (uc_skipPhases uc) (Artifacts installed))
             (bindE (packagemanager_New env (Containerd (Artifacts installed))) (\<lambda>packageManager.
               thenE (Uninstaller_Run env (cv_flow cv) None \<lparr>un_Artifacts = Artifacts installed, un_PackageManager = packageManager\<rparr>)
                (whenE (uc_force uc) (wrapE ''cleaning up additional directories'' (Cleanup env ''/''))))))))"

section \<open>The node provider\<close>

definition dispatch :: "'a NodeProvider \<Rightarrow> 'b NodeProvider \<Rightarrow> ('a + 'b) NodeProvider" where
  "dispatch a b =
     \<lparr>np_GetNodeConfig = case_sum (np_GetNodeConfig a) (np_GetNodeConfig b),
      np_PopulateNodeConfigDefaults = map_sum (np_PopulateNodeConfigDefaults a) (np_PopulateNodeConfigDefaults b),
      np_ValidateConfig = case_sum (np_ValidateConfig a) (np_ValidateConfig b),
      np_ConfigureAws = \<lambda>c. case_sum (\<lambda>s. bindE (np_ConfigureAws a c s) (\<lambda>s'. returnE (Inl s'))) (\<lambda>s. bindE (np_ConfigureAws b c s) (\<lambda>s'. returnE (Inr s'))),
      np_Enrich = \<lambda>rc. case_sum (\<lambda>s. bindE (np_Enrich a rc s) (\<lambda>s'. returnE (Inl s'))) (\<lambda>s. bindE (np_Enrich b rc s) (\<lambda>s'. returnE (Inr s'))),
      np_Validate = case_sum (np_Validate a) (np_Validate b),
      np_GetAspects = case_sum (np_GetAspects a) (np_GetAspects b),
      np_PreProcessDaemon = \<lambda>c. case_sum (np_PreProcessDaemon a c) (np_PreProcessDaemon b c),
      np_GetDaemons = case_sum (np_GetDaemons a) (np_GetDaemons b),
      np_Cleanup = case_sum (np_Cleanup a) (np_Cleanup b)\<rparr>"

type_synonym node = "HybridNodeProvider + ec2NodeProvider"

definition node_NodeProvider :: "environment \<Rightarrow> command_env \<Rightarrow> node NodeProvider" where
  "node_NodeProvider env cv = dispatch (hybrid_NodeProvider env (cv_hybrid cv)) (ec2_NodeProvider env (cv_ec2 cv))"

definition NewNodeProvider :: "environment \<Rightarrow> command_env \<Rightarrow> string \<Rightarrow> string list option \<Rightarrow> node wio" where
  "NewNodeProvider env cv configSource skipPhases =
     bindE (read_config env (cv_config cv) configSource) (\<lambda>nodeConfig.
       thenE (NewDaemonManager cv)
        (returnE (if IsHybridNode nodeConfig then Inl (NewHybridNodeProvider nodeConfig skipPhases) else Inr (NewEc2NodeProvider nodeConfig))))"

section \<open>Initialising\<close>

definition installValidation :: string where "installValidation = ''install-validation''"
definition cniPortCheckValidation :: string where "cniPortCheckValidation = ''cni-validation''"
definition calicoVxLanPort :: string where "calicoVxLanPort = ''4789''"
definition ciliumVxLanPort :: string where "ciliumVxLanPort = ''8472''"
definition vxLanProtocol :: string where "vxLanProtocol = ''udp''"

definition Phases :: "string list" where
  "Phases = [''install-validation'', ''cni-validation'', ''node-ip-validation'', ''credentials-validation'', ''kubelet-cert-validation'',
     ''ssm-api-network-validation'', ''iam-ra-api-network-validation'', ''aws-auth-validation'', ''k8s-endpoint-network-validation'',
     ''k8s-authentication-validation'', ''kubelet-version-skew-validation'', ''api-server-endpoint-resolution-validation'', ''proxy-validation'',
     ''node-inactive-validation'', ''preprocess'', ''config'', ''run'']"

definition upgradePhases :: "string list" where
  "upgradePhases = Phases @ [''init-validation'', ''pod-validation'', ''node-validation'']"

definition validateFirewallOpenPorts :: "environment \<Rightarrow> unit wio" where
  "validateFirewallOpenPorts env =
     bindE (NewFirewallManager env) (\<lambda>firewallManager.
     bindE (IsEnabled env firewallManager) (\<lambda>enabled.
       if \<not> enabled then returnE ()
       else thenE (FlushRules env firewallManager)
        (bindE (IsPortOpen env firewallManager ciliumVxLanPort vxLanProtocol) (\<lambda>(ciliumVxlanPortOpen, m1).
         bindE (IsPortOpen env m1 calicoVxLanPort vxLanProtocol) (\<lambda>(calicoVxlanPortOpen, _).
           if \<not> ciliumVxlanPortOpen \<and> \<not> calicoVxlanPortOpen then throwE (ErrMsg ''both cilium and calico vxlan ports are closed'')
           else returnE ())))))"

definition vxLanError :: goerr where
  "vxLanError = ErrMsg (''Cilium ('' @ ciliumVxLanPort @ ''/'' @ vxLanProtocol @ '') or Calico ('' @ calicoVxLanPort @ ''/'' @ vxLanProtocol @
     '') VxLan ports are not open on the host. If you are not using VxLan, this validation can by bypassed with --skip '' @ cniPortCheckValidation)"

record initCmd =
  ini_configSource :: string
  ini_skipPhases :: "string list option"
  ini_manifestOverride :: string
  ini_privateMode :: bool

definition init_bootstrap :: "environment \<Rightarrow> command_env \<Rightarrow> initCmd \<Rightarrow> unit wio" where
  "init_bootstrap env cv ini =
     thenE (whenE (cniPortCheckValidation \<notin> set (slice_elems (ini_skipPhases ini))) (mapErrE (\<lambda>_. vxLanError) (validateFirewallOpenPorts env)))
      (bindE (NewNodeProvider env cv (ini_configSource ini) (ini_skipPhases ini)) (\<lambda>nodeProvider.
        thenE (Initer_Run env (cv_manifest cv) (node_NodeProvider env cv) None
                 \<lparr>it_SkipPhases = slice_elems (ini_skipPhases ini), it_ManifestOverride = ini_manifestOverride ini, it_PrivateMode = ini_privateMode ini\<rparr>
                 nodeProvider)
         (returnE ())))"

definition init_Run :: "environment \<Rightarrow> command_env \<Rightarrow> initCmd \<Rightarrow> unit wio" where
  "init_Run env cv ini =
     thenE (must_be_root cv)
      (if ini_configSource ini = [] then ShowHelpAndExit configSourceHelp
       else if ini_privateMode ini \<and> ini_manifestOverride ini = [] then throwE privateModeError
       else if installValidation \<notin> set (slice_elems (ini_skipPhases ini)) then
         bindE (tryE (GetInstalledArtifacts env)) (\<lambda>r. case r of
            Inl err \<Rightarrow> if os_IsNotExist err then returnE () else throwE err
          | Inr _ \<Rightarrow>
              thenE (wrapE ''a systemd unit file for containerd is required to init the node'' (ValidateSystemdUnitFile env)) (init_bootstrap env cv ini))
       else init_bootstrap env cv ini)"

section \<open>Upgrading\<close>

record upgrade_command =
  gc_configSource :: string
  gc_skipPhases :: "string list option"
  gc_kubernetesVersion :: string
  gc_manifestOverride :: string
  gc_privateMode :: bool
  gc_timeout :: nat

definition upgrade_node :: "environment \<Rightarrow> command_env \<Rightarrow> upgrade_command \<Rightarrow> Tracker \<Rightarrow> ctx \<Rightarrow> node wio" where
  "upgrade_node env cv gc installed c =
     bindE (NewNodeProvider env cv (gc_configSource gc) (gc_skipPhases gc)) (\<lambda>np0.
       let np = node_NodeProvider env cv; nodeProvider = np_PopulateNodeConfigDefaults np np0; nodeConfig = np_GetNodeConfig np nodeProvider in
       thenE (np_ValidateConfig np nodeProvider)
        (bindE (liftE (GetCredentialProviderFromNodeConfig nodeConfig)) (\<lambda>credsProvider.
         bindE (liftE (GetCredentialProviderFromInstalledArtifacts (Artifacts installed))) (\<lambda>installedCredsProvider.
          if installedCredsProvider \<noteq> credsProvider
          then throwE (ErrMsg ''upgrade does not support changing credential providers. Please uninstall and install with new credential provider'')
          else
           bindE (release_source env cv (gc_kubernetesVersion gc) (cl_Region (Cluster (Spec nodeConfig))) (gc_manifestOverride gc)) (\<lambda>awsSource.
           thenE (NewDaemonManager cv)
            (thenE (preflight env cv (slice_elems (gc_skipPhases gc)) (Artifacts installed))
             (bindE (if \<not> gc_privateMode gc then packagemanager_New env (Containerd (Artifacts installed)) else returnE no_package_manager) (\<lambda>packageManager.
               Upgrader_Run env (cv_flow cv) np c
                 \<lparr>up_AwsSource = awsSource, up_PackageManager = packageManager, up_CredentialProvider = Some credsProvider,
                  up_Artifacts = Artifacts installed, up_SkipPhases = slice_elems (gc_skipPhases gc), up_PrivateMode = gc_privateMode gc\<rparr>
                 nodeProvider))))))))"

definition upgrade_Run :: "environment \<Rightarrow> command_env \<Rightarrow> upgrade_command \<Rightarrow> unit wio" where
  "upgrade_Run env cv gc =
     thenE (must_be_root cv)
      (if gc_configSource gc = [] then ShowHelpAndExit configSourceHelp
       else if gc_privateMode gc \<and> gc_manifestOverride gc = [] then throwE privateModeError
       else bindE (tryE (GetInstalledArtifacts env)) (\<lambda>r. case r of
          Inl err \<Rightarrow> if os_IsNotExist err then returnE () else throwE err
        | Inr installed \<Rightarrow>
            with_timeout None (gc_timeout gc) (\<lambda>c.
              thenE (whenE (initNodePreflightCheck \<notin> set (slice_elems (gc_skipPhases gc)))
                       (mapErrE (\<lambda>err. ErrMsg (''node not initialized. Please use nodeadm init command to bootstrap a node. err: '' @ error_text err))
                         (IsInitialized env (cv_node cv))))
               (thenE (upgrade_node env cv gc installed c) (returnE ())))))"

section \<open>Checking and debugging\<close>

definition check_Run :: "environment \<Rightarrow> command_env \<Rightarrow> string \<Rightarrow> unit wio" where
  "check_Run env cv configSource =
     thenE (read_config env (cv_config cv) configSource)
      (bindE (NewNodeProvider env cv configSource (Some [])) (np_ValidateConfig (node_NodeProvider env cv)))"

definition ReadConfigAsKubelet :: "command_env \<Rightarrow> NodeConfig \<Rightarrow> aws_config wio" where
  "ReadConfigAsKubelet cv node =
     (let region = cl_Region (Cluster (Spec node)) in
      if \<not> IsHybridNode node then LoadDefaultConfig (cv_hybrid cv) (sdk_default region)
      else if IsSSM node then LoadDefaultConfig (cv_hybrid cv) (sdk_default region)
      else if IsIAMRolesAnywhere node then
        bindE (ra_or_panic node) (\<lambda>ra.
          LoadDefaultConfig (cv_hybrid cv)
            \<lparr>ac_Region = region, ac_SharedConfigFiles = Some [if AwsConfigPath ra = [] then DefaultAWSConfigPath else AwsConfigPath ra],
             ac_SharedCredentialsFiles = None, ac_Profile = ProfileName\<rparr>)
      else throwE (ErrMsg ''don't know how to build aws config for node config: only EC2, SSM or IAM Roles Anywhere are supported''))"

definition api_server_checks :: "environment \<Rightarrow> command_env \<Rightarrow> cluster_env \<Rightarrow> ClusterDetails \<Rightarrow> (NodeConfig, world option) validation list" where
  "api_server_checks env cv ce clusterDetail =
     [New ''k8s-endpoint-network'' (as_validation (AccessValidator_Run ce clusterDetail)),
      New ''k8s-authentication'' (as_validation (\<lambda>_. MakeAuthenticatedRequest ce)),
      New ''k8s-identity'' (as_validation (\<lambda>_. CheckIdentity env ce (fe_semver (cv_flow cv)))),
      New ''k8s-vpc-network'' (as_validation (\<lambda>_. CheckVPCEndpointAccess ce))]"

definition local_checks :: "environment \<Rightarrow> cluster_env \<Rightarrow> (NodeConfig, world option) validation list" where
  "local_checks env ce =
     [New ''ntp-sync'' (as_validation (\<lambda>_. NTPValidator_Run env)),
      New ''swap'' (as_validation (\<lambda>_. SwapValidator_Run env)),
      New ''ulimit'' (as_validation (\<lambda>_. UlimitValidator_Run env)),
      New ''aws-auth'' (as_validation (\<lambda>_. AuthenticationValidator_Run ce)),
      New ''proxy-config'' (as_validation (ProxyValidator_Validate env))]"

text \<open>The validations of \<open>debug\<close>, in the order of their registration. The cluster is read for the address ranges only, and an error of
  it ignored.\<close>

definition debug_validations ::
  "environment \<Rightarrow> command_env \<Rightarrow> cluster_env \<Rightarrow> NodeConfig \<Rightarrow> ClusterDetails \<Rightarrow> eks_cluster option \<Rightarrow> (NodeConfig, world option) validation list" where
  "debug_validations env cv ce nc clusterDetail cluster =
     creds_Validations ce nc @ local_checks env ce @
     [Runner_UntilError (NewRunner []) (api_server_checks env cv ce clusterDetail),
      New ''k8s-certificate'' (as_validation (\<lambda>_. KubeletCertificateValidator_Run env (he_x509 (cv_hybrid cv))
        \<lparr>kcv_certPath = kubeletCurrentCertPath, kcv_ca = (case CertificateAuthority clusterDetail of Some ca \<Rightarrow> ca | None \<Rightarrow> []),
         kcv_ignoreDateAndNoCertErrors = False\<rparr>)),
      New ''network-interface'' (as_validation (\<lambda>node. case NetworkInterfaceValidator_Run (he_ip6 (cv_hybrid cv))
           \<lparr>niv_network = he_network (cv_hybrid cv), validateMTU = True, niv_cluster = map_option ec_RemoteNetworkConfig cluster\<rparr> node of
         None \<Rightarrow> returnE () | Some e \<Rightarrow> throwE e)),
      New ''active-node-validation'' (as_validation (\<lambda>_. ActiveNodeValidator_Run env (cv_node cv) (NewActiveNodeValidator [])))]"

definition debug_Run :: "environment \<Rightarrow> command_env \<Rightarrow> string \<Rightarrow> unit wio" where
  "debug_Run env cv nodeConfigSource =
     (if nodeConfigSource = [] then ShowHelpAndExit configSourceHelp
      else
       bindE (read_config env (cv_config cv) nodeConfigSource) (\<lambda>nodeConfig.
       bindE (ReadConfigAsKubelet cv nodeConfig) (\<lambda>awsConfig.
         let ce = he_clients (cv_hybrid cv) awsConfig in
         bindE (with_remediation ''Ensure the Kubernetes API server endpoint is provided or the node has access and permissions to call EKS DescribeCluster API.''
                  (clusterProvider_ReadClusterDetails ce nodeConfig None)) (\<lambda>(clusterDetail, _).
         bindE (tryE (ReadCluster ce nodeConfig)) (\<lambda>cluster.
           run_steps (Register (NewRunner []) (debug_validations env cv ce nodeConfig clusterDetail (case cluster of Inr cl \<Rightarrow> Some cl | Inl _ \<Rightarrow> None)))
             nodeConfig)))))"

section \<open>The program\<close>

text \<open>\<open>main\<close> and the command container run the first command that the parser has marked as used. The result of \<open>nodeadm_main\<close> is the exit
  status: an error gives 1, whether it is logged or silent, and without a command the help library exits with \<open>help_status\<close>.\<close>

fun used_command :: "(bool \<times> ('w, unit) io) list \<Rightarrow> ('w, unit) io option" where
  "used_command [] = None"
| "used_command ((used, run) # cmds) = (if used then Some run else used_command cmds)"

definition cmdContainer_Run :: "(bool \<times> unit wio) list \<Rightarrow> unit wio" where
  "cmdContainer_Run cmds = (case used_command cmds of Some run \<Rightarrow> run | None \<Rightarrow> ShowHelpAndExit ''No command specified'')"

definition nodeadm_main :: "nat \<Rightarrow> (bool \<times> ('w, unit) io) list \<Rightarrow> 'w \<Rightarrow> (nat \<times> 'w) option" where
  "nodeadm_main help_status cmds w =
     (case used_command cmds of
        None \<Rightarrow> Some (help_status, w)
      | Some run \<Rightarrow> (case run w of
          None \<Rightarrow> None
        | Some (Inl err, w') \<Rightarrow> Some (1, w')
        | Some (Inr _, w') \<Rightarrow> Some (0, w')))"

lemma exit_status_zero_iff:
  assumes "help_status \<noteq> 0"
  shows "nodeadm_main help_status cmds w = Some (0, w') \<longleftrightarrow> (\<exists>run. used_command cmds = Some run \<and> run w = Some (Inr (), w'))"
  using assms by (auto simp: nodeadm_main_def split: option.splits prod.splits sum.splits)

section \<open>Method calls keep the contract\<close>

locale two_providers = first: node_provider a running final + second: node_provider b running final
  for a :: "'a NodeProvider" and b :: "'b NodeProvider" and running :: "string \<Rightarrow> world \<Rightarrow> bool" and final :: string

sublocale two_providers \<subseteq> dispatched: node_provider "dispatch a b" running final
proof
  fix s :: "'a + 'b" and n
  show "valid_ok (\<lambda>_. True) (np_GetDaemons (dispatch a b) s)
      (\<lambda>ds _. ds \<noteq> [] \<and> list_all (starts running) ds \<and> launches_quietly running (last ds) \<and> d_Name (last ds) = final)"
    using first.daemons_start second.daemons_start by (cases s) (simp_all add: dispatch_def)
  show "valid_ok (running n) (np_Cleanup (dispatch a b) s) (\<lambda>_. running n)"
    using first.cleanup_keeps second.cleanup_keeps by (cases s) (simp_all add: dispatch_def)
qed

interpretation node: two_providers "hybrid_NodeProvider env (cv_hybrid cv)" "ec2_NodeProvider env (cv_ec2 cv)"
  "\<lambda>n. reports_status env n DaemonStatusRunning" KubeletDaemonName for env cv
  by unfold_locales

section \<open>Facts\<close>

lemma must_be_root_refuses:
  assumes "cv_CurrentUid cv (steps w) = Inr uid" and "uid \<noteq> ''0''"
  shows "must_be_root cv w = Some (Inl ErrMustRunAsRoot, w\<lparr>steps := Suc (steps w), trace := trace w @ [EvApi ''user'' []]\<rparr>)"
  using assms by (simp add: must_be_root_def IsRunningAsRoot_def bindE_def api_call_def returnE_def throwE_def)

lemma must_be_root_accepts:
  assumes "cv_CurrentUid cv (steps w) = Inr ''0''"
  shows "must_be_root cv w = Some (Inr (), w\<lparr>steps := Suc (steps w), trace := trace w @ [EvApi ''user'' []]\<rparr>)"
  using assms by (simp add: must_be_root_def IsRunningAsRoot_def bindE_def api_call_def returnE_def)

lemma must_be_root_keeps: "must_be_root cv w = Some (r, w') \<Longrightarrow> fs w' = fs w"
  by (auto simp: must_be_root_def IsRunningAsRoot_def bindE_def api_call_def returnE_def throwE_def split: sum.splits if_splits)

lemma thenE_refused: "m w = Some (Inl e, w') \<Longrightarrow> thenE m k w = Some (Inl e, w')"
  by (simp add: thenE_def bindE_def)

lemma thenE_accepted: "m w = Some (Inr x, w') \<Longrightarrow> thenE m k w = k w'"
  by (simp add: thenE_def bindE_def)

lemma bindE_accepted: "m w = Some (Inr x, w') \<Longrightarrow> bindE m k w = k x w'"
  by (simp add: bindE_def)

lemma bindE_try: "m w = Some (r, w') \<Longrightarrow> bindE (tryE m) k w = k r w'"
  by (simp add: bindE_def tryE_def)

text \<open>What a passed preflight has seen of a node whose kubelet runs.\<close>

definition drained_node :: "node_env \<Rightarrow> bool" where
  "drained_node ne \<longleftrightarrow> (\<exists>nodeName n pods f. ne_ListPods ne n nodeName = Inr pods \<and>
     list_all (\<lambda>p. pod_ControllerKind p = Some ''DaemonSet'' \<or> names_static_pod ne f (pod_Name p)) pods)"

definition cordoned_node :: "environment \<Rightarrow> node_env \<Rightarrow> bool" where
  "cordoned_node env ne \<longleftrightarrow> (\<exists>n nodeName k. ne_GetNode ne n nodeName = Inr k \<and> kn_Unschedulable k) \<or>
     (\<exists>w e w'. getCurrentNode env ne w = Some (Inl e, w') \<and> ne_IsNotFound ne e)"

definition safe_to_stop :: "environment \<Rightarrow> command_env \<Rightarrow> string list \<Rightarrow> InstalledArtifacts \<Rightarrow> bool" where
  "safe_to_stop env cv skip a \<longleftrightarrow>
     (if Kubelet a then
        (\<exists>w st w'. GetDaemonStatus env KubeletDaemonName w = Some (Inr st, w') \<and>
           (st = DaemonStatusRunning \<longrightarrow>
             (skipPodPreflightCheck \<in> set skip \<or> drained_node (cv_node cv)) \<and> (skipNodePreflightCheck \<in> set skip \<or> cordoned_node env (cv_node cv))))
      else True)"

lemma IsDrained_drained:
  assumes "waits_for (ne_cluster ne)" and "IsDrained env ne w = Some (Inr True, w')"
  shows "drained_node ne"
proof -
  from valid_okD [OF IsDrained_ok [OF assms(1)] TrueI assms(2)] obtain nodeName n pods staticPods where p: "ne_ListPods ne n nodeName = Inr pods"
    and s: "list_all (names_static_pod ne (fs w')) staticPods" and b: "list_all (bound_to_node staticPods) pods" by auto
  have "list_all (\<lambda>p. pod_ControllerKind p = Some ''DaemonSet'' \<or> names_static_pod ne (fs w') (pod_Name p)) pods"
    using s b by (auto simp: list_all_iff bound_to_node_def)
  with p show ?thesis unfolding drained_node_def by iprover
qed

lemma getCurrentNode_ok:
  assumes "waits_for (ne_cluster ne)"
  shows "valid_ok (\<lambda>_. True) (getCurrentNode env ne) (\<lambda>k _. \<exists>n nodeName. ne_GetNode ne n nodeName = Inr k)"
proof -
  have "valid_ok (\<lambda>_. True) (GetRetry (ne_cluster ne) (read_node ne nodeName)) (\<lambda>r _. \<exists>n k. r = NodeReply k \<and> ne_GetNode ne n nodeName = Inr k)" for nodeName
    by (rule valid_post [OF retryRequest_ok(2) [OF assms]]) (auto dest!: read_node_ok)
  then have "valid_ok (\<lambda>_. True) (bindE (GetRetry (ne_cluster ne) (read_node ne nodeName)) node_of_reply) (\<lambda>k _. \<exists>n nodeName. ne_GetNode ne n nodeName = Inr k)" for nodeName
    by (rule valid_bindE) (auto simp: valid_def node_of_reply_def panicE_def split: reply.splits)
  then show ?thesis unfolding getCurrentNode_def by (rule valid_skipB [OF valid_skip])
qed

lemma IsUnscheduled_cordoned:
  assumes "waits_for (ne_cluster ne)" and "IsUnscheduled env ne w = Some (Inr (), w')"
  shows "cordoned_node env ne"
proof -
  from assms(2) obtain r w1 where g: "getCurrentNode env ne w = Some (r, w1)"
    and k: "case r of Inl err \<Rightarrow> ne_IsNotFound ne err | Inr node \<Rightarrow> kn_Unschedulable node"
    by (cases "getCurrentNode env ne w")
      (auto simp: IsUnscheduled_def bindE_def tryE_def throwE_def returnE_def split: sum.splits if_splits)
  show ?thesis
  proof (cases r)
    case (Inl e)
    with g k show ?thesis unfolding cordoned_node_def by (intro disjI2 exI [of _ w] exI [of _ e] exI [of _ w1]) simp
  next
    case (Inr node)
    from valid_okD [OF getCurrentNode_ok [OF assms(1)] TrueI g [unfolded Inr]] obtain n nodeName where "ne_GetNode ne n nodeName = Inr node" by iprover
    with k Inr show ?thesis unfolding cordoned_node_def by (intro disjI1 exI [of _ n] exI [of _ nodeName] exI [of _ node]) simp
  qed
qed

lemma wrapE_okD: "wrapE msg m w = Some (Inr x, w') \<Longrightarrow> m w = Some (Inr x, w')"
  by (auto simp: wrapE_def mapErrE_def split: option.splits sum.splits prod.splits)

lemma drain_check:
  assumes "waits_for (ne_cluster ne)"
    and "bindE (wrapE msg (IsDrained env ne)) (\<lambda>drained. if \<not> drained then throwE e else returnE ()) w = Some (Inr x, w')"
  shows "drained_node ne"
  using assms(2)
proof (rule bindE_okE)
  fix b w1 assume d: "wrapE msg (IsDrained env ne) w = Some (Inr b, w1)" and "(if \<not> b then throwE e else returnE ()) w1 = Some (Inr x, w')"
  then have b by (cases b) (simp_all add: throwE_def)
  with wrapE_okD [OF d] show ?thesis by (intro IsDrained_drained [OF assms(1)]) simp
qed

lemma whenE_okD: "whenE b m w = Some (Inr x, w') \<Longrightarrow> b \<Longrightarrow> m w = Some (Inr x, w')"
  by (simp add: whenE_def)

lemma preflight_safe:
  assumes "waits_for (ne_cluster (cv_node cv))" and "preflight env cv skip a w = Some (Inr (), w')"
  shows "safe_to_stop env cv skip a"
proof (cases "Kubelet a")
  case True
  from whenE_okD [OF assms(2) [unfolded preflight_def] True] obtain st w1 where st: "GetDaemonStatus env KubeletDaemonName w = Some (Inr st, w1)"
    and rest: "whenE (st = DaemonStatusRunning)
         (thenE (whenE (skipPodPreflightCheck \<notin> set skip)
                   (bindE (wrapE ''validating if node has been drained'' (IsDrained env (cv_node cv))) (\<lambda>drained.
                     if \<not> drained then throwE notDrainedError else returnE ())))
           (whenE (skipNodePreflightCheck \<notin> set skip)
              (wrapE ''please drain or cordon node to mark it unschedulable or use --skip node-validation'' (IsUnscheduled env (cv_node cv))))) w1 = Some (Inr (), w')"
    by (rule bindE_okE)
  have "(skipPodPreflightCheck \<in> set skip \<or> drained_node (cv_node cv)) \<and> (skipNodePreflightCheck \<in> set skip \<or> cordoned_node env (cv_node cv))"
    if "st = DaemonStatusRunning"
    using whenE_okD [OF rest that]
  proof (rule thenE_okE)
    fix x w2
    assume pods: "whenE (skipPodPreflightCheck \<notin> set skip) (bindE (wrapE ''validating if node has been drained'' (IsDrained env (cv_node cv)))
        (\<lambda>drained. if \<not> drained then throwE notDrainedError else returnE ())) w1 = Some (Inr x, w2)"
      and sched: "whenE (skipNodePreflightCheck \<notin> set skip) (wrapE ''please drain or cordon node to mark it unschedulable or use --skip node-validation''
          (IsUnscheduled env (cv_node cv))) w2 = Some (Inr (), w')"
    have "skipPodPreflightCheck \<notin> set skip \<Longrightarrow> drained_node (cv_node cv)" by (rule drain_check [OF assms(1) whenE_okD [OF pods]])
    moreover have "skipNodePreflightCheck \<notin> set skip \<Longrightarrow> cordoned_node env (cv_node cv)"
      by (rule IsUnscheduled_cordoned [OF assms(1) wrapE_okD [OF whenE_okD [OF sched]]])
    ultimately show ?thesis by blast
  qed
  with st True show ?thesis unfolding safe_to_stop_def by auto
qed (simp add: safe_to_stop_def)

text \<open>Reading the tracker finds what is on disk and changes nothing, when a file that exists is not reported as missing.\<close>

definition reads_truthfully :: "environment \<Rightarrow> bool" where
  "reads_truthfully env \<longleftrightarrow> (\<forall>n s. os_fault env n (OpRead trackerFile) \<noteq> Some (ErrNotExist s))"

lemma GetInstalledArtifacts_run:
  assumes "GetInstalledArtifacts env w = Some (r, w')"
  shows "fs w' = fs w" and "r = Inr tr \<Longrightarrow> disk_tracker env (fs w) = Some tr"
proof -
  show "fs w' = fs w"
    using assms by (auto simp: GetInstalledArtifacts_def os_ReadFile_def sys_def Let_def bindE_def wrapE_def mapErrE_def liftE_def returnE_def throwE_def
      split: option.splits sum.splits prod.splits fnode.splits)
  show "r = Inr tr \<Longrightarrow> disk_tracker env (fs w) = Some tr"
    using valid_okD [OF GetInstalledArtifacts_disk refl, of env w tr w'] assms by auto
qed

lemma tracked_step:
  assumes "bindE (tryE (GetInstalledArtifacts env)) (\<lambda>r. case r of Inl err \<Rightarrow> if os_IsNotExist err then returnE y else throwE err | Inr tr \<Rightarrow> k tr) w = Some (Inr x, w')"
    and "reads_truthfully env" and "fs w trackerFile \<noteq> None"
  obtains tr w1 where "disk_tracker env (fs w) = Some tr" and "fs w1 = fs w" and "k tr w1 = Some (Inr x, w')"
proof -
  from assms(1) obtain r w1 where g: "GetInstalledArtifacts env w = Some (r, w1)"
    and rest: "(case r of Inl err \<Rightarrow> if os_IsNotExist err then returnE y else throwE err | Inr tr \<Rightarrow> k tr) w1 = Some (Inr x, w')"
    by (auto simp: bindE_def tryE_def split: option.splits prod.splits)
  show ?thesis
  proof (cases r)
    case (Inr tr)
    with rest GetInstalledArtifacts_run [OF g] show ?thesis using that by simp
  next
    case (Inl e)
    have "\<not> os_IsNotExist e"
      using g assms(2,3) unfolding Inl
      by (auto simp: GetInstalledArtifacts_def os_ReadFile_def sys_def Let_def bindE_def wrapE_def mapErrE_def liftE_def returnE_def throwE_def
          os_IsNotExist_def ContainerdSource_def reads_truthfully_def split: option.splits sum.splits prod.splits fnode.splits if_splits goerr.splits)
    with rest Inl show ?thesis by (simp add: throwE_def)
  qed
qed

section \<open>Properties of the commands\<close>

lemma cleans_Cleanup: "cleans cleanupDirs (Cleanup env ''/'')" and quiet_Cleanup: "quiet qs (Cleanup env ''/'')"
proof -
  have dirs: "Join [''/'', TrimPrefix ''/var/lib/cni'' ''/''] = ''/var/lib/cni''" "Join [''/'', TrimPrefix ''/etc/cni/net.d'' ''/''] = ''/etc/cni/net.d''"
    by code_simp+
  have body: "Cleanup env ''/'' = thenE (wrapE (''removing directory '' @ ''/var/lib/cni'') (os_RemoveAll env ''/var/lib/cni''))
      (thenE (wrapE (''removing directory '' @ ''/etc/cni/net.d'') (os_RemoveAll env ''/etc/cni/net.d'')) (returnE ()))"
    by (simp only: Cleanup_def cleanupDirs_def forE.simps dirs)
  have one: "cleans [p] (wrapE msg (os_RemoveAll env p))" "quiet qs (wrapE msg (os_RemoveAll env p))" for msg p qs
    by (intro cleans_wrapE cleans_RemoveAll quiet_wrapE quiet_os)+
  have tail: "cleans [p] (thenE (wrapE msg (os_RemoveAll env p)) (returnE ()))" for msg p
    using cleans_thenE [OF one(1) subset_refl quiet_intros(1) cleans_Nil, of p msg "()"] by simp
  show "cleans cleanupDirs (Cleanup env ''/'')"
    unfolding body cleanupDirs_def
    using cleans_thenE [OF one(1) _ _ tail, of "''/var/lib/cni''" "[''/var/lib/cni'']"] by (simp add: quiet_thenE one(2) quiet_intros)
  show "quiet qs (Cleanup env ''/'')" unfolding body by (intro quiet_thenE one quiet_intros)
qed

text \<open>C14: A user who is not root can neither install nor uninstall, upgrade or initialise a node: each of the commands ends with the error
  of \<open>cli.ErrMustRunAsRoot\<close> after asking who runs it, whatever its flags, and nothing else of the machine is looked at or changed.\<close>

theorem only_root_changes_the_node:
  assumes "cv_CurrentUid cv (steps w) = Inr uid" and "uid \<noteq> ''0''"
    and "run \<in> {install_Run env cv ic, uninstall_Run env cv uc, upgrade_Run env cv gc, init_Run env cv ini}"
  shows "run w = Some (Inl ErrMustRunAsRoot, w\<lparr>steps := Suc (steps w), trace := trace w @ [EvApi ''user'' []]\<rparr>)"
  using assms(3) thenE_refused [of "must_be_root cv" w, OF must_be_root_refuses [OF assms(1,2)]]
  unfolding install_Run_def uninstall_Run_def upgrade_Run_def init_Run_def by auto

lemma cleans_removal:
  assumes "quiet_commands env (owned_paths (un_Artifacts u))"
  shows "cleans (owned_paths (un_Artifacts u) @ (if force then cleanupDirs else []))
    (thenE (Uninstaller_Run env fe c u) (whenE force (wrapE msg (Cleanup env ''/''))))"
  by (rule cleans_thenE [OF cleans_Uninstaller_Run [OF assms] subset_refl])
    (intro quiet_whenE quiet_wrapE quiet_Cleanup cleans_whenE cleans_wrapE cleans_Cleanup)+

lemma steps_okE:
  assumes "thenE m (thenE p (bindE q k)) w = Some (Inr x, w')"
  obtains w1 a w2 b w3 where "p w1 = Some (Inr a, w2)" and "k b w3 = Some (Inr x, w')"
  using assms by (elim thenE_okE bindE_okE) simp

lemma uninstall_Run_safe:
  assumes "waits_for (ne_cluster (cv_node cv))" and "reads_truthfully env" and "\<forall>a. quiet_commands env (owned_paths a)"
    and "fs w trackerFile \<noteq> None" and "uninstall_Run env cv uc w = Some (Inr (), w')"
  shows "\<exists>tr. disk_tracker env (fs w) = Some tr \<and> safe_to_stop env cv (uc_skipPhases uc) (Artifacts tr) \<and>
    list_all (\<lambda>p. gone_under p w') (owned_paths (Artifacts tr) @ (if uc_force uc then cleanupDirs else []))"
proof -
  from assms(5) obtain x w1 where r: "must_be_root cv w = Some (Inr x, w1)"
    and t: "bindE (tryE (GetInstalledArtifacts env)) (\<lambda>r. case r of
         Inl err \<Rightarrow> if os_IsNotExist err then returnE () else throwE err
       | Inr installed \<Rightarrow>
           thenE (NewDaemonManager cv)
            (thenE (preflight env cv (uc_skipPhases uc) (Artifacts installed))
             (bindE (packagemanager_New env (Containerd (Artifacts installed))) (\<lambda>packageManager.
               thenE (Uninstaller_Run env (cv_flow cv) None \<lparr>un_Artifacts = Artifacts installed, un_PackageManager = packageManager\<rparr>)
                (whenE (uc_force uc) (wrapE ''cleaning up additional directories'' (Cleanup env ''/''))))))) w1 = Some (Inr (), w')"
    unfolding uninstall_Run_def by (rule thenE_okE)
  have f: "fs w1 = fs w" by (rule must_be_root_keeps [OF r])
  then have "fs w1 trackerFile \<noteq> None" using assms(4) by simp
  with t assms(2) show ?thesis
  proof (rule tracked_step)
    fix tr w2
    assume d: "disk_tracker env (fs w1) = Some tr"
      and rest: "thenE (NewDaemonManager cv)
            (thenE (preflight env cv (uc_skipPhases uc) (Artifacts tr))
             (bindE (packagemanager_New env (Containerd (Artifacts tr))) (\<lambda>packageManager.
               thenE (Uninstaller_Run env (cv_flow cv) None \<lparr>un_Artifacts = Artifacts tr, un_PackageManager = packageManager\<rparr>)
                (whenE (uc_force uc) (wrapE ''cleaning up additional directories'' (Cleanup env ''/'')))))) w2 = Some (Inr (), w')"
    from rest obtain w3 w4 pm w5 where p: "preflight env cv (uc_skipPhases uc) (Artifacts tr) w3 = Some (Inr (), w4)"
      and u: "thenE (Uninstaller_Run env (cv_flow cv) None \<lparr>un_Artifacts = Artifacts tr, un_PackageManager = pm\<rparr>)
                (whenE (uc_force uc) (wrapE ''cleaning up additional directories'' (Cleanup env ''/''))) w5 = Some (Inr (), w')"
      by (rule steps_okE) simp
    have "cleans (owned_paths (Artifacts tr) @ (if uc_force uc then cleanupDirs else []))
        (thenE (Uninstaller_Run env (cv_flow cv) None \<lparr>un_Artifacts = Artifacts tr, un_PackageManager = pm\<rparr>)
                (whenE (uc_force uc) (wrapE ''cleaning up additional directories'' (Cleanup env ''/''))))"
      using cleans_removal [of env "\<lparr>un_Artifacts = Artifacts tr, un_PackageManager = pm\<rparr>"] assms(3) by simp
    from valid_okD [OF this [unfolded cleans_def] TrueI u] preflight_safe [OF assms(1) p] d f show ?thesis by (intro exI [of _ tr]) simp
  qed
qed


lemma upgrade_node_okE:
  assumes "upgrade_node env cv gc tr c w = Some (Inr s, w')"
  obtains np w1 w2 p w3 w4 u w5 where "NewNodeProvider env cv (gc_configSource gc) (gc_skipPhases gc) w1 = Some (Inr np, w2)"
    and "GetCredentialProviderFromNodeConfig (np_GetNodeConfig (node_NodeProvider env cv) (np_PopulateNodeConfigDefaults (node_NodeProvider env cv) np)) = Inr p"
    and "GetCredentialProviderFromInstalledArtifacts (Artifacts tr) = Inr p"
    and "preflight env cv (slice_elems (gc_skipPhases gc)) (Artifacts tr) w3 = Some (Inr (), w4)"
    and "up_SkipPhases u = slice_elems (gc_skipPhases gc)"
    and "Upgrader_Run env (cv_flow cv) (node_NodeProvider env cv) c u (np_PopulateNodeConfigDefaults (node_NodeProvider env cv) np) w5 = Some (Inr s, w')"
  using assms unfolding upgrade_node_def Let_def
proof (elim bindE_okE thenE_okE)
  fix np w1 x w2 p w3 q w4
  assume np: "NewNodeProvider env cv (gc_configSource gc) (gc_skipPhases gc) w = Some (Inr np, w1)"
    and p: "liftE (GetCredentialProviderFromNodeConfig (np_GetNodeConfig (node_NodeProvider env cv) (np_PopulateNodeConfigDefaults (node_NodeProvider env cv) np))) w2 = Some (Inr p, w3)"
    and q: "liftE (GetCredentialProviderFromInstalledArtifacts (Artifacts tr)) w3 = Some (Inr q, w4)"
    and rest: "(if q \<noteq> p
          then throwE (ErrMsg ''upgrade does not support changing credential providers. Please uninstall and install with new credential provider'')
          else
           bindE (release_source env cv (gc_kubernetesVersion gc) (cl_Region (Cluster (Spec (np_GetNodeConfig (node_NodeProvider env cv) (np_PopulateNodeConfigDefaults (node_NodeProvider env cv) np))))) (gc_manifestOverride gc)) (\<lambda>awsSource.
           thenE (NewDaemonManager cv)
            (thenE (preflight env cv (slice_elems (gc_skipPhases gc)) (Artifacts tr))
             (bindE (if \<not> gc_privateMode gc then packagemanager_New env (Containerd (Artifacts tr)) else returnE no_package_manager) (\<lambda>packageManager.
               Upgrader_Run env (cv_flow cv) (node_NodeProvider env cv) c
                 \<lparr>up_AwsSource = awsSource, up_PackageManager = packageManager, up_CredentialProvider = Some p,
                  up_Artifacts = Artifacts tr, up_SkipPhases = slice_elems (gc_skipPhases gc), up_PrivateMode = gc_privateMode gc\<rparr>
                 (np_PopulateNodeConfigDefaults (node_NodeProvider env cv) np)))))) w4 = Some (Inr s, w')"
  have eq: "q = p" using rest by (cases "q = p") (simp_all add: throwE_def)
  have pq: "GetCredentialProviderFromNodeConfig (np_GetNodeConfig (node_NodeProvider env cv) (np_PopulateNodeConfigDefaults (node_NodeProvider env cv) np)) = Inr p"
    "GetCredentialProviderFromInstalledArtifacts (Artifacts tr) = Inr p" using p q eq by simp_all
  have "\<not> q \<noteq> p" using eq by simp
  from rest [unfolded if_not_P [OF this]] show thesis
  proof (elim bindE_okE thenE_okE)
    fix src w5 y w6 z w7 pm w8
    assume pre: "preflight env cv (slice_elems (gc_skipPhases gc)) (Artifacts tr) w6 = Some (Inr z, w7)"
      and run: "Upgrader_Run env (cv_flow cv) (node_NodeProvider env cv) c
                 \<lparr>up_AwsSource = src, up_PackageManager = pm, up_CredentialProvider = Some p,
                  up_Artifacts = Artifacts tr, up_SkipPhases = slice_elems (gc_skipPhases gc), up_PrivateMode = gc_privateMode gc\<rparr>
                 (np_PopulateNodeConfigDefaults (node_NodeProvider env cv) np) w8 = Some (Inr s, w')"
    show thesis by (rule that [OF np pq pre [unfolded unit_eq [of z]] _ run]) simp
  qed
qed

lemma upgrade_Run_safe:
  assumes "waits_for (ne_cluster (cv_node cv))" and "reads_truthfully env"
    and "fs w trackerFile \<noteq> None" and "upgrade_Run env cv gc w = Some (Inr (), w')"
  shows "\<exists>tr np w1 w2 p. disk_tracker env (fs w) = Some tr \<and>
    NewNodeProvider env cv (gc_configSource gc) (gc_skipPhases gc) w1 = Some (Inr np, w2) \<and>
    GetCredentialProviderFromNodeConfig (np_GetNodeConfig (node_NodeProvider env cv) (np_PopulateNodeConfigDefaults (node_NodeProvider env cv) np)) = Inr p \<and>
    GetCredentialProviderFromInstalledArtifacts (Artifacts tr) = Inr p \<and>
    safe_to_stop env cv (slice_elems (gc_skipPhases gc)) (Artifacts tr) \<and>
    (if runPhase \<in> set (slice_elems (gc_skipPhases gc)) then True else reports_status env KubeletDaemonName DaemonStatusRunning w')"
proof -
  define body where "body = (\<lambda>installed. with_timeout None (gc_timeout gc) (\<lambda>c.
              thenE (whenE (initNodePreflightCheck \<notin> set (slice_elems (gc_skipPhases gc)))
                       (mapErrE (\<lambda>err. ErrMsg (''node not initialized. Please use nodeadm init command to bootstrap a node. err: '' @ error_text err))
                         (IsInitialized env (cv_node cv))))
               (thenE (upgrade_node env cv gc installed c) (returnE ()))))"
  from assms(4) obtain x w1 where r: "must_be_root cv w = Some (Inr x, w1)"
    and t: "(if gc_configSource gc = [] then ShowHelpAndExit configSourceHelp
       else if gc_privateMode gc \<and> gc_manifestOverride gc = [] then throwE privateModeError
       else bindE (tryE (GetInstalledArtifacts env)) (\<lambda>r. case r of
          Inl err \<Rightarrow> if os_IsNotExist err then returnE () else throwE err | Inr installed \<Rightarrow> body installed)) w1 = Some (Inr (), w')"
    unfolding upgrade_Run_def body_def by (rule thenE_okE)
  have t': "bindE (tryE (GetInstalledArtifacts env)) (\<lambda>r. case r of
          Inl err \<Rightarrow> if os_IsNotExist err then returnE () else throwE err | Inr installed \<Rightarrow> body installed) w1 = Some (Inr (), w')"
    using t by (simp only: ShowHelpAndExit_def throwE_def split: if_splits) simp_all
  have f: "fs w1 = fs w" by (rule must_be_root_keeps [OF r])
  then have "fs w1 trackerFile \<noteq> None" using assms(3) by simp
  with t' assms(2) show ?thesis
  proof (rule tracked_step)
    fix tr w2 assume d: "disk_tracker env (fs w1) = Some tr" and "body tr w2 = Some (Inr (), w')"
    then obtain c s w3 where "upgrade_node env cv gc tr c w3 = Some (Inr s, w')"
      unfolding body_def with_timeout_def by (elim thenE_okE) simp
    then show ?thesis
    proof (rule upgrade_node_okE)
      fix np u1 u2 p u3 u4 u u5
      assume np: "NewNodeProvider env cv (gc_configSource gc) (gc_skipPhases gc) u1 = Some (Inr np, u2)"
        and p: "GetCredentialProviderFromNodeConfig (np_GetNodeConfig (node_NodeProvider env cv) (np_PopulateNodeConfigDefaults (node_NodeProvider env cv) np)) = Inr p"
        and q: "GetCredentialProviderFromInstalledArtifacts (Artifacts tr) = Inr p"
        and pre: "preflight env cv (slice_elems (gc_skipPhases gc)) (Artifacts tr) u3 = Some (Inr (), u4)"
        and sk: "up_SkipPhases u = slice_elems (gc_skipPhases gc)"
        and run: "Upgrader_Run env (cv_flow cv) (node_NodeProvider env cv) c u (np_PopulateNodeConfigDefaults (node_NodeProvider env cv) np) u5 = Some (Inr s, w')"
      have "if runPhase \<in> set (slice_elems (gc_skipPhases gc)) then True else reports_status env KubeletDaemonName DaemonStatusRunning w'"
        using valid_okD [OF node.dispatched.upgrade_runs TrueI run [unfolded node_NodeProvider_def]] sk by simp
      with np p q preflight_safe [OF assms(1) pre] d f show ?thesis
        by (intro exI [of _ tr] exI [of _ np] exI [of _ u1] exI [of _ u2] exI [of _ p]) simp
    qed
  qed
qed


text \<open>On a machine without a tracker the commands \<open>uninstall\<close>, \<open>upgrade\<close> and \<open>init\<close> report success for root without having changed a
  file, run a command or called a service.\<close>

theorem nothing_installed_nothing_done:
  assumes "cv_CurrentUid cv (steps w) = Inr ''0''" and "fs w trackerFile = None" and "os_fault env (Suc (steps w)) (OpRead trackerFile) = None"
    and "gc_configSource gc \<noteq> []" and "gc_privateMode gc \<longrightarrow> gc_manifestOverride gc \<noteq> []"
    and "ini_configSource ini \<noteq> []" and "ini_privateMode ini \<longrightarrow> ini_manifestOverride ini \<noteq> []"
    and "installValidation \<notin> set (slice_elems (ini_skipPhases ini))"
    and "run \<in> {uninstall_Run env cv uc, upgrade_Run env cv gc, init_Run env cv ini}"
  shows "\<exists>w'. run w = Some (Inr (), w') \<and> fs w' = fs w \<and> trace w' = trace w @ [EvApi ''user'' []]"
proof -
  define w1 where "w1 = w\<lparr>steps := Suc (steps w), trace := trace w @ [EvApi ''user'' []]\<rparr>"
  have root: "thenE (must_be_root cv) k w = k w1" for k :: "unit wio"
    using thenE_accepted [of "must_be_root cv" w, OF must_be_root_accepts [OF assms(1)]] by (simp add: w1_def)
  have g: "GetInstalledArtifacts env w1 = Some (Inl (ErrNotExist (''open '' @ trackerFile @ '': no such file or directory'')), w1\<lparr>steps := Suc (steps w1)\<rparr>)"
    using assms(2,3) by (simp add: GetInstalledArtifacts_def bindE_def os_ReadFile_def sys_def Let_def w1_def)
  have step: "bindE (tryE (GetInstalledArtifacts env)) (\<lambda>r. case r of Inl err \<Rightarrow> if os_IsNotExist err then returnE () else throwE err | Inr tr \<Rightarrow> k tr) w1
      = Some (Inr (), w1\<lparr>steps := Suc (steps w1)\<rparr>)" for k
    by (simp add: bindE_def tryE_def g os_IsNotExist_def returnE_def)
  have "run w = Some (Inr (), w1\<lparr>steps := Suc (steps w1)\<rparr>)"
    using assms(4-9) step root unfolding uninstall_Run_def upgrade_Run_def init_Run_def by auto
  then show ?thesis by (simp add: w1_def)
qed

text \<open>Phases that may be skipped by name, although no validation has that name.\<close>

lemma listed_phase_skips_nothing:
  assumes "phase \<in> {''credentials-validation'', ''ssm-api-network-validation'', ''iam-ra-api-network-validation'', ''k8s-endpoint-network-validation'',
      ''k8s-authentication-validation''}"
  shows "phase \<in> set Phases" and "list_all (\<lambda>v. Name v \<noteq> phase) (hybrid_validations env he hnp)"
proof -
  show "phase \<in> set Phases" using assms by (elim insertE emptyE) (simp_all add: Phases_def)
  show "list_all (\<lambda>v. Name v \<noteq> phase) (hybrid_validations env he hnp)"
    using assms by (elim insertE emptyE) (simp_all add: hybrid_validations_def creds_Validations_def New_def Let_def)
qed

text \<open>Actions whose errors are never warnings.\<close>

definition never_warns :: "'a wio \<Rightarrow> bool" where
  "never_warns m \<longleftrightarrow> (\<forall>w e w'. m w = Some (Inl e, w') \<longrightarrow> \<not> list_all IsWarning (Unwrap e))"

lemma remediation_no_warning: "\<not> list_all IsWarning (Unwrap (WithRemediation e msg))"
  by (simp add: Unwrap_def IsWarning_def WithRemediation_def)

lemma never_warns_intros:
  "never_warns (with_remediation msg m)" "never_warns (returnE x)" "never_warns (throwE (WithRemediation e msg))"
  "never_warns m \<Longrightarrow> never_warns k' \<Longrightarrow> never_warns (thenE m k')" "never_warns m \<Longrightarrow> (\<And>x. never_warns (k x)) \<Longrightarrow> never_warns (bindE m k)"
  "never_warns u \<Longrightarrow> never_warns (whenE b u)"
  by (auto simp: never_warns_def with_remediation_def mapErrE_def returnE_def throwE_def thenE_def bindE_def whenE_def remediation_no_warning
      split: option.splits sum.splits prod.splits if_splits)

lemma passed_run: "passed m nc \<Longrightarrow> never_warns (m nc) \<Longrightarrow> \<exists>w x w'. m nc w = Some (Inr x, w')"
proof -
  assume "passed m nc" and n: "never_warns (m nc)"
  then obtain w r w' where run: "m nc w = Some (r, w')" and r: "case r of Inr _ \<Rightarrow> True | Inl e \<Rightarrow> list_all IsWarning (Unwrap e)"
    by (auto simp: passed_def)
  have "\<exists>x. r = Inr x" using n run r by (cases r) (auto simp: never_warns_def)
  with run show ?thesis by iprover
qed

lemma ActiveNodeValidator_never_warns: "never_warns (ActiveNodeValidator_Run env ne v)"
  unfolding ActiveNodeValidator_Run_def
  by (auto intro!: never_warns_intros)

text \<open>A chain of steps is a step.\<close>

lemma UntilError_steps: "UntilError (map as_validation ms) nc s = as_validation (\<lambda>nc. forE ms (\<lambda>m. m nc)) nc s"
  by (induction ms arbitrary: s)
    (auto simp: as_validation_def thenE_def bindE_def returnE_def split: option.splits sum.splits prod.splits)

lemma Runner_UntilError_step:
  assumes "list_all is_step vs"
  shows "is_step (Runner_UntilError (NewRunner []) vs)"
proof -
  have "\<exists>ms. map Validate vs = map as_validation ms" using assms
  proof (induction vs)
    case (Cons v vs)
    then obtain m ms where "Validate v = as_validation m" "map Validate vs = map as_validation ms" by (auto simp: is_step_def)
    then show ?case by (intro exI [of _ "m # ms"]) simp
  qed simp
  then obtain ms where "map Validate vs = map as_validation ms" by iprover
  then have "Validate (Runner_UntilError (NewRunner []) vs) = as_validation (\<lambda>nc. forE ms (\<lambda>m. m nc))"
    by (simp add: Runner_UntilError_def Let_def New_def NewRunner_def shouldRegister_def UntilError_steps fun_eq_iff)
  then show ?thesis unfolding is_step_def by iprover
qed

lemma debug_steps: "list_all is_step (debug_validations env cv ce nc cd cl)"
proof -
  have "is_step (New n (as_validation m))" for n m unfolding is_step_def New_def by (intro exI [of _ m]) simp
  then show ?thesis
    by (simp add: debug_validations_def creds_Validations_def local_checks_def api_server_checks_def Runner_UntilError_step)
qed

lemma debug_Run_ready:
  assumes "waits_for (ne_cluster (cv_node cv))" and "debug_Run env cv source w = Some (Inr (), w')"
  shows "\<exists>name w0 w1 n k. GetNodeName env (ne_kubelet (cv_node cv)) w0 = Some (Inr name, w1) \<and> ne_GetNode (cv_node cv) n name = Inr k \<and>
    hasInternalIP k \<and> isNetworkAvailable k \<and> hasReadyCondition k"
proof -
  let ?v = "NewActiveNodeValidator []"
  have "source \<noteq> []" using assms(2) by (auto simp: debug_Run_def ShowHelpAndExit_def throwE_def)
  with assms(2) obtain ce nc cd cl w1 where
    run: "run_steps (Register (NewRunner []) (debug_validations env cv ce nc cd cl)) nc w1 = Some (Inr (), w')"
    unfolding debug_Run_def Let_def by (simp split del: if_split split: prod.splits) (elim bindE_okE, simp split: prod.splits, elim bindE_okE, simp)
  have vs: "validations (Register (NewRunner []) (debug_validations env cv ce nc cd cl)) = debug_validations env cv ce nc cd cl"
    by (simp add: Register_eq NewRunner_def)
  have "New ''active-node-validation'' (as_validation (\<lambda>_. ActiveNodeValidator_Run env (cv_node cv) ?v)) \<in> set (debug_validations env cv ce nc cd cl)"
    by (simp add: debug_validations_def)
  with run_steps_passed [OF _ run] debug_steps have "passed (\<lambda>_. ActiveNodeValidator_Run env (cv_node cv) ?v) nc" unfolding vs by iprover
  from passed_run [OF this ActiveNodeValidator_never_warns] obtain u u' where ok: "ActiveNodeValidator_Run env (cv_node cv) ?v u = Some (Inr (), u')" by auto
  have "av_validateRegistration ?v" "av_validateReadiness ?v" by (simp_all add: NewActiveNodeValidator_def)
  from valid_okD [OF ActiveNodeValidator_ok [OF assms(1) this] TrueI ok] show ?thesis by (auto simp: isNodeReady_def split: if_splits)
qed


section \<open>A concrete command line\<close>

definition sample_hybrid :: hybrid_env where
  "sample_hybrid = \<lparr>he_ssm = sample_ssm, he_x509 = sample_x509, he_clients = \<lambda>_. sample_cluster_env, he_LoadDefaultConfig = \<lambda>_ _. None,
     he_background = \<lambda>_ f. f, he_lookupHost = \<lambda>_. Inr [], he_network = sample_netstack, he_ip6 = \<lambda>_. None, he_kubelet = sample_kubelet_env,
     he_image = xe_image sample_ec2, he_ParseVersion = sample_parse\<rparr>"

definition sample_commands :: "string \<Rightarrow> command_env" where
  "sample_commands uid = \<lparr>cv_CurrentUid = \<lambda>_. Inr uid, cv_connect = \<lambda>_. None, cv_config = sample_config_env, cv_flow = sample_flow,
     cv_manifest = \<lparr>me_unmarshal = \<lambda>_. Inr sample_manifest, me_url = ''https://releases''\<rparr>, cv_hybrid = sample_hybrid, cv_ec2 = sample_ec2,
     cv_node = sample_node_env\<rparr>"

definition sample_install :: install_command where
  "sample_install = \<lparr>ic_kubernetesVersion = ''1.31'', ic_credentialProvider = ''iam-ra'', ic_containerdSource = ''none'', ic_region = ''us-west-2'',
     ic_manifestOverride = [], ic_privateMode = False, ic_timeout = seconds 1200\<rparr>"

definition sample_uninstall :: uninstall_command where
  "sample_uninstall = \<lparr>uc_skipPhases = [skipPodPreflightCheck, skipNodePreflightCheck], uc_force = True\<rparr>"

definition sample_upgrade :: upgrade_command where
  "sample_upgrade = \<lparr>gc_configSource = ''imds://user-data'', gc_skipPhases = None, gc_kubernetesVersion = ''1.31'', gc_manifestOverride = [],
     gc_privateMode = False, gc_timeout = seconds 1200\<rparr>"

definition sample_init :: initCmd where
  "sample_init = \<lparr>ini_configSource = ''imds://user-data'', ini_skipPhases = None, ini_manifestOverride = [], ini_privateMode = False\<rparr>"

theorem only_root_changes_the_node_witness:
  "fst (the (uninstall_Run sample_env (sample_commands ''1000'') sample_uninstall sample_world)) = Inl ErrMustRunAsRoot"
proof -
  have "cv_CurrentUid (sample_commands ''1000'') (steps sample_world) = Inr ''1000''" by (simp add: sample_commands_def)
  from only_root_changes_the_node [OF this, where env = sample_env and uc = sample_uninstall and run = "uninstall_Run sample_env (sample_commands ''1000'') sample_uninstall"]
  show ?thesis by simp
qed

theorem nothing_installed_nothing_done_witness:
  "\<exists>w'. init_Run sample_env (sample_commands ''0'') sample_init sample_world = Some (Inr (), w') \<and> fs w' = fs sample_world"
proof -
  have "cv_CurrentUid (sample_commands ''0'') (steps sample_world) = Inr ''0''" "fs sample_world trackerFile = None"
    "os_fault sample_env (Suc (steps sample_world)) (OpRead trackerFile) = None"
    by (simp_all add: sample_commands_def sample_world_def sample_env_def)
  from nothing_installed_nothing_done [OF this, where gc = sample_upgrade and ini = sample_init and uc = sample_uninstall
      and run = "init_Run sample_env (sample_commands ''0'') sample_init"]
  show ?thesis by (auto simp: sample_upgrade_def sample_init_def slice_elems_def)
qed

lemma sample_command_laws: "waits_for (ne_cluster (cv_node (sample_commands uid)))" "reads_truthfully sample_env"
  using sample_waits by (simp_all add: sample_commands_def sample_node_env_def reads_truthfully_def sample_env_def)



definition sample_tracked_world :: world where
  "sample_tracked_world = sample_world\<lparr>fs := [trackerFile \<mapsto> RegFile (encode_tracker \<lparr>Artifacts = sample_installed\<rparr>) 420, kubectl_BinPath \<mapsto> RegFile ''elf'' 493]\<rparr>"

lemma sample_disk:
  assumes "fs w = fs sample_tracked_world"
  shows "\<exists>w'. GetInstalledArtifacts sample_env w = Some (Inr \<lparr>Artifacts = sample_installed\<rparr>, w')"
proof -
  have f: "fs w trackerFile = Some (RegFile (encode_tracker \<lparr>Artifacts = sample_installed\<rparr>) 420)"
    unfolding assms sample_tracked_world_def by (simp add: trackerFile_def kubectl_BinPath_def)
  have "yaml_unmarshal sample_env (encode_tracker \<lparr>Artifacts = sample_installed\<rparr>) = Inr \<lparr>Artifacts = sample_installed\<rparr>"
    by (simp add: sample_env_def decode_tracker_def encode_tracker_def flag_char_def Let_def sample_installed_def sample_artifacts_def)
  moreover have "ContainerdSource (Containerd sample_installed) = Inr (Containerd sample_installed)"
    by (simp add: sample_installed_def ContainerdSource_def ContainerdSourceNone_def)
  ultimately show ?thesis using f
    by (simp add: GetInstalledArtifacts_def bindE_def os_ReadFile_def sys_def sample_no_fault Let_def wrapE_def mapErrE_def liftE_def returnE_def)
qed

lemma sample_removal_command_succeeds:
  assumes "fs w = fs sample_tracked_world"
  shows "\<exists>w'. uninstall_Run sample_env (sample_commands ''0'') sample_uninstall w = Some (Inr (), w')"
proof -
  let ?cv = "sample_commands ''0''" and ?a = sample_installed
  define w1 where "w1 = w\<lparr>steps := Suc (steps w), trace := trace w @ [EvApi ''user'' []]\<rparr>"
  have root: "must_be_root ?cv w = Some (Inr (), w1)"
    unfolding w1_def by (rule must_be_root_accepts) (simp add: sample_commands_def)
  obtain w2 where g: "GetInstalledArtifacts sample_env w1 = Some (Inr \<lparr>Artifacts = ?a\<rparr>, w2)"
    using sample_disk [of w1] assms by (auto simp: w1_def)
  have dm: "succeeds (\<lambda>_. True) (NewDaemonManager ?cv)"
    by (rule succeedsI) (simp add: NewDaemonManager_def api_call_def sample_commands_def)
  have pre: "succeeds (\<lambda>_. True) (preflight sample_env ?cv (uc_skipPhases sample_uninstall) ?a)"
    unfolding preflight_def by (simp add: sample_uninstall_def whenE_def thenE_unit succeeds_bindE succeeds_sample succeeds_returnE succeeds_thenE)
  have clean: "succeeds (\<lambda>_. True) (Cleanup sample_env ''/'')"
    unfolding Cleanup_def cleanupDirs_def by (simp add: succeeds_thenE succeeds_wrapE succeeds_sample succeeds_returnE)
  define pm where "pm = \<lparr>manager = yumPackageManager, installVerb = packageManagerInstallCmd yumPackageManager, updateVerb = packageManagerUpdateCmd yumPackageManager,
         deleteVerb = packageManagerDeleteCmd yumPackageManager, refreshMetadataVerb = packageManagerMetadataRefreshCmd yumPackageManager, dockerRepo = []\<rparr>"
  have new: "packagemanager_New sample_env (Containerd ?a) w = Some (Inr pm, w)" for w
    by (simp add: packagemanager_New_def getOsPackageManager_def bindE_def getE_def returnE_def sample_env_def sample_installed_def ContainerdSourceDocker_def pm_def)
  have rm: "succeeds (\<lambda>_. True) (thenE (Uninstaller_Run sample_env (cv_flow ?cv) None \<lparr>un_Artifacts = ?a, un_PackageManager = pm\<rparr>)
      (whenE (uc_force sample_uninstall) (wrapE ''cleaning up additional directories'' (Cleanup sample_env ''/''))))"
    by (intro succeeds_thenE sample_removal_succeeds) (simp_all add: pm_def sample_uninstall_def whenE_def succeeds_wrapE clean)
  obtain w3 where w3: "NewDaemonManager ?cv w2 = Some (Inr (), w3)" using succeedsE [OF dm TrueI] by (metis old.unit.exhaust)
  obtain w4 where w4: "preflight sample_env ?cv (uc_skipPhases sample_uninstall) ?a w3 = Some (Inr (), w4)" using succeedsE [OF pre TrueI] by (metis old.unit.exhaust)
  obtain w5 where w5: "thenE (Uninstaller_Run sample_env (cv_flow ?cv) None \<lparr>un_Artifacts = ?a, un_PackageManager = pm\<rparr>)
      (whenE (uc_force sample_uninstall) (wrapE ''cleaning up additional directories'' (Cleanup sample_env ''/''))) w4 = Some (Inr (), w5)"
    using succeedsE [OF rm TrueI] by (metis old.unit.exhaust)
  have "uninstall_Run sample_env ?cv sample_uninstall w = Some (Inr (), w5)"
    unfolding uninstall_Run_def thenE_accepted [of "must_be_root ?cv" w, OF root]
    by (simp only: bindE_try [of "GetInstalledArtifacts sample_env" w1, OF g] sum.case Tracker.simps thenE_accepted [of "NewDaemonManager ?cv" w2, OF w3]
        thenE_accepted [of "preflight sample_env ?cv (uc_skipPhases sample_uninstall) ?a" w3, OF w4]
        bindE_accepted [of "packagemanager_New sample_env (Containerd ?a)" w4, OF new] w5)
  then show ?thesis by iprover
qed


end
