(* ===== verification/Tracker_Spec.thy ===== *)
theory Tracker_Spec
  imports Commands
begin

text \<open>
  The contract of the artifact tracker (\<open>internal/tracker/artifacts.go\<close>): an abstract specification as two sets of names, the proof that the
  operations of the code refine it over any sequence of calls, and the type of what the tracker records about containerd.
\<close>

section \<open>The tracker as a set\<close>

text \<open>What the tracker promises: two sets of artifact names, one in memory and one on disk, the latter absent before the first save
  and after a removal. The operations of the code are run by \<open>tracker_run\<close>, those of the specification by \<open>tracker_spec\<close>.\<close>

datatype tracker_op = Op_Add string | Op_Save | Op_Clear | Op_Load

type_synonym tracker_state = "string set \<times> string set option"

fun tracker_spec :: "tracker_op \<Rightarrow> tracker_state \<Rightarrow> tracker_state" where
  "tracker_spec (Op_Add n) (M, D) = (insert n M, D)"
| "tracker_spec Op_Save (M, D) = (M, Some M)"
| "tracker_spec Op_Clear (M, D) = (M, None)"
| "tracker_spec Op_Load (M, D) = (case D of Some S \<Rightarrow> S | None \<Rightarrow> {}, D)"

fun tracker_run :: "environment \<Rightarrow> tracker_op \<Rightarrow> unit wio" where
  "tracker_run env (Op_Add n) = Tracker_Add n"
| "tracker_run env Op_Save = Save env"
| "tracker_run env Op_Clear = Clear env"
| "tracker_run env Op_Load = bindE (GetCurrentState env) (\<lambda>tr. modifyE (\<lambda>w. w\<lparr>tracker_obj := tr\<rparr>))"

definition tracked_names :: "Tracker \<Rightarrow> string set" where
  "tracked_names tr = {n. is_tracked (Artifacts tr) n}"

definition tracker_abs :: "environment \<Rightarrow> world \<Rightarrow> tracker_state" where
  "tracker_abs env w = (tracked_names (tracker_obj w), map_option tracked_names (disk_tracker env (fs w)))"

text \<open>A read that fails and a decoder that refuses do not claim that the file is missing.\<close>

definition missing_is_missing :: "environment \<Rightarrow> bool" where
  "missing_is_missing env \<longleftrightarrow>
     (\<forall>n e. os_fault env n (OpRead trackerFile) = Some e \<longrightarrow> \<not> errors_Is_NotExist e) \<and>
     (\<forall>d e. yaml_unmarshal env d = Inl e \<longrightarrow> \<not> errors_Is_NotExist e)"

lemma names_of_Add: "Add tr n = Inr tr' \<Longrightarrow> tracked_names tr' = insert n (tracked_names tr)"
  using Add_tracked(1) [of tr n tr'] by (auto simp: tracked_names_def)

lemma names_of_source: "tracked_names (tr\<lparr>Artifacts := (Artifacts tr)\<lparr>Containerd := s\<rparr>\<rparr>) = tracked_names tr"
  by (simp add: tracked_names_def is_tracked_source)

lemma names_of_nothing: "tracked_names \<lparr>Artifacts = no_artifacts\<rparr> = {}"
  by (simp add: tracked_names_def is_tracked_def no_artifacts_def)

lemma Add_sim: "Tracker_Add n w = Some (Inr x, w') \<Longrightarrow> tracker_abs env w' = tracker_spec (Op_Add n) (tracker_abs env w)"
  by (cases "Add (tracker_obj w) n") (auto simp: Tracker_Add_def bindE_def getE_def modifyE_def throwE_def tracker_abs_def names_of_Add)

lemma Save_memory:
  assumes "Save env w = Some (Inr x, w')"
  obtains src where "ContainerdSource (Containerd (Artifacts (tracker_obj w))) = Inr src"
    and "tracker_obj w' = (tracker_obj w)\<lparr>Artifacts := (Artifacts (tracker_obj w))\<lparr>Containerd := src\<rparr>\<rparr>"
proof (cases "ContainerdSource (Containerd (Artifacts (tracker_obj w)))")
  case (Inr src)
  define tr where "tr = (tracker_obj w)\<lparr>Artifacts := (Artifacts (tracker_obj w))\<lparr>Containerd := src\<rparr>\<rparr>"
  from assms Inr have run: "bindE (liftE (yaml_marshal env tr)) (\<lambda>data. WriteFileWithDir env trackerFile data 420) (w\<lparr>tracker_obj := tr\<rparr>) = Some (Inr x, w')"
    by (simp add: Save_def Let_def tr_def thenE_def bindE_def getE_def modifyE_def)
  have keep: "preserves (\<lambda>w. tracker_obj w = tr) (bindE (liftE (yaml_marshal env tr)) (\<lambda>data. WriteFileWithDir env trackerFile data 420))"
    by (intro preserves_bindE preserves_liftE WriteFileWithDir_tracker)
  have "tracker_obj w' = tr" by (rule valid_okD [OF keep _ run]) simp
  with Inr show ?thesis unfolding tr_def by (rule that)
qed (use assms in \<open>simp add: Save_def bindE_def getE_def throwE_def\<close>)

lemma Save_sim:
  assumes "yaml_roundtrip env" and "Save env w = Some (Inr x, w')"
  shows "tracker_abs env w' = tracker_spec Op_Save (tracker_abs env w)"
  using valid_okD [OF Save_ok [OF assms(1)] TrueI assms(2)] assms(2) by (auto elim!: Save_memory simp: tracker_abs_def names_of_source)

lemma Clear_sim:
  assumes "Clear env w = Some (Inr x, w')"
  shows "tracker_abs env w' = tracker_spec Op_Clear (tracker_abs env w)"
proof -
  have "tracker_obj w' = tracker_obj w"
    using valid_okD [OF preserves_off_fs(8) [OF off_fs_tracker [where P = "\<lambda>t. t = tracker_obj w"]] refl assms [unfolded Clear_def]] .
  moreover have "fs w' trackerFile = None" using valid_okD [OF Clear_ok [where P = "\<lambda>_. True"] TrueI assms] .
  ultimately show ?thesis by (simp add: tracker_abs_def disk_tracker_def)
qed

lemma GetCurrentState_names:
  assumes "missing_is_missing env" and "GetCurrentState env w = Some (Inr tr, w')"
  shows "fs w' = fs w" and "tracked_names tr = (case map_option tracked_names (disk_tracker env (fs w)) of Some S \<Rightarrow> S | None \<Rightarrow> {})"
proof -
  obtain r where g: "GetInstalledArtifacts env w = Some (r, w')" and r: "r = Inr tr \<or> (\<exists>e. r = Inl e \<and> errors_Is_NotExist e \<and> tr = \<lparr>Artifacts = no_artifacts\<rparr>)"
    using assms(2) by (auto simp: GetCurrentState_def bindE_def tryE_def returnE_def throwE_def split: option.splits sum.splits if_splits)
  show "fs w' = fs w" by (rule GetInstalledArtifacts_run(1) [OF g])
  have "disk_tracker env (fs w) = None" if "r = Inl e" "errors_Is_NotExist e" for e
    using g assms(1) that
    by (auto simp: GetInstalledArtifacts_def os_ReadFile_def sys_def Let_def bindE_def wrapE_def mapErrE_def liftE_def returnE_def throwE_def
        ContainerdSource_def missing_is_missing_def disk_tracker_def split: option.splits sum.splits prod.splits fnode.splits if_splits)
  with r show "tracked_names tr = (case map_option tracked_names (disk_tracker env (fs w)) of Some S \<Rightarrow> S | None \<Rightarrow> {})"
    using GetInstalledArtifacts_run(2) [OF g] by (auto simp: names_of_nothing)
qed

lemma tracker_sim:
  assumes "yaml_roundtrip env" and "missing_is_missing env" and "tracker_run env op w = Some (Inr x, w')"
  shows "tracker_abs env w' = tracker_spec op (tracker_abs env w)"
proof (cases op)
  case Op_Load
  with assms(3) obtain tr w1 where "GetCurrentState env w = Some (Inr tr, w1)" "w' = w1\<lparr>tracker_obj := tr\<rparr>"
    by (auto simp: modifyE_def elim!: bindE_okE)
  then show ?thesis using GetCurrentState_names [OF assms(2), of w tr w1] Op_Load by (simp add: tracker_abs_def)
qed (use assms Add_sim Save_sim Clear_sim in auto)

text \<open>C12: The tracker refines a set of artifact names: after any sequence of adding artifacts, saving, removing and loading the tracker
  that succeeds, the names it records in memory and those it records on disk are the ones the same sequence gives on two plain sets.\<close>

theorem tracker_refines_set:
  assumes "yaml_roundtrip env" and "missing_is_missing env" and "forE ops (tracker_run env) w = Some (Inr x, w')"
  shows "tracker_abs env w' = fold tracker_spec ops (tracker_abs env w)"
  using assms(3)
proof (induction ops arbitrary: w)
  case (Cons op ops)
  then obtain y w1 where "tracker_run env op w = Some (Inr y, w1)" "forE ops (tracker_run env) w1 = Some (Inr x, w')"
    by (auto elim!: thenE_okE)
  then show ?case using Cons.IH tracker_sim [OF assms(1,2)] by fastforce
qed (simp add: returnE_def)

theorem tracker_refines_set_witness:
  "\<exists>w'. forE [Op_Add artifact_Kubelet, Op_Save, Op_Load] (tracker_run sample_env) sample_world = Some (Inr (), w') \<and>
     tracker_abs sample_env w' = fold tracker_spec [Op_Add artifact_Kubelet, Op_Save, Op_Load] (tracker_abs sample_env sample_world)"
proof -
  let ?run = "forE [Op_Add artifact_Kubelet, Op_Save, Op_Load] (tracker_run sample_env)"
  have "?run sample_world \<noteq> None" "fst (the (?run sample_world)) = Inr ()" by code_simp+
  then have run: "?run sample_world = Some (Inr (), snd (the (?run sample_world)))" by (rule run_the)
  have "missing_is_missing sample_env"
    by (auto simp: missing_is_missing_def sample_env_def decode_tracker_def split: list.splits)
  from run tracker_refines_set [OF sample_facts(2) this run] show ?thesis by (intro exI conjI)
qed

section \<open>The type of the recorded containerd source\<close>

definition well_typed :: "Tracker \<Rightarrow> bool" where
  "well_typed tr \<longleftrightarrow> Containerd (Artifacts tr) \<in> set [ContainerdSourceNone, ContainerdSourceDistro, ContainerdSourceDocker]"

lemma ContainerdSource_typed: "ContainerdSource s = Inr src \<Longrightarrow> src \<in> set [ContainerdSourceNone, ContainerdSourceDistro, ContainerdSourceDocker]"
  by (auto simp: ContainerdSource_def split: if_splits)

lemma disk_tracker_typed: "disk_tracker env f = Some tr \<Longrightarrow> well_typed tr"
  by (auto simp: disk_tracker_def well_typed_def dest: ContainerdSource_typed split: option.splits sum.splits fnode.splits)

text \<open>C40: A tracker that the code reads from disk or has saved always names one of the three sources of containerd, whatever bytes the
  file held before, and recording a component keeps it so. The removal of containerd relies on it.\<close>

theorem tracker_well_typed:
  "valid_ok (\<lambda>_. True) (GetInstalledArtifacts env) (\<lambda>tr _. well_typed tr) \<and>
   valid_ok (\<lambda>_. True) (Save env) (\<lambda>_ w. well_typed (tracker_obj w)) \<and>
   preserves (\<lambda>w. well_typed (tracker_obj w)) (Tracker_Add n)"
proof (intro conjI)
  show "valid_ok (\<lambda>_. True) (GetInstalledArtifacts env) (\<lambda>tr _. well_typed tr)"
    by (rule validI) (auto dest: GetInstalledArtifacts_run(2) disk_tracker_typed)
  show "valid_ok (\<lambda>_. True) (Save env) (\<lambda>_ w. well_typed (tracker_obj w))"
    by (rule validI) (auto simp: well_typed_def dest: ContainerdSource_typed elim!: Save_memory)
  show "preserves (\<lambda>w. well_typed (tracker_obj w)) (Tracker_Add n)"
    unfolding well_typed_def by (rule Tracker_Add_containerd)
qed

end
