(* ===== verification/Sync_Artifacts.thy ===== *)
theory Sync_Artifacts
  imports Install_Liveness
begin

text \<open>
  \<open>cmd/nodeadm/sync_artifacts\<close>: mirroring the artifacts of a release to an S3 bucket and writing
  the manifest that makes private installations use the mirror.

  The state is the machine and the objects of the bucket. The AWS configuration loader, the
  bucket check, the uploader and the YAML encoder are the record \<open>sync_env\<close>. S3 puts an object
  whole or not at all. The time of the synchronisation is the clock in seconds.
\<close>

section \<open>State and services\<close>

type_synonym bucket = "string \<rightharpoonup> bytes"
type_synonym 'a sync = "(world \<times> bucket, 'a) io"

definition on_world :: "'a wio \<Rightarrow> 'a sync" where
  "on_world m = (\<lambda>(w, b). map_option (\<lambda>(r, w'). (r, (w', b))) (m w))"

record sync_env =
  se_semver :: semver
  se_unmarshal :: "bytes \<Rightarrow> goerr + Manifest"
  se_marshal :: "Manifest \<Rightarrow> goerr + bytes"
  se_manifestUrl :: string
  se_LoadDefaultConfig :: "nat \<Rightarrow> goerr + unit"
  se_HeadBucket :: "nat \<Rightarrow> goerr + unit"
  se_Upload :: "nat \<Rightarrow> goerr + unit"
  se_cwd :: path

text \<open>\<open>uploader.Upload\<close> reads the body to its end; an error of the body is an error of the upload.\<close>

definition s3_upload :: "sync_env \<Rightarrow> string \<Rightarrow> stream \<Rightarrow> unit sync" where
  "s3_upload se s3Key body =
     thenE (on_world (api_call ''s3.Upload'' s3Key (se_Upload se)))
      (case snd body of
         Some e \<Rightarrow> throwE e
       | None \<Rightarrow> modifyE (\<lambda>(w, b). (w, b(s3Key \<mapsto> fst body))))"

section \<open>The downloader\<close>

record Downloader =
  dl_AwsSource :: Source
  dl_Arch :: string
  dl_OS :: string
  dl_Region :: string
  dl_S3Bucket :: string
  dl_S3Prefix :: string
  dl_SyncTimestamp :: nat

record ArtifactInfo =
  ai_Name :: string
  ai_URL :: string
  ai_ChecksumURL :: string
  ai_LocalPath :: path

definition findArtifact :: "Downloader \<Rightarrow> Artifact_entry list \<Rightarrow> string \<Rightarrow> Artifact_entry option" where
  "findArtifact d artifacts name = find (\<lambda>a. ar_Name a = name \<and> ar_Arch a = dl_Arch d \<and> ar_OS a = dl_OS d) artifacts"

definition dns_suffix :: "Downloader \<Rightarrow> string" where
  "dns_suffix d =
     (let dnsSuffix = DnsSuffix (RegionInfo (dl_AwsSource d)) in
      if dnsSuffix = [] then GetPartitionDNSSuffix (GetPartitionFromRegionFallback (dl_Region d)) else dnsSuffix)"

definition sync_detectPlatformVariant :: "Downloader \<Rightarrow> goerr + string" where
  "sync_detectPlatformVariant d =
     (if dl_OS d = ''linux'' then Inr ''linux'' else Inl (ErrMsg (''unsupported OS: '' @ dl_OS d)))"

definition getSSMInstallerURL :: "Downloader \<Rightarrow> goerr + string" where
  "getSSMInstallerURL d =
     (case sync_detectPlatformVariant d of
        Inl e \<Rightarrow> Inl e
      | Inr variant \<Rightarrow>
          Inr (''https://amazon-ssm-'' @ dl_Region d @ ''.s3.'' @ dl_Region d @ ''.'' @ dns_suffix d @ ''/latest/'' @
               variant @ ''_'' @ dl_Arch d @ ''/ssm-setup-cli''))"

definition collect_from :: "Downloader \<Rightarrow> Artifact_entry list \<Rightarrow> path \<Rightarrow> string \<Rightarrow> ArtifactInfo list" where
  "collect_from d entries dir name =
     (case findArtifact d entries name of
        None \<Rightarrow> []
      | Some a \<Rightarrow> [\<lparr>ai_Name = name, ai_URL = ar_URI a, ai_ChecksumURL = ar_ChecksumURI a, ai_LocalPath = dir @ name\<rparr>])"

definition eks_names :: "string list" where
  "eks_names = [''kubelet'', ''kubectl'', ''cni-plugins'', ''ecr-credential-provider'', ''aws-iam-authenticator'']"

definition collectArtifacts :: "Downloader \<Rightarrow> goerr + ArtifactInfo list" where
  "collectArtifacts d =
     (let artifacts =
            concat (map (collect_from d (ep_Artifacts (Eks (dl_AwsSource d))) ''eks/'') eks_names) @
            collect_from d (ir_Artifacts (Iam (dl_AwsSource d))) ''iam-ra/'' ''aws_signing_helper'' @
            (case getSSMInstallerURL d of
               Inl _ \<Rightarrow> []
             | Inr installerURL \<Rightarrow>
                 [\<lparr>ai_Name = ''ssm-setup-cli'', ai_URL = installerURL, ai_ChecksumURL = [], ai_LocalPath = ''ssm/ssm-setup-cli''\<rparr>,
                  \<lparr>ai_Name = ''ssm-setup-cli.sig'', ai_URL = installerURL @ ''.sig'', ai_ChecksumURL = [], ai_LocalPath = ''ssm/ssm-setup-cli.sig''\<rparr>])
      in if artifacts = [] then Inl (ErrMsg (''no artifacts found for architecture '' @ dl_Arch d @ '' and OS '' @ dl_OS d))
         else Inr artifacts)"

definition TrimSuffix :: "string \<Rightarrow> string \<Rightarrow> string" where
  "TrimSuffix s suf = (if HasSuffix s suf then take (length s - length suf) s else s)"

text \<open>One attempt, no retry; the reason phrase of the response is left out of the message.\<close>

definition streamToS3 :: "environment \<Rightarrow> sync_env \<Rightarrow> string \<Rightarrow> string \<Rightarrow> unit sync" where
  "streamToS3 env se url s3Key =
     bindE (wrapE ''making request'' (on_world (http_Get env url))) (\<lambda>resp.
       if StatusCode resp \<noteq> 200 then throwE (ErrMsg (''HTTP '' @ dec_digits (StatusCode resp)))
       else wrapE ''uploading to S3 using manager'' (s3_upload se s3Key (Body resp)))"

definition s3_key :: "Downloader \<Rightarrow> path \<Rightarrow> string" where
  "s3_key d localPath = TrimSuffix (dl_S3Prefix d) ''/'' @ ''/'' @ dec_digits (dl_SyncTimestamp d) @ ''/'' @ localPath"

text \<open>A checksum that cannot be mirrored is only logged.\<close>

definition syncArtifactToS3 :: "environment \<Rightarrow> sync_env \<Rightarrow> Downloader \<Rightarrow> ArtifactInfo \<Rightarrow> unit sync" where
  "syncArtifactToS3 env se d a =
     (let s3Key = s3_key d (ai_LocalPath a) in
      thenE (wrapE (''streaming '' @ ai_Name a @ '' to S3'') (streamToS3 env se (ai_URL a) s3Key))
       (whenE (ai_ChecksumURL a \<noteq> [])
         (bindE (tryE (streamToS3 env se (ai_ChecksumURL a) (s3Key @ ''.sha256''))) (\<lambda>_. returnE ()))))"

section \<open>The manifest of the mirror\<close>

definition baseS3URL :: "Downloader \<Rightarrow> string" where
  "baseS3URL d =
     ''https://'' @ dl_S3Bucket d @ ''.s3.'' @ dl_Region d @ ''.'' @ dns_suffix d @ ''/'' @ TrimSuffix (dl_S3Prefix d) ''/'' @ ''/'' @
     dec_digits (dl_SyncTimestamp d)"

definition mirrored :: "Downloader \<Rightarrow> ArtifactInfo \<Rightarrow> Artifact_entry" where
  "mirrored d a =
     \<lparr>ar_Name = ai_Name a, ar_Arch = dl_Arch d, ar_OS = dl_OS d, ar_URI = baseS3URL d @ ''/'' @ ai_LocalPath a,
      ar_ChecksumURI = (if ai_ChecksumURL a \<noteq> [] then baseS3URL d @ ''/'' @ ai_LocalPath a @ ''.sha256'' else []), ar_GzipURI = []\<rparr>"

definition in_iam :: "ArtifactInfo \<Rightarrow> bool" where "in_iam a = HasPrefix (ai_LocalPath a) ''iam-ra/''"
definition in_eks :: "ArtifactInfo \<Rightarrow> bool" where "in_eks a = (\<not> in_iam a \<and> HasPrefix (ai_LocalPath a) ''eks/'')"
definition in_ssm :: "ArtifactInfo \<Rightarrow> bool" where "in_ssm a = (\<not> in_iam a \<and> \<not> in_eks a \<and> HasPrefix (ai_LocalPath a) ''ssm/'')"

definition extractMajorMinor :: "string \<Rightarrow> string" where
  "extractMajorMinor version = (case split_on CHR ''.'' version of a # b # _ \<Rightarrow> a @ ''.'' @ b | _ \<Rightarrow> version)"

definition custom_manifest :: "Downloader \<Rightarrow> ArtifactInfo list \<Rightarrow> Manifest" where
  "custom_manifest d artifacts =
     (let src = dl_AwsSource d;
          eksArtifacts = map (mirrored d) (filter in_eks artifacts);
          iamArtifacts = map (mirrored d) (filter in_iam artifacts);
          ssmArtifacts = map (mirrored d) (filter in_ssm artifacts);
          provider = (\<lambda>n. case CredProviders (RegionInfo src) n of Some b \<Rightarrow> b | None \<Rightarrow> False)
      in \<lparr>SupportedEksReleases =
            [\<lparr>MajorMinorVersion = extractMajorMinor (ep_Version (Eks src)), LatestPatchVersion = ep_PatchVersion (Eks src),
              PatchReleases = [\<lparr>ep_Version = ep_Version (Eks src), ep_PatchVersion = ep_PatchVersion (Eks src),
                                ep_ReleaseDate = ep_ReleaseDate (Eks src), ep_Artifacts = eksArtifacts\<rparr>]\<rparr>],
          IamRolesAnywhereReleases =
            (if iamArtifacts \<noteq> [] then [\<lparr>ir_Version = ir_Version (Iam src), ir_Artifacts = iamArtifacts\<rparr>] else []),
          SsmReleases = (if ssmArtifacts \<noteq> [] then [\<lparr>ir_Version = ''latest'', ir_Artifacts = ssmArtifacts\<rparr>] else []),
          RegionConfig =
            [dl_Region d \<mapsto> \<lparr>EcrAccountID = EcrAccountID (RegionInfo src), Partition = [], DnsSuffix = [],
              CredProviders = [''iam-ra'' \<mapsto> provider ''iam-ra'', ''ssm'' \<mapsto> provider ''ssm'']\<rparr>]\<rparr>)"

definition manifest_file :: "sync_env \<Rightarrow> Downloader \<Rightarrow> path" where
  "manifest_file se d = Join [se_cwd se, ''manifest-'' @ ep_Version (Eks (dl_AwsSource d)) @ ''-'' @ dl_Arch d @ ''-'' @ dl_OS d @ ''-'' @
     dec_digits (dl_SyncTimestamp d) @ ''.yaml'']"

definition generateCustomManifest :: "environment \<Rightarrow> sync_env \<Rightarrow> Downloader \<Rightarrow> ArtifactInfo list \<Rightarrow> unit wio" where
  "generateCustomManifest env se d artifacts =
     bindE (wrapE ''marshaling manifest to YAML'' (liftE (se_marshal se (custom_manifest d artifacts)))) (\<lambda>yamlData.
       wrapE (''writing manifest file '' @ manifest_file se d) (os_WriteFile env (manifest_file se d) yamlData 420))"

definition Downloader_Run :: "environment \<Rightarrow> sync_env \<Rightarrow> Downloader \<Rightarrow> unit sync" where
  "Downloader_Run env se d =
     bindE (wrapE ''collecting artifacts'' (liftE (collectArtifacts d))) (\<lambda>artifacts.
      thenE (forE artifacts (\<lambda>a. wrapE (''sync artifact '' @ ai_Name a) (syncArtifactToS3 env se d a)))
       (wrapE ''generating custom manifest'' (on_world (generateCustomManifest env se d artifacts))))"

section \<open>The command\<close>

record sync_command =
  sc_kubernetesVersion :: string
  sc_arch :: string
  sc_os :: string
  sc_region :: string
  sc_s3Bucket :: string
  sc_s3Prefix :: string

text \<open>Any other error of \<open>HeadBucket\<close> is passed over.\<close>

definition validateS3Bucket :: "sync_env \<Rightarrow> string \<Rightarrow> unit wio" where
  "validateS3Bucket se bucketName =
     bindE (tryE (api_call ''s3.HeadBucket'' bucketName (se_HeadBucket se))) (\<lambda>r. case r of
        Inr _ \<Rightarrow> returnE ()
      | Inl err \<Rightarrow>
          let t = error_text err in
          if Contains t ''NotFound'' \<or> Contains t ''NoSuchBucket'' \<or> Contains t ''MovedPermanently''
          then throwE (ErrMsg (''bucket '' @ [CHR 0x27] @ bucketName @ [CHR 0x27] @ '' does not exist''))
          else if Contains t ''Forbidden'' \<or> Contains t ''AccessDenied''
          then throwE (ErrMsg (''access denied to bucket '' @ [CHR 0x27] @ bucketName @ [CHR 0x27] @ '' - check your AWS credentials and bucket permissions''))
          else returnE ())"

definition sync_command_Run :: "environment \<Rightarrow> sync_env \<Rightarrow> sync_command \<Rightarrow> unit sync" where
  "sync_command_Run env se c =
     bindE (on_world (GetLatestSource env (se_semver se) (se_unmarshal se) (se_manifestUrl se) (sc_kubernetesVersion c) (sc_region c))) (\<lambda>awsSource.
       if sc_s3Bucket c = [] then throwE (ErrMsg ''--s3-bucket is required'')
       else if sc_s3Prefix c = [] then throwE (ErrMsg ''--s3-prefix is required'')
       else
         thenE (wrapE ''failed to load AWS config'' (on_world (api_call ''LoadDefaultConfig'' (sc_region c) (se_LoadDefaultConfig se))))
          (thenE (wrapE ''S3 bucket validation failed'' (on_world (validateS3Bucket se (sc_s3Bucket c))))
            (bindE (on_world (getE clock)) (\<lambda>now.
              Downloader_Run env se
                \<lparr>dl_AwsSource = awsSource, dl_Arch = sc_arch c, dl_OS = sc_os c, dl_Region = sc_region c, dl_S3Bucket = sc_s3Bucket c,
                 dl_S3Prefix = sc_s3Prefix c, dl_SyncTimestamp = now div 1000000000\<rparr>))))"

section \<open>The mirror is complete\<close>

lemma on_world_ok: "on_world m (w, b) = Some (r, (w', b')) \<longleftrightarrow> m w = Some (r, w') \<and> b' = b"
  by (auto simp: on_world_def)

lemma valid_on_world:
  "(\<And>b. valid (\<lambda>w. P (w, b)) m (\<lambda>x w. Q x (w, b)) (\<lambda>e w. R e (w, b))) \<Longrightarrow> valid P (on_world m) Q R"
  by (fastforce simp: valid_def on_world_def split: sum.splits)

text \<open>What was fetched from an address: a body delivered to its end by some response.\<close>

definition fetched :: "environment \<Rightarrow> string \<Rightarrow> bytes \<Rightarrow> bool" where
  "fetched env url c \<longleftrightarrow> (\<exists>n. http_get env n url = Inr \<lparr>StatusCode = 200, Body = (c, None)\<rparr>)"

definition stored :: "environment \<Rightarrow> string \<Rightarrow> string \<Rightarrow> bucket \<Rightarrow> bool" where
  "stored env url key b \<longleftrightarrow> (\<exists>c. fetched env url c \<and> b key = Some c)"

lemma http_Get_answers: "valid_ok P (on_world (http_Get env url)) (\<lambda>resp _. \<exists>n. http_get env n url = Inr resp)"
  by (auto simp: valid_def on_world_def http_Get_def split: sum.splits)

lemma s3_upload_puts: "valid_ok (\<lambda>_. True) (s3_upload se key body) (\<lambda>_ s. snd body = None \<and> snd s key = Some (fst body))"
proof -
  have "valid_ok (\<lambda>_. True) (case snd body of Some e \<Rightarrow> throwE e | None \<Rightarrow> modifyE (\<lambda>(w, b). (w, b(key \<mapsto> fst body))))
      (\<lambda>_ s. snd body = None \<and> snd s key = Some (fst body))"
    by (cases "snd body") (auto simp: valid_def)
  then show ?thesis unfolding s3_upload_def by (rule valid_thenE [rotated]) (auto simp: valid_def split: sum.splits)
qed

lemma streamToS3_stores: "valid_ok (\<lambda>_. True) (streamToS3 env se url key) (\<lambda>_ s. stored env url key (snd s))"
proof -
  have "valid_ok (\<lambda>_. \<exists>n. http_get env n url = Inr resp)
      (if StatusCode resp \<noteq> 200 then throwE e else wrapE ''uploading to S3 using manager'' (s3_upload se key (Body resp)))
      (\<lambda>_ s. stored env url key (snd s))" for resp e
  proof (cases "StatusCode resp = 200 \<and> (\<exists>n. http_get env n url = Inr resp)")
    case True
    then obtain n where n: "http_get env n url = Inr resp" and s: "StatusCode resp = 200" by blast
    have "fetched env url (fst (Body resp))" if "snd (Body resp) = None"
      unfolding fetched_def using n s that by (intro exI [of _ n]) (cases resp; cases "Body resp"; simp)
    then have "valid_ok (\<lambda>_. True) (s3_upload se key (Body resp)) (\<lambda>_ s. stored env url key (snd s))"
      by (intro valid_post [OF s3_upload_puts]) (auto simp: stored_def)
    then have "valid_ok (\<lambda>_. True) (wrapE ''uploading to S3 using manager'' (s3_upload se key (Body resp))) (\<lambda>_ s. stored env url key (snd s))"
      by (rule valid_wrapE)
    then show ?thesis using s by (simp add: valid_def)
  qed (auto simp: valid_def)
  note this [of _ "ErrMsg _"]
  then show ?thesis unfolding streamToS3_def by (rule valid_bindE [OF valid_wrapE [OF http_Get_answers]])
qed

lemma s3_upload_other: "k \<noteq> key \<Longrightarrow> preserves (\<lambda>s. snd s k = x) (s3_upload se key body)"
  unfolding s3_upload_def
  by (cases "snd body") (auto simp: valid_def on_world_def api_call_def throwE_def modifyE_def thenE_def bindE_def split: sum.splits)

lemma on_world_bucket: "preserves (\<lambda>s. P (snd s)) (on_world m)"
  by (auto simp: valid_def on_world_def split: sum.splits)

lemma streamToS3_other:
  assumes "k \<noteq> key"
  shows "preserves (\<lambda>s. snd s k = x) (streamToS3 env se url key)"
proof -
  have "preserves (\<lambda>s. snd s k = x)
     (if StatusCode resp \<noteq> 200 then throwE e else wrapE ''uploading to S3 using manager'' (s3_upload se key (Body resp)))" for resp e
    using s3_upload_other [OF assms] by (cases "StatusCode resp = 200") (simp_all add: preserves_throwE preserves_wrapE)
  then show ?thesis unfolding streamToS3_def
    by (intro preserves_bindE preserves_wrapE on_world_bucket [where P = "\<lambda>b. b k = x"])
qed

lemma preserves_of_value:
  "(\<And>x. preserves (\<lambda>s. f s = x) m) \<Longrightarrow> preserves (\<lambda>s. P (f s)) m"
  by (fastforce simp: valid_def split: sum.splits)

lemma preserves_list_all:
  "(\<And>x. x \<in> set xs \<Longrightarrow> preserves (P x) m) \<Longrightarrow> preserves (\<lambda>s. list_all (\<lambda>x. P x s) xs) m"
proof (induction xs)
  case (Cons x xs)
  then have "preserves (P x) m" and "preserves (\<lambda>s. list_all (\<lambda>x. P x s) xs) m" by simp_all
  then show ?case by (simp add: valid_conj)
qed (simp add: valid_def split: sum.splits)

lemma syncArtifact_stores:
  "valid_ok (\<lambda>_. True) (syncArtifactToS3 env se d a) (\<lambda>_ s. stored env (ai_URL a) (s3_key d (ai_LocalPath a)) (snd s))"
  (is "valid_ok _ _ (\<lambda>_. ?S)")
proof -
  have k: "preserves ?S (streamToS3 env se u (s3_key d (ai_LocalPath a) @ ''.sha256''))" for u
  proof -
    have "preserves (\<lambda>s. snd s (s3_key d (ai_LocalPath a)) = x) (streamToS3 env se u (s3_key d (ai_LocalPath a) @ ''.sha256''))" for x
      by (rule streamToS3_other) simp
    then show ?thesis unfolding stored_def
      by (rule preserves_of_value [where f = "\<lambda>s. snd s (s3_key d (ai_LocalPath a))" and P = "\<lambda>y. \<exists>c. fetched env (ai_URL a) c \<and> y = Some c"])
  qed
  have "preserves ?S (whenE (ai_ChecksumURL a \<noteq> [])
      (bindE (tryE (streamToS3 env se (ai_ChecksumURL a) (s3_key d (ai_LocalPath a) @ ''.sha256''))) (\<lambda>_. returnE ())))"
    by (intro preserves_whenE preserves_bindE preserves_tryE k preserves_returnE)
  then have w: "valid_ok ?S (whenE (ai_ChecksumURL a \<noteq> [])
      (bindE (tryE (streamToS3 env se (ai_ChecksumURL a) (s3_key d (ai_LocalPath a) @ ''.sha256''))) (\<lambda>_. returnE ()))) (\<lambda>_. ?S)"
    by (rule valid_post) simp_all
  show ?thesis unfolding syncArtifactToS3_def Let_def
    by (rule valid_thenE [OF valid_wrapE [OF streamToS3_stores] w])
qed

lemma syncArtifact_other:
  assumes "k \<noteq> s3_key d (ai_LocalPath a)" and "k \<noteq> s3_key d (ai_LocalPath a) @ ''.sha256''"
  shows "preserves (\<lambda>s. snd s k = x) (syncArtifactToS3 env se d a)"
  unfolding syncArtifactToS3_def Let_def
  by (intro preserves_intros streamToS3_other assms preserves_whenE)


text \<open>The local paths collected never collide, with the suffix of a checksum neither.\<close>

definition apart :: "path list \<Rightarrow> bool" where
  "apart ps \<longleftrightarrow> distinct ps \<and> (\<forall>p \<in> set ps. \<forall>q \<in> set ps. p \<noteq> q @ ''.sha256'')"

lemma s3_key_inj [simp]: "s3_key d p = s3_key d q \<longleftrightarrow> p = q" "s3_key d p = s3_key d q @ s \<longleftrightarrow> p = q @ s"
  by (simp_all add: s3_key_def)

lemma uploads_stored:
  assumes "apart (map ai_LocalPath as)"
  shows "valid_ok (\<lambda>_. True) (forE as (\<lambda>a. wrapE (msg a) (syncArtifactToS3 env se d a)))
    (\<lambda>_ s. list_all (\<lambda>a. stored env (ai_URL a) (s3_key d (ai_LocalPath a)) (snd s)) as)"
  using assms
proof (induction as rule: rev_induct)
  case (snoc a as)
  let ?all = "\<lambda>s. list_all (\<lambda>a. stored env (ai_URL a) (s3_key d (ai_LocalPath a)) (snd s)) as"
  have ap: "apart (map ai_LocalPath as)" using snoc.prems by (auto simp: apart_def)
  have keep: "preserves (\<lambda>s. stored env (ai_URL x) (s3_key d (ai_LocalPath x)) (snd s)) (syncArtifactToS3 env se d a)" if "x \<in> set as" for x
  proof -
    have ne: "ai_LocalPath x \<noteq> ai_LocalPath a" "ai_LocalPath x \<noteq> ai_LocalPath a @ ''.sha256''"
      using snoc.prems that by (auto simp: apart_def image_iff)
    have "preserves (\<lambda>s. snd s (s3_key d (ai_LocalPath x)) = y) (syncArtifactToS3 env se d a)" for y
      by (rule syncArtifact_other) (simp_all add: ne)
    then show ?thesis unfolding stored_def
      by (rule preserves_of_value [where f = "\<lambda>s. snd s (s3_key d (ai_LocalPath x))" and P = "\<lambda>y. \<exists>c. fetched env (ai_URL x) c \<and> y = Some c"])
  qed
  have all: "valid_ok ?all (syncArtifactToS3 env se d a) (\<lambda>_. ?all)"
    by (rule valid_post [OF preserves_list_all]) (simp_all add: keep)
  have "valid_ok ?all (syncArtifactToS3 env se d a)
      (\<lambda>_ s. list_all (\<lambda>a. stored env (ai_URL a) (s3_key d (ai_LocalPath a)) (snd s)) (as @ [a]))"
    by (rule valid_conseq [OF valid_conj [OF all syncArtifact_stores]]) auto
  then show ?case unfolding forE_append
    by (intro valid_thenE [OF snoc.IH [OF ap]]) (simp add: thenE_unit valid_wrapE)
qed (simp add: valid_def)


definition local_paths :: "path list" where
  "local_paths = map (\<lambda>n. ''eks/'' @ n) eks_names @ [''iam-ra/aws_signing_helper'', ''ssm/ssm-setup-cli'', ''ssm/ssm-setup-cli.sig'']"

lemma apart_local_paths: "apart local_paths"
  by code_simp

lemma subseq_keeps: "subseq xs ys \<Longrightarrow> distinct ys \<Longrightarrow> distinct xs \<and> set xs \<subseteq> set ys"
  by (induction rule: list_emb.induct) auto

lemma apart_subseq: "subseq xs ys \<Longrightarrow> apart ys \<Longrightarrow> apart xs"
  unfolding apart_def using subseq_keeps by blast

lemma collect_from_path: "subseq (map ai_LocalPath (collect_from d es dir n)) [dir @ n]"
  by (simp add: collect_from_def split: option.splits)

lemma subseq_concat: "(\<And>x. x \<in> set xs \<Longrightarrow> subseq (f x) [g x]) \<Longrightarrow> subseq (concat (map f xs)) (map g xs)"
  by (induction xs) (auto intro: list_emb_append_mono [of _ _ "[_]", simplified])

lemma collected_apart:
  assumes "collectArtifacts d = Inr as"
  shows "apart (map ai_LocalPath as)"
proof -
  have e: "subseq (map ai_LocalPath (concat (map (collect_from d es ''eks/'') eks_names))) (map (\<lambda>n. ''eks/'' @ n) eks_names)" for es
    unfolding map_concat map_map comp_def by (rule subseq_concat) (rule collect_from_path)
  have i: "subseq (map ai_LocalPath (collect_from d es ''iam-ra/'' ''aws_signing_helper'')) [''iam-ra/aws_signing_helper'']" for es
    using collect_from_path [of d es "''iam-ra/''" "''aws_signing_helper''"] by simp
  have "subseq (map ai_LocalPath as) local_paths"
    using assms unfolding collectArtifacts_def Let_def local_paths_def
    by (auto split: if_splits sum.splits intro!: list_emb_append_mono e list_emb_append_mono [OF i, of "[_, _]" "[_, _]", simplified]
        list_emb_append_mono [OF i, of "[]", simplified])
  then show ?thesis using apart_local_paths by (rule apart_subseq)
qed


definition public_address :: "Downloader \<Rightarrow> string \<Rightarrow> string" where
  "public_address d key = ''https://'' @ dl_S3Bucket d @ ''.s3.'' @ dl_Region d @ ''.'' @ dns_suffix d @ ''/'' @ key"

lemma mirrored_address: "ar_URI (mirrored d a) = public_address d (s3_key d (ai_LocalPath a))"
  by (simp add: mirrored_def baseS3URL_def public_address_def s3_key_def)

lemma WriteFile_puts: "valid_ok (\<lambda>_. True) (os_WriteFile env p c m) (\<lambda>_ w. \<exists>k. fs w p = Some (RegFile c k))"
proof -
  have "valid_ok (\<lambda>_. True) (os_Create env p m) (\<lambda>_ w. \<exists>k. fs w p = Some (RegFile [] k))"
    by (auto simp: valid_def os_Create_def sys_def Let_def split: option.splits sum.splits fnode.splits if_splits)
  moreover have "valid_ok (\<lambda>w. \<exists>k. fs w p = Some (RegFile [] k)) (file_Write env p c) (\<lambda>_ w. \<exists>k. fs w p = Some (RegFile c k))"
    by (auto simp: valid_def file_Write_def append_to_def sys_def Let_def split: option.splits sum.splits fnode.splits)
  ultimately show ?thesis unfolding os_WriteFile_def by (rule valid_thenE)
qed

lemma Downloader_Run_ok:
  assumes "Downloader_Run env se d (w, b) = Some (Inr (), (w', b'))"
  shows "\<exists>as y m. collectArtifacts d = Inr as \<and> list_all (\<lambda>a. stored env (ai_URL a) (s3_key d (ai_LocalPath a)) b') as \<and>
    se_marshal se (custom_manifest d as) = Inr y \<and> fs w' (manifest_file se d) = Some (RegFile y m)"
proof -
  from assms obtain as s0 where as0: "wrapE ''collecting artifacts'' (liftE (collectArtifacts d)) (w, b) = Some (Inr as, s0)"
    and rest: "thenE (forE as (\<lambda>a. wrapE (''sync artifact '' @ ai_Name a) (syncArtifactToS3 env se d a)))
       (wrapE ''generating custom manifest'' (on_world (generateCustomManifest env se d as))) s0 = Some (Inr (), (w', b'))"
    unfolding Downloader_Run_def by (rule bindE_okE)
  have as: "collectArtifacts d = Inr as" and s0: "s0 = (w, b)" using as0 by simp_all
  from rest obtain s1 where up: "forE as (\<lambda>a. wrapE (''sync artifact '' @ ai_Name a) (syncArtifactToS3 env se d a)) s0 = Some (Inr (), s1)"
    and gen0: "wrapE ''generating custom manifest'' (on_world (generateCustomManifest env se d as)) s1 = Some (Inr (), (w', b'))"
    by (rule thenE_okE) simp
  have gen: "on_world (generateCustomManifest env se d as) s1 = Some (Inr (), (w', b'))" using gen0 by (simp only: wrapE_ok_iff)
  obtain w1 b1 where s1: "s1 = (w1, b1)" by (cases s1)
  have b: "b' = b1" and g: "generateCustomManifest env se d as w1 = Some (Inr (), w')" using gen unfolding s1 on_world_ok by simp_all
  from g obtain y where y: "se_marshal se (custom_manifest d as) = Inr y"
    and wr: "os_WriteFile env (manifest_file se d) y 420 w1 = Some (Inr (), w')"
    unfolding generateCustomManifest_def by (elim bindE_okE) (simp only: wrapE_ok_iff liftE_run, metis)
  have "list_all (\<lambda>a. stored env (ai_URL a) (s3_key d (ai_LocalPath a)) b') as"
    using valid_okD [OF uploads_stored [OF collected_apart [OF as]] TrueI up] by (simp add: s1 b)
  with as y valid_okD [OF WriteFile_puts TrueI wr] show ?thesis by blast
qed

section \<open>The manifest of the mirror is usable\<close>

lemma mirrored_simps [simp]:
  "ar_Name (mirrored d a) = ai_Name a" "ar_Arch (mirrored d a) = dl_Arch d" "ar_OS (mirrored d a) = dl_OS d" "ar_GzipURI (mirrored d a) = []"
  by (simp_all add: mirrored_def)

lemma find_mirrored:
  "findArtifact d (map (mirrored d) as) n = map_option (mirrored d) (find (\<lambda>a. ai_Name a = n) as)"
  by (induction as) (simp_all add: findArtifact_def)

text \<open>The directory of a path decides its release.\<close>

lemma collected_in:
  "x \<in> set (collect_from d es ''eks/'' n) \<Longrightarrow> in_eks x \<and> \<not> in_iam x \<and> ai_Name x = n"
  "x \<in> set (collect_from d es ''iam-ra/'' n) \<Longrightarrow> in_iam x \<and> \<not> in_eks x \<and> ai_Name x = n"
  by (auto simp: collect_from_def in_eks_def in_iam_def HasPrefix_def split: option.splits)

definition eks_collected :: "Downloader \<Rightarrow> ArtifactInfo list" where
  "eks_collected d = concat (map (collect_from d (ep_Artifacts (Eks (dl_AwsSource d))) ''eks/'') eks_names)"

definition iam_collected :: "Downloader \<Rightarrow> ArtifactInfo list" where
  "iam_collected d = collect_from d (ir_Artifacts (Iam (dl_AwsSource d))) ''iam-ra/'' ''aws_signing_helper''"

lemma collected_split:
  assumes "collectArtifacts d = Inr as"
  shows "filter in_eks as = eks_collected d" "filter in_iam as = iam_collected d"
proof -
  obtain ssm where as: "as = eks_collected d @ iam_collected d @ ssm" and ssm: "list_all (\<lambda>a. \<not> in_eks a \<and> \<not> in_iam a) ssm"
    using assms unfolding collectArtifacts_def Let_def eks_collected_def [symmetric] iam_collected_def [symmetric]
    by (auto split: if_splits sum.splits simp: in_eks_def in_iam_def HasPrefix_def)
  have e: "list_all (\<lambda>a. in_eks a \<and> \<not> in_iam a) (eks_collected d)"
    unfolding eks_collected_def list_all_iff using collected_in(1) by auto
  have i: "list_all (\<lambda>a. in_iam a \<and> \<not> in_eks a) (iam_collected d)"
    unfolding iam_collected_def list_all_iff using collected_in(2) by auto
  show "filter in_eks as = eks_collected d" "filter in_iam as = iam_collected d"
    unfolding as using e i ssm by (simp_all add: list_all_iff filter_id_conv filter_empty_conv)
qed


text \<open>What \<open>golang.org/x/mod/semver\<close> says of a version \<open>a.b.patch\<close>, and the two ways to ask for it.\<close>

definition names_release :: "semver \<Rightarrow> string \<Rightarrow> string \<Rightarrow> string \<Rightarrow> bool" where
  "names_release sv r version patch \<longleftrightarrow>
     (let mm = extractMajorMinor version in
      version = mm @ ''.'' @ patch \<and> (r = version \<or> r = mm) \<and> CHR ''v'' \<notin> set mm \<and> Count_char mm CHR ''.'' = 1 \<and>
      sv_IsValid sv (CHR ''v'' # version) \<and> sv_IsValid sv (CHR ''v'' # r) \<and>
      sv_MajorMinor sv (CHR ''v'' # version) = CHR ''v'' # mm \<and> sv_MajorMinor sv (CHR ''v'' # r) = CHR ''v'' # mm)"

lemma ReplaceAll_v: "CHR ''v'' \<notin> set mm \<Longrightarrow> ReplaceAll_char (CHR ''v'' # mm) CHR ''v'' = mm"
  by (auto simp: ReplaceAll_char_def filter_id_conv)

lemma version_accepted:
  assumes "names_release sv r version patch" and "version \<noteq> []"
  shows "validateKubernetesVersionMatch sv r version = None"
proof -
  let ?mm = "extractMajorMinor version"
  have f: "r = version \<or> r = ?mm" "Count_char ?mm CHR ''.'' = 1" "CHR ''v'' \<notin> set ?mm" "sv_IsValid sv (CHR ''v'' # version)"
    "sv_IsValid sv (CHR ''v'' # r)" "sv_MajorMinor sv (CHR ''v'' # version) = CHR ''v'' # ?mm" "sv_MajorMinor sv (CHR ''v'' # r) = CHR ''v'' # ?mm"
    using assms(1) unfolding names_release_def Let_def by blast+
  have "r \<noteq> []" using f(1,2) assms(2) by (auto simp: Count_char_def)
  moreover have "Count_char r CHR ''.'' = 2 \<longrightarrow> r = version" using f(1,2) by auto
  ultimately show ?thesis
    unfolding validateKubernetesVersionMatch_def Let_def using f(4-7) assms(2) by (simp add: ReplaceAll_v [OF f(3)])
qed

lemma single_release_chosen:
  assumes "names_release sv r version patch" and "version \<noteq> []" and "ep_PatchVersion rel = patch"
    and "SupportedEksReleases m = [\<lparr>MajorMinorVersion = extractMajorMinor version, LatestPatchVersion = patch, PatchReleases = [rel]\<rparr>]"
  shows "getLatestEksSource sv r m = Inr rel"
proof -
  let ?mm = "extractMajorMinor version"
  have f: "version = ?mm @ ''.'' @ patch" "r = version \<or> r = ?mm" "Count_char ?mm CHR ''.'' = 1" "CHR ''v'' \<notin> set ?mm"
    "sv_IsValid sv (CHR ''v'' # r)" "sv_MajorMinor sv (CHR ''v'' # r) = CHR ''v'' # ?mm"
    using assms(1) unfolding names_release_def Let_def by blast+
  have r: "r \<noteq> []" using f(2,3) assms(2) by (auto simp: Count_char_def)
  have c: "CutPrefix r (?mm @ ''.'') = (patch, True) \<or> (\<exists>x. CutPrefix r (?mm @ ''.'') = (x, False))"
    using f(2)
  proof
    assume "r = version"
    then have "r = (?mm @ ''.'') @ patch" using f(1) by simp
    then show ?thesis by (simp add: CutPrefix_def HasPrefix_def TrimPrefix_def)
  qed (auto simp: CutPrefix_def HasPrefix_def)
  obtain q where q: "requested_patch sv r = (?mm, q)" and qv: "q = None \<or> q = Some patch"
    using c unfolding requested_patch_def Let_def f(6) ReplaceAll_v [OF f(4)] by auto
  show ?thesis unfolding getLatestEksSource_def q Let_def case_prod_conv matching_patch_releases_def assms(4)
    using r f(5) assms(3) qv by auto
qed


lemma custom_manifest_source:
  assumes "collectArtifacts d = Inr as" and "iam_collected d \<noteq> []"
    and "names_release sv r (ep_Version (Eks (dl_AwsSource d))) (ep_PatchVersion (Eks (dl_AwsSource d)))"
  shows "\<exists>s. getSourceFromManifest sv r (dl_Region d) (custom_manifest d as) = Inr s \<and>
    ep_Version (Eks s) = ep_Version (Eks (dl_AwsSource d)) \<and> ir_Version (Iam s) = ir_Version (Iam (dl_AwsSource d)) \<and>
    ep_Artifacts (Eks s) = map (mirrored d) (eks_collected d) \<and> ir_Artifacts (Iam s) = map (mirrored d) (iam_collected d)"
proof -
  let ?src = "dl_AwsSource d"
  let ?rel = "\<lparr>ep_Version = ep_Version (Eks ?src), ep_PatchVersion = ep_PatchVersion (Eks ?src), ep_ReleaseDate = ep_ReleaseDate (Eks ?src),
    ep_Artifacts = map (mirrored d) (eks_collected d)\<rparr>"
  let ?m = "custom_manifest d as"
  have "Count_char (extractMajorMinor (ep_Version (Eks ?src))) CHR ''.'' = 1"
    using assms(3) by (simp add: names_release_def Let_def)
  then have v: "ep_Version (Eks ?src) \<noteq> []" by (auto simp: extractMajorMinor_def Count_char_def)
  have eks: "SupportedEksReleases ?m = [\<lparr>MajorMinorVersion = extractMajorMinor (ep_Version (Eks ?src)),
      LatestPatchVersion = ep_PatchVersion (Eks ?src), PatchReleases = [?rel]\<rparr>]"
    and iam: "IamRolesAnywhereReleases ?m = [\<lparr>ir_Version = ir_Version (Iam ?src), ir_Artifacts = map (mirrored d) (iam_collected d)\<rparr>]"
    and reg: "RegionConfig ?m (dl_Region d) \<noteq> None"
    using assms(2) unfolding custom_manifest_def Let_def collected_split [OF assms(1)] by simp_all
  have "getLatestEksSource sv r ?m = Inr ?rel"
    by (rule single_release_chosen [OF assms(3) v _ eks]) simp
  moreover have "getLatestIamRolesAnywhereSource sv ?m = Inr \<lparr>ir_Version = ir_Version (Iam ?src), ir_Artifacts = map (mirrored d) (iam_collected d)\<rparr>"
    unfolding getLatestIamRolesAnywhereSource_def iam by simp
  ultimately show ?thesis
    using reg version_accepted [OF assms(3) v] by (auto simp: getSourceFromManifest_def)
qed

lemma find_append: "find P (xs @ ys) = (case find P xs of None \<Rightarrow> find P ys | Some x \<Rightarrow> Some x)"
  by (induction xs) auto

lemma find_in_eks:
  assumes "n \<in> set ns" and "distinct ns"
  shows "find (\<lambda>a. ai_Name a = n) (concat (map (collect_from d es ''eks/'') ns)) =
    map_option (\<lambda>a. \<lparr>ai_Name = n, ai_URL = ar_URI a, ai_ChecksumURL = ar_ChecksumURI a, ai_LocalPath = ''eks/'' @ n\<rparr>) (findArtifact d es n)"
  using assms
proof (induction ns)
  case (Cons m ns)
  have "find (\<lambda>a. ai_Name a = n) (concat (map (collect_from d es ''eks/'') ns)) = None" if "n \<notin> set ns"
    using that collected_in(1) by (fastforce simp: find_None_iff)
  with Cons show ?case
    by (cases "m = n"; cases "findArtifact d es m") (auto simp: find_append collect_from_def [of d es _ m] collect_from_def [of d es _ n])
qed simp

text \<open>The mirror offers an artifact: the entry has the address of an object of the bucket that holds what the original address
  served.\<close>

definition offers :: "environment \<Rightarrow> Downloader \<Rightarrow> bucket \<Rightarrow> Artifact_entry option \<Rightarrow> Artifact_entry option \<Rightarrow> bool" where
  "offers env d b orig mirror =
     (case orig of
        None \<Rightarrow> mirror = None
      | Some a \<Rightarrow> (case mirror of
            None \<Rightarrow> False
          | Some a' \<Rightarrow> (\<exists>key. ar_URI a' = public_address d key \<and> stored env (ar_URI a) key b)))"

lemma eks_offered:
  assumes "list_all (\<lambda>a. stored env (ai_URL a) (s3_key d (ai_LocalPath a)) b) (eks_collected d)" and "n \<in> set eks_names"
  shows "offers env d b (findArtifact d (ep_Artifacts (Eks (dl_AwsSource d))) n) (findArtifact d (map (mirrored d) (eks_collected d)) n)"
proof -
  let ?es = "ep_Artifacts (Eks (dl_AwsSource d))"
  have f: "find (\<lambda>a. ai_Name a = n) (eks_collected d) =
      map_option (\<lambda>a. \<lparr>ai_Name = n, ai_URL = ar_URI a, ai_ChecksumURL = ar_ChecksumURI a, ai_LocalPath = ''eks/'' @ n\<rparr>) (findArtifact d ?es n)"
    unfolding eks_collected_def by (rule find_in_eks [OF assms(2)]) (simp add: eks_names_def)
  show ?thesis
  proof (cases "findArtifact d ?es n")
    case None
    then show ?thesis by (simp add: offers_def find_mirrored f)
  next
    case (Some a)
    define i where "i = \<lparr>ai_Name = n, ai_URL = ar_URI a, ai_ChecksumURL = ar_ChecksumURI a, ai_LocalPath = ''eks/'' @ n\<rparr>"
    have fi: "find (\<lambda>a. ai_Name a = n) (eks_collected d) = Some i" unfolding f Some i_def by simp
    then have "i \<in> set (eks_collected d)" by (auto simp: find_Some_iff)
    then have "stored env (ai_URL i) (s3_key d (ai_LocalPath i)) b" using assms(1) by (simp add: list_all_iff)
    moreover have "ai_URL i = ar_URI a" by (simp add: i_def)
    ultimately show ?thesis by (auto simp: offers_def find_mirrored Some fi mirrored_address)
  qed
qed

lemma iam_offered:
  assumes "list_all (\<lambda>a. stored env (ai_URL a) (s3_key d (ai_LocalPath a)) b) (iam_collected d)"
  shows "offers env d b (findArtifact d (ir_Artifacts (Iam (dl_AwsSource d))) ''aws_signing_helper'')
    (findArtifact d (map (mirrored d) (iam_collected d)) ''aws_signing_helper'')"
  using assms
  by (cases "findArtifact d (ir_Artifacts (Iam (dl_AwsSource d))) ''aws_signing_helper''")
    (auto simp: iam_collected_def collect_from_def offers_def findArtifact_def mirrored_address)

lemma manifest_reads_back:
  assumes "\<And>n. os_fault env n (OpRead p) = None" and "fs w p = Some (RegFile y m)" and "unmarshal y = Inr man"
    and "getSourceFromManifest sv r region man = Inr s"
  shows "\<exists>w'. GetLatestSourceFromManifest env sv unmarshal r region (''file://'' @ p) w = Some (Inr s, w')"
proof -
  define u where "u = ''file://'' @ p"
  have h: "HasPrefix u ''file://''" "TrimPrefix u ''file://'' = p" unfolding u_def by (rule HasPrefix_append, rule TrimPrefix_append)
  have "os_ReadFile env p w = Some (Inr y, w\<lparr>steps := Suc (steps w)\<rparr>)"
    by (simp add: os_ReadFile_def sys_def assms(1,2) Let_def)
  then show ?thesis
    unfolding u_def [symmetric] GetLatestSourceFromManifest_def getReleaseManifestFromURI_def h
    by (simp add: h bindE_def wrapE_def mapErrE_def liftE_def assms(3,4))
qed


section \<open>Property\<close>



definition sample_downloader :: Downloader where
  "sample_downloader =
     \<lparr>dl_AwsSource = sample_node_release\<lparr>Eks := (Eks sample_node_release)\<lparr>ep_Version := ''1.31.2''\<rparr>\<rparr>, dl_Arch = ''amd64'', dl_OS = ''linux'',
      dl_Region = ''us-west-2'', dl_S3Bucket = ''b'', dl_S3Prefix = ''eks/'', dl_SyncTimestamp = 7\<rparr>"

definition sample_sync :: sync_env where
  "sample_sync =
     \<lparr>se_semver = sample_semver, se_unmarshal = \<lambda>_. map_sum id (custom_manifest sample_downloader) (collectArtifacts sample_downloader),
      se_marshal = \<lambda>_. Inr ''yaml'', se_manifestUrl = ''m'', se_LoadDefaultConfig = \<lambda>_. Inr (), se_HeadBucket = \<lambda>_. Inr (),
      se_Upload = \<lambda>_. Inr (), se_cwd = ''/''\<rparr>"


end
