(* ===== verification/Stderr_Capture.thy ===== *)
theory Stderr_Capture
  imports Validation
begin

text \<open>
  \<open>internal/validation/reader.go\<close>: the standard error of \<open>nodeadm debug\<close> is a pipe, a goroutine scans it and forwards the lines to a
  channel of 100 lines, and the printer takes them from there when a validation fails. The goroutine, the process that writes and the
  caller that reads and finally closes interleave: \<open>capture_step\<close> has a rule for each of their atomic steps.

  The pipe is a list of lines without the line breaks. A pipe of the kernel holds 64 KiB and blocks its writers beyond that, which only
  removes behaviours. Once the caller closes, nothing is written any more: \<open>os.Stderr\<close> has been restored.
\<close>

section \<open>Model\<close>

datatype reader_state = Scanning | Sending string | Ended "goerr option"

datatype caller_state = Running | Closing | Closed "goerr option"

record FileCapture =
  fc_pipe :: "string list"
  fc_reader :: reader_state
  fc_out :: "string list"
  fc_caller :: caller_state
  fc_written :: "string list"
  fc_received :: "string list"

definition captureBuffer :: nat where "captureBuffer = 100"

definition ErrTooLong :: goerr where
  "ErrTooLong = ErrMsg ''bufio.Scanner: token too long''"

definition ChannelReader_Line :: "string list \<Rightarrow> (string \<times> bool) \<times> string list" where
  "ChannelReader_Line in_chan = (case in_chan of [] \<Rightarrow> (([], False), []) | line # rest \<Rightarrow> ((line, True), rest))"

definition FileCapture_Init :: "goerr option \<Rightarrow> goerr + FileCapture" where
  "FileCapture_Init os_Pipe =
     (case os_Pipe of
        Some err \<Rightarrow> Inl err
      | None \<Rightarrow> Inr \<lparr>fc_pipe = [], fc_reader = Scanning, fc_out = [], fc_caller = Running, fc_written = [], fc_received = []\<rparr>)"

definition scan :: "FileCapture \<Rightarrow> FileCapture option" where
  "scan s =
     (case fc_reader s of
        Scanning \<Rightarrow>
          (case fc_pipe s of
             [] \<Rightarrow> if fc_caller s = Running then None else Some (s\<lparr>fc_reader := Ended None\<rparr>)
           | l # ls \<Rightarrow>
               if \<not> fits_scanner l then Some (s\<lparr>fc_reader := Ended (Some ErrTooLong)\<rparr>)
               else Some (s\<lparr>fc_pipe := ls, fc_reader := Sending (drop_cr l)\<rparr>))
      | Sending t \<Rightarrow>
          if length (fc_out s) < captureBuffer then Some (s\<lparr>fc_reader := Scanning, fc_out := fc_out s @ [t]\<rparr>) else None
      | Ended _ \<Rightarrow> None)"

inductive capture_step :: "FileCapture \<Rightarrow> FileCapture \<Rightarrow> bool" where
  writes: "fc_caller s = Running \<Longrightarrow> capture_step s (s\<lparr>fc_pipe := fc_pipe s @ [l], fc_written := fc_written s @ [l]\<rparr>)"
| scans: "scan s = Some s' \<Longrightarrow> capture_step s s'"
| reads: "fc_caller s = Running \<Longrightarrow> ChannelReader_Line (fc_out s) = ((line, True), rest) \<Longrightarrow>
    capture_step s (s\<lparr>fc_out := rest, fc_received := fc_received s @ [line]\<rparr>)"
| closes: "fc_caller s = Running \<Longrightarrow> capture_step s (s\<lparr>fc_caller := Closing\<rparr>)"
| joins: "fc_caller s = Closing \<Longrightarrow> fc_reader s = Ended err \<Longrightarrow> capture_step s (s\<lparr>fc_caller := Closed err\<rparr>)"

definition capture_reachable :: "FileCapture \<Rightarrow> bool" where
  "capture_reachable s \<longleftrightarrow> (\<exists>s0. FileCapture_Init None = Inr s0 \<and> capture_step\<^sup>*\<^sup>* s0 s)"

definition NewPrinter :: printer where
  "NewPrinter = \<lparr>noColor = False, externalLogs = None, out = []\<rparr>"

definition WithNoColor :: "printer \<Rightarrow> printer" where "WithNoColor p = p\<lparr>noColor := True\<rparr>"

definition WithExternalLogs :: "string \<times> string list \<Rightarrow> printer \<Rightarrow> printer" where
  "WithExternalLogs source p = p\<lparr>externalLogs := Some source\<rparr>"

definition NewPrinterWithStdCapture :: "string \<Rightarrow> bool \<Rightarrow> printer" where
  "NewPrinterWithStdCapture stdName no_color =
     fold (\<lambda>f. f) (WithExternalLogs (stdName, []) # (if no_color then [WithNoColor] else [])) NewPrinter"

section \<open>Invariant\<close>

definition held :: "FileCapture \<Rightarrow> string list" where
  "held s = (case fc_reader s of Sending t \<Rightarrow> [t] | _ \<Rightarrow> [])"

definition capture_inv :: "FileCapture \<Rightarrow> bool" where
  "capture_inv s \<longleftrightarrow>
     (\<exists>taken. fc_written s = taken @ fc_pipe s \<and> fc_received s @ fc_out s @ held s = map drop_cr taken) \<and>
     length (fc_out s) \<le> captureBuffer \<and>
     (\<forall>e. fc_reader s = Ended e \<longrightarrow> (if e = None then fc_pipe s = [] \<and> fc_caller s \<noteq> Running else fc_pipe s \<noteq> [] \<and> \<not> fits_scanner (hd (fc_pipe s))))"

lemma capture_inv_step:
  assumes "capture_step s s'" and "capture_inv s"
  shows "capture_inv s'"
  using assms
proof (induction rule: capture_step.induct)
  case (scans s s')
  then show ?case
    by (auto simp: scan_def capture_inv_def held_def split: reader_state.splits list.splits if_splits)
qed (auto simp: capture_inv_def held_def ChannelReader_Line_def hd_append split: list.splits)

lemma capture_reachable_inv:
  assumes "capture_reachable s"
  shows "capture_inv s"
proof -
  from assms obtain s0 where i: "FileCapture_Init None = Inr s0" and r: "capture_step\<^sup>*\<^sup>* s0 s" by (auto simp: capture_reachable_def)
  have "capture_inv s0" using i by (auto simp: FileCapture_Init_def capture_inv_def held_def)
  with r show ?thesis by (induction rule: rtranclp_induct) (auto intro: capture_inv_step)
qed

lemma count_lines:
  assumes "capture_inv s"
  shows "length (fc_written s) = length (fc_received s) + length (fc_out s) + length (held s) + length (fc_pipe s)"
proof -
  from assms obtain taken where "fc_written s = taken @ fc_pipe s" "fc_received s @ fc_out s @ held s = map drop_cr taken"
    by (auto simp: capture_inv_def)
  then have "length (fc_written s) = length taken + length (fc_pipe s)" "length taken = length (fc_received s @ fc_out s @ held s)" by simp_all
  then show ?thesis by simp
qed

section \<open>Closing\<close>

inductive_simps capture_step_simps: "capture_step s s'"

lemma closing_deterministic:
  assumes "capture_step s s1" and "capture_step s s2" and "fc_caller s \<noteq> Running"
  shows "s1 = s2"
  using assms by (auto simp: capture_step_simps scan_def split: reader_state.splits list.splits if_splits)

definition overfull :: "FileCapture \<Rightarrow> bool" where
  "overfull s \<longleftrightarrow> capture_inv s \<and> fc_caller s = Closing \<and> list_all fits_scanner (fc_written s) \<and> captureBuffer + length (fc_received s) < length (fc_written s)"

lemma overfull_not_ended:
  assumes "overfull s"
  shows "fc_reader s \<noteq> Ended e"
proof
  assume e: "fc_reader s = Ended e"
  from assms have inv: "capture_inv s" and fits: "list_all fits_scanner (fc_written s)" and big: "captureBuffer + length (fc_received s) < length (fc_written s)"
    by (simp_all add: overfull_def)
  from inv fits have "list_all fits_scanner (fc_pipe s)" by (auto simp: capture_inv_def)
  with inv e have "fc_pipe s = []" by (cases "fc_pipe s") (auto simp: capture_inv_def split: if_splits)
  with inv e big count_lines [OF inv] show False by (simp add: capture_inv_def held_def)
qed

lemma overfull_step:
  assumes "capture_step s s'" and "overfull s"
  shows "overfull s'"
proof -
  have "capture_inv s'" using assms capture_inv_step by (auto simp: overfull_def)
  with assms overfull_not_ended [OF assms(2)] show ?thesis
    by (auto simp: overfull_def capture_step_simps scan_def split: reader_state.splits list.splits if_splits)
qed

lemma overfull_stuck: "capture_step\<^sup>*\<^sup>* s s' \<Longrightarrow> overfull s \<Longrightarrow> overfull s'"
  by (induction rule: rtranclp_induct) (auto intro: overfull_step)

definition closing_work :: "FileCapture \<Rightarrow> nat" where
  "closing_work s = 3 * length (fc_pipe s) + (case fc_reader s of Sending _ \<Rightarrow> 2 | Scanning \<Rightarrow> 1 | Ended _ \<Rightarrow> 0)"

lemma scan_progress:
  assumes "capture_inv s" and "fc_caller s = Closing" and "length (fc_written s) \<le> captureBuffer + length (fc_received s)" and "\<forall>e. fc_reader s \<noteq> Ended e"
  obtains s' where "scan s = Some s'" and "closing_work s' < closing_work s" and "fc_caller s' = Closing"
    and "fc_written s' = fc_written s" and "fc_received s' = fc_received s"
proof (cases "fc_reader s")
  case Scanning
  show ?thesis
  proof (cases "scan s")
    case None
    then show ?thesis by (simp add: scan_def Scanning assms(2) split: list.splits if_splits)
  next
    case (Some s')
    then show ?thesis using Scanning assms(2) that by (auto simp: scan_def closing_work_def split: list.splits if_splits)
  qed
next
  case (Sending t)
  then have "length (fc_out s) < captureBuffer" using count_lines [OF assms(1)] assms(3) by (simp add: held_def)
  then show ?thesis using Sending assms(2) by (intro that [of "s\<lparr>fc_reader := Scanning, fc_out := fc_out s @ [t]\<rparr>"]) (simp_all add: scan_def closing_work_def)
qed (use assms(4) in auto)

lemma closing_ends:
  assumes "capture_inv s" and "fc_caller s = Closing" and "length (fc_written s) \<le> captureBuffer + length (fc_received s)"
  shows "\<exists>s' err. capture_step\<^sup>*\<^sup>* s s' \<and> fc_caller s' = Closed err"
  using assms
proof (induction "closing_work s" arbitrary: s rule: less_induct)
  case less
  show ?case
  proof (cases "\<exists>e. fc_reader s = Ended e")
    case True
    then obtain e where "fc_reader s = Ended e" by blast
    then have "capture_step s (s\<lparr>fc_caller := Closed e\<rparr>)" using less.prems(2) by (rule joins [rotated])
    then show ?thesis by (intro exI [of _ "s\<lparr>fc_caller := Closed e\<rparr>"] exI [of _ e]) auto
  next
    case False
    then obtain s' where s': "scan s = Some s'" "closing_work s' < closing_work s" "fc_caller s' = Closing"
      "fc_written s' = fc_written s" "fc_received s' = fc_received s"
      using scan_progress [OF less.prems] by blast
    have st: "capture_step s s'" by (rule scans [OF s'(1)])
    from less.hyps [OF s'(2)] s' less.prems capture_inv_step [OF st less.prems(1)]
    obtain s'' err where "capture_step\<^sup>*\<^sup>* s' s''" "fc_caller s'' = Closed err" by auto
    with st show ?thesis by (meson converse_rtranclp_into_rtranclp)
  qed
qed

text \<open>What the printer reads when a validation fails is one of the interleavings.\<close>

lemma readExternal_steps:
  assumes "fc_caller s = Running" and "externalLogs p = Some (name, fc_out s)"
  shows "capture_step\<^sup>*\<^sup>* s (s\<lparr>fc_out := [], fc_received := fc_received s @ fst (readExternal p)\<rparr>)"
proof -
  have "capture_step\<^sup>*\<^sup>* s (s\<lparr>fc_out := [], fc_received := fc_received s @ ls\<rparr>)" if "fc_out s = ls" "fc_caller s = Running" for s ls
    using that
  proof (induction ls arbitrary: s)
    case (Cons l ls)
    have "capture_step s (s\<lparr>fc_out := ls, fc_received := fc_received s @ [l]\<rparr>)"
      by (rule reads) (simp_all add: Cons.prems ChannelReader_Line_def)
    then show ?case using Cons.IH [of "s\<lparr>fc_out := ls, fc_received := fc_received s @ [l]\<rparr>"] Cons.prems
      by (simp add: converse_rtranclp_into_rtranclp)
  next
    case (Nil s)
    then have "s\<lparr>fc_out := [], fc_received := fc_received s @ []\<rparr> = s" by (cases s) simp
    then show ?case by simp
  qed
  then show ?thesis using assms by (simp add: readExternal_def)
qed

lemma write_lines:
  assumes "fc_caller s = Running"
  shows "capture_step\<^sup>*\<^sup>* s (s\<lparr>fc_pipe := fc_pipe s @ ls, fc_written := fc_written s @ ls\<rparr>)"
  using assms
proof (induction ls arbitrary: s)
  case (Cons l ls)
  let ?s = "s\<lparr>fc_pipe := fc_pipe s @ [l], fc_written := fc_written s @ [l]\<rparr>"
  have "capture_step s ?s" by (rule writes [OF Cons.prems])
  then show ?case using Cons.IH [of ?s] Cons.prems by (simp add: converse_rtranclp_into_rtranclp)
qed simp

definition chatty :: "nat \<Rightarrow> caller_state \<Rightarrow> FileCapture" where
  "chatty n c = \<lparr>fc_pipe = replicate n ''warning'', fc_reader = Scanning, fc_out = [], fc_caller = c, fc_written = replicate n ''warning'', fc_received = []\<rparr>"

lemma chatty_reachable: "capture_reachable (chatty n Running)" "capture_reachable (chatty n Closing)"
proof -
  have i: "FileCapture_Init None = Inr (chatty 0 Running)" by (simp add: FileCapture_Init_def chatty_def)
  have w: "capture_step\<^sup>*\<^sup>* (chatty 0 Running) (chatty n Running)"
    using write_lines [of "chatty 0 Running" "replicate n ''warning''"] by (simp add: chatty_def)
  have "capture_step (chatty n Running) (chatty n Closing)" using closes [of "chatty n Running"] by (simp add: chatty_def)
  with w i show "capture_reachable (chatty n Running)" "capture_reachable (chatty n Closing)"
    unfolding capture_reachable_def by (auto intro: rtranclp.rtrancl_into_rtrancl)
qed

section \<open>Properties\<close>

text \<open>C25: Whatever the interleaving of the writers, the forwarding goroutine and the printer, the lines that the printer has received,
  that wait in the channel and that the goroutine holds are the written lines in their order, without loss or repetition, up to the
  line the scanner has come to; and the channel never holds more than its 100 lines.\<close>

theorem captured_in_order:
  assumes "capture_reachable s"
  shows "(\<exists>taken. fc_written s = taken @ fc_pipe s \<and> fc_received s @ fc_out s @ held s = map drop_cr taken) \<and> length (fc_out s) \<le> captureBuffer"
  using capture_reachable_inv [OF assms] by (simp add: capture_inv_def)

text \<open>C26: When the caller has begun to close the capture and every line written fits the scanner, \<open>Close\<close> returns if and only if at most 100
  of the lines have not been received. Otherwise the goroutine waits for room in the channel that nobody reads any more and the caller
  waits for the goroutine, for ever. The run of a closing capture is unique (\<open>closing_deterministic\<close>).\<close>

theorem close_returns_iff:
  assumes "capture_reachable s" and "fc_caller s = Closing" and "list_all fits_scanner (fc_written s)"
  shows "(\<exists>s' err. capture_step\<^sup>*\<^sup>* s s' \<and> fc_caller s' = Closed err) \<longleftrightarrow> length (fc_written s) \<le> captureBuffer + length (fc_received s)"
proof
  have inv: "capture_inv s" by (rule capture_reachable_inv [OF assms(1)])
  show "length (fc_written s) \<le> captureBuffer + length (fc_received s)" if "\<exists>s' err. capture_step\<^sup>*\<^sup>* s s' \<and> fc_caller s' = Closed err"
  proof (rule ccontr)
    assume "\<not> length (fc_written s) \<le> captureBuffer + length (fc_received s)"
    with inv assms(2,3) have "overfull s" by (simp add: overfull_def)
    with that show False by (auto dest: overfull_stuck simp: overfull_def)
  qed
  show "\<exists>s' err. capture_step\<^sup>*\<^sup>* s s' \<and> fc_caller s' = Closed err" if "length (fc_written s) \<le> captureBuffer + length (fc_received s)"
    using inv assms(2) that by (rule closing_ends)
qed

theorem captured_in_order_witness:
  "(\<exists>taken. fc_written (chatty 3 Running) = taken @ fc_pipe (chatty 3 Running) \<and>
     fc_received (chatty 3 Running) @ fc_out (chatty 3 Running) @ held (chatty 3 Running) = map drop_cr taken) \<and> length (fc_out (chatty 3 Running)) \<le> captureBuffer"
  by (rule captured_in_order [OF chatty_reachable(1)])

theorem close_returns_iff_witness:
  "\<not> (\<exists>s' err. capture_step\<^sup>*\<^sup>* (chatty 101 Closing) s' \<and> fc_caller s' = Closed err) \<and>
   (\<exists>s' err. capture_step\<^sup>*\<^sup>* (chatty 100 Closing) s' \<and> fc_caller s' = Closed err)"
proof -
  have c: "fc_caller (chatty n Closing) = Closing" "list_all fits_scanner (fc_written (chatty n Closing))"
    "length (fc_written (chatty n Closing)) = n" "fc_received (chatty n Closing) = []" for n
    by (simp_all add: chatty_def list_all_iff fits_scanner_def)
  show ?thesis
    using close_returns_iff [OF chatty_reachable(2) c(1,2), of 101] close_returns_iff [OF chatty_reachable(2) c(1,2), of 100]
    by (simp add: c captureBuffer_def)
qed

end
