(* ===== verification/Go_Heap.thy ===== *)
theory Go_Heap
  imports Main "HOL-Library.AList"
begin

text \<open>
  Memory of a Go program as far as the generated copies of the API objects use it: cells at addresses, allocated by \<open>new\<close>
  and \<open>make\<close>, read and written through pointers, slices and maps. A cell that was never allocated is \<open>None\<close>; there is no
  free. The locale \<open>deep_copy\<close> is the contract of every generated \<open>DeepCopyInto\<close>: the copy has the value of the original
  and that value lies in cells the copy allocated. The combinators translate the shapes the generator emits: a pointer, a
  slice, a map, a struct.
\<close>

section \<open>Memory\<close>

record 'c heap =
  cells :: "nat \<Rightarrow> 'c option"
  limit :: nat

definition alloc :: "'c \<Rightarrow> 'c heap \<Rightarrow> nat \<times> 'c heap" where
  "alloc c h = (limit h, h\<lparr>cells := (cells h)(limit h := Some c), limit := Suc (limit h)\<rparr>)"

definition store :: "nat \<Rightarrow> 'c \<Rightarrow> 'c heap \<Rightarrow> 'c heap" where
  "store a c h = h\<lparr>cells := (cells h)(a := Some c)\<rparr>"

definition load :: "('c \<Rightarrow> 'a option) \<Rightarrow> 'c heap \<Rightarrow> nat \<Rightarrow> 'a option" where
  "load rd h a = (case cells h a of None \<Rightarrow> None | Some c \<Rightarrow> rd c)"

text \<open>Addresses handed out so far are below \<open>limit\<close>.\<close>

definition heap_ok :: "'c heap \<Rightarrow> bool" where
  "heap_ok h \<longleftrightarrow> (\<forall>a. limit h \<le> a \<longrightarrow> cells h a = None)"

definition agree :: "nat set \<Rightarrow> 'c heap \<Rightarrow> 'c heap \<Rightarrow> bool" where
  "agree A h k \<longleftrightarrow> (\<forall>a\<in>A. cells k a = cells h a)"

text \<open>\<open>extends h h'\<close>: between the two only new cells were written.\<close>

definition extends :: "'c heap \<Rightarrow> 'c heap \<Rightarrow> bool" where
  "extends h h' \<longleftrightarrow> limit h \<le> limit h' \<and> agree {..<limit h} h h' \<and> heap_ok h'"

definition fresh :: "'c heap \<Rightarrow> 'c heap \<Rightarrow> nat set" where
  "fresh h h' = {limit h..<limit h'}"

lemma extends_refl: "heap_ok h \<Longrightarrow> extends h h"
  by (simp add: extends_def agree_def)

lemma extends_trans: "extends h h1 \<Longrightarrow> extends h1 h2 \<Longrightarrow> extends h h2"
  by (auto simp: extends_def agree_def)

lemma extends_alloc: "heap_ok h \<Longrightarrow> extends h (snd (alloc c h))"
  by (auto simp: extends_def agree_def heap_ok_def alloc_def)

lemma extends_store: "extends h h' \<Longrightarrow> a \<in> fresh h h' \<Longrightarrow> extends h (store a c h')"
  by (auto simp: extends_def agree_def heap_ok_def store_def fresh_def)

lemma extends_ok: "extends h h' \<Longrightarrow> heap_ok h'"
  by (simp add: extends_def)

lemma agree_extends: "extends h h' \<Longrightarrow> agree {..<limit h} h h'"
  by (simp add: extends_def)

lemma agree_mono: "agree A h k \<Longrightarrow> B \<subseteq> A \<Longrightarrow> agree B h k"
  by (auto simp: agree_def)

lemma load_agree: "heap_ok h \<Longrightarrow> load rd h a = Some x \<Longrightarrow> agree {..<limit h} h k \<Longrightarrow> load rd k a = Some x"
  by (cases "a < limit h") (auto simp: load_def agree_def heap_ok_def)

section \<open>Deep copies\<close>

text \<open>\<open>copied val h v y h'\<close>: in going from \<open>h\<close> to \<open>h'\<close> nothing old was written, and \<open>y\<close> has the value \<open>v\<close> in every memory
  that has the cells allocated on the way.\<close>

definition copied :: "('c heap \<Rightarrow> 'a \<Rightarrow> 'v option) \<Rightarrow> 'c heap \<Rightarrow> 'v \<Rightarrow> 'a \<Rightarrow> 'c heap \<Rightarrow> bool" where
  "copied val h v y h' \<longleftrightarrow> extends h h' \<and> (\<forall>k. agree (fresh h h') h' k \<longrightarrow> val k y = Some v)"

lemma copiedD: "copied val h v y h' \<Longrightarrow> agree (fresh h h') h' k \<Longrightarrow> val k y = Some v"
  by (simp add: copied_def)

lemma copied_later:
  assumes "copied val h v y h1" and "extends h1 h2"
  shows "copied val h v y h2"
proof -
  have e: "extends h h1" using assms(1) by (simp add: copied_def)
  have "agree (fresh h h1) h1 k" if "agree (fresh h h2) h2 k" for k
    using that e assms(2) by (auto simp: agree_def fresh_def extends_def)
  then show ?thesis using assms(1) extends_trans [OF e assms(2)] by (auto simp: copied_def)
qed

lemma copied_earlier:
  assumes "copied val h v y h'" and "extends h0 h"
  shows "copied val h0 v y h'"
proof -
  have "fresh h h' \<subseteq> fresh h0 h'" using assms(2) by (auto simp: fresh_def extends_def)
  then have "agree (fresh h h') h' k" if "agree (fresh h0 h') h' k" for k by (rule agree_mono [OF that])
  then show ?thesis using assms by (auto simp: copied_def intro: extends_trans)
qed

locale deep_copy =
  fixes val :: "'c heap \<Rightarrow> 'a \<Rightarrow> 'v option"
    and copy :: "'a \<Rightarrow> 'c heap \<Rightarrow> 'a \<times> 'c heap"
  assumes val_local: "heap_ok h \<Longrightarrow> val h x = Some v \<Longrightarrow> agree {..<limit h} h k \<Longrightarrow> val k x = Some v"
    and copies: "heap_ok h \<Longrightarrow> val h x = Some v \<Longrightarrow> copy x h = (y, h') \<Longrightarrow> copied val h v y h'"
begin

lemma val_extends: "heap_ok h \<Longrightarrow> val h x = Some v \<Longrightarrow> extends h h' \<Longrightarrow> val h' x = Some v"
  by (rule val_local [OF _ _ agree_extends])

lemma copy_keeps_original:
  "heap_ok h \<Longrightarrow> val h x = Some v \<Longrightarrow> copy x h = (y, h') \<Longrightarrow> extends h h' \<and> val h' x = Some v \<and> val h' y = Some v"
  using copies [of h x v y h'] val_extends [of h x v h'] by (simp add: copied_def agree_def)

text \<open>Whatever is later written through the copy leaves the original's value, and the other way round.\<close>

lemma original_unaffected:
  assumes "heap_ok h" "val h x = Some v" "copy x h = (y, h')" and "agree (- fresh h h') h' k"
  shows "val k x = Some v"
proof (rule val_local [OF assms(1,2)])
  have "extends h h'" using copies [OF assms(1-3)] by (simp add: copied_def)
  then show "agree {..<limit h} h k" using assms(4) by (auto simp: agree_def fresh_def extends_def)
qed

lemma copy_unaffected:
  assumes "heap_ok h" "val h x = Some v" "copy x h = (y, h')" and "agree (fresh h h') h' k"
  shows "val k y = Some v"
  using copiedD [OF copies [OF assms(1-3)] assms(4)] .

end

text \<open>Values without references copy by assignment.\<close>

definition plain :: "'a \<Rightarrow> 'c heap \<Rightarrow> 'a \<times> 'c heap" where
  "plain x h = (x, h)"

definition plain_val :: "'c heap \<Rightarrow> 'a \<Rightarrow> 'a option" where
  "plain_val h x = Some x"

interpretation plain: deep_copy plain_val plain
  by unfold_locales (auto simp: plain_val_def plain_def copied_def extends_refl)

text \<open>Two parts of a struct, one after the other.\<close>

definition copy_pair :: "('a \<Rightarrow> 'c heap \<Rightarrow> 'a \<times> 'c heap) \<Rightarrow> ('b \<Rightarrow> 'c heap \<Rightarrow> 'b \<times> 'c heap) \<Rightarrow> 'a \<times> 'b \<Rightarrow> 'c heap \<Rightarrow> ('a \<times> 'b) \<times> 'c heap" where
  "copy_pair c1 c2 p h = (let (x, h1) = c1 (fst p) h; (y, h2) = c2 (snd p) h1 in ((x, y), h2))"

definition val_pair :: "('c heap \<Rightarrow> 'a \<Rightarrow> 'v option) \<Rightarrow> ('c heap \<Rightarrow> 'b \<Rightarrow> 'w option) \<Rightarrow> 'c heap \<Rightarrow> 'a \<times> 'b \<Rightarrow> ('v \<times> 'w) option" where
  "val_pair v1 v2 h p = (case v1 h (fst p) of None \<Rightarrow> None | Some a \<Rightarrow> map_option (Pair a) (v2 h (snd p)))"

lemma val_pair_Some: "val_pair v1 v2 h p = Some ab \<longleftrightarrow> v1 h (fst p) = Some (fst ab) \<and> v2 h (snd p) = Some (snd ab)"
  by (cases ab) (auto simp: val_pair_def split: option.splits)

lemma deep_copy_pair:
  assumes "deep_copy v1 c1" and "deep_copy v2 c2"
  shows "deep_copy (val_pair v1 v2) (copy_pair c1 c2)"
proof
  fix h k :: "'a heap" and p ab
  assume ok: "heap_ok h" and v: "val_pair v1 v2 h p = Some ab" and a: "agree {..<limit h} h k"
  show "val_pair v1 v2 k p = Some ab" using v unfolding val_pair_Some
    by (intro conjI deep_copy.val_local [OF assms(1) ok _ a] deep_copy.val_local [OF assms(2) ok _ a]) simp_all
next
  fix h h' :: "'a heap" and p ab q
  assume ok: "heap_ok h" and v: "val_pair v1 v2 h p = Some ab" and c: "copy_pair c1 c2 p h = (q, h')"
  obtain x h1 where 1: "c1 (fst p) h = (x, h1)" by fastforce
  obtain y where 2: "c2 (snd p) h1 = (y, h')" and q: "q = (x, y)" using c 1
    by (auto simp: copy_pair_def split: prod.splits)
  have v1: "v1 h (fst p) = Some (fst ab)" and v2: "v2 h (snd p) = Some (snd ab)" using v by (simp_all add: val_pair_Some)
  have A: "copied v1 h (fst ab) x h1" by (rule deep_copy.copies [OF assms(1) ok v1 1])
  then have e: "extends h h1" by (simp add: copied_def)
  then have "v2 h1 (snd p) = Some (snd ab)" by (rule deep_copy.val_extends [OF assms(2) ok v2])
  then have B: "copied v2 h1 (snd ab) y h'" by (rule deep_copy.copies [OF assms(2) extends_ok [OF e] _ 2])
  then have "extends h1 h'" by (simp add: copied_def)
  then have "copied v1 h (fst ab) x h'" by (rule copied_later [OF A])
  with copied_earlier [OF B e] show "copied (val_pair v1 v2) h ab q h'" by (auto simp: copied_def val_pair_Some q)
qed

text \<open>A struct of which the copier duplicates the part \<open>g x\<close> and assigns the rest.\<close>

lemma deep_copy_via:
  assumes "deep_copy v c"
    and w: "\<And>h x. w h x = map_option (f x) (v h (g x))"
    and d: "\<And>x h. d x h = (let (p, h') = c (g x) h in (u x p, h'))"
    and u: "\<And>x p. g (u x p) = p" "\<And>x p. f (u x p) = f x"
  shows "deep_copy w d"
proof
  fix h k :: "'a heap" and x b
  assume ok: "heap_ok h" and v: "w h x = Some b" and ag: "agree {..<limit h} h k"
  then obtain a where a: "v h (g x) = Some a" "b = f x a" by (auto simp: w)
  from deep_copy.val_local [OF assms(1) ok a(1) ag] show "w k x = Some b" by (simp add: w a(2))
next
  fix h h' :: "'a heap" and x b y
  assume ok: "heap_ok h" and v: "w h x = Some b" and c: "d x h = (y, h')"
  obtain a where a: "v h (g x) = Some a" "b = f x a" using v by (auto simp: w)
  obtain p where p: "c (g x) h = (p, h')" "y = u x p" using c by (auto simp: d split: prod.splits)
  from deep_copy.copies [OF assms(1) ok a(1) p(1)] show "copied w h b y h'"
    by (auto simp: copied_def w u a(2) p(2))
qed

text \<open>A pointer: \<open>*out = new(T)\<close>, then the target is copied into the new cell.\<close>

definition copy_ptr :: "('c \<Rightarrow> 'a option) \<Rightarrow> ('a \<Rightarrow> 'c) \<Rightarrow> 'a \<Rightarrow> ('a \<Rightarrow> 'c heap \<Rightarrow> 'a \<times> 'c heap) \<Rightarrow> nat option \<Rightarrow> 'c heap \<Rightarrow> nat option \<times> 'c heap" where
  "copy_ptr rd mk zero cp p h =
     (case p of None \<Rightarrow> (None, h)
      | Some a \<Rightarrow> (case load rd h a of None \<Rightarrow> (None, h)
         | Some x \<Rightarrow> (let (b, h1) = alloc (mk zero) h; (y, h2) = cp x h1 in (Some b, store b (mk y) h2))))"

definition val_ptr :: "('c \<Rightarrow> 'a option) \<Rightarrow> ('c heap \<Rightarrow> 'a \<Rightarrow> 'v option) \<Rightarrow> 'c heap \<Rightarrow> nat option \<Rightarrow> 'v option option" where
  "val_ptr rd vl h p =
     (case p of None \<Rightarrow> Some None
      | Some a \<Rightarrow> (case load rd h a of None \<Rightarrow> None | Some x \<Rightarrow> map_option Some (vl h x)))"

lemma val_ptr_Some:
  "val_ptr rd vl h (Some a) = Some w \<longleftrightarrow> (\<exists>x v. load rd h a = Some x \<and> vl h x = Some v \<and> w = Some v)"
  by (auto simp: val_ptr_def split: option.splits)

lemma val_ptr_local:
  assumes "deep_copy vl cp" "heap_ok h" "val_ptr rd vl h p = Some w" "agree {..<limit h} h k"
  shows "val_ptr rd vl k p = Some w"
proof (cases p)
  case None
  with assms(3) show ?thesis by (simp add: val_ptr_def)
next
  case (Some a)
  then obtain x v where x: "load rd h a = Some x" "vl h x = Some v" "w = Some v" using assms(3) by (auto simp: val_ptr_Some)
  have "load rd k a = Some x" "vl k x = Some v"
    by (rule load_agree [OF assms(2) x(1) assms(4)], rule deep_copy.val_local [OF assms(1,2) x(2) assms(4)])
  with x(3) show ?thesis by (simp add: Some val_ptr_Some)
qed

text \<open>A cell is allocated, cells for its contents after it, and then it is filled in.\<close>

lemma copied_filled:
  assumes ok: "heap_ok h" and al: "alloc z h = (b, h1)" and cp: "copied vl h1 v y h2"
    and val: "\<And>k. cells k b = Some c \<Longrightarrow> vl k y = Some v \<Longrightarrow> vl' k r = Some w"
  shows "copied vl' h w r (store b c h2)"
proof -
  have e: "extends h h1" and b: "b = limit h" "limit h1 = Suc b"
    using extends_alloc [OF ok, of z] al by (auto simp: alloc_def)
  have e2: "extends h1 h2" using cp by (simp add: copied_def)
  have bf: "b \<in> fresh h h2" using e2 b by (simp add: fresh_def extends_def)
  have "vl' k r = Some w" if "agree (fresh h (store b c h2)) (store b c h2) k" for k
  proof (rule val)
    show "cells k b = Some c" using that bf by (simp add: agree_def fresh_def store_def)
    have "agree (fresh h1 h2) h2 k" using that b by (auto simp: agree_def fresh_def store_def)
    then show "vl k y = Some v" by (rule copiedD [OF cp])
  qed
  with extends_store [OF extends_trans [OF e e2] bf] show ?thesis by (simp add: copied_def)
qed

lemma deep_copy_ptr:
  assumes dc: "deep_copy vl cp" and rd: "\<And>x. rd (mk x) = Some x"
  shows "deep_copy (val_ptr rd vl) (copy_ptr rd mk zero cp)"
proof (rule deep_copy.intro, rule val_ptr_local [OF dc], assumption+)
  fix h h' :: "'a heap" and p w q
  assume ok: "heap_ok h" and v: "val_ptr rd vl h p = Some w" and c: "copy_ptr rd mk zero cp p h = (q, h')"
  show "copied (val_ptr rd vl) h w q h'"
  proof (cases p)
    case None
    with v c ok show ?thesis by (auto simp: copied_def copy_ptr_def val_ptr_def extends_refl)
  next
    case (Some a)
    then obtain x v' where x: "load rd h a = Some x" "vl h x = Some v'" "w = Some v'" using v by (auto simp: val_ptr_Some)
    obtain b h1 where al: "alloc (mk zero) h = (b, h1)" by fastforce
    obtain y h2 where y: "cp x h1 = (y, h2)" by fastforce
    have q: "q = Some b" "h' = store b (mk y) h2" using c Some x(1) al y by (simp_all add: copy_ptr_def)
    have e: "extends h h1" using extends_alloc [OF ok, of "mk zero"] al by simp
    have "copied vl h1 v' y h2"
      by (rule deep_copy.copies [OF dc extends_ok [OF e] deep_copy.val_extends [OF dc ok x(2) e] y])
    then show ?thesis unfolding q
      by (rule copied_filled [OF ok al]) (simp add: val_ptr_Some load_def rd x(3))
  qed
qed

lemma copy_ptr_new:
  assumes dc: "deep_copy vl cp" and ok: "heap_ok h" and v: "val_ptr rd vl h (Some a) = Some w"
    and c: "copy_ptr rd mk zero cp (Some a) h = (q, h')"
  shows "\<exists>b\<in>fresh h h'. q = Some b"
proof -
  obtain x v' where x: "load rd h a = Some x" "vl h x = Some v'" using v by (auto simp: val_ptr_Some)
  obtain b h1 where al: "alloc (mk zero) h = (b, h1)" by fastforce
  obtain y h2 where y: "cp x h1 = (y, h2)" by fastforce
  have q: "q = Some b" "h' = store b (mk y) h2" using c x(1) al y by (simp_all add: copy_ptr_def)
  have e: "extends h h1" using extends_alloc [OF ok, of "mk zero"] al by simp
  have "copied vl h1 v' y h2"
    by (rule deep_copy.copies [OF dc extends_ok [OF e] deep_copy.val_extends [OF dc ok x(2) e] y])
  then have "limit h1 \<le> limit h2" by (simp add: copied_def extends_def)
  then have "b \<in> fresh h h'" using al by (auto simp: alloc_def fresh_def q(2) store_def)
  with q(1) show ?thesis by blast
qed

text \<open>The elements of an array, in order.\<close>

fun copy_list :: "('a \<Rightarrow> 'c heap \<Rightarrow> 'a \<times> 'c heap) \<Rightarrow> 'a list \<Rightarrow> 'c heap \<Rightarrow> 'a list \<times> 'c heap" where
  "copy_list cp [] h = ([], h)"
| "copy_list cp (x # xs) h = (let (y, h1) = cp x h; (ys, h2) = copy_list cp xs h1 in (y # ys, h2))"

definition val_list :: "('c heap \<Rightarrow> 'a \<Rightarrow> 'v option) \<Rightarrow> 'c heap \<Rightarrow> 'a list \<Rightarrow> 'v list option" where
  "val_list vl h xs = those (map (vl h) xs)"

lemma val_list_Nil [simp]: "val_list vl h [] = Some []"
  by (simp add: val_list_def)

lemma val_list_Cons: "val_list vl h (x # xs) = Some vs \<longleftrightarrow> (\<exists>v ws. vl h x = Some v \<and> val_list vl h xs = Some ws \<and> vs = v # ws)"
  by (auto simp: val_list_def split: option.splits)

lemma val_list_plain: "val_list plain_val h xs = Some xs"
  by (induction xs) (auto simp: val_list_Cons plain_val_def)

lemma val_list_map:
  assumes "\<And>x. v h (f x) = map_option g (w h x)"
  shows "val_list v h (map f xs) = map_option (map g) (val_list w h xs)"
proof (induction xs)
  case (Cons x xs)
  then show ?case using assms [of x] by (cases "w h x"; cases "those (map (w h) xs)") (simp_all add: val_list_def)
qed (simp add: val_list_def)

lemma copy_list_plain: "copy_list plain xs h = (xs, h)"
  by (induction xs) (auto simp: plain_def)

lemma val_list_local:
  assumes "deep_copy vl cp" "heap_ok h" "agree {..<limit h} h k"
  shows "val_list vl h xs = Some vs \<Longrightarrow> val_list vl k xs = Some vs"
proof (induction xs arbitrary: vs)
  case (Cons x xs)
  then show ?case using deep_copy.val_local [OF assms(1,2) _ assms(3)] by (fastforce simp: val_list_Cons)
qed simp

lemma copy_list_copies:
  assumes dc: "deep_copy vl cp"
  shows "heap_ok h \<Longrightarrow> val_list vl h xs = Some vs \<Longrightarrow> copy_list cp xs h = (ys, h') \<Longrightarrow> copied (val_list vl) h vs ys h'"
proof (induction xs arbitrary: h vs ys h')
  case Nil
  then show ?case by (auto simp: copied_def extends_refl)
next
  case (Cons x xs)
  obtain v ws where v: "vl h x = Some v" "val_list vl h xs = Some ws" "vs = v # ws"
    using Cons.prems(2) by (auto simp: val_list_Cons)
  obtain y h1 where y: "cp x h = (y, h1)" by fastforce
  obtain ys2 where ys: "copy_list cp xs h1 = (ys2, h')" "ys = y # ys2"
    using Cons.prems(3) y by (auto split: prod.splits)
  have A: "copied vl h v y h1" by (rule deep_copy.copies [OF dc Cons.prems(1) v(1) y])
  then have e: "extends h h1" by (simp add: copied_def)
  have "val_list vl h1 xs = Some ws" by (rule val_list_local [OF dc Cons.prems(1) agree_extends [OF e] v(2)])
  then have B: "copied (val_list vl) h1 ws ys2 h'" by (rule Cons.IH [OF extends_ok [OF e] _ ys(1)])
  then have "extends h1 h'" by (simp add: copied_def)
  then have "copied vl h v y h'" by (rule copied_later [OF A])
  with copied_earlier [OF B e] show ?case by (auto simp: copied_def val_list_Cons ys(2) v(3))
qed

lemma deep_copy_list: "deep_copy vl cp \<Longrightarrow> deep_copy (val_list vl) (copy_list cp)"
  by (rule deep_copy.intro) (rule val_list_local copy_list_copies; assumption)+

text \<open>A slice: a part of an array; the copy is an array of its own, made of zero values and then filled.\<close>

record slice =
  sl_array :: nat
  sl_offset :: nat
  sl_len :: nat

definition slice_items :: "('c \<Rightarrow> 'a list option) \<Rightarrow> 'c heap \<Rightarrow> slice \<Rightarrow> 'a list option" where
  "slice_items rd h s =
     (case load rd h (sl_array s) of None \<Rightarrow> None
      | Some xs \<Rightarrow> if sl_offset s + sl_len s \<le> length xs then Some (take (sl_len s) (drop (sl_offset s) xs)) else None)"

definition copy_slice :: "('c \<Rightarrow> 'a list option) \<Rightarrow> ('a list \<Rightarrow> 'c) \<Rightarrow> 'a \<Rightarrow> ('a \<Rightarrow> 'c heap \<Rightarrow> 'a \<times> 'c heap) \<Rightarrow> slice option \<Rightarrow> 'c heap \<Rightarrow> slice option \<times> 'c heap" where
  "copy_slice rd mk zero cp s h =
     (case s of None \<Rightarrow> (None, h)
      | Some sl \<Rightarrow> (case slice_items rd h sl of None \<Rightarrow> (None, h)
         | Some xs \<Rightarrow>
            (let (b, h1) = alloc (mk (replicate (sl_len sl) zero)) h; (ys, h2) = copy_list cp xs h1
             in (Some \<lparr>sl_array = b, sl_offset = 0, sl_len = sl_len sl\<rparr>, store b (mk ys) h2))))"

definition val_slice :: "('c \<Rightarrow> 'a list option) \<Rightarrow> ('c heap \<Rightarrow> 'a \<Rightarrow> 'v option) \<Rightarrow> 'c heap \<Rightarrow> slice option \<Rightarrow> 'v list option option" where
  "val_slice rd vl h s =
     (case s of None \<Rightarrow> Some None
      | Some sl \<Rightarrow> (case slice_items rd h sl of None \<Rightarrow> None | Some xs \<Rightarrow> map_option Some (val_list vl h xs)))"

lemma val_slice_Some:
  "val_slice rd vl h (Some s) = Some w \<longleftrightarrow> (\<exists>xs vs. slice_items rd h s = Some xs \<and> val_list vl h xs = Some vs \<and> w = Some vs)"
  by (auto simp: val_slice_def split: option.splits)

lemma slice_items_agree:
  "heap_ok h \<Longrightarrow> slice_items rd h s = Some xs \<Longrightarrow> agree {..<limit h} h k \<Longrightarrow> slice_items rd k s = Some xs"
  using load_agree [of h rd "sl_array s" _ k] by (auto simp: slice_items_def split: option.splits if_splits)

lemma slice_items_length: "slice_items rd h s = Some xs \<Longrightarrow> length xs = sl_len s"
  by (auto simp: slice_items_def split: option.splits if_splits)

lemma val_list_length: "val_list vl h xs = Some vs \<Longrightarrow> length vs = length xs"
  by (induction xs arbitrary: vs) (auto simp: val_list_Cons)

lemma copy_list_length: "copy_list cp xs h = (ys, h') \<Longrightarrow> length ys = length xs"
  by (induction xs arbitrary: h ys) (auto split: prod.splits)

lemma deep_copy_slice:
  assumes dc: "deep_copy vl cp" and rd: "\<And>xs. rd (mk xs) = Some xs"
  shows "deep_copy (val_slice rd vl) (copy_slice rd mk zero cp)"
proof
  fix h k :: "'a heap" and s w
  assume ok: "heap_ok h" and v: "val_slice rd vl h s = Some w" and ag: "agree {..<limit h} h k"
  show "val_slice rd vl k s = Some w"
  proof (cases s)
    case None
    with v show ?thesis by (simp add: val_slice_def)
  next
    case (Some sl)
    then obtain xs vs where x: "slice_items rd h sl = Some xs" "val_list vl h xs = Some vs" "w = Some vs"
      using v by (auto simp: val_slice_Some)
    have "slice_items rd k sl = Some xs" "val_list vl k xs = Some vs"
      by (rule slice_items_agree [OF ok x(1) ag], rule val_list_local [OF dc ok ag x(2)])
    with x(3) show ?thesis by (simp add: Some val_slice_Some)
  qed
next
  fix h h' :: "'a heap" and s w q
  assume ok: "heap_ok h" and v: "val_slice rd vl h s = Some w" and c: "copy_slice rd mk zero cp s h = (q, h')"
  show "copied (val_slice rd vl) h w q h'"
  proof (cases s)
    case None
    with v c ok show ?thesis by (auto simp: copied_def copy_slice_def val_slice_def extends_refl)
  next
    case (Some sl)
    then obtain xs vs where x: "slice_items rd h sl = Some xs" "val_list vl h xs = Some vs" "w = Some vs"
      using v by (auto simp: val_slice_Some)
    obtain b h1 where al: "alloc (mk (replicate (sl_len sl) zero)) h = (b, h1)" by fastforce
    obtain ys h2 where y: "copy_list cp xs h1 = (ys, h2)" by fastforce
    have q: "q = Some \<lparr>sl_array = b, sl_offset = 0, sl_len = sl_len sl\<rparr>" "h' = store b (mk ys) h2"
      using c Some x(1) al y by (simp_all add: copy_slice_def)
    have e: "extends h h1" using extends_alloc [OF ok, of "mk (replicate (sl_len sl) zero)"] al by simp
    have len: "length ys = sl_len sl" using copy_list_length [OF y] slice_items_length [OF x(1)] by simp
    have "copied (val_list vl) h1 vs ys h2"
      by (rule copy_list_copies [OF dc extends_ok [OF e] val_list_local [OF dc ok agree_extends [OF e] x(2)] y])
    then show ?thesis unfolding q
      by (rule copied_filled [OF ok al]) (simp add: val_slice_Some slice_items_def load_def rd len x(3))
  qed
qed

text \<open>A map: \<open>make\<close>, and an assignment per entry. The association list of a map has distinct keys, in the order of the
  iteration.\<close>

fun copy_entries :: "('a \<Rightarrow> 'c heap \<Rightarrow> 'a \<times> 'c heap) \<Rightarrow> ('k \<times> 'a) list \<Rightarrow> ('k \<times> 'a) list \<Rightarrow> 'c heap \<Rightarrow> ('k \<times> 'a) list \<times> 'c heap" where
  "copy_entries cp [] acc h = (acc, h)"
| "copy_entries cp ((k, x) # es) acc h = (let (y, h1) = cp x h in copy_entries cp es (AList.update k y acc) h1)"

definition copy_map :: "('c \<Rightarrow> ('k \<times> 'a) list option) \<Rightarrow> (('k \<times> 'a) list \<Rightarrow> 'c) \<Rightarrow> ('a \<Rightarrow> 'c heap \<Rightarrow> 'a \<times> 'c heap) \<Rightarrow> nat option \<Rightarrow> 'c heap \<Rightarrow> nat option \<times> 'c heap" where
  "copy_map rd mk cp p h =
     (case p of None \<Rightarrow> (None, h)
      | Some a \<Rightarrow> (case load rd h a of None \<Rightarrow> (None, h)
         | Some es \<Rightarrow> (let (b, h1) = alloc (mk []) h; (fs, h2) = copy_entries cp es [] h1 in (Some b, store b (mk fs) h2))))"

definition val_entries :: "('c heap \<Rightarrow> 'a \<Rightarrow> 'v option) \<Rightarrow> 'c heap \<Rightarrow> ('k \<times> 'a) list \<Rightarrow> ('k \<times> 'v) list option" where
  "val_entries vl h es =
     (if distinct (map fst es) then map_option (zip (map fst es)) (val_list vl h (map snd es)) else None)"

lemma update_new_key: "k \<notin> set (map fst acc) \<Longrightarrow> AList.update k y acc = acc @ [(k, y)]"
  by (induction acc) auto

lemma copy_entries_list:
  "distinct (map fst (acc @ es)) \<Longrightarrow> copy_list cp (map snd es) h = (ys, h') \<Longrightarrow>
   copy_entries cp es acc h = (acc @ zip (map fst es) ys, h')"
proof (induction cp es acc h arbitrary: ys rule: copy_entries.induct)
  case (2 cp k x es acc h)
  obtain y h1 where y: "cp x h = (y, h1)" by fastforce
  obtain zs where zs: "copy_list cp (map snd es) h1 = (zs, h')" "ys = y # zs" using 2 y by (auto split: prod.splits)
  have "k \<notin> set (map fst acc)" using "2.prems"(1) by auto
  then have u: "AList.update k y acc = acc @ [(k, y)]" by (rule update_new_key)
  have "distinct (map fst ((acc @ [(k, y)]) @ es))" using "2.prems"(1) by simp
  from "2.IH" [OF y [symmetric] refl, unfolded u, OF this zs(1)] show ?case by (simp add: y u zs(2))
qed auto

lemma val_entries_Some:
  "val_entries vl h es = Some ws \<longleftrightarrow>
     distinct (map fst es) \<and> (\<exists>vs. val_list vl h (map snd es) = Some vs \<and> ws = zip (map fst es) vs)"
  by (auto simp: val_entries_def)

lemma deep_copy_entries:
  fixes vl :: "'c heap \<Rightarrow> 'a \<Rightarrow> 'v option"
  assumes dc: "deep_copy vl cp"
  shows "deep_copy (val_entries vl) (\<lambda>es :: ('k \<times> 'a) list. copy_entries cp es [])"
proof
  fix h k :: "'c heap" and es :: "('k \<times> 'a) list" and ws
  assume ok: "heap_ok h" and v: "val_entries vl h es = Some ws" and ag: "agree {..<limit h} h k"
  then show "val_entries vl k es = Some ws" using val_list_local [OF dc ok ag] unfolding val_entries_Some by blast
next
  fix h h' :: "'c heap" and es q :: "('k \<times> 'a) list" and ws
  assume ok: "heap_ok h" and v: "val_entries vl h es = Some ws" and c: "copy_entries cp es [] h = (q, h')"
  obtain vs where d: "distinct (map fst es)" and vs: "val_list vl h (map snd es) = Some vs" "ws = zip (map fst es) vs"
    using v by (auto simp: val_entries_Some)
  obtain ys h2 where y: "copy_list cp (map snd es) h = (ys, h2)" by fastforce
  have "distinct (map fst ([] @ es))" using d by simp
  from copy_entries_list [OF this y] c have q: "q = zip (map fst es) ys" "h' = h2" by simp_all
  have len: "length ys = length es" using copy_list_length [OF y] by simp
  have "copied (val_list vl) h vs ys h2" by (rule copy_list_copies [OF dc ok vs(1) y])
  then show "copied (val_entries vl) h ws q h'" using d len by (simp add: copied_def val_entries_Some q vs(2))
qed

lemma copy_map_ptr: "copy_map rd mk cp = copy_ptr rd mk [] (\<lambda>es. copy_entries cp es [])"
  by (auto simp: copy_map_def copy_ptr_def fun_eq_iff split: option.splits)

lemma deep_copy_map:
  assumes "deep_copy vl cp" and "\<And>es. rd (mk es) = Some es"
  shows "deep_copy (val_ptr rd (val_entries vl)) (copy_map rd mk cp)"
  unfolding copy_map_ptr by (rule deep_copy_ptr [OF deep_copy_entries [OF assms(1)] assms(2)])

end
