(* ===== verification/Api_Objects.thy ===== *)
theory Api_Objects
  imports Go_Heap Node_Config
begin

text \<open>
  The API objects as the program holds them in memory: the structs of \<open>internal/api/types.go\<close> and
  \<open>api/v1alpha1/nodeconfig_types.go\<close> with their pointers, slices and maps, and the deep copies generated for them
  (\<open>zz_generated.deepcopy.go\<close> of both packages). \<open>val_T\<close> reads the value of a struct out of a memory; it is \<open>None\<close> only
  where a pointer leads nowhere. The values are those of \<open>Node_Config\<close>, where the rest of the development works on them: the
  copies are what makes that faithful.

  The structs of the Kubernetes libraries inside the objects (\<open>metav1.ObjectMeta\<close>, \<open>metav1.ListMeta\<close>,
  \<open>runtime.RawExtension\<close>) are the parameter type \<open>'m\<close>, their copies the parameters of \<open>meta_lib\<close>.
\<close>

section \<open>The internal structs\<close>

record go_TypeMeta =
  tm_Kind :: string
  tm_APIVersion :: string

record go_ClusterDetails =
  gcl_Name :: string
  gcl_Region :: string
  gcl_APIServerEndpoint :: string
  gcl_CertificateAuthority :: "slice option"
  gcl_CIDR :: string
  gcl_EnableOutpost :: "nat option"
  gcl_ID :: string

text \<open>\<open>InlineDocument\<close> is a map, so a reference to a cell, or nil.\<close>

type_synonym go_InlineDocument = "nat option"

record go_KubeletOptions =
  gko_Config :: go_InlineDocument
  gko_Flags :: "slice option"

record go_ContainerdOptions =
  gco_Config :: string

record go_LocalStorageOptions =
  gls_Strategy :: string

record go_InstanceOptions =
  gio_LocalStorage :: go_LocalStorageOptions

record go_HybridOptions =
  gho_EnableCredentialsFile :: bool
  gho_IAMRolesAnywhere :: "nat option"
  gho_SSM :: "nat option"

record go_NodeConfigSpec =
  gsp_Cluster :: go_ClusterDetails
  gsp_Containerd :: go_ContainerdOptions
  gsp_Instance :: go_InstanceOptions
  gsp_Kubelet :: go_KubeletOptions
  gsp_Hybrid :: "nat option"

record InstanceDetails =
  id_ID :: string
  id_Region :: string
  id_Type :: string
  id_AvailabilityZone :: string
  id_MAC :: string
  id_PrivateDNSName :: string

record HybridDetails =
  hd_NodeName :: string

record DefaultOptions =
  do_SandboxImage :: string

record go_NodeConfigStatus =
  gst_Instance :: InstanceDetails
  gst_Hybrid :: HybridDetails
  gst_Defaults :: DefaultOptions

record 'm go_NodeConfig =
  gnc_TypeMeta :: go_TypeMeta
  gnc_ObjectMeta :: 'm
  gnc_Spec :: go_NodeConfigSpec
  gnc_Status :: go_NodeConfigStatus

record 'm go_NodeConfigList =
  gnl_TypeMeta :: go_TypeMeta
  gnl_ListMeta :: 'm
  gnl_Items :: "slice option"

section \<open>The structs of v1alpha1\<close>

text \<open>\<open>HybridOptions\<close>, \<open>IAMRolesAnywhere\<close> and \<open>SSM\<close> are reached through pointers which the conversions cast from one package's
  type to the other's: the cells are the same, and so are the records.\<close>

type_synonym v1_HybridOptions = go_HybridOptions
type_synonym v1_IAMRolesAnywhere = IAMRolesAnywhere
type_synonym v1_SSM = SSM

record v1_ClusterDetails =
  vcl_Name :: string
  vcl_Region :: string
  vcl_APIServerEndpoint :: string
  vcl_CertificateAuthority :: "slice option"
  vcl_CIDR :: string
  vcl_EnableOutpost :: "nat option"
  vcl_ID :: string

record v1_KubeletOptions =
  vko_Config :: "nat option"
  vko_Flags :: "slice option"

record v1_ContainerdOptions =
  vco_Config :: string

record v1_LocalStorageOptions =
  vls_Strategy :: string

record v1_InstanceOptions =
  vio_LocalStorage :: v1_LocalStorageOptions

record v1_NodeConfigSpec =
  vsp_Cluster :: v1_ClusterDetails
  vsp_Containerd :: v1_ContainerdOptions
  vsp_Instance :: v1_InstanceOptions
  vsp_Kubelet :: v1_KubeletOptions
  vsp_Hybrid :: "nat option"

record 'm v1_NodeConfig =
  vnc_TypeMeta :: go_TypeMeta
  vnc_ObjectMeta :: 'm
  vnc_Spec :: v1_NodeConfigSpec

record 'm v1_NodeConfigList =
  vnl_TypeMeta :: go_TypeMeta
  vnl_ListMeta :: 'm
  vnl_Items :: "slice option"

section \<open>Cells\<close>

datatype 'm cell =
    ByteArray bytes
  | BoolCell bool
  | StringArray "string list"
  | DocumentMap "(string \<times> 'm) list"
  | IAMRolesAnywhereCell IAMRolesAnywhere
  | SSMCell SSM
  | HybridOptionsCell go_HybridOptions
  | ClusterDetailsCell go_ClusterDetails
  | ContainerdOptionsCell go_ContainerdOptions
  | InstanceOptionsCell go_InstanceOptions
  | LocalStorageOptionsCell go_LocalStorageOptions
  | KubeletOptionsCell go_KubeletOptions
  | NodeConfigSpecCell go_NodeConfigSpec
  | InstanceDetailsCell InstanceDetails
  | HybridDetailsCell HybridDetails
  | DefaultOptionsCell DefaultOptions
  | NodeConfigStatusCell go_NodeConfigStatus
  | NodeConfigCell "'m go_NodeConfig"
  | NodeConfigArray "'m go_NodeConfig list"
  | NodeConfigListCell "'m go_NodeConfigList"
  | V1ClusterDetailsCell v1_ClusterDetails
  | V1ContainerdOptionsCell v1_ContainerdOptions
  | V1InstanceOptionsCell v1_InstanceOptions
  | V1LocalStorageOptionsCell v1_LocalStorageOptions
  | V1KubeletOptionsCell v1_KubeletOptions
  | V1NodeConfigSpecCell v1_NodeConfigSpec
  | V1NodeConfigCell "'m v1_NodeConfig"
  | V1NodeConfigArray "'m v1_NodeConfig list"
  | V1NodeConfigListCell "'m v1_NodeConfigList"
  | LibraryCell 'm

text \<open>Reading a cell at a type: Go's type system never lets this fail.\<close>

definition as_ByteArray :: "'m cell \<Rightarrow> bytes option" where
  "as_ByteArray c = (case c of ByteArray x \<Rightarrow> Some x | _ \<Rightarrow> None)"

definition as_BoolCell :: "'m cell \<Rightarrow> bool option" where
  "as_BoolCell c = (case c of BoolCell x \<Rightarrow> Some x | _ \<Rightarrow> None)"

definition as_StringArray :: "'m cell \<Rightarrow> (string list) option" where
  "as_StringArray c = (case c of StringArray x \<Rightarrow> Some x | _ \<Rightarrow> None)"

definition as_DocumentMap :: "'m cell \<Rightarrow> ((string \<times> 'm) list) option" where
  "as_DocumentMap c = (case c of DocumentMap x \<Rightarrow> Some x | _ \<Rightarrow> None)"

definition as_IAMRolesAnywhereCell :: "'m cell \<Rightarrow> IAMRolesAnywhere option" where
  "as_IAMRolesAnywhereCell c = (case c of IAMRolesAnywhereCell x \<Rightarrow> Some x | _ \<Rightarrow> None)"

definition as_SSMCell :: "'m cell \<Rightarrow> SSM option" where
  "as_SSMCell c = (case c of SSMCell x \<Rightarrow> Some x | _ \<Rightarrow> None)"

definition as_HybridOptionsCell :: "'m cell \<Rightarrow> go_HybridOptions option" where
  "as_HybridOptionsCell c = (case c of HybridOptionsCell x \<Rightarrow> Some x | _ \<Rightarrow> None)"

definition as_ClusterDetailsCell :: "'m cell \<Rightarrow> go_ClusterDetails option" where
  "as_ClusterDetailsCell c = (case c of ClusterDetailsCell x \<Rightarrow> Some x | _ \<Rightarrow> None)"

definition as_ContainerdOptionsCell :: "'m cell \<Rightarrow> go_ContainerdOptions option" where
  "as_ContainerdOptionsCell c = (case c of ContainerdOptionsCell x \<Rightarrow> Some x | _ \<Rightarrow> None)"

definition as_InstanceOptionsCell :: "'m cell \<Rightarrow> go_InstanceOptions option" where
  "as_InstanceOptionsCell c = (case c of InstanceOptionsCell x \<Rightarrow> Some x | _ \<Rightarrow> None)"

definition as_LocalStorageOptionsCell :: "'m cell \<Rightarrow> go_LocalStorageOptions option" where
  "as_LocalStorageOptionsCell c = (case c of LocalStorageOptionsCell x \<Rightarrow> Some x | _ \<Rightarrow> None)"

definition as_KubeletOptionsCell :: "'m cell \<Rightarrow> go_KubeletOptions option" where
  "as_KubeletOptionsCell c = (case c of KubeletOptionsCell x \<Rightarrow> Some x | _ \<Rightarrow> None)"

definition as_NodeConfigSpecCell :: "'m cell \<Rightarrow> go_NodeConfigSpec option" where
  "as_NodeConfigSpecCell c = (case c of NodeConfigSpecCell x \<Rightarrow> Some x | _ \<Rightarrow> None)"

definition as_InstanceDetailsCell :: "'m cell \<Rightarrow> InstanceDetails option" where
  "as_InstanceDetailsCell c = (case c of InstanceDetailsCell x \<Rightarrow> Some x | _ \<Rightarrow> None)"

definition as_HybridDetailsCell :: "'m cell \<Rightarrow> HybridDetails option" where
  "as_HybridDetailsCell c = (case c of HybridDetailsCell x \<Rightarrow> Some x | _ \<Rightarrow> None)"

definition as_DefaultOptionsCell :: "'m cell \<Rightarrow> DefaultOptions option" where
  "as_DefaultOptionsCell c = (case c of DefaultOptionsCell x \<Rightarrow> Some x | _ \<Rightarrow> None)"

definition as_NodeConfigStatusCell :: "'m cell \<Rightarrow> go_NodeConfigStatus option" where
  "as_NodeConfigStatusCell c = (case c of NodeConfigStatusCell x \<Rightarrow> Some x | _ \<Rightarrow> None)"

definition as_NodeConfigCell :: "'m cell \<Rightarrow> ('m go_NodeConfig) option" where
  "as_NodeConfigCell c = (case c of NodeConfigCell x \<Rightarrow> Some x | _ \<Rightarrow> None)"

definition as_NodeConfigArray :: "'m cell \<Rightarrow> ('m go_NodeConfig list) option" where
  "as_NodeConfigArray c = (case c of NodeConfigArray x \<Rightarrow> Some x | _ \<Rightarrow> None)"

definition as_NodeConfigListCell :: "'m cell \<Rightarrow> ('m go_NodeConfigList) option" where
  "as_NodeConfigListCell c = (case c of NodeConfigListCell x \<Rightarrow> Some x | _ \<Rightarrow> None)"

definition as_V1ClusterDetailsCell :: "'m cell \<Rightarrow> v1_ClusterDetails option" where
  "as_V1ClusterDetailsCell c = (case c of V1ClusterDetailsCell x \<Rightarrow> Some x | _ \<Rightarrow> None)"

definition as_V1ContainerdOptionsCell :: "'m cell \<Rightarrow> v1_ContainerdOptions option" where
  "as_V1ContainerdOptionsCell c = (case c of V1ContainerdOptionsCell x \<Rightarrow> Some x | _ \<Rightarrow> None)"

definition as_V1InstanceOptionsCell :: "'m cell \<Rightarrow> v1_InstanceOptions option" where
  "as_V1InstanceOptionsCell c = (case c of V1InstanceOptionsCell x \<Rightarrow> Some x | _ \<Rightarrow> None)"

definition as_V1LocalStorageOptionsCell :: "'m cell \<Rightarrow> v1_LocalStorageOptions option" where
  "as_V1LocalStorageOptionsCell c = (case c of V1LocalStorageOptionsCell x \<Rightarrow> Some x | _ \<Rightarrow> None)"

definition as_V1KubeletOptionsCell :: "'m cell \<Rightarrow> v1_KubeletOptions option" where
  "as_V1KubeletOptionsCell c = (case c of V1KubeletOptionsCell x \<Rightarrow> Some x | _ \<Rightarrow> None)"

definition as_V1NodeConfigSpecCell :: "'m cell \<Rightarrow> v1_NodeConfigSpec option" where
  "as_V1NodeConfigSpecCell c = (case c of V1NodeConfigSpecCell x \<Rightarrow> Some x | _ \<Rightarrow> None)"

definition as_V1NodeConfigCell :: "'m cell \<Rightarrow> ('m v1_NodeConfig) option" where
  "as_V1NodeConfigCell c = (case c of V1NodeConfigCell x \<Rightarrow> Some x | _ \<Rightarrow> None)"

definition as_V1NodeConfigArray :: "'m cell \<Rightarrow> ('m v1_NodeConfig list) option" where
  "as_V1NodeConfigArray c = (case c of V1NodeConfigArray x \<Rightarrow> Some x | _ \<Rightarrow> None)"

definition as_V1NodeConfigListCell :: "'m cell \<Rightarrow> ('m v1_NodeConfigList) option" where
  "as_V1NodeConfigListCell c = (case c of V1NodeConfigListCell x \<Rightarrow> Some x | _ \<Rightarrow> None)"

lemma as_cell [simp]:
  "as_ByteArray (ByteArray x0) = Some x0"
  "as_BoolCell (BoolCell x1) = Some x1"
  "as_StringArray (StringArray x2) = Some x2"
  "as_DocumentMap (DocumentMap x3) = Some x3"
  "as_IAMRolesAnywhereCell (IAMRolesAnywhereCell x4) = Some x4"
  "as_SSMCell (SSMCell x5) = Some x5"
  "as_HybridOptionsCell (HybridOptionsCell x6) = Some x6"
  "as_ClusterDetailsCell (ClusterDetailsCell x7) = Some x7"
  "as_ContainerdOptionsCell (ContainerdOptionsCell x8) = Some x8"
  "as_InstanceOptionsCell (InstanceOptionsCell x9) = Some x9"
  "as_LocalStorageOptionsCell (LocalStorageOptionsCell x10) = Some x10"
  "as_KubeletOptionsCell (KubeletOptionsCell x11) = Some x11"
  "as_NodeConfigSpecCell (NodeConfigSpecCell x12) = Some x12"
  "as_InstanceDetailsCell (InstanceDetailsCell x13) = Some x13"
  "as_HybridDetailsCell (HybridDetailsCell x14) = Some x14"
  "as_DefaultOptionsCell (DefaultOptionsCell x15) = Some x15"
  "as_NodeConfigStatusCell (NodeConfigStatusCell x16) = Some x16"
  "as_NodeConfigCell (NodeConfigCell x17) = Some x17"
  "as_NodeConfigArray (NodeConfigArray x18) = Some x18"
  "as_NodeConfigListCell (NodeConfigListCell x19) = Some x19"
  "as_V1ClusterDetailsCell (V1ClusterDetailsCell x20) = Some x20"
  "as_V1ContainerdOptionsCell (V1ContainerdOptionsCell x21) = Some x21"
  "as_V1InstanceOptionsCell (V1InstanceOptionsCell x22) = Some x22"
  "as_V1LocalStorageOptionsCell (V1LocalStorageOptionsCell x23) = Some x23"
  "as_V1KubeletOptionsCell (V1KubeletOptionsCell x24) = Some x24"
  "as_V1NodeConfigSpecCell (V1NodeConfigSpecCell x25) = Some x25"
  "as_V1NodeConfigCell (V1NodeConfigCell x26) = Some x26"
  "as_V1NodeConfigArray (V1NodeConfigArray x27) = Some x27"
  "as_V1NodeConfigListCell (V1NodeConfigListCell x28) = Some x28"
  by (simp_all add: as_ByteArray_def as_BoolCell_def as_StringArray_def as_DocumentMap_def as_IAMRolesAnywhereCell_def as_SSMCell_def as_HybridOptionsCell_def as_ClusterDetailsCell_def as_ContainerdOptionsCell_def as_InstanceOptionsCell_def as_LocalStorageOptionsCell_def as_KubeletOptionsCell_def as_NodeConfigSpecCell_def as_InstanceDetailsCell_def as_HybridDetailsCell_def as_DefaultOptionsCell_def as_NodeConfigStatusCell_def as_NodeConfigCell_def as_NodeConfigArray_def as_NodeConfigListCell_def as_V1ClusterDetailsCell_def as_V1ContainerdOptionsCell_def as_V1InstanceOptionsCell_def as_V1LocalStorageOptionsCell_def as_V1KubeletOptionsCell_def as_V1NodeConfigSpecCell_def as_V1NodeConfigCell_def as_V1NodeConfigArray_def as_V1NodeConfigListCell_def)

record 'm meta_lib =
  meta_value :: "'m cell heap \<Rightarrow> 'm \<Rightarrow> bytes option"
  ObjectMeta_DeepCopyInto :: "'m \<Rightarrow> 'm cell heap \<Rightarrow> 'm \<times> 'm cell heap"
  ListMeta_DeepCopyInto :: "'m \<Rightarrow> 'm cell heap \<Rightarrow> 'm \<times> 'm cell heap"
  RawExtension_DeepCopy :: "'m \<Rightarrow> 'm cell heap \<Rightarrow> 'm \<times> 'm cell heap"
  meta_zero :: 'm

text \<open>What the libraries document of their own generated copies.\<close>

definition meta_lib_ok :: "'m meta_lib \<Rightarrow> bool" where
  "meta_lib_ok L \<longleftrightarrow>
     deep_copy (meta_value L) (ObjectMeta_DeepCopyInto L) \<and> deep_copy (meta_value L) (ListMeta_DeepCopyInto L) \<and>
     deep_copy (meta_value L) (RawExtension_DeepCopy L)"

section \<open>Zero values\<close>

definition zero_IAMRolesAnywhere :: IAMRolesAnywhere where
  "zero_IAMRolesAnywhere = \<lparr>ra_NodeName = [], TrustAnchorARN = [], ProfileARN = [], RoleARN = [], AwsConfigPath = [], CertificatePath = [], PrivateKeyPath = []\<rparr>"

definition zero_SSM :: SSM where
  "zero_SSM = \<lparr>ActivationCode = [], ActivationID = []\<rparr>"

definition zero_HybridOptions :: go_HybridOptions where
  "zero_HybridOptions = \<lparr>gho_EnableCredentialsFile = False, gho_IAMRolesAnywhere = None, gho_SSM = None\<rparr>"

definition zero_ClusterDetails :: go_ClusterDetails where
  "zero_ClusterDetails = \<lparr>gcl_Name = [], gcl_Region = [], gcl_APIServerEndpoint = [], gcl_CertificateAuthority = None, gcl_CIDR = [], gcl_EnableOutpost = None, gcl_ID = []\<rparr>"

definition zero_ContainerdOptions :: go_ContainerdOptions where
  "zero_ContainerdOptions = \<lparr>gco_Config = []\<rparr>"

definition zero_LocalStorageOptions :: go_LocalStorageOptions where
  "zero_LocalStorageOptions = \<lparr>gls_Strategy = []\<rparr>"

definition zero_InstanceOptions :: go_InstanceOptions where
  "zero_InstanceOptions = \<lparr>gio_LocalStorage = zero_LocalStorageOptions\<rparr>"

definition zero_KubeletOptions :: go_KubeletOptions where
  "zero_KubeletOptions = \<lparr>gko_Config = None, gko_Flags = None\<rparr>"

definition zero_NodeConfigSpec :: go_NodeConfigSpec where
  "zero_NodeConfigSpec = \<lparr>gsp_Cluster = zero_ClusterDetails, gsp_Containerd = zero_ContainerdOptions, gsp_Instance = zero_InstanceOptions, gsp_Kubelet = zero_KubeletOptions, gsp_Hybrid = None\<rparr>"

definition zero_InstanceDetails :: InstanceDetails where
  "zero_InstanceDetails = \<lparr>id_ID = [], id_Region = [], id_Type = [], id_AvailabilityZone = [], id_MAC = [], id_PrivateDNSName = []\<rparr>"

definition zero_HybridDetails :: HybridDetails where
  "zero_HybridDetails = \<lparr>hd_NodeName = []\<rparr>"

definition zero_DefaultOptions :: DefaultOptions where
  "zero_DefaultOptions = \<lparr>do_SandboxImage = []\<rparr>"

definition zero_NodeConfigStatus :: go_NodeConfigStatus where
  "zero_NodeConfigStatus = \<lparr>gst_Instance = zero_InstanceDetails, gst_Hybrid = zero_HybridDetails, gst_Defaults = zero_DefaultOptions\<rparr>"

definition zero_go_TypeMeta :: go_TypeMeta where
  "zero_go_TypeMeta = \<lparr>tm_Kind = [], tm_APIVersion = []\<rparr>"

definition zero_NodeConfig :: "'m meta_lib \<Rightarrow> 'm go_NodeConfig" where
  "zero_NodeConfig L = \<lparr>gnc_TypeMeta = zero_go_TypeMeta, gnc_ObjectMeta = meta_zero L, gnc_Spec = zero_NodeConfigSpec,
     gnc_Status = zero_NodeConfigStatus\<rparr>"

definition zero_NodeConfigList :: "'m meta_lib \<Rightarrow> 'm go_NodeConfigList" where
  "zero_NodeConfigList L = \<lparr>gnl_TypeMeta = zero_go_TypeMeta, gnl_ListMeta = meta_zero L, gnl_Items = None\<rparr>"

section \<open>The deep copies of the internal package\<close>

text \<open>Each \<open>DeepCopyInto\<close> takes the struct its receiver points to and returns the struct it leaves in \<open>out\<close>, which its first
  assignment \<open>*out = *in\<close> overwrites whole. Each \<open>DeepCopy\<close> is the pointer shape \<open>copy_ptr\<close>: nil for nil, otherwise \<open>new(T)\<close>
  and \<open>DeepCopyInto\<close>.\<close>

definition DeepCopyInto_ClusterDetails :: "go_ClusterDetails \<Rightarrow> 'm cell heap \<Rightarrow> go_ClusterDetails \<times> 'm cell heap" where
  "DeepCopyInto_ClusterDetails x h =
     (let (ca, h1) = copy_slice as_ByteArray ByteArray (CHR 0x00) plain (gcl_CertificateAuthority x) h;
          (outpost, h2) = copy_ptr as_BoolCell BoolCell False plain (gcl_EnableOutpost x) h1
      in (x\<lparr>gcl_CertificateAuthority := ca, gcl_EnableOutpost := outpost\<rparr>, h2))"

definition DeepCopy_ClusterDetails :: "nat option \<Rightarrow> 'm cell heap \<Rightarrow> nat option \<times> 'm cell heap" where
  "DeepCopy_ClusterDetails = copy_ptr as_ClusterDetailsCell ClusterDetailsCell zero_ClusterDetails DeepCopyInto_ClusterDetails"

definition DeepCopyInto_ContainerdOptions :: "go_ContainerdOptions \<Rightarrow> 'm cell heap \<Rightarrow> go_ContainerdOptions \<times> 'm cell heap" where
  "DeepCopyInto_ContainerdOptions x h = (x, h)"

definition DeepCopy_ContainerdOptions :: "nat option \<Rightarrow> 'm cell heap \<Rightarrow> nat option \<times> 'm cell heap" where
  "DeepCopy_ContainerdOptions = copy_ptr as_ContainerdOptionsCell ContainerdOptionsCell zero_ContainerdOptions DeepCopyInto_ContainerdOptions"

definition DeepCopyInto_DefaultOptions :: "DefaultOptions \<Rightarrow> 'm cell heap \<Rightarrow> DefaultOptions \<times> 'm cell heap" where
  "DeepCopyInto_DefaultOptions x h = (x, h)"

definition DeepCopy_DefaultOptions :: "nat option \<Rightarrow> 'm cell heap \<Rightarrow> nat option \<times> 'm cell heap" where
  "DeepCopy_DefaultOptions = copy_ptr as_DefaultOptionsCell DefaultOptionsCell zero_DefaultOptions DeepCopyInto_DefaultOptions"

definition DeepCopyInto_HybridDetails :: "HybridDetails \<Rightarrow> 'm cell heap \<Rightarrow> HybridDetails \<times> 'm cell heap" where
  "DeepCopyInto_HybridDetails x h = (x, h)"

definition DeepCopy_HybridDetails :: "nat option \<Rightarrow> 'm cell heap \<Rightarrow> nat option \<times> 'm cell heap" where
  "DeepCopy_HybridDetails = copy_ptr as_HybridDetailsCell HybridDetailsCell zero_HybridDetails DeepCopyInto_HybridDetails"

definition DeepCopyInto_HybridOptions :: "go_HybridOptions \<Rightarrow> 'm cell heap \<Rightarrow> go_HybridOptions \<times> 'm cell heap" where
  "DeepCopyInto_HybridOptions x h =
     (let (ra, h1) = copy_ptr as_IAMRolesAnywhereCell IAMRolesAnywhereCell zero_IAMRolesAnywhere plain (gho_IAMRolesAnywhere x) h;
          (ssm, h2) = copy_ptr as_SSMCell SSMCell zero_SSM plain (gho_SSM x) h1
      in (x\<lparr>gho_IAMRolesAnywhere := ra, gho_SSM := ssm\<rparr>, h2))"

definition DeepCopy_HybridOptions :: "nat option \<Rightarrow> 'm cell heap \<Rightarrow> nat option \<times> 'm cell heap" where
  "DeepCopy_HybridOptions = copy_ptr as_HybridOptionsCell HybridOptionsCell zero_HybridOptions DeepCopyInto_HybridOptions"

definition DeepCopyInto_IAMRolesAnywhere :: "IAMRolesAnywhere \<Rightarrow> 'm cell heap \<Rightarrow> IAMRolesAnywhere \<times> 'm cell heap" where
  "DeepCopyInto_IAMRolesAnywhere x h = (x, h)"

definition DeepCopy_IAMRolesAnywhere :: "nat option \<Rightarrow> 'm cell heap \<Rightarrow> nat option \<times> 'm cell heap" where
  "DeepCopy_IAMRolesAnywhere = copy_ptr as_IAMRolesAnywhereCell IAMRolesAnywhereCell zero_IAMRolesAnywhere DeepCopyInto_IAMRolesAnywhere"

text \<open>On its own an \<open>InlineDocument\<close> is copied into a new map even when it is nil; \<open>DeepCopy\<close> and the structs ask first.\<close>

definition DeepCopyInto_InlineDocument :: "'m meta_lib \<Rightarrow> go_InlineDocument \<Rightarrow> 'm cell heap \<Rightarrow> go_InlineDocument \<times> 'm cell heap" where
  "DeepCopyInto_InlineDocument L x h =
     (let es = (case x of None \<Rightarrow> [] | Some a \<Rightarrow> (case load as_DocumentMap h a of None \<Rightarrow> [] | Some es \<Rightarrow> es));
          (b, h1) = alloc (DocumentMap []) h;
          (fs, h2) = copy_entries (RawExtension_DeepCopy L) es [] h1
      in (Some b, store b (DocumentMap fs) h2))"

definition DeepCopy_InlineDocument :: "'m meta_lib \<Rightarrow> go_InlineDocument \<Rightarrow> 'm cell heap \<Rightarrow> go_InlineDocument \<times> 'm cell heap" where
  "DeepCopy_InlineDocument L x h = (case x of None \<Rightarrow> (None, h) | Some a \<Rightarrow> DeepCopyInto_InlineDocument L x h)"

definition DeepCopyInto_InstanceDetails :: "InstanceDetails \<Rightarrow> 'm cell heap \<Rightarrow> InstanceDetails \<times> 'm cell heap" where
  "DeepCopyInto_InstanceDetails x h = (x, h)"

definition DeepCopy_InstanceDetails :: "nat option \<Rightarrow> 'm cell heap \<Rightarrow> nat option \<times> 'm cell heap" where
  "DeepCopy_InstanceDetails = copy_ptr as_InstanceDetailsCell InstanceDetailsCell zero_InstanceDetails DeepCopyInto_InstanceDetails"

definition DeepCopyInto_InstanceOptions :: "go_InstanceOptions \<Rightarrow> 'm cell heap \<Rightarrow> go_InstanceOptions \<times> 'm cell heap" where
  "DeepCopyInto_InstanceOptions x h = (x\<lparr>gio_LocalStorage := gio_LocalStorage x\<rparr>, h)"

definition DeepCopy_InstanceOptions :: "nat option \<Rightarrow> 'm cell heap \<Rightarrow> nat option \<times> 'm cell heap" where
  "DeepCopy_InstanceOptions = copy_ptr as_InstanceOptionsCell InstanceOptionsCell zero_InstanceOptions DeepCopyInto_InstanceOptions"

definition DeepCopyInto_KubeletOptions :: "'m meta_lib \<Rightarrow> go_KubeletOptions \<Rightarrow> 'm cell heap \<Rightarrow> go_KubeletOptions \<times> 'm cell heap" where
  "DeepCopyInto_KubeletOptions L x h =
     (let (config, h1) = copy_map as_DocumentMap DocumentMap (RawExtension_DeepCopy L) (gko_Config x) h;
          (flgs, h2) = copy_slice as_StringArray StringArray [] plain (gko_Flags x) h1
      in (x\<lparr>gko_Config := config, gko_Flags := flgs\<rparr>, h2))"

definition DeepCopy_KubeletOptions :: "'m meta_lib \<Rightarrow> nat option \<Rightarrow> 'm cell heap \<Rightarrow> nat option \<times> 'm cell heap" where
  "DeepCopy_KubeletOptions L = copy_ptr as_KubeletOptionsCell KubeletOptionsCell zero_KubeletOptions (DeepCopyInto_KubeletOptions L)"

definition DeepCopyInto_LocalStorageOptions :: "go_LocalStorageOptions \<Rightarrow> 'm cell heap \<Rightarrow> go_LocalStorageOptions \<times> 'm cell heap" where
  "DeepCopyInto_LocalStorageOptions x h = (x, h)"

definition DeepCopy_LocalStorageOptions :: "nat option \<Rightarrow> 'm cell heap \<Rightarrow> nat option \<times> 'm cell heap" where
  "DeepCopy_LocalStorageOptions = copy_ptr as_LocalStorageOptionsCell LocalStorageOptionsCell zero_LocalStorageOptions DeepCopyInto_LocalStorageOptions"

definition DeepCopyInto_NodeConfigSpec :: "'m meta_lib \<Rightarrow> go_NodeConfigSpec \<Rightarrow> 'm cell heap \<Rightarrow> go_NodeConfigSpec \<times> 'm cell heap" where
  "DeepCopyInto_NodeConfigSpec L x h =
     (let (cluster, h1) = DeepCopyInto_ClusterDetails (gsp_Cluster x) h;
          (kubelet, h2) = DeepCopyInto_KubeletOptions L (gsp_Kubelet x) h1;
          (hybrid, h3) = copy_ptr as_HybridOptionsCell HybridOptionsCell zero_HybridOptions DeepCopyInto_HybridOptions (gsp_Hybrid x) h2
      in (x\<lparr>gsp_Cluster := cluster, gsp_Containerd := gsp_Containerd x, gsp_Instance := gsp_Instance x,
            gsp_Kubelet := kubelet, gsp_Hybrid := hybrid\<rparr>, h3))"

definition DeepCopy_NodeConfigSpec :: "'m meta_lib \<Rightarrow> nat option \<Rightarrow> 'm cell heap \<Rightarrow> nat option \<times> 'm cell heap" where
  "DeepCopy_NodeConfigSpec L = copy_ptr as_NodeConfigSpecCell NodeConfigSpecCell zero_NodeConfigSpec (DeepCopyInto_NodeConfigSpec L)"

definition DeepCopyInto_NodeConfigStatus :: "go_NodeConfigStatus \<Rightarrow> 'm cell heap \<Rightarrow> go_NodeConfigStatus \<times> 'm cell heap" where
  "DeepCopyInto_NodeConfigStatus x h = (x\<lparr>gst_Instance := gst_Instance x, gst_Hybrid := gst_Hybrid x, gst_Defaults := gst_Defaults x\<rparr>, h)"

definition DeepCopy_NodeConfigStatus :: "nat option \<Rightarrow> 'm cell heap \<Rightarrow> nat option \<times> 'm cell heap" where
  "DeepCopy_NodeConfigStatus = copy_ptr as_NodeConfigStatusCell NodeConfigStatusCell zero_NodeConfigStatus DeepCopyInto_NodeConfigStatus"

definition DeepCopyInto_SSM :: "SSM \<Rightarrow> 'm cell heap \<Rightarrow> SSM \<times> 'm cell heap" where
  "DeepCopyInto_SSM x h = (x, h)"

definition DeepCopy_SSM :: "nat option \<Rightarrow> 'm cell heap \<Rightarrow> nat option \<times> 'm cell heap" where
  "DeepCopy_SSM = copy_ptr as_SSMCell SSMCell zero_SSM DeepCopyInto_SSM"

definition DeepCopyInto_NodeConfig :: "'m meta_lib \<Rightarrow> 'm go_NodeConfig \<Rightarrow> 'm cell heap \<Rightarrow> 'm go_NodeConfig \<times> 'm cell heap" where
  "DeepCopyInto_NodeConfig L x h =
     (let (om, h1) = ObjectMeta_DeepCopyInto L (gnc_ObjectMeta x) h;
          (spec, h2) = DeepCopyInto_NodeConfigSpec L (gnc_Spec x) h1
      in (x\<lparr>gnc_TypeMeta := gnc_TypeMeta x, gnc_ObjectMeta := om, gnc_Spec := spec, gnc_Status := gnc_Status x\<rparr>, h2))"

definition DeepCopy_NodeConfig :: "'m meta_lib \<Rightarrow> nat option \<Rightarrow> 'm cell heap \<Rightarrow> nat option \<times> 'm cell heap" where
  "DeepCopy_NodeConfig L = copy_ptr as_NodeConfigCell NodeConfigCell (zero_NodeConfig L) (DeepCopyInto_NodeConfig L)"

definition DeepCopyObject_NodeConfig :: "'m meta_lib \<Rightarrow> nat option \<Rightarrow> 'm cell heap \<Rightarrow> nat option \<times> 'm cell heap" where
  "DeepCopyObject_NodeConfig L p h = (case DeepCopy_NodeConfig L p h of (Some c, h') \<Rightarrow> (Some c, h') | (None, h') \<Rightarrow> (None, h'))"

definition DeepCopyInto_NodeConfigList :: "'m meta_lib \<Rightarrow> 'm go_NodeConfigList \<Rightarrow> 'm cell heap \<Rightarrow> 'm go_NodeConfigList \<times> 'm cell heap" where
  "DeepCopyInto_NodeConfigList L x h =
     (let (lm, h1) = ListMeta_DeepCopyInto L (gnl_ListMeta x) h;
          (items, h2) = copy_slice as_NodeConfigArray NodeConfigArray (zero_NodeConfig L) (DeepCopyInto_NodeConfig L) (gnl_Items x) h1
      in (x\<lparr>gnl_TypeMeta := gnl_TypeMeta x, gnl_ListMeta := lm, gnl_Items := items\<rparr>, h2))"

definition DeepCopy_NodeConfigList :: "'m meta_lib \<Rightarrow> nat option \<Rightarrow> 'm cell heap \<Rightarrow> nat option \<times> 'm cell heap" where
  "DeepCopy_NodeConfigList L = copy_ptr as_NodeConfigListCell NodeConfigListCell (zero_NodeConfigList L) (DeepCopyInto_NodeConfigList L)"

definition DeepCopyObject_NodeConfigList :: "'m meta_lib \<Rightarrow> nat option \<Rightarrow> 'm cell heap \<Rightarrow> nat option \<times> 'm cell heap" where
  "DeepCopyObject_NodeConfigList L p h = (case DeepCopy_NodeConfigList L p h of (Some c, h') \<Rightarrow> (Some c, h') | (None, h') \<Rightarrow> (None, h'))"

section \<open>Values\<close>

text \<open>The value of a struct with all its references followed. Nil and empty stay apart for the certificate authority, the kubelet's
  document and its flags.\<close>

definition val_ClusterDetails :: "'m cell heap \<Rightarrow> go_ClusterDetails \<Rightarrow> ClusterDetails option" where
  "val_ClusterDetails h x =
     map_option (\<lambda>(ca, outpost). \<lparr>cl_Name = gcl_Name x, cl_Region = gcl_Region x, APIServerEndpoint = gcl_APIServerEndpoint x,
         CertificateAuthority = ca, CIDR = gcl_CIDR x, EnableOutpost = outpost, cl_ID = gcl_ID x\<rparr>)
       (val_pair (val_slice as_ByteArray plain_val) (val_ptr as_BoolCell plain_val) h
         (gcl_CertificateAuthority x, gcl_EnableOutpost x))"

definition val_HybridOptions :: "'m cell heap \<Rightarrow> go_HybridOptions \<Rightarrow> HybridOptions option" where
  "val_HybridOptions h x =
     map_option (\<lambda>(ra, ssm). \<lparr>EnableCredentialsFile = gho_EnableCredentialsFile x, ho_IAMRolesAnywhere = ra, ho_SSM = ssm\<rparr>)
       (val_pair (val_ptr as_IAMRolesAnywhereCell plain_val) (val_ptr as_SSMCell plain_val) h
         (gho_IAMRolesAnywhere x, gho_SSM x))"

type_synonym kubelet_value = "(string \<times> bytes) list option \<times> string list option"

definition val_document :: "'m meta_lib \<Rightarrow> 'm cell heap \<Rightarrow> go_InlineDocument \<Rightarrow> (string \<times> bytes) list option option" where
  "val_document L = val_ptr as_DocumentMap (val_entries (meta_value L))"

definition val_KubeletOptions :: "'m meta_lib \<Rightarrow> 'm cell heap \<Rightarrow> go_KubeletOptions \<Rightarrow> kubelet_value option" where
  "val_KubeletOptions L h x = val_pair (val_document L) (val_slice as_StringArray plain_val) h (gko_Config x, gko_Flags x)"

record spec_value =
  sv_Cluster :: ClusterDetails
  sv_Containerd :: string
  sv_Strategy :: string
  sv_Kubelet :: kubelet_value
  sv_Hybrid :: "HybridOptions option"

definition val_NodeConfigSpec :: "'m meta_lib \<Rightarrow> 'm cell heap \<Rightarrow> go_NodeConfigSpec \<Rightarrow> spec_value option" where
  "val_NodeConfigSpec L h x =
     map_option (\<lambda>(cluster, kubelet, hybrid). \<lparr>sv_Cluster = cluster, sv_Containerd = gco_Config (gsp_Containerd x),
         sv_Strategy = gls_Strategy (gio_LocalStorage (gsp_Instance x)), sv_Kubelet = kubelet, sv_Hybrid = hybrid\<rparr>)
       (val_pair val_ClusterDetails (val_pair (val_KubeletOptions L) (val_ptr as_HybridOptionsCell val_HybridOptions)) h
         (gsp_Cluster x, gsp_Kubelet x, gsp_Hybrid x))"

record config_value =
  cv_TypeMeta :: go_TypeMeta
  cv_ObjectMeta :: bytes
  cv_Spec :: spec_value
  cv_Status :: go_NodeConfigStatus

definition val_NodeConfig :: "'m meta_lib \<Rightarrow> 'm cell heap \<Rightarrow> 'm go_NodeConfig \<Rightarrow> config_value option" where
  "val_NodeConfig L h x =
     map_option (\<lambda>(om, spec). \<lparr>cv_TypeMeta = gnc_TypeMeta x, cv_ObjectMeta = om, cv_Spec = spec, cv_Status = gnc_Status x\<rparr>)
       (val_pair (meta_value L) (val_NodeConfigSpec L) h (gnc_ObjectMeta x, gnc_Spec x))"

definition val_NodeConfigList :: "'m meta_lib \<Rightarrow> 'm cell heap \<Rightarrow> 'm go_NodeConfigList \<Rightarrow> (go_TypeMeta \<times> bytes \<times> config_value list option) option" where
  "val_NodeConfigList L h x =
     map_option (Pair (gnl_TypeMeta x))
       (val_pair (meta_value L) (val_slice as_NodeConfigArray (val_NodeConfig L)) h (gnl_ListMeta x, gnl_Items x))"

text \<open>The configuration as the rest of the development has it, where an absent document or flag list is an empty one.\<close>

definition spec_of :: "spec_value \<Rightarrow> NodeConfigSpec" where
  "spec_of v = \<lparr>Cluster = sv_Cluster v, containerd_Config = sv_Containerd v, instance_LocalStorage_Strategy = sv_Strategy v,
     Kubelet_opts = \<lparr>kubelet_Config = (case fst (sv_Kubelet v) of None \<Rightarrow> [] | Some d \<Rightarrow> d),
       kubelet_Flags = (case snd (sv_Kubelet v) of None \<Rightarrow> [] | Some fl \<Rightarrow> fl)\<rparr>,
     Hybrid = sv_Hybrid v\<rparr>"

definition status_of :: "go_NodeConfigStatus \<Rightarrow> NodeConfigStatus" where
  "status_of s = \<lparr>hybrid_NodeName = hd_NodeName (gst_Hybrid s), SandboxImage = do_SandboxImage (gst_Defaults s),
     instance_ID = id_ID (gst_Instance s), instance_Region = id_Region (gst_Instance s), instance_Type = id_Type (gst_Instance s),
     instance_AvailabilityZone = id_AvailabilityZone (gst_Instance s), instance_MAC = id_MAC (gst_Instance s),
     instance_PrivateDNSName = id_PrivateDNSName (gst_Instance s)\<rparr>"

definition config_of :: "config_value \<Rightarrow> NodeConfig" where
  "config_of v = \<lparr>Spec = spec_of (cv_Spec v), Status = status_of (cv_Status v)\<rparr>"

section \<open>Every copy is deep\<close>

lemmas deep_copy_plain_ptr = deep_copy_ptr [OF plain.deep_copy_axioms]
  and deep_copy_plain_slice = deep_copy_slice [OF plain.deep_copy_axioms]

interpretation cluster_details: deep_copy val_ClusterDetails DeepCopyInto_ClusterDetails
proof -
  have dc: "deep_copy (val_pair (val_slice as_ByteArray plain_val) (val_ptr as_BoolCell plain_val))
      (copy_pair (copy_slice as_ByteArray ByteArray (CHR 0x00) plain) (copy_ptr as_BoolCell BoolCell False plain))"
    by (intro deep_copy_pair deep_copy_plain_slice deep_copy_plain_ptr) simp_all
  show "deep_copy val_ClusterDetails DeepCopyInto_ClusterDetails"
    by (rule deep_copy_via [where u = "\<lambda>(x :: go_ClusterDetails) p. x\<lparr>gcl_CertificateAuthority := fst p, gcl_EnableOutpost := snd p\<rparr>"
          and g = "\<lambda>x :: go_ClusterDetails. (gcl_CertificateAuthority x, gcl_EnableOutpost x)", OF dc], rule val_ClusterDetails_def)
      (simp_all add: DeepCopyInto_ClusterDetails_def copy_pair_def Let_def split_def)
qed

interpretation hybrid_options: deep_copy val_HybridOptions DeepCopyInto_HybridOptions
proof -
  have dc: "deep_copy (val_pair (val_ptr as_IAMRolesAnywhereCell plain_val) (val_ptr as_SSMCell plain_val))
      (copy_pair (copy_ptr as_IAMRolesAnywhereCell IAMRolesAnywhereCell zero_IAMRolesAnywhere plain)
        (copy_ptr as_SSMCell SSMCell zero_SSM plain))"
    by (intro deep_copy_pair deep_copy_plain_ptr) simp_all
  show "deep_copy val_HybridOptions DeepCopyInto_HybridOptions"
    by (rule deep_copy_via [where u = "\<lambda>(x :: go_HybridOptions) p. x\<lparr>gho_IAMRolesAnywhere := fst p, gho_SSM := snd p\<rparr>"
          and g = "\<lambda>x :: go_HybridOptions. (gho_IAMRolesAnywhere x, gho_SSM x)", OF dc], rule val_HybridOptions_def)
      (simp_all add: DeepCopyInto_HybridOptions_def copy_pair_def Let_def split_def)
qed

lemma meta_lib_okD:
  "meta_lib_ok L \<Longrightarrow> deep_copy (meta_value L) (ObjectMeta_DeepCopyInto L)"
  "meta_lib_ok L \<Longrightarrow> deep_copy (meta_value L) (ListMeta_DeepCopyInto L)"
  "meta_lib_ok L \<Longrightarrow> deep_copy (meta_value L) (RawExtension_DeepCopy L)"
  by (simp_all add: meta_lib_ok_def)

lemma deep_copy_document:
  "meta_lib_ok L \<Longrightarrow> deep_copy (val_document L) (copy_map as_DocumentMap DocumentMap (RawExtension_DeepCopy L))"
  unfolding val_document_def by (intro deep_copy_map meta_lib_okD) simp_all

lemma deep_copy_KubeletOptions:
  fixes L :: "'a meta_lib"
  assumes "meta_lib_ok L"
  shows "deep_copy (val_KubeletOptions L) (DeepCopyInto_KubeletOptions L)"
proof -
  have dc: "deep_copy (val_pair (val_document L) (val_slice as_StringArray plain_val))
      (copy_pair (copy_map as_DocumentMap DocumentMap (RawExtension_DeepCopy L)) (copy_slice as_StringArray StringArray [] plain))"
    by (intro deep_copy_pair deep_copy_document deep_copy_plain_slice assms) simp_all
  show ?thesis
    by (rule deep_copy_via [where u = "\<lambda>(x :: go_KubeletOptions) p. x\<lparr>gko_Config := fst p, gko_Flags := snd p\<rparr>" and f = "\<lambda>_ p. p"
          and g = "\<lambda>x :: go_KubeletOptions. (gko_Config x, gko_Flags x)", OF dc])
      (simp_all add: DeepCopyInto_KubeletOptions_def val_KubeletOptions_def copy_pair_def Let_def split_def option.map_ident)
qed

lemma deep_copy_NodeConfigSpec:
  fixes L :: "'a meta_lib"
  assumes "meta_lib_ok L"
  shows "deep_copy (val_NodeConfigSpec L) (DeepCopyInto_NodeConfigSpec L)"
proof -
  have dc: "deep_copy (val_pair val_ClusterDetails (val_pair (val_KubeletOptions L) (val_ptr as_HybridOptionsCell val_HybridOptions)))
      (copy_pair DeepCopyInto_ClusterDetails (copy_pair (DeepCopyInto_KubeletOptions L)
        (copy_ptr as_HybridOptionsCell HybridOptionsCell zero_HybridOptions DeepCopyInto_HybridOptions)))"
    by (intro deep_copy_pair deep_copy_ptr deep_copy_KubeletOptions assms cluster_details.deep_copy_axioms
        hybrid_options.deep_copy_axioms) simp
  show ?thesis
    by (rule deep_copy_via [where u = "\<lambda>(x :: go_NodeConfigSpec) p. x\<lparr>gsp_Cluster := fst p, gsp_Kubelet := fst (snd p), gsp_Hybrid := snd (snd p)\<rparr>"
          and g = "\<lambda>x :: go_NodeConfigSpec. (gsp_Cluster x, gsp_Kubelet x, gsp_Hybrid x)", OF dc], rule val_NodeConfigSpec_def)
      (simp_all add: DeepCopyInto_NodeConfigSpec_def copy_pair_def Let_def split_def)
qed

lemma deep_copy_NodeConfig:
  fixes L :: "'a meta_lib"
  assumes "meta_lib_ok L"
  shows "deep_copy (val_NodeConfig L) (DeepCopyInto_NodeConfig L)"
proof -
  have dc: "deep_copy (val_pair (meta_value L) (val_NodeConfigSpec L))
      (copy_pair (ObjectMeta_DeepCopyInto L) (DeepCopyInto_NodeConfigSpec L))"
    by (intro deep_copy_pair deep_copy_NodeConfigSpec meta_lib_okD assms)
  show ?thesis
    by (rule deep_copy_via [where u = "\<lambda>(x :: 'a go_NodeConfig) p. x\<lparr>gnc_ObjectMeta := fst p, gnc_Spec := snd p\<rparr>"
          and g = "\<lambda>x :: 'a go_NodeConfig. (gnc_ObjectMeta x, gnc_Spec x)", OF dc], rule val_NodeConfig_def)
      (simp_all add: DeepCopyInto_NodeConfig_def copy_pair_def Let_def split_def)
qed

lemma deep_copy_NodeConfigList:
  fixes L :: "'a meta_lib"
  assumes "meta_lib_ok L"
  shows "deep_copy (val_NodeConfigList L) (DeepCopyInto_NodeConfigList L)"
proof -
  have dc: "deep_copy (val_pair (meta_value L) (val_slice as_NodeConfigArray (val_NodeConfig L)))
      (copy_pair (ListMeta_DeepCopyInto L)
        (copy_slice as_NodeConfigArray NodeConfigArray (zero_NodeConfig L) (DeepCopyInto_NodeConfig L)))"
    by (intro deep_copy_pair deep_copy_slice deep_copy_NodeConfig meta_lib_okD assms) simp
  show ?thesis
    by (rule deep_copy_via [where u = "\<lambda>(x :: 'a go_NodeConfigList) p. x\<lparr>gnl_ListMeta := fst p, gnl_Items := snd p\<rparr>"
          and g = "\<lambda>x :: 'a go_NodeConfigList. (gnl_ListMeta x, gnl_Items x)", OF dc], rule val_NodeConfigList_def)
      (simp_all add: DeepCopyInto_NodeConfigList_def copy_pair_def Let_def split_def)
qed

text \<open>Through the pointers that the program passes around.\<close>

definition val_config_ptr :: "'m meta_lib \<Rightarrow> 'm cell heap \<Rightarrow> nat option \<Rightarrow> config_value option option" where
  "val_config_ptr L = val_ptr as_NodeConfigCell (val_NodeConfig L)"

lemma deep_copy_NodeConfig_ptr: "meta_lib_ok L \<Longrightarrow> deep_copy (val_config_ptr L) (DeepCopy_NodeConfig L)"
  unfolding val_config_ptr_def DeepCopy_NodeConfig_def by (intro deep_copy_ptr deep_copy_NodeConfig) simp_all

lemma deep_copy_NodeConfigList_ptr:
  "meta_lib_ok L \<Longrightarrow> deep_copy (val_ptr as_NodeConfigListCell (val_NodeConfigList L)) (DeepCopy_NodeConfigList L)"
  unfolding DeepCopy_NodeConfigList_def by (intro deep_copy_ptr deep_copy_NodeConfigList) simp_all

interpretation cluster_ptr: deep_copy "val_ptr as_ClusterDetailsCell val_ClusterDetails" DeepCopy_ClusterDetails
  unfolding DeepCopy_ClusterDetails_def by (intro deep_copy_ptr cluster_details.deep_copy_axioms) simp

text \<open>The document's own copier makes an empty map of nil, so only \<open>DeepCopy\<close> keeps nil.\<close>

lemma DeepCopy_InlineDocument_map:
  assumes "val_document L h x = Some d"
  shows "DeepCopy_InlineDocument L x h = copy_map as_DocumentMap DocumentMap (RawExtension_DeepCopy L) x h"
  using assms by (auto simp: DeepCopy_InlineDocument_def DeepCopyInto_InlineDocument_def copy_map_def val_document_def val_ptr_def
      split: option.splits)

section \<open>Samples\<close>

text \<open>Library structs that are a slice of bytes, copied the way the libraries copy theirs.\<close>

definition sample_meta :: "slice option meta_lib" where
  "sample_meta = (let cp = copy_slice as_ByteArray ByteArray (CHR 0x00) plain in
     \<lparr>meta_value = (\<lambda>h m. map_option (\<lambda>b. case b of None \<Rightarrow> [] | Some d \<Rightarrow> d) (val_slice as_ByteArray plain_val h m)),
      ObjectMeta_DeepCopyInto = cp, ListMeta_DeepCopyInto = cp, RawExtension_DeepCopy = cp, meta_zero = None\<rparr>)"

lemma sample_meta_ok: "meta_lib_ok sample_meta"
proof -
  have dc: "deep_copy (val_slice as_ByteArray plain_val) (copy_slice as_ByteArray ByteArray (CHR 0x00) plain)"
    by (rule deep_copy_plain_slice) simp
  have "deep_copy (meta_value sample_meta) (copy_slice as_ByteArray ByteArray (CHR 0x00) plain)"
    by (rule deep_copy_via [where f = "\<lambda>_ b. case b of None \<Rightarrow> [] | Some d \<Rightarrow> d" and g = "\<lambda>x. x" and u = "\<lambda>_ p. p", OF dc])
      (simp_all add: sample_meta_def Let_def)
  then show ?thesis by (simp add: meta_lib_ok_def sample_meta_def Let_def)
qed

definition heap_of :: "'c list \<Rightarrow> 'c heap" where
  "heap_of cs = \<lparr>cells = (\<lambda>a. if a < length cs then Some (cs ! a) else None), limit = length cs\<rparr>"

lemma heap_of_ok: "heap_ok (heap_of cs)"
  by (simp add: heap_ok_def heap_of_def)

definition sample_go_config :: "slice option go_NodeConfig" where
  "sample_go_config =
     \<lparr>gnc_TypeMeta = \<lparr>tm_Kind = ''NodeConfig'', tm_APIVersion = ''node.eks.aws/v1alpha1''\<rparr>, gnc_ObjectMeta = None,
      gnc_Spec = \<lparr>gsp_Cluster = \<lparr>gcl_Name = ''demo'', gcl_Region = ''us-west-2'', gcl_APIServerEndpoint = [],
          gcl_CertificateAuthority = Some \<lparr>sl_array = 0, sl_offset = 1, sl_len = 2\<rparr>, gcl_CIDR = [], gcl_EnableOutpost = Some 1, gcl_ID = []\<rparr>,
        gsp_Containerd = \<lparr>gco_Config = []\<rparr>, gsp_Instance = \<lparr>gio_LocalStorage = \<lparr>gls_Strategy = ''RAID0''\<rparr>\<rparr>,
        gsp_Kubelet = \<lparr>gko_Config = Some 2, gko_Flags = Some \<lparr>sl_array = 3, sl_offset = 0, sl_len = 1\<rparr>\<rparr>, gsp_Hybrid = Some 4\<rparr>,
      gnc_Status = zero_NodeConfigStatus\<rparr>"

definition sample_cells :: "slice option cell list" where
  "sample_cells =
     [ByteArray ''xcay'', BoolCell True, DocumentMap [(''maxPods'', Some \<lparr>sl_array = 0, sl_offset = 0, sl_len = 1\<rparr>)],
      StringArray [''--v=5'', ''--v=6''], HybridOptionsCell \<lparr>gho_EnableCredentialsFile = True, gho_IAMRolesAnywhere = None, gho_SSM = Some 5\<rparr>,
      SSMCell \<lparr>ActivationCode = ''code'', ActivationID = ''id''\<rparr>, NodeConfigCell sample_go_config]"

section \<open>Properties\<close>

text \<open>C15: \<open>NodeConfig.DeepCopy\<close> returns a new object with the value of the original. It writes no memory that was in use, and the
  two share none: whatever is later written to memory other than the copy's own leaves the copy as it is, and whatever is
  written to the copy's own memory leaves the original as it is.\<close>
theorem deep_copy_independent:
  assumes "meta_lib_ok L" and "heap_ok h" and "val_config_ptr L h (Some p) = Some (Some v)"
    and "DeepCopy_NodeConfig L (Some p) h = (q, h')"
  shows "(\<exists>a\<in>fresh h h'. q = Some a) \<and> extends h h' \<and>
    val_config_ptr L h' q = Some (Some v) \<and> val_config_ptr L h' (Some p) = Some (Some v) \<and>
    (\<forall>k. agree (fresh h h') h' k \<longrightarrow> val_config_ptr L k q = Some (Some v)) \<and>
    (\<forall>k. agree (- fresh h h') h' k \<longrightarrow> val_config_ptr L k (Some p) = Some (Some v))"
proof -
  note dc = deep_copy_NodeConfig_ptr [OF assms(1)]
  have "\<exists>a\<in>fresh h h'. q = Some a"
    by (rule copy_ptr_new [OF deep_copy_NodeConfig [OF assms(1)] assms(2)
          assms(3) [unfolded val_config_ptr_def] assms(4) [unfolded DeepCopy_NodeConfig_def]])
  then show ?thesis
    using deep_copy.copy_keeps_original [OF dc assms(2-4)] deep_copy.copy_unaffected [OF dc assms(2-4)]
      deep_copy.original_unaffected [OF dc assms(2-4)]
    by simp
qed

definition sample_copy :: "nat option \<times> slice option cell heap" where
  "sample_copy = DeepCopy_NodeConfig sample_meta (Some 6) (heap_of sample_cells)"

text \<open>Overwriting the certificate, the flags and the activation of the original afterwards does not reach the copy.\<close>

theorem deep_copy_independent_witness:
  "val_config_ptr sample_meta (store 0 (ByteArray ''zzzz'') (store 3 (StringArray []) (store 5 (SSMCell zero_SSM) (snd sample_copy))))
     (fst sample_copy) = val_config_ptr sample_meta (heap_of sample_cells) (Some 6) \<and>
   val_config_ptr sample_meta (heap_of sample_cells) (Some 6) \<noteq> None"
proof -
  let ?h = "heap_of sample_cells" and ?h' = "snd sample_copy"
  obtain v where v: "val_config_ptr sample_meta ?h (Some 6) = Some (Some v)"
  proof -
    have "(case val_config_ptr sample_meta ?h (Some 6) of Some (Some _) \<Rightarrow> True | _ \<Rightarrow> False)" by code_simp
    then show thesis using that by (auto split: option.splits)
  qed
  have "DeepCopy_NodeConfig sample_meta (Some 6) ?h = (fst sample_copy, ?h')" by (simp add: sample_copy_def)
  note ind = deep_copy_independent [OF sample_meta_ok heap_of_ok v this]
  have "agree (fresh ?h ?h') ?h' (store 0 x (store 3 y (store 5 z ?h')))" for x y z
    by (auto simp: agree_def fresh_def store_def heap_of_def sample_cells_def)
  then show ?thesis using ind v by simp
qed

end

