(* ===== verification/Api_Bridge.thy ===== *)
theory Api_Bridge
  imports Api_Objects
begin

text \<open>
  The public API of the configuration (\<open>api/v1alpha1\<close>): its deep copies and predicates; and \<open>internal/api/bridge\<close>: the generated
  conversions between the public and the internal structs and their registration. A conversion assigns fields of \<open>*out\<close>, so
  it takes the struct \<open>out\<close> points to (here \<open>dst\<close>) and returns it as it leaves it; what it does not assign stays. Pointers, slices and maps
  are cast, not copied: afterwards both objects share their memory. Only the lists allocate.

  The scheme that the conversions are registered with is the Kubernetes library's: the parameter \<open>add\<close>.
\<close>

section \<open>Zero values and deep copies of v1alpha1\<close>

definition zero_v1_ClusterDetails :: v1_ClusterDetails where
  "zero_v1_ClusterDetails = \<lparr>vcl_Name = [], vcl_Region = [], vcl_APIServerEndpoint = [], vcl_CertificateAuthority = None, vcl_CIDR = [], vcl_EnableOutpost = None, vcl_ID = []\<rparr>"

definition zero_v1_ContainerdOptions :: v1_ContainerdOptions where
  "zero_v1_ContainerdOptions = \<lparr>vco_Config = []\<rparr>"

definition zero_v1_LocalStorageOptions :: v1_LocalStorageOptions where
  "zero_v1_LocalStorageOptions = \<lparr>vls_Strategy = []\<rparr>"

definition zero_v1_InstanceOptions :: v1_InstanceOptions where
  "zero_v1_InstanceOptions = \<lparr>vio_LocalStorage = zero_v1_LocalStorageOptions\<rparr>"

definition zero_v1_KubeletOptions :: v1_KubeletOptions where
  "zero_v1_KubeletOptions = \<lparr>vko_Config = None, vko_Flags = None\<rparr>"

definition zero_v1_NodeConfigSpec :: v1_NodeConfigSpec where
  "zero_v1_NodeConfigSpec = \<lparr>vsp_Cluster = zero_v1_ClusterDetails, vsp_Containerd = zero_v1_ContainerdOptions, vsp_Instance = zero_v1_InstanceOptions, vsp_Kubelet = zero_v1_KubeletOptions, vsp_Hybrid = None\<rparr>"

definition zero_v1_NodeConfig :: "'m meta_lib \<Rightarrow> 'm v1_NodeConfig" where
  "zero_v1_NodeConfig L = \<lparr>vnc_TypeMeta = zero_go_TypeMeta, vnc_ObjectMeta = meta_zero L, vnc_Spec = zero_v1_NodeConfigSpec\<rparr>"

definition zero_v1_NodeConfigList :: "'m meta_lib \<Rightarrow> 'm v1_NodeConfigList" where
  "zero_v1_NodeConfigList L = \<lparr>vnl_TypeMeta = zero_go_TypeMeta, vnl_ListMeta = meta_zero L, vnl_Items = None\<rparr>"

definition v1_DeepCopyInto_ClusterDetails :: "v1_ClusterDetails \<Rightarrow> 'm cell heap \<Rightarrow> v1_ClusterDetails \<times> 'm cell heap" where
  "v1_DeepCopyInto_ClusterDetails x h =
     (let (ca, h1) = copy_slice as_ByteArray ByteArray (CHR 0x00) plain (vcl_CertificateAuthority x) h;
          (outpost, h2) = copy_ptr as_BoolCell BoolCell False plain (vcl_EnableOutpost x) h1
      in (x\<lparr>vcl_CertificateAuthority := ca, vcl_EnableOutpost := outpost\<rparr>, h2))"

definition v1_DeepCopy_ClusterDetails :: "nat option \<Rightarrow> 'm cell heap \<Rightarrow> nat option \<times> 'm cell heap" where
  "v1_DeepCopy_ClusterDetails = copy_ptr as_V1ClusterDetailsCell V1ClusterDetailsCell zero_v1_ClusterDetails v1_DeepCopyInto_ClusterDetails"

definition v1_DeepCopyInto_ContainerdOptions :: "v1_ContainerdOptions \<Rightarrow> 'm cell heap \<Rightarrow> v1_ContainerdOptions \<times> 'm cell heap" where
  "v1_DeepCopyInto_ContainerdOptions x h = (x, h)"

definition v1_DeepCopy_ContainerdOptions :: "nat option \<Rightarrow> 'm cell heap \<Rightarrow> nat option \<times> 'm cell heap" where
  "v1_DeepCopy_ContainerdOptions = copy_ptr as_V1ContainerdOptionsCell V1ContainerdOptionsCell zero_v1_ContainerdOptions v1_DeepCopyInto_ContainerdOptions"

definition v1_DeepCopyInto_HybridOptions :: "v1_HybridOptions \<Rightarrow> 'm cell heap \<Rightarrow> v1_HybridOptions \<times> 'm cell heap" where
  "v1_DeepCopyInto_HybridOptions x h =
     (let (ra, h1) = copy_ptr as_IAMRolesAnywhereCell IAMRolesAnywhereCell zero_IAMRolesAnywhere plain (gho_IAMRolesAnywhere x) h;
          (ssm, h2) = copy_ptr as_SSMCell SSMCell zero_SSM plain (gho_SSM x) h1
      in (x\<lparr>gho_IAMRolesAnywhere := ra, gho_SSM := ssm\<rparr>, h2))"

definition v1_DeepCopy_HybridOptions :: "nat option \<Rightarrow> 'm cell heap \<Rightarrow> nat option \<times> 'm cell heap" where
  "v1_DeepCopy_HybridOptions = copy_ptr as_HybridOptionsCell HybridOptionsCell zero_HybridOptions v1_DeepCopyInto_HybridOptions"

definition v1_DeepCopyInto_IAMRolesAnywhere :: "v1_IAMRolesAnywhere \<Rightarrow> 'm cell heap \<Rightarrow> v1_IAMRolesAnywhere \<times> 'm cell heap" where
  "v1_DeepCopyInto_IAMRolesAnywhere x h = (x, h)"

definition v1_DeepCopy_IAMRolesAnywhere :: "nat option \<Rightarrow> 'm cell heap \<Rightarrow> nat option \<times> 'm cell heap" where
  "v1_DeepCopy_IAMRolesAnywhere = copy_ptr as_IAMRolesAnywhereCell IAMRolesAnywhereCell zero_IAMRolesAnywhere v1_DeepCopyInto_IAMRolesAnywhere"

definition v1_DeepCopyInto_InstanceOptions :: "v1_InstanceOptions \<Rightarrow> 'm cell heap \<Rightarrow> v1_InstanceOptions \<times> 'm cell heap" where
  "v1_DeepCopyInto_InstanceOptions x h = (x\<lparr>vio_LocalStorage := vio_LocalStorage x\<rparr>, h)"

definition v1_DeepCopy_InstanceOptions :: "nat option \<Rightarrow> 'm cell heap \<Rightarrow> nat option \<times> 'm cell heap" where
  "v1_DeepCopy_InstanceOptions = copy_ptr as_V1InstanceOptionsCell V1InstanceOptionsCell zero_v1_InstanceOptions v1_DeepCopyInto_InstanceOptions"

definition v1_DeepCopyInto_KubeletOptions :: "'m meta_lib \<Rightarrow> v1_KubeletOptions \<Rightarrow> 'm cell heap \<Rightarrow> v1_KubeletOptions \<times> 'm cell heap" where
  "v1_DeepCopyInto_KubeletOptions L x h =
     (let (config, h1) = copy_map as_DocumentMap DocumentMap (RawExtension_DeepCopy L) (vko_Config x) h;
          (flgs, h2) = copy_slice as_StringArray StringArray [] plain (vko_Flags x) h1
      in (x\<lparr>vko_Config := config, vko_Flags := flgs\<rparr>, h2))"

definition v1_DeepCopy_KubeletOptions :: "'m meta_lib \<Rightarrow> nat option \<Rightarrow> 'm cell heap \<Rightarrow> nat option \<times> 'm cell heap" where
  "v1_DeepCopy_KubeletOptions L = copy_ptr as_V1KubeletOptionsCell V1KubeletOptionsCell zero_v1_KubeletOptions (v1_DeepCopyInto_KubeletOptions L)"

definition v1_DeepCopyInto_LocalStorageOptions :: "v1_LocalStorageOptions \<Rightarrow> 'm cell heap \<Rightarrow> v1_LocalStorageOptions \<times> 'm cell heap" where
  "v1_DeepCopyInto_LocalStorageOptions x h = (x, h)"

definition v1_DeepCopy_LocalStorageOptions :: "nat option \<Rightarrow> 'm cell heap \<Rightarrow> nat option \<times> 'm cell heap" where
  "v1_DeepCopy_LocalStorageOptions = copy_ptr as_V1LocalStorageOptionsCell V1LocalStorageOptionsCell zero_v1_LocalStorageOptions v1_DeepCopyInto_LocalStorageOptions"

definition v1_DeepCopyInto_NodeConfigSpec :: "'m meta_lib \<Rightarrow> v1_NodeConfigSpec \<Rightarrow> 'm cell heap \<Rightarrow> v1_NodeConfigSpec \<times> 'm cell heap" where
  "v1_DeepCopyInto_NodeConfigSpec L x h =
     (let (cluster, h1) = v1_DeepCopyInto_ClusterDetails (vsp_Cluster x) h;
          (kubelet, h2) = v1_DeepCopyInto_KubeletOptions L (vsp_Kubelet x) h1;
          (hybrid, h3) = copy_ptr as_HybridOptionsCell HybridOptionsCell zero_HybridOptions v1_DeepCopyInto_HybridOptions (vsp_Hybrid x) h2
      in (x\<lparr>vsp_Cluster := cluster, vsp_Containerd := vsp_Containerd x, vsp_Instance := vsp_Instance x,
            vsp_Kubelet := kubelet, vsp_Hybrid := hybrid\<rparr>, h3))"

definition v1_DeepCopy_NodeConfigSpec :: "'m meta_lib \<Rightarrow> nat option \<Rightarrow> 'm cell heap \<Rightarrow> nat option \<times> 'm cell heap" where
  "v1_DeepCopy_NodeConfigSpec L = copy_ptr as_V1NodeConfigSpecCell V1NodeConfigSpecCell zero_v1_NodeConfigSpec (v1_DeepCopyInto_NodeConfigSpec L)"

definition v1_DeepCopyInto_SSM :: "v1_SSM \<Rightarrow> 'm cell heap \<Rightarrow> v1_SSM \<times> 'm cell heap" where
  "v1_DeepCopyInto_SSM x h = (x, h)"

definition v1_DeepCopy_SSM :: "nat option \<Rightarrow> 'm cell heap \<Rightarrow> nat option \<times> 'm cell heap" where
  "v1_DeepCopy_SSM = copy_ptr as_SSMCell SSMCell zero_SSM v1_DeepCopyInto_SSM"

definition v1_DeepCopyInto_NodeConfig :: "'m meta_lib \<Rightarrow> 'm v1_NodeConfig \<Rightarrow> 'm cell heap \<Rightarrow> 'm v1_NodeConfig \<times> 'm cell heap" where
  "v1_DeepCopyInto_NodeConfig L x h =
     (let (om, h1) = ObjectMeta_DeepCopyInto L (vnc_ObjectMeta x) h;
          (spec, h2) = v1_DeepCopyInto_NodeConfigSpec L (vnc_Spec x) h1
      in (x\<lparr>vnc_TypeMeta := vnc_TypeMeta x, vnc_ObjectMeta := om, vnc_Spec := spec\<rparr>, h2))"

definition v1_DeepCopy_NodeConfig :: "'m meta_lib \<Rightarrow> nat option \<Rightarrow> 'm cell heap \<Rightarrow> nat option \<times> 'm cell heap" where
  "v1_DeepCopy_NodeConfig L = copy_ptr as_V1NodeConfigCell V1NodeConfigCell (zero_v1_NodeConfig L) (v1_DeepCopyInto_NodeConfig L)"

definition v1_DeepCopyObject_NodeConfig :: "'m meta_lib \<Rightarrow> nat option \<Rightarrow> 'm cell heap \<Rightarrow> nat option \<times> 'm cell heap" where
  "v1_DeepCopyObject_NodeConfig L p h = (case v1_DeepCopy_NodeConfig L p h of (Some c, h') \<Rightarrow> (Some c, h') | (None, h') \<Rightarrow> (None, h'))"

definition v1_DeepCopyInto_NodeConfigList :: "'m meta_lib \<Rightarrow> 'm v1_NodeConfigList \<Rightarrow> 'm cell heap \<Rightarrow> 'm v1_NodeConfigList \<times> 'm cell heap" where
  "v1_DeepCopyInto_NodeConfigList L x h =
     (let (lm, h1) = ListMeta_DeepCopyInto L (vnl_ListMeta x) h;
          (items, h2) = copy_slice as_V1NodeConfigArray V1NodeConfigArray (zero_v1_NodeConfig L) (v1_DeepCopyInto_NodeConfig L) (vnl_Items x) h1
      in (x\<lparr>vnl_TypeMeta := vnl_TypeMeta x, vnl_ListMeta := lm, vnl_Items := items\<rparr>, h2))"

definition v1_DeepCopy_NodeConfigList :: "'m meta_lib \<Rightarrow> nat option \<Rightarrow> 'm cell heap \<Rightarrow> nat option \<times> 'm cell heap" where
  "v1_DeepCopy_NodeConfigList L = copy_ptr as_V1NodeConfigListCell V1NodeConfigListCell (zero_v1_NodeConfigList L) (v1_DeepCopyInto_NodeConfigList L)"

definition v1_DeepCopyObject_NodeConfigList :: "'m meta_lib \<Rightarrow> nat option \<Rightarrow> 'm cell heap \<Rightarrow> nat option \<times> 'm cell heap" where
  "v1_DeepCopyObject_NodeConfigList L p h = (case v1_DeepCopy_NodeConfigList L p h of (Some c, h') \<Rightarrow> (Some c, h') | (None, h') \<Rightarrow> (None, h'))"

definition v1_IsHybridNode :: "'m v1_NodeConfig \<Rightarrow> bool" where
  "v1_IsHybridNode nc = (vsp_Hybrid (vnc_Spec nc) \<noteq> None)"

definition v1_IsOutpostNode :: "'m cell heap \<Rightarrow> 'm v1_NodeConfig \<Rightarrow> bool" where
  "v1_IsOutpostNode h nc =
     (case vcl_EnableOutpost (vsp_Cluster (vnc_Spec nc)) of None \<Rightarrow> False
      | Some a \<Rightarrow> (case load as_BoolCell h a of None \<Rightarrow> False | Some b \<Rightarrow> b))"

section \<open>Conversions\<close>

definition autoConvert_v1alpha1_ClusterDetails_To_api_ClusterDetails :: "v1_ClusterDetails \<Rightarrow> go_ClusterDetails \<Rightarrow> goerr + go_ClusterDetails" where
  "autoConvert_v1alpha1_ClusterDetails_To_api_ClusterDetails x dst = Inr (dst\<lparr>gcl_Name := vcl_Name x, gcl_Region := vcl_Region x, gcl_APIServerEndpoint := vcl_APIServerEndpoint x, gcl_CertificateAuthority := vcl_CertificateAuthority x, gcl_CIDR := vcl_CIDR x, gcl_EnableOutpost := vcl_EnableOutpost x, gcl_ID := vcl_ID x\<rparr>)"

definition Convert_v1alpha1_ClusterDetails_To_api_ClusterDetails :: "v1_ClusterDetails \<Rightarrow> go_ClusterDetails \<Rightarrow> goerr + go_ClusterDetails" where
  "Convert_v1alpha1_ClusterDetails_To_api_ClusterDetails = autoConvert_v1alpha1_ClusterDetails_To_api_ClusterDetails"

definition autoConvert_api_ClusterDetails_To_v1alpha1_ClusterDetails :: "go_ClusterDetails \<Rightarrow> v1_ClusterDetails \<Rightarrow> goerr + v1_ClusterDetails" where
  "autoConvert_api_ClusterDetails_To_v1alpha1_ClusterDetails x dst = Inr (dst\<lparr>vcl_Name := gcl_Name x, vcl_Region := gcl_Region x, vcl_APIServerEndpoint := gcl_APIServerEndpoint x, vcl_CertificateAuthority := gcl_CertificateAuthority x, vcl_CIDR := gcl_CIDR x, vcl_EnableOutpost := gcl_EnableOutpost x, vcl_ID := gcl_ID x\<rparr>)"

definition Convert_api_ClusterDetails_To_v1alpha1_ClusterDetails :: "go_ClusterDetails \<Rightarrow> v1_ClusterDetails \<Rightarrow> goerr + v1_ClusterDetails" where
  "Convert_api_ClusterDetails_To_v1alpha1_ClusterDetails = autoConvert_api_ClusterDetails_To_v1alpha1_ClusterDetails"

definition autoConvert_v1alpha1_ContainerdOptions_To_api_ContainerdOptions :: "v1_ContainerdOptions \<Rightarrow> go_ContainerdOptions \<Rightarrow> goerr + go_ContainerdOptions" where
  "autoConvert_v1alpha1_ContainerdOptions_To_api_ContainerdOptions x dst = Inr (dst\<lparr>gco_Config := vco_Config x\<rparr>)"

definition Convert_v1alpha1_ContainerdOptions_To_api_ContainerdOptions :: "v1_ContainerdOptions \<Rightarrow> go_ContainerdOptions \<Rightarrow> goerr + go_ContainerdOptions" where
  "Convert_v1alpha1_ContainerdOptions_To_api_ContainerdOptions = autoConvert_v1alpha1_ContainerdOptions_To_api_ContainerdOptions"

definition autoConvert_api_ContainerdOptions_To_v1alpha1_ContainerdOptions :: "go_ContainerdOptions \<Rightarrow> v1_ContainerdOptions \<Rightarrow> goerr + v1_ContainerdOptions" where
  "autoConvert_api_ContainerdOptions_To_v1alpha1_ContainerdOptions x dst = Inr (dst\<lparr>vco_Config := gco_Config x\<rparr>)"

definition Convert_api_ContainerdOptions_To_v1alpha1_ContainerdOptions :: "go_ContainerdOptions \<Rightarrow> v1_ContainerdOptions \<Rightarrow> goerr + v1_ContainerdOptions" where
  "Convert_api_ContainerdOptions_To_v1alpha1_ContainerdOptions = autoConvert_api_ContainerdOptions_To_v1alpha1_ContainerdOptions"

definition autoConvert_v1alpha1_HybridOptions_To_api_HybridOptions :: "v1_HybridOptions \<Rightarrow> go_HybridOptions \<Rightarrow> goerr + go_HybridOptions" where
  "autoConvert_v1alpha1_HybridOptions_To_api_HybridOptions x dst = Inr (dst\<lparr>gho_EnableCredentialsFile := gho_EnableCredentialsFile x, gho_IAMRolesAnywhere := gho_IAMRolesAnywhere x, gho_SSM := gho_SSM x\<rparr>)"

definition Convert_v1alpha1_HybridOptions_To_api_HybridOptions :: "v1_HybridOptions \<Rightarrow> go_HybridOptions \<Rightarrow> goerr + go_HybridOptions" where
  "Convert_v1alpha1_HybridOptions_To_api_HybridOptions = autoConvert_v1alpha1_HybridOptions_To_api_HybridOptions"

definition autoConvert_api_HybridOptions_To_v1alpha1_HybridOptions :: "go_HybridOptions \<Rightarrow> v1_HybridOptions \<Rightarrow> goerr + v1_HybridOptions" where
  "autoConvert_api_HybridOptions_To_v1alpha1_HybridOptions x dst = Inr (dst\<lparr>gho_EnableCredentialsFile := gho_EnableCredentialsFile x, gho_IAMRolesAnywhere := gho_IAMRolesAnywhere x, gho_SSM := gho_SSM x\<rparr>)"

definition Convert_api_HybridOptions_To_v1alpha1_HybridOptions :: "go_HybridOptions \<Rightarrow> v1_HybridOptions \<Rightarrow> goerr + v1_HybridOptions" where
  "Convert_api_HybridOptions_To_v1alpha1_HybridOptions = autoConvert_api_HybridOptions_To_v1alpha1_HybridOptions"

definition autoConvert_v1alpha1_IAMRolesAnywhere_To_api_IAMRolesAnywhere :: "v1_IAMRolesAnywhere \<Rightarrow> IAMRolesAnywhere \<Rightarrow> goerr + IAMRolesAnywhere" where
  "autoConvert_v1alpha1_IAMRolesAnywhere_To_api_IAMRolesAnywhere x dst = Inr (dst\<lparr>ra_NodeName := ra_NodeName x, TrustAnchorARN := TrustAnchorARN x, ProfileARN := ProfileARN x, RoleARN := RoleARN x, AwsConfigPath := AwsConfigPath x, CertificatePath := CertificatePath x, PrivateKeyPath := PrivateKeyPath x\<rparr>)"

definition Convert_v1alpha1_IAMRolesAnywhere_To_api_IAMRolesAnywhere :: "v1_IAMRolesAnywhere \<Rightarrow> IAMRolesAnywhere \<Rightarrow> goerr + IAMRolesAnywhere" where
  "Convert_v1alpha1_IAMRolesAnywhere_To_api_IAMRolesAnywhere = autoConvert_v1alpha1_IAMRolesAnywhere_To_api_IAMRolesAnywhere"

definition autoConvert_api_IAMRolesAnywhere_To_v1alpha1_IAMRolesAnywhere :: "IAMRolesAnywhere \<Rightarrow> v1_IAMRolesAnywhere \<Rightarrow> goerr + v1_IAMRolesAnywhere" where
  "autoConvert_api_IAMRolesAnywhere_To_v1alpha1_IAMRolesAnywhere x dst = Inr (dst\<lparr>ra_NodeName := ra_NodeName x, TrustAnchorARN := TrustAnchorARN x, ProfileARN := ProfileARN x, RoleARN := RoleARN x, AwsConfigPath := AwsConfigPath x, CertificatePath := CertificatePath x, PrivateKeyPath := PrivateKeyPath x\<rparr>)"

definition Convert_api_IAMRolesAnywhere_To_v1alpha1_IAMRolesAnywhere :: "IAMRolesAnywhere \<Rightarrow> v1_IAMRolesAnywhere \<Rightarrow> goerr + v1_IAMRolesAnywhere" where
  "Convert_api_IAMRolesAnywhere_To_v1alpha1_IAMRolesAnywhere = autoConvert_api_IAMRolesAnywhere_To_v1alpha1_IAMRolesAnywhere"

definition autoConvert_v1alpha1_LocalStorageOptions_To_api_LocalStorageOptions :: "v1_LocalStorageOptions \<Rightarrow> go_LocalStorageOptions \<Rightarrow> goerr + go_LocalStorageOptions" where
  "autoConvert_v1alpha1_LocalStorageOptions_To_api_LocalStorageOptions x dst = Inr (dst\<lparr>gls_Strategy := vls_Strategy x\<rparr>)"

definition Convert_v1alpha1_LocalStorageOptions_To_api_LocalStorageOptions :: "v1_LocalStorageOptions \<Rightarrow> go_LocalStorageOptions \<Rightarrow> goerr + go_LocalStorageOptions" where
  "Convert_v1alpha1_LocalStorageOptions_To_api_LocalStorageOptions = autoConvert_v1alpha1_LocalStorageOptions_To_api_LocalStorageOptions"

definition autoConvert_api_LocalStorageOptions_To_v1alpha1_LocalStorageOptions :: "go_LocalStorageOptions \<Rightarrow> v1_LocalStorageOptions \<Rightarrow> goerr + v1_LocalStorageOptions" where
  "autoConvert_api_LocalStorageOptions_To_v1alpha1_LocalStorageOptions x dst = Inr (dst\<lparr>vls_Strategy := gls_Strategy x\<rparr>)"

definition Convert_api_LocalStorageOptions_To_v1alpha1_LocalStorageOptions :: "go_LocalStorageOptions \<Rightarrow> v1_LocalStorageOptions \<Rightarrow> goerr + v1_LocalStorageOptions" where
  "Convert_api_LocalStorageOptions_To_v1alpha1_LocalStorageOptions = autoConvert_api_LocalStorageOptions_To_v1alpha1_LocalStorageOptions"

definition autoConvert_v1alpha1_InstanceOptions_To_api_InstanceOptions :: "v1_InstanceOptions \<Rightarrow> go_InstanceOptions \<Rightarrow> goerr + go_InstanceOptions" where
  "autoConvert_v1alpha1_InstanceOptions_To_api_InstanceOptions x dst = 
     (case Convert_v1alpha1_LocalStorageOptions_To_api_LocalStorageOptions (vio_LocalStorage x) (gio_LocalStorage dst) of Inl e \<Rightarrow> Inl e
     | Inr y \<Rightarrow> Inr (dst\<lparr>gio_LocalStorage := y\<rparr>))"

definition Convert_v1alpha1_InstanceOptions_To_api_InstanceOptions :: "v1_InstanceOptions \<Rightarrow> go_InstanceOptions \<Rightarrow> goerr + go_InstanceOptions" where
  "Convert_v1alpha1_InstanceOptions_To_api_InstanceOptions = autoConvert_v1alpha1_InstanceOptions_To_api_InstanceOptions"

definition autoConvert_api_InstanceOptions_To_v1alpha1_InstanceOptions :: "go_InstanceOptions \<Rightarrow> v1_InstanceOptions \<Rightarrow> goerr + v1_InstanceOptions" where
  "autoConvert_api_InstanceOptions_To_v1alpha1_InstanceOptions x dst = 
     (case Convert_api_LocalStorageOptions_To_v1alpha1_LocalStorageOptions (gio_LocalStorage x) (vio_LocalStorage dst) of Inl e \<Rightarrow> Inl e
     | Inr y \<Rightarrow> Inr (dst\<lparr>vio_LocalStorage := y\<rparr>))"

definition Convert_api_InstanceOptions_To_v1alpha1_InstanceOptions :: "go_InstanceOptions \<Rightarrow> v1_InstanceOptions \<Rightarrow> goerr + v1_InstanceOptions" where
  "Convert_api_InstanceOptions_To_v1alpha1_InstanceOptions = autoConvert_api_InstanceOptions_To_v1alpha1_InstanceOptions"

definition autoConvert_v1alpha1_KubeletOptions_To_api_KubeletOptions :: "v1_KubeletOptions \<Rightarrow> go_KubeletOptions \<Rightarrow> goerr + go_KubeletOptions" where
  "autoConvert_v1alpha1_KubeletOptions_To_api_KubeletOptions x dst = Inr (dst\<lparr>gko_Config := vko_Config x, gko_Flags := vko_Flags x\<rparr>)"

definition Convert_v1alpha1_KubeletOptions_To_api_KubeletOptions :: "v1_KubeletOptions \<Rightarrow> go_KubeletOptions \<Rightarrow> goerr + go_KubeletOptions" where
  "Convert_v1alpha1_KubeletOptions_To_api_KubeletOptions = autoConvert_v1alpha1_KubeletOptions_To_api_KubeletOptions"

definition autoConvert_api_KubeletOptions_To_v1alpha1_KubeletOptions :: "go_KubeletOptions \<Rightarrow> v1_KubeletOptions \<Rightarrow> goerr + v1_KubeletOptions" where
  "autoConvert_api_KubeletOptions_To_v1alpha1_KubeletOptions x dst = Inr (dst\<lparr>vko_Config := gko_Config x, vko_Flags := gko_Flags x\<rparr>)"

definition Convert_api_KubeletOptions_To_v1alpha1_KubeletOptions :: "go_KubeletOptions \<Rightarrow> v1_KubeletOptions \<Rightarrow> goerr + v1_KubeletOptions" where
  "Convert_api_KubeletOptions_To_v1alpha1_KubeletOptions = autoConvert_api_KubeletOptions_To_v1alpha1_KubeletOptions"

definition autoConvert_v1alpha1_NodeConfigSpec_To_api_NodeConfigSpec :: "v1_NodeConfigSpec \<Rightarrow> go_NodeConfigSpec \<Rightarrow> goerr + go_NodeConfigSpec" where
  "autoConvert_v1alpha1_NodeConfigSpec_To_api_NodeConfigSpec x dst = 
     (case Convert_v1alpha1_ClusterDetails_To_api_ClusterDetails (vsp_Cluster x) (gsp_Cluster dst) of Inl e \<Rightarrow> Inl e | Inr cluster \<Rightarrow>
      (case Convert_v1alpha1_ContainerdOptions_To_api_ContainerdOptions (vsp_Containerd x) (gsp_Containerd dst) of Inl e \<Rightarrow> Inl e | Inr containerd \<Rightarrow>
       (case Convert_v1alpha1_InstanceOptions_To_api_InstanceOptions (vsp_Instance x) (gsp_Instance dst) of Inl e \<Rightarrow> Inl e | Inr inst \<Rightarrow>
        (case Convert_v1alpha1_KubeletOptions_To_api_KubeletOptions (vsp_Kubelet x) (gsp_Kubelet dst) of Inl e \<Rightarrow> Inl e | Inr kubelet \<Rightarrow>
          Inr (dst\<lparr>gsp_Cluster := cluster, gsp_Containerd := containerd, gsp_Instance := inst, gsp_Kubelet := kubelet,
            gsp_Hybrid := vsp_Hybrid x\<rparr>)))))"

definition Convert_v1alpha1_NodeConfigSpec_To_api_NodeConfigSpec :: "v1_NodeConfigSpec \<Rightarrow> go_NodeConfigSpec \<Rightarrow> goerr + go_NodeConfigSpec" where
  "Convert_v1alpha1_NodeConfigSpec_To_api_NodeConfigSpec = autoConvert_v1alpha1_NodeConfigSpec_To_api_NodeConfigSpec"

definition autoConvert_api_NodeConfigSpec_To_v1alpha1_NodeConfigSpec :: "go_NodeConfigSpec \<Rightarrow> v1_NodeConfigSpec \<Rightarrow> goerr + v1_NodeConfigSpec" where
  "autoConvert_api_NodeConfigSpec_To_v1alpha1_NodeConfigSpec x dst = 
     (case Convert_api_ClusterDetails_To_v1alpha1_ClusterDetails (gsp_Cluster x) (vsp_Cluster dst) of Inl e \<Rightarrow> Inl e | Inr cluster \<Rightarrow>
      (case Convert_api_ContainerdOptions_To_v1alpha1_ContainerdOptions (gsp_Containerd x) (vsp_Containerd dst) of Inl e \<Rightarrow> Inl e | Inr containerd \<Rightarrow>
       (case Convert_api_InstanceOptions_To_v1alpha1_InstanceOptions (gsp_Instance x) (vsp_Instance dst) of Inl e \<Rightarrow> Inl e | Inr inst \<Rightarrow>
        (case Convert_api_KubeletOptions_To_v1alpha1_KubeletOptions (gsp_Kubelet x) (vsp_Kubelet dst) of Inl e \<Rightarrow> Inl e | Inr kubelet \<Rightarrow>
          Inr (dst\<lparr>vsp_Cluster := cluster, vsp_Containerd := containerd, vsp_Instance := inst, vsp_Kubelet := kubelet,
            vsp_Hybrid := gsp_Hybrid x\<rparr>)))))"

definition Convert_api_NodeConfigSpec_To_v1alpha1_NodeConfigSpec :: "go_NodeConfigSpec \<Rightarrow> v1_NodeConfigSpec \<Rightarrow> goerr + v1_NodeConfigSpec" where
  "Convert_api_NodeConfigSpec_To_v1alpha1_NodeConfigSpec = autoConvert_api_NodeConfigSpec_To_v1alpha1_NodeConfigSpec"

definition autoConvert_v1alpha1_NodeConfig_To_api_NodeConfig :: "'m v1_NodeConfig \<Rightarrow> 'm go_NodeConfig \<Rightarrow> goerr + 'm go_NodeConfig" where
  "autoConvert_v1alpha1_NodeConfig_To_api_NodeConfig x dst = 
     (case Convert_v1alpha1_NodeConfigSpec_To_api_NodeConfigSpec (vnc_Spec x) (gnc_Spec dst) of Inl e \<Rightarrow> Inl e
      | Inr spec \<Rightarrow> Inr (dst\<lparr>gnc_ObjectMeta := vnc_ObjectMeta x, gnc_Spec := spec\<rparr>))"

definition Convert_v1alpha1_NodeConfig_To_api_NodeConfig :: "'m v1_NodeConfig \<Rightarrow> 'm go_NodeConfig \<Rightarrow> goerr + 'm go_NodeConfig" where
  "Convert_v1alpha1_NodeConfig_To_api_NodeConfig = autoConvert_v1alpha1_NodeConfig_To_api_NodeConfig"

definition autoConvert_api_NodeConfig_To_v1alpha1_NodeConfig :: "'m go_NodeConfig \<Rightarrow> 'm v1_NodeConfig \<Rightarrow> goerr + 'm v1_NodeConfig" where
  "autoConvert_api_NodeConfig_To_v1alpha1_NodeConfig x dst = 
     (case Convert_api_NodeConfigSpec_To_v1alpha1_NodeConfigSpec (gnc_Spec x) (vnc_Spec dst) of Inl e \<Rightarrow> Inl e
      | Inr spec \<Rightarrow> Inr (dst\<lparr>vnc_ObjectMeta := gnc_ObjectMeta x, vnc_Spec := spec\<rparr>))"

definition Convert_api_NodeConfig_To_v1alpha1_NodeConfig :: "'m go_NodeConfig \<Rightarrow> 'm v1_NodeConfig \<Rightarrow> goerr + 'm v1_NodeConfig" where
  "Convert_api_NodeConfig_To_v1alpha1_NodeConfig = autoConvert_api_NodeConfig_To_v1alpha1_NodeConfig"

text \<open>Elements of a list are converted into zero values, in order, until one fails.\<close>

fun convert_items :: "('a \<Rightarrow> 'b \<Rightarrow> goerr + 'b) \<Rightarrow> 'b \<Rightarrow> 'a list \<Rightarrow> goerr + 'b list" where
  "convert_items f zero [] = Inr []"
| "convert_items f zero (x # xs) =
     (case f x zero of Inl e \<Rightarrow> Inl e
      | Inr y \<Rightarrow> (case convert_items f zero xs of Inl e \<Rightarrow> Inl e | Inr ys \<Rightarrow> Inr (y # ys)))"

definition autoConvert_v1alpha1_NodeConfigList_To_api_NodeConfigList :: "'m meta_lib \<Rightarrow> 'm v1_NodeConfigList \<Rightarrow> 'm go_NodeConfigList \<Rightarrow> 'm cell heap \<Rightarrow> (goerr + 'm go_NodeConfigList) \<times> 'm cell heap" where
  "autoConvert_v1alpha1_NodeConfigList_To_api_NodeConfigList L x dst h =
     (let out1 = dst\<lparr>gnl_ListMeta := vnl_ListMeta x\<rparr> in
      case vnl_Items x of None \<Rightarrow> (Inr (out1\<lparr>gnl_Items := None\<rparr>), h)
      | Some s \<Rightarrow> (case slice_items as_V1NodeConfigArray h s of None \<Rightarrow> (Inr (out1\<lparr>gnl_Items := None\<rparr>), h)
         | Some xs \<Rightarrow>
            (let (b, h1) = alloc (NodeConfigArray (replicate (sl_len s) (zero_NodeConfig L))) h in
             case convert_items Convert_v1alpha1_NodeConfig_To_api_NodeConfig (zero_NodeConfig L) xs of Inl e \<Rightarrow> (Inl e, h1)
             | Inr ys \<Rightarrow> (Inr (out1\<lparr>gnl_Items := Some \<lparr>sl_array = b, sl_offset = 0, sl_len = sl_len s\<rparr>\<rparr>), store b (NodeConfigArray ys) h1))))"

definition Convert_v1alpha1_NodeConfigList_To_api_NodeConfigList :: "'m meta_lib \<Rightarrow> 'm v1_NodeConfigList \<Rightarrow> 'm go_NodeConfigList \<Rightarrow> 'm cell heap \<Rightarrow> (goerr + 'm go_NodeConfigList) \<times> 'm cell heap" where
  "Convert_v1alpha1_NodeConfigList_To_api_NodeConfigList = autoConvert_v1alpha1_NodeConfigList_To_api_NodeConfigList"

definition autoConvert_api_NodeConfigList_To_v1alpha1_NodeConfigList :: "'m meta_lib \<Rightarrow> 'm go_NodeConfigList \<Rightarrow> 'm v1_NodeConfigList \<Rightarrow> 'm cell heap \<Rightarrow> (goerr + 'm v1_NodeConfigList) \<times> 'm cell heap" where
  "autoConvert_api_NodeConfigList_To_v1alpha1_NodeConfigList L x dst h =
     (let out1 = dst\<lparr>vnl_ListMeta := gnl_ListMeta x\<rparr> in
      case gnl_Items x of None \<Rightarrow> (Inr (out1\<lparr>vnl_Items := None\<rparr>), h)
      | Some s \<Rightarrow> (case slice_items as_NodeConfigArray h s of None \<Rightarrow> (Inr (out1\<lparr>vnl_Items := None\<rparr>), h)
         | Some xs \<Rightarrow>
            (let (b, h1) = alloc (V1NodeConfigArray (replicate (sl_len s) (zero_v1_NodeConfig L))) h in
             case convert_items Convert_api_NodeConfig_To_v1alpha1_NodeConfig (zero_v1_NodeConfig L) xs of Inl e \<Rightarrow> (Inl e, h1)
             | Inr ys \<Rightarrow> (Inr (out1\<lparr>vnl_Items := Some \<lparr>sl_array = b, sl_offset = 0, sl_len = sl_len s\<rparr>\<rparr>), store b (V1NodeConfigArray ys) h1))))"

definition Convert_api_NodeConfigList_To_v1alpha1_NodeConfigList :: "'m meta_lib \<Rightarrow> 'm go_NodeConfigList \<Rightarrow> 'm v1_NodeConfigList \<Rightarrow> 'm cell heap \<Rightarrow> (goerr + 'm v1_NodeConfigList) \<times> 'm cell heap" where
  "Convert_api_NodeConfigList_To_v1alpha1_NodeConfigList = autoConvert_api_NodeConfigList_To_v1alpha1_NodeConfigList"

definition autoConvert_v1alpha1_SSM_To_api_SSM :: "v1_SSM \<Rightarrow> SSM \<Rightarrow> goerr + SSM" where
  "autoConvert_v1alpha1_SSM_To_api_SSM x dst = Inr (dst\<lparr>ActivationCode := ActivationCode x, ActivationID := ActivationID x\<rparr>)"

definition Convert_v1alpha1_SSM_To_api_SSM :: "v1_SSM \<Rightarrow> SSM \<Rightarrow> goerr + SSM" where
  "Convert_v1alpha1_SSM_To_api_SSM = autoConvert_v1alpha1_SSM_To_api_SSM"

definition autoConvert_api_SSM_To_v1alpha1_SSM :: "SSM \<Rightarrow> v1_SSM \<Rightarrow> goerr + v1_SSM" where
  "autoConvert_api_SSM_To_v1alpha1_SSM x dst = Inr (dst\<lparr>ActivationCode := ActivationCode x, ActivationID := ActivationID x\<rparr>)"

definition Convert_api_SSM_To_v1alpha1_SSM :: "SSM \<Rightarrow> v1_SSM \<Rightarrow> goerr + v1_SSM" where
  "Convert_api_SSM_To_v1alpha1_SSM = autoConvert_api_SSM_To_v1alpha1_SSM"

section \<open>Registration\<close>

text \<open>A registered function gets its two objects as pointers of interface type and asserts their types; a failed assertion is a
  panic, \<open>None\<close>.\<close>

type_synonym 'm conversion_func = "nat \<Rightarrow> nat \<Rightarrow> 'm cell heap \<Rightarrow> ((goerr + unit) \<times> 'm cell heap) option"

definition conv_list :: "('m cell \<Rightarrow> 'a option) \<Rightarrow> ('m cell \<Rightarrow> 'b option) \<Rightarrow> ('b \<Rightarrow> 'm cell) \<Rightarrow>
    ('a \<Rightarrow> 'b \<Rightarrow> 'm cell heap \<Rightarrow> (goerr + 'b) \<times> 'm cell heap) \<Rightarrow> 'm conversion_func" where
  "conv_list ra rb mk f a b h =
     (case load ra h a of None \<Rightarrow> None
      | Some x \<Rightarrow> (case load rb h b of None \<Rightarrow> None
         | Some y \<Rightarrow> (case f x y h of (Inl e, h1) \<Rightarrow> Some (Inl e, h1) | (Inr z, h1) \<Rightarrow> Some (Inr (), store b (mk z) h1))))"

definition conv_func :: "('m cell \<Rightarrow> 'a option) \<Rightarrow> ('m cell \<Rightarrow> 'b option) \<Rightarrow> ('b \<Rightarrow> 'm cell) \<Rightarrow> ('a \<Rightarrow> 'b \<Rightarrow> goerr + 'b) \<Rightarrow> 'm conversion_func" where
  "conv_func ra rb mk f = conv_list ra rb mk (\<lambda>x y h. (f x y, h))"

datatype api_package = V1alpha1 | Internal

type_synonym api_type = "api_package \<times> string"

fun register_all :: "('s \<Rightarrow> api_type \<Rightarrow> api_type \<Rightarrow> 'm conversion_func \<Rightarrow> goerr + 's) \<Rightarrow>
    (api_type \<times> api_type \<times> 'm conversion_func) list \<Rightarrow> 's \<Rightarrow> goerr + 's" where
  "register_all add [] s = Inr s"
| "register_all add ((a, b, f) # rs) s = (case add s a b f of Inl e \<Rightarrow> Inl e | Inr s' \<Rightarrow> register_all add rs s')"

definition generated_conversions :: "'m meta_lib \<Rightarrow> (api_type \<times> api_type \<times> 'm conversion_func) list" where
  "generated_conversions L =
    [((V1alpha1, ''ClusterDetails''), (Internal, ''ClusterDetails''), conv_func as_V1ClusterDetailsCell as_ClusterDetailsCell ClusterDetailsCell Convert_v1alpha1_ClusterDetails_To_api_ClusterDetails),
     ((Internal, ''ClusterDetails''), (V1alpha1, ''ClusterDetails''), conv_func as_ClusterDetailsCell as_V1ClusterDetailsCell V1ClusterDetailsCell Convert_api_ClusterDetails_To_v1alpha1_ClusterDetails),
     ((V1alpha1, ''ContainerdOptions''), (Internal, ''ContainerdOptions''), conv_func as_V1ContainerdOptionsCell as_ContainerdOptionsCell ContainerdOptionsCell Convert_v1alpha1_ContainerdOptions_To_api_ContainerdOptions),
     ((Internal, ''ContainerdOptions''), (V1alpha1, ''ContainerdOptions''), conv_func as_ContainerdOptionsCell as_V1ContainerdOptionsCell V1ContainerdOptionsCell Convert_api_ContainerdOptions_To_v1alpha1_ContainerdOptions),
     ((V1alpha1, ''HybridOptions''), (Internal, ''HybridOptions''), conv_func as_HybridOptionsCell as_HybridOptionsCell HybridOptionsCell Convert_v1alpha1_HybridOptions_To_api_HybridOptions),
     ((Internal, ''HybridOptions''), (V1alpha1, ''HybridOptions''), conv_func as_HybridOptionsCell as_HybridOptionsCell HybridOptionsCell Convert_api_HybridOptions_To_v1alpha1_HybridOptions),
     ((V1alpha1, ''IAMRolesAnywhere''), (Internal, ''IAMRolesAnywhere''), conv_func as_IAMRolesAnywhereCell as_IAMRolesAnywhereCell IAMRolesAnywhereCell Convert_v1alpha1_IAMRolesAnywhere_To_api_IAMRolesAnywhere),
     ((Internal, ''IAMRolesAnywhere''), (V1alpha1, ''IAMRolesAnywhere''), conv_func as_IAMRolesAnywhereCell as_IAMRolesAnywhereCell IAMRolesAnywhereCell Convert_api_IAMRolesAnywhere_To_v1alpha1_IAMRolesAnywhere),
     ((V1alpha1, ''InstanceOptions''), (Internal, ''InstanceOptions''), conv_func as_V1InstanceOptionsCell as_InstanceOptionsCell InstanceOptionsCell Convert_v1alpha1_InstanceOptions_To_api_InstanceOptions),
     ((Internal, ''InstanceOptions''), (V1alpha1, ''InstanceOptions''), conv_func as_InstanceOptionsCell as_V1InstanceOptionsCell V1InstanceOptionsCell Convert_api_InstanceOptions_To_v1alpha1_InstanceOptions),
     ((V1alpha1, ''KubeletOptions''), (Internal, ''KubeletOptions''), conv_func as_V1KubeletOptionsCell as_KubeletOptionsCell KubeletOptionsCell Convert_v1alpha1_KubeletOptions_To_api_KubeletOptions),
     ((Internal, ''KubeletOptions''), (V1alpha1, ''KubeletOptions''), conv_func as_KubeletOptionsCell as_V1KubeletOptionsCell V1KubeletOptionsCell Convert_api_KubeletOptions_To_v1alpha1_KubeletOptions),
     ((V1alpha1, ''LocalStorageOptions''), (Internal, ''LocalStorageOptions''), conv_func as_V1LocalStorageOptionsCell as_LocalStorageOptionsCell LocalStorageOptionsCell Convert_v1alpha1_LocalStorageOptions_To_api_LocalStorageOptions),
     ((Internal, ''LocalStorageOptions''), (V1alpha1, ''LocalStorageOptions''), conv_func as_LocalStorageOptionsCell as_V1LocalStorageOptionsCell V1LocalStorageOptionsCell Convert_api_LocalStorageOptions_To_v1alpha1_LocalStorageOptions),
     ((V1alpha1, ''NodeConfig''), (Internal, ''NodeConfig''), conv_func as_V1NodeConfigCell as_NodeConfigCell NodeConfigCell Convert_v1alpha1_NodeConfig_To_api_NodeConfig),
     ((Internal, ''NodeConfig''), (V1alpha1, ''NodeConfig''), conv_func as_NodeConfigCell as_V1NodeConfigCell V1NodeConfigCell Convert_api_NodeConfig_To_v1alpha1_NodeConfig),
     ((V1alpha1, ''NodeConfigList''), (Internal, ''NodeConfigList''), conv_list as_V1NodeConfigListCell as_NodeConfigListCell NodeConfigListCell (Convert_v1alpha1_NodeConfigList_To_api_NodeConfigList L)),
     ((Internal, ''NodeConfigList''), (V1alpha1, ''NodeConfigList''), conv_list as_NodeConfigListCell as_V1NodeConfigListCell V1NodeConfigListCell (Convert_api_NodeConfigList_To_v1alpha1_NodeConfigList L)),
     ((V1alpha1, ''NodeConfigSpec''), (Internal, ''NodeConfigSpec''), conv_func as_V1NodeConfigSpecCell as_NodeConfigSpecCell NodeConfigSpecCell Convert_v1alpha1_NodeConfigSpec_To_api_NodeConfigSpec),
     ((Internal, ''NodeConfigSpec''), (V1alpha1, ''NodeConfigSpec''), conv_func as_NodeConfigSpecCell as_V1NodeConfigSpecCell V1NodeConfigSpecCell Convert_api_NodeConfigSpec_To_v1alpha1_NodeConfigSpec),
     ((V1alpha1, ''SSM''), (Internal, ''SSM''), conv_func as_SSMCell as_SSMCell SSMCell Convert_v1alpha1_SSM_To_api_SSM),
     ((Internal, ''SSM''), (V1alpha1, ''SSM''), conv_func as_SSMCell as_SSMCell SSMCell Convert_api_SSM_To_v1alpha1_SSM)]"

definition RegisterConversions :: "'m meta_lib \<Rightarrow> ('s \<Rightarrow> api_type \<Rightarrow> api_type \<Rightarrow> 'm conversion_func \<Rightarrow> goerr + 's) \<Rightarrow> 's \<Rightarrow> goerr + 's" where
  "RegisterConversions L add s = register_all add (generated_conversions L) s"

section \<open>Values of the public structs\<close>

definition val_v1_ClusterDetails :: "'m cell heap \<Rightarrow> v1_ClusterDetails \<Rightarrow> ClusterDetails option" where
  "val_v1_ClusterDetails h x =
     map_option (\<lambda>(ca, outpost). \<lparr>cl_Name = vcl_Name x, cl_Region = vcl_Region x, APIServerEndpoint = vcl_APIServerEndpoint x,
         CertificateAuthority = ca, CIDR = vcl_CIDR x, EnableOutpost = outpost, cl_ID = vcl_ID x\<rparr>)
       (val_pair (val_slice as_ByteArray plain_val) (val_ptr as_BoolCell plain_val) h
         (vcl_CertificateAuthority x, vcl_EnableOutpost x))"

definition val_v1_KubeletOptions :: "'m meta_lib \<Rightarrow> 'm cell heap \<Rightarrow> v1_KubeletOptions \<Rightarrow> kubelet_value option" where
  "val_v1_KubeletOptions L h x = val_pair (val_document L) (val_slice as_StringArray plain_val) h (vko_Config x, vko_Flags x)"

definition val_v1_NodeConfigSpec :: "'m meta_lib \<Rightarrow> 'm cell heap \<Rightarrow> v1_NodeConfigSpec \<Rightarrow> spec_value option" where
  "val_v1_NodeConfigSpec L h x =
     map_option (\<lambda>(cluster, kubelet, hybrid). \<lparr>sv_Cluster = cluster, sv_Containerd = vco_Config (vsp_Containerd x),
         sv_Strategy = vls_Strategy (vio_LocalStorage (vsp_Instance x)), sv_Kubelet = kubelet, sv_Hybrid = hybrid\<rparr>)
       (val_pair val_v1_ClusterDetails (val_pair (val_v1_KubeletOptions L) (val_ptr as_HybridOptionsCell val_HybridOptions)) h
         (vsp_Cluster x, vsp_Kubelet x, vsp_Hybrid x))"

definition val_v1_NodeConfig :: "'m meta_lib \<Rightarrow> 'm cell heap \<Rightarrow> 'm v1_NodeConfig \<Rightarrow> (go_TypeMeta \<times> bytes \<times> spec_value) option" where
  "val_v1_NodeConfig L h x =
     map_option (Pair (vnc_TypeMeta x)) (val_pair (meta_value L) (val_v1_NodeConfigSpec L) h (vnc_ObjectMeta x, vnc_Spec x))"

definition val_v1_NodeConfigList :: "'m meta_lib \<Rightarrow> 'm cell heap \<Rightarrow> 'm v1_NodeConfigList \<Rightarrow> (go_TypeMeta \<times> bytes \<times> (go_TypeMeta \<times> bytes \<times> spec_value) list option) option" where
  "val_v1_NodeConfigList L h x =
     map_option (Pair (vnl_TypeMeta x))
       (val_pair (meta_value L) (val_slice as_V1NodeConfigArray (val_v1_NodeConfig L)) h (vnl_ListMeta x, vnl_Items x))"

section \<open>The public copies are deep\<close>

interpretation v1_cluster_details: deep_copy val_v1_ClusterDetails v1_DeepCopyInto_ClusterDetails
proof -
  have dc: "deep_copy (val_pair (val_slice as_ByteArray plain_val) (val_ptr as_BoolCell plain_val))
      (copy_pair (copy_slice as_ByteArray ByteArray (CHR 0x00) plain) (copy_ptr as_BoolCell BoolCell False plain))"
    by (intro deep_copy_pair deep_copy_plain_slice deep_copy_plain_ptr) simp_all
  show "deep_copy val_v1_ClusterDetails v1_DeepCopyInto_ClusterDetails"
    by (rule deep_copy_via [where u = "\<lambda>(x :: v1_ClusterDetails) p. x\<lparr>vcl_CertificateAuthority := fst p, vcl_EnableOutpost := snd p\<rparr>"
          and g = "\<lambda>x :: v1_ClusterDetails. (vcl_CertificateAuthority x, vcl_EnableOutpost x)", OF dc], rule val_v1_ClusterDetails_def)
      (simp_all add: v1_DeepCopyInto_ClusterDetails_def copy_pair_def Let_def split_def)
qed

lemma v1_DeepCopyInto_HybridOptions_eq: "v1_DeepCopyInto_HybridOptions = DeepCopyInto_HybridOptions"
  by (simp add: v1_DeepCopyInto_HybridOptions_def DeepCopyInto_HybridOptions_def fun_eq_iff)

lemma deep_copy_v1_KubeletOptions:
  fixes L :: "'a meta_lib"
  assumes "meta_lib_ok L"
  shows "deep_copy (val_v1_KubeletOptions L) (v1_DeepCopyInto_KubeletOptions L)"
proof -
  have dc: "deep_copy (val_pair (val_document L) (val_slice as_StringArray plain_val))
      (copy_pair (copy_map as_DocumentMap DocumentMap (RawExtension_DeepCopy L)) (copy_slice as_StringArray StringArray [] plain))"
    by (intro deep_copy_pair deep_copy_document deep_copy_plain_slice assms) simp_all
  show ?thesis
    by (rule deep_copy_via [where u = "\<lambda>(x :: v1_KubeletOptions) p. x\<lparr>vko_Config := fst p, vko_Flags := snd p\<rparr>" and f = "\<lambda>_ p. p"
          and g = "\<lambda>x :: v1_KubeletOptions. (vko_Config x, vko_Flags x)", OF dc])
      (simp_all add: v1_DeepCopyInto_KubeletOptions_def val_v1_KubeletOptions_def copy_pair_def Let_def split_def option.map_ident)
qed

lemma deep_copy_v1_NodeConfigSpec:
  fixes L :: "'a meta_lib"
  assumes "meta_lib_ok L"
  shows "deep_copy (val_v1_NodeConfigSpec L) (v1_DeepCopyInto_NodeConfigSpec L)"
proof -
  have dc: "deep_copy (val_pair val_v1_ClusterDetails (val_pair (val_v1_KubeletOptions L) (val_ptr as_HybridOptionsCell val_HybridOptions)))
      (copy_pair v1_DeepCopyInto_ClusterDetails (copy_pair (v1_DeepCopyInto_KubeletOptions L)
        (copy_ptr as_HybridOptionsCell HybridOptionsCell zero_HybridOptions v1_DeepCopyInto_HybridOptions)))"
    unfolding v1_DeepCopyInto_HybridOptions_eq
    by (intro deep_copy_pair deep_copy_ptr deep_copy_v1_KubeletOptions assms v1_cluster_details.deep_copy_axioms
        hybrid_options.deep_copy_axioms) simp
  show ?thesis
    by (rule deep_copy_via [where u = "\<lambda>(x :: v1_NodeConfigSpec) p. x\<lparr>vsp_Cluster := fst p, vsp_Kubelet := fst (snd p), vsp_Hybrid := snd (snd p)\<rparr>"
          and g = "\<lambda>x :: v1_NodeConfigSpec. (vsp_Cluster x, vsp_Kubelet x, vsp_Hybrid x)", OF dc], rule val_v1_NodeConfigSpec_def)
      (simp_all add: v1_DeepCopyInto_NodeConfigSpec_def copy_pair_def Let_def split_def)
qed

lemma deep_copy_v1_NodeConfig:
  fixes L :: "'a meta_lib"
  assumes "meta_lib_ok L"
  shows "deep_copy (val_v1_NodeConfig L) (v1_DeepCopyInto_NodeConfig L)"
proof -
  have dc: "deep_copy (val_pair (meta_value L) (val_v1_NodeConfigSpec L))
      (copy_pair (ObjectMeta_DeepCopyInto L) (v1_DeepCopyInto_NodeConfigSpec L))"
    by (intro deep_copy_pair deep_copy_v1_NodeConfigSpec meta_lib_okD assms)
  show ?thesis
    by (rule deep_copy_via [where u = "\<lambda>(x :: 'a v1_NodeConfig) p. x\<lparr>vnc_ObjectMeta := fst p, vnc_Spec := snd p\<rparr>"
          and g = "\<lambda>x :: 'a v1_NodeConfig. (vnc_ObjectMeta x, vnc_Spec x)", OF dc], rule val_v1_NodeConfig_def)
      (simp_all add: v1_DeepCopyInto_NodeConfig_def copy_pair_def Let_def split_def)
qed

lemma deep_copy_v1_NodeConfigList:
  fixes L :: "'a meta_lib"
  assumes "meta_lib_ok L"
  shows "deep_copy (val_v1_NodeConfigList L) (v1_DeepCopyInto_NodeConfigList L)"
proof -
  have dc: "deep_copy (val_pair (meta_value L) (val_slice as_V1NodeConfigArray (val_v1_NodeConfig L)))
      (copy_pair (ListMeta_DeepCopyInto L)
        (copy_slice as_V1NodeConfigArray V1NodeConfigArray (zero_v1_NodeConfig L) (v1_DeepCopyInto_NodeConfig L)))"
    by (intro deep_copy_pair deep_copy_slice deep_copy_v1_NodeConfig meta_lib_okD assms) simp
  show ?thesis
    by (rule deep_copy_via [where u = "\<lambda>(x :: 'a v1_NodeConfigList) p. x\<lparr>vnl_ListMeta := fst p, vnl_Items := snd p\<rparr>"
          and g = "\<lambda>x :: 'a v1_NodeConfigList. (vnl_ListMeta x, vnl_Items x)", OF dc], rule val_v1_NodeConfigList_def)
      (simp_all add: v1_DeepCopyInto_NodeConfigList_def copy_pair_def Let_def split_def)
qed

section \<open>The conversions lose nothing\<close>

lemmas conversions =
  autoConvert_v1alpha1_ClusterDetails_To_api_ClusterDetails_def Convert_v1alpha1_ClusterDetails_To_api_ClusterDetails_def autoConvert_api_ClusterDetails_To_v1alpha1_ClusterDetails_def Convert_api_ClusterDetails_To_v1alpha1_ClusterDetails_def
  autoConvert_v1alpha1_ContainerdOptions_To_api_ContainerdOptions_def Convert_v1alpha1_ContainerdOptions_To_api_ContainerdOptions_def autoConvert_api_ContainerdOptions_To_v1alpha1_ContainerdOptions_def Convert_api_ContainerdOptions_To_v1alpha1_ContainerdOptions_def
  autoConvert_v1alpha1_HybridOptions_To_api_HybridOptions_def Convert_v1alpha1_HybridOptions_To_api_HybridOptions_def autoConvert_api_HybridOptions_To_v1alpha1_HybridOptions_def Convert_api_HybridOptions_To_v1alpha1_HybridOptions_def
  autoConvert_v1alpha1_IAMRolesAnywhere_To_api_IAMRolesAnywhere_def Convert_v1alpha1_IAMRolesAnywhere_To_api_IAMRolesAnywhere_def autoConvert_api_IAMRolesAnywhere_To_v1alpha1_IAMRolesAnywhere_def Convert_api_IAMRolesAnywhere_To_v1alpha1_IAMRolesAnywhere_def
  autoConvert_v1alpha1_LocalStorageOptions_To_api_LocalStorageOptions_def Convert_v1alpha1_LocalStorageOptions_To_api_LocalStorageOptions_def autoConvert_api_LocalStorageOptions_To_v1alpha1_LocalStorageOptions_def Convert_api_LocalStorageOptions_To_v1alpha1_LocalStorageOptions_def
  autoConvert_v1alpha1_InstanceOptions_To_api_InstanceOptions_def Convert_v1alpha1_InstanceOptions_To_api_InstanceOptions_def autoConvert_api_InstanceOptions_To_v1alpha1_InstanceOptions_def Convert_api_InstanceOptions_To_v1alpha1_InstanceOptions_def
  autoConvert_v1alpha1_KubeletOptions_To_api_KubeletOptions_def Convert_v1alpha1_KubeletOptions_To_api_KubeletOptions_def autoConvert_api_KubeletOptions_To_v1alpha1_KubeletOptions_def Convert_api_KubeletOptions_To_v1alpha1_KubeletOptions_def
  autoConvert_v1alpha1_NodeConfigSpec_To_api_NodeConfigSpec_def Convert_v1alpha1_NodeConfigSpec_To_api_NodeConfigSpec_def autoConvert_api_NodeConfigSpec_To_v1alpha1_NodeConfigSpec_def Convert_api_NodeConfigSpec_To_v1alpha1_NodeConfigSpec_def
  autoConvert_v1alpha1_NodeConfig_To_api_NodeConfig_def Convert_v1alpha1_NodeConfig_To_api_NodeConfig_def autoConvert_api_NodeConfig_To_v1alpha1_NodeConfig_def Convert_api_NodeConfig_To_v1alpha1_NodeConfig_def
  autoConvert_v1alpha1_SSM_To_api_SSM_def Convert_v1alpha1_SSM_To_api_SSM_def autoConvert_api_SSM_To_v1alpha1_SSM_def Convert_api_SSM_To_v1alpha1_SSM_def

text \<open>The internal spec that holds the references of a public one.\<close>

definition internal_spec :: "v1_NodeConfigSpec \<Rightarrow> go_NodeConfigSpec" where
  "internal_spec s =
     \<lparr>gsp_Cluster = \<lparr>gcl_Name = vcl_Name (vsp_Cluster s), gcl_Region = vcl_Region (vsp_Cluster s),
        gcl_APIServerEndpoint = vcl_APIServerEndpoint (vsp_Cluster s), gcl_CertificateAuthority = vcl_CertificateAuthority (vsp_Cluster s),
        gcl_CIDR = vcl_CIDR (vsp_Cluster s), gcl_EnableOutpost = vcl_EnableOutpost (vsp_Cluster s), gcl_ID = vcl_ID (vsp_Cluster s)\<rparr>,
      gsp_Containerd = \<lparr>gco_Config = vco_Config (vsp_Containerd s)\<rparr>,
      gsp_Instance = \<lparr>gio_LocalStorage = \<lparr>gls_Strategy = vls_Strategy (vio_LocalStorage (vsp_Instance s))\<rparr>\<rparr>,
      gsp_Kubelet = \<lparr>gko_Config = vko_Config (vsp_Kubelet s), gko_Flags = vko_Flags (vsp_Kubelet s)\<rparr>,
      gsp_Hybrid = vsp_Hybrid s\<rparr>"

lemma to_internal: "Convert_v1alpha1_NodeConfig_To_api_NodeConfig x y = Inr (y\<lparr>gnc_ObjectMeta := vnc_ObjectMeta x, gnc_Spec := internal_spec (vnc_Spec x)\<rparr>)"
  by (simp add: conversions internal_spec_def)

lemma to_public: "Convert_api_NodeConfig_To_v1alpha1_NodeConfig (y\<lparr>gnc_ObjectMeta := m, gnc_Spec := internal_spec s\<rparr>) x = Inr (x\<lparr>vnc_ObjectMeta := m, vnc_Spec := s\<rparr>)"
  by (simp add: conversions internal_spec_def)

lemma val_internal_spec: "val_NodeConfigSpec L h (internal_spec s) = val_v1_NodeConfigSpec L h s"
proof -
  have "val_ClusterDetails h (gsp_Cluster (internal_spec s)) = val_v1_ClusterDetails h (vsp_Cluster s)"
    by (simp add: val_ClusterDetails_def val_v1_ClusterDetails_def internal_spec_def)
  moreover have "val_KubeletOptions L h (gsp_Kubelet (internal_spec s)) = val_v1_KubeletOptions L h (vsp_Kubelet s)"
    by (simp add: val_KubeletOptions_def val_v1_KubeletOptions_def internal_spec_def)
  moreover have "gsp_Hybrid (internal_spec s) = vsp_Hybrid s" "gco_Config (gsp_Containerd (internal_spec s)) = vco_Config (vsp_Containerd s)"
    "gls_Strategy (gio_LocalStorage (gsp_Instance (internal_spec s))) = vls_Strategy (vio_LocalStorage (vsp_Instance s))"
    by (simp_all add: internal_spec_def)
  ultimately show ?thesis unfolding val_NodeConfigSpec_def val_v1_NodeConfigSpec_def val_pair_def by (simp cong: option.case_cong)
qed

text \<open>The predicates of the public type say the same as those of the converted configuration.\<close>

lemma v1_IsHybridNode_val:
  assumes "val_v1_NodeConfigSpec L h (vnc_Spec x) = Some v"
  shows "v1_IsHybridNode x = IsHybridNode \<lparr>Spec = spec_of v, Status = st\<rparr>"
  using assms by (auto simp: v1_IsHybridNode_def IsHybridNode_def spec_of_def val_v1_NodeConfigSpec_def val_pair_def val_ptr_def
      split: option.splits)

lemma v1_IsOutpostNode_val:
  assumes "val_v1_NodeConfigSpec L h (vnc_Spec x) = Some v"
  shows "v1_IsOutpostNode h x = IsOutpostNode \<lparr>Spec = spec_of v, Status = st\<rparr>"
  using assms by (auto simp: v1_IsOutpostNode_def IsOutpostNode_def spec_of_def val_v1_NodeConfigSpec_def val_v1_ClusterDetails_def
      val_pair_def val_ptr_def plain_val_def split: option.splits)

text \<open>A list is converted element by element into an array of its own; the elements keep sharing their references.\<close>

lemma convert_items_to_internal:
  "convert_items Convert_v1alpha1_NodeConfig_To_api_NodeConfig z xs =
   Inr (map (\<lambda>x. z\<lparr>gnc_ObjectMeta := vnc_ObjectMeta x, gnc_Spec := internal_spec (vnc_Spec x)\<rparr>) xs)"
  by (induction xs) (simp_all add: to_internal)

abbreviation config_in :: "'m go_NodeConfig \<Rightarrow> go_TypeMeta \<times> bytes \<times> spec_value \<Rightarrow> config_value" where
  "config_in z v \<equiv> \<lparr>cv_TypeMeta = gnc_TypeMeta z, cv_ObjectMeta = fst (snd v), cv_Spec = snd (snd v), cv_Status = gnc_Status z\<rparr>"

lemma val_list_internal:
  "val_list (val_NodeConfig L) h (map (\<lambda>x. z\<lparr>gnc_ObjectMeta := vnc_ObjectMeta x, gnc_Spec := internal_spec (vnc_Spec x)\<rparr>) xs) =
   map_option (map (config_in z)) (val_list (val_v1_NodeConfig L) h xs)"
proof (rule val_list_map)
  fix x
  show "val_NodeConfig L h (z\<lparr>gnc_ObjectMeta := vnc_ObjectMeta x, gnc_Spec := internal_spec (vnc_Spec x)\<rparr>) =
      map_option (config_in z) (val_v1_NodeConfig L h x)"
    by (cases "meta_value L h (vnc_ObjectMeta x)"; cases "val_v1_NodeConfigSpec L h (vnc_Spec x)")
      (simp_all add: val_NodeConfig_def val_v1_NodeConfig_def val_pair_def val_internal_spec)
qed

lemma list_conversion:
  assumes ok: "meta_lib_ok L" "heap_ok h" and v: "val_v1_NodeConfigList L h x = Some (t, lm, items)"
  shows "\<exists>y h'. Convert_v1alpha1_NodeConfigList_To_api_NodeConfigList L x y0 h = (Inr y, h') \<and> extends h h' \<and>
    val_NodeConfigList L h' y = Some (gnl_TypeMeta y0, lm, map_option (map (config_in (zero_NodeConfig L))) items)"
proof -
  have lm: "meta_value L h (vnl_ListMeta x) = Some lm"
    and it: "val_slice as_V1NodeConfigArray (val_v1_NodeConfig L) h (vnl_Items x) = Some items"
    using v by (auto simp: val_v1_NodeConfigList_def val_pair_Some)
  note dcm = meta_lib_okD(2) [OF ok(1)] and defs = Convert_v1alpha1_NodeConfigList_To_api_NodeConfigList_def
    autoConvert_v1alpha1_NodeConfigList_To_api_NodeConfigList_def val_NodeConfigList_def
  show ?thesis
  proof (cases "vnl_Items x")
    case None
    with it have "items = None" by (simp add: val_slice_def)
    then show ?thesis using None lm by (simp add: defs extends_refl ok(2) val_pair_def val_slice_def)
  next
    case (Some s)
    obtain xs vs where xs: "slice_items as_V1NodeConfigArray h s = Some xs" "val_list (val_v1_NodeConfig L) h xs = Some vs" "items = Some vs"
      using it unfolding Some val_slice_Some by blast
    let ?zs = "NodeConfigArray (replicate (sl_len s) (zero_NodeConfig L))"
    let ?z = "zero_NodeConfig L"
    let ?ys = "map (\<lambda>x. ?z\<lparr>gnc_ObjectMeta := vnc_ObjectMeta x, gnc_Spec := internal_spec (vnc_Spec x)\<rparr>) xs"
    obtain b h1 where al: "alloc ?zs h = (b, h1)" by fastforce
    define h' where "h' = store b (NodeConfigArray ?ys) h1"
    have e1: "extends h h1" using extends_alloc [OF ok(2), of ?zs] al by simp
    have "b \<in> fresh h h1" using al by (auto simp: alloc_def fresh_def)
    then have e: "extends h h'" unfolding h'_def by (rule extends_store [OF e1])
    have "val_list (val_v1_NodeConfig L) h' xs = Some vs"
      by (rule val_list_local [OF deep_copy_v1_NodeConfig [OF ok(1)] ok(2) agree_extends [OF e] xs(2)])
    then have "val_list (val_NodeConfig L) h' ?ys = Some (map (config_in ?z) vs)" by (simp add: val_list_internal)
    moreover have "slice_items as_NodeConfigArray h' \<lparr>sl_array = b, sl_offset = 0, sl_len = sl_len s\<rparr> = Some ?ys"
      using slice_items_length [OF xs(1)] by (simp add: slice_items_def load_def h'_def store_def)
    ultimately show ?thesis using Some xs(1,3) al e deep_copy.val_extends [OF dcm ok(2) lm e]
      by (simp add: defs convert_items_to_internal h'_def [symmetric] val_pair_def val_slice_def)
  qed
qed

section \<open>Properties\<close>

text \<open>C16: Converting a public configuration to an internal one and back is the identity on all but the type's own header, whatever
  objects it is converted into. The internal object means the same specification in every memory, and its
  header and status stay those of the object converted into.\<close>
theorem conversion_roundtrip:
  "\<exists>y. Convert_v1alpha1_NodeConfig_To_api_NodeConfig x y0 = Inr y \<and>
       gnc_TypeMeta y = gnc_TypeMeta y0 \<and> gnc_Status y = gnc_Status y0 \<and> gnc_ObjectMeta y = vnc_ObjectMeta x \<and>
       (\<forall>L h. val_NodeConfigSpec L h (gnc_Spec y) = val_v1_NodeConfigSpec L h (vnc_Spec x)) \<and>
       Convert_api_NodeConfig_To_v1alpha1_NodeConfig y x0 = Inr (x\<lparr>vnc_TypeMeta := vnc_TypeMeta x0\<rparr>)"
proof (intro exI conjI allI)
  show "Convert_v1alpha1_NodeConfig_To_api_NodeConfig x y0 =
      Inr (y0\<lparr>gnc_ObjectMeta := vnc_ObjectMeta x, gnc_Spec := internal_spec (vnc_Spec x)\<rparr>)"
    by (rule to_internal)
qed (simp_all add: val_internal_spec to_public)

lemma register_all_look:
  assumes "\<And>s a b f. \<exists>s'. add s a b f = Inr s' \<and> look s' = (look s)((a, b) \<mapsto> f)"
  shows "\<exists>s'. register_all add rs s = Inr s' \<and> look s' = look s ++ map_of (rev (map (\<lambda>(a, b, f). ((a, b), f)) rs))"
proof (induction rs arbitrary: s)
  case Nil
  then show ?case by simp
next
  case (Cons r rs)
  obtain a b f where r: "r = (a, b, f)" by (cases r)
  obtain s1 where s1: "add s a b f = Inr s1" "look s1 = (look s)((a, b) \<mapsto> f)" using assms by blast
  from Cons.IH [of s1] obtain s2 where s2: "register_all add rs s1 = Inr s2"
    "look s2 = look s1 ++ map_of (rev (map (\<lambda>(a, b, f). ((a, b), f)) rs))" by blast
  show ?case by (rule exI [of _ s2]) (simp add: r s1(1) s2 s1(2) map_add_upd_left)
qed

text \<open>Registering the conversions succeeds on a scheme that accepts every function, and the two functions registered for the
  configuration then undo each other in memory: a public object converted into an internal one and that
  into a second public object gives the second the contents of the first, and nothing but the two targets is written.\<close>
theorem registered_conversions:
  assumes "\<And>s a b f. \<exists>s'. add s a b f = Inr s' \<and> look s' = (look s)((a, b) \<mapsto> f)"
  shows "\<exists>s' f g. RegisterConversions L add s = Inr s' \<and>
    look s' ((V1alpha1, ''NodeConfig''), (Internal, ''NodeConfig'')) = Some f \<and>
    look s' ((Internal, ''NodeConfig''), (V1alpha1, ''NodeConfig'')) = Some g \<and>
    (\<forall>h a b c x y z. cells h a = Some (V1NodeConfigCell x) \<and> cells h b = Some (NodeConfigCell y) \<and>
       cells h c = Some (V1NodeConfigCell z) \<and> a \<noteq> c \<longrightarrow>
       (\<exists>h1 h2. f a b h = Some (Inr (), h1) \<and> g b c h1 = Some (Inr (), h2) \<and>
          cells h2 a = Some (V1NodeConfigCell x) \<and> cells h2 c = Some (V1NodeConfigCell (x\<lparr>vnc_TypeMeta := vnc_TypeMeta z\<rparr>)) \<and>
          agree (- {b, c}) h h2))"
proof -
  let ?f = "conv_func as_V1NodeConfigCell as_NodeConfigCell NodeConfigCell Convert_v1alpha1_NodeConfig_To_api_NodeConfig"
  let ?g = "conv_func as_NodeConfigCell as_V1NodeConfigCell V1NodeConfigCell Convert_api_NodeConfig_To_v1alpha1_NodeConfig"
  obtain s' where s': "RegisterConversions L add s = Inr s'"
    "look s' = look s ++ map_of (rev (map (\<lambda>(a, b, f). ((a, b), f)) (generated_conversions L)))"
    using register_all_look [of add look, OF assms] unfolding RegisterConversions_def by blast
  have f: "look s' ((V1alpha1, ''NodeConfig''), (Internal, ''NodeConfig'')) = Some ?f"
    and g: "look s' ((Internal, ''NodeConfig''), (V1alpha1, ''NodeConfig'')) = Some ?g"
    unfolding s'(2) generated_conversions_def by (simp_all add: map_add_def)
  have "\<exists>h1 h2. ?f a b h = Some (Inr (), h1) \<and> ?g b c h1 = Some (Inr (), h2) \<and>
          cells h2 a = Some (V1NodeConfigCell x) \<and> cells h2 c = Some (V1NodeConfigCell (x\<lparr>vnc_TypeMeta := vnc_TypeMeta z\<rparr>)) \<and>
          agree (- {b, c}) h h2"
    if m: "cells h a = Some (V1NodeConfigCell x)" "cells h b = Some (NodeConfigCell y)" "cells h c = Some (V1NodeConfigCell z)" "a \<noteq> c"
    for h a b c x y z
  proof -
    have ne: "a \<noteq> b" "c \<noteq> b" using m by auto
    let ?y = "y\<lparr>gnc_ObjectMeta := vnc_ObjectMeta x, gnc_Spec := internal_spec (vnc_Spec x)\<rparr>"
    define h1 where "h1 = store b (NodeConfigCell ?y) h"
    have 1: "?f a b h = Some (Inr (), h1)"
      using m by (simp add: h1_def conv_func_def conv_list_def load_def to_internal)
    have c1: "cells h1 b = Some (NodeConfigCell ?y)" "cells h1 c = Some (V1NodeConfigCell z)"
      using m ne by (simp_all add: h1_def store_def)
    have 2: "?g b c h1 = Some (Inr (), store c (V1NodeConfigCell (z\<lparr>vnc_ObjectMeta := vnc_ObjectMeta x, vnc_Spec := vnc_Spec x\<rparr>)) h1)"
      using c1 by (simp add: conv_func_def conv_list_def load_def to_public)
    show ?thesis
      by (intro exI conjI, rule 1, rule 2) (use m ne in \<open>simp_all add: h1_def store_def agree_def\<close>)
  qed
  with s'(1) f g show ?thesis by blast
qed

definition map_scheme :: "(api_type \<times> api_type \<rightharpoonup> 'm conversion_func) \<Rightarrow> api_type \<Rightarrow> api_type \<Rightarrow> 'm conversion_func \<Rightarrow>
    goerr + (api_type \<times> api_type \<rightharpoonup> 'm conversion_func)" where
  "map_scheme s a b f = Inr (s((a, b) \<mapsto> f))"

theorem registered_conversions_witness:
  "\<exists>s'. RegisterConversions sample_meta map_scheme (\<lambda>_. None) = Inr s' \<and>
     s' ((V1alpha1, ''NodeConfig''), (Internal, ''NodeConfig'')) \<noteq> None"
proof -
  have "\<exists>s'. map_scheme s a b f = Inr s' \<and> id s' = (id s)((a, b) \<mapsto> f)" for s a b and f :: "slice option conversion_func"
    by (simp add: map_scheme_def)
  from registered_conversions [of map_scheme id, OF this, of sample_meta "\<lambda>_. None"] show ?thesis by auto
qed

end

