(* ===== verification/Spec2Isabelle.thy ===== *)
theory Spec2Isabelle
  imports Tracker_Spec Sync_Artifacts Stderr_Capture Api_Bridge
begin

text \<open>
  A model of \<open>nodeadm\<close>, the program of this repository that turns a machine into a node of an EKS cluster, and the theorems that make
  it correct. \<open>nodeadm install\<close> fetches the binaries of a release and records them in a tracker, \<open>init\<close> configures and starts the
  daemons, \<open>upgrade\<close> replaces the binaries, \<open>uninstall\<close> removes what the tracker names, \<open>debug\<close> and \<open>config check\<close> validate, and
  \<open>sync-artifacts\<close> mirrors a release into a bucket for machines without access to the internet.

  \<^bold>\<open>Effects.\<close> A Go function that touches the machine is an action on \<open>world\<close> (\<open>Prelude\<close>, \<open>World\<close>): it may not return (\<open>None\<close>), return an
  error (\<open>Inl\<close>) or a value (\<open>Inr\<close>), and every early return of the source is a branch. \<open>world\<close> holds the file system, the clock in
  nanoseconds, a counter and a trace of interactions, the shared tracker object and the name of the SSM unit. \<open>environment\<close> is
  everything outside the repository: faults of system calls at any step, commands and what they change, systemd over D-Bus, HTTP, digests,
  the archive formats and the YAML library. Statements are Hoare triples \<open>valid P m Q R\<close> with a postcondition for success and one for
  errors, \<open>valid_ok\<close> where only success matters, \<open>returns m\<close> for termination and \<open>succeeds I m\<close> for liveness. \<open>Go_Strings\<close> has what the
  code uses of the standard library, \<open>Sample_World\<close> a concrete machine on which the hypotheses of the theorems are seen to hold.

  \<^bold>\<open>Theories and sources.\<close>
  \<^item> \<open>Validation\<close>, \<open>Util\<close>, \<open>Daemon\<close>: \<open>internal/validation\<close>, \<open>internal/util\<close>, \<open>internal/retry\<close>, \<open>internal/cleanup\<close>, \<open>internal/daemon\<close>. The
    runner reports every failed validation, a chain stops at the first error; a loop under a deadline ends, with success or the deadline.
  \<^item> \<open>Stderr_Capture\<close>: the capture of the standard error of \<open>debug\<close> in \<open>internal/validation/reader.go\<close>, a step relation of the writers, the
    forwarding goroutine and the caller. No line is lost or reordered; closing returns exactly when at most 100 lines are unread.
    \<open>debug_Run\<close> in \<open>Commands\<close> leaves the closing out.
  \<^item> \<open>Artifact_Tracker\<close>, \<open>Tracker_Spec\<close>: \<open>internal/tracker\<close>. The file holds what was saved; over any sequence of operations the tracker refines
    a set of names.
  \<^item> \<open>Artifact\<close>, \<open>Components\<close>: \<open>internal/artifact\<close> and the packages of the binaries (kubelet, kubectl, the authenticator, the credential
    provider, the signing helper, the CNI plugins). The contract they share is the locale \<open>artifact_component\<close>, interpreted by each; a successful
    installation leaves verified bytes, and no archive writes outside its destination.
  \<^item> \<open>Aws_Source\<close>: \<open>internal/aws\<close>. The chosen release matches and none that matches is newer (locale \<open>latest_selection\<close>).
  \<^item> \<open>Packages\<close>, \<open>Ssm_Agent\<close>, \<open>Containerd\<close>, \<open>Firewall\<close>, \<open>System_Aspects\<close>, \<open>System_Resources\<close>: distribution packages, \<open>internal/ssm\<close>,
    \<open>internal/containerd\<close>, \<open>internal/firewall\<close> (locale \<open>firewall_manager\<close>, interpreted by ufw and firewalld), \<open>internal/system\<close>.
  \<^item> \<open>Node_Config\<close>, \<open>Config_Source\<close>, \<open>Network\<close>, \<open>Proxy\<close>, \<open>Kubelet_Config\<close>: the configuration and its validation, where it is read from, addresses
    and interfaces, proxies, and the kubelet's files and flags.
  \<^item> \<open>Json\<close>: JSON documents and \<open>internal/util/merge.go\<close>, shared by the configuration sources, the kubelet's files and the agent's settings.
  \<^item> \<open>Go_Heap\<close>, \<open>Api_Objects\<close>, \<open>Api_Bridge\<close>: the configuration as objects in memory, \<open>internal/api\<close> and \<open>api/v1alpha1\<close> with their generated deep
    copies, and the generated conversions between the two in \<open>internal/api/bridge\<close>. The contract of a copy is the locale \<open>deep_copy\<close>: the same value,
    in memory of its own. It is interpreted by the copies and is what justifies that the other theories treat configurations as
    values. A conversion shares memory, keeps the meaning and is undone by its inverse.
  \<^item> \<open>Cluster_Access\<close>, \<open>Node_State\<close>: what is asked of the AWS and Kubernetes APIs: access entries, identity, drained and ready nodes.
  \<^item> \<open>Hybrid_Provider\<close>, \<open>Ec2_Provider\<close>: the two implementations of the interface \<open>nodeprovider.NodeProvider\<close>, whose contract is the locale
    \<open>node_provider\<close> of \<open>Init_Flow\<close>. \<open>Commands\<close> shows that dispatching between two providers gives a provider again.
  \<^item> \<open>Install_Flow\<close>, \<open>Install_Liveness\<close>, \<open>Removal\<close>, \<open>Init_Flow\<close>: \<open>internal/flows\<close>. What success of each flow means for the machine, and that the
    installation does succeed on a sound one.
  \<^item> \<open>Commands\<close>, \<open>Sync_Artifacts\<close>: \<open>cmd/nodeadm\<close>. The guards of the commands: root, private mode, drained and cordoned nodes, an unchanged
    credential provider; the mirror serves the release.
  \<^item> This theory: what an installation and a later removal do together, and what a node gets that installs from a mirror.

  \<^bold>\<open>Loops.\<close> Loops over lists are structural. The loops that poll (\<open>poll\<close> in \<open>Util\<close>, \<open>fetchAllAccessEntries\<close>, \<open>waiter_loop\<close>) need not end and
  are partial functions into \<open>option\<close>; that they end under a deadline, with finitely many pages or with requests that take time is proved.
  No fuel is used. The three attempts of a download are the code's own bound.

  \<^bold>\<open>Numbers.\<close> IPv4 addresses are 32-bit words. Go's \<open>int\<close> counts processors, sizes and durations far below its width and is \<open>int\<close> or \<open>nat\<close>. The
  memory reserved on a hybrid node is computed by the code in \<open>float64\<close>; the model rounds exactly, which agrees for every whole number of
  GiB up to the 200000 that the statement covers.

  \<^bold>\<open>Memory.\<close> Only \<open>Api_Objects\<close> and \<open>Api_Bridge\<close> have addresses. Cells are never freed. A slice is an array with an offset and a length; a
  map keeps its entries in the order of the iteration. The structs of the Kubernetes libraries inside the objects are a parameter type with
  the law that their own copies are deep (\<open>meta_lib_ok\<close>).

  \<^bold>\<open>Simplifications.\<close> Errors keep their text and their chain; messages that print lists of address ranges or durations leave those out, and a
  wrapped error is joined by a colon. Symbolic links are resolved by a parameter. The output of a command is what the call captures.
  Processes started in the background and the wait loop of \<open>k8s.io/apimachinery\<close> are parameters, the latter with the law \<open>waits_for\<close>. The lines of
  a file end early after a read error or 64 KiB, as \<open>bufio.Scanner\<close> does. The objects of a bucket are put whole. In private mode the
  package manager is a nil pointer in the code and an empty one here; no flow uses it. \<open>ShowHelpAndExit\<close> is an error.

  \<^bold>\<open>Not modelled.\<close> Flag parsing and help texts, logging and colours, the registration of the types with the codec, the codecs and the merge library
  (parameters), and the end-to-end test tooling under
  \<open>cmd/e2e-test\<close> and \<open>test\<close>, which drives real AWS accounts and is not part of the node program.
\<close>

section \<open>Installing and removing\<close>

text \<open>The files that an installation puts in place, by the components it records.\<close>

definition component_files :: "Installer \<Rightarrow> path list" where
  "component_files i =
     [kubelet_BinPath, kubectl_BinPath, imagecredentialprovider_BinPath, iamauthenticator_BinPath, trackerFile] @
     (if in_CredentialProvider i = Some IamRolesAnywhereCredentialProvider then [iamrolesanywhere_BinPath] else [])"

lemma tracked_flags:
  "is_tracked a artifact_Kubelet = Kubelet a" "is_tracked a artifact_Kubectl = Kubectl a" "is_tracked a artifact_ImageCredentialProvider = ImageCredentialProvider a"
  "is_tracked a artifact_IamAuthenticator = IamAuthenticator a" "is_tracked a artifact_IamRolesAnywhere = IamRolesAnywhere a"
  by (simp_all add: is_tracked_def artifact_Kubelet_def artifact_Kubectl_def artifact_ImageCredentialProvider_def artifact_IamAuthenticator_def
      artifact_IamRolesAnywhere_def artifact_CniPlugins_def artifact_Ssm_def artifact_Iptables_def)

lemma files_are_owned:
  "Join [[], kubelet_BinPath] = kubelet_BinPath" "under (Dir imagecredentialprovider_BinPath) imagecredentialprovider_BinPath"
  "under (Dir trackerFile) trackerFile"
  by code_simp+

lemma component_files_gone:
  assumes "list_all (\<lambda>p. gone_under p w) (owned_paths a)" and "Kubelet a" and "Kubectl a" and "ImageCredentialProvider a" and "IamAuthenticator a"
    and "in_CredentialProvider i = Some IamRolesAnywhereCredentialProvider \<Longrightarrow> IamRolesAnywhere a"
  shows "list_all (\<lambda>p. fs w p = None) (component_files i)"
proof -
  have own: "gone_under p w" if "p \<in> set (owned_paths a)" for p using assms(1) that by (simp add: list_all_iff)
  have "gone_under kubelet_BinPath w" using own [of kubelet_BinPath] assms(2) files_are_owned(1)
    by (simp add: owned_paths_def daemon_paths_def kubelet_pathsToRemove_def)
  moreover have "gone_under kubectl_BinPath w" "gone_under iamauthenticator_BinPath w"
    using own [of kubectl_BinPath] own [of iamauthenticator_BinPath] assms(3,5) by (simp_all add: owned_paths_def binary_paths_def)
  moreover have "fs w imagecredentialprovider_BinPath = None" "fs w trackerFile = None"
    using own [of "Dir imagecredentialprovider_BinPath"] own [of "Dir trackerFile"] assms(4) files_are_owned(2,3)
    by (simp_all add: owned_paths_def binary_paths_def gone_under_def)
  moreover have "gone_under iamrolesanywhere_BinPath w" if "in_CredentialProvider i = Some IamRolesAnywhereCredentialProvider"
    using own [of iamrolesanywhere_BinPath] assms(6) [OF that] by (simp add: owned_paths_def binary_paths_def)
  ultimately show ?thesis by (auto simp: component_files_def dest: gone_underD)
qed

lemma install_records:
  assumes "node_installed env i w" and "ssm_recorded i w"
  shows "Kubelet (Artifacts (tracker_obj w))" "Kubectl (Artifacts (tracker_obj w))" "ImageCredentialProvider (Artifacts (tracker_obj w))"
    "IamAuthenticator (Artifacts (tracker_obj w))"
    "in_CredentialProvider i = Some IamRolesAnywhereCredentialProvider \<Longrightarrow> IamRolesAnywhere (Artifacts (tracker_obj w))"
  using assms by (simp_all add: node_installed_def eks_components_def credential_components_def signing_helper_def in_place_def flip: tracked_flags)



section \<open>Installing from a mirror\<close>

text \<open>The bucket answers at its public addresses with its objects.\<close>

definition bucket_answers :: "environment \<Rightarrow> Downloader \<Rightarrow> bucket \<Rightarrow> bool" where
  "bucket_answers env d b \<longleftrightarrow> (\<forall>key c s. b key = Some c \<and> served env (public_address d key) s \<longrightarrow> fst s = c)"

text \<open>A file holds, with mode 0755, bytes that the address of an artifact of the original release served to the mirroring machine.\<close>

definition holds_original :: "environment \<Rightarrow> Downloader \<Rightarrow> world \<Rightarrow> string \<times> path \<Rightarrow> bool" where
  "holds_original env d w = (\<lambda>(name, p). \<exists>a c. findArtifact d (ep_Artifacts (Eks (dl_AwsSource d))) name = Some a \<and> fetched env (ar_URI a) c \<and>
     fs w p = Some (RegFile c 493))"

definition node_binaries :: "(string \<times> path) list" where
  "node_binaries = [(''kubelet'', kubelet_BinPath), (''kubectl'', kubectl_BinPath), (''ecr-credential-provider'', imagecredentialprovider_BinPath),
     (''aws-iam-authenticator'', iamauthenticator_BinPath)]"

lemma collected_original:
  assumes "x \<in> set (eks_collected d)"
  shows "\<exists>a. findArtifact d (ep_Artifacts (Eks (dl_AwsSource d))) (ai_Name x) = Some a \<and> ai_URL x = ar_URI a"
  using assms by (auto simp: eks_collected_def collect_from_def split: option.splits dest!: sym [of "Some _"])

lemma genuine_from_mirror:
  assumes "genuine env' (map (mirrored d) (eks_collected d)) name p w" and "bucket_answers env' d b"
    and "list_all (\<lambda>a. stored env (ai_URL a) (s3_key d (ai_LocalPath a)) b) (eks_collected d)"
  shows "holds_original env d w (name, p)"
proof -
  obtain x src where x: "x \<in> set (eks_collected d)" "ai_Name x = name" and pub: "published env' (mirrored d x) src"
    and f: "fs w p = Some (RegFile (fst (src_stream src)) 493)"
    using assms(1) by (auto simp: genuine_def mirrored_def)
  have "ar_GzipURI (mirrored d x) = []" by (simp add: mirrored_def)
  with pub have s: "served env' (public_address d (s3_key d (ai_LocalPath x))) (src_stream src)"
    unfolding published_def mirrored_address by auto
  obtain c where c: "fetched env (ai_URL x) c" "b (s3_key d (ai_LocalPath x)) = Some c"
    using assms(3) x(1) by (auto simp: list_all_iff stored_def)
  have "fst (src_stream src) = c" using assms(2) s c(2) unfolding bucket_answers_def by blast
  with f c(1) collected_original [OF x(1)] x(2) show ?thesis unfolding holds_original_def by auto
qed

lemma mirror_manifest:
  assumes "Downloader_Run env se d (w, b) = Some (Inr (), (w1, b1))"
    and "\<forall>as y. collectArtifacts d = Inr as \<and> se_marshal se (custom_manifest d as) = Inr y \<longrightarrow> se_unmarshal se y = Inr (custom_manifest d as)"
    and "\<And>n. os_fault env n (OpRead (manifest_file se d)) = None"
    and "names_release sv r (ep_Version (Eks (dl_AwsSource d))) (ep_PatchVersion (Eks (dl_AwsSource d)))"
    and "findArtifact d (ir_Artifacts (Iam (dl_AwsSource d))) ''aws_signing_helper'' \<noteq> None"
    and "GetLatestSourceFromManifest env sv (se_unmarshal se) r (dl_Region d) (''file://'' @ manifest_file se d) w1 = Some (Inr s, w2)"
  shows "ep_Artifacts (Eks s) = map (mirrored d) (eks_collected d)"
    and "list_all (\<lambda>a. stored env (ai_URL a) (s3_key d (ai_LocalPath a)) b1) (eks_collected d)"
proof -
  from Downloader_Run_ok [OF assms(1)] obtain as y m where as: "collectArtifacts d = Inr as"
    and st: "list_all (\<lambda>a. stored env (ai_URL a) (s3_key d (ai_LocalPath a)) b1) as"
    and y: "se_marshal se (custom_manifest d as) = Inr y" and f: "fs w1 (manifest_file se d) = Some (RegFile y m)" by blast
  have iam: "iam_collected d \<noteq> []" using assms(5) by (auto simp: iam_collected_def collect_from_def)
  from custom_manifest_source [OF as iam assms(4)] obtain s' where s: "getSourceFromManifest sv r (dl_Region d) (custom_manifest d as) = Inr s'"
    and e: "ep_Artifacts (Eks s') = map (mirrored d) (eks_collected d)" by blast
  have "\<exists>w''. GetLatestSourceFromManifest env sv (se_unmarshal se) r (dl_Region d) (''file://'' @ manifest_file se d) w1 = Some (Inr s', w'')"
    by (rule manifest_reads_back) (fact assms(3), fact f, use assms(2) as y in blast, fact s)
  with assms(6) e show "ep_Artifacts (Eks s) = map (mirrored d) (eks_collected d)" by auto
  show "list_all (\<lambda>a. stored env (ai_URL a) (s3_key d (ai_LocalPath a)) b1) (eks_collected d)"
    using st unfolding collected_split(1) [OF as, symmetric] by (auto simp: list_all_iff)
qed

lemma installed_binaries_genuine:
  assumes "yaml_roundtrip env"
  shows "valid_ok (\<lambda>_. True) (Installer_Run env fe c i) (\<lambda>_ w. list_all (\<lambda>(name, p). genuine env (ep_Artifacts (Eks (in_AwsSource i))) name p w) node_binaries)"
  by (rule valid_post [OF Installer_Run_ok [OF assms]])
    (auto simp: node_binaries_def node_installed_def eks_components_def in_place_def GetKubelet_def GetKubectl_def GetImageCredentialProvider_def
      GetIAMAuthenticator_def getEksSource_def intro!: installed_genuine)

text \<open>C11: A machine without access to the internet that installs from a mirror gets the release: when a synchronisation has succeeded and the
  node installs the source read from the manifest it wrote, from the bucket, a successful installation leaves at the path of each binary
  bytes that the address of that artifact of the original release served to the mirroring machine, with mode 0755.\<close>

theorem mirror_installs_the_release:
  assumes "Downloader_Run env se d (w, b) = Some (Inr (), (w1, b1))"
    and "\<forall>as y. collectArtifacts d = Inr as \<and> se_marshal se (custom_manifest d as) = Inr y \<longrightarrow> se_unmarshal se y = Inr (custom_manifest d as)"
    and "\<And>n. os_fault env n (OpRead (manifest_file se d)) = None"
    and "names_release sv r (ep_Version (Eks (dl_AwsSource d))) (ep_PatchVersion (Eks (dl_AwsSource d)))"
    and "findArtifact d (ir_Artifacts (Iam (dl_AwsSource d))) ''aws_signing_helper'' \<noteq> None"
    and "GetLatestSourceFromManifest env sv (se_unmarshal se) r (dl_Region d) (''file://'' @ manifest_file se d) w1 = Some (Inr (in_AwsSource i), w2)"
    and "yaml_roundtrip env'" and "bucket_answers env' d b1"
  shows "valid_ok (\<lambda>_. True) (Installer_Run env' fe c i) (\<lambda>_ w'. list_all (holds_original env d w') node_binaries)"
proof (rule valid_post [OF installed_binaries_genuine [OF assms(7)]])
  fix x w'
  assume "list_all (\<lambda>(name, p). genuine env' (ep_Artifacts (Eks (in_AwsSource i))) name p w') node_binaries"
  then show "list_all (holds_original env d w') node_binaries"
    unfolding mirror_manifest(1) [OF assms(1-6)] list_all_iff using genuine_from_mirror [OF _ assms(8) mirror_manifest(2) [OF assms(1-6)]] by auto
qed simp

text \<open>A node whose only network is the bucket.\<close>

definition bucket_env :: "Downloader \<Rightarrow> bucket \<Rightarrow> environment" where
  "bucket_env d b = sample_env\<lparr>http_get := \<lambda>_ u. case b (drop (length (public_address d [])) u) of
     Some c \<Rightarrow> Inr \<lparr>StatusCode = 200, Body = (c, None)\<rparr> | None \<Rightarrow> Inr \<lparr>StatusCode = 404, Body = ([], None)\<rparr>\<rparr>"

lemma bucket_env_laws: "bucket_answers (bucket_env d b) d b" "yaml_roundtrip (bucket_env d b)"
proof -
  have "public_address d key = public_address d [] @ key" for key by (simp add: public_address_def)
  then have "drop (length (public_address d [])) (public_address d key) = key" for key by (metis append_eq_conv_conj)
  then show "bucket_answers (bucket_env d b) d b" by (auto simp: bucket_answers_def served_def bucket_env_def)
  show "yaml_roundtrip (bucket_env d b)" using sample_facts(2) by (simp add: bucket_env_def yaml_roundtrip_def)
qed

lemma run_and_read:
  assumes "case r of Some (Inr (_ :: unit), (w1, _)) \<Rightarrow> (case get w1 of Some (Inr _, _) \<Rightarrow> True | _ \<Rightarrow> False) | _ \<Rightarrow> False"
  obtains w1 b1 s w2 where "r = Some (Inr (), (w1, b1))" and "get w1 = Some (Inr s, w2)"
proof -
  from assms obtain x w1 b1 where r: "r = Some (x, (w1, b1))" by (cases r) auto
  with assms have "case get w1 of Some (Inr _, _) \<Rightarrow> True | _ \<Rightarrow> False" and "x = Inr ()" by (cases x; simp)+
  then obtain s w2 where "get w1 = Some (Inr s, w2)" by (auto split: option.splits sum.splits prod.splits)
  with r \<open>x = Inr ()\<close> show ?thesis by (intro that) simp_all
qed

theorem mirror_installs_the_release_witness:
  "\<exists>b1 s. valid_ok (\<lambda>_. True) (Installer_Run (bucket_env sample_downloader b1) sample_flow None (sample_installer\<lparr>in_AwsSource := s\<rparr>))
     (\<lambda>_ w'. \<exists>c. fetched sample_env (ar_URI (sample_entry ''kubelet'')) c \<and> fs w' kubelet_BinPath = Some (RegFile c 493))"
proof -
  define get where "get = GetLatestSourceFromManifest sample_env sample_semver (se_unmarshal sample_sync) ''1.31'' (dl_Region sample_downloader)
    (''file://'' @ manifest_file sample_sync sample_downloader)"
  let ?run = "Downloader_Run sample_env sample_sync sample_downloader (sample_world, Map.empty)"
  have "case ?run of Some (Inr _, (w1, _)) \<Rightarrow> (case get w1 of Some (Inr _, _) \<Rightarrow> True | _ \<Rightarrow> False) | _ \<Rightarrow> False"
    unfolding get_def by code_simp
  then obtain w1 b1 s w2 where r: "?run = Some (Inr (), (w1, b1))" and g: "get w1 = Some (Inr s, w2)"
    by (rule run_and_read)
  have nr: "names_release sample_semver ''1.31'' (ep_Version (Eks (dl_AwsSource sample_downloader))) (ep_PatchVersion (Eks (dl_AwsSource sample_downloader)))"
    and sh: "findArtifact sample_downloader (ir_Artifacts (Iam (dl_AwsSource sample_downloader))) ''aws_signing_helper'' \<noteq> None"
    and k: "findArtifact sample_downloader (ep_Artifacts (Eks (dl_AwsSource sample_downloader))) ''kubelet'' = Some (sample_entry ''kubelet'')"
    by code_simp+
  have law: "\<forall>as y. collectArtifacts sample_downloader = Inr as \<and> se_marshal sample_sync (custom_manifest sample_downloader as) = Inr y \<longrightarrow>
      se_unmarshal sample_sync y = Inr (custom_manifest sample_downloader as)"
    by (simp add: sample_sync_def)
  have nf: "os_fault sample_env n (OpRead (manifest_file sample_sync sample_downloader)) = None" for n by (simp add: sample_env_def)
  let ?i = "sample_installer\<lparr>in_AwsSource := s\<rparr>"
  have "in_AwsSource ?i = s" by simp
  then have g': "GetLatestSourceFromManifest sample_env sample_semver (se_unmarshal sample_sync) ''1.31'' (dl_Region sample_downloader)
    (''file://'' @ manifest_file sample_sync sample_downloader) w1 = Some (Inr (in_AwsSource ?i), w2)" using g unfolding get_def by (simp only:)
  have "valid_ok (\<lambda>_. True) (Installer_Run (bucket_env sample_downloader b1) sample_flow None ?i)
     (\<lambda>_ w'. \<exists>c. fetched sample_env (ar_URI (sample_entry ''kubelet'')) c \<and> fs w' kubelet_BinPath = Some (RegFile c 493))"
    by (rule valid_post [OF mirror_installs_the_release [OF r law nf nr sh g' bucket_env_laws(2,1)]])
      (auto simp: node_binaries_def holds_original_def k)
  then show ?thesis by (intro exI)
qed

end
